(* ===== verification/Prelude.thy ===== *)
theory Prelude
  imports Main "HOL-Library.Char_ord" "HOL-Library.List_Lexorder"
begin

text \<open>
  Shared vocabulary of the development: results of fallible code as sums, the
  state-and-exception shape of every mutating operation, the Python string
  operations the sources use, UTC instants, and the generic lemmas on lists
  and association lists that the component theories rest on.

  Conventions used throughout:
  \<^item> a Python function that may raise returns \<open>'e + 'a\<close>, \<open>Inl\<close> for the exception;
  \<^item> a method that mutates an object takes the object's state and returns the
    result paired with the new state, \<open>('e + 'a) \<times> 's\<close>, because several
    operations of the sources change state and then raise;
  \<^item> a chain of \<open>if bad: raise ...\<close> statements is a list of guards
    (\<open>first_reject\<close>), tested in the order of the source;
  \<^item> the human-readable \<open>detail\<close> text of an exception is not modelled, its reason
    code is, and so is its \<open>path\<close>.
\<close>

section \<open>Collections of facts\<close>

named_theorems outcome_simps \<open>characteristic equations of results and guards\<close>
named_theorems text_simps \<open>definitions of the Python text predicates\<close>

section \<open>Results and guards\<close>

type_synonym ('e, 'a) result = "'e + 'a"
type_synonym ('s, 'e, 'a) outcome = "('e + 'a) \<times> 's"

fun first_reject :: "(bool \<times> 'e) list \<Rightarrow> 'e option" where
  "first_reject [] = None"
| "first_reject ((bad, e) # gs) = (if bad then Some e else first_reject gs)"

definition guarded :: "(bool \<times> 'e) list \<Rightarrow> 'e + 'a \<Rightarrow> 'e + 'a" where
  "guarded gs r = (case first_reject gs of Some e \<Rightarrow> Inl e | None \<Rightarrow> r)"

definition rbind :: "'e + 'a \<Rightarrow> ('a \<Rightarrow> 'e + 'b) \<Rightarrow> 'e + 'b" where
  "rbind r f = (case r of Inl e \<Rightarrow> Inl e | Inr a \<Rightarrow> f a)"

fun rmap_list :: "('a \<Rightarrow> 'e + 'b) \<Rightarrow> 'a list \<Rightarrow> 'e + 'b list" where
  "rmap_list f [] = Inr []"
| "rmap_list f (x # xs) =
     (case f x of Inl e \<Rightarrow> Inl e
      | Inr y \<Rightarrow> (case rmap_list f xs of Inl e \<Rightarrow> Inl e | Inr ys \<Rightarrow> Inr (y # ys)))"

text \<open>
  The SQLite idiom \<open>BEGIN IMMEDIATE\<close> / \<open>COMMIT\<close> / \<open>ROLLBACK\<close> of the sources:
  a body works on the tables and either commits them or, on any exception,
  leaves the tables as they were at \<open>BEGIN\<close>.
\<close>

definition transaction :: "('s \<Rightarrow> ('s, 'e, 'a) outcome) \<Rightarrow> 's \<Rightarrow> ('s, 'e, 'a) outcome" where
  "transaction body s = (case body s of (Inl e, _) \<Rightarrow> (Inl e, s) | (Inr a, s') \<Rightarrow> (Inr a, s'))"

definition checked :: "(bool \<times> 'e) list \<Rightarrow> ('s \<Rightarrow> ('s, 'e, 'a) outcome) \<Rightarrow> 's \<Rightarrow> ('s, 'e, 'a) outcome" where
  "checked gs body s = (case first_reject gs of Some e \<Rightarrow> (Inl e, s) | None \<Rightarrow> body s)"

text \<open>
  Statements of a method body in sequence: \<open>obind\<close> runs one and passes its result on, an
  exception skips the rest; \<open>require\<close> is a run of guards, \<open>exec\<close> a pure update, \<open>query\<close> a read.
\<close>

definition obind :: "('s \<Rightarrow> ('s, 'e, 'a) outcome) \<Rightarrow> ('a \<Rightarrow> 's \<Rightarrow> ('s, 'e, 'b) outcome) \<Rightarrow> 's \<Rightarrow> ('s, 'e, 'b) outcome" where
  "obind m f s = (case m s of (Inl e, t) \<Rightarrow> (Inl e, t) | (Inr a, t) \<Rightarrow> f a t)"

definition othen :: "('s \<Rightarrow> ('s, 'e, 'a) outcome) \<Rightarrow> ('s \<Rightarrow> ('s, 'e, 'b) outcome) \<Rightarrow> 's \<Rightarrow> ('s, 'e, 'b) outcome" where
  "othen m n = obind m (\<lambda>_. n)"

definition oreturn :: "'a \<Rightarrow> 's \<Rightarrow> ('s, 'e, 'a) outcome" where "oreturn a s = (Inr a, s)"
definition oraise :: "'e \<Rightarrow> 's \<Rightarrow> ('s, 'e, 'a) outcome" where "oraise e s = (Inl e, s)"
definition exec :: "('s \<Rightarrow> 's) \<Rightarrow> 's \<Rightarrow> ('s, 'e, unit) outcome" where "exec f s = (Inr (), f s)"
definition query :: "('s \<Rightarrow> 'a) \<Rightarrow> 's \<Rightarrow> ('s, 'e, 'a) outcome" where "query f s = (Inr (f s), s)"
definition result_of :: "'e + 'a \<Rightarrow> 's \<Rightarrow> ('s, 'e, 'a) outcome" where "result_of r s = (r, s)"

definition require :: "('s \<Rightarrow> (bool \<times> 'e) list) \<Rightarrow> 's \<Rightarrow> ('s, 'e, unit) outcome" where
  "require gs s = (case first_reject (gs s) of Some e \<Rightarrow> (Inl e, s) | None \<Rightarrow> (Inr (), s))"

lemma first_reject_None:
  "first_reject gs = None \<longleftrightarrow> (\<forall>(bad, e) \<in> set gs. \<not> bad)"
  by (induction gs rule: first_reject.induct) auto

lemma first_reject_Cons [simp]:
  "first_reject ((True, e) # gs) = Some e" "first_reject ((False, e) # gs) = first_reject gs"
  by simp_all

lemma if_Some_None [simp]: "(if b then Some e else x) = None \<longleftrightarrow> \<not> b \<and> x = None"
  by simp

lemma case_reject_iff [simp]:
  "(case x of None \<Rightarrow> y | Some e \<Rightarrow> Some (f e)) = None \<longleftrightarrow> x = None \<and> y = None"
  "(case x of None \<Rightarrow> r | Some e \<Rightarrow> Inl (f e)) = Inr a \<longleftrightarrow> x = None \<and> r = Inr a"
  "(case x of None \<Rightarrow> q | Some e \<Rightarrow> (Inl (f e), g e)) = (Inr a, t) \<longleftrightarrow> x = None \<and> q = (Inr a, t)"
  by (cases x; simp)+

lemma first_reject_append:
  "first_reject (gs @ hs) = (case first_reject gs of None \<Rightarrow> first_reject hs | Some e \<Rightarrow> Some e)"
  by (induction gs rule: first_reject.induct) auto

lemma guarded_Inr [outcome_simps]:
  "guarded gs r = Inr a \<longleftrightarrow> first_reject gs = None \<and> r = Inr a"
  by (auto simp: guarded_def split: option.splits)

lemma rbind_Inr [outcome_simps]:
  "rbind r f = Inr b \<longleftrightarrow> (\<exists>a. r = Inr a \<and> f a = Inr b)"
  by (auto simp: rbind_def split: sum.splits)

lemma rbind_simps [simp]: "rbind (Inl e) f = Inl e" "rbind (Inr a) f = f a"
  by (simp_all add: rbind_def)

lemma obind_Inr [outcome_simps]:
  "obind m f s = (Inr b, t) \<longleftrightarrow> (\<exists>a u. m s = (Inr a, u) \<and> f a u = (Inr b, t))"
  by (auto simp: obind_def split: prod.splits sum.splits)

lemma othen_Inr [outcome_simps]:
  "othen m n s = (Inr b, t) \<longleftrightarrow> (\<exists>a u. m s = (Inr a, u) \<and> n u = (Inr b, t))"
  by (simp add: othen_def obind_Inr)

lemma require_Inr [outcome_simps]: "require gs s = (Inr a, t) \<longleftrightarrow> first_reject (gs s) = None \<and> t = s"
  by (auto simp: require_def split: option.splits)

lemma statement_Inr [outcome_simps]:
  "oreturn a s = (Inr b, t) \<longleftrightarrow> b = a \<and> t = s" "oraise e s = (Inr b, t) \<longleftrightarrow> False"
  "exec f s = (Inr u, t) \<longleftrightarrow> t = f s" "query g s = (Inr c, t) \<longleftrightarrow> c = g s \<and> t = s"
  "result_of r s = (Inr a, t) \<longleftrightarrow> r = Inr a \<and> t = s"
  by (auto simp: oreturn_def oraise_def exec_def query_def result_of_def)

lemma transaction_Inr [outcome_simps]:
  "transaction body s = (Inr a, s') \<longleftrightarrow> body s = (Inr a, s')"
  by (auto simp: transaction_def split: prod.splits sum.splits)

lemma transaction_Inl [outcome_simps]:
  "transaction body s = (Inl e, s') \<longleftrightarrow> s' = s \<and> (\<exists>t. body s = (Inl e, t))"
  by (auto simp: transaction_def split: prod.splits sum.splits)

lemma transaction_rollback: "fst (transaction body s) = Inl e \<Longrightarrow> snd (transaction body s) = s"
  by (auto simp: transaction_def split: prod.splits sum.splits)

lemma checked_Inr [outcome_simps]:
  "checked gs body s = (Inr a, s') \<longleftrightarrow> first_reject gs = None \<and> body s = (Inr a, s')"
  by (auto simp: checked_def split: option.splits)

lemma checked_Inl [outcome_simps]:
  "checked gs body s = (Inl e, s') \<longleftrightarrow>
     first_reject gs = Some e \<and> s' = s \<or> first_reject gs = None \<and> body s = (Inl e, s')"
  by (auto simp: checked_def split: option.splits)

lemma checked_rollback:
  "(\<And>t. fst (body t) = Inl e \<Longrightarrow> snd (body t) = t) \<Longrightarrow>
     fst (checked gs body s) = Inl e \<Longrightarrow> snd (checked gs body s) = s"
  by (auto simp: checked_def split: option.splits)

lemma rmap_list_Inr_length: "rmap_list f xs = Inr ys \<Longrightarrow> length ys = length xs"
  by (induction xs arbitrary: ys) (auto split: sum.splits)

lemma rmap_list_Inr_map: "(\<And>x. x \<in> set xs \<Longrightarrow> f x = Inr (g x)) \<Longrightarrow> rmap_list f xs = Inr (map g xs)"
  by (induction xs) auto

section \<open>Python text\<close>

text \<open>
  Python's \<open>str\<close> is modelled by HOL's \<open>string\<close>. The sources test and build ASCII
  identifiers, digests and symbols with it; case conversion below is the ASCII one.
\<close>

definition is_space :: "char \<Rightarrow> bool" where
  "is_space c = (of_char c \<in> {9 :: nat, 10, 11, 12, 13, 28, 29, 30, 31, 32})"

definition lstrip :: "string \<Rightarrow> string" where "lstrip s = dropWhile is_space s"

definition strip :: "string \<Rightarrow> string" where
  "strip s = rev (lstrip (rev (lstrip s)))"

definition upper_char :: "char \<Rightarrow> char" where
  "upper_char c = (let n = of_char c :: nat in if 97 \<le> n \<and> n \<le> 122 then char_of (n - 32) else c)"

definition lower_char :: "char \<Rightarrow> char" where
  "lower_char c = (let n = of_char c :: nat in if 65 \<le> n \<and> n \<le> 90 then char_of (n + 32) else c)"

definition upper :: "string \<Rightarrow> string" where "upper s = map upper_char s"
definition lower :: "string \<Rightarrow> string" where "lower s = map lower_char s"

definition is_digit :: "char \<Rightarrow> bool" where
  "is_digit c = (let n = of_char c :: nat in 48 \<le> n \<and> n \<le> 57)"

definition is_lower_hex :: "char \<Rightarrow> bool" where
  "is_lower_hex c = (let n = of_char c :: nat in 48 \<le> n \<and> n \<le> 57 \<or> 97 \<le> n \<and> n \<le> 102)"

definition is_sha256 :: "string \<Rightarrow> bool" where
  "is_sha256 s = (length s = 64 \<and> list_all is_lower_hex s)"

definition exact_text :: "string \<Rightarrow> bool" where
  "exact_text s = (s \<noteq> [] \<and> s = strip s)"

lemmas text_defs [text_simps] = is_space_def lstrip_def strip_def upper_char_def lower_char_def
  upper_def lower_def is_digit_def is_lower_hex_def is_sha256_def exact_text_def

lemma lower_char_hex [simp]: "is_lower_hex c \<Longrightarrow> lower_char c = c"
  by (auto simp: is_lower_hex_def lower_char_def Let_def)

lemma lower_sha256 [simp]: "is_sha256 s \<Longrightarrow> lower s = s"
  by (auto simp: is_sha256_def lower_def list_all_iff intro: map_idI)

lemma is_sha256_nonempty: "is_sha256 s \<Longrightarrow> s \<noteq> []"
  by (auto simp: is_sha256_def)

lemma hex_not_space: "is_lower_hex c \<Longrightarrow> \<not> is_space c"
  by (auto simp: is_lower_hex_def is_space_def Let_def)

lemma lstrip_no_space: "list_all (\<lambda>c. \<not> is_space c) s \<Longrightarrow> lstrip s = s"
  by (cases s) (auto simp: lstrip_def)

lemma strip_no_space: "list_all (\<lambda>c. \<not> is_space c) s \<Longrightarrow> strip s = s"
  by (simp add: strip_def lstrip_no_space list_all_iff)

lemma sha256_exact_text [simp]: "is_sha256 s \<Longrightarrow> exact_text s"
  by (auto simp: exact_text_def is_sha256_def list_all_iff strip_no_space hex_not_space)

section \<open>Clocks\<close>

text \<open>
  A \<open>datetime\<close> is its instant in microseconds since the epoch together with its
  \<open>tzinfo\<close>: none (naive), the very object \<open>datetime.UTC\<close>, or a fixed offset in
  minutes. Comparison and subtraction of aware datetimes compare instants.
  \<open>isoformat\<close> is the text Python prints, from the proleptic Gregorian calendar.
\<close>

datatype tzinfo = Naive | UTC | Offset int

record datetime =
  instant :: int
  tzone :: tzinfo

abbreviation aware :: "datetime \<Rightarrow> bool" where "aware t \<equiv> tzone t \<noteq> Naive"
abbreviation is_utc :: "datetime \<Rightarrow> bool" where "is_utc t \<equiv> tzone t = UTC"

text \<open>\<open>tzinfo == UTC\<close>, where the sources compare by value and not by identity.\<close>

definition equals_utc :: "datetime \<Rightarrow> bool" where
  "equals_utc t = (tzone t \<in> {UTC, Offset 0})"

definition utc_at :: "int \<Rightarrow> datetime" where "utc_at i = \<lparr>instant = i, tzone = UTC\<rparr>"

definition seconds :: "int \<Rightarrow> int" where "seconds n = n * 1000000"

lemma utc_at_simps [simp]: "instant (utc_at i) = i" "tzone (utc_at i) = UTC"
  by (simp_all add: utc_at_def)

definition civil_from_days :: "int \<Rightarrow> int \<times> int \<times> int" where
  "civil_from_days days =
     (let z = days + 719468; era = z div 146097; doe = z mod 146097;
          yoe = (doe - doe div 1460 + doe div 36524 - doe div 146096) div 365;
          doy = doe - (365 * yoe + yoe div 4 - yoe div 100);
          mp = (5 * doy + 2) div 153;
          d = doy - (153 * mp + 2) div 5 + 1;
          m = (if mp < 10 then mp + 3 else mp - 9)
      in (yoe + era * 400 + (if m \<le> 2 then 1 else 0), m, d))"

fun pad_digits :: "nat \<Rightarrow> int \<Rightarrow> string" where
  "pad_digits 0 n = []"
| "pad_digits (Suc k) n = pad_digits k (n div 10) @ [char_of (nat (48 + n mod 10))]"

definition date_text :: "int \<times> int \<times> int \<Rightarrow> string" where
  "date_text d = (case d of (y, m, dd) \<Rightarrow> pad_digits 4 y @ ''-'' @ pad_digits 2 m @ ''-'' @ pad_digits 2 dd)"

definition local_text :: "int \<Rightarrow> string" where
  "local_text i =
     (let days = i div 86400000000; r = i mod 86400000000; s = r div 1000000; us = r mod 1000000
      in date_text (civil_from_days days) @ ''T'' @ pad_digits 2 (s div 3600) @ '':'' @
         pad_digits 2 (s div 60 mod 60) @ '':'' @ pad_digits 2 (s mod 60) @
         (if us = 0 then [] else ''.'' @ pad_digits 6 us))"

definition offset_text :: "int \<Rightarrow> string" where
  "offset_text o' = (if o' < 0 then ''-'' else ''+'') @ pad_digits 2 (\<bar>o'\<bar> div 60) @ '':'' @ pad_digits 2 (\<bar>o'\<bar> mod 60)"

definition isoformat :: "datetime \<Rightarrow> string" where
  "isoformat t =
     (case tzone t of Naive \<Rightarrow> local_text (instant t)
      | UTC \<Rightarrow> local_text (instant t) @ ''+00:00''
      | Offset m \<Rightarrow> local_text (instant t + m * 60000000) @ offset_text m)"

text \<open>\<open>isoformat().replace("+00:00", "Z")\<close> of a UTC datetime.\<close>

definition isoformat_z :: "datetime \<Rightarrow> string" where
  "isoformat_z t = local_text (instant t) @ ''Z''"

lemma isoformat_z_Cons: "isoformat_z t \<noteq> []"
  by (simp add: isoformat_z_def)

section \<open>Lists\<close>

text \<open>SQL's \<open>SELECT ... WHERE key = ?\<close> on a table kept in row order.\<close>

definition row_where :: "('r \<Rightarrow> bool) \<Rightarrow> 'r list \<Rightarrow> 'r option" where
  "row_where P rs = find P rs"

text \<open>SQL's \<open>UPDATE ... SET ... WHERE\<close>.\<close>

definition update_where :: "('r \<Rightarrow> bool) \<Rightarrow> ('r \<Rightarrow> 'r) \<Rightarrow> 'r list \<Rightarrow> 'r list" where
  "update_where P f rs = map (\<lambda>r. if P r then f r else r) rs"

lemma row_where_Some: "row_where P rs = Some r \<Longrightarrow> r \<in> set rs \<and> P r"
  by (auto simp: row_where_def find_Some_iff)

lemma row_where_None [simp]: "row_where P rs = None \<longleftrightarrow> (\<forall>r \<in> set rs. \<not> P r)"
  by (auto simp: row_where_def find_None_iff)

lemma row_where_append [simp]:
  "row_where P (rs @ qs) = (case row_where P rs of None \<Rightarrow> row_where P qs | Some r \<Rightarrow> Some r)"
  by (induction rs) (auto simp: row_where_def)

lemma row_where_simps [simp]:
  "row_where P [] = None" "row_where P (r # rs) = (if P r then Some r else row_where P rs)"
  by (simp_all add: row_where_def)

lemma update_where_simps [simp]:
  "update_where P f [] = []" "length (update_where P f rs) = length rs"
  "update_where P f (r # rs) = (if P r then f r else r) # update_where P f rs"
  by (simp_all add: update_where_def)

lemma map_update_where:
  "(\<And>r. P r \<Longrightarrow> g (f r) = g r) \<Longrightarrow> map g (update_where P f rs) = map g rs"
  by (auto simp: update_where_def)

lemma set_update_where: "set (update_where P f rs) = (\<lambda>r. if P r then f r else r) ` set rs"
  by (auto simp: update_where_def)

lemma row_where_update:
  "(\<And>r. Q (if P r then f r else r) = Q r) \<Longrightarrow>
     row_where Q (update_where P f rs) = map_option (\<lambda>r. if P r then f r else r) (row_where Q rs)"
  by (induction rs) auto

lemma row_where_distinct:
  "distinct (map key rs) \<Longrightarrow> r \<in> set rs \<Longrightarrow> row_where (\<lambda>q. key q = key r) rs = Some r"
  by (induction rs) (auto dest: arg_cong [where f = key] simp: image_iff)

end
