(* ===== verification/Decimals.thy ===== *)
theory Decimals
  imports Prelude Complex_Main
begin

text \<open>
  Python's \<open>decimal.Decimal\<close> as the sources use it: a finite value is an integer
  coefficient with a power-of-ten exponent, arithmetic is exact and then rounded
  to the 28 significant digits of the default context with \<open>ROUND_HALF_EVEN\<close>,
  comparisons are exact, and the text forms \<open>str(d)\<close>, \<open>format(d.normalize(), "f")\<close>
  and \<open>Decimal(text)\<close> are the documented ones.

  Two idealisations: negative zero is identified with zero, and the exponent is
  not bounded by the context's \<open>Emin\<close> and \<open>Emax\<close> (one million), which no amount
  of this program approaches. Operations on infinities and NaN yield \<open>NaN\<close>; the
  sources test \<open>is_finite()\<close> before they compute.
\<close>

section \<open>Values and comparison\<close>

datatype dec = Fin int int | Infty bool | NaN

fun is_finite :: "dec \<Rightarrow> bool" where
  "is_finite (Fin m e) = True"
| "is_finite _ = False"

definition aligned :: "int \<Rightarrow> int \<Rightarrow> int \<Rightarrow> int" where
  "aligned m e k = m * 10 ^ nat (e - k)"

fun dec_le :: "dec \<Rightarrow> dec \<Rightarrow> bool" where
  "dec_le (Fin m1 e1) (Fin m2 e2) = (aligned m1 e1 (min e1 e2) \<le> aligned m2 e2 (min e1 e2))"
| "dec_le (Fin _ _) (Infty neg) = (\<not> neg)"
| "dec_le (Infty neg) (Fin _ _) = neg"
| "dec_le (Infty neg) (Infty neg') = (neg \<or> \<not> neg')"
| "dec_le _ _ = False"

fun dec_eq :: "dec \<Rightarrow> dec \<Rightarrow> bool" where
  "dec_eq (Fin m1 e1) (Fin m2 e2) = (aligned m1 e1 (min e1 e2) = aligned m2 e2 (min e1 e2))"
| "dec_eq (Infty neg) (Infty neg') = (neg = neg')"
| "dec_eq _ _ = False"

definition dec_lt :: "dec \<Rightarrow> dec \<Rightarrow> bool" where
  "dec_lt x y = (dec_le x y \<and> \<not> dec_eq x y)"

abbreviation dec_zero :: dec where "dec_zero \<equiv> Fin 0 0"

text \<open>The rational number a finite value denotes.\<close>

fun dval :: "dec \<Rightarrow> rat" where
  "dval (Fin m e) = of_int m * 10 powi e"
| "dval _ = 0"

section \<open>Arithmetic in the default context\<close>

fun ndigits :: "nat \<Rightarrow> nat" where
  "ndigits n = (if n < 10 then 1 else Suc (ndigits (n div 10)))"

declare ndigits.simps [simp del]

definition prec :: nat where "prec = 28"

definition half_even :: "nat \<Rightarrow> nat \<Rightarrow> nat" where
  "half_even n p =
     (let q = n div p; r = n mod p
      in if 2 * r > p \<or> 2 * r = p \<and> odd q then Suc q else q)"

definition dfix :: "int \<Rightarrow> int \<Rightarrow> dec" where
  "dfix m e =
     (let n = nat \<bar>m\<bar>; d = ndigits n
      in if d \<le> prec then Fin m e
         else (let k = d - prec; q = half_even n (10 ^ k)
               in if q = 10 ^ prec then Fin (sgn m * 10 ^ (prec - 1)) (e + int k + 1)
                  else Fin (sgn m * int q) (e + int k)))"

fun dec_add :: "dec \<Rightarrow> dec \<Rightarrow> dec" where
  "dec_add (Fin m1 e1) (Fin m2 e2) =
     dfix (aligned m1 e1 (min e1 e2) + aligned m2 e2 (min e1 e2)) (min e1 e2)"
| "dec_add _ _ = NaN"

fun dec_copy_negate :: "dec \<Rightarrow> dec" where
  "dec_copy_negate (Fin m e) = Fin (- m) e"
| "dec_copy_negate (Infty neg) = Infty (\<not> neg)"
| "dec_copy_negate NaN = NaN"

definition dec_sub :: "dec \<Rightarrow> dec \<Rightarrow> dec" where
  "dec_sub x y = dec_add x (dec_copy_negate y)"

fun dec_mul :: "dec \<Rightarrow> dec \<Rightarrow> dec" where
  "dec_mul (Fin m1 e1) (Fin m2 e2) = dfix (m1 * m2) (e1 + e2)"
| "dec_mul _ _ = NaN"

fun dec_abs :: "dec \<Rightarrow> dec" where
  "dec_abs (Fin m e) = dfix \<bar>m\<bar> e"
| "dec_abs (Infty _) = Infty False"
| "dec_abs NaN = NaN"

text \<open>\<open>-x\<close> rounds to the context.\<close>

fun dec_minus :: "dec \<Rightarrow> dec" where
  "dec_minus (Fin m e) = dfix (- m) e"
| "dec_minus d = dec_copy_negate d"

definition dec_of_int :: "int \<Rightarrow> dec" where "dec_of_int n = Fin n 0"

text \<open>
  \<open>x // y\<close>: the integer part of the quotient, truncated towards zero;
  \<open>InvalidOperation\<close> (here \<open>None\<close>) for a zero divisor or a quotient of more
  than 28 digits.
\<close>

fun dec_floordiv :: "dec \<Rightarrow> dec \<Rightarrow> int option" where
  "dec_floordiv (Fin m1 e1) (Fin m2 e2) =
     (let k = min e1 e2; a = aligned m1 e1 k; b = aligned m2 e2 k; q = \<bar>a\<bar> div \<bar>b\<bar>
      in if m2 = 0 \<or> q \<ge> 10 ^ prec then None else Some (sgn a * sgn b * q))"
| "dec_floordiv _ _ = None"

text \<open>\<open>x / y\<close>: long division to one guard digit with a sticky bit, then rounded.\<close>

fun strip_zeros :: "nat \<Rightarrow> int \<Rightarrow> int \<Rightarrow> int \<Rightarrow> int \<times> int" where
  "strip_zeros 0 m e ideal = (m, e)"
| "strip_zeros (Suc fuel) m e ideal =
     (if e < ideal \<and> m mod 10 = 0 \<and> m \<noteq> 0 then strip_zeros fuel (m div 10) (e + 1) ideal else (m, e))"

lemma strip_zeros_numeral:
  "strip_zeros (numeral k) m e ideal =
     (if e < ideal \<and> m mod 10 = 0 \<and> m \<noteq> 0 then strip_zeros (pred_numeral k) (m div 10) (e + 1) ideal else (m, e))"
  by (simp add: numeral_eq_Suc)

fun dec_div :: "dec \<Rightarrow> dec \<Rightarrow> dec option" where
  "dec_div (Fin m1 e1) (Fin m2 e2) =
     (if m2 = 0 then None
      else if m1 = 0 then Some (Fin 0 (e1 - e2))
      else
        let shift = int (ndigits (nat \<bar>m2\<bar>)) - int (ndigits (nat \<bar>m1\<bar>)) + int prec + 1;
            ex = e1 - e2 - shift;
            num = (if shift \<ge> 0 then \<bar>m1\<bar> * 10 ^ nat shift else \<bar>m1\<bar>);
            den = (if shift \<ge> 0 then \<bar>m2\<bar> else \<bar>m2\<bar> * 10 ^ nat (- shift));
            q = num div den; r = num mod den;
            s = sgn m1 * sgn m2
        in if r \<noteq> 0 then Some (dfix (s * (if q mod 5 = 0 then q + 1 else q)) ex)
           else (case strip_zeros (nat (e1 - e2 - ex)) q ex (e1 - e2) of (q', ex') \<Rightarrow> Some (dfix (s * q') ex')))"
| "dec_div _ _ = None"

definition dec_min :: "dec \<Rightarrow> dec \<Rightarrow> dec" where
  "dec_min x y = (if dec_lt y x then y else x)"

definition dec_sum :: "dec list \<Rightarrow> dec" where
  "dec_sum xs = foldl dec_add dec_zero xs"

section \<open>Text forms\<close>

definition digit_char :: "nat \<Rightarrow> char" where "digit_char d = char_of (48 + d)"
definition digit_val :: "char \<Rightarrow> nat" where "digit_val c = of_char c - 48"

fun digs :: "nat \<Rightarrow> string" where
  "digs n = (if n < 10 then [digit_char n] else digs (n div 10) @ [digit_char (n mod 10)])"

declare digs.simps [simp del]

definition nat_of_digs :: "string \<Rightarrow> nat" where
  "nat_of_digs s = foldl (\<lambda>a c. 10 * a + digit_val c) 0 s"

definition zeros :: "nat \<Rightarrow> string" where "zeros k = replicate k (CHR ''0'')"

definition signed_digs :: "int \<Rightarrow> string" where
  "signed_digs n = (if n < 0 then ''-'' else ''+'') @ digs (nat \<bar>n\<bar>)"

fun dec_str :: "dec \<Rightarrow> string" where
  "dec_str (Fin m e) =
     (let ds = digs (nat \<bar>m\<bar>); n = int (length ds);
          leftdigits = e + n;
          dotplace = (if e \<le> 0 \<and> leftdigits > -6 then leftdigits else 1);
          intpart = (if dotplace \<le> 0 then ''0''
                     else if dotplace \<ge> n then ds @ zeros (nat (dotplace - n))
                     else take (nat dotplace) ds);
          fracpart = (if dotplace \<le> 0 then ''.'' @ zeros (nat (- dotplace)) @ ds
                      else if dotplace \<ge> n then ''''
                      else ''.'' @ drop (nat dotplace) ds);
          ex = (if leftdigits = dotplace then '''' else ''E'' @ signed_digs (leftdigits - dotplace))
      in (if m < 0 then ''-'' else '''') @ intpart @ fracpart @ ex)"
| "dec_str (Infty neg) = (if neg then ''-Infinity'' else ''Infinity'')"
| "dec_str NaN = ''NaN''"

declare dec_str.simps [simp del]

fun strip_all_zeros :: "nat \<Rightarrow> int \<Rightarrow> int \<Rightarrow> int \<times> int" where
  "strip_all_zeros 0 m e = (m, e)"
| "strip_all_zeros (Suc fuel) m e =
     (if m mod 10 = 0 then strip_all_zeros fuel (m div 10) (e + 1) else (m, e))"

fun dec_normalize :: "dec \<Rightarrow> dec" where
  "dec_normalize (Fin m e) =
     (case dfix m e of
        Fin m' e' \<Rightarrow> (if m' = 0 then Fin 0 0
                     else (case strip_all_zeros (ndigits (nat \<bar>m'\<bar>)) m' e' of (m'', e'') \<Rightarrow> Fin m'' e''))
      | d \<Rightarrow> d)"
| "dec_normalize d = d"

fun dec_format_f :: "dec \<Rightarrow> string" where
  "dec_format_f (Fin m e) =
     (let (m', e') = (if m = 0 \<and> e > 0 then (0, 0) else (m, e));
          ds = digs (nat \<bar>m'\<bar>); n = int (length ds);
          dotplace = e' + n;
          intpart = (if dotplace \<le> 0 then ''0''
                     else if dotplace > n then ds @ zeros (nat (dotplace - n))
                     else take (nat dotplace) ds);
          fracpart = (if dotplace < 0 then zeros (nat (- dotplace)) @ ds
                      else if dotplace > n then ''''
                      else drop (nat dotplace) ds)
      in (if m' < 0 then ''-'' else '''') @ intpart @ (if fracpart = '''' then '''' else ''.'' @ fracpart))"
| "dec_format_f d = dec_str d"

definition decimal_text :: "dec \<Rightarrow> string" where
  "decimal_text d = dec_format_f (dec_normalize d)"

definition parse_sign :: "string \<Rightarrow> bool \<times> string" where
  "parse_sign s = (case s of c # r \<Rightarrow> if c = CHR ''-'' then (True, r) else if c = CHR ''+'' then (False, r) else (False, s)
                   | [] \<Rightarrow> (False, s))"

definition parse_exponent :: "string \<Rightarrow> int option" where
  "parse_exponent s =
     (case s of [] \<Rightarrow> Some 0
      | c # r \<Rightarrow>
          if c = CHR ''E'' \<or> c = CHR ''e'' then
            (case parse_sign r of (neg, ds) \<Rightarrow>
               if ds \<noteq> [] \<and> list_all is_digit ds
               then Some (if neg then - int (nat_of_digs ds) else int (nat_of_digs ds)) else None)
          else None)"

definition parse_special :: "string \<Rightarrow> bool \<Rightarrow> dec option" where
  "parse_special s neg =
     (let w = lower s
      in if w = ''inf'' \<or> w = ''infinity'' then Some (Infty neg)
         else if w = ''nan'' \<or> w = ''snan'' then Some NaN else None)"

definition parse_frac :: "string \<Rightarrow> string \<times> string" where
  "parse_frac r1 =
     (case r1 of c # r \<Rightarrow> if c = CHR ''.'' then (takeWhile is_digit r, dropWhile is_digit r) else ([], r1)
      | [] \<Rightarrow> ([], r1))"

definition dec_parse :: "string \<Rightarrow> dec option" where
  "dec_parse t =
     (let s = filter (\<lambda>c. c \<noteq> CHR ''_'') (strip t)
      in case parse_sign s of (neg, s1) \<Rightarrow>
        (let ip = takeWhile is_digit s1; (fp, r2) = parse_frac (dropWhile is_digit s1)
         in if ip @ fp = [] then parse_special s1 neg
            else (case parse_exponent r2 of None \<Rightarrow> None
                  | Some x \<Rightarrow>
                      let c = int (nat_of_digs (ip @ fp))
                      in Some (Fin (if neg then - c else c) (x - int (length fp))))))"

section \<open>Comparison denotes comparison of rationals\<close>

lemma powi_split: "k \<le> e \<Longrightarrow> (10 :: rat) powi e = 10 ^ nat (e - k) * 10 powi k"
proof -
  assume le: "k \<le> e"
  have "(10 :: rat) powi ((e - k) + k) = 10 powi (e - k) * 10 powi k" by (rule power_int_add) simp
  moreover have "(10 :: rat) powi (e - k) = 10 ^ nat (e - k)" using le by (simp add: power_int_def)
  ultimately show ?thesis by simp
qed

lemma aligned_value: "k \<le> e \<Longrightarrow> of_int (aligned m e k) * (10 :: rat) powi k = of_int m * 10 powi e"
  by (simp add: aligned_def powi_split [of k e])

lemma aligned_le_iff:
  "aligned m1 e1 (min e1 e2) \<le> aligned m2 e2 (min e1 e2) \<longleftrightarrow>
     of_int m1 * (10 :: rat) powi e1 \<le> of_int m2 * 10 powi e2"
proof -
  have "(10 :: rat) powi min e1 e2 > 0" by simp
  then have "of_int (aligned m1 e1 (min e1 e2)) * (10 :: rat) powi min e1 e2
       \<le> of_int (aligned m2 e2 (min e1 e2)) * 10 powi min e1 e2
     \<longleftrightarrow> aligned m1 e1 (min e1 e2) \<le> aligned m2 e2 (min e1 e2)"
    by (simp only: mult_le_cancel_right_pos of_int_le_iff)
  then show ?thesis by (simp add: aligned_value)
qed

lemma dec_le_iff: "is_finite x \<Longrightarrow> is_finite y \<Longrightarrow> dec_le x y \<longleftrightarrow> dval x \<le> dval y"
  by (cases x; cases y) (simp_all add: aligned_le_iff)

lemma dec_eq_le: "dec_eq (Fin m1 e1) (Fin m2 e2) \<longleftrightarrow> dec_le (Fin m1 e1) (Fin m2 e2) \<and> dec_le (Fin m2 e2) (Fin m1 e1)"
  by (auto simp: min.commute)

lemma dec_eq_iff: "is_finite x \<Longrightarrow> is_finite y \<Longrightarrow> dec_eq x y \<longleftrightarrow> dval x = dval y"
  by (cases x; cases y) (auto simp: dec_eq_le dec_le_iff simp del: dec_le.simps dec_eq.simps)

lemma dec_lt_iff: "is_finite x \<Longrightarrow> is_finite y \<Longrightarrow> dec_lt x y \<longleftrightarrow> dval x < dval y"
  by (auto simp: dec_lt_def dec_le_iff dec_eq_iff)

lemma dec_eq_refl [simp]: "is_finite x \<Longrightarrow> dec_eq x x"
  by (simp add: dec_eq_iff)

lemmas dec_order = dec_le_iff dec_lt_iff dec_eq_iff

section \<open>Rounding\<close>

lemma ndigits_pos: "0 < ndigits n"
  by (subst ndigits.simps) simp

lemma ndigits_le_iff: "ndigits n \<le> Suc d \<longleftrightarrow> n < 10 ^ Suc d"
proof (induction d arbitrary: n)
  case 0
  show ?case using ndigits_pos [of "n div 10"] by (subst ndigits.simps) auto
next
  case (Suc d)
  have "n div 10 < 10 ^ Suc d \<longleftrightarrow> n < 10 ^ Suc (Suc d)"
    by (simp add: div_less_iff_less_mult)
  moreover have "n < 10 \<Longrightarrow> n < 10 ^ Suc (Suc d)"
    by (rule less_le_trans [of _ 10]) simp_all
  ultimately show ?case using Suc.IH [of "n div 10"] by (subst ndigits.simps) auto
qed

lemma ndigits_lower: "ndigits n = Suc (Suc d) \<Longrightarrow> 10 ^ Suc d \<le> n"
  using ndigits_le_iff [of n d] by linarith

lemma dfix_exact: "\<bar>m\<bar> < 10 ^ prec \<Longrightarrow> dfix m e = Fin m e"
proof -
  assume "\<bar>m\<bar> < 10 ^ prec"
  then have "nat \<bar>m\<bar> < 10 ^ Suc 27" by (simp add: prec_def nat_less_iff)
  then have "ndigits (nat \<bar>m\<bar>) \<le> prec" using ndigits_le_iff [of "nat \<bar>m\<bar>" 27] by (simp add: prec_def)
  then show ?thesis by (simp add: dfix_def Let_def)
qed

lemma dfix_finite [simp]: "is_finite (dfix m e)"
  by (simp add: dfix_def Let_def)

lemma dec_add_finite [simp]: "is_finite x \<Longrightarrow> is_finite y \<Longrightarrow> is_finite (dec_add x y)"
  by (cases x; cases y) simp_all

lemma dec_negate_finite [simp]: "is_finite (dec_copy_negate x) = is_finite x"
  by (cases x) simp_all

lemma dec_sub_finite [simp]: "is_finite x \<Longrightarrow> is_finite y \<Longrightarrow> is_finite (dec_sub x y)"
  by (simp add: dec_sub_def)

lemma dec_mul_finite [simp]: "is_finite x \<Longrightarrow> is_finite y \<Longrightarrow> is_finite (dec_mul x y)"
  by (cases x; cases y) simp_all

lemma dec_abs_finite [simp]: "is_finite x \<Longrightarrow> is_finite (dec_abs x)"
  by (cases x) simp_all

lemma dval_negate [simp]: "dval (dec_copy_negate x) = - dval x"
  by (cases x) simp_all

lemma half_even_error:
  assumes "0 < p"
  shows "2 * \<bar>int (half_even n p) * int p - int n\<bar> \<le> int p"
proof -
  have n: "int n = int (n div p) * int p + int (n mod p)"
    by (metis div_mult_mod_eq of_nat_add of_nat_mult)
  have r: "n mod p < p" using assms by simp
  show ?thesis
    unfolding half_even_def Let_def using n r by (auto simp: algebra_simps abs_if)
qed

lemma dfix_shape:
  obtains "dfix m e = Fin m e"
  | k q where "dfix m e = Fin (sgn m * int q) (e + int k)" "10 ^ (27 + k) \<le> nat \<bar>m\<bar>"
      "q = half_even (nat \<bar>m\<bar>) (10 ^ k)"
  | k where "dfix m e = Fin (sgn m * 10 ^ 27) (e + int k + 1)" "10 ^ (27 + k) \<le> nat \<bar>m\<bar>"
      "10 ^ prec = half_even (nat \<bar>m\<bar>) (10 ^ k)"
proof (cases "ndigits (nat \<bar>m\<bar>) \<le> prec")
  case True
  then have "dfix m e = Fin m e" by (simp add: dfix_def Let_def)
  then show thesis by (rule that(1))
next
  case False
  define k where "k = ndigits (nat \<bar>m\<bar>) - prec"
  have "ndigits (nat \<bar>m\<bar>) = Suc (Suc (26 + k))" using False by (simp add: k_def prec_def)
  then have low: "10 ^ (27 + k) \<le> nat \<bar>m\<bar>" using ndigits_lower [of "nat \<bar>m\<bar>" "26 + k"] by simp
  show thesis
  proof (cases "half_even (nat \<bar>m\<bar>) (10 ^ k) = 10 ^ prec")
    case True
    then have "dfix m e = Fin (sgn m * 10 ^ 27) (e + int k + 1)"
      using False by (simp add: dfix_def Let_def k_def prec_def)
    then show thesis using low True [symmetric] by (rule that(3))
  next
    case neq: False
    then have "dfix m e = Fin (sgn m * int (half_even (nat \<bar>m\<bar>) (10 ^ k))) (e + int k)"
      using False by (simp add: dfix_def Let_def k_def)
    then show thesis using low by (intro that(2)) simp_all
  qed
qed

lemma scaled_error:
  assumes "10 ^ (27 + k) \<le> nat \<bar>m\<bar>" "q = half_even (nat \<bar>m\<bar>) (10 ^ k)"
  shows "2 * \<bar>sgn m * int q * 10 ^ k - m\<bar> * 10 ^ 27 \<le> \<bar>m\<bar>"
proof -
  have "2 * \<bar>int q * 10 ^ k - \<bar>m\<bar>\<bar> \<le> 10 ^ k"
    using half_even_error [of "10 ^ k" "nat \<bar>m\<bar>"] assms(2) by simp
  moreover have "\<bar>sgn m * int q * 10 ^ k - m\<bar> = \<bar>int q * 10 ^ k - \<bar>m\<bar>\<bar>"
    using assms(1) by (cases m "0 :: int" rule: linorder_cases) (simp_all add: abs_if)
  ultimately have "2 * \<bar>sgn m * int q * 10 ^ k - m\<bar> * 10 ^ 27 \<le> 10 ^ k * 10 ^ 27"
    by simp
  also have "\<dots> \<le> \<bar>m\<bar>"
    using assms(1) by (simp add: power_add le_nat_iff mult.commute)
  finally show ?thesis .
qed

text \<open>Rounding to the context moves a value by at most half a unit in the 28th digit.\<close>

lemma dfix_error: "2 * \<bar>dval (dfix m e) - of_int m * 10 powi e\<bar> * 10 ^ 27 \<le> \<bar>of_int m\<bar> * 10 powi e"
proof -
  have step: "2 * \<bar>of_int x * 10 powi (e + int k) - of_int m * (10 :: rat) powi e\<bar> * 10 ^ 27
      \<le> \<bar>of_int m\<bar> * 10 powi e"
    if b: "2 * \<bar>x * 10 ^ k - m\<bar> * 10 ^ 27 \<le> \<bar>m\<bar>" for x k
  proof -
    have p: "(10 :: rat) powi (e + int k) = 10 ^ k * 10 powi e"
      by (simp add: power_int_add mult.commute)
    have "of_int x * (10 :: rat) powi (e + int k) - of_int m * 10 powi e
        = of_int (x * 10 ^ k - m) * 10 powi e"
      by (simp add: p algebra_simps)
    moreover have "rat_of_int (2 * \<bar>x * 10 ^ k - m\<bar> * 10 ^ 27) \<le> of_int \<bar>m\<bar>"
      using b by (simp only: of_int_le_iff)
    then have "rat_of_int (2 * \<bar>x * 10 ^ k - m\<bar> * 10 ^ 27) * 10 powi e \<le> of_int \<bar>m\<bar> * 10 powi e"
      by (intro mult_right_mono) simp_all
    ultimately have "2 * \<bar>of_int x * 10 powi (e + int k) - of_int m * (10 :: rat) powi e\<bar> * 10 ^ 27
        = rat_of_int (2 * \<bar>x * 10 ^ k - m\<bar> * 10 ^ 27) * 10 powi e"
      by (simp only: abs_mult) simp
    then show ?thesis using \<open>rat_of_int (2 * \<bar>x * 10 ^ k - m\<bar> * 10 ^ 27) * 10 powi e \<le> of_int \<bar>m\<bar> * 10 powi e\<close>
      by simp
  qed
  show ?thesis
  proof (cases rule: dfix_shape [of m e])
    case 1
    then show ?thesis by simp
  next
    case (2 k q)
    then show ?thesis using step [of "sgn m * int q" k] scaled_error [of k m q] by simp
  next
    case (3 k)
    have "2 * \<bar>sgn m * 10 ^ 27 * 10 ^ Suc k - m\<bar> * 10 ^ 27 \<le> \<bar>m\<bar>"
      using scaled_error [OF 3(2) 3(3)] by (simp add: prec_def mult.assoc)
    then show ?thesis using 3(1) step [of "sgn m * 10 ^ 27" "Suc k"] by (simp add: algebra_simps)
  qed
qed

lemma dfix_nonneg: "0 \<le> m \<Longrightarrow> 0 \<le> dval (dfix m e)"
  by (rule dfix_shape [of m e]) (auto simp: sgn_if)

lemma dec_add_exact_sum:
  "aligned m1 e1 (min e1 e2) + aligned m2 e2 (min e1 e2) = m \<Longrightarrow>
     dval (Fin m1 e1) + dval (Fin m2 e2) = of_int m * 10 powi min e1 e2"
  by (auto simp: distrib_right aligned_value)

lemma dval_nonneg_iff [simp]: "0 \<le> dval (Fin m e) \<longleftrightarrow> 0 \<le> m"
proof -
  have "(0 :: rat) < 10 powi e" by simp
  then have "0 \<le> rat_of_int m * 10 powi e \<longleftrightarrow> 0 \<le> rat_of_int m" 
    using mult_le_cancel_right_pos [of "10 powi e" 0 "rat_of_int m"] by simp
  then show ?thesis by simp
qed

lemma dec_add_nonneg:
  "is_finite x \<Longrightarrow> is_finite y \<Longrightarrow> 0 \<le> dval x \<Longrightarrow> 0 \<le> dval y \<Longrightarrow> 0 \<le> dval (dec_add x y)"
  by (cases x; cases y) (auto simp: aligned_def simp del: dval.simps intro!: dfix_nonneg)

text \<open>Addition is exact when the exact sum fits into 28 digits.\<close>

lemma dec_add_exact:
  assumes "\<bar>aligned m1 e1 (min e1 e2) + aligned m2 e2 (min e1 e2)\<bar> < 10 ^ prec"
  shows "dval (dec_add (Fin m1 e1) (Fin m2 e2)) = dval (Fin m1 e1) + dval (Fin m2 e2)"
  using dec_add_exact_sum [of m1 e1 e2 m2, OF refl] by (simp add: dfix_exact [OF assms])

lemma dec_add_error:
  assumes "is_finite x" "is_finite y"
  shows "2 * \<bar>dval (dec_add x y) - (dval x + dval y)\<bar> * 10 ^ 27 \<le> \<bar>dval x + dval y\<bar>"
proof -
  from assms obtain m1 e1 m2 e2 where xy: "x = Fin m1 e1" "y = Fin m2 e2"
    by (cases x; cases y) auto
  show ?thesis
    using dfix_error [of "aligned m1 e1 (min e1 e2) + aligned m2 e2 (min e1 e2)" "min e1 e2"]
      dec_add_exact_sum [of m1 e1 e2 m2, OF refl]
    by (simp add: xy abs_mult del: dval.simps)
qed

lemma dec_sum_snoc: "dec_sum (xs @ [x]) = dec_add (dec_sum xs) x"
  by (simp add: dec_sum_def)

lemma dec_sum_nonneg:
  "(\<And>x. x \<in> set xs \<Longrightarrow> is_finite x \<and> 0 \<le> dval x) \<Longrightarrow> is_finite (dec_sum xs) \<and> 0 \<le> dval (dec_sum xs)"
proof (induction xs rule: rev_induct)
  case Nil
  then show ?case by (simp add: dec_sum_def)
next
  case (snoc x xs)
  then show ?case by (simp add: dec_sum_snoc dec_add_nonneg)
qed

section \<open>Representable results are exact\<close>

lemma half_even_multiple: "p dvd n \<Longrightarrow> 0 < p \<Longrightarrow> half_even n p * p = n"
  by (auto simp: half_even_def Let_def)

lemma scaled_exact:
  assumes "m = a * 10 ^ j" "\<bar>a\<bar> < 10 ^ prec" "10 ^ (27 + k) \<le> nat \<bar>m\<bar>"
  shows "sgn m * int (half_even (nat \<bar>m\<bar>) (10 ^ k)) * 10 ^ k = m"
proof -
  have "(10 :: int) ^ (27 + k) \<le> \<bar>m\<bar>" using assms(3) by (simp add: le_nat_iff)
  also have "\<bar>m\<bar> < 10 ^ prec * 10 ^ j" unfolding assms(1) abs_mult using assms(2) by simp
  finally have "(10 :: int) ^ (27 + k) < 10 ^ (28 + j)" by (simp add: prec_def power_add)
  then have "k \<le> j" using power_less_imp_less_exp [of "10 :: int" "27 + k" "28 + j"] by simp
  then have "(10 :: int) ^ k dvd m" unfolding assms(1) by (simp add: le_imp_power_dvd)
  then have "10 ^ k dvd nat \<bar>m\<bar>" by (simp add: nat_abs_dvd_iff)
  then have "half_even (nat \<bar>m\<bar>) (10 ^ k) * 10 ^ k = nat \<bar>m\<bar>" by (rule half_even_multiple) simp
  then have "int (half_even (nat \<bar>m\<bar>) (10 ^ k)) * 10 ^ k = \<bar>m\<bar>"
    using arg_cong [where f = int] by fastforce
  then show ?thesis by (simp add: mult.assoc mult_sgn_abs)
qed

lemma dfix_multiple:
  assumes "m = a * 10 ^ j" "\<bar>a\<bar> < 10 ^ prec"
  shows "dval (dfix m e) = of_int m * 10 powi e"
proof -
  have step: "of_int x * (10 :: rat) powi (e + int k) = of_int m * 10 powi e" if "x * 10 ^ k = m" for x k
    using arg_cong [OF that, of rat_of_int] by (simp add: power_int_add mult.assoc [symmetric] mult.commute)
  show ?thesis
  proof (cases rule: dfix_shape [of m e])
    case (2 k q)
    then show ?thesis using step [of "sgn m * int q" k] scaled_exact [OF assms, of k] by simp
  next
    case (3 k)
    have "sgn m * 10 ^ 27 * 10 ^ Suc k = m"
      using scaled_exact [OF assms 3(2)] 3(3) [symmetric] by (simp add: prec_def)
    then show ?thesis using 3(1) step [of "sgn m * 10 ^ 27" "Suc k"] by (simp add: algebra_simps)
  qed simp
qed

text \<open>A result that has a representation in 28 digits is not rounded.\<close>

lemma dfix_representable:
  assumes "of_int m * (10 :: rat) powi e = of_int a * 10 powi j" "\<bar>a\<bar> < 10 ^ prec"
  shows "dval (dfix m e) = of_int m * 10 powi e"
proof (cases "e \<le> j")
  case True
  then have "of_int m * (10 :: rat) powi e = of_int (a * 10 ^ nat (j - e)) * 10 powi e"
    using assms(1) powi_split [OF True] by simp
  then have "m = a * 10 ^ nat (j - e)" by (metis mult_right_cancel of_int_eq_iff power_int_not_zero zero_neq_numeral)
  then show ?thesis using assms(2) by (rule dfix_multiple)
next
  case False
  then have "of_int a * (10 :: rat) powi j = of_int (m * 10 ^ nat (e - j)) * 10 powi j"
    using assms(1) powi_split [of j e] by simp
  then have a: "a = m * 10 ^ nat (e - j)" by (metis mult_right_cancel of_int_eq_iff power_int_not_zero zero_neq_numeral)
  have "\<bar>m\<bar> * 1 \<le> \<bar>m\<bar> * 10 ^ nat (e - j)" by (intro mult_left_mono) simp_all
  then have "\<bar>m\<bar> \<le> \<bar>a\<bar>" by (simp add: a abs_mult)
  then show ?thesis using assms(2) by (simp add: dfix_exact)
qed

lemma dec_mul_representable:
  assumes "is_finite x" "is_finite y" "dval x * dval y = of_int a * 10 powi j" "\<bar>a\<bar> < 10 ^ prec"
  shows "dval (dec_mul x y) = dval x * dval y"
proof -
  obtain m1 e1 m2 e2 where xy: "x = Fin m1 e1" "y = Fin m2 e2" using assms(1,2) by (cases x; cases y) auto
  have v: "dval x * dval y = of_int (m1 * m2) * 10 powi (e1 + e2)" by (simp add: xy power_int_add)
  show ?thesis unfolding v unfolding xy dec_mul.simps
    by (rule dfix_representable [OF _ assms(4), of _ _ j]) (use assms(3) v in simp)
qed

lemma dfix_pos: "0 < m \<Longrightarrow> 0 < dval (dfix m e)"
proof -
  assume "0 < m"
  then have pos: "0 < rat_of_int m * 10 powi e" by simp
  have "2 * \<bar>dval (dfix m e) - rat_of_int m * 10 powi e\<bar> * 10 ^ 27 \<le> rat_of_int m * 10 powi e"
    using dfix_error [of m e] \<open>0 < m\<close> by simp
  then show ?thesis using pos by (simp add: abs_if split: if_splits)
qed

end
