(* ===== verification/Controls.thy ===== *)
theory Controls
  imports Decimals
begin

text \<open>
  \<open>risk/reasons.py\<close> and \<open>risk/controls.py\<close>: the reason codes of the risk kernel,
  its control states and the deterministic control-state machine. The locale
  \<open>authority_machine\<close> states what both state machines of the program promise
  about authority: only a designated trigger can grant it, and a closed set of
  states can never be left.
\<close>

section \<open>Reason codes\<close>

datatype control_state = ACTIVE | ENTRY_DISABLED | CLOSE_ONLY | KILL | MANUAL_REQUIRED

datatype risk_reason =
    POLICY_UNVERIFIED_CONSTANT | POLICY_HASH_MISMATCH | POLICY_NOT_PAPER_ONLY
  | CONTROL_STATE_BLOCKS_ENTRY | DUPLICATE_EVENT_RESERVATION | IMMUTABLE_EVENT_REPLAY
  | NOT_RUN_EVENT | EVENT_LIFECYCLE_INVALID | PERMIT_LIFECYCLE_INVALID | BUDGET_EXCEEDED
  | DAILY_LOSS_LIMIT_BREACHED | DRAWDOWN_LIMIT_BREACHED | CONCENTRATION_LIMIT_BREACHED
  | ENTRY_COUNT_LIMIT_REACHED | EXPRESSION_LIMIT_REACHED | UNKNOWN_EXPOSURE
  | EXPOSURE_NOT_CALCULABLE | STALE_ACCOUNT_TRUTH | STALE_POSITION_TRUTH | STALE_ORDER_TRUTH
  | STALE_CLOCK | STALE_QUOTE | CONTRADICTORY_TRUTH | UNKNOWN_ROUTE | MISSING_CAPABILITY
  | NON_FLAT_STATE | PARTIAL_FILL_STATE | RESERVATION_NOT_RELEASED | LEDGER_MIGRATION_REQUIRED
  | PASSPORT_VERIFICATION_FAILED | UNSUPPORTED_INPUT

text \<open>\<open>RiskRejected(reason, path, detail)\<close>, without the prose.\<close>

record risk_rejected =
  reason :: risk_reason
  rpath :: string

definition reject :: "risk_reason \<Rightarrow> string \<Rightarrow> risk_rejected" where
  "reject r p = \<lparr>reason = r, rpath = p\<rparr>"

lemma reject_simps [simp]: "reason (reject r p) = r" "rpath (reject r p) = p"
  by (simp_all add: reject_def)

definition ENTRY_BLOCKING_STATES :: "control_state list" where
  "ENTRY_BLOCKING_STATES = [ENTRY_DISABLED, CLOSE_ONLY, KILL, MANUAL_REQUIRED]"

definition CLOSE_ALLOWED_STATES :: "control_state list" where
  "CLOSE_ALLOWED_STATES = [ACTIVE, ENTRY_DISABLED, CLOSE_ONLY, MANUAL_REQUIRED]"

section \<open>The control-state machine\<close>

datatype control_trigger =
    TDrawdownLimitBreached | TDailyLossLimitBreached | TStaleTruth | TContradictoryTruth
  | TPartialFillState | TNonFlatState | TCloseOnlyEquityThreshold | TConcentrationLimitBreached
  | TKillRequest | TManualRequiredRequest | TResolved

definition control_transitions :: "((control_state \<times> control_trigger) \<times> control_state) list" where
  "control_transitions =
     [((ACTIVE, TDrawdownLimitBreached), ENTRY_DISABLED),
      ((ACTIVE, TDailyLossLimitBreached), ENTRY_DISABLED),
      ((ACTIVE, TStaleTruth), ENTRY_DISABLED),
      ((ACTIVE, TConcentrationLimitBreached), ENTRY_DISABLED),
      ((ACTIVE, TContradictoryTruth), MANUAL_REQUIRED),
      ((ACTIVE, TPartialFillState), MANUAL_REQUIRED),
      ((ACTIVE, TNonFlatState), CLOSE_ONLY),
      ((ACTIVE, TCloseOnlyEquityThreshold), CLOSE_ONLY),
      ((ACTIVE, TManualRequiredRequest), MANUAL_REQUIRED),
      ((ENTRY_DISABLED, TStaleTruth), ENTRY_DISABLED),
      ((ENTRY_DISABLED, TContradictoryTruth), MANUAL_REQUIRED),
      ((ENTRY_DISABLED, TPartialFillState), MANUAL_REQUIRED),
      ((ENTRY_DISABLED, TNonFlatState), CLOSE_ONLY),
      ((ENTRY_DISABLED, TResolved), ACTIVE),
      ((MANUAL_REQUIRED, TStaleTruth), ENTRY_DISABLED),
      ((MANUAL_REQUIRED, TContradictoryTruth), MANUAL_REQUIRED),
      ((MANUAL_REQUIRED, TPartialFillState), MANUAL_REQUIRED),
      ((MANUAL_REQUIRED, TNonFlatState), CLOSE_ONLY),
      ((MANUAL_REQUIRED, TResolved), ACTIVE),
      ((CLOSE_ONLY, TStaleTruth), ENTRY_DISABLED),
      ((CLOSE_ONLY, TContradictoryTruth), MANUAL_REQUIRED),
      ((CLOSE_ONLY, TPartialFillState), MANUAL_REQUIRED),
      ((CLOSE_ONLY, TNonFlatState), CLOSE_ONLY),
      ((CLOSE_ONLY, TResolved), ACTIVE)]"

definition control_table :: "control_state \<Rightarrow> control_trigger \<Rightarrow> control_state option" where
  "control_table s t = map_of control_transitions (s, t)"

lemmas control_table_simps = control_table_def control_transitions_def

definition next_control_state :: "control_state \<Rightarrow> control_trigger \<Rightarrow> risk_rejected + control_state" where
  "next_control_state current trigger =
     (if trigger = TKillRequest then Inr KILL
      else if current = KILL then
        (if trigger = TResolved then Inl (reject CONTROL_STATE_BLOCKS_ENTRY ''control_state'') else Inr KILL)
      else case control_table current trigger of Some s \<Rightarrow> Inr s | None \<Rightarrow> Inr MANUAL_REQUIRED)"

definition entry_allowed :: "control_state \<Rightarrow> bool" where
  "entry_allowed s = (s = ACTIVE)"

definition close_allowed :: "control_state \<Rightarrow> bool" where
  "close_allowed s = (s \<noteq> KILL)"

text \<open>A machine that meets a rejection stays where it is.\<close>

definition control_step :: "control_state \<Rightarrow> control_trigger \<Rightarrow> control_state" where
  "control_step s t = (case next_control_state s t of Inl _ \<Rightarrow> s | Inr s' \<Rightarrow> s')"

section \<open>Authority of a state machine\<close>

locale authority_machine =
  fixes step :: "'s \<Rightarrow> 't \<Rightarrow> 's"
    and authorised :: "'s \<Rightarrow> bool"
    and grants :: "'t \<Rightarrow> bool"
    and final :: "'s \<Rightarrow> bool"
  assumes authority_granted: "\<not> authorised s \<Longrightarrow> authorised (step s t) \<Longrightarrow> grants t"
    and final_kept: "final s \<Longrightarrow> final (step s t)"
    and final_unauthorised: "final s \<Longrightarrow> \<not> authorised s"
begin

lemma run_authority_granted:
  "\<not> authorised s \<Longrightarrow> authorised (foldl step s ts) \<Longrightarrow> \<exists>t \<in> set ts. grants t"
proof (induction ts arbitrary: s)
  case Nil
  then show ?case by simp
next
  case (Cons t ts)
  then show ?case by (cases "authorised (step s t)") (auto dest: authority_granted)
qed

lemma run_final_kept: "final s \<Longrightarrow> final (foldl step s ts)"
  by (induction ts arbitrary: s) (simp_all add: final_kept)

lemma run_final_unauthorised: "final s \<Longrightarrow> \<not> authorised (foldl step s ts)"
  using run_final_kept final_unauthorised by blast

end

lemma control_grant: "s \<noteq> ACTIVE \<Longrightarrow> control_step s t = ACTIVE \<Longrightarrow> t = TResolved"
  by (cases s; cases t) (simp_all add: control_step_def next_control_state_def control_table_simps)

interpretation control: authority_machine control_step entry_allowed "\<lambda>t. t = TResolved" "\<lambda>s. s = KILL"
proof
  show "\<And>s t. \<not> entry_allowed s \<Longrightarrow> entry_allowed (control_step s t) \<Longrightarrow> t = TResolved"
    by (auto simp: entry_allowed_def dest: control_grant)
  show "\<And>s t. s = KILL \<Longrightarrow> control_step s t = KILL"
    by (simp add: control_step_def next_control_state_def control_table_simps)
  show "\<And>s. s = KILL \<Longrightarrow> \<not> entry_allowed s" by (simp add: entry_allowed_def)
qed

lemma entry_blocking_complement: "s \<in> set ENTRY_BLOCKING_STATES \<longleftrightarrow> \<not> entry_allowed s"
  by (cases s) (simp_all add: ENTRY_BLOCKING_STATES_def entry_allowed_def)

lemma close_allowed_list: "s \<in> set CLOSE_ALLOWED_STATES \<longleftrightarrow> close_allowed s"
  by (cases s) (simp_all add: CLOSE_ALLOWED_STATES_def close_allowed_def)

text \<open>
  C25. However the triggers of a run are chosen, a kernel that is not ACTIVE becomes
  ACTIVE only through a run that contains RESOLVED (the successful startup
  reconciliation); once killed it never allows an entry again; and while it is not
  killed, close and reconciliation authority survives every single trigger other
  than an explicit kill request.
\<close>

theorem control_authority:
  "(entry_allowed (foldl control_step s ts) \<longrightarrow> \<not> entry_allowed s \<longrightarrow> TResolved \<in> set ts)
   \<and> foldl control_step KILL ts = KILL
   \<and> (close_allowed s \<longrightarrow> t \<noteq> TKillRequest \<longrightarrow> close_allowed (control_step s t))"
proof (intro conjI impI)
  assume "entry_allowed (foldl control_step s ts)" "\<not> entry_allowed s"
  then show "TResolved \<in> set ts" using control.run_authority_granted by blast
next
  show "foldl control_step KILL ts = KILL" by (rule control.run_final_kept) simp
next
  assume "close_allowed s" "t \<noteq> TKillRequest"
  then show "close_allowed (control_step s t)"
    by (cases s; cases t) (simp_all add: close_allowed_def control_step_def next_control_state_def control_table_simps)
qed

theorem control_authority_witness:
  "entry_allowed (foldl control_step ENTRY_DISABLED [TStaleTruth, TResolved])
   \<and> TResolved \<in> set [TStaleTruth, TResolved] \<and> close_allowed (control_step ACTIVE TContradictoryTruth)"
proof -
  have run: "entry_allowed (foldl control_step ENTRY_DISABLED [TStaleTruth, TResolved])"
    by (simp add: entry_allowed_def control_step_def next_control_state_def control_table_simps)
  have "\<not> entry_allowed ENTRY_DISABLED" "close_allowed ACTIVE"
    by (simp_all add: entry_allowed_def close_allowed_def)
  then show ?thesis
    using run control_authority [of ENTRY_DISABLED "[TStaleTruth, TResolved]"]
      control_authority [of ACTIVE "[]" TContradictoryTruth]
    by blast
qed

end
