(* ===== verification/Lifecycle_States.thy ===== *)
theory Lifecycle_States
  imports Controls
begin

text \<open>
  \<open>lifecycle/reasons.py\<close>, \<open>lifecycle/states.py\<close> and \<open>lifecycle/reducer.py\<close>: the
  states of one monitored PAPER lifecycle, the transition table with its
  fail-closed default, and the reducers that turn broker readbacks into states.
\<close>

section \<open>States, triggers and the transition table\<close>

datatype lifecycle_state =
    APPROVED | OPEN_SUBMITTED | OPEN_PARTIAL | OPEN_FILLED | OPEN_CANCELED | OPEN_UNKNOWN
  | HOLDING | CLOSE_DUE | CLOSE_SUBMITTED | CLOSE_PARTIAL | CLOSED_FLAT | LC_MANUAL_REQUIRED

datatype lifecycle_trigger =
    OPEN_SUBMIT | OPEN_FILL | OPEN_PARTIAL_FILL | OPEN_CANCEL | OPEN_AMBIGUOUS | HOLD_ELAPSED
  | CLOSE_SUBMIT | CLOSE_FILL | CLOSE_PARTIAL_FILL | CLOSE_AMBIGUOUS | FLATTENING_DEADLINE | MANUAL

datatype lifecycle_reason =
    EXIT_PLAN_UNVERIFIED | EXIT_PLAN_CLOCKS_MISORDERED | EXIT_PLAN_COHORT_MISMATCH
  | ENTRY_DEADLINE_PASSED | ENTRY_BLOCKED_BY_CONTROL | PERMIT_NOT_ACTIVE | DUPLICATE_TICK
  | OPEN_ORDER_UNKNOWN | OPEN_ORDER_PARTIAL | CLOSE_PERMIT_UNAVAILABLE | CLOSE_ORDER_UNKNOWN
  | CLOSE_ORDER_PARTIAL | BROKER_OUTAGE | LC_STALE_QUOTE | LC_STALE_ACCOUNT_TRUTH
  | STALE_BROKER_TRUTH | BROKER_TRUTH_MISMATCH | NON_FLAT_CLOSE | FLATTENING_DEADLINE_PASSED
  | CLOCK_JUMP | RESTART_STATE_INVALID | RESTART_INTENT_REPLAYED | LIFECYCLE_STATE_INVALID
  | REASON_MANUAL_REQUIRED | MUTATION_GATE_CLOSED | LC_UNSUPPORTED_INPUT

record lifecycle_rejected =
  lreason :: lifecycle_reason
  lpath :: string

definition lreject :: "lifecycle_reason \<Rightarrow> string \<Rightarrow> lifecycle_rejected" where
  "lreject r p = \<lparr>lreason = r, lpath = p\<rparr>"

lemma lreject_simps [simp]: "lreason (lreject r p) = r" "lpath (lreject r p) = p"
  by (simp_all add: lreject_def)

fun state_value :: "lifecycle_state \<Rightarrow> string" where
  "state_value APPROVED = ''APPROVED''"
| "state_value OPEN_SUBMITTED = ''OPEN_SUBMITTED''"
| "state_value OPEN_PARTIAL = ''OPEN_PARTIAL''"
| "state_value OPEN_FILLED = ''OPEN_FILLED''"
| "state_value OPEN_CANCELED = ''OPEN_CANCELED''"
| "state_value OPEN_UNKNOWN = ''OPEN_UNKNOWN''"
| "state_value HOLDING = ''HOLDING''"
| "state_value CLOSE_DUE = ''CLOSE_DUE''"
| "state_value CLOSE_SUBMITTED = ''CLOSE_SUBMITTED''"
| "state_value CLOSE_PARTIAL = ''CLOSE_PARTIAL''"
| "state_value CLOSED_FLAT = ''CLOSED_FLAT''"
| "state_value LC_MANUAL_REQUIRED = ''MANUAL_REQUIRED''"

definition lifecycle_transitions :: "((lifecycle_state \<times> lifecycle_trigger) \<times> lifecycle_state) list" where
  "lifecycle_transitions =
     [((APPROVED, OPEN_SUBMIT), OPEN_SUBMITTED),
      ((OPEN_SUBMITTED, OPEN_FILL), OPEN_FILLED),
      ((OPEN_SUBMITTED, OPEN_PARTIAL_FILL), OPEN_PARTIAL),
      ((OPEN_SUBMITTED, OPEN_CANCEL), OPEN_CANCELED),
      ((OPEN_SUBMITTED, OPEN_AMBIGUOUS), OPEN_UNKNOWN),
      ((OPEN_UNKNOWN, OPEN_FILL), OPEN_FILLED),
      ((OPEN_UNKNOWN, OPEN_PARTIAL_FILL), OPEN_PARTIAL),
      ((OPEN_UNKNOWN, OPEN_CANCEL), OPEN_CANCELED),
      ((OPEN_UNKNOWN, MANUAL), LC_MANUAL_REQUIRED),
      ((OPEN_PARTIAL, MANUAL), LC_MANUAL_REQUIRED),
      ((OPEN_FILLED, HOLD_ELAPSED), CLOSE_DUE),
      ((HOLDING, HOLD_ELAPSED), CLOSE_DUE),
      ((CLOSE_DUE, CLOSE_SUBMIT), CLOSE_SUBMITTED),
      ((CLOSE_SUBMITTED, CLOSE_FILL), CLOSED_FLAT),
      ((CLOSE_SUBMITTED, CLOSE_PARTIAL_FILL), CLOSE_PARTIAL),
      ((CLOSE_SUBMITTED, CLOSE_AMBIGUOUS), LC_MANUAL_REQUIRED),
      ((CLOSE_PARTIAL, MANUAL), LC_MANUAL_REQUIRED)]"

definition lifecycle_table :: "lifecycle_state \<Rightarrow> lifecycle_trigger \<Rightarrow> lifecycle_state option" where
  "lifecycle_table s t = map_of lifecycle_transitions (s, t)"

lemmas lifecycle_table_simps = lifecycle_table_def lifecycle_transitions_def

definition next_lifecycle_state :: "lifecycle_state \<Rightarrow> lifecycle_trigger \<Rightarrow> lifecycle_state" where
  "next_lifecycle_state current trigger =
     (case lifecycle_table current trigger of None \<Rightarrow> LC_MANUAL_REQUIRED | Some s \<Rightarrow> s)"

definition require_transition :: "lifecycle_state \<Rightarrow> lifecycle_trigger \<Rightarrow> lifecycle_rejected + lifecycle_state" where
  "require_transition current trigger =
     (case lifecycle_table current trigger of
        None \<Rightarrow> Inl (lreject LIFECYCLE_STATE_INVALID (''transition.'' @ state_value current))
      | Some s \<Rightarrow> Inr s)"

definition is_terminal :: "lifecycle_state \<Rightarrow> bool" where
  "is_terminal s = (s \<in> {OPEN_CANCELED, CLOSED_FLAT, LC_MANUAL_REQUIRED})"

definition entry_permitted :: "lifecycle_state \<Rightarrow> bool" where
  "entry_permitted s = (s = APPROVED)"

definition close_permitted :: "lifecycle_state \<Rightarrow> bool" where
  "close_permitted s = (s \<in> {OPEN_PARTIAL, OPEN_FILLED, OPEN_UNKNOWN, HOLDING, CLOSE_DUE,
     CLOSE_SUBMITTED, CLOSE_PARTIAL, LC_MANUAL_REQUIRED})"

definition EXPOSURE_BEARING_STATES :: "lifecycle_state list" where
  "EXPOSURE_BEARING_STATES = [OPEN_SUBMITTED, OPEN_PARTIAL, OPEN_FILLED, OPEN_UNKNOWN, HOLDING,
     CLOSE_DUE, CLOSE_SUBMITTED, CLOSE_PARTIAL]"

definition TERMINAL_STATES :: "lifecycle_state list" where
  "TERMINAL_STATES = [OPEN_CANCELED, CLOSED_FLAT, LC_MANUAL_REQUIRED]"

section \<open>Broker order states and the reducers\<close>

type_synonym order_status = string

abbreviation FILLED_STATUS :: order_status where "FILLED_STATUS \<equiv> ''filled''"
abbreviation PARTIALLY_FILLED_STATUS :: order_status where "PARTIALLY_FILLED_STATUS \<equiv> ''partially_filled''"

definition OPEN_WORKING_STATES :: "order_status list" where
  "OPEN_WORKING_STATES =
     [''new'', ''accepted'', ''pending_new'', ''accepted_for_bidding'', ''held'', ''calculated'']"

definition OPEN_UNFILLED_TERMINAL_STATES :: "order_status list" where
  "OPEN_UNFILLED_TERMINAL_STATES = [''canceled'', ''expired'', ''rejected'']"

record position_truth =
  pt_symbol :: string
  pt_qty :: dec
  pt_observed_at :: datetime

definition reduce_open_order :: "order_status \<Rightarrow> int \<Rightarrow> int \<Rightarrow> lifecycle_state" where
  "reduce_open_order status filled expected_qty =
     (if status = FILLED_STATUS then (if filled = expected_qty then OPEN_FILLED else OPEN_UNKNOWN)
      else if status = PARTIALLY_FILLED_STATUS then OPEN_PARTIAL
      else if status \<in> set OPEN_UNFILLED_TERMINAL_STATES then
        (if filled = 0 then OPEN_CANCELED else OPEN_UNKNOWN)
      else if status \<in> set OPEN_WORKING_STATES then OPEN_SUBMITTED
      else OPEN_UNKNOWN)"

definition reduce_close_order ::
    "order_status \<Rightarrow> int \<Rightarrow> position_truth list \<Rightarrow> int \<Rightarrow> lifecycle_state" where
  "reduce_close_order status filled positions expected_qty =
     (let residue = filter (\<lambda>p. \<not> dec_eq (pt_qty p) dec_zero) positions
      in if status = PARTIALLY_FILLED_STATUS then CLOSE_PARTIAL
         else if status = FILLED_STATUS then
           (if filled \<noteq> expected_qty then LC_MANUAL_REQUIRED
            else if residue \<noteq> [] then LC_MANUAL_REQUIRED
            else CLOSED_FLAT)
         else LC_MANUAL_REQUIRED)"

definition opening_exposure_bearing :: "lifecycle_state \<Rightarrow> bool" where
  "opening_exposure_bearing s = (s \<in> {OPEN_SUBMITTED, OPEN_PARTIAL, OPEN_FILLED, OPEN_UNKNOWN})"

definition positions_flat :: "position_truth list \<Rightarrow> bool" where
  "positions_flat ps = list_all (\<lambda>p. dec_eq (pt_qty p) dec_zero) ps"

section \<open>Steps and reachability\<close>

inductive lifecycle_step :: "lifecycle_state \<Rightarrow> lifecycle_trigger \<Rightarrow> lifecycle_state \<Rightarrow> bool" where
  tabled: "lifecycle_table s t = Some s' \<Longrightarrow> lifecycle_step s t s'"
| untabled: "lifecycle_table s t = None \<Longrightarrow> lifecycle_step s t LC_MANUAL_REQUIRED"

inductive_simps lifecycle_step_iff: "lifecycle_step s t s'"

inductive lifecycle_reach :: "lifecycle_state \<Rightarrow> bool" where
  start: "lifecycle_reach APPROVED"
| advance: "lifecycle_reach s \<Longrightarrow> lifecycle_step s t s' \<Longrightarrow> lifecycle_reach s'"

lemma step_function: "lifecycle_step s t s' \<longleftrightarrow> s' = next_lifecycle_state s t"
  by (auto simp: lifecycle_step_iff next_lifecycle_state_def split: option.splits)

lemma ex_lifecycle_trigger:
  "(\<exists>t. P t) \<longleftrightarrow> P OPEN_SUBMIT \<or> P OPEN_FILL \<or> P OPEN_PARTIAL_FILL \<or> P OPEN_CANCEL \<or> P OPEN_AMBIGUOUS
     \<or> P HOLD_ELAPSED \<or> P CLOSE_SUBMIT \<or> P CLOSE_FILL \<or> P CLOSE_PARTIAL_FILL \<or> P CLOSE_AMBIGUOUS
     \<or> P FLATTENING_DEADLINE \<or> P MANUAL"
  (is "_ \<longleftrightarrow> ?all")
proof
  assume "\<exists>t. P t"
  then obtain t where "P t" ..
  then show ?all by (cases t) simp_all
next
  assume ?all
  then show "\<exists>t. P t" by auto
qed

lemma table_never_approved: "lifecycle_table s t \<noteq> Some APPROVED"
  by (cases s; cases t) (simp_all add: lifecycle_table_simps)

lemma table_never_holding: "lifecycle_table s t \<noteq> Some HOLDING"
  by (cases s; cases t) (simp_all add: lifecycle_table_simps)

lemma table_terminal: "is_terminal s \<Longrightarrow> lifecycle_table s t = None"
  by (cases s) (simp_all add: is_terminal_def lifecycle_table_simps)

interpretation lifecycle: authority_machine next_lifecycle_state entry_permitted "\<lambda>t. False" is_terminal
proof
  show "\<And>s t. \<not> entry_permitted s \<Longrightarrow> entry_permitted (next_lifecycle_state s t) \<Longrightarrow> False"
    using table_never_approved
    by (auto simp: entry_permitted_def next_lifecycle_state_def split: option.splits)
  show "\<And>s t. is_terminal s \<Longrightarrow> is_terminal (next_lifecycle_state s t)"
    by (simp add: next_lifecycle_state_def table_terminal) (simp add: is_terminal_def)
  show "\<And>s. is_terminal s \<Longrightarrow> \<not> entry_permitted s"
    by (auto simp: is_terminal_def entry_permitted_def)
qed

lemma reach_run: "lifecycle_reach s \<longleftrightarrow> (\<exists>ts. s = foldl next_lifecycle_state APPROVED ts)"
proof
  assume "lifecycle_reach s"
  then show "\<exists>ts. s = foldl next_lifecycle_state APPROVED ts"
  proof induction
    case start
    then show ?case by (intro exI [of _ "[]"]) simp
  next
    case (advance s t s')
    then obtain ts where "s = foldl next_lifecycle_state APPROVED ts" by blast
    with advance.hyps show ?case by (intro exI [of _ "ts @ [t]"]) (simp add: step_function)
  qed
next
  assume "\<exists>ts. s = foldl next_lifecycle_state APPROVED ts"
  then obtain ts where "s = foldl next_lifecycle_state APPROVED ts" by blast
  then show "lifecycle_reach s"
  proof (induction ts arbitrary: s rule: rev_induct)
    case Nil
    then show ?case by (simp add: lifecycle_reach.start)
  next
    case (snoc t ts)
    then show ?case
      by (simp add: lifecycle_reach.advance [of "foldl next_lifecycle_state APPROVED ts" t] step_function)
  qed
qed

lemma never_holding: "lifecycle_reach s \<Longrightarrow> s \<noteq> HOLDING"
  by (induction rule: lifecycle_reach.induct)
    (auto simp: step_function next_lifecycle_state_def table_never_holding split: option.splits)

section \<open>What a run to a flat close looks like\<close>

text \<open>The triggers that take a state to CLOSED_FLAT, backwards along the table.\<close>

lemma step_to_flat: "next_lifecycle_state s t = CLOSED_FLAT \<longleftrightarrow> s = CLOSE_SUBMITTED \<and> t = CLOSE_FILL"
  by (cases s; cases t) (simp_all add: next_lifecycle_state_def lifecycle_table_simps)

lemma step_to_close_submitted: "next_lifecycle_state s t = CLOSE_SUBMITTED \<longleftrightarrow> s = CLOSE_DUE \<and> t = CLOSE_SUBMIT"
  by (cases s; cases t) (simp_all add: next_lifecycle_state_def lifecycle_table_simps)

lemma step_to_close_due:
  "next_lifecycle_state s t = CLOSE_DUE \<longleftrightarrow> (s = OPEN_FILLED \<or> s = HOLDING) \<and> t = HOLD_ELAPSED"
  by (cases s; cases t) (simp_all add: next_lifecycle_state_def lifecycle_table_simps)

lemma step_to_open_filled:
  "next_lifecycle_state s t = OPEN_FILLED \<longleftrightarrow> (s = OPEN_SUBMITTED \<or> s = OPEN_UNKNOWN) \<and> t = OPEN_FILL"
  by (cases s; cases t) (simp_all add: next_lifecycle_state_def lifecycle_table_simps)

lemma step_to_open_unknown:
  "next_lifecycle_state s t = OPEN_UNKNOWN \<longleftrightarrow> s = OPEN_SUBMITTED \<and> t = OPEN_AMBIGUOUS"
  by (cases s; cases t) (simp_all add: next_lifecycle_state_def lifecycle_table_simps)

lemma step_to_open_submitted: "next_lifecycle_state s t = OPEN_SUBMITTED \<longleftrightarrow> s = APPROVED \<and> t = OPEN_SUBMIT"
  by (cases s; cases t) (simp_all add: next_lifecycle_state_def lifecycle_table_simps)

lemma step_to_approved: "next_lifecycle_state s t \<noteq> APPROVED"
  using table_never_approved by (auto simp: next_lifecycle_state_def split: option.splits)

lemmas steps_back = step_to_flat step_to_close_submitted step_to_close_due step_to_open_filled
  step_to_open_unknown step_to_open_submitted step_to_approved

abbreviation lifecycle_run :: "lifecycle_trigger list \<Rightarrow> lifecycle_state" where
  "lifecycle_run ts \<equiv> foldl next_lifecycle_state APPROVED ts"

lemma run_snoc: "lifecycle_run (ts @ [t]) = next_lifecycle_state (lifecycle_run ts) t"
  by simp

lemma run_holding: "lifecycle_run ts \<noteq> HOLDING"
  using never_holding reach_run by blast

lemma run_approved: "lifecycle_run ts = APPROVED \<longleftrightarrow> ts = []"
  by (cases ts rule: rev_cases) (simp_all add: step_to_approved)

lemma run_submitted: "lifecycle_run ts = OPEN_SUBMITTED \<longleftrightarrow> ts = [OPEN_SUBMIT]"
  by (cases ts rule: rev_cases) (auto simp: steps_back run_approved)

lemma run_unknown: "lifecycle_run ts = OPEN_UNKNOWN \<longleftrightarrow> ts = [OPEN_SUBMIT, OPEN_AMBIGUOUS]"
  by (cases ts rule: rev_cases) (auto simp: steps_back run_submitted)

lemma run_filled:
  "lifecycle_run ts = OPEN_FILLED \<longleftrightarrow>
     ts = [OPEN_SUBMIT, OPEN_FILL] \<or> ts = [OPEN_SUBMIT, OPEN_AMBIGUOUS, OPEN_FILL]"
  by (cases ts rule: rev_cases) (auto simp: steps_back run_submitted run_unknown)

lemma run_close_due:
  "lifecycle_run ts = CLOSE_DUE \<longleftrightarrow>
     ts = [OPEN_SUBMIT, OPEN_FILL, HOLD_ELAPSED]
     \<or> ts = [OPEN_SUBMIT, OPEN_AMBIGUOUS, OPEN_FILL, HOLD_ELAPSED]"
  by (cases ts rule: rev_cases) (auto simp: steps_back run_filled run_holding)

lemma run_close_submitted:
  "lifecycle_run ts = CLOSE_SUBMITTED \<longleftrightarrow>
     ts = [OPEN_SUBMIT, OPEN_FILL, HOLD_ELAPSED, CLOSE_SUBMIT]
     \<or> ts = [OPEN_SUBMIT, OPEN_AMBIGUOUS, OPEN_FILL, HOLD_ELAPSED, CLOSE_SUBMIT]"
  by (cases ts rule: rev_cases) (auto simp: steps_back run_close_due)

text \<open>
  C26. The lifecycle declares CLOSED_FLAT after exactly two sequences of triggers:
  submit, (ambiguous readback,) fill, hold elapsed, close submit, close fill. No
  trigger sequence reopens an entry, terminal states stay terminal whatever
  follows, and the state HOLDING is never entered. This is the transition table of the code. It departs from the
  state contract of \<^verbatim>\<open>docs/MONITORED_PAPER_LIFECYCLE.md\<close>, in which a fill leads to
  HOLDING and from there to CLOSE_DUE: the table has rows out of HOLDING and none into it, and takes the elapsed
  hold from OPEN_FILLED to CLOSE_DUE.
\<close>

theorem lifecycle_flat_traces:
  "(lifecycle_run ts = CLOSED_FLAT \<longleftrightarrow>
      ts = [OPEN_SUBMIT, OPEN_FILL, HOLD_ELAPSED, CLOSE_SUBMIT, CLOSE_FILL]
      \<or> ts = [OPEN_SUBMIT, OPEN_AMBIGUOUS, OPEN_FILL, HOLD_ELAPSED, CLOSE_SUBMIT, CLOSE_FILL])
   \<and> (entry_permitted (lifecycle_run ts) \<longleftrightarrow> ts = [])
   \<and> (is_terminal s \<longrightarrow> is_terminal (foldl next_lifecycle_state s us))
   \<and> \<not> lifecycle_reach HOLDING"
proof (intro conjI impI)
  show "lifecycle_run ts = CLOSED_FLAT \<longleftrightarrow>
      ts = [OPEN_SUBMIT, OPEN_FILL, HOLD_ELAPSED, CLOSE_SUBMIT, CLOSE_FILL]
      \<or> ts = [OPEN_SUBMIT, OPEN_AMBIGUOUS, OPEN_FILL, HOLD_ELAPSED, CLOSE_SUBMIT, CLOSE_FILL]"
    by (cases ts rule: rev_cases) (auto simp: steps_back run_close_submitted)
  show "entry_permitted (lifecycle_run ts) \<longleftrightarrow> ts = []" by (simp add: entry_permitted_def run_approved)
  show "is_terminal s \<Longrightarrow> is_terminal (foldl next_lifecycle_state s us)" by (rule lifecycle.run_final_kept)
  show "\<not> lifecycle_reach HOLDING" using never_holding by blast
qed

theorem lifecycle_flat_traces_witness:
  "is_terminal CLOSED_FLAT \<and> is_terminal (foldl next_lifecycle_state CLOSED_FLAT [MANUAL])"
proof -
  have "is_terminal CLOSED_FLAT" by (simp add: is_terminal_def)
  then show ?thesis using lifecycle_flat_traces [of "[]" CLOSED_FLAT "[MANUAL]"] by blast
qed

text \<open>
  The opening reducer never collapses ambiguity: it reports a fill exactly when
  the broker says filled for the permitted quantity, a cancellation exactly for a
  terminal unfilled order with nothing filled, and each of its answers is a state
  the transition table allows from OPEN_SUBMITTED. The closing reducer reports
  CLOSED_FLAT exactly for a complete fill with no residual position, and every
  answer that is not CLOSED_FLAT or CLOSE_PARTIAL requires manual handling.
\<close>

theorem reducers_exact:
  "(reduce_open_order st f q = OPEN_FILLED \<longleftrightarrow> st = ''filled'' \<and> f = q)
   \<and> (reduce_open_order st f q = OPEN_CANCELED \<longleftrightarrow> st \<in> {''canceled'', ''expired'', ''rejected''} \<and> f = 0)
   \<and> (reduce_open_order st f q = OPEN_SUBMITTED \<or> (\<exists>t. lifecycle_table OPEN_SUBMITTED t = Some (reduce_open_order st f q)))
   \<and> (reduce_close_order st f ps q = CLOSED_FLAT \<longleftrightarrow> st = ''filled'' \<and> f = q \<and> positions_flat ps)
   \<and> (reduce_close_order st f ps q = CLOSE_PARTIAL \<longleftrightarrow> st = ''partially_filled'')
   \<and> (\<exists>t. lifecycle_table CLOSE_SUBMITTED t = Some (reduce_close_order st f ps q))"
proof (intro conjI)
  show "reduce_open_order st f q = OPEN_FILLED \<longleftrightarrow> st = ''filled'' \<and> f = q"
    by (auto simp: reduce_open_order_def)
  show "reduce_open_order st f q = OPEN_CANCELED \<longleftrightarrow> st \<in> {''canceled'', ''expired'', ''rejected''} \<and> f = 0"
    by (auto simp: reduce_open_order_def OPEN_UNFILLED_TERMINAL_STATES_def)
  have "reduce_open_order st f q \<in> {OPEN_FILLED, OPEN_PARTIAL, OPEN_CANCELED, OPEN_SUBMITTED, OPEN_UNKNOWN}"
    by (simp add: reduce_open_order_def)
  then show "reduce_open_order st f q = OPEN_SUBMITTED \<or> (\<exists>t. lifecycle_table OPEN_SUBMITTED t = Some (reduce_open_order st f q))"
    by (elim insertE emptyE)
      (simp_all add: lifecycle_table_simps ex_lifecycle_trigger)
  show "reduce_close_order st f ps q = CLOSED_FLAT \<longleftrightarrow> st = ''filled'' \<and> f = q \<and> positions_flat ps"
    by (auto simp: reduce_close_order_def positions_flat_def Let_def filter_empty_conv list_all_iff)
  show "reduce_close_order st f ps q = CLOSE_PARTIAL \<longleftrightarrow> st = ''partially_filled''"
    by (auto simp: reduce_close_order_def Let_def)
  have "reduce_close_order st f ps q \<in> {CLOSED_FLAT, CLOSE_PARTIAL, LC_MANUAL_REQUIRED}"
    by (simp add: reduce_close_order_def Let_def)
  then show "\<exists>t. lifecycle_table CLOSE_SUBMITTED t = Some (reduce_close_order st f ps q)"
    by (elim insertE emptyE)
      (simp_all add: lifecycle_table_simps ex_lifecycle_trigger)
qed

end
