(* ===== verification/Decimal_Text.thy ===== *)
theory Decimal_Text
  imports Decimals
begin

text \<open>
  The text forms of decimals: reading back what \<open>str(d)\<close> prints gives the same
  coefficient and exponent, so amounts survive their storage in the ledger's
  \<open>TEXT\<close> columns and in JSON payloads without any change.
\<close>

section \<open>Digits\<close>

lemma digit_char_props:
  assumes "d < 10"
  shows "digit_val (digit_char d) = d" "is_digit (digit_char d)"
  using assms by (simp_all add: digit_val_def digit_char_def is_digit_def Let_def)

lemma nat_of_digs_snoc [simp]: "nat_of_digs (s @ [c]) = 10 * nat_of_digs s + digit_val c"
  by (simp add: nat_of_digs_def)

lemma nat_of_digs_Nil [simp]: "nat_of_digs [] = 0"
  by (simp add: nat_of_digs_def)

lemma digs_props: "nat_of_digs (digs n) = n \<and> list_all is_digit (digs n) \<and> digs n \<noteq> []"
proof (induction n rule: digs.induct)
  case (1 n)
  show ?case
  proof (cases "n < 10")
    case True
    then show ?thesis
      by (subst (1 2 3) digs.simps) (simp add: nat_of_digs_def digit_char_props)
  next
    case False
    then show ?thesis
      using 1 by (subst (1 2 3) digs.simps) (simp add: digit_char_props)
  qed
qed

lemma nat_of_digs_digs [simp]: "nat_of_digs (digs n) = n" using digs_props by blast
lemma digs_digits [simp]: "list_all is_digit (digs n)" using digs_props by blast
lemma digs_nonempty [simp]: "digs n \<noteq> []" using digs_props by blast

lemma digs_inject [simp]: "digs n = digs k \<longleftrightarrow> n = k"
  by (metis nat_of_digs_digs)

lemma foldl_zeros: "foldl (\<lambda>a c. 10 * a + digit_val c) 0 (zeros k @ s) = foldl (\<lambda>a c. 10 * a + digit_val c) 0 s"
  by (induction k) (simp_all add: zeros_def digit_val_def)

lemma nat_of_digs_zeros [simp]: "nat_of_digs (zeros k @ s) = nat_of_digs s"
  using foldl_zeros [of k s] by (simp only: nat_of_digs_def)

lemma nat_of_digs_lead [simp]: "nat_of_digs (CHR ''0'' # s) = nat_of_digs s"
  using nat_of_digs_zeros [of 1 s] by (simp add: zeros_def)

lemma zeros_digits [simp]: "list_all is_digit (zeros k)"
  by (auto simp: zeros_def list_all_iff is_digit_def Let_def)

lemma zeros_simps [simp]: "length (zeros k) = k" "zeros 0 = []"
  by (simp_all add: zeros_def)

lemma zero_digit [simp]: "is_digit (CHR ''0'')"
  by (simp add: is_digit_def Let_def)

section \<open>The reader on printed text\<close>

definition number_char :: "char \<Rightarrow> bool" where
  "number_char c = (is_digit c \<or> c \<in> set ''.E+-'')"

lemma number_char_plain:
  assumes "number_char c"
  shows "\<not> is_space c" "c \<noteq> CHR ''_''"
  using assms by (auto simp: number_char_def is_digit_def is_space_def Let_def)

lemma strip_number:
  assumes "list_all number_char s"
  shows "filter (\<lambda>c. c \<noteq> CHR ''_'') (strip s) = s"
proof -
  have "strip s = s"
    using assms by (intro strip_no_space) (auto simp: list_all_iff number_char_plain)
  moreover have "filter (\<lambda>c. c \<noteq> CHR ''_'') s = s"
    using assms by (auto simp: list_all_iff number_char_plain intro: filter_True)
  ultimately show ?thesis by simp
qed

lemma digits_number [simp]: "list_all is_digit s \<Longrightarrow> list_all number_char s"
  by (auto simp: list_all_iff number_char_def)

lemma signed_digs_number [simp]: "list_all number_char (signed_digs x)"
proof -
  have "list_all number_char (digs (nat \<bar>x\<bar>))" by (rule digits_number) simp
  then show ?thesis by (simp add: signed_digs_def number_char_def)
qed

lemma digit_not_mark:
  assumes "is_digit c"
  shows "c \<noteq> CHR ''-''" "c \<noteq> CHR ''+''" "c \<noteq> CHR ''.''" "c \<noteq> CHR ''E''"
  using assms by (auto simp: is_digit_def Let_def)

lemma mark_not_digit [simp]: "\<not> is_digit (CHR ''.'')" "\<not> is_digit (CHR ''E'')"
  by (simp_all add: is_digit_def Let_def)

definition exponent_text :: "int \<Rightarrow> string" where
  "exponent_text x = (if x = 0 then [] else CHR ''E'' # signed_digs x)"

lemma parse_exponent_text [simp]: "parse_exponent (exponent_text x) = Some x"
  by (auto simp: exponent_text_def parse_exponent_def signed_digs_def parse_sign_def)

lemma exponent_text_stop: "dropWhile is_digit (exponent_text x) = exponent_text x"
    "takeWhile is_digit (exponent_text x) = []"
  by (simp_all add: exponent_text_def)

definition printed :: "bool \<Rightarrow> string \<Rightarrow> string \<Rightarrow> int \<Rightarrow> string" where
  "printed neg ip fp x =
     (if neg then ''-'' else '''') @ ip @ (if fp = [] then [] else CHR ''.'' # fp) @ exponent_text x"

lemma printed_number:
  assumes "list_all is_digit ip" "list_all is_digit fp"
  shows "list_all number_char (printed neg ip fp x)"
  using assms by (auto simp: printed_def exponent_text_def number_char_def)

lemma parse_sign_printed:
  assumes "list_all is_digit ip" "ip \<noteq> []"
  shows "parse_sign (printed neg ip fp x) = (neg, printed False ip fp x)"
proof (cases ip)
  case (Cons c cs)
  then have "is_digit c" using assms(1) by simp
  then show ?thesis using Cons by (simp add: printed_def parse_sign_def digit_not_mark)
qed (use assms in simp)

lemma takeWhile_digits:
  assumes "list_all is_digit ds" "takeWhile is_digit r = []"
  shows "takeWhile is_digit (ds @ r) = ds" "dropWhile is_digit (ds @ r) = r"
proof -
  have "dropWhile is_digit r = r" using assms(2) by (cases r) (auto split: if_splits)
  then show "takeWhile is_digit (ds @ r) = ds" "dropWhile is_digit (ds @ r) = r"
    using assms by (simp_all add: list_all_iff)
qed

lemma printed_int_part:
  assumes "list_all is_digit ip"
  shows "takeWhile is_digit (printed False ip fp x) = ip"
    "dropWhile is_digit (printed False ip fp x) = (if fp = [] then [] else CHR ''.'' # fp) @ exponent_text x"
  using takeWhile_digits [OF assms, of "(if fp = [] then [] else CHR ''.'' # fp) @ exponent_text x"]
  by (auto simp: printed_def exponent_text_stop)

lemma parse_frac_printed:
  assumes "list_all is_digit fp"
  shows "parse_frac ((if fp = [] then [] else CHR ''.'' # fp) @ exponent_text x) = (fp, exponent_text x)"
  using takeWhile_digits [OF assms, of "exponent_text x"]
  by (auto simp: parse_frac_def exponent_text_stop) (auto simp: exponent_text_def)

lemma dec_parse_printed:
  assumes "list_all is_digit ip" "list_all is_digit fp" "ip \<noteq> []"
  shows "dec_parse (printed neg ip fp x) =
    Some (Fin (if neg then - int (nat_of_digs (ip @ fp)) else int (nat_of_digs (ip @ fp))) (x - int (length fp)))"
  using assms(3)
  by (simp add: dec_parse_def strip_number [OF printed_number [OF assms(1,2)]] Let_def
      parse_sign_printed [OF assms(1,3)] printed_int_part [OF assms(1)] parse_frac_printed [OF assms(2)]
      del: append_assoc)

section \<open>Round trip\<close>

lemma dec_str_printed:
  obtains ip fp x where "dec_str (Fin m e) = printed (m < 0) ip fp x"
    "list_all is_digit ip" "list_all is_digit fp" "ip \<noteq> []"
    "nat_of_digs (ip @ fp) = nat \<bar>m\<bar>" "x - int (length fp) = e"
proof -
  define ds where "ds = digs (nat \<bar>m\<bar>)"
  define n where "n = int (length ds)"
  define l where "l = e + n"
  define dp where "dp = (if e \<le> 0 \<and> l > -6 then l else 1)"
  have ds: "list_all is_digit ds" "ds \<noteq> []" "nat_of_digs ds = nat \<bar>m\<bar>" "n \<ge> 1"
    by (auto simp: ds_def n_def Suc_le_eq)
  have str: "dec_str (Fin m e) = (if m < 0 then ''-'' else '''') @
      (if dp \<le> 0 then ''0'' else if dp \<ge> n then ds @ zeros (nat (dp - n)) else take (nat dp) ds) @
      (if dp \<le> 0 then ''.'' @ zeros (nat (- dp)) @ ds else if dp \<ge> n then '''' else ''.'' @ drop (nat dp) ds) @
      exponent_text (l - dp)"
    by (simp add: dec_str.simps ds_def n_def l_def dp_def exponent_text_def Let_def)
  have "dp \<le> n" using ds(4) by (simp add: dp_def l_def)
  then consider (small) "dp \<le> 0" | (whole) "dp = n" "0 < dp" | (split) "0 < dp" "dp < n"
    by linarith
  then show thesis
  proof cases
    case small
    then have "dp = l" by (auto simp: dp_def split: if_splits)
    have x: "0 - int (length (zeros (nat (- dp)) @ ds)) = e" using small \<open>dp = l\<close> by (simp add: l_def n_def)
    show thesis
      using ds small \<open>dp = l\<close>
      by (intro that [of "''0''" "zeros (nat (- dp)) @ ds" "0", OF _ _ _ _ _ x])
        (simp_all add: str printed_def exponent_text_def)
  next
    case whole
    then show thesis
      using ds by (intro that [of ds "''''" "l - dp"]) (simp_all add: str printed_def l_def)
  next
    case split
    have dd: "list_all is_digit (take (nat dp) ds)" "list_all is_digit (drop (nat dp) ds)"
      using ds(1) by (auto simp: list_all_iff dest: in_set_takeD in_set_dropD)
    have "take (nat dp) ds \<noteq> []" "drop (nat dp) ds \<noteq> []" using split ds by (auto simp: n_def)
    then show thesis
      using split ds dd
      by (intro that [of "take (nat dp) ds" "drop (nat dp) ds" "l - dp"])
        (simp_all add: str printed_def l_def n_def)
  qed
qed

text \<open>\<open>Decimal(str(d)) == d\<close>, with the very same coefficient and exponent.\<close>

lemma dec_parse_str: "is_finite d \<Longrightarrow> dec_parse (dec_str d) = Some d"
proof -
  assume "is_finite d"
  then obtain m e where d: "d = Fin m e" by (cases d) auto
  obtain ip fp x where p: "dec_str (Fin m e) = printed (m < 0) ip fp x"
    "list_all is_digit ip" "list_all is_digit fp" "ip \<noteq> []"
    "nat_of_digs (ip @ fp) = nat \<bar>m\<bar>" "x - int (length fp) = e"
    by (rule dec_str_printed)
  have "dec_parse (dec_str (Fin m e)) = Some (Fin (if m < 0 then - int (nat \<bar>m\<bar>) else int (nat \<bar>m\<bar>)) e)"
    unfolding p(1) dec_parse_printed [OF p(2,3,4)] p(5,6) ..
  then show ?thesis by (simp add: d)
qed

lemma dec_str_inject: "is_finite x \<Longrightarrow> is_finite y \<Longrightarrow> dec_str x = dec_str y \<longleftrightarrow> x = y"
  by (metis dec_parse_str option.inject)

end
