(* ===== verification/Canonical_Json.thy ===== *)
theory Canonical_Json
  imports Decimal_Text "HOL-Library.Multiset"
begin

text \<open>
  The one canonical JSON form of the sources (\<open>strategy/contracts.py\<close>,
  \<open>canonical_json_bytes\<close>: sorted keys, no blanks, no ASCII escaping) and the
  reader \<open>json.loads\<close> on that form. Numbers are integers: every decimal travels
  as text. The reader covers the canonical fragment (no blanks, no floats, only
  the escapes the writer emits); the callers compare what they read with its
  canonical form, so a text outside the fragment is refused there as well.
\<close>

datatype json =
    JNull
  | JBool bool
  | JInt int
  | JStr string
  | JList "json list"
  | JObj "(string \<times> json) list"

section \<open>Writer\<close>

definition hex_digit :: "nat \<Rightarrow> char" where
  "hex_digit d = (if d < 10 then char_of (48 + d) else char_of (87 + d))"

definition json_escape :: "char \<Rightarrow> string" where
  "json_escape c =
     (let n = of_char c :: nat
      in if n = 34 then [CHR 0x5C, CHR 0x22]
         else if n = 92 then [CHR 0x5C, CHR 0x5C]
         else if n = 10 then [CHR 0x5C, CHR ''n'']
         else if n = 13 then [CHR 0x5C, CHR ''r'']
         else if n = 9 then [CHR 0x5C, CHR ''t'']
         else if n = 12 then [CHR 0x5C, CHR ''f'']
         else if n = 8 then [CHR 0x5C, CHR ''b'']
         else if n < 32 then [CHR 0x5C, CHR ''u'', CHR ''0'', CHR ''0'', hex_digit (n div 16), hex_digit (n mod 16)]
         else [c])"

definition json_quote :: "string \<Rightarrow> string" where
  "json_quote s = CHR 0x22 # concat (map json_escape s) @ [CHR 0x22]"

fun json_join :: "string list \<Rightarrow> string" where
  "json_join [] = []"
| "json_join [x] = x"
| "json_join (x # y # ys) = x @ CHR '','' # json_join (y # ys)"

fun json_dumps :: "json \<Rightarrow> string" where
  "json_dumps JNull = ''null''"
| "json_dumps (JBool b) = (if b then ''true'' else ''false'')"
| "json_dumps (JInt n) = (if n < 0 then CHR ''-'' # digs (nat (- n)) else digs (nat n))"
| "json_dumps (JStr s) = json_quote s"
| "json_dumps (JList vs) = CHR ''['' # json_join (map json_dumps vs) @ [CHR '']'']"
| "json_dumps (JObj kvs) =
     CHR ''{'' # json_join (map (\<lambda>kv. json_quote (fst kv) @ CHR '':'' # json_dumps (snd kv)) kvs) @ [CHR ''}'']"

text \<open>\<open>sort_keys=True\<close>, at every level.\<close>

fun json_sort :: "json \<Rightarrow> json" where
  "json_sort (JList vs) = JList (map json_sort vs)"
| "json_sort (JObj kvs) = JObj (sort_key fst (map (\<lambda>kv. (fst kv, json_sort (snd kv))) kvs))"
| "json_sort v = v"

definition canonical_json_bytes :: "json \<Rightarrow> string" where
  "canonical_json_bytes v = json_dumps (json_sort v)"

section \<open>Dictionaries\<close>

fun json_get :: "json \<Rightarrow> string \<Rightarrow> json option" where
  "json_get (JObj kvs) k = map_of kvs k"
| "json_get _ k = None"

fun is_object :: "json \<Rightarrow> bool" where
  "is_object (JObj kvs) = True"
| "is_object _ = False"

section \<open>Reader\<close>

definition hex_val :: "char \<Rightarrow> nat option" where
  "hex_val c = (let n = of_char c :: nat
     in if 48 \<le> n \<and> n \<le> 57 then Some (n - 48) else if 97 \<le> n \<and> n \<le> 102 then Some (n - 87) else None)"

definition simple_escape :: "char \<Rightarrow> char option" where
  "simple_escape c =
     (if c = CHR 0x22 then Some (CHR 0x22) else if c = CHR 0x5C then Some (CHR 0x5C)
      else if c = CHR ''n'' then Some (CHR 0x0A) else if c = CHR ''r'' then Some (CHR 0x0D)
      else if c = CHR ''t'' then Some (CHR 0x09) else if c = CHR ''f'' then Some (CHR 0x0C)
      else if c = CHR ''b'' then Some (CHR 0x08) else None)"

fun read_escape :: "string \<Rightarrow> (char \<times> string) option" where
  "read_escape (u # z1 # z2 # h # l # r) =
     (if u = CHR ''u'' \<and> z1 = CHR ''0'' \<and> z2 = CHR ''0''
      then (case (hex_val h, hex_val l) of (Some a, Some b) \<Rightarrow> Some (char_of (16 * a + b), r) | _ \<Rightarrow> None)
      else map_option (\<lambda>c. (c, z1 # z2 # h # l # r)) (simple_escape u))"
| "read_escape (u # r) = map_option (\<lambda>c. (c, r)) (simple_escape u)"
| "read_escape [] = None"

lemma read_escape_shorter: "read_escape s = Some (c, r) \<Longrightarrow> length r < length s"
  by (cases s rule: read_escape.cases) (auto split: if_splits option.splits)

function read_string :: "string \<Rightarrow> (string \<times> string) option" where
  "read_string [] = None"
| "read_string (c # r) =
     (if c = CHR 0x22 then Some ([], r)
      else if c = CHR 0x5C then
        (case read_escape r of None \<Rightarrow> None
         | Some (d, r') \<Rightarrow> map_option (\<lambda>(t, q). (d # t, q)) (read_string r'))
      else if of_char c < (32 :: nat) then None
      else map_option (\<lambda>(t, q). (c # t, q)) (read_string r))"
  by pat_completeness auto
termination
  by (relation "measure length") (auto dest: read_escape_shorter)

fun read_word :: "string \<Rightarrow> string \<Rightarrow> string option" where
  "read_word [] s = Some s"
| "read_word (w # ws) [] = None"
| "read_word (w # ws) (c # r) = (if w = c then read_word ws r else None)"

definition read_nat :: "string \<Rightarrow> (nat \<times> string) option" where
  "read_nat s =
     (let ds = takeWhile is_digit s; n = nat_of_digs ds
      in if digs n = ds then Some (n, dropWhile is_digit s) else None)"

fun read_value :: "nat \<Rightarrow> string \<Rightarrow> (json \<times> string) option"
  and read_elements :: "nat \<Rightarrow> string \<Rightarrow> (json list \<times> string) option"
  and read_members :: "nat \<Rightarrow> string \<Rightarrow> ((string \<times> json) list \<times> string) option" where
  "read_value 0 s = None"
| "read_value (Suc fuel) [] = None"
| "read_value (Suc fuel) (c # r) =
     (if c = CHR 0x22 then map_option (\<lambda>(t, q). (JStr t, q)) (read_string r)
      else if c = CHR ''['' then
        (case r of [] \<Rightarrow> None
         | d # q \<Rightarrow> if d = CHR '']'' then Some (JList [], q)
                   else map_option (\<lambda>(vs, q). (JList vs, q)) (read_elements fuel r))
      else if c = CHR ''{'' then
        (case r of [] \<Rightarrow> None
         | d # q \<Rightarrow> if d = CHR ''}'' then Some (JObj [], q)
                   else map_option (\<lambda>(kvs, q). (JObj kvs, q)) (read_members fuel r))
      else if c = CHR ''n'' then map_option (\<lambda>q. (JNull, q)) (read_word ''ull'' r)
      else if c = CHR ''t'' then map_option (\<lambda>q. (JBool True, q)) (read_word ''rue'' r)
      else if c = CHR ''f'' then map_option (\<lambda>q. (JBool False, q)) (read_word ''alse'' r)
      else if c = CHR ''-'' then map_option (\<lambda>(n, q). (JInt (- int n), q)) (read_nat r)
      else map_option (\<lambda>(n, q). (JInt (int n), q)) (read_nat (c # r)))"
| "read_elements 0 s = None"
| "read_elements (Suc fuel) s =
     (case read_value fuel s of
        Some (v, d # q) \<Rightarrow>
          if d = CHR '']'' then Some ([v], q)
          else if d = CHR '','' then map_option (\<lambda>(vs, q'). (v # vs, q')) (read_elements fuel q)
          else None
      | _ \<Rightarrow> None)"
| "read_members 0 s = None"
| "read_members (Suc fuel) [] = None"
| "read_members (Suc fuel) (c # r) =
     (if c \<noteq> CHR 0x22 then None
      else case read_string r of
        Some (k, d # q) \<Rightarrow>
          if d \<noteq> CHR '':'' then None
          else (case read_value fuel q of
              Some (v, d' # q') \<Rightarrow>
                if d' = CHR ''}'' then Some ([(k, v)], q')
                else if d' = CHR '','' then map_option (\<lambda>(kvs, q''). ((k, v) # kvs, q'')) (read_members fuel q')
                else None
            | _ \<Rightarrow> None)
      | _ \<Rightarrow> None)"

definition json_loads :: "string \<Rightarrow> json option" where
  "json_loads s = (case read_value (Suc (length s)) s of Some (v, []) \<Rightarrow> Some v | _ \<Rightarrow> None)"

section \<open>Reading back what was written\<close>

lemma hex_val_digit: "d < 16 \<Longrightarrow> hex_val (hex_digit d) = Some d"
  by (auto simp: hex_val_def hex_digit_def Let_def)

lemma read_escape_simple: "u \<noteq> CHR ''u'' \<Longrightarrow> read_escape (u # r) = map_option (\<lambda>c. (c, r)) (simple_escape u)"
  by (cases "u # r" rule: read_escape.cases) auto

lemma read_escaped_char:
  "read_string (json_escape c @ r) = map_option (\<lambda>(t, q). (c # t, q)) (read_string r)"
proof -
  let ?n = "of_char c :: nat"
  have c: "c = char_of ?n" by simp
  have named: "c = d" if "?n = of_char d" for d using that by (simp only: of_char_eq_iff)
  show ?thesis
  proof (cases "?n = 34 \<or> ?n = 92 \<or> ?n = 10 \<or> ?n = 13 \<or> ?n = 9 \<or> ?n = 12 \<or> ?n = 8")
    case True
    then have "c = CHR 0x22 \<or> c = CHR 0x5C \<or> c = CHR 0x0A \<or> c = CHR 0x0D \<or> c = CHR 0x09 \<or> c = CHR 0x0C \<or> c = CHR 0x08"
      using named [of "CHR 0x22"] named [of "CHR 0x5C"] named [of "CHR 0x0A"] named [of "CHR 0x0D"]
        named [of "CHR 0x09"] named [of "CHR 0x0C"] named [of "CHR 0x08"] by auto
    then show ?thesis
      by (elim disjE) (simp_all add: json_escape_def simple_escape_def read_escape_simple)
  next
    case False
    show ?thesis
    proof (cases "?n < 32")
      case True
      then have "16 * (?n div 16) + ?n mod 16 = ?n" "?n div 16 < 16" "?n mod 16 < 16" by simp_all
      then show ?thesis using True False by (simp add: json_escape_def Let_def hex_val_digit)
    next
      case big: False
      then have "c \<noteq> CHR 0x22" "c \<noteq> CHR 0x5C" using False by auto
      then show ?thesis using big False by (simp add: json_escape_def Let_def)
    qed
  qed
qed

lemma read_quoted: "read_string (concat (map json_escape s) @ CHR 0x22 # r) = Some (s, r)"
  by (induction s) (simp_all add: read_escaped_char)

lemma read_word_append [simp]: "read_word w (w @ r) = Some r"
  by (induction w) simp_all

definition stops :: "string \<Rightarrow> bool" where
  "stops r = (r = [] \<or> \<not> is_digit (hd r))"

lemma stops_takeWhile: "stops r \<Longrightarrow> takeWhile is_digit r = []"
  by (cases r) (simp_all add: stops_def)

lemma read_nat_digs: "stops r \<Longrightarrow> read_nat (digs n @ r) = Some (n, r)"
  using takeWhile_digits [OF digs_digits stops_takeWhile, of r n] by (simp add: read_nat_def Let_def)

lemma digs_Cons: obtains d ds where "digs n = d # ds" "is_digit d"
  using digs_nonempty [of n] digs_digits [of n] by (cases "digs n") auto

lemma stops_marks [simp]: "stops (CHR '','' # r)" "stops (CHR '']'' # r)" "stops (CHR ''}'' # r)" "stops []"
  by (simp_all add: stops_def is_digit_def Let_def)

lemma json_dumps_head: "\<exists>c r. json_dumps v = c # r \<and> c \<noteq> CHR '']''"
proof (cases v)
  case (JInt n)
  show ?thesis
    by (rule digs_Cons [of "nat n"]) (auto simp: JInt is_digit_def Let_def)
qed (simp_all add: json_quote_def)

lemma read_int: "stops r \<Longrightarrow> read_value (Suc fuel) (json_dumps (JInt n) @ r) = Some (JInt n, r)"
proof (cases "n < 0")
  case True
  moreover assume "stops r"
  ultimately show ?thesis by (simp add: read_nat_digs)
next
  case False
  assume r: "stops r"
  obtain d ds where d: "digs (nat n) = d # ds" "is_digit d" by (rule digs_Cons)
  have "read_nat (d # ds @ r) = Some (nat n, r)" using read_nat_digs [OF r, of "nat n"] by (simp add: d(1))
  moreover have "d \<noteq> CHR 0x22" "d \<noteq> CHR ''[''" "d \<noteq> CHR ''{''" "d \<noteq> CHR ''n''" "d \<noteq> CHR ''t''"
      "d \<noteq> CHR ''f''" "d \<noteq> CHR ''-''"
    using d(2) by (auto simp: is_digit_def Let_def)
  ultimately show ?thesis using False by (simp add: d(1))
qed

definition reads_back :: "json \<Rightarrow> bool" where
  "reads_back v = (\<forall>fuel r. length (json_dumps v) \<le> fuel \<longrightarrow> stops r \<longrightarrow>
     read_value (Suc fuel) (json_dumps v @ r) = Some (v, r))"

lemma read_elements_back:
  assumes "\<And>v. v \<in> set vs \<Longrightarrow> reads_back v" "vs \<noteq> []"
    "length (json_join (map json_dumps vs)) \<le> fuel"
  shows "read_elements (Suc (Suc fuel)) (json_join (map json_dumps vs) @ CHR '']'' # r) = Some (vs, r)"
  using assms
proof (induction vs arbitrary: fuel rule: induct_list012)
  case (2 v)
  then show ?case by (simp add: reads_back_def)
next
  case (3 v w vs)
  let ?rest = "json_join (map json_dumps (w # vs))"
  have v: "read_value (Suc fuel) (json_dumps v @ CHR '','' # ?rest @ CHR '']'' # r) =
      Some (v, CHR '','' # ?rest @ CHR '']'' # r)"
    using "3.prems" by (simp add: reads_back_def)
  obtain f where f: "fuel = Suc f" using "3.prems"(3) by (cases fuel) auto
  have "read_elements (Suc (Suc f)) (?rest @ CHR '']'' # r) = Some (w # vs, r)"
    using "3.prems" f by (intro "3.IH"(2)) auto
  then show ?case using v f by simp
qed simp

lemma read_members_back:
  assumes "\<And>kv. kv \<in> set kvs \<Longrightarrow> reads_back (snd kv)" "kvs \<noteq> []"
    "length (json_join (map (\<lambda>kv. json_quote (fst kv) @ CHR '':'' # json_dumps (snd kv)) kvs)) \<le> fuel"
  shows "read_members (Suc (Suc fuel))
      (json_join (map (\<lambda>kv. json_quote (fst kv) @ CHR '':'' # json_dumps (snd kv)) kvs) @ CHR ''}'' # r) = Some (kvs, r)"
  using assms
proof (induction kvs arbitrary: fuel rule: induct_list012)
  case (2 kv)
  then show ?case by (cases kv) (simp add: reads_back_def json_quote_def read_quoted)
next
  case (3 kv kv' kvs)
  let ?rest = "json_join (map (\<lambda>kv. json_quote (fst kv) @ CHR '':'' # json_dumps (snd kv)) (kv' # kvs))"
  have v: "read_value (Suc fuel) (json_dumps (snd kv) @ CHR '','' # ?rest @ CHR ''}'' # r) =
      Some (snd kv, CHR '','' # ?rest @ CHR ''}'' # r)"
    using "3.prems" by (simp add: reads_back_def)
  obtain f where f: "fuel = Suc f" using "3.prems"(3) by (cases fuel) auto
  have "read_members (Suc (Suc f)) (?rest @ CHR ''}'' # r) = Some (kv' # kvs, r)"
    using "3.prems" f by (intro "3.IH"(2)) auto
  then show ?case using v f by (cases kv) (simp add: json_quote_def read_quoted)
qed simp

lemma json_join_head: "xs \<noteq> [] \<Longrightarrow> hd xs \<noteq> [] \<Longrightarrow> \<exists>r. json_join xs = hd (hd xs) # r"
  by (cases xs rule: json_join.cases; cases "hd xs") auto

lemma dumps_reads_back: "reads_back v"
proof (induction v rule: json_dumps.induct)
  case (4 s)
  show ?case by (simp add: reads_back_def json_quote_def read_quoted)
next
  case (5 vs)
  show ?case
    unfolding reads_back_def
  proof (intro allI impI)
    fix fuel r assume len: "length (json_dumps (JList vs)) \<le> fuel" and "stops r"
    show "read_value (Suc fuel) (json_dumps (JList vs) @ r) = Some (JList vs, r)"
    proof (cases "vs = []")
      case False
      obtain c t where ct: "json_dumps (hd vs) = c # t" "c \<noteq> CHR '']''" using json_dumps_head by blast
      obtain q where q: "json_join (map json_dumps vs) = c # q"
        using json_join_head [of "map json_dumps vs"] False ct by (auto simp: hd_map)
      obtain f where "fuel = Suc (Suc f)" "length (json_join (map json_dumps vs)) \<le> f"
        using len by (cases fuel; cases "fuel - 1") auto
      then show ?thesis
        using read_elements_back [of vs f r] "5.IH" False ct q by simp
    qed simp
  qed
next
  case (6 kvs)
  let ?m = "map (\<lambda>kv. json_quote (fst kv) @ CHR '':'' # json_dumps (snd kv)) kvs"
  show ?case
    unfolding reads_back_def
  proof (intro allI impI)
    fix fuel r assume len: "length (json_dumps (JObj kvs)) \<le> fuel" and "stops r"
    show "read_value (Suc fuel) (json_dumps (JObj kvs) @ r) = Some (JObj kvs, r)"
    proof (cases "kvs = []")
      case False
      obtain q where q: "json_join ?m = CHR 0x22 # q"
        using json_join_head [of ?m] False by (auto simp: hd_map json_quote_def)
      obtain f where "fuel = Suc (Suc f)" "length (json_join ?m) \<le> f"
        using len by (cases fuel; cases "fuel - 1") auto
      then show ?thesis
        using read_members_back [of kvs f r] "6.IH" False q by simp
    qed simp
  qed
qed (auto simp: reads_back_def read_int simp del: json_dumps.simps(3))

text \<open>\<open>json.loads(canonical_json_bytes(v))\<close> is \<open>v\<close> with its keys in order.\<close>

lemma json_loads_dumps: "json_loads (json_dumps v) = Some v"
proof -
  have "read_value (Suc (length (json_dumps v))) (json_dumps v @ []) = Some (v, [])"
    using dumps_reads_back [of v] unfolding reads_back_def by (meson order_refl stops_marks(4))
  then show ?thesis by (simp add: json_loads_def)
qed

lemma json_loads_canonical: "json_loads (canonical_json_bytes v) = Some (json_sort v)"
  by (simp add: canonical_json_bytes_def json_loads_dumps)

lemma canonical_inject: "canonical_json_bytes v = canonical_json_bytes w \<Longrightarrow> json_sort v = json_sort w"
  by (metis json_loads_canonical option.inject)

lemma json_sort_idem: "json_sort (json_sort v) = json_sort v"
proof (induction v rule: json_sort.induct)
  case (2 kvs)
  let ?s = "sort_key fst (map (\<lambda>kv. (fst kv, json_sort (snd kv))) kvs)"
  have "map (\<lambda>kv. (fst kv, json_sort (snd kv))) ?s = ?s"
    using "2.IH" by (intro map_idI) auto
  then show ?case by (simp add: sort_key_id_if_sorted)
qed simp_all

lemma canonical_of_loaded:
  "json_loads (canonical_json_bytes v) = Some w \<Longrightarrow> canonical_json_bytes w = canonical_json_bytes v"
  unfolding json_loads_canonical by (auto simp: canonical_json_bytes_def json_sort_idem)

section \<open>Dictionaries in canonical form\<close>

lemma distinct_sort_key: "distinct (map f (sort_key f xs)) \<longleftrightarrow> distinct (map f xs)"
  by (rule mset_eq_imp_distinct_iff) (metis mset_map mset_sort)

lemma json_get_sorted:
  assumes "distinct (map fst kvs)"
  shows "json_get (json_sort (JObj kvs)) k = map_option json_sort (map_of kvs k)"
proof -
  let ?m = "map (\<lambda>kv. (fst kv, json_sort (snd kv))) kvs"
  have "distinct (map fst ?m)" using assms by (simp add: comp_def)
  moreover have "distinct (map fst (sort_key fst ?m))"
    using \<open>distinct (map fst ?m)\<close> by (simp add: distinct_sort_key)
  ultimately have "map_of (sort_key fst ?m) = map_of ?m" by (simp add: map_of_inject_set)
  moreover have "map_of ?m k = map_option json_sort (map_of kvs k)" by (induction kvs) auto
  ultimately show ?thesis by simp
qed

lemma json_get_canonical:
  assumes "canonical_json_bytes (JObj kvs) = canonical_json_bytes (JObj lvs)" "distinct (map fst kvs)" "distinct (map fst lvs)"
  shows "map_option json_sort (map_of kvs k) = map_option json_sort (map_of lvs k)"
  using canonical_inject [OF assms(1)] json_get_sorted [OF assms(2), of k] json_get_sorted [OF assms(3), of k] by metis

end
