(* ===== verification/Permits.thy ===== *)
theory Permits
  imports Canonical_Json Controls
begin

text \<open>
  \<open>execution/models.py\<close>: the immutable contracts of one bounded debit vertical.
  A frozen dataclass is a record; its \<open>__post_init__\<close> is a list of guards, in
  order, each with the message of the \<open>ValueError\<close> it raises. SHA-256 is a
  parameter \<open>H\<close> of everything that hashes.
\<close>

type_synonym hash_function = "string \<Rightarrow> string"
type_synonym value_error = string

section \<open>Dates and OCC symbols\<close>

type_synonym date = "int \<times> int \<times> int"

definition leap_year :: "int \<Rightarrow> bool" where
  "leap_year y = (y mod 4 = 0 \<and> (y mod 100 \<noteq> 0 \<or> y mod 400 = 0))"

definition days_in_month :: "int \<Rightarrow> int \<Rightarrow> int" where
  "days_in_month y m =
     (if m = 2 then (if leap_year y then 29 else 28) else if m \<in> {4, 6, 9, 11} then 30 else 31)"

definition valid_date :: "date \<Rightarrow> bool" where
  "valid_date d = (case d of (y, m, dd) \<Rightarrow> 1 \<le> y \<and> y \<le> 9999 \<and> 1 \<le> m \<and> m \<le> 12 \<and> 1 \<le> dd \<and> dd \<le> days_in_month y m)"

definition is_upper_letter :: "char \<Rightarrow> bool" where
  "is_upper_letter c = (let n = of_char c :: nat in 65 \<le> n \<and> n \<le> 90)"

datatype option_type = CALL | PUT
datatype vertical_type = BULL_CALL | BEAR_PUT
datatype option_side = BUY | SELL
datatype position_intent = BUY_TO_OPEN | BUY_TO_CLOSE | SELL_TO_OPEN | SELL_TO_CLOSE

fun option_type_value :: "option_type \<Rightarrow> string" where
  "option_type_value CALL = ''CALL''"
| "option_type_value PUT = ''PUT''"

fun vertical_type_value :: "vertical_type \<Rightarrow> string" where
  "vertical_type_value BULL_CALL = ''BULL_CALL''"
| "vertical_type_value BEAR_PUT = ''BEAR_PUT''"

fun side_value :: "option_side \<Rightarrow> string" where
  "side_value BUY = ''buy''"
| "side_value SELL = ''sell''"

fun intent_value :: "position_intent \<Rightarrow> string" where
  "intent_value BUY_TO_OPEN = ''buy_to_open''"
| "intent_value BUY_TO_CLOSE = ''buy_to_close''"
| "intent_value SELL_TO_OPEN = ''sell_to_open''"
| "intent_value SELL_TO_CLOSE = ''sell_to_close''"

record occ_symbol =
  occ_root :: string
  occ_expiry :: date
  occ_type :: option_type
  occ_strike :: nat

text \<open>
  The regular expression \<open>_OCC_SYMBOL\<close>: one to six capitals, six digits, C or P,
  eight digits. The fixed-width tail makes the split unique.
\<close>

definition parse_occ :: "string \<Rightarrow> occ_symbol option" where
  "parse_occ s =
     (let n = length s; root = take (n - 15) s; tail = drop (n - 15) s;
          day = take 6 tail; kind = tail ! 6; strike = drop 7 tail;
          num = (\<lambda>t. int (nat_of_digs t))
      in if n < 16 \<or> n > 21 \<or> \<not> list_all is_upper_letter root \<or> \<not> list_all is_digit day
            \<or> kind \<notin> {CHR ''C'', CHR ''P''} \<or> \<not> list_all is_digit strike
         then None
         else Some \<lparr>occ_root = root,
                    occ_expiry = (2000 + num (take 2 day), num (take 2 (drop 2 day)), num (drop 4 day)),
                    occ_type = (if kind = CHR ''C'' then CALL else PUT),
                    occ_strike = nat_of_digs strike\<rparr>)"

section \<open>Legs\<close>

record option_leg =
  leg_symbol :: string
  leg_underlying :: string
  leg_expiry :: date
  leg_type :: option_type
  leg_strike :: dec
  leg_side :: option_side
  leg_intent :: position_intent
  leg_ratio :: int

definition option_leg_checks :: "option_leg \<Rightarrow> value_error option" where
  "option_leg_checks leg =
     (case first_reject
        [(leg_symbol leg \<noteq> upper (strip (leg_symbol leg)), ''option symbol must be normalized uppercase OCC format''),
         (leg_underlying leg \<noteq> upper (strip (leg_underlying leg)), ''underlying must be normalized uppercase''),
         (leg_ratio leg \<noteq> 1, ''P0 supports ratio_qty=1 only''),
         (\<not> is_finite (leg_strike leg) \<or> dec_le (leg_strike leg) dec_zero, ''strike must be finite and positive'')]
      of Some e \<Rightarrow> Some e
       | None \<Rightarrow>
          (case parse_occ (leg_symbol leg) of
             None \<Rightarrow> Some ''option symbol must use standard compact OCC format''
           | Some occ \<Rightarrow> first_reject
               [(\<not> valid_date (occ_expiry occ), ''day is out of range for month''),
                (occ_root occ \<noteq> leg_underlying leg, ''OCC symbol underlying does not match leg underlying''),
                (occ_expiry occ \<noteq> leg_expiry leg, ''OCC symbol expiry does not match leg expiry''),
                (occ_type occ \<noteq> leg_type leg, ''OCC symbol option type does not match leg option type''),
                (case dec_div (Fin (int (occ_strike occ)) 0) (Fin 1000 0) of
                   None \<Rightarrow> True | Some k \<Rightarrow> \<not> dec_eq k (leg_strike leg),
                 ''OCC symbol strike does not match leg strike'')]))"

section \<open>The opening permit\<close>

record debit_vertical_permit =
  bridge_authorization :: bool
  permit_id :: string
  event_run_id :: string
  policy_sha256 :: string
  snapshot_sha256 :: string
  decision_sha256 :: string
  evidence_sha256 :: string
  protocol_sha256 :: string
  execution_protocol_sha256 :: string
  issued_at :: datetime
  expires_at :: datetime
  vertical_type :: vertical_type
  quantity :: int
  limit_price :: dec
  long_leg :: option_leg
  short_leg :: option_leg

fun dec_exponent :: "dec \<Rightarrow> int" where
  "dec_exponent (Fin m e) = e"
| "dec_exponent _ = 0"

definition money_checks :: "dec \<Rightarrow> (bool \<times> value_error) list" where
  "money_checks v =
     [(\<not> is_finite v \<or> dec_le v dec_zero, ''must be finite and positive''),
      (dec_exponent v < -2, ''cannot use more than two decimal places'')]"

definition vertical_width :: "debit_vertical_permit \<Rightarrow> dec" where
  "vertical_width p = dec_abs (dec_sub (leg_strike (short_leg p)) (leg_strike (long_leg p)))"

definition permit_checks :: "debit_vertical_permit \<Rightarrow> value_error option" where
  "permit_checks p = first_reject
     ([(\<not> bridge_authorization p, ''opening permits must come from the research decision bridge''),
       (strip (permit_id p) = [] \<or> strip (event_run_id p) = [], ''permit_id and event_run_id must be non-empty''),
       (\<not> is_sha256 (policy_sha256 p), ''policy_sha256''),
       (\<not> is_sha256 (snapshot_sha256 p), ''snapshot_sha256''),
       (\<not> is_sha256 (decision_sha256 p), ''decision_sha256''),
       (\<not> is_sha256 (evidence_sha256 p), ''evidence_sha256''),
       (\<not> is_sha256 (protocol_sha256 p), ''protocol_sha256''),
       (\<not> is_sha256 (execution_protocol_sha256 p), ''execution_protocol_sha256''),
       (\<not> aware (issued_at p), ''issued_at''),
       (\<not> aware (expires_at p), ''expires_at''),
       (instant (expires_at p) \<le> instant (issued_at p), ''expires_at must be after issued_at''),
       (quantity p \<noteq> 1, ''P0 permits exactly one spread package'')]
      @ money_checks (limit_price p)
      @ [(leg_side (long_leg p) \<noteq> BUY \<or> leg_side (short_leg p) \<noteq> SELL, ''legs must be ordered as long BUY then short SELL''),
         (leg_intent (long_leg p) \<noteq> BUY_TO_OPEN, ''long opening leg must use buy_to_open''),
         (leg_intent (short_leg p) \<noteq> SELL_TO_OPEN, ''short opening leg must use sell_to_open''),
         (leg_underlying (long_leg p) \<noteq> leg_underlying (short_leg p), ''vertical legs must share one underlying''),
         (leg_expiry (long_leg p) \<noteq> leg_expiry (short_leg p), ''vertical legs must share one expiry''),
         (leg_type (long_leg p) \<noteq> leg_type (short_leg p), ''vertical legs must share one option type'')]
      @ (if vertical_type p = BULL_CALL
         then [(leg_type (long_leg p) \<noteq> CALL, ''bull call vertical requires call contracts''),
               (dec_le (leg_strike (short_leg p)) (leg_strike (long_leg p)), ''bull call long strike must be below short strike'')]
         else [(leg_type (long_leg p) \<noteq> PUT, ''bear put vertical requires put contracts''),
               (dec_le (leg_strike (long_leg p)) (leg_strike (short_leg p)), ''bear put long strike must be above short strike'')])
      @ [(dec_le (vertical_width p) (limit_price p), ''limit_price must be below the vertical width'')])"

text \<open>
  A value of the dataclass exists only when its own \<open>__post_init__\<close> and those of its
  two legs have passed.
\<close>

definition permit_ok :: "debit_vertical_permit \<Rightarrow> bool" where
  "permit_ok p = (permit_checks p = None \<and> option_leg_checks (long_leg p) = None \<and> option_leg_checks (short_leg p) = None)"

definition permit_underlying :: "debit_vertical_permit \<Rightarrow> string" where
  "permit_underlying p = leg_underlying (long_leg p)"

definition maximum_loss :: "debit_vertical_permit \<Rightarrow> dec" where
  "maximum_loss p = dec_mul (limit_price p) (Fin 100 0)"

section \<open>Identity of a permit\<close>

definition leg_payload :: "option_leg \<Rightarrow> json" where
  "leg_payload leg = JObj
     [(''symbol'', JStr (leg_symbol leg)), (''underlying'', JStr (leg_underlying leg)),
      (''expiry'', JStr (date_text (leg_expiry leg))), (''option_type'', JStr (option_type_value (leg_type leg))),
      (''strike'', JStr (decimal_text (leg_strike leg))), (''side'', JStr (side_value (leg_side leg))),
      (''position_intent'', JStr (intent_value (leg_intent leg))), (''ratio_qty'', JInt (leg_ratio leg))]"

definition debit_vertical_permit_authorization_payload :: "debit_vertical_permit \<Rightarrow> (string \<times> json) list" where
  "debit_vertical_permit_authorization_payload p =
     [(''schema'', JStr ''ringdown.paper_execution_permit''), (''schema_version'', JInt 1),
      (''event_run_id'', JStr (event_run_id p)), (''decision_sha256'', JStr (decision_sha256 p)),
      (''evidence_sha256'', JStr (evidence_sha256 p)), (''input_snapshot_sha256'', JStr (snapshot_sha256 p)),
      (''protocol_sha256'', JStr (protocol_sha256 p)),
      (''execution_protocol_sha256'', JStr (execution_protocol_sha256 p)),
      (''policy_sha256'', JStr (policy_sha256 p)), (''issued_at'', JStr (isoformat (issued_at p))),
      (''expires_at'', JStr (isoformat (expires_at p))),
      (''vertical_type'', JStr (vertical_type_value (vertical_type p))), (''quantity'', JInt (quantity p)),
      (''limit_price'', JStr (decimal_text (limit_price p))), (''run_mode'', JStr ''PAPER''),
      (''data_class'', JStr ''INDICATIVE_DATA''),
      (''legs'', JList [leg_payload (long_leg p), leg_payload (short_leg p)])]"

definition debit_vertical_permit_payload :: "debit_vertical_permit \<Rightarrow> json" where
  "debit_vertical_permit_payload p =
     JObj ((''permit_id'', JStr (permit_id p)) # debit_vertical_permit_authorization_payload p)"

definition debit_vertical_permit_bytes :: "debit_vertical_permit \<Rightarrow> string" where
  "debit_vertical_permit_bytes p = canonical_json_bytes (debit_vertical_permit_payload p)"

definition paper_execution_permit_id :: "hash_function \<Rightarrow> string \<Rightarrow> string" where
  "paper_execution_permit_id H authorization_sha256 =
     ''rd-permit-'' @ take 32 (H (canonical_json_bytes (JObj
        [(''schema'', JStr ''ringdown.paper_execution_permit_identity''), (''schema_version'', JInt 1),
         (''authorization_sha256'', JStr authorization_sha256)])))"

definition debit_vertical_permit_id :: "hash_function \<Rightarrow> debit_vertical_permit \<Rightarrow> string" where
  "debit_vertical_permit_id H p =
     paper_execution_permit_id H (H (canonical_json_bytes (JObj (debit_vertical_permit_authorization_payload p))))"

section \<open>The close permit\<close>

record close_permit =
  cp_permit_id :: string
  cp_open_permit_id :: string
  cp_event_run_id :: string
  cp_policy_sha256 :: string
  cp_snapshot_sha256 :: string
  cp_issued_at :: datetime
  cp_expires_at :: datetime
  cp_limit_price :: dec

definition close_permit_checks :: "close_permit \<Rightarrow> value_error option" where
  "close_permit_checks c = first_reject
     [(strip (cp_permit_id c) = [] \<or> strip (cp_open_permit_id c) = [] \<or> strip (cp_event_run_id c) = [],
        ''permit_id, open_permit_id, and event_run_id must be non-empty''),
      (\<not> is_sha256 (cp_policy_sha256 c), ''policy_sha256''),
      (\<not> is_sha256 (cp_snapshot_sha256 c), ''snapshot_sha256''),
      (\<not> aware (cp_issued_at c), ''issued_at''),
      (\<not> aware (cp_expires_at c), ''expires_at''),
      (instant (cp_expires_at c) \<le> instant (cp_issued_at c), ''expires_at must be after issued_at''),
      (\<not> is_finite (cp_limit_price c) \<or> dec_le dec_zero (cp_limit_price c), ''close limit_price must be a finite negative credit''),
      (dec_exponent (cp_limit_price c) < -2, ''limit_price cannot use more than two decimal places'')]"

section \<open>What a well-formed permit guarantees\<close>

lemma permit_checks_None:
  assumes "permit_checks p = None"
  shows "quantity p = 1" "is_finite (limit_price p)" "0 < dval (limit_price p)" "dec_exponent (limit_price p) \<ge> -2"
    "leg_underlying (short_leg p) = leg_underlying (long_leg p)" "leg_expiry (short_leg p) = leg_expiry (long_leg p)"
    "\<not> dec_le (vertical_width p) (limit_price p)" "is_sha256 (policy_sha256 p)" "is_sha256 (decision_sha256 p)"
    "is_sha256 (snapshot_sha256 p)"
  using assms by (simp_all add: permit_checks_def money_checks_def first_reject_append dec_order split: option.splits)

lemma option_leg_checks_None:
  assumes "option_leg_checks leg = None"
  shows "is_finite (leg_strike leg)" "0 < dval (leg_strike leg)"
    "\<exists>occ. parse_occ (leg_symbol leg) = Some occ \<and> occ_root occ = leg_underlying leg
       \<and> occ_expiry occ = leg_expiry leg \<and> occ_type occ = leg_type leg"
proof -
  have "first_reject
        [(leg_symbol leg \<noteq> upper (strip (leg_symbol leg)), ''option symbol must be normalized uppercase OCC format''),
         (leg_underlying leg \<noteq> upper (strip (leg_underlying leg)), ''underlying must be normalized uppercase''),
         (leg_ratio leg \<noteq> 1, ''P0 supports ratio_qty=1 only''),
         (\<not> is_finite (leg_strike leg) \<or> dec_le (leg_strike leg) dec_zero, ''strike must be finite and positive'')] = None"
    using assms by (auto simp: option_leg_checks_def split: option.splits)
  then show "is_finite (leg_strike leg)" "0 < dval (leg_strike leg)"
    by (auto simp: first_reject_None dec_order)
  show "\<exists>occ. parse_occ (leg_symbol leg) = Some occ \<and> occ_root occ = leg_underlying leg
       \<and> occ_expiry occ = leg_expiry leg \<and> occ_type occ = leg_type leg"
    using assms by (auto simp: option_leg_checks_def first_reject_None split: option.splits)
qed

lemma money_mantissa:
  assumes "is_finite v" "dec_exponent v \<ge> -2" "0 < dval v"
  obtains m e where "v = Fin m e" "-2 \<le> e" "0 < m"
  using assms dval_nonneg_iff by (cases v) (auto simp: less_le)

lemma maximum_loss_positive:
  assumes "is_finite (limit_price p)" "0 < dval (limit_price p)"
  shows "is_finite (maximum_loss p)" "0 < dval (maximum_loss p)"
proof -
  obtain m e where m: "limit_price p = Fin m e" using assms(1) by (cases "limit_price p") auto
  then have "0 < m" using assms(2) dval_nonneg_iff [of m e] by (cases "m = 0") auto
  then show "is_finite (maximum_loss p)" "0 < dval (maximum_loss p)"
    using dfix_pos [of "m * 100" e] by (simp_all add: maximum_loss_def m del: dval.simps)
qed

section \<open>A sample permit\<close>

definition const_hash :: hash_function where "const_hash s = replicate 64 (CHR ''a'')"

definition sample_leg :: "string \<Rightarrow> int \<Rightarrow> option_side \<Rightarrow> position_intent \<Rightarrow> option_leg" where
  "sample_leg symbol strike side intent =
     \<lparr>leg_symbol = symbol, leg_underlying = ''SPY'', leg_expiry = (2026, 1, 16), leg_type = CALL, leg_strike = Fin strike 0,
      leg_side = side, leg_intent = intent, leg_ratio = 1\<rparr>"

definition sample_permit :: debit_vertical_permit where
  "sample_permit =
     \<lparr>bridge_authorization = True, permit_id = ''rd-permit-'' @ replicate 32 (CHR ''a''), event_run_id = ''ev-1'',
      policy_sha256 = replicate 64 (CHR ''c''), snapshot_sha256 = replicate 64 (CHR ''b''),
      decision_sha256 = replicate 64 (CHR ''a''), evidence_sha256 = replicate 64 (CHR ''1''),
      protocol_sha256 = replicate 64 (CHR ''2''), execution_protocol_sha256 = replicate 64 (CHR ''3''),
      issued_at = utc_at 0, expires_at = utc_at 60000000, vertical_type = BULL_CALL, quantity = 1,
      limit_price = Fin 125 (-2),
      long_leg = sample_leg ''SPY260116C00500000'' 500 BUY BUY_TO_OPEN,
      short_leg = sample_leg ''SPY260116C00505000'' 505 SELL SELL_TO_OPEN\<rparr>"

lemma sample_strikes:
  "dec_div (Fin 500000 0) (Fin 1000 0) = Some (Fin 500 0)" "dec_div (Fin 505000 0) (Fin 1000 0) = Some (Fin 505 0)"
  by (simp_all add: ndigits.simps prec_def Let_def strip_zeros_numeral dfix_exact)

lemma sample_symbols:
  "parse_occ ''SPY260116C00500000'' = Some \<lparr>occ_root = ''SPY'', occ_expiry = (2026, 1, 16), occ_type = CALL, occ_strike = 500000\<rparr>"
  "parse_occ ''SPY260116C00505000'' = Some \<lparr>occ_root = ''SPY'', occ_expiry = (2026, 1, 16), occ_type = CALL, occ_strike = 505000\<rparr>"
  by (simp_all add: parse_occ_def Let_def nat_of_digs_def digit_val_def is_upper_letter_def is_digit_def)

lemma sample_texts:
  "upper (strip ''SPY260116C00500000'') = ''SPY260116C00500000''" "upper (strip ''SPY260116C00505000'') = ''SPY260116C00505000''"
  "upper (strip ''SPY'') = ''SPY''" "valid_date (2026, 1, 16)"
  by code_simp+

lemma sample_permit_ok: "permit_ok sample_permit"
proof -
  have "permit_checks sample_permit = None" by code_simp
  then show ?thesis
    by (simp add: permit_ok_def sample_permit_def sample_leg_def option_leg_checks_def sample_texts sample_symbols sample_strikes
        aligned_def del: dec_div.simps)
qed

section \<open>The identity binds the authorization\<close>

lemma authorization_keys: "distinct (map fst (debit_vertical_permit_authorization_payload p))"
  by (simp add: debit_vertical_permit_authorization_payload_def)

text \<open>
  What the two sides of an equal identity are compared on: the text that is hashed first,
  the text that carries its digest and is hashed second, and the terms of the authorization.
\<close>

definition authorization_text :: "debit_vertical_permit \<Rightarrow> string" where
  "authorization_text p = canonical_json_bytes (JObj (debit_vertical_permit_authorization_payload p))"

definition identity_text :: "hash_function \<Rightarrow> debit_vertical_permit \<Rightarrow> string" where
  "identity_text H p = canonical_json_bytes (JObj
     [(''schema'', JStr ''ringdown.paper_execution_permit_identity''), (''schema_version'', JInt 1),
      (''authorization_sha256'', JStr (H (authorization_text p)))])"

definition same_leg_terms :: "option_leg \<Rightarrow> option_leg \<Rightarrow> bool" where
  "same_leg_terms x y =
     (leg_symbol x = leg_symbol y \<and> leg_underlying x = leg_underlying y \<and> date_text (leg_expiry x) = date_text (leg_expiry y)
      \<and> leg_type x = leg_type y \<and> decimal_text (leg_strike x) = decimal_text (leg_strike y)
      \<and> leg_side x = leg_side y \<and> leg_intent x = leg_intent y \<and> leg_ratio x = leg_ratio y)"

definition same_terms :: "debit_vertical_permit \<Rightarrow> debit_vertical_permit \<Rightarrow> bool" where
  "same_terms p q =
     (event_run_id p = event_run_id q \<and> decision_sha256 p = decision_sha256 q \<and> evidence_sha256 p = evidence_sha256 q
      \<and> snapshot_sha256 p = snapshot_sha256 q \<and> protocol_sha256 p = protocol_sha256 q
      \<and> execution_protocol_sha256 p = execution_protocol_sha256 q \<and> policy_sha256 p = policy_sha256 q
      \<and> isoformat (issued_at p) = isoformat (issued_at q) \<and> isoformat (expires_at p) = isoformat (expires_at q)
      \<and> vertical_type p = vertical_type q \<and> quantity p = quantity q
      \<and> decimal_text (limit_price p) = decimal_text (limit_price q)
      \<and> same_leg_terms (long_leg p) (long_leg q) \<and> same_leg_terms (short_leg p) (short_leg q))"

lemma enum_values_injective:
  "option_type_value a = option_type_value b \<Longrightarrow> a = b" "side_value c = side_value d \<Longrightarrow> c = d"
  "intent_value e = intent_value f \<Longrightarrow> e = f" "vertical_type_value g = vertical_type_value h \<Longrightarrow> g = h"
  by ((cases a; cases b; simp), (cases c; cases d; simp), (cases e; cases f; simp), (cases g; cases h; simp))

lemma leg_payload_terms:
  assumes "json_sort (leg_payload x) = json_sort (leg_payload y)"
  shows "same_leg_terms x y"
proof -
  let ?fields = "\<lambda>z. [(''symbol'', JStr (leg_symbol z)), (''underlying'', JStr (leg_underlying z)),
      (''expiry'', JStr (date_text (leg_expiry z))), (''option_type'', JStr (option_type_value (leg_type z))),
      (''strike'', JStr (decimal_text (leg_strike z))), (''side'', JStr (side_value (leg_side z))),
      (''position_intent'', JStr (intent_value (leg_intent z))), (''ratio_qty'', JInt (leg_ratio z))]"
  have "json_get (json_sort (leg_payload z)) k = map_option json_sort (map_of (?fields z) k)" for z k
    unfolding leg_payload_def by (subst json_get_sorted) simp_all
  then have get: "map_option json_sort (map_of (?fields x) k) = map_option json_sort (map_of (?fields y) k)" for k
    using assms by metis
  show ?thesis
    using get [of "''symbol''"] get [of "''underlying''"] get [of "''expiry''"] get [of "''option_type''"]
      get [of "''strike''"] get [of "''side''"] get [of "''position_intent''"] get [of "''ratio_qty''"]
    by (simp add: same_leg_terms_def enum_values_injective)
qed

lemma authorization_terms:
  assumes "authorization_text p = authorization_text q"
  shows "same_terms p q"
proof -
  note get = json_get_canonical [OF assms [unfolded authorization_text_def] authorization_keys authorization_keys]
  note fields = get [of "''event_run_id''"] get [of "''decision_sha256''"] get [of "''evidence_sha256''"]
    get [of "''input_snapshot_sha256''"] get [of "''protocol_sha256''"] get [of "''execution_protocol_sha256''"]
    get [of "''policy_sha256''"] get [of "''issued_at''"] get [of "''expires_at''"] get [of "''vertical_type''"]
    get [of "''quantity''"] get [of "''limit_price''"]
  have "json_sort (leg_payload (long_leg p)) = json_sort (leg_payload (long_leg q))"
    "json_sort (leg_payload (short_leg p)) = json_sort (leg_payload (short_leg q))"
    using get [of "''legs''"] by (simp_all add: debit_vertical_permit_authorization_payload_def)
  then have "same_leg_terms (long_leg p) (long_leg q)" "same_leg_terms (short_leg p) (short_leg q)"
    by (blast intro: leg_payload_terms)+
  then show ?thesis
    using fields by (simp add: same_terms_def debit_vertical_permit_authorization_payload_def enum_values_injective)
qed

text \<open>
  C24. A permit's identity binds its whole authorization: two permits with the same
  canonical identity agree on every term of it, on the event, the decision, the evidence,
  the snapshot, both protocols, the policy, the life, the direction, the quantity, the debit and every field of both legs
  (times, dates and decimals as they are written). The only other case is a collision of the hash on the
  two permits' own texts: their authorization texts differ and have one digest, or their identity texts differ and have
  digests with one beginning of 32 characters.
\<close>

theorem permit_identity_binds:
  assumes "debit_vertical_permit_id H p = debit_vertical_permit_id H q"
  shows "same_terms p q
    \<or> authorization_text p \<noteq> authorization_text q
      \<and> (H (authorization_text p) = H (authorization_text q)
         \<or> identity_text H p \<noteq> identity_text H q \<and> take 32 (H (identity_text H p)) = take 32 (H (identity_text H q)))"
proof (cases "authorization_text p = authorization_text q")
  case True
  from authorization_terms [OF True] show ?thesis ..
next
  case False
  have "H (authorization_text p) = H (authorization_text q)" if "identity_text H p = identity_text H q"
    using json_get_canonical [OF that [unfolded identity_text_def], of "''authorization_sha256''"] by simp
  moreover have "take 32 (H (identity_text H p)) = take 32 (H (identity_text H q))"
    using assms by (simp add: debit_vertical_permit_id_def paper_execution_permit_id_def identity_text_def authorization_text_def)
  ultimately show ?thesis using False by blast
qed

theorem permit_identity_binds_witness:
  "same_terms sample_permit (sample_permit\<lparr>permit_id := ''x''\<rparr>)"
proof -
  have "authorization_text sample_permit = authorization_text (sample_permit\<lparr>permit_id := ''x''\<rparr>)"
    by (simp add: authorization_text_def debit_vertical_permit_authorization_payload_def)
  moreover from this have "debit_vertical_permit_id const_hash sample_permit = debit_vertical_permit_id const_hash (sample_permit\<lparr>permit_id := ''x''\<rparr>)"
    by (simp add: debit_vertical_permit_id_def authorization_text_def)
  from permit_identity_binds [OF this] have "same_terms sample_permit (sample_permit\<lparr>permit_id := ''x''\<rparr>)
      \<or> authorization_text sample_permit \<noteq> authorization_text (sample_permit\<lparr>permit_id := ''x''\<rparr>)" by blast
  ultimately show ?thesis by blast
qed

end
