(* ===== verification/Decimal_Rounding.thy ===== *)
theory Decimal_Rounding
  imports Decimals
begin

text \<open>
  Rounding to the decimal context against a bound: a value that has at most 28 significant
  digits (\<open>representable\<close>) is never crossed by rounding. Every result of an operation is
  representable, so a comparison the code makes between rounded amounts carries over to the exact ones.
\<close>

definition representable :: "rat \<Rightarrow> bool" where
  "representable v \<longleftrightarrow> (\<exists>a j. v = of_int a * 10 powi j \<and> \<bar>a\<bar> < 10 ^ prec)"

lemma representable_minus: "representable v \<Longrightarrow> representable (- v)"
  unfolding representable_def by (metis abs_minus_cancel mult_minus_left of_int_minus)

lemma half_even_le: "n \<le> a * p \<Longrightarrow> 0 < p \<Longrightarrow> half_even n p \<le> a"
proof -
  assume le: "n \<le> a * p" and p: "0 < p"
  have "n div p \<le> a" using div_le_mono [OF le, of p] p by simp
  moreover have "n div p \<noteq> a" if "0 < n mod p"
  proof
    assume "n div p = a"
    then have "n = a * p + n mod p" using div_mult_mod_eq [of n p] by simp
    then show False using le that by linarith
  qed
  ultimately show ?thesis using p by (cases "n mod p = 0") (auto simp: half_even_def Let_def)
qed

lemma half_even_ge: "a * p \<le> n \<Longrightarrow> 0 < p \<Longrightarrow> a \<le> half_even n p"
  using div_le_mono [of "a * p" n p] by (auto simp: half_even_def Let_def)

lemma dfix_minus: "dfix (- m) e = dec_copy_negate (dfix m e)"
  by (simp add: dfix_def Let_def sgn_if)

lemma dfix_rounded:
  obtains "dval (dfix m e) = of_int m * 10 powi e" "\<bar>m\<bar> < 10 ^ prec"
  | k where "dval (dfix m e) = of_int (sgn m * int (half_even (nat \<bar>m\<bar>) (10 ^ k))) * 10 powi (e + int k)"
      "10 ^ (27 + k) \<le> nat \<bar>m\<bar>" "half_even (nat \<bar>m\<bar>) (10 ^ k) \<le> 10 ^ prec"
proof (cases "ndigits (nat \<bar>m\<bar>) \<le> prec")
  case True
  then have "nat \<bar>m\<bar> < 10 ^ prec" using ndigits_le_iff [of "nat \<bar>m\<bar>" 27] by (simp add: prec_def)
  then have "\<bar>m\<bar> < 10 ^ prec" by (simp add: nat_less_iff)
  then show thesis using that(1) dfix_exact [of m e] by simp
next
  case False
  define k where "k = ndigits (nat \<bar>m\<bar>) - prec"
  have nd: "ndigits (nat \<bar>m\<bar>) = Suc (Suc (26 + k))" using False by (simp add: k_def prec_def)
  then have low: "10 ^ (27 + k) \<le> nat \<bar>m\<bar>" using ndigits_lower [of "nat \<bar>m\<bar>" "26 + k"] by simp
  have "nat \<bar>m\<bar> < 10 ^ Suc (27 + k)" using ndigits_le_iff [of "nat \<bar>m\<bar>" "27 + k"] nd by simp
  then have "nat \<bar>m\<bar> \<le> 10 ^ prec * 10 ^ k" by (simp add: prec_def power_add)
  then have top: "half_even (nat \<bar>m\<bar>) (10 ^ k) \<le> 10 ^ prec" by (rule half_even_le) simp
  have "dval (dfix m e) = of_int (sgn m * int (half_even (nat \<bar>m\<bar>) (10 ^ k))) * 10 powi (e + int k)"
  proof (cases "half_even (nat \<bar>m\<bar>) (10 ^ k) = 10 ^ prec")
    case True
    then have "dfix m e = Fin (sgn m * 10 ^ 27) (e + int k + 1)"
      using False by (simp add: dfix_def Let_def k_def prec_def)
    then show ?thesis using True by (simp add: prec_def power_int_add)
  next
    case neq: False
    then show ?thesis using False by (simp add: dfix_def Let_def k_def)
  qed
  then show thesis using low top by (rule that(2))
qed

lemma dfix_result: "representable (dval (dfix m e))"
proof (cases rule: dfix_rounded [of m e])
  case 1
  then show ?thesis unfolding representable_def by blast
next
  case (2 k)
  let ?q = "half_even (nat \<bar>m\<bar>) (10 ^ k)"
  show ?thesis
  proof (cases "?q = 10 ^ prec")
    case True
    then have "dval (dfix m e) = of_int (sgn m * 10 ^ 27) * 10 powi (e + int k + 1)"
      unfolding 2(1) by (simp add: prec_def power_int_add)
    moreover have "\<bar>sgn m * 10 ^ 27 :: int\<bar> < 10 ^ prec" by (simp add: abs_mult abs_sgn_eq prec_def)
    ultimately show ?thesis unfolding representable_def by blast
  next
    case False
    then have "int ?q < 10 ^ prec" using 2(3) by (metis le_neq_implies_less of_nat_less_iff of_nat_numeral of_nat_power)
    then have "\<bar>sgn m * int ?q\<bar> < 10 ^ prec" by (simp add: abs_mult abs_sgn_eq)
    then show ?thesis unfolding representable_def 2(1) by blast
  qed
qed

section \<open>Rounding does not cross a representable bound\<close>

lemma small_exponent:
  assumes "\<bar>a\<bar> < 10 ^ prec" "j < l"
  shows "\<bar>of_int a * (10 :: rat) powi j\<bar> < 10 powi (l + 27)"
proof -
  have "rat_of_int \<bar>a\<bar> < rat_of_int (10 ^ prec)" using assms(1) by (simp only: of_int_less_iff)
  then have "\<bar>of_int a\<bar> < (10 :: rat) ^ prec" by simp
  then have "\<bar>of_int a * (10 :: rat) powi j\<bar> < 10 ^ prec * 10 powi j" by (simp add: abs_mult)
  also have "\<dots> = 10 powi (j + 28)" by (simp add: prec_def power_int_add)
  also have "\<dots> \<le> 10 powi (l + 27)" using assms(2) by (intro power_int_increasing) simp_all
  finally show ?thesis .
qed

lemma large_exponent:
  assumes "l \<le> j"
  shows "of_int a * (10 :: rat) powi j = of_int (a * 10 ^ nat (j - l)) * 10 powi l"
  using powi_split [OF assms] by simp

lemma scaled_le_iff: "of_int x * (10 :: rat) powi l \<le> of_int y * 10 powi l \<longleftrightarrow> x \<le> y"
  by (simp add: mult_le_cancel_right_pos)

lemma rounded_floor: "10 ^ (27 + k) \<le> n \<Longrightarrow> 10 ^ 27 \<le> half_even n (10 ^ k)"
  by (rule half_even_ge) (simp_all add: power_add)

lemma unscale: "of_nat n * (10 :: rat) powi e \<le> of_int a * 10 powi (e + int k) \<longleftrightarrow> int n \<le> a * 10 ^ k"
  "of_int a * (10 :: rat) powi (e + int k) \<le> of_nat n * 10 powi e \<longleftrightarrow> a * 10 ^ k \<le> int n"
  using scaled_le_iff [of "int n" e "a * 10 ^ k"] scaled_le_iff [of "a * 10 ^ k" e "int n"]
  by (simp_all add: power_int_add mult.assoc mult.commute)

lemma round_up_bound:
  assumes "10 ^ (27 + k) \<le> n" "representable v" "of_nat n * 10 powi e \<le> v"
  shows "of_nat (half_even n (10 ^ k)) * 10 powi (e + int k) \<le> v"
proof -
  obtain a j where v: "v = of_int a * 10 powi j" "\<bar>a\<bar> < 10 ^ prec" using assms(2) unfolding representable_def by blast
  have "(10 :: rat) powi (e + int k + 27) = of_nat (10 ^ (27 + k)) * 10 powi e" by (simp add: power_int_add power_add)
  also have "\<dots> \<le> of_nat n * 10 powi e"
    using assms(1) by (intro mult_right_mono) (simp_all only: of_nat_le_iff zero_le_power_int zero_le_numeral)
  finally have "\<not> j < e + int k" using small_exponent [OF v(2), of j "e + int k"] assms(3) v(1) by auto
  then have v': "v = of_int (a * 10 ^ nat (j - (e + int k))) * 10 powi (e + int k)" (is "v = of_int ?A * _")
    using large_exponent [of "e + int k" j a] v(1) by simp
  then have A: "int n \<le> ?A * 10 ^ k" using assms(3) unscale(1) by blast
  then have "0 \<le> ?A" by (smt (verit) mult_neg_pos of_nat_0_le_iff zero_less_numeral zero_less_power)
  then have "int n \<le> int (nat ?A * 10 ^ k)" using A by simp
  then have "n \<le> nat ?A * 10 ^ k" by (simp only: of_nat_le_iff)
  then have "int (half_even n (10 ^ k)) \<le> ?A" using half_even_le [of n "nat ?A" "10 ^ k"] \<open>0 \<le> ?A\<close> by simp
  then show ?thesis using scaled_le_iff [of "int (half_even n (10 ^ k))" "e + int k" ?A] unfolding v' by simp
qed

lemma round_down_bound:
  assumes "10 ^ (27 + k) \<le> n" "representable v" "v \<le> of_nat n * 10 powi e"
  shows "v \<le> of_nat (half_even n (10 ^ k)) * 10 powi (e + int k)"
proof -
  obtain a j where v: "v = of_int a * 10 powi j" "\<bar>a\<bar> < 10 ^ prec" using assms(2) unfolding representable_def by blast
  show ?thesis
  proof (cases "j < e + int k")
    case True
    have "v \<le> 10 powi (e + int k + 27)" using small_exponent [OF v(2) True] v(1) by (simp add: abs_le_iff less_imp_le)
    also have "\<dots> = of_nat (10 ^ 27) * 10 powi (e + int k)" by (simp add: power_int_add)
    also have "\<dots> \<le> of_nat (half_even n (10 ^ k)) * 10 powi (e + int k)"
      using rounded_floor [OF assms(1)] by (intro mult_right_mono) (simp_all only: of_nat_le_iff zero_le_power_int zero_le_numeral)
    finally show ?thesis .
  next
    case False
    then have v': "v = of_int (a * 10 ^ nat (j - (e + int k))) * 10 powi (e + int k)" (is "v = of_int ?A * _")
      using large_exponent [of "e + int k" j a] v(1) by simp
    then have A: "?A * 10 ^ k \<le> int n" using assms(3) unscale(2) by blast
    have "?A \<le> int (half_even n (10 ^ k))"
    proof (cases "0 \<le> ?A")
      case True
      then have "int (nat ?A * 10 ^ k) \<le> int n" using A by simp
      then have "nat ?A * 10 ^ k \<le> n" by (simp only: of_nat_le_iff)
      then show ?thesis using half_even_ge [of "nat ?A" "10 ^ k" n] by (simp add: nat_le_iff)
    qed simp
    then show ?thesis using scaled_le_iff [of ?A "e + int k" "int (half_even n (10 ^ k))"] unfolding v' by simp
  qed
qed

lemma dfix_le_nonneg:
  assumes "0 \<le> m" "representable v" "of_int m * 10 powi e \<le> v"
  shows "dval (dfix m e) \<le> v"
proof (cases rule: dfix_rounded [of m e])
  case (2 k)
  then show ?thesis using round_up_bound [of k "nat m" v e] assms by (cases "m = 0") (simp_all add: sgn_if)
qed (use assms in simp)

lemma dfix_ge_nonneg:
  assumes "0 \<le> m" "representable v" "v \<le> of_int m * 10 powi e"
  shows "v \<le> dval (dfix m e)"
proof (cases rule: dfix_rounded [of m e])
  case (2 k)
  then show ?thesis using round_down_bound [of k "nat m" v e] assms by (cases "m = 0") (simp_all add: sgn_if)
qed (use assms in simp)

lemma dfix_le:
  assumes "representable v" "of_int m * 10 powi e \<le> v"
  shows "dval (dfix m e) \<le> v"
proof (cases "0 \<le> m")
  case False
  then have "- v \<le> dval (dfix (- m) e)" using assms representable_minus by (intro dfix_ge_nonneg) simp_all
  then show ?thesis by (simp add: dfix_minus)
qed (use assms dfix_le_nonneg in blast)

lemma dfix_ge:
  assumes "representable v" "v \<le> of_int m * 10 powi e"
  shows "v \<le> dval (dfix m e)"
proof (cases "0 \<le> m")
  case False
  then have "dval (dfix (- m) e) \<le> - v" using assms representable_minus by (intro dfix_le_nonneg) simp_all
  then show ?thesis by (simp add: dfix_minus)
qed (use assms dfix_ge_nonneg in blast)

section \<open>Operations\<close>

lemma dec_add_value:
  assumes "is_finite x" "is_finite y"
  obtains m e where "dec_add x y = dfix m e" "dval x + dval y = of_int m * 10 powi e"
proof -
  obtain m1 e1 m2 e2 where xy: "x = Fin m1 e1" "y = Fin m2 e2" using assms by (cases x; cases y) auto
  show thesis
    by (rule that [of "aligned m1 e1 (min e1 e2) + aligned m2 e2 (min e1 e2)" "min e1 e2"])
      (use dec_add_exact_sum [of m1 e1 e2 m2, OF refl] in \<open>simp_all add: xy\<close>)
qed

lemma dec_sub_value:
  assumes "is_finite x" "is_finite y"
  obtains m e where "dec_sub x y = dfix m e" "dval x - dval y = of_int m * 10 powi e"
  using dec_add_value [of x "dec_copy_negate y"] assms by (auto simp: dec_sub_def)

lemma dec_mul_value:
  assumes "is_finite x" "is_finite y"
  obtains m e where "dec_mul x y = dfix m e" "dval x * dval y = of_int m * 10 powi e"
  using assms by (cases x; cases y) (auto simp: power_int_add)

lemma representable_results:
  "is_finite x \<Longrightarrow> is_finite y \<Longrightarrow> representable (dval (dec_mul x y))"
  "is_finite x \<Longrightarrow> is_finite y \<Longrightarrow> representable (dval (dec_add x y))"
  "is_finite x \<Longrightarrow> is_finite y \<Longrightarrow> representable (dval (dec_sub x y))"
  by (metis dec_mul_value dfix_result) (metis dec_add_value dfix_result, metis dec_sub_value dfix_result)

lemma dec_mul_le: "is_finite x \<Longrightarrow> is_finite y \<Longrightarrow> representable v \<Longrightarrow> dval x * dval y \<le> v \<Longrightarrow> dval (dec_mul x y) \<le> v"
  by (metis dec_mul_value dfix_le)

lemma dec_add_le: "is_finite x \<Longrightarrow> is_finite y \<Longrightarrow> representable v \<Longrightarrow> dval x + dval y \<le> v \<Longrightarrow> dval (dec_add x y) \<le> v"
  by (metis dec_add_value dfix_le)

lemma dec_sub_ge: "is_finite x \<Longrightarrow> is_finite y \<Longrightarrow> representable v \<Longrightarrow> v \<le> dval x - dval y \<Longrightarrow> v \<le> dval (dec_sub x y)"
  by (metis dec_sub_value dfix_ge)

lemma representable_zero: "representable 0"
  unfolding representable_def by (intro exI [of _ 0]) (simp add: prec_def)

lemma dec_sub_nonneg: "is_finite x \<Longrightarrow> is_finite y \<Longrightarrow> dval y \<le> dval x \<Longrightarrow> 0 \<le> dval (dec_sub x y)"
  by (rule dec_sub_ge) (simp_all add: representable_zero)

end
