(* ===== verification/Permit_Payoff.thy ===== *)
theory Permit_Payoff
  imports Permits Decimal_Rounding
begin

text \<open>
  What an opening permit (\<open>execution/models.py\<close>) stands for economically. The constructor tests
  symbols, sides, strikes and the debit; here the profit and loss of the two legs at expiry is
  written out as a function of the settlement price, and the amount that the code calls
  \<open>maximum_loss\<close> is shown to be the worst of it. Strikes come from eight digits of an OCC symbol,
  so that neither the width nor the loss is rounded by the decimal context.
\<close>

section \<open>Strikes are exact\<close>

lemma strip_zeros_value:
  "strip_zeros f m e i = (m', e') \<Longrightarrow> of_int m' * (10 :: rat) powi e' = of_int m * 10 powi e"
proof (induction f m e i rule: strip_zeros.induct)
  case (2 f m e i)
  show ?case
  proof (cases "e < i \<and> m mod 10 = 0 \<and> m \<noteq> 0")
    case True
    then have m: "m = 10 * (m div 10)" by presburger
    have "of_int m' * (10 :: rat) powi e' = of_int (m div 10) * 10 powi (e + 1)" using 2 True by simp
    also have "\<dots> = of_int (10 * (m div 10)) * 10 powi e" by (simp add: power_int_add)
    finally show ?thesis using m by simp
  next
    case False
    then have "m' = m" "e' = e" using 2(2) by (auto split: if_splits)
    then show ?thesis by simp
  qed
qed simp

lemma ndigits_mono_bound: "n < 10 ^ k \<Longrightarrow> 0 < k \<Longrightarrow> ndigits n \<le> k"
proof (induction n arbitrary: k rule: ndigits.induct)
  case (1 n)
  show ?case
  proof (cases "n < 10")
    case False
    then obtain j where k: "k = Suc j" "0 < j" using "1.prems" by (cases k; cases "k - 1") auto
    then have "n div 10 < 10 ^ j" using "1.prems" by auto
    then show ?thesis using "1.IH" [of j] False k by (subst ndigits.simps) simp
  qed (use "1.prems" in \<open>subst ndigits.simps; simp\<close>)
qed

lemma thousandths_exact:
  assumes "n < 10 ^ 8" "dec_div (Fin (int n) 0) (Fin 1000 0) = Some k"
  shows "is_finite k" "dval k = of_nat n / 1000"
proof -
  have "is_finite k \<and> dval k = of_nat n / 1000"
  proof (cases "n = 0")
    case False
    define s where "s = nat (33 - int (ndigits n))"
    have nd: "ndigits n \<le> 8" by (rule ndigits_mono_bound [OF assms(1)]) simp
    then have s: "int s = 33 - int (ndigits n)" "25 \<le> s" by (simp_all add: s_def)
    have "ndigits 1000 = 4" by (simp add: ndigits.simps)
    then have shift: "int (ndigits (nat \<bar>1000 :: int\<bar>)) - int (ndigits (nat \<bar>int n\<bar>)) + int prec + 1 = int s"
      using s by (simp add: prec_def)
    have dvd: "(1000 :: int) dvd int n * 10 ^ s"
      using le_imp_power_dvd [of 3 s "10 :: int"] s(2) by (simp add: dvd_mult)
    obtain q e where q: "strip_zeros (nat (int s)) (int n * 10 ^ s div 1000) (- int s) 0 = (q, e)"
      by (cases "strip_zeros (nat (int s)) (int n * 10 ^ s div 1000) (- int s) 0")
    have k: "k = dfix q e"
      using assms(2) False dvd q unfolding dec_div.simps shift by (simp add: Let_def dvd_eq_mod_eq_0)
    have "of_int q * (10 :: rat) powi e = of_int (int n * 10 ^ s div 1000) * 10 powi (- int s)"
      by (rule strip_zeros_value [OF q])
    also have "\<dots> = of_nat n / 1000"
      using dvd by (simp add: of_int_div power_int_minus field_simps)
    finally have v: "of_int q * (10 :: rat) powi e = of_nat n / 1000" .
    also have "\<dots> = of_int (int n) * 10 powi (- 3)" by (simp add: power_int_minus)
    finally have "dval (dfix q e) = of_int q * 10 powi e"
      by (rule dfix_representable) (use assms(1) in \<open>simp add: prec_def\<close>)
    then show ?thesis using k v by simp
  qed (use assms in auto)
  then show "is_finite k" "dval k = of_nat n / 1000" by blast+
qed

lemma nat_of_digs_bound: "list_all is_digit s \<Longrightarrow> nat_of_digs s < 10 ^ length s"
proof (induction s rule: rev_induct)
  case (snoc c s)
  then have "nat_of_digs s < 10 ^ length s" "digit_val c \<le> 9"
    by (auto simp: is_digit_def digit_val_def Let_def)
  then show ?case by simp
qed simp

lemma parse_occ_strike:
  assumes "parse_occ s = Some occ"
  shows "occ_strike occ < 10 ^ 8"
proof -
  let ?strike = "drop 7 (drop (length s - 15) s)"
  have "list_all is_digit ?strike" "occ_strike occ = nat_of_digs ?strike" "\<not> length s < 16"
    using assms by (auto simp: parse_occ_def Let_def split: if_splits)
  then show ?thesis using nat_of_digs_bound [of ?strike] by (simp add: Let_def)
qed

text \<open>The symbol of a leg says what its fields say.\<close>

definition symbol_agrees :: "option_leg \<Rightarrow> bool" where
  "symbol_agrees l = (\<exists>n. parse_occ (leg_symbol l) =
       Some \<lparr>occ_root = leg_underlying l, occ_expiry = leg_expiry l, occ_type = leg_type l, occ_strike = n\<rparr>
     \<and> is_finite (leg_strike l) \<and> dval (leg_strike l) = of_nat n / 1000 \<and> 0 < n \<and> n < 10 ^ 8)"

lemma leg_symbol_agrees:
  assumes "option_leg_checks l = None"
  shows "symbol_agrees l" "leg_ratio l = 1"
proof -
  obtain occ k where occ: "parse_occ (leg_symbol l) = Some occ" "occ_root occ = leg_underlying l"
      "occ_expiry occ = leg_expiry l" "occ_type occ = leg_type l"
    and k: "dec_div (Fin (int (occ_strike occ)) 0) (Fin 1000 0) = Some k" "dec_eq k (leg_strike l)"
    using assms by (auto simp: option_leg_checks_def first_reject_None split: option.splits)
  note fin = option_leg_checks_None(1,2) [OF assms]
  note bound = parse_occ_strike [OF occ(1)]
  have v: "dval (leg_strike l) = of_nat (occ_strike occ) / 1000"
    using thousandths_exact [OF bound k(1)] k(2) fin(1) by (simp add: dec_order)
  then have "0 < occ_strike occ" using fin(2) by (cases "occ_strike occ") simp_all
  moreover have "occ = \<lparr>occ_root = leg_underlying l, occ_expiry = leg_expiry l, occ_type = leg_type l, occ_strike = occ_strike occ\<rparr>"
    using occ(2-4) by simp
  ultimately show "symbol_agrees l" unfolding symbol_agrees_def using occ(1) v fin(1) bound by metis
  show "leg_ratio l = 1" using assms by (auto simp: option_leg_checks_def split: option.splits if_splits)
qed

section \<open>Profit and loss at expiry\<close>

text \<open>What one option is worth at expiry when the underlying settles at \<open>x\<close>.\<close>

definition intrinsic_value :: "option_type \<Rightarrow> rat \<Rightarrow> rat \<Rightarrow> rat" where
  "intrinsic_value typ strike x = max 0 (case typ of CALL \<Rightarrow> x - strike | PUT \<Rightarrow> strike - x)"

definition leg_value :: "option_leg \<Rightarrow> rat \<Rightarrow> rat" where
  "leg_value l x =
     of_int (leg_ratio l) * (case leg_side l of BUY \<Rightarrow> 1 | SELL \<Rightarrow> - 1) * intrinsic_value (leg_type l) (dval (leg_strike l)) x"

text \<open>One contract is a hundred shares; the package costs at most its limit price.\<close>

definition settled_profit :: "debit_vertical_permit \<Rightarrow> rat \<Rightarrow> rat" where
  "settled_profit p x = 100 * of_int (quantity p) * (leg_value (long_leg p) x + leg_value (short_leg p) x - dval (limit_price p))"

definition strike_width :: "debit_vertical_permit \<Rightarrow> rat" where
  "strike_width p = \<bar>dval (leg_strike (short_leg p)) - dval (leg_strike (long_leg p))\<bar>"

lemma thousandths_abs_sub:
  assumes "is_finite x" "is_finite y" "dval x = of_nat n / 1000" "dval y = of_nat m / 1000" "n < 10 ^ 8" "m < 10 ^ 8"
  shows "dval (dec_abs (dec_sub x y)) = \<bar>dval x - dval y\<bar>"
proof -
  obtain k e where k: "dec_sub x y = dfix k e" "dval x - dval y = of_int k * 10 powi e" by (rule dec_sub_value [OF assms(1,2)])
  have diff: "dval x - dval y = of_int (int n - int m) * 10 powi (- 3)" by (simp add: assms(3,4) power_int_minus field_simps)
  have small: "\<bar>int n - int m\<bar> < 10 ^ prec" using assms(5,6) by (simp add: prec_def)
  have sub: "dval (dfix k e) = of_int (int n - int m) * 10 powi (- 3)"
    using dfix_representable [of k e "int n - int m" "- 3"] k(2) diff small by simp
  obtain a j where d: "dfix k e = Fin a j" using dfix_finite [of k e] by (cases "dfix k e") auto
  have "of_int \<bar>a\<bar> * (10 :: rat) powi j = \<bar>dval (dfix k e)\<bar>" by (simp add: d abs_mult)
  also have "\<dots> = \<bar>of_int (int n - int m) * 10 powi (- 3)\<bar>" unfolding sub ..
  also have "\<dots> = of_int \<bar>int n - int m\<bar> * 10 powi (- 3)" by (simp add: abs_mult)
  finally have v: "of_int \<bar>a\<bar> * (10 :: rat) powi j = of_int \<bar>int n - int m\<bar> * 10 powi (- 3)" .
  have "dval (dfix \<bar>a\<bar> j) = of_int \<bar>a\<bar> * 10 powi j" by (rule dfix_representable [OF v]) (use small in simp)
  then show ?thesis using v diff by (simp add: k(1) d abs_mult)
qed

lemma width_exact:
  assumes "permit_ok p"
  shows "dval (vertical_width p) = strike_width p" "strike_width p < 100000" "is_finite (vertical_width p)"
proof -
  have "symbol_agrees (long_leg p)" "symbol_agrees (short_leg p)" using assms leg_symbol_agrees by (simp_all add: permit_ok_def)
  then obtain n m where n: "is_finite (leg_strike (short_leg p))" "dval (leg_strike (short_leg p)) = of_nat n / 1000" "n < 10 ^ 8"
    and m: "is_finite (leg_strike (long_leg p))" "dval (leg_strike (long_leg p)) = of_nat m / 1000" "m < 10 ^ 8"
    unfolding symbol_agrees_def by blast
  show "dval (vertical_width p) = strike_width p"
    unfolding vertical_width_def strike_width_def by (rule thousandths_abs_sub [OF n(1) m(1) n(2) m(2) n(3) m(3)])
  have "rat_of_nat n < rat_of_nat (10 ^ 8)" "rat_of_nat m < rat_of_nat (10 ^ 8)" using n(3) m(3) of_nat_less_iff by blast+
  then have "rat_of_nat n < 100000000" "rat_of_nat m < 100000000" by simp_all
  then show "strike_width p < 100000" unfolding strike_width_def n(2) m(2) by (simp add: abs_less_iff field_simps)
  show "is_finite (vertical_width p)" using n(1) m(1) by (simp add: vertical_width_def)
qed

lemma maximum_loss_exact:
  assumes "permit_ok p"
  shows "dval (maximum_loss p) = 100 * dval (limit_price p)" "dval (limit_price p) < strike_width p"
proof -
  have ok: "permit_checks p = None" using assms by (simp add: permit_ok_def)
  note facts = permit_checks_None [OF ok]
  show less: "dval (limit_price p) < strike_width p"
    using facts(2,7) width_exact(1,3) [OF assms] by (simp add: dec_order)
  obtain k e where k: "limit_price p = Fin k e" "- 2 \<le> e" "0 < k" by (rule money_mantissa [OF facts(2,4,3)])
  define a where "a = k * 10 ^ nat (e + 2)"
  have "(10 :: rat) powi e = 10 ^ nat (e + 2) * 10 powi (- 2)" using powi_split [of "- 2" e] k(2) by simp
  then have v: "dval (limit_price p) * dval (Fin 100 0) = of_int a * 10 powi 0" by (simp add: k(1) a_def power_int_minus)
  have "of_int a < (10000000 :: rat)" using less width_exact(2) [OF assms] v by simp
  then have "rat_of_int a < rat_of_int 10000000" by simp
  then have "a < 10000000" using of_int_less_iff by blast
  moreover have "0 \<le> a" using k(3) by (simp add: a_def)
  ultimately have "\<bar>a\<bar> < 10 ^ prec" by (simp add: prec_def)
  from dec_mul_representable [OF facts(2) _ v this] show "dval (maximum_loss p) = 100 * dval (limit_price p)"
    by (simp add: maximum_loss_def)
qed

lemma permit_legs:
  assumes "permit_checks p = None"
  shows "leg_side (long_leg p) = BUY" "leg_side (short_leg p) = SELL" "leg_intent (long_leg p) = BUY_TO_OPEN"
    "leg_intent (short_leg p) = SELL_TO_OPEN" "leg_type (short_leg p) = leg_type (long_leg p)"
    "leg_type (long_leg p) = (if vertical_type p = BULL_CALL then CALL else PUT)"
    "instant (issued_at p) < instant (expires_at p)"
  using assms by (cases "vertical_type p"; simp add: permit_checks_def first_reject_append)+

lemma strikes_ordered:
  assumes "permit_ok p"
  shows "vertical_type p = BULL_CALL \<Longrightarrow> dval (leg_strike (short_leg p)) = dval (leg_strike (long_leg p)) + strike_width p"
    "vertical_type p = BEAR_PUT \<Longrightarrow> dval (leg_strike (long_leg p)) = dval (leg_strike (short_leg p)) + strike_width p"
    "0 < dval (leg_strike (long_leg p))" "0 < dval (leg_strike (short_leg p))" "0 < strike_width p"
proof -
  have ok: "permit_checks p = None" and fin: "is_finite (leg_strike (long_leg p))" "is_finite (leg_strike (short_leg p))"
    and pos: "0 < dval (leg_strike (long_leg p))" "0 < dval (leg_strike (short_leg p))"
    using assms option_leg_checks_None(1,2) by (auto simp: permit_ok_def)
  show "0 < dval (leg_strike (long_leg p))" "0 < dval (leg_strike (short_leg p))" by (rule pos)+
  show "0 < strike_width p" using maximum_loss_exact(2) [OF assms] permit_checks_None(3) [OF ok] by linarith
  show "dval (leg_strike (short_leg p)) = dval (leg_strike (long_leg p)) + strike_width p" if "vertical_type p = BULL_CALL"
    using ok fin that by (auto simp: permit_checks_def first_reject_append dec_order strike_width_def)
  show "dval (leg_strike (long_leg p)) = dval (leg_strike (short_leg p)) + strike_width p" if "vertical_type p = BEAR_PUT"
    using ok fin that by (auto simp: permit_checks_def first_reject_append dec_order strike_width_def)
qed

text \<open>The value of the two legs together lies between zero and the width.\<close>

lemma settled_profit_spread:
  assumes "permit_ok p"
  obtains v where "settled_profit p x = 100 * (v - dval (limit_price p))" "0 \<le> v" "v \<le> strike_width p"
    "vertical_type p = BULL_CALL \<Longrightarrow> x = 0 \<Longrightarrow> v = 0" "vertical_type p = BEAR_PUT \<Longrightarrow> x = 0 \<Longrightarrow> v = strike_width p"
    "vertical_type p = BULL_CALL \<Longrightarrow> x = dval (leg_strike (short_leg p)) \<Longrightarrow> v = strike_width p"
    "vertical_type p = BEAR_PUT \<Longrightarrow> x = dval (leg_strike (long_leg p)) \<Longrightarrow> v = 0"
proof -
  have ok: "permit_checks p = None" "leg_ratio (long_leg p) = 1" "leg_ratio (short_leg p) = 1"
    using assms leg_symbol_agrees by (auto simp: permit_ok_def)
  note legs = permit_legs [OF ok(1)] and strikes = strikes_ordered [OF assms]
  let ?v = "intrinsic_value (leg_type (long_leg p)) (dval (leg_strike (long_leg p))) x
      - intrinsic_value (leg_type (long_leg p)) (dval (leg_strike (short_leg p))) x"
  have p: "settled_profit p x = 100 * (?v - dval (limit_price p))"
    using permit_checks_None(1) [OF ok(1)] ok(2,3) legs(1,2,5) by (simp add: settled_profit_def leg_value_def)
  show thesis
  proof (cases "vertical_type p")
    case BULL_CALL
    then show thesis
      by (intro that [OF p]) (use strikes(1,3,5) in \<open>simp_all add: legs(6) intrinsic_value_def max_def\<close>)
  next
    case BEAR_PUT
    then show thesis
      by (intro that [OF p]) (use strikes(2,4,5) in \<open>simp_all add: legs(6) intrinsic_value_def max_def\<close>)
  qed
qed

text \<open>
  C23. A permit that exists is one bounded debit vertical. It opens exactly one package of a bought and a sold
  option of one underlying, expiry and type, calls for a bull call and puts for a bear put, both opening, with
  symbols that say what the fields say. Wherever the underlying settles, the package
  bought at the limit price loses at most \<open>maximum_loss\<close>, which is exactly one hundred times the
  debit and is reached, and gains at most the rest of the width, which is positive and is
  reached. The permit's life ends after it begins.
\<close>

theorem permit_bounded_vertical:
  assumes "permit_ok p"
  shows "quantity p = 1 \<and> leg_ratio (long_leg p) = 1 \<and> leg_ratio (short_leg p) = 1
    \<and> leg_side (long_leg p) = BUY \<and> leg_intent (long_leg p) = BUY_TO_OPEN
    \<and> leg_side (short_leg p) = SELL \<and> leg_intent (short_leg p) = SELL_TO_OPEN
    \<and> leg_underlying (short_leg p) = leg_underlying (long_leg p) \<and> leg_expiry (short_leg p) = leg_expiry (long_leg p)
    \<and> leg_type (short_leg p) = leg_type (long_leg p) \<and> leg_type (long_leg p) = (if vertical_type p = BULL_CALL then CALL else PUT)
    \<and> symbol_agrees (long_leg p) \<and> symbol_agrees (short_leg p)
    \<and> 0 < dval (maximum_loss p) \<and> dval (maximum_loss p) = 100 * dval (limit_price p)
    \<and> dval (maximum_loss p) < 100 * strike_width p
    \<and> (\<forall>x. - dval (maximum_loss p) \<le> settled_profit p x \<and> settled_profit p x \<le> 100 * strike_width p - dval (maximum_loss p))
    \<and> (\<exists>x \<ge> 0. settled_profit p x = - dval (maximum_loss p))
    \<and> (\<exists>x \<ge> 0. settled_profit p x = 100 * strike_width p - dval (maximum_loss p))
    \<and> instant (issued_at p) < instant (expires_at p)"
proof -
  have ok: "permit_checks p = None" "option_leg_checks (long_leg p) = None" "option_leg_checks (short_leg p) = None"
    using assms by (simp_all add: permit_ok_def)
  note loss = maximum_loss_exact [OF assms] and strikes = strikes_ordered [OF assms]
  have range: "- dval (maximum_loss p) \<le> settled_profit p x \<and> settled_profit p x \<le> 100 * strike_width p - dval (maximum_loss p)" for x
    by (rule settled_profit_spread [OF assms, of x]) (simp add: loss(1))
  have "(\<exists>x \<ge> 0. settled_profit p x = - dval (maximum_loss p)) \<and> (\<exists>x \<ge> 0. settled_profit p x = 100 * strike_width p - dval (maximum_loss p))"
  proof (cases "vertical_type p")
    case BULL_CALL
    have "settled_profit p 0 = - dval (maximum_loss p)"
      by (rule settled_profit_spread [OF assms, of 0]) (simp add: loss(1) BULL_CALL)
    moreover have "settled_profit p (dval (leg_strike (short_leg p))) = 100 * strike_width p - dval (maximum_loss p)"
      by (rule settled_profit_spread [OF assms, of "dval (leg_strike (short_leg p))"]) (simp add: loss(1) BULL_CALL)
    ultimately show ?thesis using strikes(4) by (metis order.refl less_imp_le)
  next
    case BEAR_PUT
    have "settled_profit p (dval (leg_strike (long_leg p))) = - dval (maximum_loss p)"
      by (rule settled_profit_spread [OF assms, of "dval (leg_strike (long_leg p))"]) (simp add: loss(1) BEAR_PUT)
    moreover have "settled_profit p 0 = 100 * strike_width p - dval (maximum_loss p)"
      by (rule settled_profit_spread [OF assms, of 0]) (simp add: loss(1) BEAR_PUT)
    ultimately show ?thesis using strikes(3) by (metis order.refl less_imp_le)
  qed
  then show ?thesis
    using range loss permit_legs [OF ok(1)] permit_checks_None [OF ok(1)] leg_symbol_agrees [OF ok(2)] leg_symbol_agrees [OF ok(3)]
    by auto
qed

theorem permit_bounded_vertical_witness:
  "permit_ok sample_permit \<and> dval (maximum_loss sample_permit) = 125 \<and> (\<forall>x. settled_profit sample_permit x \<ge> - 125 \<and> settled_profit sample_permit x \<le> 375)
   \<and> settled_profit sample_permit 503 = 175"
proof -
  have debit: "dval (limit_price sample_permit) = 5 / 4" "strike_width sample_permit = 5"
    by (simp_all add: sample_permit_def power_int_minus strike_width_def sample_leg_def)
  have "settled_profit sample_permit 503 = 175"
    by (simp add: settled_profit_def leg_value_def intrinsic_value_def sample_permit_def sample_leg_def power_int_minus)
  note t = permit_bounded_vertical [OF sample_permit_ok]
  have m: "dval (maximum_loss sample_permit) = 125" using t by (simp add: debit)
  have "- 125 \<le> settled_profit sample_permit x \<and> settled_profit sample_permit x \<le> 375" for x
    using t unfolding m debit by auto
  then show ?thesis using sample_permit_ok m \<open>settled_profit sample_permit 503 = 175\<close> by simp
qed

end
