(* ===== verification/Snapshots.thy ===== *)
theory Snapshots
  imports Controls Decimal_Text
begin

text \<open>
  \<open>risk/snapshots.py\<close>: broker-observed account, position and order truth, and the
  freshness tests that every authority decision starts from. A value of a
  snapshot class exists only when its \<open>__post_init__\<close> passed (\<open>..._ok\<close>). Ages are
  exact differences of instants; the code compares the same differences as
  floats of seconds, which at these magnitudes distinguish every microsecond.
\<close>

section \<open>Snapshots\<close>

definition require_utc :: "datetime \<Rightarrow> string \<Rightarrow> bool \<times> risk_rejected" where
  "require_utc t field = (\<not> is_utc t, reject UNSUPPORTED_INPUT field)"

definition require_decimal :: "dec \<Rightarrow> string \<Rightarrow> bool \<times> risk_rejected" where
  "require_decimal v field = (\<not> is_finite v, reject UNSUPPORTED_INPUT field)"

record account_snapshot =
  equity :: dec
  buying_power :: dec
  currency :: string
  account_observed_at :: datetime
  cash :: "dec option"

definition account_snapshot_checks :: "account_snapshot \<Rightarrow> risk_rejected option" where
  "account_snapshot_checks a = first_reject
     ([require_decimal (equity a) ''account.equity'',
       require_decimal (buying_power a) ''account.buying_power'']
      @ (case cash a of None \<Rightarrow> []
         | Some c \<Rightarrow> [require_decimal c ''account.cash'',
                      (dec_lt c dec_zero, reject UNSUPPORTED_INPUT ''account.cash'')])
      @ [(currency a = [], reject UNSUPPORTED_INPUT ''account.currency''),
         require_utc (account_observed_at a) ''account.observed_at''])"

record position_snapshot =
  pos_underlying :: string
  pos_quantity :: dec
  market_value :: dec
  position_observed_at :: datetime

definition position_snapshot_checks :: "position_snapshot \<Rightarrow> risk_rejected option" where
  "position_snapshot_checks p = first_reject
     [(pos_underlying p = [] \<or> pos_underlying p \<noteq> upper (strip (pos_underlying p)),
         reject UNSUPPORTED_INPUT ''position.underlying''),
      require_decimal (pos_quantity p) ''position.quantity'',
      require_decimal (market_value p) ''position.market_value'',
      require_utc (position_observed_at p) ''position.observed_at'']"

record order_snapshot =
  order_id :: string
  order_symbol :: string
  order_status :: string
  filled_quantity :: dec
  order_observed_at :: datetime

definition order_snapshot_checks :: "order_snapshot \<Rightarrow> risk_rejected option" where
  "order_snapshot_checks r = first_reject
     [(order_id r = [], reject UNSUPPORTED_INPUT ''order.order_id''),
      (order_symbol r = [], reject UNSUPPORTED_INPUT ''order.symbol''),
      (order_status r = [], reject UNSUPPORTED_INPUT ''order.status''),
      require_decimal (filled_quantity r) ''order.filled_quantity'',
      (dec_lt (filled_quantity r) dec_zero, reject UNSUPPORTED_INPUT ''order.filled_quantity''),
      require_utc (order_observed_at r) ''order.observed_at'']"

definition is_partial_fill :: "order_snapshot \<Rightarrow> bool" where
  "is_partial_fill r = (order_status r = ''PARTIALLY_FILLED'')"

definition account_snapshot_ok :: "account_snapshot \<Rightarrow> bool" where
  "account_snapshot_ok a = (account_snapshot_checks a = None)"

section \<open>Freshness\<close>

definition validate_age :: "datetime \<Rightarrow> datetime \<Rightarrow> int \<Rightarrow> risk_reason \<Rightarrow> string \<Rightarrow> risk_rejected option" where
  "validate_age observed now maximum stale path =
     (let age = instant now - instant observed
      in first_reject
         [require_utc observed (path @ ''.observed_at''),
          require_utc now ''now'',
          (maximum < 0, reject UNSUPPORTED_INPUT ''truth_max_age_seconds''),
          (age < 0, reject CONTRADICTORY_TRUTH (path @ ''.observed_at'')),
          (age > seconds maximum, reject stale path)])"

definition validate_account_freshness ::
    "account_snapshot option \<Rightarrow> datetime \<Rightarrow> int \<Rightarrow> risk_rejected + account_snapshot" where
  "validate_account_freshness snapshot now max_age =
     (if \<not> is_utc now then Inl (reject UNSUPPORTED_INPUT ''now'')
      else case snapshot of
        None \<Rightarrow> Inl (reject STALE_ACCOUNT_TRUTH ''account'')
      | Some a \<Rightarrow>
          (case validate_age (account_observed_at a) now max_age STALE_ACCOUNT_TRUTH ''account'' of
             Some e \<Rightarrow> Inl e | None \<Rightarrow> Inr a))"

fun validate_ages :: "datetime list \<Rightarrow> datetime \<Rightarrow> int \<Rightarrow> risk_reason \<Rightarrow> string \<Rightarrow> nat \<Rightarrow> risk_rejected option" where
  "validate_ages [] now max_age stale path index = None"
| "validate_ages (t # ts) now max_age stale path index =
     (case validate_age t now max_age stale (path @ ''['' @ digs index @ '']'') of
        Some e \<Rightarrow> Some e | None \<Rightarrow> validate_ages ts now max_age stale path (Suc index))"

definition validate_positions_freshness ::
    "position_snapshot list \<Rightarrow> datetime \<Rightarrow> int \<Rightarrow> risk_rejected + position_snapshot list" where
  "validate_positions_freshness ps now max_age =
     (case validate_ages (map position_observed_at ps) now max_age STALE_POSITION_TRUTH ''positions'' 0 of
        Some e \<Rightarrow> Inl e | None \<Rightarrow> Inr ps)"

definition validate_orders_freshness ::
    "order_snapshot list \<Rightarrow> datetime \<Rightarrow> int \<Rightarrow> risk_rejected + order_snapshot list" where
  "validate_orders_freshness rs now max_age =
     (case validate_ages (map order_observed_at rs) now max_age STALE_ORDER_TRUTH ''orders'' 0 of
        Some e \<Rightarrow> Inl e | None \<Rightarrow> Inr rs)"

text \<open>The contract: truth is fresh at \<open>now\<close> when it is neither in the future nor older than the limit.\<close>

definition fresh :: "datetime \<Rightarrow> datetime \<Rightarrow> int \<Rightarrow> bool" where
  "fresh observed now max_age =
     (is_utc observed \<and> is_utc now \<and> instant observed \<le> instant now
      \<and> instant now \<le> instant observed + seconds max_age \<and> 0 \<le> max_age)"

lemma validate_age_None: "validate_age t now m stale path = None \<longleftrightarrow> fresh t now m"
  by (auto simp: validate_age_def fresh_def require_utc_def Let_def seconds_def)

lemma validate_ages_None: "validate_ages ts now m stale path i = None \<longleftrightarrow> (\<forall>t \<in> set ts. fresh t now m)"
  by (induction ts arbitrary: i) (simp_all add: validate_age_None)

text \<open>Whatever the validators reject, they reject as missing, stale, contradictory or unsupported truth.\<close>

lemma validate_age_reason:
  "validate_age t now m stale path = Some e \<Longrightarrow> reason e \<in> {UNSUPPORTED_INPUT, CONTRADICTORY_TRUTH, stale}"
  by (auto simp: validate_age_def require_utc_def Let_def split: if_splits)

lemma validate_ages_reason:
  "validate_ages ts now m stale path i = Some e \<Longrightarrow> reason e \<in> {UNSUPPORTED_INPUT, CONTRADICTORY_TRUTH, stale}"
  by (induction ts arbitrary: i) (auto split: option.splits dest: validate_age_reason)

text \<open>
  The freshness tests are exact. Account truth passes precisely when it is present,
  carries UTC, is not in the future of the clock and is not older than the limit; a list
  of positions or orders passes precisely when every element is fresh, and it passes
  unchanged; and truth from the future is reported as contradictory, never as stale.
\<close>

theorem freshness_exact:
  "(validate_account_freshness sn now m = Inr a \<longleftrightarrow> sn = Some a \<and> fresh (account_observed_at a) now m)
   \<and> (validate_positions_freshness ps now m = Inr qs \<longleftrightarrow>
        qs = ps \<and> list_all (\<lambda>p. fresh (position_observed_at p) now m) ps)
   \<and> (validate_orders_freshness rs now m = Inr os \<longleftrightarrow>
        os = rs \<and> list_all (\<lambda>r. fresh (order_observed_at r) now m) rs)
   \<and> validate_account_freshness (Some (a\<lparr>account_observed_at := utc_at (i + 1 + int d)\<rparr>)) (utc_at i) (int k)
       = Inl (reject CONTRADICTORY_TRUTH ''account.observed_at'')"
proof (intro conjI)
  show "validate_account_freshness sn now m = Inr a \<longleftrightarrow> sn = Some a \<and> fresh (account_observed_at a) now m"
    by (auto simp: validate_account_freshness_def validate_age_None fresh_def split: option.splits)
  show "validate_positions_freshness ps now m = Inr qs \<longleftrightarrow>
      qs = ps \<and> list_all (\<lambda>p. fresh (position_observed_at p) now m) ps"
    by (auto simp: validate_positions_freshness_def validate_ages_None list_all_iff split: option.splits)
  show "validate_orders_freshness rs now m = Inr os \<longleftrightarrow>
      os = rs \<and> list_all (\<lambda>r. fresh (order_observed_at r) now m) rs"
    by (auto simp: validate_orders_freshness_def validate_ages_None list_all_iff split: option.splits)
  show "validate_account_freshness (Some (a\<lparr>account_observed_at := utc_at (i + 1 + int d)\<rparr>)) (utc_at i) (int k)
      = Inl (reject CONTRADICTORY_TRUTH ''account.observed_at'')"
    by (simp add: validate_account_freshness_def validate_age_def require_utc_def)
qed

end
