(* ===== verification/Exposure.thy ===== *)
theory Exposure
  imports Permits Snapshots
begin

text \<open>
  The compiled expression of \<open>execution/expression/compiler.py\<close> (its value class and
  canonical form) and the Decimal-only exposure of \<open>risk/exposure.py\<close>. The position
  blocks of a compiled expression are dictionaries, kept as \<open>json\<close> objects.
\<close>

section \<open>Compiled expressions\<close>

datatype expression_kind = CASH_NO_TRADE | SHARES | ONE_LONG_OPTION | DEBIT_VERTICAL

fun expression_kind_value :: "expression_kind \<Rightarrow> string" where
  "expression_kind_value CASH_NO_TRADE = ''CASH_NO_TRADE''"
| "expression_kind_value SHARES = ''SHARES''"
| "expression_kind_value ONE_LONG_OPTION = ''ONE_LONG_OPTION''"
| "expression_kind_value DEBIT_VERTICAL = ''DEBIT_VERTICAL''"

record compiled_expression =
  expression_kind :: expression_kind
  ce_event_id :: string
  ce_decision_sha256 :: string
  ce_snapshot_sha256 :: string
  ce_policy_sha256 :: string
  ce_gate_d_report_sha256 :: string
  compiled_at :: datetime
  shares :: "json option"
  long_option :: "json option"
  debit_vertical :: "json option"

definition block_filled :: "json option \<Rightarrow> bool" where
  "block_filled b = (b \<noteq> None \<and> b \<noteq> Some (JObj []))"

definition compiled_expression_checks :: "compiled_expression \<Rightarrow> value_error option" where
  "compiled_expression_checks c =
     (let filled = length (filter block_filled [shares c, long_option c, debit_vertical c])
      in first_reject
         [(ce_event_id c = [], ''event_id must be non-empty text''),
          (length (ce_decision_sha256 c) \<noteq> 64, ''decision_sha256 must be a SHA-256 digest''),
          (length (ce_snapshot_sha256 c) \<noteq> 64, ''snapshot_sha256 must be a SHA-256 digest''),
          (length (ce_policy_sha256 c) \<noteq> 64, ''policy_sha256 must be a SHA-256 digest''),
          (length (ce_gate_d_report_sha256 c) \<noteq> 64, ''gate_d_report_sha256 must be a SHA-256 digest''),
          (\<not> equals_utc (compiled_at c), ''compiled_at must be UTC''),
          (expression_kind c = CASH_NO_TRADE \<and> filled \<noteq> 0, ''cash expressions carry no position block''),
          (expression_kind c \<noteq> CASH_NO_TRADE \<and> filled \<noteq> 1, ''exactly one position block must be present'')])"

definition block_payload :: "json option \<Rightarrow> json" where
  "block_payload b = (case b of None \<Rightarrow> JNull | Some v \<Rightarrow> v)"

definition compiled_expression_payload :: "compiled_expression \<Rightarrow> json" where
  "compiled_expression_payload c = JObj
     [(''schema'', JStr ''esscher.compiled_expression''), (''schema_version'', JInt 1),
      (''expression_kind'', JStr (expression_kind_value (expression_kind c))),
      (''event_id'', JStr (ce_event_id c)), (''decision_sha256'', JStr (ce_decision_sha256 c)),
      (''snapshot_sha256'', JStr (ce_snapshot_sha256 c)), (''policy_sha256'', JStr (ce_policy_sha256 c)),
      (''gate_d_report_sha256'', JStr (ce_gate_d_report_sha256 c)),
      (''compiled_at'', JStr (isoformat_z (compiled_at c))), (''shares'', block_payload (shares c)),
      (''long_option'', block_payload (long_option c)), (''debit_vertical'', block_payload (debit_vertical c)),
      (''no_package'', JBool False)]"

definition compiled_expression_bytes :: "compiled_expression \<Rightarrow> string" where
  "compiled_expression_bytes c = canonical_json_bytes (compiled_expression_payload c)"

definition compiled_expression_sha256 :: "hash_function \<Rightarrow> compiled_expression \<Rightarrow> string" where
  "compiled_expression_sha256 H c = H (compiled_expression_bytes c)"

section \<open>Exposure\<close>

text \<open>
  \<open>Decimal(str(value))\<close> of a value of a position block: text is parsed, an integer is
  itself, and the text Python prints for a truth value, a list or a dictionary is no
  decimal literal.
\<close>

fun decimal_of_json :: "json \<Rightarrow> dec option" where
  "decimal_of_json (JStr s) = dec_parse s"
| "decimal_of_json (JInt n) = Some (Fin n 0)"
| "decimal_of_json _ = None"

definition decimal_field :: "json \<Rightarrow> string \<Rightarrow> string \<Rightarrow> risk_rejected + dec" where
  "decimal_field block field path =
     (let bad = Inl (reject EXPOSURE_NOT_CALCULABLE (path @ ''.'' @ field))
      in case json_get block field of
           None \<Rightarrow> bad
         | Some JNull \<Rightarrow> bad
         | Some v \<Rightarrow>
             (case decimal_of_json v of
                None \<Rightarrow> bad
              | Some d \<Rightarrow> if \<not> is_finite d \<or> dec_lt d dec_zero then bad else Inr d))"

definition block_field :: "json option \<Rightarrow> string \<Rightarrow> string \<Rightarrow> risk_rejected + dec" where
  "block_field b field path =
     (case b of None \<Rightarrow> Inl (reject EXPOSURE_NOT_CALCULABLE path) | Some v \<Rightarrow> decimal_field v field path)"

fun exposure_of_kind :: "expression_kind \<Rightarrow> compiled_expression \<Rightarrow> risk_rejected + dec" where
  "exposure_of_kind CASH_NO_TRADE c = Inr dec_zero"
| "exposure_of_kind SHARES c = block_field (shares c) ''exposure'' ''shares''"
| "exposure_of_kind ONE_LONG_OPTION c = block_field (long_option c) ''premium_at_risk'' ''long_option''"
| "exposure_of_kind DEBIT_VERTICAL c = block_field (debit_vertical c) ''maximum_loss'' ''debit_vertical''"

definition expression_exposure :: "compiled_expression \<Rightarrow> risk_rejected + dec" where
  "expression_exposure c = exposure_of_kind (expression_kind c) c"

definition valid_exposure :: "dec \<Rightarrow> string \<Rightarrow> risk_rejected + dec" where
  "valid_exposure v path =
     (if \<not> is_finite v \<or> dec_lt v dec_zero then Inl (reject EXPOSURE_NOT_CALCULABLE path) else Inr v)"

fun aggregate_from :: "dec \<Rightarrow> (string \<times> dec) list \<Rightarrow> risk_rejected + dec" where
  "aggregate_from tot [] = Inr tot"
| "aggregate_from tot ((event_id, exposure) # rest) =
     rbind (valid_exposure exposure (''open_exposures.'' @ event_id)) (\<lambda>v. aggregate_from (dec_add tot v) rest)"

definition aggregate_exposure :: "(string \<times> dec) list \<Rightarrow> risk_rejected + dec" where
  "aggregate_exposure open_exposures = aggregate_from dec_zero open_exposures"

definition concentration_exposure :: "(string \<times> dec) list \<Rightarrow> risk_rejected + (string \<times> dec) list" where
  "concentration_exposure by_underlying =
     rmap_list (\<lambda>(underlying, exposure).
       rbind (valid_exposure exposure (''concentration.'' @ underlying)) (\<lambda>v. Inr (underlying, dec_abs v))) by_underlying"

lemma decimal_field_Inr: "decimal_field b f p = Inr d \<Longrightarrow> is_finite d \<and> 0 \<le> dval d"
  by (auto simp: decimal_field_def Let_def dec_order split: option.splits if_splits json.splits)

lemma expression_exposure_nonneg: "expression_exposure c = Inr d \<Longrightarrow> is_finite d \<and> 0 \<le> dval d"
  by (cases "expression_kind c")
    (auto simp: expression_exposure_def block_field_def dest: decimal_field_Inr split: option.splits)

lemma aggregate_from_sum:
  "list_all (\<lambda>(k, v). is_finite v \<and> 0 \<le> dval v) xs \<Longrightarrow> aggregate_from t xs = Inr (foldl dec_add t (map snd xs))"
  by (induction xs arbitrary: t) (auto simp: valid_exposure_def dec_order)

lemma aggregate_from_Inr:
  "aggregate_from t xs = Inr d \<Longrightarrow> list_all (\<lambda>(k, v). is_finite v \<and> 0 \<le> dval v) xs"
  by (induction xs arbitrary: t) (auto simp: valid_exposure_def dec_order rbind_Inr split: if_splits)

text \<open>
  Exposure is never approximated or negative: the exposure of an expression, when the
  code computes one, is a finite non-negative decimal; an aggregate over the open exposures
  is computed exactly when each of them is finite and non-negative, and it is then their
  Decimal sum in order, itself finite and non-negative; and no exposure is computed from a
  block that is missing or lacks its field.
\<close>

theorem exposure_conservative:
  "(expression_exposure c = Inr d \<longrightarrow> is_finite d \<and> 0 \<le> dval d)
   \<and> (aggregate_exposure xs = Inr t \<longleftrightarrow>
        list_all (\<lambda>(k, v). is_finite v \<and> 0 \<le> dval v) xs \<and> t = dec_sum (map snd xs))
   \<and> (aggregate_exposure xs = Inr t \<longrightarrow> is_finite t \<and> 0 \<le> dval t)
   \<and> (expression_kind c = DEBIT_VERTICAL \<longrightarrow> Option.bind (debit_vertical c) (\<lambda>b. json_get b ''maximum_loss'') = None \<longrightarrow>
        (\<exists>e. expression_exposure c = Inl e \<and> reason e = EXPOSURE_NOT_CALCULABLE))"
proof (intro conjI impI)
  show "expression_exposure c = Inr d \<Longrightarrow> is_finite d" "expression_exposure c = Inr d \<Longrightarrow> 0 \<le> dval d"
    using expression_exposure_nonneg by blast+
  show sum: "aggregate_exposure xs = Inr t \<longleftrightarrow>
      list_all (\<lambda>(k, v). is_finite v \<and> 0 \<le> dval v) xs \<and> t = dec_sum (map snd xs)"
    using aggregate_from_Inr [of dec_zero xs t] aggregate_from_sum [of xs dec_zero]
    by (auto simp: aggregate_exposure_def dec_sum_def)
  { assume "aggregate_exposure xs = Inr t"
    then have all: "list_all (\<lambda>(k, v). is_finite v \<and> 0 \<le> dval v) xs" and t: "t = dec_sum (map snd xs)"
      using sum by blast+
    have "is_finite (dec_sum (map snd xs)) \<and> 0 \<le> dval (dec_sum (map snd xs))"
      by (rule dec_sum_nonneg) (use all in \<open>auto simp: list_all_iff\<close>)
    then show "is_finite t" "0 \<le> dval t" by (simp_all add: t) }
  assume "expression_kind c = DEBIT_VERTICAL"
    "Option.bind (debit_vertical c) (\<lambda>b. json_get b ''maximum_loss'') = None"
  then show "\<exists>e. expression_exposure c = Inl e \<and> reason e = EXPOSURE_NOT_CALCULABLE"
    by (auto simp: expression_exposure_def block_field_def decimal_field_def split: option.splits)
qed

text \<open>A debit vertical with a maximum loss of 125.50, used as the running example.\<close>

definition sample_compiled :: compiled_expression where
  "sample_compiled = \<lparr>expression_kind = DEBIT_VERTICAL, ce_event_id = ''ev-1'',
     ce_decision_sha256 = replicate 64 (CHR ''a''), ce_snapshot_sha256 = replicate 64 (CHR ''b''),
     ce_policy_sha256 = replicate 64 (CHR ''c''), ce_gate_d_report_sha256 = replicate 64 (CHR ''d''),
     compiled_at = utc_at 0, shares = None, long_option = None,
     debit_vertical = Some (JObj [(''maximum_loss'', JStr ''125.50'')])\<rparr>"

lemma sample_exposure: "expression_exposure sample_compiled = Inr (Fin 12550 (-2))"
  by code_simp

theorem exposure_conservative_witness:
  "expression_exposure sample_compiled = Inr (Fin 12550 (-2)) \<and> 0 \<le> dval (Fin 12550 (-2))
   \<and> aggregate_exposure [(''a'', Fin 1 0), (''b'', Fin 5 (-1))] = Inr (Fin 15 (-1))
   \<and> (\<exists>e. expression_exposure (sample_compiled\<lparr>debit_vertical := None\<rparr>) = Inl e \<and> reason e = EXPOSURE_NOT_CALCULABLE)"
proof -
  have agg: "aggregate_exposure [(''a'', Fin 1 0), (''b'', Fin 5 (-1))] = Inr (Fin 15 (-1))" by code_simp
  have kind: "expression_kind (sample_compiled\<lparr>debit_vertical := None\<rparr>) = DEBIT_VERTICAL"
    and none: "Option.bind (debit_vertical (sample_compiled\<lparr>debit_vertical := None\<rparr>)) (\<lambda>b. json_get b ''maximum_loss'') = None"
    by (simp_all add: sample_compiled_def)
  have "0 \<le> dval (Fin 12550 (-2))"
    using exposure_conservative [of sample_compiled "Fin 12550 (-2)"] sample_exposure by blast
  moreover have "\<exists>e. expression_exposure (sample_compiled\<lparr>debit_vertical := None\<rparr>) = Inl e \<and> reason e = EXPOSURE_NOT_CALCULABLE"
    using exposure_conservative [of "sample_compiled\<lparr>debit_vertical := None\<rparr>"] kind none by blast
  ultimately show ?thesis using sample_exposure agg by blast
qed

end
