(* ===== verification/Policy.thy ===== *)
theory Policy
  imports Exposure
begin

text \<open>
  \<open>risk/policy.py\<close>: the immutable PAPER account risk policies. Version 1 carries free
  positive constants, version 2 the owner-approved ones; both have one canonical byte
  form and a strict reader that accepts nothing else.

  The reader \<open>json_loads\<close> covers the canonical fragment of JSON. On any other text the
  model rejects at the reader; the code rejects it there or at a later test, the last of
  which compares the bytes with their canonical form. The iteration order of a Python
  \<open>frozenset\<close> is not fixed by the language: it is an argument of the definitions that
  iterate over one. The digest of the packaged owner policy is the argument \<open>owner\<close>.
\<close>

section \<open>Reading canonical objects\<close>

fun json_unique :: "json \<Rightarrow> bool" where
  "json_unique (JList vs) = list_all json_unique vs"
| "json_unique (JObj kvs) = (distinct (map fst kvs) \<and> list_all (\<lambda>kv. json_unique (snd kv)) kvs)"
| "json_unique _ = True"

text \<open>\<open>payload[key]\<close>, used only after the field set has been compared.\<close>

definition field_of :: "json \<Rightarrow> string \<Rightarrow> json" where
  "field_of v k = (case json_get v k of Some w \<Rightarrow> w | None \<Rightarrow> JNull)"

fun object_keys :: "json \<Rightarrow> string list" where
  "object_keys (JObj kvs) = map fst kvs"
| "object_keys _ = []"

text \<open>\<open>value == n\<close> of a JSON value: Python's truth values equal 0 and 1.\<close>

fun json_equals_int :: "json \<Rightarrow> int \<Rightarrow> bool" where
  "json_equals_int (JInt k) n = (k = n)"
| "json_equals_int (JBool b) n = ((if b then 1 else 0) = n)"
| "json_equals_int _ n = False"

text \<open>
  A policy reader raises \<open>RiskRejected\<close>, or the plain \<open>ValueError\<close> of the policy's own
  \<open>__post_init__\<close>.
\<close>

datatype policy_error = PolicyRejected risk_rejected | PolicyValueError value_error

definition policy_reject :: "risk_reason \<Rightarrow> string \<Rightarrow> policy_error" where
  "policy_reject r path = PolicyRejected (reject r path)"

definition strict_object :: "string \<Rightarrow> string list \<Rightarrow> string \<Rightarrow> policy_error + json" where
  "strict_object path expected raw =
     (case json_loads raw of
        None \<Rightarrow> Inl (policy_reject UNSUPPORTED_INPUT path)
      | Some v \<Rightarrow> guarded
          [(\<not> json_unique v, policy_reject UNSUPPORTED_INPUT path),
           (\<not> is_object v, policy_reject UNSUPPORTED_INPUT path),
           (set (object_keys v) \<noteq> set expected, policy_reject UNSUPPORTED_INPUT path)] (Inr v))"

section \<open>Version 1\<close>

definition POLICY_FIELDS :: "string list" where
  "POLICY_FIELDS =
     [''schema'', ''schema_version'', ''policy_id'', ''version'', ''run_mode'', ''account_capital'',
      ''per_event_loss_budget'', ''aggregate_exposure_limit'', ''daily_loss_limit'', ''drawdown_limit'',
      ''concentration_limit'', ''max_entries_per_day'', ''max_open_expressions'',
      ''close_only_equity_threshold'', ''truth_max_age_seconds'', ''constants_source_sha256'']"

definition DECIMAL_FIELDS :: "string list" where
  "DECIMAL_FIELDS =
     [''account_capital'', ''per_event_loss_budget'', ''aggregate_exposure_limit'', ''daily_loss_limit'',
      ''drawdown_limit'', ''concentration_limit'', ''close_only_equity_threshold'']"

record risk_policy =
  rp_policy_id :: string
  rp_version :: string
  run_mode :: string
  account_capital :: dec
  per_event_loss_budget :: dec
  aggregate_exposure_limit :: dec
  daily_loss_limit :: dec
  drawdown_limit :: dec
  concentration_limit :: dec
  max_entries_per_day :: int
  max_open_expressions :: int
  close_only_equity_threshold :: dec
  truth_max_age_seconds :: int
  constants_source_sha256 :: string

definition policy_decimals :: "risk_policy \<Rightarrow> (string \<times> dec) list" where
  "policy_decimals p =
     [(''account_capital'', account_capital p), (''per_event_loss_budget'', per_event_loss_budget p),
      (''aggregate_exposure_limit'', aggregate_exposure_limit p), (''daily_loss_limit'', daily_loss_limit p),
      (''drawdown_limit'', drawdown_limit p), (''concentration_limit'', concentration_limit p),
      (''close_only_equity_threshold'', close_only_equity_threshold p)]"

definition positive_dec :: "dec \<Rightarrow> bool" where
  "positive_dec d = (is_finite d \<and> \<not> dec_le d dec_zero)"

definition policy_decimal :: "risk_policy \<Rightarrow> string \<Rightarrow> dec" where
  "policy_decimal p f = (case map_of (policy_decimals p) f of Some d \<Rightarrow> d | None \<Rightarrow> NaN)"

definition risk_policy_checks :: "string list \<Rightarrow> risk_policy \<Rightarrow> value_error option" where
  "risk_policy_checks decimal_fields p = first_reject
     ([(rp_policy_id p = [] \<or> rp_version p = [], ''policy_id and version must be non-empty text''),
       (run_mode p \<noteq> ''PAPER'', ''risk policy is permanently PAPER-only'')]
      @ map (\<lambda>f. (\<not> positive_dec (policy_decimal p f), f)) decimal_fields
      @ [(max_entries_per_day p \<le> 0, ''max_entries_per_day must be a positive integer''),
         (max_open_expressions p \<le> 0, ''max_open_expressions must be a positive integer''),
         (truth_max_age_seconds p \<le> 0, ''truth_max_age_seconds must be a positive integer'')])"

definition risk_policy_ok :: "risk_policy \<Rightarrow> bool" where
  "risk_policy_ok p = (risk_policy_checks DECIMAL_FIELDS p = None)"

definition constants_verified :: "risk_policy \<Rightarrow> bool" where
  "constants_verified p = is_sha256 (constants_source_sha256 p)"

definition risk_policy_members :: "risk_policy \<Rightarrow> (string \<times> json) list" where
  "risk_policy_members p =
     [(''schema'', JStr ''esscher.paper_account_risk_policy''), (''schema_version'', JInt 1),
      (''policy_id'', JStr (rp_policy_id p)), (''version'', JStr (rp_version p)), (''run_mode'', JStr (run_mode p)),
      (''account_capital'', JStr (dec_str (account_capital p))),
      (''per_event_loss_budget'', JStr (dec_str (per_event_loss_budget p))),
      (''aggregate_exposure_limit'', JStr (dec_str (aggregate_exposure_limit p))),
      (''daily_loss_limit'', JStr (dec_str (daily_loss_limit p))),
      (''drawdown_limit'', JStr (dec_str (drawdown_limit p))),
      (''concentration_limit'', JStr (dec_str (concentration_limit p))),
      (''max_entries_per_day'', JInt (max_entries_per_day p)),
      (''max_open_expressions'', JInt (max_open_expressions p)),
      (''close_only_equity_threshold'', JStr (dec_str (close_only_equity_threshold p))),
      (''truth_max_age_seconds'', JInt (truth_max_age_seconds p)),
      (''constants_source_sha256'', JStr (constants_source_sha256 p))]"

definition risk_policy_payload :: "risk_policy \<Rightarrow> json" where
  "risk_policy_payload p = JObj (risk_policy_members p)"

definition risk_policy_bytes :: "risk_policy \<Rightarrow> string" where
  "risk_policy_bytes p = canonical_json_bytes (risk_policy_payload p)"

definition risk_policy_sha256 :: "hash_function \<Rightarrow> risk_policy \<Rightarrow> string" where
  "risk_policy_sha256 H p = H (risk_policy_bytes p)"

definition positive_decimal :: "json \<Rightarrow> string \<Rightarrow> policy_error + dec" where
  "positive_decimal v path =
     (case v of
        JStr s \<Rightarrow>
          (case dec_parse s of
             None \<Rightarrow> Inl (policy_reject UNSUPPORTED_INPUT path)
           | Some d \<Rightarrow> guarded
               [(\<not> is_finite d, policy_reject EXPOSURE_NOT_CALCULABLE path),
                (dec_le d dec_zero, policy_reject POLICY_UNVERIFIED_CONSTANT path)] (Inr d))
      | _ \<Rightarrow> Inl (policy_reject UNSUPPORTED_INPUT path))"

definition positive_int :: "json \<Rightarrow> string \<Rightarrow> policy_error + int" where
  "positive_int v path =
     (case v of JInt n \<Rightarrow> if n \<le> 0 then Inl (policy_reject POLICY_UNVERIFIED_CONSTANT path) else Inr n
      | _ \<Rightarrow> Inl (policy_reject POLICY_UNVERIFIED_CONSTANT path))"

text \<open>
  \<open>str(value)\<close> of a field that should be text. Python also prints other values, to a
  non-empty text whose JSON form is never the value's own, so the closing comparison of
  bytes rejects them: they are kept apart here by \<open>is_text\<close>.
\<close>

fun text_of :: "json \<Rightarrow> string" where
  "text_of (JStr s) = s"
| "text_of v = json_dumps v"

fun is_text :: "json \<Rightarrow> bool" where
  "is_text (JStr s) = True"
| "is_text v = False"

definition parse_policy_fields :: "string list \<Rightarrow> json \<Rightarrow> policy_error + risk_policy" where
  "parse_policy_fields decimal_fields v =
     guarded
       [(field_of v ''schema'' \<noteq> JStr ''esscher.paper_account_risk_policy'', policy_reject UNSUPPORTED_INPUT ''risk_policy.schema''),
        (\<not> json_equals_int (field_of v ''schema_version'') 1, policy_reject UNSUPPORTED_INPUT ''risk_policy.schema_version''),
        (field_of v ''run_mode'' \<noteq> JStr ''PAPER'', policy_reject POLICY_NOT_PAPER_ONLY ''risk_policy.run_mode'')]
     (rbind (rmap_list (\<lambda>f. rbind (positive_decimal (field_of v f) (''risk_policy.'' @ f)) (\<lambda>d. Inr (f, d))) decimal_fields)
       (\<lambda>decimals.
         let dec_at = (\<lambda>f. case map_of decimals f of Some d \<Rightarrow> d | None \<Rightarrow> NaN)
         in rbind (positive_int (field_of v ''max_entries_per_day'') ''risk_policy.max_entries_per_day'') (\<lambda>entries.
            rbind (positive_int (field_of v ''max_open_expressions'') ''risk_policy.max_open_expressions'') (\<lambda>opens.
            rbind (positive_int (field_of v ''truth_max_age_seconds'') ''risk_policy.truth_max_age_seconds'') (\<lambda>age.
              Inr \<lparr>rp_policy_id = text_of (field_of v ''policy_id''), rp_version = text_of (field_of v ''version''),
                   run_mode = text_of (field_of v ''run_mode''), account_capital = dec_at ''account_capital'',
                   per_event_loss_budget = dec_at ''per_event_loss_budget'',
                   aggregate_exposure_limit = dec_at ''aggregate_exposure_limit'',
                   daily_loss_limit = dec_at ''daily_loss_limit'', drawdown_limit = dec_at ''drawdown_limit'',
                   concentration_limit = dec_at ''concentration_limit'', max_entries_per_day = entries,
                   max_open_expressions = opens, close_only_equity_threshold = dec_at ''close_only_equity_threshold'',
                   truth_max_age_seconds = age,
                   constants_source_sha256 = text_of (field_of v ''constants_source_sha256'')\<rparr>)))))"

definition parse_risk_policy :: "string list \<Rightarrow> string \<Rightarrow> policy_error + risk_policy" where
  "parse_risk_policy decimal_fields raw =
     rbind (strict_object ''risk_policy'' POLICY_FIELDS raw) (\<lambda>v.
     rbind (parse_policy_fields decimal_fields v) (\<lambda>p.
       case risk_policy_checks decimal_fields p of
         Some e \<Rightarrow> Inl (PolicyValueError e)
       | None \<Rightarrow> guarded
           [(\<not> list_all (\<lambda>f. is_text (field_of v f)) [''policy_id'', ''version'', ''constants_source_sha256'']
               \<or> risk_policy_bytes p \<noteq> raw, policy_reject UNSUPPORTED_INPUT ''risk_policy'')] (Inr p)))"

section \<open>Canonical objects read back\<close>

lemma json_unique_sorted: "json_unique v \<Longrightarrow> json_unique (json_sort v)"
proof (induction v rule: json_sort.induct)
  case (1 vs)
  then show ?case by (auto simp: list_all_iff)
next
  case (2 kvs)
  have "distinct (map fst (map (\<lambda>kv. (fst kv, json_sort (snd kv))) kvs))" using 2 by (simp add: comp_def)
  then have "distinct (map fst (sort_key fst (map (\<lambda>kv. (fst kv, json_sort (snd kv))) kvs)))"
    by (simp only: distinct_sort_key)
  then show ?case using 2 by (auto simp: list_all_iff)
qed simp_all

lemma object_keys_sorted: "set (object_keys (json_sort (JObj kvs))) = fst ` set kvs"
  by (simp add: image_image)

lemma strict_object_canonical:
  assumes "json_unique (JObj kvs)" "set (map fst kvs) = set names"
  shows "strict_object path names (canonical_json_bytes (JObj kvs)) = Inr (json_sort (JObj kvs))"
proof -
  have "is_object (json_sort (JObj kvs))" by simp
  then show ?thesis
    using json_unique_sorted [OF assms(1)] object_keys_sorted [of kvs] assms(2)
    by (simp add: strict_object_def json_loads_canonical guarded_def)
qed

lemma field_of_sorted:
  "distinct (map fst kvs) \<Longrightarrow>
     field_of (json_sort (JObj kvs)) k = (case map_of kvs k of Some v \<Rightarrow> json_sort v | None \<Rightarrow> JNull)"
  by (simp only: field_of_def json_get_sorted) (simp split: option.split)

lemma strict_object_Inr: "strict_object path names raw = Inr v \<Longrightarrow> json_loads raw = Some v"
  by (auto simp: strict_object_def guarded_Inr split: option.splits)

section \<open>Version 1 round trip\<close>

lemma positive_decimal_str: "positive_dec d \<Longrightarrow> positive_decimal (JStr (dec_str d)) path = Inr d"
  by (simp add: positive_decimal_def positive_dec_def dec_parse_str guarded_def)

lemma risk_policy_checks_order:
  assumes "set fs = set DECIMAL_FIELDS"
  shows "risk_policy_checks fs p = None \<longleftrightarrow> risk_policy_ok p"
  using assms by (auto simp: risk_policy_checks_def risk_policy_ok_def first_reject_None)

lemma policy_members_distinct: "distinct (map fst (risk_policy_members p))"
  by (simp add: risk_policy_members_def)

lemma payload_unique: "json_unique (risk_policy_payload p)"
  unfolding risk_policy_payload_def json_unique.simps
  by (rule conjI [OF policy_members_distinct]) (simp add: risk_policy_members_def)

lemma policy_field:
  "field_of (json_sort (risk_policy_payload p)) k =
     (case map_of (risk_policy_members p) k of Some v \<Rightarrow> json_sort v | None \<Rightarrow> JNull)"
  unfolding risk_policy_payload_def by (rule field_of_sorted [OF policy_members_distinct])

lemma policy_fields_of:
  "field_of (json_sort (risk_policy_payload p)) ''schema'' = JStr ''esscher.paper_account_risk_policy''"
  "field_of (json_sort (risk_policy_payload p)) ''schema_version'' = JInt 1"
  "field_of (json_sort (risk_policy_payload p)) ''policy_id'' = JStr (rp_policy_id p)"
  "field_of (json_sort (risk_policy_payload p)) ''version'' = JStr (rp_version p)"
  "field_of (json_sort (risk_policy_payload p)) ''run_mode'' = JStr (run_mode p)"
  "field_of (json_sort (risk_policy_payload p)) ''max_entries_per_day'' = JInt (max_entries_per_day p)"
  "field_of (json_sort (risk_policy_payload p)) ''max_open_expressions'' = JInt (max_open_expressions p)"
  "field_of (json_sort (risk_policy_payload p)) ''truth_max_age_seconds'' = JInt (truth_max_age_seconds p)"
  "field_of (json_sort (risk_policy_payload p)) ''constants_source_sha256'' = JStr (constants_source_sha256 p)"
  by (simp_all add: policy_field risk_policy_members_def)

lemma policy_decimal_fields_of:
  "f \<in> set DECIMAL_FIELDS \<Longrightarrow>
     field_of (json_sort (risk_policy_payload p)) f = JStr (dec_str (policy_decimal p f))"
  by (auto simp: policy_field risk_policy_members_def policy_decimal_def policy_decimals_def DECIMAL_FIELDS_def)

lemma risk_policy_ok_iff:
  "risk_policy_ok p \<longleftrightarrow> rp_policy_id p \<noteq> [] \<and> rp_version p \<noteq> [] \<and> run_mode p = ''PAPER''
     \<and> (\<forall>f \<in> set DECIMAL_FIELDS. positive_dec (policy_decimal p f))
     \<and> 0 < max_entries_per_day p \<and> 0 < max_open_expressions p \<and> 0 < truth_max_age_seconds p"
  by (auto simp: risk_policy_ok_def risk_policy_checks_def first_reject_None)

lemma parsed_decimals:
  assumes "risk_policy_ok p" "set fs \<subseteq> set DECIMAL_FIELDS"
  shows "rmap_list (\<lambda>f. rbind (positive_decimal (field_of (json_sort (risk_policy_payload p)) f) (''risk_policy.'' @ f)) (\<lambda>d. Inr (f, d))) fs
    = Inr (map (\<lambda>f. (f, policy_decimal p f)) fs)"
  by (rule rmap_list_Inr_map)
    (use assms in \<open>auto simp: policy_decimal_fields_of risk_policy_ok_iff positive_decimal_str\<close>)

lemma map_of_tabulate: "map_of (map (\<lambda>f. (f, g f)) fs) k = (if k \<in> set fs then Some (g k) else None)"
  by (induction fs) auto

lemma policy_of_decimals:
  "p = \<lparr>rp_policy_id = rp_policy_id p, rp_version = rp_version p, run_mode = run_mode p,
     account_capital = policy_decimal p ''account_capital'',
     per_event_loss_budget = policy_decimal p ''per_event_loss_budget'',
     aggregate_exposure_limit = policy_decimal p ''aggregate_exposure_limit'',
     daily_loss_limit = policy_decimal p ''daily_loss_limit'', drawdown_limit = policy_decimal p ''drawdown_limit'',
     concentration_limit = policy_decimal p ''concentration_limit'', max_entries_per_day = max_entries_per_day p,
     max_open_expressions = max_open_expressions p,
     close_only_equity_threshold = policy_decimal p ''close_only_equity_threshold'',
     truth_max_age_seconds = truth_max_age_seconds p, constants_source_sha256 = constants_source_sha256 p\<rparr>"
  by (cases p) (simp add: policy_decimal_def policy_decimals_def)

lemma parse_fields_back:
  assumes "risk_policy_ok p" "set fs = set DECIMAL_FIELDS"
  shows "parse_policy_fields fs (json_sort (risk_policy_payload p)) = Inr p"
proof -
  have ok: "run_mode p = ''PAPER''" "\<not> max_entries_per_day p \<le> 0" "\<not> max_open_expressions p \<le> 0"
    "\<not> truth_max_age_seconds p \<le> 0"
    using assms(1) by (auto simp: risk_policy_ok_iff)
  have mem: "f \<in> set DECIMAL_FIELDS \<Longrightarrow> f \<in> set fs" for f using assms(2) by simp
  show ?thesis
    unfolding parse_policy_fields_def parsed_decimals [OF assms(1) equalityD1 [OF assms(2)]]
    by (subst (6) policy_of_decimals)
      (simp add: guarded_def policy_fields_of positive_int_def ok map_of_tabulate Let_def mem DECIMAL_FIELDS_def)
qed

text \<open>
  C7. The version 1 policy has exactly one byte form. Writing any valid policy and reading
  it back gives the same policy, whatever the iteration order of the field set; and
  whatever bytes the reader accepts are the canonical bytes of the policy it returns, which
  is valid: PAPER-only with finite positive constants.
\<close>

theorem risk_policy_roundtrip:
  assumes order: "set fs = set DECIMAL_FIELDS"
  shows "(risk_policy_ok p \<longrightarrow> parse_risk_policy fs (risk_policy_bytes p) = Inr p)
    \<and> (parse_risk_policy fs raw = Inr q \<longrightarrow> raw = risk_policy_bytes q \<and> risk_policy_ok q)"
proof (intro conjI impI)
  assume ok: "risk_policy_ok p"
  have "strict_object ''risk_policy'' POLICY_FIELDS (risk_policy_bytes p) = Inr (json_sort (risk_policy_payload p))"
    using payload_unique [of p] unfolding risk_policy_bytes_def risk_policy_payload_def
    by (intro strict_object_canonical) (auto simp: risk_policy_members_def POLICY_FIELDS_def)
  then show "parse_risk_policy fs (risk_policy_bytes p) = Inr p"
    by (simp add: parse_risk_policy_def parse_fields_back [OF ok order] policy_fields_of guarded_def
        iffD2 [OF risk_policy_checks_order [OF order] ok])
next
  assume "parse_risk_policy fs raw = Inr q"
  then show "raw = risk_policy_bytes q" "risk_policy_ok q"
    by (auto simp: parse_risk_policy_def outcome_simps risk_policy_checks_order [OF order])
qed

definition sample_policy :: risk_policy where
  "sample_policy = \<lparr>rp_policy_id = ''P1'', rp_version = ''v1'', run_mode = ''PAPER'',
     account_capital = Fin 100000 0, per_event_loss_budget = Fin 500 0, aggregate_exposure_limit = Fin 2000 0,
     daily_loss_limit = Fin 300 0, drawdown_limit = Fin 1000 0, concentration_limit = Fin 1000 0,
     max_entries_per_day = 3, max_open_expressions = 3, close_only_equity_threshold = Fin 50000 0,
     truth_max_age_seconds = 30, constants_source_sha256 = replicate 64 (CHR ''e'')\<rparr>"

lemma sample_policy_ok: "risk_policy_ok sample_policy"
  by (simp add: risk_policy_ok_iff sample_policy_def DECIMAL_FIELDS_def positive_dec_def policy_decimal_def
      policy_decimals_def aligned_def)

theorem risk_policy_roundtrip_witness:
  "parse_risk_policy DECIMAL_FIELDS (risk_policy_bytes sample_policy) = Inr sample_policy"
  using risk_policy_roundtrip [of DECIMAL_FIELDS sample_policy] sample_policy_ok by blast

section \<open>Version 2\<close>

text \<open>
  The owner-bound autonomy policy. Its constants are fixed by the program; the reader
  compares each of them with the owner's value.
\<close>

definition V2_STARTING_EQUITY :: dec where "V2_STARTING_EQUITY = Fin 100000 0"
definition V2_RISK_TIERS :: "dec list" where "V2_RISK_TIERS = [Fin 10 (-2), Fin 5 (-2), Fin 20 (-2)]"
definition V2_PER_UNDERLYING_FRACTION :: dec where "V2_PER_UNDERLYING_FRACTION = Fin 20 (-2)"
definition V2_AGGREGATE_FRACTION :: dec where "V2_AGGREGATE_FRACTION = Fin 50 (-2)"
definition V2_FREEZE_FRACTION :: dec where "V2_FREEZE_FRACTION = Fin 50 (-2)"
definition V2_TRUTH_MAX_AGE_SECONDS :: int where "V2_TRUTH_MAX_AGE_SECONDS = 30"

lemmas v2_constants = V2_STARTING_EQUITY_def V2_RISK_TIERS_def V2_PER_UNDERLYING_FRACTION_def
  V2_AGGREGATE_FRACTION_def V2_FREEZE_FRACTION_def V2_TRUTH_MAX_AGE_SECONDS_def

definition V2_POLICY_FIELDS :: "string list" where
  "V2_POLICY_FIELDS =
     [''schema'', ''schema_version'', ''policy_id'', ''version'', ''run_mode'', ''starting_equity'', ''risk_tiers'',
      ''max_per_underlying_open_debit_fraction'', ''max_aggregate_open_debit_fraction'',
      ''emergency_drawdown_freeze_fraction'', ''daily_loss_stop'', ''trade_count_cap'',
      ''open_expression_count_cap'', ''cash_only'', ''defined_risk_only'', ''truth_max_age_seconds'',
      ''owner_policy_sha256'', ''constants_source_sha256'']"

record risk_policy_v2 =
  v2_policy_id :: string
  v2_version :: string
  v2_run_mode :: string
  starting_equity :: dec
  risk_tiers :: "dec list"
  max_per_underlying_open_debit_fraction :: dec
  max_aggregate_open_debit_fraction :: dec
  emergency_drawdown_freeze_fraction :: dec
  daily_loss_stop :: "dec option"
  trade_count_cap :: "int option"
  open_expression_count_cap :: "int option"
  cash_only :: bool
  defined_risk_only :: bool
  v2_truth_max_age_seconds :: int
  owner_policy_sha256 :: string
  v2_constants_source_sha256 :: string

definition risk_policy_v2_checks :: "string \<Rightarrow> risk_policy_v2 \<Rightarrow> value_error option" where
  "risk_policy_v2_checks owner p = first_reject
     [(v2_policy_id p \<noteq> ''PAPER_ACCOUNT_RISK_POLICY_V2'' \<or> v2_version p \<noteq> ''v2'', ''RiskPolicyV2 identity is immutable''),
      (v2_run_mode p \<noteq> ''PAPER'', ''RiskPolicyV2 is permanently PAPER-only''),
      (\<not> dec_eq (starting_equity p) V2_STARTING_EQUITY \<or> \<not> is_finite (starting_equity p),
         ''starting_equity must equal the owner-approved Decimal''),
      (\<not> list_all2 dec_eq (risk_tiers p) V2_RISK_TIERS, ''risk_tiers must equal the owner-approved tiers''),
      (\<not> dec_eq (max_per_underlying_open_debit_fraction p) V2_PER_UNDERLYING_FRACTION,
         ''max_per_underlying_open_debit_fraction must equal the owner-approved Decimal''),
      (\<not> dec_eq (max_aggregate_open_debit_fraction p) V2_AGGREGATE_FRACTION,
         ''max_aggregate_open_debit_fraction must equal the owner-approved Decimal''),
      (\<not> dec_eq (emergency_drawdown_freeze_fraction p) V2_FREEZE_FRACTION,
         ''emergency_drawdown_freeze_fraction must equal the owner-approved Decimal''),
      (daily_loss_stop p \<noteq> None \<or> trade_count_cap p \<noteq> None \<or> open_expression_count_cap p \<noteq> None,
         ''V2 nullable caps must remain null''),
      (\<not> cash_only p \<or> \<not> defined_risk_only p, ''V2 must remain cash-only and defined-risk-only''),
      (v2_truth_max_age_seconds p \<noteq> V2_TRUTH_MAX_AGE_SECONDS, ''truth_max_age_seconds must equal the owner value''),
      (\<not> is_sha256 (owner_policy_sha256 p) \<or> \<not> is_sha256 (v2_constants_source_sha256 p)
         \<or> owner_policy_sha256 p \<noteq> owner \<or> v2_constants_source_sha256 p \<noteq> owner,
         ''V2 policy must bind the exact owner autonomy-policy bytes'')]"

definition risk_policy_v2_ok :: "string \<Rightarrow> risk_policy_v2 \<Rightarrow> bool" where
  "risk_policy_v2_ok owner p = (risk_policy_v2_checks owner p = None)"

definition v2_constants_verified :: "string \<Rightarrow> risk_policy_v2 \<Rightarrow> bool" where
  "v2_constants_verified owner p = (owner_policy_sha256 p = owner \<and> v2_constants_source_sha256 p = owner)"

definition emergency_drawdown_freeze_equity :: "risk_policy_v2 \<Rightarrow> dec" where
  "emergency_drawdown_freeze_equity p = dec_mul (starting_equity p) (emergency_drawdown_freeze_fraction p)"

definition null_payload :: "'a option \<Rightarrow> ('a \<Rightarrow> json) \<Rightarrow> json" where
  "null_payload x f = (case x of None \<Rightarrow> JNull | Some a \<Rightarrow> f a)"

definition risk_policy_v2_members :: "risk_policy_v2 \<Rightarrow> (string \<times> json) list" where
  "risk_policy_v2_members p =
     [(''schema'', JStr ''esscher.paper_account_risk_policy''), (''schema_version'', JInt 2),
      (''policy_id'', JStr (v2_policy_id p)), (''version'', JStr (v2_version p)), (''run_mode'', JStr (v2_run_mode p)),
      (''starting_equity'', JStr (dec_str (starting_equity p))),
      (''risk_tiers'', JList (map (\<lambda>t. JStr (dec_str t)) (risk_tiers p))),
      (''max_per_underlying_open_debit_fraction'', JStr (dec_str (max_per_underlying_open_debit_fraction p))),
      (''max_aggregate_open_debit_fraction'', JStr (dec_str (max_aggregate_open_debit_fraction p))),
      (''emergency_drawdown_freeze_fraction'', JStr (dec_str (emergency_drawdown_freeze_fraction p))),
      (''daily_loss_stop'', null_payload (daily_loss_stop p) (\<lambda>d. JStr (dec_str d))),
      (''trade_count_cap'', null_payload (trade_count_cap p) JInt),
      (''open_expression_count_cap'', null_payload (open_expression_count_cap p) JInt),
      (''cash_only'', JBool (cash_only p)), (''defined_risk_only'', JBool (defined_risk_only p)),
      (''truth_max_age_seconds'', JInt (v2_truth_max_age_seconds p)),
      (''owner_policy_sha256'', JStr (owner_policy_sha256 p)),
      (''constants_source_sha256'', JStr (v2_constants_source_sha256 p))]"

definition risk_policy_v2_bytes :: "risk_policy_v2 \<Rightarrow> string" where
  "risk_policy_v2_bytes p = canonical_json_bytes (JObj (risk_policy_v2_members p))"

definition risk_policy_v2_sha256 :: "hash_function \<Rightarrow> risk_policy_v2 \<Rightarrow> string" where
  "risk_policy_v2_sha256 H p = H (risk_policy_v2_bytes p)"

definition v2_decimal :: "json \<Rightarrow> string \<Rightarrow> dec \<Rightarrow> policy_error + dec" where
  "v2_decimal v path expected =
     (case v of
        JStr s \<Rightarrow>
          (case dec_parse s of
             None \<Rightarrow> Inl (policy_reject UNSUPPORTED_INPUT path)
           | Some d \<Rightarrow> guarded
               [(\<not> is_finite d, policy_reject POLICY_UNVERIFIED_CONSTANT path),
                (dec_str d \<noteq> s \<or> \<not> dec_eq d expected, policy_reject POLICY_UNVERIFIED_CONSTANT path)] (Inr d))
      | _ \<Rightarrow> Inl (policy_reject UNSUPPORTED_INPUT path))"

definition v2_text :: "json \<Rightarrow> string \<Rightarrow> string \<Rightarrow> policy_error + string" where
  "v2_text v path expected = (if v = JStr expected then Inr expected else Inl (policy_reject UNSUPPORTED_INPUT path))"

definition v2_sha256 :: "json \<Rightarrow> string \<Rightarrow> string \<Rightarrow> policy_error + string" where
  "v2_sha256 v path expected =
     (case v of
        JStr s \<Rightarrow> guarded [(\<not> is_sha256 s, policy_reject UNSUPPORTED_INPUT path),
                           (s \<noteq> expected, policy_reject POLICY_HASH_MISMATCH path)] (Inr s)
      | _ \<Rightarrow> Inl (policy_reject UNSUPPORTED_INPUT path))"

definition v2_null :: "json \<Rightarrow> string \<Rightarrow> policy_error + 'a option" where
  "v2_null v path = (if v = JNull then Inr None else Inl (policy_reject POLICY_UNVERIFIED_CONSTANT path))"

definition v2_true :: "json \<Rightarrow> string \<Rightarrow> policy_error + bool" where
  "v2_true v path = (if v = JBool True then Inr True else Inl (policy_reject POLICY_UNVERIFIED_CONSTANT path))"

definition v2_int :: "json \<Rightarrow> string \<Rightarrow> policy_error + int" where
  "v2_int v path =
     (if v = JInt V2_TRUTH_MAX_AGE_SECONDS then Inr V2_TRUTH_MAX_AGE_SECONDS
      else Inl (policy_reject POLICY_UNVERIFIED_CONSTANT path))"

fun v2_tiers :: "nat \<Rightarrow> json list \<Rightarrow> dec list \<Rightarrow> policy_error + dec list" where
  "v2_tiers index (v # vs) (x # xs) =
     rbind (v2_decimal v (''risk_policy_v2.risk_tiers['' @ digs index @ '']'') x) (\<lambda>d.
     rbind (v2_tiers (Suc index) vs xs) (\<lambda>ds. Inr (d # ds)))"
| "v2_tiers index _ _ = Inr []"

fun elements_of :: "json \<Rightarrow> json list option" where
  "elements_of (JList vs) = Some vs"
| "elements_of _ = None"

definition parse_risk_policy_v2 :: "string \<Rightarrow> string \<Rightarrow> policy_error + risk_policy_v2" where
  "parse_risk_policy_v2 owner raw =
     rbind (strict_object ''risk_policy_v2'' V2_POLICY_FIELDS raw) (\<lambda>v.
     guarded
       [(field_of v ''schema'' \<noteq> JStr ''esscher.paper_account_risk_policy'', policy_reject UNSUPPORTED_INPUT ''risk_policy_v2.schema''),
        (\<not> json_equals_int (field_of v ''schema_version'') 2, policy_reject UNSUPPORTED_INPUT ''risk_policy_v2.schema_version''),
        (field_of v ''run_mode'' \<noteq> JStr ''PAPER'', policy_reject POLICY_NOT_PAPER_ONLY ''risk_policy_v2.run_mode''),
        (map_option length (elements_of (field_of v ''risk_tiers'')) \<noteq> Some (length V2_RISK_TIERS),
           policy_reject POLICY_UNVERIFIED_CONSTANT ''risk_policy_v2.risk_tiers'')]
     (rbind (v2_tiers 0 (the (elements_of (field_of v ''risk_tiers''))) V2_RISK_TIERS) (\<lambda>tiers.
      rbind (v2_text (field_of v ''policy_id'') ''risk_policy_v2.policy_id'' ''PAPER_ACCOUNT_RISK_POLICY_V2'') (\<lambda>pid.
      rbind (v2_text (field_of v ''version'') ''risk_policy_v2.version'' ''v2'') (\<lambda>ver.
      rbind (v2_decimal (field_of v ''starting_equity'') ''risk_policy_v2.starting_equity'' V2_STARTING_EQUITY) (\<lambda>se.
      rbind (v2_decimal (field_of v ''max_per_underlying_open_debit_fraction'')
               ''risk_policy_v2.max_per_underlying_open_debit_fraction'' V2_PER_UNDERLYING_FRACTION) (\<lambda>pu.
      rbind (v2_decimal (field_of v ''max_aggregate_open_debit_fraction'')
               ''risk_policy_v2.max_aggregate_open_debit_fraction'' V2_AGGREGATE_FRACTION) (\<lambda>ag.
      rbind (v2_decimal (field_of v ''emergency_drawdown_freeze_fraction'')
               ''risk_policy_v2.emergency_drawdown_freeze_fraction'' V2_FREEZE_FRACTION) (\<lambda>fr.
      rbind (v2_null (field_of v ''daily_loss_stop'') ''risk_policy_v2.daily_loss_stop'') (\<lambda>dl.
      rbind (v2_null (field_of v ''trade_count_cap'') ''risk_policy_v2.trade_count_cap'') (\<lambda>tc.
      rbind (v2_null (field_of v ''open_expression_count_cap'') ''risk_policy_v2.open_expression_count_cap'') (\<lambda>oc.
      rbind (v2_true (field_of v ''cash_only'') ''risk_policy_v2.cash_only'') (\<lambda>co.
      rbind (v2_true (field_of v ''defined_risk_only'') ''risk_policy_v2.defined_risk_only'') (\<lambda>dr.
      rbind (v2_int (field_of v ''truth_max_age_seconds'') ''risk_policy_v2.truth_max_age_seconds'') (\<lambda>age.
      rbind (v2_sha256 (field_of v ''owner_policy_sha256'') ''risk_policy_v2.owner_policy_sha256'' owner) (\<lambda>op.
      rbind (v2_sha256 (field_of v ''constants_source_sha256'') ''risk_policy_v2.constants_source_sha256'' owner) (\<lambda>cs.
        let p = \<lparr>v2_policy_id = pid, v2_version = ver, v2_run_mode = ''PAPER'', starting_equity = se, risk_tiers = tiers,
                 max_per_underlying_open_debit_fraction = pu, max_aggregate_open_debit_fraction = ag,
                 emergency_drawdown_freeze_fraction = fr, daily_loss_stop = dl, trade_count_cap = tc,
                 open_expression_count_cap = oc, cash_only = co, defined_risk_only = dr,
                 v2_truth_max_age_seconds = age, owner_policy_sha256 = op, v2_constants_source_sha256 = cs\<rparr>
        in case risk_policy_v2_checks owner p of
             Some e \<Rightarrow> Inl (PolicyValueError e)
           | None \<Rightarrow> guarded [(risk_policy_v2_bytes p \<noteq> raw, policy_reject UNSUPPORTED_INPUT ''risk_policy_v2'')]
                       (Inr p))))))))))))))))))"

section \<open>Version 2 round trip\<close>

lemma dec_eq_finite: "dec_eq d x \<Longrightarrow> is_finite x \<Longrightarrow> is_finite d"
  by (cases d; cases x) simp_all

lemma v2_decimal_back:
  "dec_eq d x \<Longrightarrow> is_finite x \<Longrightarrow> v2_decimal (JStr (dec_str d)) path x = Inr d"
  using dec_eq_finite [of d x] by (simp add: v2_decimal_def dec_parse_str guarded_def)

lemma v2_tiers_back:
  "list_all2 dec_eq ds xs \<Longrightarrow> list_all is_finite xs \<Longrightarrow> v2_tiers i (map (\<lambda>t. JStr (dec_str t)) ds) xs = Inr ds"
  by (induction ds xs arbitrary: i rule: list_all2_induct) (simp_all add: v2_decimal_back)

lemma v2_members_distinct: "distinct (map fst (risk_policy_v2_members p))"
  by (simp add: risk_policy_v2_members_def)

lemma v2_payload_unique: "json_unique (JObj (risk_policy_v2_members p))"
  unfolding json_unique.simps
  by (rule conjI [OF v2_members_distinct])
    (auto simp: risk_policy_v2_members_def null_payload_def list_all_iff split: option.split)

abbreviation v2_loaded :: "risk_policy_v2 \<Rightarrow> json" where
  "v2_loaded p \<equiv> json_sort (JObj (risk_policy_v2_members p))"

lemma v2_field:
  "field_of (v2_loaded p) k =
     (case map_of (risk_policy_v2_members p) k of Some v \<Rightarrow> json_sort v | None \<Rightarrow> JNull)"
  by (rule field_of_sorted [OF v2_members_distinct])

lemma v2_fields_of:
  "field_of (v2_loaded p) ''schema'' = JStr ''esscher.paper_account_risk_policy''"
  "field_of (v2_loaded p) ''schema_version'' = JInt 2"
  "field_of (v2_loaded p) ''policy_id'' = JStr (v2_policy_id p)"
  "field_of (v2_loaded p) ''version'' = JStr (v2_version p)"
  "field_of (v2_loaded p) ''run_mode'' = JStr (v2_run_mode p)"
  "field_of (v2_loaded p) ''starting_equity'' = JStr (dec_str (starting_equity p))"
  "field_of (v2_loaded p) ''risk_tiers'' = JList (map (\<lambda>t. JStr (dec_str t)) (risk_tiers p))"
  "field_of (v2_loaded p) ''max_per_underlying_open_debit_fraction'' = JStr (dec_str (max_per_underlying_open_debit_fraction p))"
  "field_of (v2_loaded p) ''max_aggregate_open_debit_fraction'' = JStr (dec_str (max_aggregate_open_debit_fraction p))"
  "field_of (v2_loaded p) ''emergency_drawdown_freeze_fraction'' = JStr (dec_str (emergency_drawdown_freeze_fraction p))"
  "field_of (v2_loaded p) ''cash_only'' = JBool (cash_only p)"
  "field_of (v2_loaded p) ''defined_risk_only'' = JBool (defined_risk_only p)"
  "field_of (v2_loaded p) ''truth_max_age_seconds'' = JInt (v2_truth_max_age_seconds p)"
  "field_of (v2_loaded p) ''owner_policy_sha256'' = JStr (owner_policy_sha256 p)"
  "field_of (v2_loaded p) ''constants_source_sha256'' = JStr (v2_constants_source_sha256 p)"
  unfolding v2_field by (simp_all add: risk_policy_v2_members_def comp_def)

lemma v2_null_fields:
  "daily_loss_stop p = None \<Longrightarrow> field_of (v2_loaded p) ''daily_loss_stop'' = JNull"
  "trade_count_cap p = None \<Longrightarrow> field_of (v2_loaded p) ''trade_count_cap'' = JNull"
  "open_expression_count_cap p = None \<Longrightarrow> field_of (v2_loaded p) ''open_expression_count_cap'' = JNull"
  unfolding v2_field by (simp_all add: risk_policy_v2_members_def null_payload_def)

lemma v2_ok_iff:
  "risk_policy_v2_ok owner p \<longleftrightarrow>
     v2_policy_id p = ''PAPER_ACCOUNT_RISK_POLICY_V2'' \<and> v2_version p = ''v2'' \<and> v2_run_mode p = ''PAPER''
     \<and> dec_eq (starting_equity p) V2_STARTING_EQUITY \<and> list_all2 dec_eq (risk_tiers p) V2_RISK_TIERS
     \<and> dec_eq (max_per_underlying_open_debit_fraction p) V2_PER_UNDERLYING_FRACTION
     \<and> dec_eq (max_aggregate_open_debit_fraction p) V2_AGGREGATE_FRACTION
     \<and> dec_eq (emergency_drawdown_freeze_fraction p) V2_FREEZE_FRACTION
     \<and> daily_loss_stop p = None \<and> trade_count_cap p = None \<and> open_expression_count_cap p = None
     \<and> cash_only p \<and> defined_risk_only p \<and> v2_truth_max_age_seconds p = 30
     \<and> owner_policy_sha256 p = owner \<and> v2_constants_source_sha256 p = owner \<and> is_sha256 owner"
  using dec_eq_finite [of "starting_equity p" V2_STARTING_EQUITY]
  by (auto simp: risk_policy_v2_ok_def risk_policy_v2_checks_def v2_constants)

lemma v2_strict: "strict_object ''risk_policy_v2'' V2_POLICY_FIELDS (risk_policy_v2_bytes p) = Inr (v2_loaded p)"
  unfolding risk_policy_v2_bytes_def
  by (rule strict_object_canonical [OF v2_payload_unique])
    (auto simp: risk_policy_v2_members_def V2_POLICY_FIELDS_def)

lemma v2_finite_constants:
  "is_finite V2_STARTING_EQUITY" "list_all is_finite V2_RISK_TIERS" "is_finite V2_PER_UNDERLYING_FRACTION"
  "is_finite V2_AGGREGATE_FRACTION" "is_finite V2_FREEZE_FRACTION"
  by (simp_all add: v2_constants)

lemma parse_v2_back:
  assumes "risk_policy_v2_ok owner p"
  shows "parse_risk_policy_v2 owner (risk_policy_v2_bytes p) = Inr p"
proof -
  note ok = assms [unfolded v2_ok_iff]
  have tiers: "length (risk_tiers p) = length V2_RISK_TIERS" using ok by (auto dest: list_all2_lengthD)
  have checks: "risk_policy_v2_checks owner p = None" using assms by (simp add: risk_policy_v2_ok_def)
  have self: "\<lparr>v2_policy_id = ''PAPER_ACCOUNT_RISK_POLICY_V2'', v2_version = ''v2'', v2_run_mode = ''PAPER'',
      starting_equity = starting_equity p, risk_tiers = risk_tiers p,
      max_per_underlying_open_debit_fraction = max_per_underlying_open_debit_fraction p,
      max_aggregate_open_debit_fraction = max_aggregate_open_debit_fraction p,
      emergency_drawdown_freeze_fraction = emergency_drawdown_freeze_fraction p, daily_loss_stop = None,
      trade_count_cap = None, open_expression_count_cap = None, cash_only = True, defined_risk_only = True,
      v2_truth_max_age_seconds = 30, owner_policy_sha256 = owner, v2_constants_source_sha256 = owner\<rparr> = p"
    using ok by (cases p) simp
  show ?thesis
    unfolding parse_risk_policy_v2_def v2_strict
    using ok tiers checks
    by (simp add: v2_fields_of v2_null_fields v2_tiers_back v2_decimal_back v2_finite_constants v2_text_def v2_null_def
        v2_true_def v2_int_def v2_sha256_def guarded_def V2_TRUTH_MAX_AGE_SECONDS_def self del: json_sort.simps)
qed

lemma v2_constant_values:
  assumes "risk_policy_v2_ok owner p"
  shows "dval (starting_equity p) = 100000" "map dval (risk_tiers p) = [1 / 10, 1 / 20, 1 / 5]"
    "dval (max_per_underlying_open_debit_fraction p) = 1 / 5"
    "dval (max_aggregate_open_debit_fraction p) = 1 / 2"
    "dval (emergency_drawdown_freeze_fraction p) = 1 / 2"
proof -
  have eq: "dval d = dval x" if "dec_eq d x" "is_finite x" for d x
    using that dec_eq_finite [OF that] by (simp add: dec_eq_iff)
  have "map dval ds = map dval xs" if "list_all2 dec_eq ds xs" "list_all is_finite xs" for ds xs
    using that by (induction rule: list_all2_induct) (auto intro: eq)
  then have "map dval (risk_tiers p) = map dval V2_RISK_TIERS"
    using assms [unfolded v2_ok_iff] v2_finite_constants(2) by blast
  then show "map dval (risk_tiers p) = [1 / 10, 1 / 20, 1 / 5]" by (simp add: V2_RISK_TIERS_def power_int_minus)
  have "dval (starting_equity p) = dval V2_STARTING_EQUITY"
    "dval (max_per_underlying_open_debit_fraction p) = dval V2_PER_UNDERLYING_FRACTION"
    "dval (max_aggregate_open_debit_fraction p) = dval V2_AGGREGATE_FRACTION"
    "dval (emergency_drawdown_freeze_fraction p) = dval V2_FREEZE_FRACTION"
    using assms [unfolded v2_ok_iff] eq v2_finite_constants by blast+
  then show "dval (starting_equity p) = 100000" "dval (max_per_underlying_open_debit_fraction p) = 1 / 5"
    "dval (max_aggregate_open_debit_fraction p) = 1 / 2" "dval (emergency_drawdown_freeze_fraction p) = 1 / 2"
    by (simp_all add: v2_constants power_int_minus)
qed

lemma v2_freeze_value:
  assumes "risk_policy_v2_ok owner p"
  shows "dval (emergency_drawdown_freeze_equity p) = 50000"
proof -
  have fin: "is_finite (starting_equity p)" "is_finite (emergency_drawdown_freeze_fraction p)"
    using assms v2_finite_constants by (auto simp: v2_ok_iff dest: dec_eq_finite)
  show ?thesis
    unfolding emergency_drawdown_freeze_equity_def
    by (subst dec_mul_representable [OF fin, of 50000 0]) (simp_all add: v2_constant_values [OF assms] prec_def)
qed

lemma parse_v2_Inr:
  assumes "parse_risk_policy_v2 owner raw = Inr q"
  shows "raw = risk_policy_v2_bytes q" "risk_policy_v2_ok owner q"
  using assms by (auto simp: parse_risk_policy_v2_def outcome_simps Let_def risk_policy_v2_ok_def)

text \<open>
  C30. The version 2 policy is the owner's policy and nothing else. Every policy the code can
  hold reads back from its canonical bytes; bytes the reader accepts are canonical; and an
  accepted policy binds the owner's digest twice, is cash-only with defined risk and no
  count caps, and its constants have exactly the approved values: 100000 starting equity, tiers of
  10, 5 and 20 percent, 20 percent per underlying, 50 percent aggregate, the freeze at
  50000, truth no older than 30 seconds.
\<close>

theorem risk_policy_v2_owner_bound:
  "(risk_policy_v2_ok owner p \<longrightarrow> parse_risk_policy_v2 owner (risk_policy_v2_bytes p) = Inr p)
   \<and> (parse_risk_policy_v2 owner raw = Inr q \<longrightarrow>
        raw = risk_policy_v2_bytes q \<and> v2_constants_verified owner q \<and> cash_only q \<and> defined_risk_only q
        \<and> trade_count_cap q = None \<and> open_expression_count_cap q = None \<and> daily_loss_stop q = None
        \<and> dval (starting_equity q) = 100000 \<and> map dval (risk_tiers q) = [1 / 10, 1 / 20, 1 / 5]
        \<and> dval (max_per_underlying_open_debit_fraction q) = 1 / 5
        \<and> dval (max_aggregate_open_debit_fraction q) = 1 / 2
        \<and> dval (emergency_drawdown_freeze_equity q) = 50000 \<and> v2_truth_max_age_seconds q = 30)"
proof (intro conjI impI)
  assume q: "parse_risk_policy_v2 owner raw = Inr q"
  note ok = parse_v2_Inr(2) [OF q]
  show "raw = risk_policy_v2_bytes q" by (rule parse_v2_Inr(1) [OF q])
  show "v2_constants_verified owner q" "cash_only q" "defined_risk_only q" "trade_count_cap q = None"
    "open_expression_count_cap q = None" "daily_loss_stop q = None" "v2_truth_max_age_seconds q = 30"
    using ok by (simp_all add: v2_ok_iff v2_constants_verified_def)
qed (rule parse_v2_back v2_constant_values v2_freeze_value; (assumption | erule parse_v2_Inr(2)))+

definition sample_policy_v2 :: "string \<Rightarrow> risk_policy_v2" where
  "sample_policy_v2 owner = \<lparr>v2_policy_id = ''PAPER_ACCOUNT_RISK_POLICY_V2'', v2_version = ''v2'',
     v2_run_mode = ''PAPER'', starting_equity = V2_STARTING_EQUITY, risk_tiers = V2_RISK_TIERS,
     max_per_underlying_open_debit_fraction = V2_PER_UNDERLYING_FRACTION,
     max_aggregate_open_debit_fraction = V2_AGGREGATE_FRACTION,
     emergency_drawdown_freeze_fraction = V2_FREEZE_FRACTION, daily_loss_stop = None, trade_count_cap = None,
     open_expression_count_cap = None, cash_only = True, defined_risk_only = True, v2_truth_max_age_seconds = 30,
     owner_policy_sha256 = owner, v2_constants_source_sha256 = owner\<rparr>"

lemma sample_policy_v2_ok: "is_sha256 owner \<Longrightarrow> risk_policy_v2_ok owner (sample_policy_v2 owner)"
  by (simp add: v2_ok_iff sample_policy_v2_def v2_constants aligned_def)

lemma sample_owner_digest: "is_sha256 (replicate 64 (CHR ''a''))"
  by code_simp

theorem risk_policy_v2_owner_bound_witness:
  "parse_risk_policy_v2 (replicate 64 (CHR ''a'')) (risk_policy_v2_bytes (sample_policy_v2 (replicate 64 (CHR ''a''))))
     = Inr (sample_policy_v2 (replicate 64 (CHR ''a'')))
   \<and> dval (emergency_drawdown_freeze_equity (sample_policy_v2 (replicate 64 (CHR ''a'')))) = 50000"
proof -
  let ?owner = "replicate 64 (CHR ''a'')"
  have parsed: "parse_risk_policy_v2 ?owner (risk_policy_v2_bytes (sample_policy_v2 ?owner)) = Inr (sample_policy_v2 ?owner)"
    using risk_policy_v2_owner_bound [of ?owner "sample_policy_v2 ?owner"] sample_policy_v2_ok [OF sample_owner_digest] by blast
  then show ?thesis
    using risk_policy_v2_owner_bound [of ?owner _ _ "sample_policy_v2 ?owner"] by blast
qed

end
