(* ===== verification/Passport.thy ===== *)
theory Passport
  imports Policy
begin

text \<open>
  The two hash-linked passports of the program: the risk kernel's append-only event chain
  (\<open>risk/passport.py\<close>) and the public trade passport (\<open>passport/chain.py\<close>). The locale
  \<open>hash_chain\<close> states what tamper evidence needs of a chain's canonical form: the
  bytes that are hashed determine the entry and its predecessor's hash. The hash function
  is a parameter, so a theorem never assumes it collision-free: it exhibits the collision.
\<close>

definition GENESIS_SHA256 :: string where "GENESIS_SHA256 = replicate 64 (CHR ''0'')"

section \<open>Linked lists of entries\<close>

text \<open>An entry of a chain: its content, the hash it names as its predecessor's, and its own hash.\<close>

type_synonym 'c link = "'c \<times> string \<times> string"

fun linked :: "hash_function \<Rightarrow> ('c \<Rightarrow> string \<Rightarrow> string) \<Rightarrow> string \<Rightarrow> 'c link list \<Rightarrow> bool" where
  "linked H seal p [] = True"
| "linked H seal p ((c, q, h) # ls) = (q = p \<and> h = H (seal c q) \<and> linked H seal h ls)"

fun chain_head :: "string \<Rightarrow> 'c link list \<Rightarrow> string" where
  "chain_head p [] = p"
| "chain_head p ((c, q, h) # ls) = chain_head h ls"

text \<open>The texts that a chain hashes: what a collision would have to be exhibited in.\<close>

definition sealed :: "('c \<Rightarrow> string \<Rightarrow> string) \<Rightarrow> 'c link list \<Rightarrow> string list" where
  "sealed seal ls = map (\<lambda>(c, q, h). seal c q) ls"

definition colliding :: "hash_function \<Rightarrow> string list \<Rightarrow> string list \<Rightarrow> bool" where
  "colliding H xs ys = (\<exists>a \<in> set xs. \<exists>b \<in> set ys. a \<noteq> b \<and> H a = H b)"

definition hashes_to :: "hash_function \<Rightarrow> string \<Rightarrow> string list \<Rightarrow> bool" where
  "hashes_to H g xs = (\<exists>a \<in> set xs. H a = g)"

lemma sealed_snoc: "sealed seal (ls @ [(c, q, h)]) = sealed seal ls @ [seal c q]"
  by (simp add: sealed_def)

lemma colliding_extend: "colliding H xs ys \<Longrightarrow> colliding H (xs @ xs') (ys @ ys')"
  by (auto simp: colliding_def)

lemma hashes_to_extend: "hashes_to H g (xs @ ys) \<Longrightarrow> hashes_to H g ((xs @ xs') @ (ys @ ys'))"
  by (auto simp: hashes_to_def)

lemma linked_snoc:
  "linked H seal p (ls @ [(c, q, h)]) \<longleftrightarrow> linked H seal p ls \<and> q = chain_head p ls \<and> h = H (seal c q)"
  by (induction H seal p ls rule: linked.induct) auto

lemma chain_head_snoc [simp]: "chain_head p (ls @ [(c, q, h)]) = h"
  by (induction p ls rule: chain_head.induct) auto

locale hash_chain =
  fixes seal :: "'c \<Rightarrow> string \<Rightarrow> string"
    and norm :: "'c \<Rightarrow> 'd"
  assumes seal_inject: "seal c p = seal d q \<Longrightarrow> norm c = norm d \<and> p = q"
begin

text \<open>
  Two chains with the same head agree entry by entry, or a text that one of them hashes and a
  different text that the other hashes have the same hash, or a text hashed by one of
  them hashes to the genesis value.
\<close>

lemma same_head_same_chain:
  assumes "linked H seal g ls" "linked H seal g ks" "chain_head g ls = chain_head g ks"
  shows "map (norm \<circ> fst) ls = map (norm \<circ> fst) ks \<or> colliding H (sealed seal ls) (sealed seal ks)
    \<or> hashes_to H g (sealed seal ls @ sealed seal ks)"
  using assms
proof (induction ls arbitrary: ks rule: rev_induct)
  case Nil
  show ?case
  proof (cases ks rule: rev_cases)
    case (snoc ks' k)
    obtain c q h where k: "k = (c, q, h)" by (cases k)
    then have "H (seal c q) = g" using Nil snoc by (simp add: linked_snoc)
    then show ?thesis by (simp add: hashes_to_def sealed_def snoc k)
  qed simp
next
  case (snoc l ls)
  obtain c q h where l: "l = (c, q, h)" by (cases l)
  have ls: "linked H seal g ls" "q = chain_head g ls" "h = H (seal c q)"
    using snoc.prems(1) by (simp_all add: l linked_snoc)
  show ?case
  proof (cases ks rule: rev_cases)
    case Nil
    then have "H (seal c q) = g" using snoc.prems ls by (simp add: l)
    then show ?thesis by (simp add: hashes_to_def sealed_def l)
  next
    case ks: (snoc ks' k)
    obtain d r j where k: "k = (d, r, j)" by (cases k)
    have ks': "linked H seal g ks'" "r = chain_head g ks'" "j = H (seal d r)"
      using snoc.prems(2) by (simp_all add: ks k linked_snoc)
    have same: "H (seal c q) = H (seal d r)" using snoc.prems(3) ls ks' by (simp add: l k ks)
    show ?thesis
    proof (cases "seal c q = seal d r")
      case True
      then have "norm c = norm d" "q = r" using seal_inject by blast+
      moreover from this have "map (norm \<circ> fst) ls = map (norm \<circ> fst) ks' \<or> colliding H (sealed seal ls) (sealed seal ks')
          \<or> hashes_to H g (sealed seal ls @ sealed seal ks')"
        using snoc.IH [OF ls(1) ks'(1)] ls(2) ks'(2) by blast
      ultimately show ?thesis
        unfolding l k ks sealed_snoc by (elim disjE) (simp add: comp_def, blast intro: colliding_extend, blast intro: hashes_to_extend)
    next
      case False
      then show ?thesis using same by (auto simp: l k ks sealed_def colliding_def)
    qed
  qed
qed

end

section \<open>The risk kernel's passport\<close>

datatype passport_event_type =
    CANDIDATE_FROZEN | DECISION_MADE | ABSTAINED | REJECTED | EXPRESSION_COMPILED | RISK_APPROVED
  | RESERVATION_HELD | RESERVATION_RELEASED | PERMIT_ISSUED | ORDER_INTENDED | ORDER_SUBMITTED
  | FILL_OBSERVED | POSITION_OBSERVED | RECONCILED | CONTROL_STATE_CHANGED | NOT_RUN

fun passport_event_type_value :: "passport_event_type \<Rightarrow> string" where
  "passport_event_type_value CANDIDATE_FROZEN = ''CANDIDATE_FROZEN''"
| "passport_event_type_value DECISION_MADE = ''DECISION_MADE''"
| "passport_event_type_value ABSTAINED = ''ABSTAINED''"
| "passport_event_type_value REJECTED = ''REJECTED''"
| "passport_event_type_value EXPRESSION_COMPILED = ''EXPRESSION_COMPILED''"
| "passport_event_type_value RISK_APPROVED = ''RISK_APPROVED''"
| "passport_event_type_value RESERVATION_HELD = ''RESERVATION_HELD''"
| "passport_event_type_value RESERVATION_RELEASED = ''RESERVATION_RELEASED''"
| "passport_event_type_value PERMIT_ISSUED = ''PERMIT_ISSUED''"
| "passport_event_type_value ORDER_INTENDED = ''ORDER_INTENDED''"
| "passport_event_type_value ORDER_SUBMITTED = ''ORDER_SUBMITTED''"
| "passport_event_type_value FILL_OBSERVED = ''FILL_OBSERVED''"
| "passport_event_type_value POSITION_OBSERVED = ''POSITION_OBSERVED''"
| "passport_event_type_value RECONCILED = ''RECONCILED''"
| "passport_event_type_value CONTROL_STATE_CHANGED = ''CONTROL_STATE_CHANGED''"
| "passport_event_type_value NOT_RUN = ''NOT_RUN''"

text \<open>The content of an event is its type, its payload and its time.\<close>

type_synonym passport_content = "string \<times> json \<times> string"

fun passport_seal :: "passport_content \<Rightarrow> string \<Rightarrow> string" where
  "passport_seal (event_type, payload, created_at) prev = canonical_json_bytes (JObj
     [(''event_type'', JStr event_type), (''payload'', payload), (''prev_sha256'', JStr prev),
      (''created_at'', JStr created_at)])"

definition passport_event_sha256 :: "hash_function \<Rightarrow> string \<Rightarrow> json \<Rightarrow> string \<Rightarrow> string \<Rightarrow> string" where
  "passport_event_sha256 H event_type payload prev created_at = H (passport_seal (event_type, payload, created_at) prev)"

definition event_text :: "json \<Rightarrow> string \<Rightarrow> string option" where
  "event_text v k = (case json_get v k of Some (JStr s) \<Rightarrow> Some s | _ \<Rightarrow> None)"

definition event_payload :: "json \<Rightarrow> json" where
  "event_payload v = (case json_get v ''payload'' of Some p \<Rightarrow> if is_object p then p else JObj [] | None \<Rightarrow> JObj [])"

definition passport_path :: "nat \<Rightarrow> string \<Rightarrow> string" where
  "passport_path index suffix = ''passport['' @ digs index @ '']'' @ suffix"

fun verify_from :: "hash_function \<Rightarrow> string \<Rightarrow> nat \<Rightarrow> json list \<Rightarrow> risk_rejected option" where
  "verify_from H expected_prev index [] = None"
| "verify_from H expected_prev index (event # rest) =
     (case (event_text event ''event_type'', event_text event ''prev_sha256'',
            event_text event ''event_sha256'', event_text event ''created_at'') of
        (Some event_type, Some prev, Some sha, Some created) \<Rightarrow>
          if prev \<noteq> expected_prev then Some (reject PASSPORT_VERIFICATION_FAILED (passport_path index ''.prev_sha256''))
          else if passport_event_sha256 H event_type (event_payload event) prev created \<noteq> sha
            then Some (reject PASSPORT_VERIFICATION_FAILED (passport_path index ''.event_sha256''))
          else verify_from H sha (Suc index) rest
      | _ \<Rightarrow> Some (reject PASSPORT_VERIFICATION_FAILED (passport_path index [])))"

definition verify_passport :: "hash_function \<Rightarrow> json list \<Rightarrow> risk_rejected + nat" where
  "verify_passport H events =
     (case verify_from H GENESIS_SHA256 0 events of Some e \<Rightarrow> Inl e | None \<Rightarrow> Inr (length events))"

fun passport_norm :: "passport_content \<Rightarrow> passport_content" where
  "passport_norm (event_type, payload, created_at) = (event_type, json_sort payload, created_at)"

lemma passport_seal_inject:
  assumes "passport_seal c p = passport_seal d q"
  shows "passport_norm c = passport_norm d \<and> p = q"
proof -
  obtain ct cp ca dt dp da where cd: "c = (ct, cp, ca)" "d = (dt, dp, da)" by (cases c; cases d)
  note get = json_get_canonical [OF assms [unfolded cd passport_seal.simps], simplified]
  show ?thesis
    using get [of "''event_type''"] get [of "''payload''"] get [of "''prev_sha256''"] get [of "''created_at''"]
    by (simp add: cd)
qed

interpretation risk_passport: hash_chain passport_seal passport_norm
  by unfold_locales (rule passport_seal_inject)

text \<open>The link an event describes; a malformed event describes none.\<close>

definition event_link :: "json \<Rightarrow> passport_content link option" where
  "event_link v =
     (case (event_text v ''event_type'', event_text v ''prev_sha256'', event_text v ''event_sha256'', event_text v ''created_at'') of
        (Some t, Some p, Some s, Some a) \<Rightarrow> Some ((t, event_payload v, a), p, s)
      | _ \<Rightarrow> None)"

lemma verify_from_linked:
  "verify_from H p i es = None \<longleftrightarrow> (\<exists>ls. map event_link es = map Some ls \<and> linked H passport_seal p ls)"
proof (induction es arbitrary: p i)
  case Nil
  show ?case by simp
next
  case (Cons e es)
  show ?case
  proof (cases "event_link e")
    case None
    then have "verify_from H p i (e # es) \<noteq> None"
      by (auto simp: event_link_def split: option.splits)
    then show ?thesis using None by (auto simp: Cons_eq_map_conv)
  next
    case (Some l)
    then obtain t a q h where texts: "event_text e ''event_type'' = Some t" "event_text e ''prev_sha256'' = Some q"
        "event_text e ''event_sha256'' = Some h" "event_text e ''created_at'' = Some a"
      and l: "l = ((t, event_payload e, a), q, h)"
      by (auto simp: event_link_def split: option.splits)
    have "verify_from H p i (e # es) = None \<longleftrightarrow>
        q = p \<and> h = H (passport_seal (t, event_payload e, a) q) \<and> verify_from H h (Suc i) es = None"
      by (auto simp: texts passport_event_sha256_def simp del: passport_seal.simps)
    also have "\<dots> \<longleftrightarrow> (\<exists>ls. map event_link (e # es) = map Some ls \<and> linked H passport_seal p ls)"
      using Some l by (auto simp: Cons.IH Cons_eq_map_conv simp del: passport_seal.simps)
    finally show ?thesis .
  qed
qed

lemma verify_passport_linked:
  "verify_passport H es = Inr n \<longleftrightarrow>
     n = length es \<and> (\<exists>ls. map event_link es = map Some ls \<and> linked H passport_seal GENESIS_SHA256 ls)"
  using verify_from_linked [of H GENESIS_SHA256 0 es] by (auto simp: verify_passport_def)

lemma map_Some_inject: "map Some xs = map Some ys \<Longrightarrow> xs = ys"
  by (metis inj_Some inj_map_eq_map)

text \<open>What an event says, up to the order of the keys of its payload.\<close>

definition event_content :: "json \<Rightarrow> passport_content option" where
  "event_content v = map_option (passport_norm \<circ> fst) (event_link v)"

definition events_head :: "json list \<Rightarrow> string option" where
  "events_head es = (if es = [] then Some GENESIS_SHA256 else event_text (last es) ''event_sha256'')"

lemma events_head_linked:
  "map event_link es = map Some ls \<Longrightarrow> linked H passport_seal GENESIS_SHA256 ls \<Longrightarrow>
     events_head es = Some (chain_head GENESIS_SHA256 ls)"
proof (cases ls rule: rev_cases)
  case (snoc ks k)
  assume es: "map event_link es = map Some ls"
  obtain c p h where k: "k = (c, p, h)" by (cases k)
  have "es \<noteq> []" "event_link (last es) = Some k"
    using es snoc by (auto simp: map_eq_append_conv)
  then show ?thesis by (auto simp: events_head_def snoc k event_link_def split: option.splits)
qed (simp add: events_head_def)

lemma event_contents:
  "map event_link es = map Some ls \<Longrightarrow> map event_content es = map Some (map (passport_norm \<circ> fst) ls)"
proof -
  assume links: "map event_link es = map Some ls"
  have "map event_content es = map (map_option (passport_norm \<circ> fst)) (map event_link es)"
    by (simp add: event_content_def)
  also have "\<dots> = map Some (map (passport_norm \<circ> fst) ls)" unfolding links by simp
  finally show ?thesis .
qed

text \<open>The canonical texts whose hashes a list of events stores; a malformed event has none.\<close>

definition sealed_events :: "json list \<Rightarrow> string list" where
  "sealed_events es = concat (map (\<lambda>e. case event_link e of None \<Rightarrow> [] | Some (c, p, s) \<Rightarrow> [passport_seal c p]) es)"

lemma sealed_events_linked: "map event_link es = map Some ls \<Longrightarrow> sealed_events es = sealed passport_seal ls"
  by (induction es arbitrary: ls) (auto simp: sealed_events_def sealed_def)


text \<open>One event, its payload written in two key orders, under a hash without collisions.\<close>

definition tagged :: hash_function where "tagged s = CHR ''h'' # s"

definition sample_event :: "(string \<times> json) list \<Rightarrow> json" where
  "sample_event payload = JObj
     [(''event_type'', JStr ''NOT_RUN''), (''payload'', JObj payload), (''prev_sha256'', JStr GENESIS_SHA256),
      (''created_at'', JStr ''2026-01-02T03:04:05Z''),
      (''event_sha256'', JStr (passport_event_sha256 tagged ''NOT_RUN'' (JObj payload) GENESIS_SHA256 ''2026-01-02T03:04:05Z''))]"

lemma tagged_injective: "tagged a = tagged b \<longleftrightarrow> a = b" "tagged a \<noteq> GENESIS_SHA256"
  by (simp_all add: tagged_def GENESIS_SHA256_def numeral_eq_Suc)


end
