(* ===== verification/Trade_Passport.thy ===== *)
theory Trade_Passport
  imports Passport "HOL-Library.Sublist"
begin

text \<open>
  \<open>passport/chain.py\<close>: the append-only builder of the public trade passport. Its entries
  form a second instance of \<open>hash_chain\<close>. The reader \<open>parse_passport_bytes\<close> is not
  modelled.
\<close>

datatype passport_stage =
    SOURCE_EVIDENCE | SNAPSHOT | DECISION | PACKAGE | RISK_RESERVATION | PERMIT | OPEN_SUBMISSION | OPEN_FILL
  | HOLD | CLOSE_SUBMISSION | CLOSE_FILL | FINAL_FLAT_RECONCILIATION | RESULT

fun stage_value :: "passport_stage \<Rightarrow> string" where
  "stage_value SOURCE_EVIDENCE = ''SOURCE_EVIDENCE''"
| "stage_value SNAPSHOT = ''SNAPSHOT''"
| "stage_value DECISION = ''DECISION''"
| "stage_value PACKAGE = ''PACKAGE''"
| "stage_value RISK_RESERVATION = ''RISK_RESERVATION''"
| "stage_value PERMIT = ''PERMIT''"
| "stage_value OPEN_SUBMISSION = ''OPEN_SUBMISSION''"
| "stage_value OPEN_FILL = ''OPEN_FILL''"
| "stage_value HOLD = ''HOLD''"
| "stage_value CLOSE_SUBMISSION = ''CLOSE_SUBMISSION''"
| "stage_value CLOSE_FILL = ''CLOSE_FILL''"
| "stage_value FINAL_FLAT_RECONCILIATION = ''FINAL_FLAT_RECONCILIATION''"
| "stage_value RESULT = ''RESULT''"

record passport_entry =
  sequence :: nat
  stage :: passport_stage
  entry_at :: datetime
  entry_payload :: json
  entry_prev_sha256 :: string
  entry_sha256 :: string

definition utc_text :: "datetime \<Rightarrow> value_error + string" where
  "utc_text t = guarded
     [(\<not> aware t, ''passport timestamps must be timezone-aware''),
      (instant t mod 1000000 \<noteq> 0, ''passport timestamps must use second precision'')]
     (Inr (local_text (instant t) @ ''Z''))"

text \<open>The content of an entry once its time has been written out.\<close>

type_synonym stage_content = "nat \<times> passport_stage \<times> string \<times> json"

fun entry_content :: "stage_content \<Rightarrow> string \<Rightarrow> json" where
  "entry_content (n, st, at_text, payload) prev = JObj
     [(''schema'', JStr ''esscher.trade_passport''), (''schema_version'', JInt 1), (''sequence'', JInt (int n)),
      (''stage'', JStr (stage_value st)), (''at'', JStr at_text), (''payload'', payload), (''prev_sha256'', JStr prev)]"

definition entry_seal :: "stage_content \<Rightarrow> string \<Rightarrow> string" where
  "entry_seal c prev = canonical_json_bytes (entry_content c prev)"

definition compute_entry_sha256 ::
    "hash_function \<Rightarrow> nat \<Rightarrow> passport_stage \<Rightarrow> datetime \<Rightarrow> json \<Rightarrow> string \<Rightarrow> value_error + string" where
  "compute_entry_sha256 H n st t payload prev =
     rbind (utc_text t) (\<lambda>at_text. Inr (H (entry_seal (n, st, at_text, payload) prev)))"

definition head_sha256 :: "passport_entry list \<Rightarrow> string" where
  "head_sha256 es = (if es = [] then GENESIS_SHA256 else entry_sha256 (last es))"

text \<open>\<open>TradePassport.append\<close>: the hash is computed before the entry is added, so a refused time adds nothing.\<close>

definition append_entry ::
    "hash_function \<Rightarrow> passport_stage \<Rightarrow> datetime \<Rightarrow> json \<Rightarrow> passport_entry list
     \<Rightarrow> (passport_entry list, value_error, passport_entry) outcome" where
  "append_entry H st t payload es =
     (case compute_entry_sha256 H (length es) st t payload (head_sha256 es) of
        Inl e \<Rightarrow> (Inl e, es)
      | Inr sha \<Rightarrow>
          let entry = \<lparr>sequence = length es, stage = st, entry_at = t, entry_payload = payload,
                       entry_prev_sha256 = head_sha256 es, entry_sha256 = sha\<rparr>
          in (Inr entry, es @ [entry]))"

fun append_all :: "hash_function \<Rightarrow> (passport_stage \<times> datetime \<times> json) list \<Rightarrow> passport_entry list \<Rightarrow> passport_entry list" where
  "append_all H [] es = es"
| "append_all H ((st, t, payload) # rest) es = append_all H rest (snd (append_entry H st t payload es))"

definition stage_norm :: "stage_content \<Rightarrow> nat \<times> string \<times> string \<times> json" where
  "stage_norm c = (case c of (n, st, at_text, payload) \<Rightarrow> (n, stage_value st, at_text, json_sort payload))"

lemma entry_seal_inject:
  assumes "entry_seal c p = entry_seal d q"
  shows "stage_norm c = stage_norm d \<and> p = q"
proof -
  obtain cn cs ca cp dn ds da dp where cd: "c = (cn, cs, ca, cp)" "d = (dn, ds, da, dp)" by (cases c; cases d)
  note get = json_get_canonical [OF assms [unfolded cd entry_seal_def entry_content.simps], simplified]
  show ?thesis
    using get [of "''sequence''"] get [of "''stage''"] get [of "''at''"] get [of "''payload''"] get [of "''prev_sha256''"]
    by (simp add: cd stage_norm_def)
qed

interpretation trade_passport: hash_chain entry_seal stage_norm
  by unfold_locales (rule entry_seal_inject)

definition content_of :: "passport_entry \<Rightarrow> stage_content" where
  "content_of e = (sequence e, stage e, local_text (instant (entry_at e)) @ ''Z'', entry_payload e)"

definition link_of :: "passport_entry \<Rightarrow> stage_content link" where
  "link_of e = (content_of e, entry_prev_sha256 e, entry_sha256 e)"

text \<open>The invariant of the builder: numbered from zero, and hash-linked from the genesis value.\<close>

definition passport_wf :: "hash_function \<Rightarrow> passport_entry list \<Rightarrow> bool" where
  "passport_wf H es = (map sequence es = [0..<length es] \<and> linked H entry_seal GENESIS_SHA256 (map link_of es))"

lemma head_of_links: "chain_head GENESIS_SHA256 (map link_of es) = head_sha256 es"
  by (cases es rule: rev_cases) (simp_all add: head_sha256_def link_of_def)

lemma append_entry_cases:
  obtains e where "append_entry H st t payload es = (Inl e, es)"
  | e where "append_entry H st t payload es = (Inr e, es @ [e])" "sequence e = length es"
      "entry_prev_sha256 e = head_sha256 es" "entry_sha256 e = H (entry_seal (content_of e) (head_sha256 es))"
proof (cases "utc_text t")
  case (Inl e)
  then have "append_entry H st t payload es = (Inl e, es)"
    by (simp add: append_entry_def compute_entry_sha256_def)
  then show thesis by (rule that(1))
next
  case (Inr a)
  then have "a = local_text (instant t) @ ''Z''" by (simp add: utc_text_def guarded_Inr)
  with Inr show thesis
    by (intro that(2) [of "\<lparr>sequence = length es, stage = st, entry_at = t, entry_payload = payload,
          entry_prev_sha256 = head_sha256 es, entry_sha256 = H (entry_seal (length es, st, a, payload) (head_sha256 es))\<rparr>"])
      (simp_all add: append_entry_def compute_entry_sha256_def content_of_def Let_def)
qed

lemma append_entry_wf: "passport_wf H es \<Longrightarrow> passport_wf H (snd (append_entry H st t payload es))"
  by (rule append_entry_cases [of H st t payload es])
    (auto simp: passport_wf_def link_of_def linked_snoc head_of_links)

lemma append_entry_prefix: "prefix es (snd (append_entry H st t payload es))"
  by (rule append_entry_cases [of H st t payload es]) auto

text \<open>The canonical texts whose hashes the entries of a passport carry.\<close>

definition sealed_entries :: "passport_entry list \<Rightarrow> string list" where
  "sealed_entries es = map (\<lambda>e. entry_seal (content_of e) (entry_prev_sha256 e)) es"

lemma sealed_links: "sealed entry_seal (map link_of es) = sealed_entries es"
  by (simp add: sealed_def sealed_entries_def link_of_def)

lemma append_all_wf: "passport_wf H es \<Longrightarrow> passport_wf H (append_all H xs es)"
  by (induction H xs es rule: append_all.induct) (simp_all add: append_entry_wf)

lemma append_all_append: "append_all H (xs @ ys) es = append_all H ys (append_all H xs es)"
  by (induction H xs es rule: append_all.induct) simp_all

lemma append_all_prefix: "prefix es (append_all H xs es)"
  by (induction H xs es rule: append_all.induct) (auto intro: prefix_order.trans append_entry_prefix)

text \<open>
  C28. The trade passport is append-only and hash-linked: whatever is appended, with refused
  times in between, the entries present before remain, in place, as a prefix; entries
  are numbered consecutively from zero and each binds its predecessor's hash; and two
  passports built this way with the same head hash hold the same entries, unless the two passports
  themselves exhibit a break of SHA-256: an entry of the one and an entry of the other whose
  different canonical texts have the same hash, or an entry whose text hashes to the genesis value.
\<close>

theorem trade_passport_append_only:
  "passport_wf H (append_all H xs [])
   \<and> prefix (append_all H xs []) (append_all H (xs @ ys) [])
   \<and> (head_sha256 (append_all H xs []) = head_sha256 (append_all H zs []) \<longrightarrow>
        map (stage_norm \<circ> content_of) (append_all H xs []) = map (stage_norm \<circ> content_of) (append_all H zs [])
        \<or> (\<exists>a \<in> set (sealed_entries (append_all H xs [])). \<exists>b \<in> set (sealed_entries (append_all H zs [])). a \<noteq> b \<and> H a = H b)
        \<or> (\<exists>a \<in> set (sealed_entries (append_all H xs [])) \<union> set (sealed_entries (append_all H zs [])). H a = GENESIS_SHA256))"
proof (intro conjI impI)
  have wf: "passport_wf H (append_all H xs [])" for xs by (rule append_all_wf) (simp add: passport_wf_def)
  show "passport_wf H (append_all H xs [])" by (rule wf)
  show "prefix (append_all H xs []) (append_all H (xs @ ys) [])" unfolding append_all_append by (rule append_all_prefix)
  assume "head_sha256 (append_all H xs []) = head_sha256 (append_all H zs [])"
  then have head: "chain_head GENESIS_SHA256 (map link_of (append_all H xs []))
      = chain_head GENESIS_SHA256 (map link_of (append_all H zs []))" by (simp add: head_of_links)
  have linked: "linked H entry_seal GENESIS_SHA256 (map link_of (append_all H xs []))" for xs using wf by (simp add: passport_wf_def)
  have content: "map (stage_norm \<circ> fst) (map link_of es) = map (stage_norm \<circ> content_of) es" for es by (simp add: link_of_def)
  show "map (stage_norm \<circ> content_of) (append_all H xs []) = map (stage_norm \<circ> content_of) (append_all H zs [])
        \<or> (\<exists>a \<in> set (sealed_entries (append_all H xs [])). \<exists>b \<in> set (sealed_entries (append_all H zs [])). a \<noteq> b \<and> H a = H b)
        \<or> (\<exists>a \<in> set (sealed_entries (append_all H xs [])) \<union> set (sealed_entries (append_all H zs [])). H a = GENESIS_SHA256)"
    using trade_passport.same_head_same_chain [OF linked linked head]
    unfolding content sealed_links colliding_def hashes_to_def set_append .
qed

theorem trade_passport_append_only_witness:
  "map (stage_norm \<circ> content_of) (append_all tagged [(HOLD, \<lparr>instant = 0, tzone = Naive\<rparr>, JObj []), (PERMIT, utc_at 0, JObj [])] [])
     = map (stage_norm \<circ> content_of) (append_all tagged [(PERMIT, \<lparr>instant = 0, tzone = Offset 60\<rparr>, JObj [])] [])"
proof -
  have "head_sha256 (append_all tagged [(HOLD, \<lparr>instant = 0, tzone = Naive\<rparr>, JObj []), (PERMIT, utc_at 0, JObj [])] [])
      = head_sha256 (append_all tagged [(PERMIT, \<lparr>instant = 0, tzone = Offset 60\<rparr>, JObj [])] [])"
    by (simp add: append_entry_def compute_entry_sha256_def utc_text_def guarded_def head_sha256_def Let_def)
  then show ?thesis
    using trade_passport_append_only [of tagged, THEN conjunct2, THEN conjunct2] tagged_injective by metis
qed

end
