(* ===== verification/Ledger_Tables.thy ===== *)
theory Ledger_Tables
  imports Passport
begin

text \<open>
  \<open>risk/ledger.py\<close>, the tables: the SQLite schema after all migrations as a record of row
  lists (in row order), the validators of the module, and the append-only passport table.
  Amounts and times are stored as the text the code stores. A \<open>PRIMARY KEY\<close>, \<open>UNIQUE\<close> or
  \<open>FOREIGN KEY\<close> violation is the exception \<open>IntegrityError\<close>; a \<open>CHECK(state IN ...)\<close> column
  is a datatype.
\<close>

datatype ledger_error =
    LedgerRejected risk_rejected
  | IntegrityError
  | ImmutableEpisodeConflict string string
  | LedgerValueError value_error
  | LedgerTypeError

definition lrej :: "risk_reason \<Rightarrow> string \<Rightarrow> ledger_error" where
  "lrej r path = LedgerRejected (reject r path)"

section \<open>Rows\<close>

datatype reservation_state = RESERVED | CONSUMED | RELEASED
datatype permit_state = ISSUED | SUBMITTED | FILLED | CANCELLED
datatype intent_phase = OPEN | CLOSE
datatype intent_state = INTENDED | INTENT_SUBMITTED | INTENT_RECONCILED

record candidate_row =
  cd_event_id :: string
  cd_candidate_id :: string
  cd_policy_sha256 :: string
  cd_decision_sha256 :: string
  cd_expression_sha256 :: string
  cd_evidence_mode :: string
  cd_created_at :: string

record reservation_row =
  rs_id :: string
  rs_event_id :: string
  rs_amount :: string
  rs_state :: reservation_state
  rs_created_at :: string
  rs_updated_at :: string
  rs_underlying :: string

record permit_row =
  pm_id :: string
  pm_event_id :: string
  pm_reservation_id :: string
  pm_sha256 :: string
  pm_state :: permit_state
  pm_created_at :: string
  pm_updated_at :: string

record submission_row =
  sb_permit_id :: string
  sb_event_id :: string
  sb_broker_order_id :: string
  sb_submitted_at :: string

record fill_row =
  fl_id :: string
  fl_permit_id :: string
  fl_event_id :: string
  fl_quantity :: string
  fl_status :: string
  fl_observed_at :: string

record intent_row =
  it_permit_id :: string
  it_phase :: intent_phase
  it_event_id :: string
  it_open_permit_id :: string
  it_reservation_id :: string
  it_correlation_sha256 :: string
  it_policy_sha256 :: string
  it_snapshot_sha256 :: string
  it_account_id :: string
  it_account_class :: string
  it_order_class :: string
  it_client_order_id :: string
  it_request_sha256 :: string
  it_request_json :: string
  it_broker_order_id :: "string option"
  it_state :: intent_state
  it_created_at :: string
  it_updated_at :: string

record v2_row =
  v_reservation_id :: string
  v_event_id :: string
  v_candidate_id :: string
  v_underlying :: string
  v_decision_sha256 :: string
  v_expression_sha256 :: string
  v_opportunity_id :: string
  v_opportunity_sha256 :: string
  v_allocation_reservation_id :: string
  v_risk_tier :: string
  v_quantity :: int
  v_amount :: string
  v_account_equity :: string
  v_account_cash :: string
  v_policy_sha256 :: string
  v_permit_id :: string
  v_permit_sha256 :: string
  v_created_at :: string

record passport_row =
  pp_event_type :: string
  pp_payload :: string
  pp_prev_sha256 :: string
  pp_event_sha256 :: string
  pp_created_at :: string

record not_run_row =
  nr_event_id :: string
  nr_reason :: string
  nr_created_at :: string

record position_row =
  ps_underlying :: string
  ps_quantity :: string
  ps_observed_at :: string

record reconciliation_row =
  rc_id :: string
  rc_result :: string
  rc_detail :: "string option"
  rc_paper_pnl :: "string option"
  rc_shadow_pnl :: "string option"
  rc_observed_at :: string

record account_row =
  ac_equity :: string
  ac_observed_at :: string

record control_row =
  ct_state :: control_state
  ct_reason :: "string option"
  ct_updated_at :: string

text \<open>An episode row: its columns by name, and the canonical bytes with their digest.\<close>

record episode_row =
  ep_values :: "(string \<times> json) list"
  ep_payload_sha256 :: string
  ep_payload :: string

record ledger =
  candidates :: "candidate_row list"
  reservations :: "reservation_row list"
  permits :: "permit_row list"
  fills :: "fill_row list"
  positions :: "position_row list"
  reconciliations :: "reconciliation_row list"
  account_snapshots :: "account_row list"
  control_state_row :: "control_row option"
  passport_events :: "passport_row list"
  not_run :: "not_run_row list"
  submissions :: "submission_row list"
  lifecycle_intents :: "intent_row list"
  decision_episodes :: "episode_row list"
  outcome_episodes :: "episode_row list"
  broker_truth_snapshots :: "episode_row list"
  v2_reservations :: "v2_row list"

definition empty_ledger :: ledger where
  "empty_ledger = \<lparr>candidates = [], reservations = [], permits = [], fills = [], positions = [],
     reconciliations = [], account_snapshots = [], control_state_row = None, passport_events = [], not_run = [],
     submissions = [], lifecycle_intents = [], decision_episodes = [], outcome_episodes = [],
     broker_truth_snapshots = [], v2_reservations = []\<rparr>"

type_synonym 'a ledger_op = "ledger \<Rightarrow> (ledger, ledger_error, 'a) outcome"

section \<open>Validators\<close>

definition timestamp :: "datetime \<Rightarrow> string \<Rightarrow> bool \<times> ledger_error" where
  "timestamp t path = (\<not> is_utc t, lrej UNSUPPORTED_INPUT path)"

definition require_identifier :: "string \<Rightarrow> string \<Rightarrow> bool \<times> ledger_error" where
  "require_identifier v path = (\<not> exact_text v, lrej UNSUPPORTED_INPUT path)"

definition underlying_text :: "string \<Rightarrow> string \<Rightarrow> (bool \<times> ledger_error) list" where
  "underlying_text v path = [require_identifier v path, (v \<noteq> upper v, lrej UNSUPPORTED_INPUT path)]"

definition sha256_text :: "string \<Rightarrow> string \<Rightarrow> bool \<times> ledger_error" where
  "sha256_text v path = (\<not> is_sha256 v, lrej UNSUPPORTED_INPUT path)"

definition finite_decimal :: "dec \<Rightarrow> string \<Rightarrow> bool \<times> ledger_error" where
  "finite_decimal v path = (\<not> is_finite v, lrej UNSUPPORTED_INPUT path)"

definition amount_text :: "dec \<Rightarrow> string \<Rightarrow> bool \<times> ledger_error" where
  "amount_text v path = (\<not> is_finite v \<or> dec_lt v dec_zero, lrej EXPOSURE_NOT_CALCULABLE path)"

definition positive_limit :: "dec \<Rightarrow> string \<Rightarrow> (bool \<times> ledger_error) list" where
  "positive_limit v path = [amount_text v path, (dec_le v dec_zero, lrej UNSUPPORTED_INPUT path)]"

definition ledger_positive_int :: "int \<Rightarrow> string \<Rightarrow> bool \<times> ledger_error" where
  "ledger_positive_int n path = (n \<le> 0, lrej UNSUPPORTED_INPUT path)"

lemmas validator_defs = timestamp_def require_identifier_def underlying_text_def sha256_text_def finite_decimal_def
  amount_text_def positive_limit_def ledger_positive_int_def

text \<open>The canonical text of a non-negative amount of version 2, and its decoder.\<close>

definition v2_decimal_text :: "dec \<Rightarrow> string" where
  "v2_decimal_text v = (if dec_eq v dec_zero then ''0'' else decimal_text v)"

definition v2_stored_amount :: "string \<Rightarrow> string \<Rightarrow> bool \<Rightarrow> ledger_error + dec" where
  "v2_stored_amount stored path positive =
     (case dec_parse stored of
        None \<Rightarrow> Inl (lrej EXPOSURE_NOT_CALCULABLE path)
      | Some d \<Rightarrow> guarded
          [amount_text d path,
           (positive \<and> dec_le d dec_zero, lrej EXPOSURE_NOT_CALCULABLE path),
           (v2_decimal_text d \<noteq> stored, lrej EXPOSURE_NOT_CALCULABLE path)] (Inr d))"

definition v2_tier_values :: "dec list" where
  "v2_tier_values = [Fin 5 (-2), Fin 10 (-2), Fin 20 (-2)]"

definition v2_risk_tier :: "dec \<Rightarrow> string \<Rightarrow> (bool \<times> ledger_error) list" where
  "v2_risk_tier v path = positive_limit v path @ [(\<not> list_ex (dec_eq v) v2_tier_values, lrej UNSUPPORTED_INPUT path)]"

text \<open>\<open>format(tier, ".2f")\<close>, taken only of one of the three tiers.\<close>

definition v2_risk_tier_text :: "dec \<Rightarrow> string" where
  "v2_risk_tier_text v =
     (if dec_eq v (Fin 5 (-2)) then ''0.05'' else if dec_eq v (Fin 10 (-2)) then ''0.10'' else ''0.20'')"

definition v2_stored_risk_tier :: "string \<Rightarrow> string \<Rightarrow> ledger_error + dec" where
  "v2_stored_risk_tier stored path =
     (case dec_parse stored of
        None \<Rightarrow> Inl (lrej EXPOSURE_NOT_CALCULABLE path)
      | Some d \<Rightarrow> guarded
          (v2_risk_tier d path @ [(v2_risk_tier_text d \<noteq> stored, lrej EXPOSURE_NOT_CALCULABLE path)]) (Inr d))"

section \<open>Append-only episodes\<close>

definition DECISION_EPISODE_COLUMNS :: "string list" where
  "DECISION_EPISODE_COLUMNS =
     [''episode_id'', ''event_id'', ''candidate_id'', ''symbol'', ''occurred_at'', ''decision_cutoff_at'',
      ''source_policy_sha256'', ''source_evidence_sha256'', ''source_feature_sha256'', ''source_snapshot_sha256'',
      ''prior_summary_sha256'', ''route_sha256'', ''prompt_sha256'', ''model_config_sha256'', ''exchange_sha256'',
      ''decision_sha256'', ''disposition'', ''direction'', ''created_at'', ''supersedes_episode_id'',
      ''supersedes_episode_sha256'']"

definition OUTCOME_EPISODE_COLUMNS :: "string list" where
  "OUTCOME_EPISODE_COLUMNS =
     [''outcome_id'', ''decision_episode_id'', ''event_id'', ''open_permit_id'', ''close_permit_id'', ''open_order_id'',
      ''close_order_id'', ''terminal_at'', ''observed_at'', ''lifecycle_outcome'', ''pnl_classification'', ''gross_pnl'',
      ''net_pnl'', ''reconciliation_sha256'', ''final_flat'', ''supersedes_outcome_id'', ''supersedes_outcome_sha256'',
      ''created_at'']"

definition BROKER_TRUTH_SNAPSHOT_COLUMNS :: "string list" where
  "BROKER_TRUTH_SNAPSHOT_COLUMNS =
     [''snapshot_id'', ''observed_at'', ''account_sha256'', ''orders_sha256'', ''positions_sha256'', ''equity'',
      ''open_exposure'', ''is_flat'', ''created_at'', ''supersedes_snapshot_id'', ''supersedes_snapshot_sha256'']"

text \<open>
  \<open>_append_episode_row\<close> on the rows of one table. The value of a \<open>NOT NULL\<close> column is not
  tested here: the callers' contracts (\<open>autonomy.episodes\<close>) build complete values.
\<close>

definition append_episode_row ::
    "string \<Rightarrow> string list \<Rightarrow> string \<Rightarrow> (string \<times> json) list \<Rightarrow> string \<Rightarrow> string
     \<Rightarrow> episode_row list \<Rightarrow> (ledger_error + bool) \<times> episode_row list" where
  "append_episode_row table columns identity_column values payload payload_sha256 rows =
     (if set (map fst values) \<noteq> set columns
      then (Inl (LedgerValueError ''episode row columns do not match its fixed schema''), rows)
      else case map_of values identity_column of
        Some (JStr identity) \<Rightarrow>
          (case row_where (\<lambda>r. map_of (ep_values r) identity_column = Some (JStr identity)) rows of
             Some existing \<Rightarrow>
               if ep_payload_sha256 existing = payload_sha256 \<and> ep_payload existing = payload
               then (Inr False, rows)
               else (Inl (ImmutableEpisodeConflict table identity), rows)
           | None \<Rightarrow>
               (Inr True, rows @ [\<lparr>ep_values = values, ep_payload_sha256 = payload_sha256, ep_payload = payload\<rparr>]))
      | _ \<Rightarrow> (Inl (LedgerValueError ''episode identity must be text''), rows))"

definition append_decision_episode :: "(string \<times> json) list \<Rightarrow> string \<Rightarrow> string \<Rightarrow> bool ledger_op" where
  "append_decision_episode values payload sha db =
     (case append_episode_row ''decision_episodes'' DECISION_EPISODE_COLUMNS ''episode_id'' values payload sha (decision_episodes db)
      of (r, rows) \<Rightarrow> (r, db\<lparr>decision_episodes := rows\<rparr>))"

definition append_outcome_episode :: "(string \<times> json) list \<Rightarrow> string \<Rightarrow> string \<Rightarrow> bool ledger_op" where
  "append_outcome_episode values payload sha db =
     (case append_episode_row ''outcome_episodes'' OUTCOME_EPISODE_COLUMNS ''outcome_id'' values payload sha (outcome_episodes db)
      of (r, rows) \<Rightarrow> (r, db\<lparr>outcome_episodes := rows\<rparr>))"

definition append_broker_truth_snapshot :: "(string \<times> json) list \<Rightarrow> string \<Rightarrow> string \<Rightarrow> bool ledger_op" where
  "append_broker_truth_snapshot values payload sha db =
     (case append_episode_row ''broker_truth_snapshots'' BROKER_TRUTH_SNAPSHOT_COLUMNS ''snapshot_id'' values payload sha
             (broker_truth_snapshots db)
      of (r, rows) \<Rightarrow> (r, db\<lparr>broker_truth_snapshots := rows\<rparr>))"

section \<open>The passport table\<close>

definition previous_hash :: "passport_row list \<Rightarrow> string" where
  "previous_hash rows = (if rows = [] then GENESIS_SHA256 else pp_event_sha256 (last rows))"

definition passport_row_for :: "hash_function \<Rightarrow> string \<Rightarrow> json \<Rightarrow> datetime \<Rightarrow> passport_row list \<Rightarrow> passport_row" where
  "passport_row_for H event_type payload now rows =
     (let prev = previous_hash rows; created = isoformat_z now
      in \<lparr>pp_event_type = event_type, pp_payload = canonical_json_bytes payload, pp_prev_sha256 = prev,
          pp_event_sha256 = H (passport_seal (event_type, payload, created) prev), pp_created_at = created\<rparr>)"

definition append_passport :: "hash_function \<Rightarrow> string \<Rightarrow> json \<Rightarrow> datetime \<Rightarrow> string ledger_op" where
  "append_passport H event_type payload now db =
     (case first_reject [require_identifier event_type ''passport.event_type'', timestamp now ''passport.created_at''] of
        Some e \<Rightarrow> (Inl e, db)
      | None \<Rightarrow>
          let row = passport_row_for H event_type payload now (passport_events db)
          in (Inr (pp_event_sha256 row), db\<lparr>passport_events := passport_events db @ [row]\<rparr>))"

text \<open>\<open>passport_events()\<close>: the rows as the events the verifier reads.\<close>

definition event_of_row :: "passport_row \<Rightarrow> ledger_error + json" where
  "event_of_row r =
     (case json_loads (pp_payload r) of
        None \<Rightarrow> Inl (lrej PASSPORT_VERIFICATION_FAILED ''passport.payload'')
      | Some v \<Rightarrow> Inr (JObj
          [(''event_type'', JStr (pp_event_type r)), (''payload'', v), (''prev_sha256'', JStr (pp_prev_sha256 r)),
           (''event_sha256'', JStr (pp_event_sha256 r)), (''created_at'', JStr (pp_created_at r))]))"

definition stored_passport_events :: "ledger \<Rightarrow> ledger_error + json list" where
  "stored_passport_events db = rmap_list event_of_row (passport_events db)"

section \<open>The passport table always verifies\<close>

definition row_link :: "passport_row \<Rightarrow> passport_content link option" where
  "row_link r =
     (case json_loads (pp_payload r) of
        Some v \<Rightarrow> if is_object v then Some ((pp_event_type r, v, pp_created_at r), pp_prev_sha256 r, pp_event_sha256 r) else None
      | None \<Rightarrow> None)"

definition passport_ok :: "hash_function \<Rightarrow> passport_row list \<Rightarrow> bool" where
  "passport_ok H rows = (\<exists>ls. map row_link rows = map Some ls \<and> linked H passport_seal GENESIS_SHA256 ls)"

lemma passport_ok_Nil [simp]: "passport_ok H []"
  by (simp add: passport_ok_def)

lemma passport_seal_sorted: "passport_seal (t, json_sort p, a) q = passport_seal (t, p, a) q"
  by (simp add: canonical_json_bytes_def json_sort_idem)

lemma is_object_sort [simp]: "is_object (json_sort v) = is_object v"
  by (cases v) simp_all

lemma previous_hash_head:
  "map row_link rows = map Some ls \<Longrightarrow> previous_hash rows = chain_head GENESIS_SHA256 ls"
proof (cases rows rule: rev_cases)
  case (snoc rs r)
  assume links: "map row_link rows = map Some ls"
  then obtain ks k where ls: "ls = ks @ [k]" "row_link r = Some k"
    by (auto simp: snoc map_eq_append_conv append_eq_map_conv)
  obtain c p h where k: "k = (c, p, h)" by (cases k)
  have "h = pp_event_sha256 r" using ls(2) by (auto simp: k row_link_def split: option.splits if_splits)
  then show ?thesis by (simp add: previous_hash_def snoc ls(1) k)
qed (simp add: previous_hash_def)

lemma passport_ok_append:
  assumes "passport_ok H rows" "is_object payload"
  shows "passport_ok H (rows @ [passport_row_for H t payload now rows])"
proof -
  obtain ls where ls: "map row_link rows = map Some ls" "linked H passport_seal GENESIS_SHA256 ls"
    using assms(1) by (auto simp: passport_ok_def)
  let ?k = "((t, json_sort payload, isoformat_z now), previous_hash rows,
     H (passport_seal (t, json_sort payload, isoformat_z now) (previous_hash rows)))"
  have "row_link (passport_row_for H t payload now rows) = Some ?k"
    using assms(2)
    by (simp add: row_link_def passport_row_for_def Let_def json_loads_canonical passport_seal_sorted del: passport_seal.simps)
  then have "map row_link (rows @ [passport_row_for H t payload now rows]) = map Some (ls @ [?k])"
    using ls(1) by simp
  moreover have "linked H passport_seal GENESIS_SHA256 (ls @ [?k])"
    using ls(2) previous_hash_head [OF ls(1)] by (simp add: linked_snoc del: passport_seal.simps)
  ultimately show ?thesis unfolding passport_ok_def by blast
qed

lemma event_of_row_link:
  assumes "row_link r = Some l"
  obtains e where "event_of_row r = Inr e" "event_link e = Some l"
  using assms by (auto simp: row_link_def event_of_row_def event_link_def event_text_def event_payload_def
      split: option.splits if_splits)

lemma events_of_rows:
  "map row_link rows = map Some ls \<Longrightarrow> \<exists>es. rmap_list event_of_row rows = Inr es \<and> map event_link es = map Some ls"
proof (induction rows arbitrary: ls)
  case Nil
  then show ?case by simp
next
  case (Cons r rows)
  then obtain l ks where l: "row_link r = Some l" "ls = l # ks" "map row_link rows = map Some ks"
    by (auto simp: Cons_eq_map_conv)
  obtain e where "event_of_row r = Inr e" "event_link e = Some l" using event_of_row_link [OF l(1)] by blast
  then show ?case using Cons.IH [OF l(3)] l(2) by auto
qed

lemma passport_ok_verifies:
  "passport_ok H (passport_events db) \<Longrightarrow>
     \<exists>es. stored_passport_events db = Inr es \<and> verify_passport H es = Inr (length (passport_events db))"
  using events_of_rows by (fastforce simp: passport_ok_def stored_passport_events_def verify_passport_linked
      dest: rmap_list_Inr_length)

lemma append_passport_Inr:
  "append_passport H t payload now db = (Inr h, db') \<longleftrightarrow>
     exact_text t \<and> is_utc now \<and>
     h = pp_event_sha256 (passport_row_for H t payload now (passport_events db)) \<and>
     db' = db\<lparr>passport_events := passport_events db @ [passport_row_for H t payload now (passport_events db)]\<rparr>"
  by (auto simp: append_passport_def validator_defs Let_def)

lemma append_passport_other_tables:
  "append_passport H t payload now db = (Inr h, db') \<Longrightarrow> db' = db\<lparr>passport_events := passport_events db'\<rparr>"
  by (auto simp: append_passport_Inr)

lemma append_passport_ok:
  "append_passport H t payload now db = (Inr h, db') \<Longrightarrow> is_object payload \<Longrightarrow>
     passport_ok H (passport_events db) \<Longrightarrow> passport_ok H (passport_events db')"
  by (auto simp: append_passport_Inr passport_ok_append)

section \<open>Episodes are immutable\<close>

lemma append_episode_row_cases:
  assumes "append_episode_row table cols idc vals payload sha rows = (r, rows')"
  obtains e where "r = Inl e" "rows' = rows"
  | "r = Inr False" "rows' = rows"
      "\<exists>q \<in> set rows. ep_payload q = payload \<and> ep_payload_sha256 q = sha \<and> map_of (ep_values q) idc = map_of vals idc"
  | "r = Inr True" "rows' = rows @ [\<lparr>ep_values = vals, ep_payload_sha256 = sha, ep_payload = payload\<rparr>]"
      "\<forall>q \<in> set rows. map_of (ep_values q) idc \<noteq> map_of vals idc"
  using assms
  by (auto simp: append_episode_row_def split: if_splits option.splits json.splits) (blast dest: row_where_Some)

text \<open>
  Episodes are append-only and idempotent: appending never changes or removes a row, an
  identity already present is accepted only as a replay of the exact same bytes and digest
  (nothing is written), different bytes under a known identity are refused, and after a
  successful append the very same append is a replay that writes nothing.
\<close>

theorem episodes_append_only:
  assumes run: "append_decision_episode vals payload sha db = (r, db')"
  shows "(\<exists>new. decision_episodes db' = decision_episodes db @ new \<and> length new \<le> 1)
    \<and> (r = Inr False \<longrightarrow> db' = db)
    \<and> (\<forall>e. r = Inl e \<longrightarrow> db' = db)
    \<and> (r = Inr True \<longrightarrow> append_decision_episode vals payload sha db' = (Inr False, db'))
    \<and> (\<forall>p s. r = Inr True \<longrightarrow> (p, s) \<noteq> (payload, sha) \<longrightarrow>
         (\<exists>i. append_decision_episode vals p s db' = (Inl (ImmutableEpisodeConflict ''decision_episodes'' i), db')))"
proof -
  obtain rows where a: "append_episode_row ''decision_episodes'' DECISION_EPISODE_COLUMNS ''episode_id'' vals payload sha
      (decision_episodes db) = (r, rows)" and db': "db' = db\<lparr>decision_episodes := rows\<rparr>"
    using run by (auto simp: append_decision_episode_def split: prod.splits)
  show ?thesis
  proof (rule append_episode_row_cases [OF a])
    assume new: "r = Inr True" "rows = decision_episodes db @ [\<lparr>ep_values = vals, ep_payload_sha256 = sha, ep_payload = payload\<rparr>]"
      "\<forall>q \<in> set (decision_episodes db). map_of (ep_values q) ''episode_id'' \<noteq> map_of vals ''episode_id''"
    have "set (map fst vals) = set DECISION_EPISODE_COLUMNS" and
      "\<exists>i. map_of vals ''episode_id'' = Some (JStr i)"
      using a new(1) by (auto simp: append_episode_row_def split: if_splits option.splits json.splits)
    then obtain i where i: "set (map fst vals) = set DECISION_EPISODE_COLUMNS"
      "map_of vals ''episode_id'' = Some (JStr i)" by blast
    have "row_where (\<lambda>q. map_of (ep_values q) ''episode_id'' = Some (JStr i)) (decision_episodes db) = None"
      using new(3) i(2) by simp
    then have "row_where (\<lambda>q. map_of (ep_values q) ''episode_id'' = Some (JStr i)) rows
        = Some \<lparr>ep_values = vals, ep_payload_sha256 = sha, ep_payload = payload\<rparr>"
      using new(2) i(2) by (simp del: row_where_None)
    then show ?thesis
      using new(1,2) i by (auto simp: db' append_decision_episode_def append_episode_row_def)
  qed (simp_all add: db')
qed

theorem episodes_append_only_witness:
  "append_decision_episode (map (\<lambda>c. (c, JStr ''x'')) DECISION_EPISODE_COLUMNS) ''{}'' ''h'' empty_ledger
     = (Inr True, empty_ledger\<lparr>decision_episodes :=
          [\<lparr>ep_values = map (\<lambda>c. (c, JStr ''x'')) DECISION_EPISODE_COLUMNS, ep_payload_sha256 = ''h'', ep_payload = ''{}''\<rparr>]\<rparr>)
   \<and> append_decision_episode (map (\<lambda>c. (c, JStr ''x'')) DECISION_EPISODE_COLUMNS) ''{}'' ''h'' (empty_ledger\<lparr>decision_episodes :=
          [\<lparr>ep_values = map (\<lambda>c. (c, JStr ''x'')) DECISION_EPISODE_COLUMNS, ep_payload_sha256 = ''h'', ep_payload = ''{}''\<rparr>]\<rparr>)
     = (Inr False, empty_ledger\<lparr>decision_episodes :=
          [\<lparr>ep_values = map (\<lambda>c. (c, JStr ''x'')) DECISION_EPISODE_COLUMNS, ep_payload_sha256 = ''h'', ep_payload = ''{}''\<rparr>]\<rparr>)"
proof -
  let ?vals = "map (\<lambda>c. (c, JStr ''x'')) DECISION_EPISODE_COLUMNS"
  let ?db = "empty_ledger\<lparr>decision_episodes :=
      [\<lparr>ep_values = ?vals, ep_payload_sha256 = ''h'', ep_payload = ''{}''\<rparr>]\<rparr>"
  have first: "append_decision_episode ?vals ''{}'' ''h'' empty_ledger = (Inr True, ?db)"
    by (simp add: append_decision_episode_def append_episode_row_def DECISION_EPISODE_COLUMNS_def empty_ledger_def)
  show ?thesis using episodes_append_only [OF first] first by blast
qed

end
