(* ===== verification/Ledger.thy ===== *)
theory Ledger
  imports Ledger_Tables "HOL-Library.AList"
begin

text \<open>
  \<open>risk/ledger.py\<close>, the operations: each method of \<open>RiskLedger\<close> that reads or changes the
  tables. A method validates its arguments (\<open>checked\<close>), then runs its statements in one
  \<open>transaction\<close>; \<open>on_integrity\<close> is an \<open>except sqlite3.IntegrityError\<close> clause. The
  arguments are those of the source, in its order; \<open>H\<close> is SHA-256.
\<close>

definition on_integrity :: "ledger_error \<Rightarrow> 'a ledger_op \<Rightarrow> 'a ledger_op" where
  "on_integrity e m db = (case m db of (Inl err, t) \<Rightarrow> (Inl (if err = IntegrityError then e else err), t) | r \<Rightarrow> r)"

lemma on_integrity_Inr [outcome_simps]: "on_integrity e m db = (Inr a, t) \<longleftrightarrow> m db = (Inr a, t)"
  by (auto simp: on_integrity_def split: prod.splits sum.splits)

section \<open>Lookups\<close>

definition candidate_for_event :: "string \<Rightarrow> ledger \<Rightarrow> candidate_row option" where
  "candidate_for_event event db = row_where (\<lambda>r. cd_event_id r = event) (candidates db)"

definition not_run_reason :: "string \<Rightarrow> ledger \<Rightarrow> string option" where
  "not_run_reason event db = map_option nr_reason (row_where (\<lambda>r. nr_event_id r = event) (not_run db))"

definition not_run_exists :: "string \<Rightarrow> ledger \<Rightarrow> bool" where
  "not_run_exists event db = (row_where (\<lambda>r. nr_event_id r = event) (not_run db) \<noteq> None)"

definition reservation_for_event :: "string \<Rightarrow> ledger \<Rightarrow> reservation_row option" where
  "reservation_for_event event db = row_where (\<lambda>r. rs_event_id r = event) (reservations db)"

definition permit_for_event :: "string \<Rightarrow> ledger \<Rightarrow> permit_row option" where
  "permit_for_event event db = row_where (\<lambda>r. pm_event_id r = event) (permits db)"

definition permit_row :: "string \<Rightarrow> ledger \<Rightarrow> permit_row option" where
  "permit_row pid db = row_where (\<lambda>r. pm_id r = pid) (permits db)"

definition submission_for_permit :: "string \<Rightarrow> ledger \<Rightarrow> submission_row option" where
  "submission_for_permit pid db = row_where (\<lambda>r. sb_permit_id r = pid) (submissions db)"

definition lifecycle_intent_for_permit :: "string \<Rightarrow> ledger \<Rightarrow> intent_row option" where
  "lifecycle_intent_for_permit pid db = row_where (\<lambda>r. it_permit_id r = pid) (lifecycle_intents db)"

definition lifecycle_intent_for_event_phase :: "string \<Rightarrow> intent_phase \<Rightarrow> ledger \<Rightarrow> intent_row option" where
  "lifecycle_intent_for_event_phase event phase db =
     row_where (\<lambda>r. it_event_id r = event \<and> it_phase r = phase) (lifecycle_intents db)"

definition fills_for_permit :: "string \<Rightarrow> ledger \<Rightarrow> fill_row list" where
  "fills_for_permit pid db = filter (\<lambda>r. fl_permit_id r = pid) (fills db)"

lemmas lookup_defs = candidate_for_event_def not_run_exists_def reservation_for_event_def permit_for_event_def
  permit_row_def submission_for_permit_def lifecycle_intent_for_permit_def lifecycle_intent_for_event_phase_def

section \<open>Candidates and abstentions\<close>

definition validated_candidate ::
    "string \<Rightarrow> string \<Rightarrow> string \<Rightarrow> string \<Rightarrow> string \<Rightarrow> string \<Rightarrow> datetime \<Rightarrow> (bool \<times> ledger_error) list" where
  "validated_candidate event candidate policy decision expression mode now =
     [require_identifier event ''candidate.event_id'', require_identifier candidate ''candidate.candidate_id'',
      sha256_text policy ''candidate.policy_sha256'', sha256_text decision ''candidate.decision_sha256'',
      sha256_text expression ''candidate.expression_sha256'', require_identifier mode ''candidate.evidence_mode'',
      timestamp now ''candidate.created_at'']"

definition insert_candidate :: "candidate_row \<Rightarrow> unit ledger_op" where
  "insert_candidate row db =
     (if cd_event_id row \<in> cd_event_id ` set (candidates db) then (Inl IntegrityError, db)
      else (Inr (), db\<lparr>candidates := candidates db @ [row]\<rparr>))"

definition candidate_guards :: "string \<Rightarrow> ledger \<Rightarrow> (bool \<times> ledger_error) list" where
  "candidate_guards event db =
     [(candidate_for_event event db \<noteq> None, lrej IMMUTABLE_EVENT_REPLAY (''candidate.'' @ event)),
      (not_run_exists event db, lrej NOT_RUN_EVENT (''candidate.'' @ event))]"

definition new_candidate ::
    "string \<Rightarrow> string \<Rightarrow> string \<Rightarrow> string \<Rightarrow> string \<Rightarrow> string \<Rightarrow> datetime \<Rightarrow> candidate_row" where
  "new_candidate event candidate policy decision expression mode now =
     \<lparr>cd_event_id = event, cd_candidate_id = candidate, cd_policy_sha256 = policy, cd_decision_sha256 = decision,
      cd_expression_sha256 = expression, cd_evidence_mode = mode, cd_created_at = isoformat_z now\<rparr>"

definition record_candidate ::
    "string \<Rightarrow> string \<Rightarrow> string \<Rightarrow> string \<Rightarrow> string \<Rightarrow> string \<Rightarrow> datetime \<Rightarrow> unit ledger_op" where
  "record_candidate event candidate policy decision expression mode now =
     checked (validated_candidate event candidate policy decision expression mode now)
       (transaction
         (othen (require (candidate_guards event))
                (insert_candidate (new_candidate event candidate policy decision expression mode now))))"

definition freeze_candidate ::
    "hash_function \<Rightarrow> string \<Rightarrow> string \<Rightarrow> string \<Rightarrow> string \<Rightarrow> string \<Rightarrow> string \<Rightarrow> datetime \<Rightarrow> unit ledger_op" where
  "freeze_candidate H event candidate policy decision expression mode now =
     checked (validated_candidate event candidate policy decision expression mode now)
       (transaction
         (othen (require (candidate_guards event))
         (othen (insert_candidate (new_candidate event candidate policy decision expression mode now))
         (othen (append_passport H (passport_event_type_value CANDIDATE_FROZEN)
                  (JObj [(''event_id'', JStr event), (''candidate_id'', JStr candidate),
                         (''risk_policy_sha256'', JStr policy), (''decision_sha256'', JStr decision),
                         (''compiled_expression_sha256'', JStr expression), (''evidence_mode'', JStr mode)]) now)
                (oreturn ())))))"

definition insert_not_run :: "string \<Rightarrow> string \<Rightarrow> datetime \<Rightarrow> unit ledger_op" where
  "insert_not_run event detail now db =
     (if event \<in> nr_event_id ` set (not_run db) then (Inl IntegrityError, db)
      else (Inr (), db\<lparr>not_run := not_run db @ [\<lparr>nr_event_id = event, nr_reason = detail, nr_created_at = isoformat_z now\<rparr>]\<rparr>))"

definition record_not_run_with :: "hash_function \<Rightarrow> string \<Rightarrow> string \<Rightarrow> datetime \<Rightarrow> bool \<Rightarrow> unit ledger_op" where
  "record_not_run_with H event detail now with_passport =
     checked [require_identifier event ''not_run.event_id'', require_identifier detail ''not_run.reason'',
              timestamp now ''not_run.created_at'']
       (transaction
         (othen (require (\<lambda>db.
             [(not_run_exists event db, lrej IMMUTABLE_EVENT_REPLAY (''not_run.'' @ event)),
              (reservation_for_event event db \<noteq> None, lrej EVENT_LIFECYCLE_INVALID (''not_run.'' @ event))]))
         (othen (insert_not_run event detail now)
                (if with_passport
                 then othen (append_passport H (passport_event_type_value NOT_RUN)
                               (JObj [(''event_id'', JStr event), (''reason'', JStr detail)]) now) (oreturn ())
                 else oreturn ()))))"

definition record_not_run :: "hash_function \<Rightarrow> string \<Rightarrow> string \<Rightarrow> datetime \<Rightarrow> unit ledger_op" where
  "record_not_run H event detail now = record_not_run_with H event detail now False"

definition mark_not_run :: "hash_function \<Rightarrow> string \<Rightarrow> string \<Rightarrow> datetime \<Rightarrow> unit ledger_op" where
  "mark_not_run H event detail now = record_not_run_with H event detail now True"

section \<open>Reservations\<close>

definition insert_reservation_row :: "reservation_row \<Rightarrow> unit ledger_op" where
  "insert_reservation_row row db =
     (if rs_id row \<in> rs_id ` set (reservations db) \<or> rs_event_id row \<in> rs_event_id ` set (reservations db)
      then (Inl IntegrityError, db)
      else (Inr (), db\<lparr>reservations := reservations db @ [row]\<rparr>))"

definition new_reservation :: "string \<Rightarrow> string \<Rightarrow> string \<Rightarrow> string \<Rightarrow> datetime \<Rightarrow> reservation_row" where
  "new_reservation rid event stored_amount symbol now =
     \<lparr>rs_id = rid, rs_event_id = event, rs_amount = stored_amount, rs_state = RESERVED,
      rs_created_at = isoformat_z now, rs_updated_at = isoformat_z now, rs_underlying = symbol\<rparr>"

definition insert_reservation :: "string \<Rightarrow> string \<Rightarrow> dec \<Rightarrow> string \<Rightarrow> datetime \<Rightarrow> unit ledger_op" where
  "insert_reservation rid event amount symbol now =
     insert_reservation_row (new_reservation rid event (dec_str amount) symbol now)"

definition reserve :: "string \<Rightarrow> dec \<Rightarrow> string \<Rightarrow> datetime \<Rightarrow> string ledger_op" where
  "reserve event amount symbol now =
     checked ([require_identifier event ''reservation.event_id'', amount_text amount (''reservation.'' @ event @ ''.amount'')]
              @ underlying_text symbol (''reservation.'' @ event @ ''.underlying'')
              @ [timestamp now ''reservation.created_at''])
       (transaction
         (othen (require (\<lambda>db.
             [(not_run_exists event db, lrej NOT_RUN_EVENT (''reservation.'' @ event)),
              (reservation_for_event event db \<noteq> None, lrej DUPLICATE_EVENT_RESERVATION (''reservation.'' @ event))]))
         (othen (insert_reservation (''rsv-'' @ event) event amount symbol now)
                (oreturn (''rsv-'' @ event)))))"

definition set_reservation_state :: "string \<Rightarrow> reservation_state \<Rightarrow> datetime \<Rightarrow> ledger \<Rightarrow> ledger" where
  "set_reservation_state event st now db =
     db\<lparr>reservations := update_where (\<lambda>r. rs_event_id r = event)
          (\<lambda>r. r\<lparr>rs_state := st, rs_updated_at := isoformat_z now\<rparr>) (reservations db)\<rparr>"

definition transition_reservation :: "string \<Rightarrow> reservation_state \<Rightarrow> reservation_state \<Rightarrow> datetime \<Rightarrow> unit ledger_op" where
  "transition_reservation event from_state to_state now =
     checked [require_identifier event ''reservation.event_id'', timestamp now ''reservation.updated_at'']
       (transaction
         (othen (require (\<lambda>db.
             [(map_option rs_state (reservation_for_event event db) \<noteq> Some from_state,
               lrej RESERVATION_NOT_RELEASED (''reservation.'' @ event))]))
                (exec (set_reservation_state event to_state now))))"

definition consume_reservation :: "string \<Rightarrow> datetime \<Rightarrow> unit ledger_op" where
  "consume_reservation event now = transition_reservation event RESERVED CONSUMED now"

definition release_reservation :: "string \<Rightarrow> datetime \<Rightarrow> unit ledger_op" where
  "release_reservation event now = transition_reservation event RESERVED RELEASED now"

section \<open>Open exposure\<close>

definition is_open :: "reservation_row \<Rightarrow> bool" where
  "is_open r = (rs_state r \<in> {RESERVED, CONSUMED})"

fun sum_amounts :: "dec \<Rightarrow> string list \<Rightarrow> ledger_error + dec" where
  "sum_amounts tot [] = Inr tot"
| "sum_amounts tot (raw # rest) =
     (case dec_parse raw of
        None \<Rightarrow> Inl (lrej EXPOSURE_NOT_CALCULABLE ''reservations.amount'')
      | Some v \<Rightarrow> guarded [amount_text v ''reservations.amount''] (sum_amounts (dec_add tot v) rest))"

definition open_reservation_total :: "ledger \<Rightarrow> ledger_error + dec" where
  "open_reservation_total db = sum_amounts dec_zero (map rs_amount (filter is_open (reservations db)))"

definition open_reservation_total_for_underlying :: "string \<Rightarrow> ledger \<Rightarrow> ledger_error + dec" where
  "open_reservation_total_for_underlying symbol db =
     guarded (underlying_text symbol ''underlying'')
       (sum_amounts dec_zero (map rs_amount (filter (\<lambda>r. is_open r \<and> rs_underlying r = symbol) (reservations db))))"

definition open_reservation_count :: "ledger \<Rightarrow> int" where
  "open_reservation_count db = int (length (filter is_open (reservations db)))"

definition entries_today :: "datetime \<Rightarrow> ledger \<Rightarrow> int" where
  "entries_today now db =
     int (length (filter (\<lambda>r. take 10 (rs_created_at r) = take 10 (isoformat_z now)) (reservations db)))"

section \<open>Permits\<close>

definition insert_permit_row :: "permit_row \<Rightarrow> unit ledger_op" where
  "insert_permit_row row db =
     (if pm_id row \<in> pm_id ` set (permits db) then (Inl IntegrityError, db)
      else (Inr (), db\<lparr>permits := permits db @ [row]\<rparr>))"

definition new_permit :: "string \<Rightarrow> string \<Rightarrow> string \<Rightarrow> string \<Rightarrow> datetime \<Rightarrow> permit_row" where
  "new_permit pid event rid sha now =
     \<lparr>pm_id = pid, pm_event_id = event, pm_reservation_id = rid, pm_sha256 = sha, pm_state = ISSUED,
      pm_created_at = isoformat_z now, pm_updated_at = isoformat_z now\<rparr>"

definition record_permit :: "string \<Rightarrow> string \<Rightarrow> string \<Rightarrow> string \<Rightarrow> datetime \<Rightarrow> unit ledger_op" where
  "record_permit pid event rid sha now =
     checked [require_identifier pid ''permit.permit_id'', require_identifier event ''permit.event_id'',
              require_identifier rid ''permit.reservation_id'', sha256_text sha ''permit.permit_sha256'',
              timestamp now ''permit.created_at'']
       (transaction
         (othen (require (\<lambda>db.
             [((case reservation_for_event event db of None \<Rightarrow> True
                | Some r \<Rightarrow> rs_id r \<noteq> rid \<or> rs_state r \<noteq> RESERVED \<or> permit_for_event event db \<noteq> None),
               lrej EVENT_LIFECYCLE_INVALID (''permit.'' @ pid))]))
                (insert_permit_row (new_permit pid event rid sha now))))"

definition set_permit_state :: "string \<Rightarrow> permit_state \<Rightarrow> datetime \<Rightarrow> ledger \<Rightarrow> ledger" where
  "set_permit_state pid st now db =
     db\<lparr>permits := update_where (\<lambda>r. pm_id r = pid)
          (\<lambda>r. r\<lparr>pm_state := st, pm_updated_at := isoformat_z now\<rparr>) (permits db)\<rparr>"

definition transition_permit_in_transaction :: "string \<Rightarrow> permit_state \<Rightarrow> permit_state \<Rightarrow> datetime \<Rightarrow> unit ledger_op" where
  "transition_permit_in_transaction pid expected target now =
     othen (require (\<lambda>db.
         [(permit_row pid db = None, lrej PERMIT_LIFECYCLE_INVALID (''permit.'' @ pid)),
          (map_option pm_state (permit_row pid db) \<noteq> Some expected, lrej PERMIT_LIFECYCLE_INVALID (''permit.'' @ pid)),
          timestamp now ''permit.updated_at'']))
           (exec (set_permit_state pid target now))"

text \<open>The target of \<open>update_permit_state\<close> is text; the only transition it allows is from ISSUED to SUBMITTED.\<close>

definition update_permit_state :: "string \<Rightarrow> string \<Rightarrow> datetime \<Rightarrow> unit ledger_op" where
  "update_permit_state pid to_state now =
     checked [require_identifier pid ''permit.permit_id'', require_identifier to_state ''permit.to_state'']
       (transaction
         (othen (require (\<lambda>db.
             [(map_option pm_state (permit_row pid db) \<noteq> Some ISSUED \<or> to_state \<noteq> ''SUBMITTED'',
               lrej PERMIT_LIFECYCLE_INVALID (''permit.'' @ pid))]))
                (transition_permit_in_transaction pid ISSUED SUBMITTED now)))"

section \<open>Lifecycle intents\<close>

fun phase_value :: "intent_phase \<Rightarrow> string" where
  "phase_value OPEN = ''OPEN''"
| "phase_value CLOSE = ''CLOSE''"

definition intent_clash :: "intent_row \<Rightarrow> intent_row \<Rightarrow> bool" where
  "intent_clash a b = (it_permit_id a = it_permit_id b \<or> it_event_id a = it_event_id b \<and> it_phase a = it_phase b)"

definition insert_intent :: "intent_row \<Rightarrow> unit ledger_op" where
  "insert_intent row db =
     (if list_ex (intent_clash row) (lifecycle_intents db) then (Inl IntegrityError, db)
      else (Inr (), db\<lparr>lifecycle_intents := lifecycle_intents db @ [row]\<rparr>))"

text \<open>\<open>{**payload, key: value}\<close>.\<close>

fun json_set :: "json \<Rightarrow> string \<Rightarrow> json \<Rightarrow> json" where
  "json_set (JObj kvs) k v = JObj (AList.update k v kvs)"
| "json_set w k v = w"

definition request_identity :: "intent_row \<Rightarrow> (string \<times> string) list" where
  "request_identity it =
     [(''permit_id'', it_permit_id it), (''open_permit_id'', it_open_permit_id it), (''phase'', phase_value (it_phase it)),
      (''event_run_id'', it_event_id it), (''reservation_id'', it_reservation_id it),
      (''correlation_sha256'', it_correlation_sha256 it), (''policy_sha256'', it_policy_sha256 it),
      (''snapshot_sha256'', it_snapshot_sha256 it), (''account_id'', it_account_id it),
      (''account_class'', it_account_class it), (''order_class'', it_order_class it),
      (''client_order_id'', it_client_order_id it)]"

text \<open>
  The arguments of \<open>record_lifecycle_intent\<close> are the columns of its row; \<open>broker_order_id\<close>,
  \<open>state\<close> and the times are set by the method. That \<open>phase\<close> is OPEN or CLOSE holds by its type.
\<close>

definition intent_guards :: "hash_function \<Rightarrow> intent_row \<Rightarrow> datetime \<Rightarrow> (bool \<times> ledger_error) list" where
  "intent_guards H it now =
     [require_identifier (it_permit_id it) ''lifecycle_intent.permit_id'',
      require_identifier (it_event_id it) ''lifecycle_intent.event_id'',
      require_identifier (it_open_permit_id it) ''lifecycle_intent.open_permit_id'',
      require_identifier (it_reservation_id it) ''lifecycle_intent.reservation_id'',
      sha256_text (it_correlation_sha256 it) ''lifecycle_intent.correlation_sha256'',
      sha256_text (it_policy_sha256 it) ''lifecycle_intent.policy_sha256'',
      sha256_text (it_snapshot_sha256 it) ''lifecycle_intent.snapshot_sha256'',
      require_identifier (it_account_id it) ''lifecycle_intent.account_id'',
      require_identifier (it_account_class it) ''lifecycle_intent.account_class'',
      require_identifier (it_order_class it) ''lifecycle_intent.order_class'',
      require_identifier (it_client_order_id it) ''lifecycle_intent.client_order_id'',
      sha256_text (it_request_sha256 it) ''lifecycle_intent.request_sha256'',
      ((case json_loads (it_request_json it) of None \<Rightarrow> True
        | Some v \<Rightarrow> \<not> is_object v \<or> canonical_json_bytes v \<noteq> it_request_json it
            \<or> H (canonical_json_bytes v) \<noteq> it_request_sha256 it
            \<or> list_ex (\<lambda>(k, t). json_get v k \<noteq> Some (JStr t)) (request_identity it)),
       lrej UNSUPPORTED_INPUT ''lifecycle_intent.request_json''),
      timestamp now ''lifecycle_intent.created_at'']"

definition request_payload :: "intent_row \<Rightarrow> json" where
  "request_payload it = (case json_loads (it_request_json it) of Some v \<Rightarrow> v | None \<Rightarrow> JNull)"

definition record_lifecycle_intent :: "hash_function \<Rightarrow> intent_row \<Rightarrow> datetime \<Rightarrow> unit ledger_op" where
  "record_lifecycle_intent H it now =
     checked (intent_guards H it now)
       (on_integrity (lrej PERMIT_LIFECYCLE_INVALID (''lifecycle_intent.'' @ it_permit_id it))
         (transaction
           (othen (insert_intent (it\<lparr>it_broker_order_id := None, it_state := INTENDED,
                     it_created_at := isoformat_z now, it_updated_at := isoformat_z now\<rparr>))
           (othen (append_passport H (passport_event_type_value ORDER_INTENDED)
                     (json_set (request_payload it) ''request_sha256'' (JStr (it_request_sha256 it))) now)
                  (oreturn ())))))"

definition bind_intent_row :: "string \<Rightarrow> string \<Rightarrow> datetime \<Rightarrow> unit ledger_op" where
  "bind_intent_row pid order now db =
     (if list_ex (\<lambda>r. it_permit_id r \<noteq> pid \<and> it_broker_order_id r = Some order) (lifecycle_intents db)
      then (Inl IntegrityError, db)
      else (Inr (), db\<lparr>lifecycle_intents := update_where (\<lambda>r. it_permit_id r = pid)
              (\<lambda>r. r\<lparr>it_broker_order_id := Some order, it_state := INTENT_SUBMITTED, it_updated_at := isoformat_z now\<rparr>)
              (lifecycle_intents db)\<rparr>))"

definition bind_lifecycle_intent :: "hash_function \<Rightarrow> string \<Rightarrow> intent_phase \<Rightarrow> string \<Rightarrow> datetime \<Rightarrow> unit ledger_op" where
  "bind_lifecycle_intent H pid phase order now =
     checked [require_identifier pid ''lifecycle_intent.permit_id'',
              require_identifier order ''lifecycle_intent.broker_order_id'', timestamp now ''lifecycle_intent.updated_at'']
       (on_integrity (lrej PERMIT_LIFECYCLE_INVALID (''lifecycle_intent.'' @ pid))
         (transaction
           (obind (query (lifecycle_intent_for_permit pid)) (\<lambda>found.
              case found of
                None \<Rightarrow> oraise (lrej PERMIT_LIFECYCLE_INVALID (''lifecycle_intent.'' @ pid))
              | Some it \<Rightarrow>
                  othen (require (\<lambda>db. [(it_phase it \<noteq> phase \<or> it_state it \<noteq> INTENDED,
                           lrej PERMIT_LIFECYCLE_INVALID (''lifecycle_intent.'' @ pid))]))
                  (othen (bind_intent_row pid order now)
                  (othen (require (\<lambda>db. [(\<not> is_object (request_payload it),
                            lrej PERMIT_LIFECYCLE_INVALID (''lifecycle_intent.'' @ pid @ ''.request_json''))]))
                  (othen (append_passport H (passport_event_type_value ORDER_SUBMITTED)
                            (json_set (json_set (request_payload it) ''request_sha256'' (JStr (it_request_sha256 it)))
                                      ''broker_order_id'' (JStr order)) now)
                         (oreturn ()))))))))"

definition mark_lifecycle_intent_reconciled :: "string \<Rightarrow> datetime \<Rightarrow> unit ledger_op" where
  "mark_lifecycle_intent_reconciled pid now =
     checked [require_identifier pid ''lifecycle_intent.permit_id'', timestamp now ''lifecycle_intent.updated_at'']
       (transaction
         (othen (require (\<lambda>db.
             [(map_option it_state (lifecycle_intent_for_permit pid db) \<noteq> Some INTENT_SUBMITTED,
               lrej PERMIT_LIFECYCLE_INVALID (''lifecycle_intent.'' @ pid))]))
                (exec (\<lambda>db. db\<lparr>lifecycle_intents := update_where (\<lambda>r. it_permit_id r = pid)
                   (\<lambda>r. r\<lparr>it_state := INTENT_RECONCILED, it_updated_at := isoformat_z now\<rparr>) (lifecycle_intents db)\<rparr>))))"

section \<open>Submissions and fills\<close>

text \<open>The foreign key \<open>submissions.permit_id\<close> refers to \<open>permits\<close>.\<close>

definition insert_submission :: "submission_row \<Rightarrow> unit ledger_op" where
  "insert_submission row db =
     (if sb_permit_id row \<in> sb_permit_id ` set (submissions db)
         \<or> sb_broker_order_id row \<in> sb_broker_order_id ` set (submissions db)
         \<or> sb_permit_id row \<notin> pm_id ` set (permits db)
      then (Inl IntegrityError, db)
      else (Inr (), db\<lparr>submissions := submissions db @ [row]\<rparr>))"

definition insert_fill :: "fill_row \<Rightarrow> unit ledger_op" where
  "insert_fill row db =
     (if fl_id row \<in> fl_id ` set (fills db) then (Inl IntegrityError, db)
      else (Inr (), db\<lparr>fills := fills db @ [row]\<rparr>))"

definition owns_event :: "string \<Rightarrow> string \<Rightarrow> ledger \<Rightarrow> bool" where
  "owns_event pid event db = (map_option pm_event_id (permit_row pid db) = Some event)"

text \<open>The permit's reservation is the event's reservation, and it is in the given state.\<close>

definition reservation_in_state :: "string \<Rightarrow> string \<Rightarrow> reservation_state \<Rightarrow> ledger \<Rightarrow> bool" where
  "reservation_in_state pid event st db =
     (case (reservation_for_event event db, permit_row pid db) of
        (Some r, Some p) \<Rightarrow> rs_id r = pm_reservation_id p \<and> rs_state r = st
      | _ \<Rightarrow> False)"

definition record_submission :: "hash_function \<Rightarrow> string \<Rightarrow> string \<Rightarrow> string \<Rightarrow> datetime \<Rightarrow> bool \<Rightarrow> unit ledger_op" where
  "record_submission H event pid order now with_passport =
     checked [require_identifier event ''submission.event_id'', require_identifier pid ''submission.permit_id'',
              require_identifier order ''submission.broker_order_id'', timestamp now ''submission.submitted_at'']
       (on_integrity (lrej PERMIT_LIFECYCLE_INVALID (''submission.'' @ pid))
         (transaction
           (othen (require (\<lambda>db.
               [(\<not> owns_event pid event db, lrej EVENT_LIFECYCLE_INVALID (''submission.'' @ pid)),
                (\<not> reservation_in_state pid event RESERVED db, lrej EVENT_LIFECYCLE_INVALID (''submission.'' @ pid))]))
           (othen (transition_permit_in_transaction pid ISSUED SUBMITTED now)
           (othen (insert_submission \<lparr>sb_permit_id = pid, sb_event_id = event, sb_broker_order_id = order,
                     sb_submitted_at = isoformat_z now\<rparr>)
                  (if with_passport
                   then othen (append_passport H (passport_event_type_value ORDER_SUBMITTED)
                                 (JObj [(''event_id'', JStr event), (''permit_id'', JStr pid), (''broker_order_id'', JStr order)]) now)
                              (oreturn ())
                   else oreturn ()))))))"

definition record_fill :: "string \<Rightarrow> string \<Rightarrow> string \<Rightarrow> dec \<Rightarrow> string \<Rightarrow> datetime \<Rightarrow> unit ledger_op" where
  "record_fill fill pid event qty status observed_at =
     checked [require_identifier fill ''fill.fill_id'', require_identifier pid ''fill.permit_id'',
              require_identifier event ''fill.event_id'', amount_text qty ''fill.quantity'',
              require_identifier status ''fill.status'', timestamp observed_at ''fill.observed_at'']
       (on_integrity (lrej PERMIT_LIFECYCLE_INVALID (''fill.'' @ fill))
         (transaction
           (othen (require (\<lambda>db. [(\<not> owns_event pid event db, lrej EVENT_LIFECYCLE_INVALID (''fill.'' @ fill))]))
                  (insert_fill \<lparr>fl_id = fill, fl_permit_id = pid, fl_event_id = event, fl_quantity = dec_str qty,
                     fl_status = status, fl_observed_at = isoformat_z observed_at\<rparr>))))"

text \<open>
  The terminal states an observed order implies: of the permit, of the reservation, and the
  passport event; anything else is refused.
\<close>

definition terminal_states ::
    "string \<Rightarrow> string \<Rightarrow> dec \<Rightarrow> ledger_error + permit_state \<times> reservation_state \<times> passport_event_type" where
  "terminal_states pid status qty =
     (if status = ''FILLED'' then
        (if dec_le qty dec_zero then Inl (lrej CONTRADICTORY_TRUTH (''reconcile.'' @ pid))
         else Inr (FILLED, CONSUMED, FILL_OBSERVED))
      else if status = ''CANCELED'' \<and> dec_eq qty dec_zero then Inr (CANCELLED, RELEASED, RESERVATION_RELEASED)
      else if status = ''PARTIALLY_FILLED'' \<or> dec_lt dec_zero qty then Inl (lrej PARTIAL_FILL_STATE (''reconcile.'' @ pid))
      else Inl (lrej CONTRADICTORY_TRUTH (''reconcile.'' @ pid)))"

fun permit_state_value :: "permit_state \<Rightarrow> string" where
  "permit_state_value ISSUED = ''ISSUED''"
| "permit_state_value SUBMITTED = ''SUBMITTED''"
| "permit_state_value FILLED = ''FILLED''"
| "permit_state_value CANCELLED = ''CANCELLED''"

definition submitted_order_matches :: "string \<Rightarrow> string \<Rightarrow> string \<Rightarrow> ledger \<Rightarrow> bool" where
  "submitted_order_matches pid event order db =
     (case submission_for_permit pid db of None \<Rightarrow> False
      | Some sb \<Rightarrow> sb_event_id sb = event \<and> sb_broker_order_id sb = order)"

definition reconcile_observed_order ::
    "hash_function \<Rightarrow> string \<Rightarrow> string \<Rightarrow> string \<Rightarrow> string \<Rightarrow> dec \<Rightarrow> datetime \<Rightarrow> datetime \<Rightarrow> unit ledger_op" where
  "reconcile_observed_order H event pid order status qty observed_at now =
     checked [require_identifier event ''reconcile.event_id'', require_identifier pid ''reconcile.permit_id'',
              require_identifier order ''reconcile.broker_order_id'', require_identifier status ''reconcile.status'',
              amount_text qty ''reconcile.filled_quantity'', timestamp observed_at ''reconcile.observed_at'',
              timestamp now ''reconcile.now'']
       (on_integrity (lrej PERMIT_LIFECYCLE_INVALID (''reconcile.'' @ pid))
         (transaction
           (othen (require (\<lambda>db.
               [(\<not> owns_event pid event db, lrej EVENT_LIFECYCLE_INVALID (''reconcile.'' @ pid)),
                (\<not> submitted_order_matches pid event order db, lrej CONTRADICTORY_TRUTH (''reconcile.'' @ pid)),
                (map_option pm_state (permit_row pid db) \<noteq> Some SUBMITTED, lrej PERMIT_LIFECYCLE_INVALID (''reconcile.'' @ pid)),
                (\<not> reservation_in_state pid event RESERVED db, lrej EVENT_LIFECYCLE_INVALID (''reconcile.'' @ pid))]))
           (obind (result_of (terminal_states pid status qty)) (\<lambda>(terminal, reservation_state, passport_event).
            othen (transition_permit_in_transaction pid SUBMITTED terminal now)
           (othen (exec (set_reservation_state event reservation_state now))
           (othen (insert_fill \<lparr>fl_id = order, fl_permit_id = pid, fl_event_id = event, fl_quantity = dec_str qty,
                     fl_status = status, fl_observed_at = isoformat_z observed_at\<rparr>)
           (othen (append_passport H (passport_event_type_value passport_event)
                     (JObj [(''event_id'', JStr event), (''permit_id'', JStr pid), (''broker_order_id'', JStr order),
                            (''status'', JStr status), (''filled_quantity'', JStr (dec_str qty))]) now)
           (othen (append_passport H (passport_event_type_value RECONCILED)
                     (JObj [(''event_id'', JStr event), (''permit_id'', JStr pid),
                            (''result'', JStr (permit_state_value terminal))]) now)
                  (oreturn ()))))))))))"

definition release_consumed_after_flat :: "hash_function \<Rightarrow> string \<Rightarrow> string \<Rightarrow> datetime \<Rightarrow> unit ledger_op" where
  "release_consumed_after_flat H event pid now =
     checked [require_identifier event ''flat.event_id'', require_identifier pid ''flat.permit_id'', timestamp now ''flat.now'']
       (transaction
         (othen (require (\<lambda>db.
             [(\<not> owns_event pid event db \<or> map_option pm_state (permit_row pid db) \<noteq> Some FILLED
                 \<or> \<not> reservation_in_state pid event CONSUMED db,
               lrej EVENT_LIFECYCLE_INVALID (''flat.'' @ pid))]))
         (othen (exec (set_reservation_state event RELEASED now))
         (othen (append_passport H (passport_event_type_value RECONCILED)
                   (JObj [(''event_id'', JStr event), (''permit_id'', JStr pid), (''result'', JStr ''FLAT'')]) now)
                (oreturn ())))))"

section \<open>Atomic authorization, version 1\<close>

definition frozen_candidate_guards ::
    "string \<Rightarrow> string \<Rightarrow> string \<Rightarrow> string \<Rightarrow> string \<Rightarrow> ledger \<Rightarrow> (bool \<times> ledger_error) list" where
  "frozen_candidate_guards event candidate policy decision expression db =
     (not_run_exists event db, lrej NOT_RUN_EVENT (''event.'' @ event)) #
     (case candidate_for_event event db of
        None \<Rightarrow> [(True, lrej UNSUPPORTED_INPUT (''candidate.'' @ event))]
      | Some frozen \<Rightarrow>
          [(cd_policy_sha256 frozen \<noteq> policy, lrej POLICY_HASH_MISMATCH (''candidate.'' @ event @ ''.policy_sha256'')),
           (cd_candidate_id frozen \<noteq> candidate, lrej UNSUPPORTED_INPUT (''candidate.'' @ event @ ''.candidate_id'')),
           (cd_decision_sha256 frozen \<noteq> decision, lrej UNSUPPORTED_INPUT (''candidate.'' @ event @ ''.decision_sha256'')),
           (cd_expression_sha256 frozen \<noteq> expression, lrej UNSUPPORTED_INPUT (''candidate.'' @ event @ ''.expression_sha256''))])"

definition reserve_and_issue_permit ::
    "hash_function \<Rightarrow> string \<Rightarrow> string \<Rightarrow> string \<Rightarrow> string \<Rightarrow> string \<Rightarrow> string \<Rightarrow> dec \<Rightarrow> dec \<Rightarrow> int \<Rightarrow> int
     \<Rightarrow> debit_vertical_permit \<Rightarrow> datetime \<Rightarrow> (string \<times> string \<times> string) ledger_op" where
  "reserve_and_issue_permit H event symbol candidate policy decision expression exposure aggregate max_open max_entries permit now =
     (let pid = permit_id permit; sha = H (debit_vertical_permit_bytes permit); rid = ''rsv-'' @ event;
          payload = JObj [(''event_id'', JStr event), (''candidate_id'', JStr candidate), (''reservation_id'', JStr rid),
                          (''permit_id'', JStr pid), (''permit_sha256'', JStr sha), (''risk_policy_sha256'', JStr policy),
                          (''decision_sha256'', JStr decision), (''compiled_expression_sha256'', JStr expression),
                          (''exposure'', JStr (dec_str exposure))]
      in checked
        ([require_identifier event ''authorization.event_id''] @ underlying_text symbol ''authorization.underlying''
         @ [require_identifier candidate ''authorization.candidate_id'', sha256_text policy ''authorization.risk_policy_sha256'',
            sha256_text decision ''authorization.decision_sha256'', sha256_text expression ''authorization.expression_sha256'',
            amount_text exposure ''authorization.amount'']
         @ positive_limit aggregate ''authorization.aggregate_limit''
         @ [ledger_positive_int max_open ''authorization.max_open_expressions'',
            ledger_positive_int max_entries ''authorization.max_entries_per_day'',
            (pid \<noteq> debit_vertical_permit_id H permit, lrej UNSUPPORTED_INPUT ''authorization.permit_id''),
            timestamp now ''authorization.now''])
        (on_integrity (lrej DUPLICATE_EVENT_RESERVATION (''reservation.'' @ event))
          (transaction
            (othen (require (\<lambda>db.
                frozen_candidate_guards event candidate policy decision expression db
                @ [(reservation_for_event event db \<noteq> None, lrej DUPLICATE_EVENT_RESERVATION (''reservation.'' @ event)),
                   (entries_today now db \<ge> max_entries, lrej ENTRY_COUNT_LIMIT_REACHED ''entries_today''),
                   (open_reservation_count db \<ge> max_open, lrej EXPRESSION_LIMIT_REACHED ''open_expressions'')]))
            (obind (\<lambda>db. (open_reservation_total db, db)) (\<lambda>held.
             othen (require (\<lambda>db. [(\<not> dec_le (dec_add held exposure) aggregate, lrej BUDGET_EXCEEDED ''aggregate_exposure'')]))
            (othen (insert_reservation rid event exposure symbol now)
            (othen (insert_permit_row (new_permit pid event rid sha now))
            (othen (append_passport H (passport_event_type_value RESERVATION_HELD) payload now)
            (othen (append_passport H (passport_event_type_value PERMIT_ISSUED) payload now)
                   (oreturn (rid, pid, sha))))))))))))"

section \<open>Version 2 reservations\<close>

text \<open>The join of a version 2 row with the states of its reservation and its permit.\<close>

type_synonym v2_binding = "v2_row \<times> reservation_state \<times> permit_state"

definition v2_join :: "ledger \<Rightarrow> v2_row \<Rightarrow> v2_binding option" where
  "v2_join db v =
     (case (row_where (\<lambda>r. rs_id r = v_reservation_id v) (reservations db), permit_row (v_permit_id v) db) of
        (Some r, Some p) \<Rightarrow> Some (v, rs_state r, pm_state p)
      | _ \<Rightarrow> None)"

definition v2_bindings :: "ledger \<Rightarrow> v2_binding list" where
  "v2_bindings db = List.map_filter (v2_join db) (v2_reservations db)"

definition v2_reservation_for_event :: "string \<Rightarrow> ledger \<Rightarrow> v2_binding option" where
  "v2_reservation_for_event event db = row_where (\<lambda>b. v_event_id (fst b) = event) (v2_bindings db)"

definition v2_reservation_for_opportunity :: "string \<Rightarrow> ledger \<Rightarrow> v2_binding option" where
  "v2_reservation_for_opportunity opportunity db = row_where (\<lambda>b. v_opportunity_id (fst b) = opportunity) (v2_bindings db)"

definition v2_open_reservation_rows :: "ledger \<Rightarrow> v2_binding list" where
  "v2_open_reservation_rows db =
     sort_key (\<lambda>b. v_reservation_id (fst b)) (filter (\<lambda>(v, rs, ps). rs \<in> {RESERVED, CONSUMED}) (v2_bindings db))"

definition has_non_v2_open_reservations :: "ledger \<Rightarrow> bool" where
  "has_non_v2_open_reservations db =
     list_ex (\<lambda>r. is_open r \<and> rs_id r \<notin> v_reservation_id ` set (v2_reservations db)) (reservations db)"

definition v2_submitted_order_ids :: "ledger \<Rightarrow> string list" where
  "v2_submitted_order_ids db =
     map sb_broker_order_id (filter (\<lambda>sb. sb_permit_id sb \<in> v_permit_id ` set (v2_reservations db)) (submissions db))"

record v2_receipt =
  rc_event_id :: string
  rc_candidate_id :: string
  rc_reservation_id :: string
  rc_allocation_reservation_id :: string
  rc_opportunity_id :: string
  rc_opportunity_sha256 :: string
  rc_risk_tier :: dec
  rc_quantity :: int
  rc_amount :: dec
  rc_account_equity :: dec
  rc_account_cash :: dec
  rc_policy_sha256 :: string
  rc_permit_id :: string
  rc_permit_sha256 :: string

definition v2_receipt_from_row :: "v2_row \<Rightarrow> ledger_error + v2_receipt" where
  "v2_receipt_from_row v =
     rbind (v2_stored_risk_tier (v_risk_tier v) ''v2_reservations.risk_tier'') (\<lambda>tier.
     guarded
       [require_identifier (v_event_id v) ''v2_reservations.event_id'',
        require_identifier (v_candidate_id v) ''v2_reservations.candidate_id'',
        sha256_text (v_reservation_id v) ''v2_reservations.reservation_id'',
        sha256_text (v_allocation_reservation_id v) ''v2_reservations.allocation_reservation_id'',
        require_identifier (v_opportunity_id v) ''v2_reservations.opportunity_id'',
        sha256_text (v_opportunity_sha256 v) ''v2_reservations.opportunity_sha256'',
        ledger_positive_int (v_quantity v) ''v2_reservations.quantity'']
     (rbind (v2_stored_amount (v_amount v) ''v2_reservations.amount'' True) (\<lambda>amount.
      rbind (v2_stored_amount (v_account_equity v) ''v2_reservations.account_equity'' True) (\<lambda>eq.
      rbind (v2_stored_amount (v_account_cash v) ''v2_reservations.account_cash'' False) (\<lambda>csh.
      guarded
        [sha256_text (v_policy_sha256 v) ''v2_reservations.policy_sha256'',
         require_identifier (v_permit_id v) ''v2_reservations.permit_id'',
         sha256_text (v_permit_sha256 v) ''v2_reservations.permit_sha256'']
        (Inr \<lparr>rc_event_id = v_event_id v, rc_candidate_id = v_candidate_id v, rc_reservation_id = v_reservation_id v,
              rc_allocation_reservation_id = v_allocation_reservation_id v, rc_opportunity_id = v_opportunity_id v,
              rc_opportunity_sha256 = v_opportunity_sha256 v, rc_risk_tier = tier, rc_quantity = v_quantity v,
              rc_amount = amount, rc_account_equity = eq, rc_account_cash = csh, rc_policy_sha256 = v_policy_sha256 v,
              rc_permit_id = v_permit_id v, rc_permit_sha256 = v_permit_sha256 v\<rparr>))))))"

text \<open>The running totals of the open reservations: consumed, reserved, and both for one underlying.\<close>

record open_totals =
  consumed_total :: dec
  reserved_total :: dec
  consumed_underlying :: dec
  reserved_underlying :: dec

definition no_totals :: open_totals where
  "no_totals = \<lparr>consumed_total = dec_zero, reserved_total = dec_zero, consumed_underlying = dec_zero, reserved_underlying = dec_zero\<rparr>"

definition add_open_row :: "string \<Rightarrow> reservation_row \<Rightarrow> dec \<Rightarrow> open_totals \<Rightarrow> open_totals" where
  "add_open_row symbol r amount tot =
     (let here = rs_underlying r = symbol
      in if rs_state r = CONSUMED
         then tot\<lparr>consumed_total := dec_add (consumed_total tot) amount,
                  consumed_underlying := (if here then dec_add (consumed_underlying tot) amount else consumed_underlying tot)\<rparr>
         else tot\<lparr>reserved_total := dec_add (reserved_total tot) amount,
                  reserved_underlying := (if here then dec_add (reserved_underlying tot) amount else reserved_underlying tot)\<rparr>)"

fun v2_open_totals :: "v2_row list \<Rightarrow> string \<Rightarrow> open_totals \<Rightarrow> reservation_row list \<Rightarrow> ledger_error + open_totals" where
  "v2_open_totals vs symbol tot [] = Inr tot"
| "v2_open_totals vs symbol tot (r # rest) =
     (case row_where (\<lambda>v. v_reservation_id v = rs_id r) vs of
        None \<Rightarrow> Inl (lrej UNKNOWN_EXPOSURE ''v2_authorization.open_reservations'')
      | Some v \<Rightarrow>
          rbind (v2_stored_amount (rs_amount r) ''reservations.amount'' True) (\<lambda>a.
          rbind (v2_stored_amount (v_amount v) ''v2_reservations.amount'' True) (\<lambda>b.
            if \<not> dec_eq a b then Inl (lrej CONTRADICTORY_TRUTH ''v2_authorization.open_reservations'')
            else v2_open_totals vs symbol (add_open_row symbol r a tot) rest)))"

definition v2_capacity_guards :: "dec \<Rightarrow> dec \<Rightarrow> dec \<Rightarrow> dec \<Rightarrow> dec \<Rightarrow> dec \<Rightarrow> open_totals \<Rightarrow> (bool \<times> ledger_error) list" where
  "v2_capacity_guards tier eq csh per_underlying aggregate exposure tot =
     [(dec_lt (dec_mul tier eq) exposure, lrej BUDGET_EXCEEDED ''v2_authorization.risk_tier''),
      (dec_lt (dec_mul aggregate eq) (dec_add (dec_add (consumed_total tot) (reserved_total tot)) exposure),
         lrej BUDGET_EXCEEDED ''v2_authorization.aggregate''),
      (dec_lt (dec_mul per_underlying eq) (dec_add (dec_add (consumed_underlying tot) (reserved_underlying tot)) exposure),
         lrej CONCENTRATION_LIMIT_BREACHED ''v2_authorization.underlying''),
      (dec_lt (dec_sub csh (reserved_total tot)) exposure, lrej BUDGET_EXCEEDED ''v2_authorization.cash'')]"

definition insert_v2_row :: "v2_row \<Rightarrow> unit ledger_op" where
  "insert_v2_row v db =
     (if list_ex (\<lambda>w. v_reservation_id w = v_reservation_id v \<or> v_event_id w = v_event_id v
            \<or> v_opportunity_id w = v_opportunity_id v \<or> v_allocation_reservation_id w = v_allocation_reservation_id v
            \<or> v_permit_id w = v_permit_id v) (v2_reservations db)
         \<or> v_risk_tier v \<notin> {''0.05'', ''0.10'', ''0.20''} \<or> v_quantity v \<le> 0
         \<or> v_reservation_id v \<notin> rs_id ` set (reservations db) \<or> v_permit_id v \<notin> pm_id ` set (permits db)
      then (Inl IntegrityError, db)
      else (Inr (), db\<lparr>v2_reservations := v2_reservations db @ [v]\<rparr>))"

text \<open>The keyword arguments of \<open>reserve_v2_and_issue_permit\<close>.\<close>

record v2_authorization =
  va_event_id :: string
  va_candidate_id :: string
  va_underlying :: string
  va_policy_sha256 :: string
  va_decision_sha256 :: string
  va_expression_sha256 :: string
  va_opportunity_id :: string
  va_opportunity_sha256 :: string
  va_allocation_reservation_id :: string
  va_risk_tier :: dec
  va_quantity :: int
  va_amount :: dec
  va_account_equity :: dec
  va_account_cash :: dec
  va_max_per_underlying_fraction :: dec
  va_max_aggregate_fraction :: dec
  va_permit :: debit_vertical_permit
  va_now :: datetime

definition v2_argument_guards :: "hash_function \<Rightarrow> v2_authorization \<Rightarrow> (bool \<times> ledger_error) list" where
  "v2_argument_guards H a =
     [require_identifier (va_event_id a) ''v2_authorization.event_id'',
      require_identifier (va_candidate_id a) ''v2_authorization.candidate_id'']
     @ underlying_text (va_underlying a) ''v2_authorization.underlying''
     @ [sha256_text (va_policy_sha256 a) ''v2_authorization.policy_sha256'',
        sha256_text (va_decision_sha256 a) ''v2_authorization.decision_sha256'',
        sha256_text (va_expression_sha256 a) ''v2_authorization.expression_sha256'',
        require_identifier (va_opportunity_id a) ''v2_authorization.opportunity_id'',
        sha256_text (va_opportunity_sha256 a) ''v2_authorization.opportunity_sha256'',
        sha256_text (va_allocation_reservation_id a) ''v2_authorization.allocation_reservation_id'']
     @ v2_risk_tier (va_risk_tier a) ''v2_authorization.risk_tier''
     @ [ledger_positive_int (va_quantity a) ''v2_authorization.quantity'']
     @ positive_limit (va_amount a) ''v2_authorization.amount''
     @ positive_limit (va_account_equity a) ''v2_authorization.account_equity''
     @ [amount_text (va_account_cash a) ''v2_authorization.account_cash'',
        (dec_lt (va_account_equity a) (va_account_cash a), lrej CONTRADICTORY_TRUTH ''v2_authorization.account_cash'')]
     @ positive_limit (va_max_per_underlying_fraction a) ''v2_authorization.max_per_underlying_fraction''
     @ positive_limit (va_max_aggregate_fraction a) ''v2_authorization.max_aggregate_fraction''
     @ [(\<not> dec_eq (va_max_per_underlying_fraction a) (Fin 20 (-2)) \<or> \<not> dec_eq (va_max_aggregate_fraction a) (Fin 50 (-2)),
          lrej POLICY_UNVERIFIED_CONSTANT ''v2_authorization.capacity_fractions''),
        (permit_id (va_permit a) \<noteq> debit_vertical_permit_id H (va_permit a), lrej UNSUPPORTED_INPUT ''v2_authorization.permit_id''),
        (event_run_id (va_permit a) \<noteq> va_event_id a \<or> decision_sha256 (va_permit a) \<noteq> va_decision_sha256 a
           \<or> policy_sha256 (va_permit a) \<noteq> va_policy_sha256 a \<or> permit_underlying (va_permit a) \<noteq> va_underlying a
           \<or> quantity (va_permit a) \<noteq> va_quantity a \<or> \<not> dec_eq (maximum_loss (va_permit a)) (va_amount a),
           lrej UNSUPPORTED_INPUT ''v2_authorization.permit''),
        timestamp (va_now a) ''v2_authorization.now'']"

text \<open>The row the authorization asks for; its values but the time are the \<open>expected\<close> ones of a replay.\<close>

definition v2_expected_row :: "hash_function \<Rightarrow> v2_authorization \<Rightarrow> v2_row" where
  "v2_expected_row H a =
     \<lparr>v_reservation_id = va_allocation_reservation_id a, v_event_id = va_event_id a, v_candidate_id = va_candidate_id a,
      v_underlying = va_underlying a, v_decision_sha256 = va_decision_sha256 a, v_expression_sha256 = va_expression_sha256 a,
      v_opportunity_id = va_opportunity_id a, v_opportunity_sha256 = va_opportunity_sha256 a,
      v_allocation_reservation_id = va_allocation_reservation_id a, v_risk_tier = v2_risk_tier_text (va_risk_tier a),
      v_quantity = va_quantity a, v_amount = v2_decimal_text (va_amount a),
      v_account_equity = v2_decimal_text (va_account_equity a), v_account_cash = v2_decimal_text (va_account_cash a),
      v_policy_sha256 = va_policy_sha256 a, v_permit_id = permit_id (va_permit a),
      v_permit_sha256 = H (debit_vertical_permit_bytes (va_permit a)), v_created_at = isoformat_z (va_now a)\<rparr>"

definition same_binding :: "v2_row \<Rightarrow> v2_row \<Rightarrow> bool" where
  "same_binding v w = (v\<lparr>v_created_at := v_created_at w\<rparr> = w)"

definition v2_payload :: "v2_row \<Rightarrow> json" where
  "v2_payload v = JObj
     [(''event_id'', JStr (v_event_id v)), (''candidate_id'', JStr (v_candidate_id v)), (''underlying'', JStr (v_underlying v)),
      (''decision_sha256'', JStr (v_decision_sha256 v)), (''expression_sha256'', JStr (v_expression_sha256 v)),
      (''opportunity_id'', JStr (v_opportunity_id v)), (''opportunity_sha256'', JStr (v_opportunity_sha256 v)),
      (''reservation_id'', JStr (v_reservation_id v)), (''allocation_reservation_id'', JStr (v_allocation_reservation_id v)),
      (''risk_tier'', JStr (v_risk_tier v)), (''quantity'', JInt (v_quantity v)), (''amount'', JStr (v_amount v)),
      (''account_equity'', JStr (v_account_equity v)), (''account_cash'', JStr (v_account_cash v)),
      (''policy_sha256'', JStr (v_policy_sha256 v)), (''risk_policy_sha256'', JStr (v_policy_sha256 v)),
      (''permit_id'', JStr (v_permit_id v)), (''permit_sha256'', JStr (v_permit_sha256 v))]"

definition v2_new_receipt :: "hash_function \<Rightarrow> v2_authorization \<Rightarrow> v2_receipt" where
  "v2_new_receipt H a =
     \<lparr>rc_event_id = va_event_id a, rc_candidate_id = va_candidate_id a, rc_reservation_id = va_allocation_reservation_id a,
      rc_allocation_reservation_id = va_allocation_reservation_id a, rc_opportunity_id = va_opportunity_id a,
      rc_opportunity_sha256 = va_opportunity_sha256 a, rc_risk_tier = va_risk_tier a, rc_quantity = va_quantity a,
      rc_amount = va_amount a, rc_account_equity = va_account_equity a, rc_account_cash = va_account_cash a,
      rc_policy_sha256 = va_policy_sha256 a, rc_permit_id = permit_id (va_permit a),
      rc_permit_sha256 = H (debit_vertical_permit_bytes (va_permit a))\<rparr>"

text \<open>What to do about rows already bound to the event or to the opportunity.\<close>

definition v2_replay :: "v2_row \<Rightarrow> v2_binding option \<Rightarrow> v2_binding option \<Rightarrow> (ledger_error + v2_receipt) option" where
  "v2_replay expected event_row opportunity_row =
     (let path = ''v2_reservation.'' @ v_event_id expected
      in case (case event_row of Some b \<Rightarrow> Some b | None \<Rightarrow> opportunity_row) of
           None \<Rightarrow> None
         | Some (v, rs, ps) \<Rightarrow>
             Some (if (case (event_row, opportunity_row) of
                         (Some x, Some y) \<Rightarrow> v_reservation_id (fst x) \<noteq> v_reservation_id (fst y) | _ \<Rightarrow> False)
                   then Inl (lrej DUPLICATE_EVENT_RESERVATION path)
                   else if same_binding v expected
                   then (if rs = RESERVED \<and> ps = ISSUED then v2_receipt_from_row v
                         else Inl (lrej EVENT_LIFECYCLE_INVALID path))
                   else Inl (lrej DUPLICATE_EVENT_RESERVATION path)))"

definition v2_insert_all :: "hash_function \<Rightarrow> v2_authorization \<Rightarrow> v2_receipt ledger_op" where
  "v2_insert_all H a =
     (let v = v2_expected_row H a; now = va_now a
      in othen (insert_reservation_row (new_reservation (v_reservation_id v) (v_event_id v) (v_amount v) (v_underlying v) now))
        (othen (insert_permit_row (new_permit (v_permit_id v) (v_event_id v) (v_reservation_id v) (v_permit_sha256 v) now))
        (othen (insert_v2_row v)
        (othen (append_passport H (passport_event_type_value RESERVATION_HELD) (v2_payload v) now)
        (othen (append_passport H (passport_event_type_value PERMIT_ISSUED) (v2_payload v) now)
               (oreturn (v2_new_receipt H a)))))))"

definition reserve_v2_and_issue_permit :: "hash_function \<Rightarrow> v2_authorization \<Rightarrow> v2_receipt ledger_op" where
  "reserve_v2_and_issue_permit H a =
     (let event = va_event_id a
      in checked (v2_argument_guards H a)
        (on_integrity (lrej DUPLICATE_EVENT_RESERVATION (''v2_reservation.'' @ event))
          (transaction
            (othen (require (frozen_candidate_guards event (va_candidate_id a) (va_policy_sha256 a) (va_decision_sha256 a)
                               (va_expression_sha256 a)))
            (obind (query (\<lambda>db. v2_replay (v2_expected_row H a) (v2_reservation_for_event event db)
                                   (v2_reservation_for_opportunity (va_opportunity_id a) db))) (\<lambda>replay.
             case replay of
               Some r \<Rightarrow> result_of r
             | None \<Rightarrow>
                 othen (require (\<lambda>db. [(reservation_for_event event db \<noteq> None,
                          lrej DUPLICATE_EVENT_RESERVATION (''reservation.'' @ event))]))
                (obind (\<lambda>db. (v2_open_totals (v2_reservations db) (va_underlying a) no_totals (filter is_open (reservations db)), db)) (\<lambda>tot.
                 othen (require (\<lambda>db. v2_capacity_guards (va_risk_tier a) (va_account_equity a) (va_account_cash a)
                          (va_max_per_underlying_fraction a) (va_max_aggregate_fraction a) (va_amount a) tot))
                       (v2_insert_all H a)))))))))"

section \<open>Snapshots and control state\<close>

definition record_position :: "string \<Rightarrow> dec \<Rightarrow> datetime \<Rightarrow> unit ledger_op" where
  "record_position symbol qty observed_at =
     checked (underlying_text symbol ''position.underlying'' @ [finite_decimal qty ''position.quantity'',
              timestamp observed_at ''position.observed_at''])
       (exec (\<lambda>db. db\<lparr>positions := filter (\<lambda>r. ps_underlying r \<noteq> symbol) (positions db)
          @ [\<lparr>ps_underlying = symbol, ps_quantity = dec_str qty, ps_observed_at = isoformat_z observed_at\<rparr>]\<rparr>))"

definition record_reconciliation ::
    "string \<Rightarrow> string \<Rightarrow> string option \<Rightarrow> datetime \<Rightarrow> string option \<Rightarrow> string option \<Rightarrow> unit ledger_op" where
  "record_reconciliation rid res detail observed_at paper shadow =
     checked [require_identifier rid ''reconciliation.id'', require_identifier res ''reconciliation.result'',
              timestamp observed_at ''reconciliation.observed_at'']
       (othen (require (\<lambda>db. [(rid \<in> rc_id ` set (reconciliations db), IntegrityError)]))
              (exec (\<lambda>db. db\<lparr>reconciliations := reconciliations db @ [\<lparr>rc_id = rid, rc_result = res, rc_detail = detail,
                 rc_paper_pnl = paper, rc_shadow_pnl = shadow, rc_observed_at = isoformat_z observed_at\<rparr>]\<rparr>)))"

definition record_account_snapshot :: "dec \<Rightarrow> datetime \<Rightarrow> unit ledger_op" where
  "record_account_snapshot eq now =
     checked [finite_decimal eq ''account.equity'', timestamp now ''account.observed_at'']
       (exec (\<lambda>db. db\<lparr>account_snapshots := account_snapshots db
          @ [\<lparr>ac_equity = dec_str eq, ac_observed_at = isoformat_z now\<rparr>]\<rparr>))"

fun peak_from :: "dec option \<Rightarrow> string list \<Rightarrow> ledger_error + dec" where
  "peak_from peak [] = Inr (case peak of None \<Rightarrow> dec_zero | Some p \<Rightarrow> p)"
| "peak_from peak (raw # rest) =
     (case dec_parse raw of
        None \<Rightarrow> Inl (lrej EXPOSURE_NOT_CALCULABLE ''account_snapshots.equity'')
      | Some v \<Rightarrow> guarded [finite_decimal v ''account_snapshots.equity'']
          (peak_from (case peak of None \<Rightarrow> Some v | Some p \<Rightarrow> if dec_lt p v then Some v else Some p) rest))"

definition intraday_peak_equity :: "datetime \<Rightarrow> ledger \<Rightarrow> ledger_error + dec" where
  "intraday_peak_equity now db =
     guarded [timestamp now ''intraday_peak.now'']
       (peak_from None (map ac_equity (filter (\<lambda>r. take 10 (ac_observed_at r) = take 10 (isoformat_z now)) (account_snapshots db))))"

definition put_control_state :: "control_state \<Rightarrow> string option \<Rightarrow> datetime \<Rightarrow> ledger \<Rightarrow> ledger" where
  "put_control_state st detail now db =
     db\<lparr>control_state_row := Some \<lparr>ct_state = st, ct_reason = detail, ct_updated_at = isoformat_z now\<rparr>\<rparr>"

definition set_control_state :: "control_state \<Rightarrow> string option \<Rightarrow> datetime \<Rightarrow> unit ledger_op" where
  "set_control_state st detail now =
     checked [timestamp now ''control_state.updated_at''] (exec (put_control_state st detail now))"

definition set_control_state_with_passport ::
    "hash_function \<Rightarrow> control_state \<Rightarrow> string option \<Rightarrow> json \<Rightarrow> datetime \<Rightarrow> unit ledger_op" where
  "set_control_state_with_passport H st detail payload now =
     transaction
       (othen (require (\<lambda>db. [timestamp now ''control_state.updated_at'']))
       (othen (exec (put_control_state st detail now))
       (othen (append_passport H (passport_event_type_value CONTROL_STATE_CHANGED) payload now)
              (oreturn ()))))"

definition get_control_state :: "ledger \<Rightarrow> control_state \<times> string option" where
  "get_control_state db =
     (case control_state_row db of
        None \<Rightarrow> (ENTRY_DISABLED, Some ''startup reconciliation is required'')
      | Some r \<Rightarrow> (ct_state r, ct_reason r))"

end
