(* ===== verification/Ledger_Invariant.thy ===== *)
theory Ledger_Invariant
  imports Ledger
begin

text \<open>
  What the ledger promises: an invariant of the tables that every operation the program
  uses preserves, and that every operation runs in a transaction, which undoes it when it fails. The locale
  \<open>transactional_machine\<close> states this contract for any machine of commands and draws its
  consequences for whole runs; the ledger is its instance. The methods that the source
  keeps for migration-level tests only (\<open>reserve\<close>, \<open>consume_reservation\<close>,
  \<open>release_reservation\<close>, \<open>record_permit\<close>, \<open>update_permit_state\<close>, \<open>record_candidate\<close>,
  \<open>record_not_run\<close>) are not commands: they bypass the coupling of permits and reservations.
\<close>

section \<open>The contract of a transactional machine\<close>

locale transactional_machine =
  fixes run :: "'c \<Rightarrow> 's \<Rightarrow> ('s, 'e, 'a) outcome"
    and inv :: "'s \<Rightarrow> bool"
  assumes rollback: "run c s = (Inl e, t) \<Longrightarrow> t = s"
    and preserves: "inv s \<Longrightarrow> run c s = (Inr a, t) \<Longrightarrow> inv t"
begin

lemma step_inv: "inv s \<Longrightarrow> inv (snd (run c s))"
  using rollback preserves by (cases "run c s"; cases "fst (run c s)") auto

lemma run_inv: "inv s \<Longrightarrow> inv (foldl (\<lambda>s c. snd (run c s)) s cs)"
  by (induction cs arbitrary: s) (simp_all add: step_inv)

text \<open>A run reaches the state that its successful commands alone reach.\<close>

lemma failed_commands_invisible:
  "\<exists>ds. foldl (\<lambda>s c. snd (run c s)) s cs = foldl (\<lambda>s c. snd (run c s)) s ds
     \<and> length ds \<le> length cs \<and> set ds \<subseteq> set cs
     \<and> (\<forall>i < length ds. \<exists>a. fst (run (ds ! i) (foldl (\<lambda>s c. snd (run c s)) s (take i ds))) = Inr a)"
proof (induction cs arbitrary: s)
  case Nil
  show ?case by (rule exI [of _ "[]"]) simp
next
  case (Cons c cs)
  obtain ds where ds: "foldl (\<lambda>s c. snd (run c s)) (snd (run c s)) cs = foldl (\<lambda>s c. snd (run c s)) (snd (run c s)) ds"
    "length ds \<le> length cs" "set ds \<subseteq> set cs"
    "\<forall>i < length ds. \<exists>a. fst (run (ds ! i) (foldl (\<lambda>s c. snd (run c s)) (snd (run c s)) (take i ds))) = Inr a"
    using Cons.IH by blast
  show ?case
  proof (cases "fst (run c s)")
    case (Inl e)
    then have "snd (run c s) = s" using rollback [of c s e "snd (run c s)"] by (simp add: prod_eq_iff)
    then show ?thesis using ds by (intro exI [of _ ds]) auto
  next
    case (Inr a)
    have "\<exists>a. fst (run ((c # ds) ! i) (foldl (\<lambda>s c. snd (run c s)) s (take i (c # ds)))) = Inr a"
      if "i < length (c # ds)" for i
      using that ds(4) Inr by (cases i) simp_all
    then show ?thesis using ds by (intro exI [of _ "c # ds"]) auto
  qed
qed

end

section \<open>The invariant\<close>

fun allowed_states :: "permit_state \<Rightarrow> reservation_state \<Rightarrow> bool" where
  "allowed_states ISSUED rs = (rs = RESERVED)"
| "allowed_states SUBMITTED rs = (rs = RESERVED)"
| "allowed_states FILLED rs = (rs \<noteq> RESERVED)"
| "allowed_states CANCELLED rs = (rs = RELEASED)"

definition reservation_keys :: "reservation_row list \<Rightarrow> bool" where
  "reservation_keys rs = (distinct (map rs_id rs) \<and> distinct (map rs_event_id rs))"

definition permit_keys :: "permit_row list \<Rightarrow> bool" where
  "permit_keys ps = (distinct (map pm_id ps) \<and> distinct (map pm_event_id ps))"

definition submission_keys :: "submission_row list \<Rightarrow> bool" where
  "submission_keys ss = (distinct (map sb_permit_id ss) \<and> distinct (map sb_broker_order_id ss))"

definition event_keys :: "candidate_row list \<Rightarrow> not_run_row list \<Rightarrow> bool" where
  "event_keys cs ns = (distinct (map cd_event_id cs) \<and> distinct (map nr_event_id ns))"

text \<open>Every reservation was authorized: its event has a frozen candidate, is not abstained, and has a permit.\<close>

definition authorized_ok :: "candidate_row list \<Rightarrow> not_run_row list \<Rightarrow> reservation_row list \<Rightarrow> permit_row list \<Rightarrow> bool" where
  "authorized_ok cs ns rs ps =
     (\<forall>r \<in> set rs. rs_event_id r \<in> cd_event_id ` set cs \<and> rs_event_id r \<notin> nr_event_id ` set ns
        \<and> rs_event_id r \<in> pm_event_id ` set ps)"

text \<open>A permit and the reservation it owns move together.\<close>

definition coupled_ok :: "reservation_row list \<Rightarrow> permit_row list \<Rightarrow> bool" where
  "coupled_ok rs ps =
     (\<forall>p \<in> set ps. \<exists>r \<in> set rs.
        rs_event_id r = pm_event_id p \<and> rs_id r = pm_reservation_id p \<and> allowed_states (pm_state p) (rs_state r))"

text \<open>A permit has left ISSUED exactly when a broker order is bound to it.\<close>

definition submitted_ok :: "permit_row list \<Rightarrow> submission_row list \<Rightarrow> bool" where
  "submitted_ok ps ss =
     ((\<forall>p \<in> set ps. pm_state p = ISSUED \<longleftrightarrow> pm_id p \<notin> sb_permit_id ` set ss)
      \<and> (\<forall>s \<in> set ss. \<exists>p \<in> set ps. pm_id p = sb_permit_id s \<and> pm_event_id p = sb_event_id s))"

text \<open>
  One intent per permit and per phase of an event; an intent is bound to a broker order
  exactly when it is past INTENDED, and no two intents are bound to the same one.
\<close>

definition bound_once :: "intent_row list \<Rightarrow> bool" where
  "bound_once its =
     (\<forall>i \<in> set its. \<forall>j \<in> set its. \<forall>order. it_broker_order_id i = Some order \<longrightarrow>
        it_broker_order_id j = Some order \<longrightarrow> it_permit_id i = it_permit_id j)"

definition intents_ok :: "intent_row list \<Rightarrow> bool" where
  "intents_ok its =
     (distinct (map it_permit_id its) \<and> distinct (map (\<lambda>i. (it_event_id i, it_phase i)) its)
      \<and> (\<forall>i \<in> set its. it_state i = INTENDED \<longleftrightarrow> it_broker_order_id i = None)
      \<and> bound_once its)"

definition ledger_inv :: "hash_function \<Rightarrow> ledger \<Rightarrow> bool" where
  "ledger_inv H db =
     (passport_ok H (passport_events db) \<and> event_keys (candidates db) (not_run db)
      \<and> reservation_keys (reservations db) \<and> permit_keys (permits db) \<and> submission_keys (submissions db)
      \<and> authorized_ok (candidates db) (not_run db) (reservations db) (permits db)
      \<and> coupled_ok (reservations db) (permits db) \<and> submitted_ok (permits db) (submissions db)
      \<and> intents_ok (lifecycle_intents db))"

lemmas table_invs = event_keys_def reservation_keys_def permit_keys_def submission_keys_def authorized_ok_def
  coupled_ok_def submitted_ok_def intents_ok_def bound_once_def

lemma empty_ledger_inv: "ledger_inv H empty_ledger"
  by (simp add: ledger_inv_def table_invs empty_ledger_def)

section \<open>Preservation by the statements\<close>

lemma insert_Inr:
  "insert_candidate c db = (Inr u, db') \<longleftrightarrow>
     cd_event_id c \<notin> cd_event_id ` set (candidates db) \<and> db' = db\<lparr>candidates := candidates db @ [c]\<rparr>"
  "insert_not_run event detail now db = (Inr u, db') \<longleftrightarrow> event \<notin> nr_event_id ` set (not_run db) \<and>
     db' = db\<lparr>not_run := not_run db @ [\<lparr>nr_event_id = event, nr_reason = detail, nr_created_at = isoformat_z now\<rparr>]\<rparr>"
  "insert_reservation_row r db = (Inr u, db') \<longleftrightarrow> rs_id r \<notin> rs_id ` set (reservations db)
     \<and> rs_event_id r \<notin> rs_event_id ` set (reservations db) \<and> db' = db\<lparr>reservations := reservations db @ [r]\<rparr>"
  "insert_permit_row p db = (Inr u, db') \<longleftrightarrow>
     pm_id p \<notin> pm_id ` set (permits db) \<and> db' = db\<lparr>permits := permits db @ [p]\<rparr>"
  "insert_intent i db = (Inr u, db') \<longleftrightarrow>
     \<not> list_ex (intent_clash i) (lifecycle_intents db) \<and> db' = db\<lparr>lifecycle_intents := lifecycle_intents db @ [i]\<rparr>"
  "insert_fill f db = (Inr u, db') \<longleftrightarrow> fl_id f \<notin> fl_id ` set (fills db) \<and> db' = db\<lparr>fills := fills db @ [f]\<rparr>"
  "insert_submission s db = (Inr u, db') \<longleftrightarrow> sb_permit_id s \<notin> sb_permit_id ` set (submissions db)
     \<and> sb_broker_order_id s \<notin> sb_broker_order_id ` set (submissions db) \<and> sb_permit_id s \<in> pm_id ` set (permits db)
     \<and> db' = db\<lparr>submissions := submissions db @ [s]\<rparr>"
  by (auto simp: insert_candidate_def insert_not_run_def insert_reservation_row_def insert_permit_row_def
      insert_intent_def insert_fill_def insert_submission_def)

lemma object_payloads [simp]: "is_object (v2_payload v)"
  by (simp add: v2_payload_def)

lemma is_object_json_set [simp]: "is_object (json_set v k w) = is_object v"
  by (cases v) simp_all

lemma passport_inv:
  assumes "append_passport H t payload now db = (Inr h, db')" "is_object payload" "ledger_inv H db"
  shows "ledger_inv H db'"
  using assms passport_ok_append [of H "passport_events db" payload t now]
  by (simp add: append_passport_Inr ledger_inv_def)

lemma insert_candidate_inv:
  "insert_candidate row db = (Inr u, db') \<Longrightarrow> ledger_inv H db \<Longrightarrow> ledger_inv H db'"
  by (simp add: insert_Inr ledger_inv_def event_keys_def authorized_ok_def)

lemma insert_not_run_inv:
  "insert_not_run event detail now db = (Inr u, db') \<Longrightarrow> reservation_for_event event db = None \<Longrightarrow>
     ledger_inv H db \<Longrightarrow> ledger_inv H db'"
  by (simp add: insert_Inr reservation_for_event_def ledger_inv_def event_keys_def authorized_ok_def)

lemma bound_once_snoc:
  assumes "bound_once its" "it_broker_order_id row = None"
  shows "bound_once (its @ [row])"
  unfolding bound_once_def
proof (intro ballI allI impI)
  fix i j oid
  assume "i \<in> set (its @ [row])" "j \<in> set (its @ [row])" "it_broker_order_id i = Some oid" "it_broker_order_id j = Some oid"
  then have "i \<in> set its" "j \<in> set its" using assms(2) by auto
  then show "it_permit_id i = it_permit_id j"
    using assms(1) \<open>it_broker_order_id i = Some oid\<close> \<open>it_broker_order_id j = Some oid\<close> unfolding bound_once_def by blast
qed

lemma insert_intent_inv:
  assumes "insert_intent row db = (Inr u, db')" "it_state row = INTENDED" "it_broker_order_id row = None" "ledger_inv H db"
  shows "ledger_inv H db'"
proof -
  have noclash: "\<forall>i \<in> set (lifecycle_intents db). \<not> intent_clash row i"
    and db': "db' = db\<lparr>lifecycle_intents := lifecycle_intents db @ [row]\<rparr>"
    using assms(1) by (auto simp: insert_Inr list_ex_iff)
  have old: "intents_ok (lifecycle_intents db)" using assms(4) by (simp add: ledger_inv_def)
  have "it_permit_id row \<notin> it_permit_id ` set (lifecycle_intents db)"
    "(it_event_id row, it_phase row) \<notin> (\<lambda>i. (it_event_id i, it_phase i)) ` set (lifecycle_intents db)"
    using noclash by (auto simp: intent_clash_def)
  moreover have "bound_once (lifecycle_intents db @ [row])"
    using bound_once_snoc [OF _ assms(3)] old by (simp add: intents_ok_def)
  ultimately have "intents_ok (lifecycle_intents db @ [row])"
    using old assms(2,3) by (simp add: intents_ok_def)
  then show ?thesis using assms(4) by (simp add: db' ledger_inv_def)
qed

lemma insert_fill_inv: "insert_fill row db = (Inr u, db') \<Longrightarrow> ledger_inv H db \<Longrightarrow> ledger_inv H db'"
  by (simp add: insert_Inr ledger_inv_def)

lemma put_control_state_inv: "ledger_inv H (put_control_state st d now db) = ledger_inv H db"
  by (simp add: put_control_state_def ledger_inv_def)

section \<open>Preservation by the operations\<close>

lemma freeze_candidate_inv:
  assumes "freeze_candidate H ev cand pol de ex mode now db = (Inr u, db')" "ledger_inv H db"
  shows "ledger_inv H db'"
  using assms by (auto simp: freeze_candidate_def outcome_simps
      dest!: insert_candidate_inv passport_inv)

lemma mark_not_run_inv:
  assumes "mark_not_run H ev detail now db = (Inr u, db')" "ledger_inv H db"
  shows "ledger_inv H db'"
  using assms by (auto simp: mark_not_run_def record_not_run_with_def outcome_simps dest!: insert_not_run_inv passport_inv)

lemma frozen_guards_None:
  "first_reject (frozen_candidate_guards ev cand pol de ex db) = None \<longleftrightarrow>
     \<not> not_run_exists ev db \<and> (\<exists>c. candidate_for_event ev db = Some c \<and> cd_policy_sha256 c = pol
        \<and> cd_candidate_id c = cand \<and> cd_decision_sha256 c = de \<and> cd_expression_sha256 c = ex)"
  by (auto simp: frozen_candidate_guards_def split: option.splits)

text \<open>A reservation and its permit, inserted together for a frozen event that has neither.\<close>

lemma authorize_inv:
  assumes inv: "ledger_inv H db"
    and cand: "candidate_for_event ev db = Some c" and nr: "\<not> not_run_exists ev db" and none: "reservation_for_event ev db = None"
    and rows: "insert_reservation_row r db = (Inr u, d1)" "insert_permit_row p d1 = (Inr w, d2)"
    and shape: "rs_event_id r = ev" "pm_event_id p = ev" "rs_id r = pm_reservation_id p" "rs_state r = RESERVED" "pm_state p = ISSUED"
  shows "ledger_inv H d2"
proof -
  have r: "rs_id r \<notin> rs_id ` set (reservations db)" "rs_event_id r \<notin> rs_event_id ` set (reservations db)"
    and p: "pm_id p \<notin> pm_id ` set (permits db)"
    and d2: "d2 = db\<lparr>reservations := reservations db @ [r], permits := permits db @ [p]\<rparr>"
    using rows by (auto simp: insert_Inr)
  have frozen: "ev \<in> cd_event_id ` set (candidates db)" "ev \<notin> nr_event_id ` set (not_run db)"
    using row_where_Some [OF cand [unfolded candidate_for_event_def]] nr by (auto simp: not_run_exists_def)
  have "pm_event_id p \<notin> pm_event_id ` set (permits db)"
    using inv none shape unfolding ledger_inv_def coupled_ok_def reservation_for_event_def by fastforce
  then have "permit_keys (permits db @ [p])" "reservation_keys (reservations db @ [r])"
    using inv r p by (auto simp: ledger_inv_def permit_keys_def reservation_keys_def)
  moreover have "authorized_ok (candidates db) (not_run db) (reservations db @ [r]) (permits db @ [p])"
    using inv frozen shape by (simp add: ledger_inv_def authorized_ok_def)
  moreover have "coupled_ok (reservations db @ [r]) (permits db @ [p])"
    using inv shape by (auto simp: ledger_inv_def coupled_ok_def)
  moreover have "submitted_ok (permits db @ [p]) (submissions db)"
    using inv p shape unfolding ledger_inv_def submitted_ok_def by force
  ultimately show ?thesis using inv by (simp add: d2 ledger_inv_def)
qed

definition v1_payload :: "hash_function \<Rightarrow> string \<Rightarrow> string \<Rightarrow> string \<Rightarrow> string \<Rightarrow> string \<Rightarrow> dec \<Rightarrow> debit_vertical_permit \<Rightarrow> json" where
  "v1_payload H event candidate policy decision expression exposure permit = JObj
     [(''event_id'', JStr event), (''candidate_id'', JStr candidate), (''reservation_id'', JStr (''rsv-'' @ event)),
      (''permit_id'', JStr (permit_id permit)), (''permit_sha256'', JStr (H (debit_vertical_permit_bytes permit))),
      (''risk_policy_sha256'', JStr policy), (''decision_sha256'', JStr decision),
      (''compiled_expression_sha256'', JStr expression), (''exposure'', JStr (dec_str exposure))]"

lemma reserve_and_issue_Inr:
  assumes "reserve_and_issue_permit H ev sy cand pol de ex am agg mo me pm now db = (Inr res, db')"
  obtains c held d1 d2 d3 h1 h2 where
    "candidate_for_event ev db = Some c" "cd_policy_sha256 c = pol" "cd_candidate_id c = cand" "cd_decision_sha256 c = de"
    "cd_expression_sha256 c = ex" "\<not> not_run_exists ev db" "reservation_for_event ev db = None"
    "entries_today now db < me" "open_reservation_count db < mo"
    "open_reservation_total db = Inr held" "dec_le (dec_add held am) agg"
    "is_finite am" "\<not> dec_lt am dec_zero" "is_finite agg" "is_utc now" "permit_id pm = debit_vertical_permit_id H pm"
    "insert_reservation_row (new_reservation (''rsv-'' @ ev) ev (dec_str am) sy now) db = (Inr (), d1)"
    "insert_permit_row (new_permit (permit_id pm) ev (''rsv-'' @ ev) (H (debit_vertical_permit_bytes pm)) now) d1 = (Inr (), d2)"
    "append_passport H ''RESERVATION_HELD'' (v1_payload H ev cand pol de ex am pm) now d2 = (Inr h1, d3)"
    "append_passport H ''PERMIT_ISSUED'' (v1_payload H ev cand pol de ex am pm) now d3 = (Inr h2, db')"
    "res = (''rsv-'' @ ev, permit_id pm, H (debit_vertical_permit_bytes pm))"
  using assms unfolding reserve_and_issue_permit_def Let_def outcome_simps first_reject_append
  by (auto simp: frozen_guards_None validator_defs insert_reservation_def v1_payload_def)

lemma reserve_and_issue_permit_inv:
  assumes "reserve_and_issue_permit H ev sy cand pol de ex am agg mo me pm now db = (Inr res, db')" "ledger_inv H db"
  shows "ledger_inv H db'"
proof (rule reserve_and_issue_Inr [OF assms(1)])
  fix c held d1 d2 d3 h1 h2
  assume pre: "candidate_for_event ev db = Some c" "\<not> not_run_exists ev db" "reservation_for_event ev db = None"
    and rows: "insert_reservation_row (new_reservation (''rsv-'' @ ev) ev (dec_str am) sy now) db = (Inr (), d1)"
      "insert_permit_row (new_permit (permit_id pm) ev (''rsv-'' @ ev) (H (debit_vertical_permit_bytes pm)) now) d1 = (Inr (), d2)"
    and pass: "append_passport H ''RESERVATION_HELD'' (v1_payload H ev cand pol de ex am pm) now d2 = (Inr h1, d3)"
      "append_passport H ''PERMIT_ISSUED'' (v1_payload H ev cand pol de ex am pm) now d3 = (Inr h2, db')"
  have "ledger_inv H d2"
    by (rule authorize_inv [OF assms(2) pre rows]) (simp_all add: new_reservation_def new_permit_def)
  then show "ledger_inv H db'" using pass passport_inv by (simp add: v1_payload_def)
qed

lemma v2_insert_all_Inr:
  assumes "v2_insert_all H a db = (Inr res, db')"
  obtains d1 d2 d3 d4 h1 h2 where
    "insert_reservation_row (new_reservation (va_allocation_reservation_id a) (va_event_id a) (v2_decimal_text (va_amount a))
       (va_underlying a) (va_now a)) db = (Inr (), d1)"
    "insert_permit_row (new_permit (permit_id (va_permit a)) (va_event_id a) (va_allocation_reservation_id a)
       (H (debit_vertical_permit_bytes (va_permit a))) (va_now a)) d1 = (Inr (), d2)"
    "insert_v2_row (v2_expected_row H a) d2 = (Inr (), d3)"
    "append_passport H ''RESERVATION_HELD'' (v2_payload (v2_expected_row H a)) (va_now a) d3 = (Inr h1, d4)"
    "append_passport H ''PERMIT_ISSUED'' (v2_payload (v2_expected_row H a)) (va_now a) d4 = (Inr h2, db')"
    "res = v2_new_receipt H a"
  using assms by (auto simp: v2_insert_all_def Let_def outcome_simps v2_expected_row_def)

lemma reserve_v2_Inr:
  assumes "reserve_v2_and_issue_permit H a db = (Inr res, db')"
  obtains (replay) "db' = db"
      "v2_replay (v2_expected_row H a) (v2_reservation_for_event (va_event_id a) db)
         (v2_reservation_for_opportunity (va_opportunity_id a) db) = Some (Inr res)"
      "first_reject (v2_argument_guards H a) = None"
  | (fresh) c tot where
      "candidate_for_event (va_event_id a) db = Some c" "\<not> not_run_exists (va_event_id a) db"
      "cd_policy_sha256 c = va_policy_sha256 a" "cd_decision_sha256 c = va_decision_sha256 a"
      "reservation_for_event (va_event_id a) db = None"
      "v2_open_totals (v2_reservations db) (va_underlying a) no_totals (filter is_open (reservations db)) = Inr tot"
      "first_reject (v2_capacity_guards (va_risk_tier a) (va_account_equity a) (va_account_cash a)
          (va_max_per_underlying_fraction a) (va_max_aggregate_fraction a) (va_amount a) tot) = None"
      "first_reject (v2_argument_guards H a) = None" "v2_insert_all H a db = (Inr res, db')"
proof -
  let ?replay = "v2_replay (v2_expected_row H a) (v2_reservation_for_event (va_event_id a) db)
         (v2_reservation_for_opportunity (va_opportunity_id a) db)"
  note run = assms [unfolded reserve_v2_and_issue_permit_def Let_def outcome_simps frozen_guards_None]
  show thesis
  proof (cases ?replay)
    case None
    then show thesis using run by (auto simp: outcome_simps intro: fresh)
  next
    case (Some r)
    then show thesis using run by (auto simp: outcome_simps intro: replay)
  qed
qed

lemma insert_v2_row_inv: "insert_v2_row v db = (Inr u, db') \<Longrightarrow> ledger_inv H db \<Longrightarrow> ledger_inv H db'"
  by (auto simp: insert_v2_row_def ledger_inv_def split: if_splits)

lemma reserve_v2_inv:
  assumes "reserve_v2_and_issue_permit H a db = (Inr res, db')" "ledger_inv H db"
  shows "ledger_inv H db'"
  using assms(1)
proof (cases rule: reserve_v2_Inr)
  case replay
  then show ?thesis using assms(2) by simp
next
  case (fresh c tot)
  note pre = fresh(1,2,5)
  show ?thesis
  proof (rule v2_insert_all_Inr [OF fresh(9)])
    fix d1 d2 d3 d4 h1 h2
    assume rows: "insert_reservation_row (new_reservation (va_allocation_reservation_id a) (va_event_id a)
        (v2_decimal_text (va_amount a)) (va_underlying a) (va_now a)) db = (Inr (), d1)"
      "insert_permit_row (new_permit (permit_id (va_permit a)) (va_event_id a) (va_allocation_reservation_id a)
        (H (debit_vertical_permit_bytes (va_permit a))) (va_now a)) d1 = (Inr (), d2)"
      and v2: "insert_v2_row (v2_expected_row H a) d2 = (Inr (), d3)"
      and pass: "append_passport H ''RESERVATION_HELD'' (v2_payload (v2_expected_row H a)) (va_now a) d3 = (Inr h1, d4)"
        "append_passport H ''PERMIT_ISSUED'' (v2_payload (v2_expected_row H a)) (va_now a) d4 = (Inr h2, db')"
    have "ledger_inv H d2"
      by (rule authorize_inv [OF assms(2) pre rows]) (simp_all add: new_reservation_def new_permit_def)
    then show ?thesis using insert_v2_row_inv [OF v2] pass passport_inv by simp
  qed
qed

section \<open>State transitions of permits and reservations\<close>

lemma set_reservation_keys [simp]:
  "map rs_id (reservations (set_reservation_state ev st now db)) = map rs_id (reservations db)"
  "map rs_event_id (reservations (set_reservation_state ev st now db)) = map rs_event_id (reservations db)"
  by (simp_all add: set_reservation_state_def map_update_where)

lemma set_permit_keys [simp]:
  "map pm_id (permits (set_permit_state pid st now db)) = map pm_id (permits db)"
  "map pm_event_id (permits (set_permit_state pid st now db)) = map pm_event_id (permits db)"
  by (simp_all add: set_permit_state_def map_update_where)

lemma set_state_other [simp]:
  "permits (set_reservation_state ev st now db) = permits db" "reservations (set_permit_state pid ps now db) = reservations db"
  "candidates (set_reservation_state ev st now db) = candidates db" "candidates (set_permit_state pid ps now db) = candidates db"
  "not_run (set_reservation_state ev st now db) = not_run db" "not_run (set_permit_state pid ps now db) = not_run db"
  "submissions (set_reservation_state ev st now db) = submissions db" "submissions (set_permit_state pid ps now db) = submissions db"
  "lifecycle_intents (set_reservation_state ev st now db) = lifecycle_intents db"
  "lifecycle_intents (set_permit_state pid ps now db) = lifecycle_intents db"
  "passport_events (set_reservation_state ev st now db) = passport_events db"
  "passport_events (set_permit_state pid ps now db) = passport_events db"
  "fills (set_reservation_state ev st now db) = fills db" "fills (set_permit_state pid ps now db) = fills db"
  by (simp_all add: set_reservation_state_def set_permit_state_def)

lemma moved_rows:
  "reservations (set_reservation_state ev st now db) =
     map (\<lambda>r. if rs_event_id r = ev then r\<lparr>rs_state := st, rs_updated_at := isoformat_z now\<rparr> else r) (reservations db)"
  "permits (set_permit_state pid ps now db) =
     map (\<lambda>p. if pm_id p = pid then p\<lparr>pm_state := ps, pm_updated_at := isoformat_z now\<rparr> else p) (permits db)"
  by (simp_all add: set_reservation_state_def set_permit_state_def update_where_def)

lemma authorized_ok_keys:
  "authorized_ok cs ns rs ps \<longleftrightarrow>
     (\<forall>e \<in> set (map rs_event_id rs). e \<in> cd_event_id ` set cs \<and> e \<notin> nr_event_id ` set ns \<and> e \<in> set (map pm_event_id ps))"
  by (simp add: authorized_ok_def)

lemma coupled_map:
  assumes "coupled_ok rs ps"
    "\<And>r. rs_event_id (f r) = rs_event_id r \<and> rs_id (f r) = rs_id r"
    "\<And>p. pm_event_id (g p) = pm_event_id p \<and> pm_reservation_id (g p) = pm_reservation_id p"
    "\<And>p r. p \<in> set ps \<Longrightarrow> r \<in> set rs \<Longrightarrow> rs_event_id r = pm_event_id p \<Longrightarrow>
       allowed_states (pm_state p) (rs_state r) \<Longrightarrow> allowed_states (pm_state (g p)) (rs_state (f r))"
  shows "coupled_ok (map f rs) (map g ps)"
  unfolding coupled_ok_def
proof
  fix q
  assume "q \<in> set (map g ps)"
  then obtain p where p: "p \<in> set ps" "q = g p" by auto
  then obtain r where "r \<in> set rs" "rs_event_id r = pm_event_id p" "rs_id r = pm_reservation_id p"
    "allowed_states (pm_state p) (rs_state r)" using assms(1) by (auto simp: coupled_ok_def)
  then show "\<exists>r \<in> set (map f rs). rs_event_id r = pm_event_id q \<and> rs_id r = pm_reservation_id q
      \<and> allowed_states (pm_state q) (rs_state r)"
    using p assms(2-4) by (intro bexI [of _ "f r"]) auto
qed

lemma submitted_map:
  assumes "submitted_ok ps ss" "\<And>p. pm_id (g p) = pm_id p \<and> pm_event_id (g p) = pm_event_id p"
    "\<And>p. p \<in> set ps \<Longrightarrow> pm_state (g p) = ISSUED \<longleftrightarrow> pm_state p = ISSUED"
  shows "submitted_ok (map g ps) ss"
  using assms by (simp add: submitted_ok_def)

lemma submitted_extend:
  assumes "submitted_ok ps ss" "p \<in> set ps" "pm_id p = sb_permit_id s" "pm_event_id p = sb_event_id s"
    and keep: "\<And>q. pm_id (g q) = pm_id q \<and> pm_event_id (g q) = pm_event_id q"
    and other: "\<And>q. pm_id q \<noteq> sb_permit_id s \<Longrightarrow> g q = q"
    and gone: "\<And>q. pm_id q = sb_permit_id s \<Longrightarrow> pm_state (g q) \<noteq> ISSUED"
  shows "submitted_ok (map g ps) (ss @ [s])"
proof -
  have "pm_state (g q) = ISSUED \<longleftrightarrow> pm_id (g q) \<notin> sb_permit_id ` set (ss @ [s])" if "q \<in> set ps" for q
    using that assms(1) keep other [of q] gone [of q]
    by (cases "pm_id q = sb_permit_id s") (simp_all add: submitted_ok_def)
  moreover have "\<exists>q \<in> set (map g ps). pm_id q = sb_permit_id x \<and> pm_event_id q = sb_event_id x"
    if "x \<in> set (ss @ [s])" for x
    using that assms(1-4) keep by (auto simp: submitted_ok_def)
  ultimately show ?thesis by (simp add: submitted_ok_def)
qed

lemma permit_row_Some: "permit_row pid db = Some p \<Longrightarrow> p \<in> set (permits db) \<and> pm_id p = pid"
  by (auto simp: permit_row_def dest: row_where_Some)

lemma owns_event_Some: "owns_event pid ev db \<Longrightarrow> \<exists>p. permit_row pid db = Some p \<and> pm_event_id p = ev"
  by (auto simp: owns_event_def)

lemma key_inject: "distinct (map key xs) \<Longrightarrow> x \<in> set xs \<Longrightarrow> y \<in> set xs \<Longrightarrow> key x = key y \<Longrightarrow> x = y"
  by (meson distinct_map inj_onD)

text \<open>The permit moves to \<open>ps\<close> while its reservation moves to \<open>rs\<close>.\<close>

lemma move_both_inv:
  assumes inv: "ledger_inv H db" and p: "permit_row pid db = Some p" "pm_event_id p = ev" "pm_state p \<noteq> ISSUED"
    and states: "allowed_states ps rs" "ps \<noteq> ISSUED"
  shows "ledger_inv H (set_reservation_state ev rs now (set_permit_state pid ps now db))"
proof -
  have mem: "p \<in> set (permits db)" "pm_id p = pid" using permit_row_Some [OF p(1)] by auto
  have keys: "permit_keys (permits db)" "reservation_keys (reservations db)" using inv by (simp_all add: ledger_inv_def)
  have "coupled_ok (reservations (set_reservation_state ev rs now (set_permit_state pid ps now db)))
      (permits (set_reservation_state ev rs now (set_permit_state pid ps now db)))"
    unfolding set_state_other moved_rows
  proof (rule coupled_map)
    fix q r
    assume q: "q \<in> set (permits db)" "r \<in> set (reservations (db))" "rs_event_id r = pm_event_id q"
      "allowed_states (pm_state q) (rs_state r)"
    then have "pm_id q = pid \<longleftrightarrow> rs_event_id r = ev"
      using keys(1) mem p(2) key_inject [of pm_id] key_inject [of pm_event_id] unfolding permit_keys_def by metis
    then show "allowed_states (pm_state (if pm_id q = pid then q\<lparr>pm_state := ps, pm_updated_at := isoformat_z now\<rparr> else q))
        (rs_state (if rs_event_id r = ev then r\<lparr>rs_state := rs, rs_updated_at := isoformat_z now\<rparr> else r))"
      using q(4) states(1) by simp
  qed (use inv in \<open>auto simp: ledger_inv_def\<close>)
  moreover have "q = p" if "q \<in> set (permits db)" "pm_id q = pid" for q
    using key_inject [of pm_id "permits db" q p] keys(1) mem that by (simp add: permit_keys_def)
  then have "submitted_ok (permits (set_permit_state pid ps now db)) (submissions db)"
    unfolding moved_rows using inv p(3) states(2) by (intro submitted_map) (auto simp: ledger_inv_def)
  ultimately show ?thesis
    using inv by (simp add: ledger_inv_def authorized_ok_keys permit_keys_def reservation_keys_def del: set_map)
qed

text \<open>The permit goes out to the broker; its reservation stays RESERVED.\<close>

lemma submit_inv:
  assumes inv: "ledger_inv H db" and p: "permit_row pid db = Some p" "pm_event_id p = ev" "pm_state p = ISSUED"
    and sb: "insert_submission \<lparr>sb_permit_id = pid, sb_event_id = ev, sb_broker_order_id = order, sb_submitted_at = t\<rparr>
        (set_permit_state pid SUBMITTED now db) = (Inr u, db')"
  shows "ledger_inv H db'"
proof -
  let ?s = "\<lparr>sb_permit_id = pid, sb_event_id = ev, sb_broker_order_id = order, sb_submitted_at = t\<rparr>"
  have mem: "p \<in> set (permits db)" "pm_id p = pid" using permit_row_Some [OF p(1)] by auto
  have keys: "permit_keys (permits db)" using inv by (simp add: ledger_inv_def)
  have uniq: "q = p" if "q \<in> set (permits db)" "pm_id q = pid" for q
    using key_inject [of pm_id "permits db" q p] keys mem that by (simp add: permit_keys_def)
  have new: "pid \<notin> sb_permit_id ` set (submissions db)" "order \<notin> sb_broker_order_id ` set (submissions db)"
    and db': "db' = (set_permit_state pid SUBMITTED now db)\<lparr>submissions := submissions db @ [?s]\<rparr>"
    using sb by (simp_all add: insert_Inr)
  have "coupled_ok (map (\<lambda>r. r) (reservations db)) (permits (set_permit_state pid SUBMITTED now db))"
    unfolding moved_rows
  proof (rule coupled_map)
    fix q r
    assume "q \<in> set (permits db)" "allowed_states (pm_state q) (rs_state r)"
    then show "allowed_states (pm_state (if pm_id q = pid then q\<lparr>pm_state := SUBMITTED, pm_updated_at := isoformat_z now\<rparr> else q)) (rs_state r)"
      using uniq p(3) by auto
  qed (use inv in \<open>auto simp: ledger_inv_def\<close>)
  moreover have "submitted_ok (permits (set_permit_state pid SUBMITTED now db)) (submissions db @ [?s])"
    unfolding moved_rows
    by (rule submitted_extend [of _ _ p]) (use inv mem p(2) in \<open>simp_all add: ledger_inv_def\<close>)
  moreover have "submission_keys (submissions db @ [?s])"
    using inv new by (simp add: ledger_inv_def submission_keys_def)
  ultimately show ?thesis
    using inv by (simp add: db' ledger_inv_def authorized_ok_keys permit_keys_def del: set_map)
qed

text \<open>A filled position is flat: its reservation is released.\<close>

lemma release_inv:
  assumes inv: "ledger_inv H db" and p: "permit_row pid db = Some p" "pm_event_id p = ev" "pm_state p = FILLED"
  shows "ledger_inv H (set_reservation_state ev RELEASED now db)"
proof -
  have mem: "p \<in> set (permits db)" using permit_row_Some [OF p(1)] by auto
  have keys: "permit_keys (permits db)" using inv by (simp add: ledger_inv_def)
  have "coupled_ok (reservations (set_reservation_state ev RELEASED now db)) (map (\<lambda>p. p) (permits db))"
    unfolding moved_rows
  proof (rule coupled_map)
    fix q r
    assume q: "q \<in> set (permits db)" "rs_event_id r = pm_event_id q" "allowed_states (pm_state q) (rs_state r)"
    then have "rs_event_id r = ev \<longrightarrow> q = p"
      using key_inject [of pm_event_id "permits db" q p] keys mem p(2) by (simp add: permit_keys_def)
    then show "allowed_states (pm_state q) (rs_state (if rs_event_id r = ev then r\<lparr>rs_state := RELEASED, rs_updated_at := isoformat_z now\<rparr> else r))"
      using q(3) p(3) by auto
  qed (use inv in \<open>auto simp: ledger_inv_def\<close>)
  then show ?thesis
    using inv by (simp add: ledger_inv_def authorized_ok_keys reservation_keys_def del: set_map)
qed

lemma terminal_states_allowed: "terminal_states pid st q = Inr (ps, rs, et) \<Longrightarrow> allowed_states ps rs \<and> ps \<noteq> ISSUED"
  by (auto simp: terminal_states_def split: if_splits)

lemma transition_permit_Inr [outcome_simps]:
  "transition_permit_in_transaction pid from to now db = (Inr u, db') \<longleftrightarrow>
     map_option pm_state (permit_row pid db) = Some from \<and> is_utc now \<and> db' = set_permit_state pid to now db"
  by (auto simp: transition_permit_in_transaction_def outcome_simps validator_defs)

lemma record_submission_Inr:
  assumes "record_submission H ev pid order now w db = (Inr u, db')"
  obtains p d1 where "permit_row pid db = Some p" "pm_event_id p = ev" "pm_state p = ISSUED"
    "reservation_in_state pid ev RESERVED db" "is_utc now"
    "insert_submission \<lparr>sb_permit_id = pid, sb_event_id = ev, sb_broker_order_id = order, sb_submitted_at = isoformat_z now\<rparr>
        (set_permit_state pid SUBMITTED now db) = (Inr (), d1)"
    "(if w then \<exists>h. append_passport H ''ORDER_SUBMITTED''
        (JObj [(''event_id'', JStr ev), (''permit_id'', JStr pid), (''broker_order_id'', JStr order)]) now d1 = (Inr h, db')
      else db' = d1)"
proof -
  note run = assms [unfolded record_submission_def outcome_simps]
  then obtain p where p: "permit_row pid db = Some p" "pm_event_id p = ev" by (auto dest!: owns_event_Some)
  show thesis using run p by (cases w) (auto simp: outcome_simps intro: that)
qed

lemma record_submission_inv:
  assumes "record_submission H ev pid order now w db = (Inr u, db')" "ledger_inv H db"
  shows "ledger_inv H db'"
proof (rule record_submission_Inr [OF assms(1)])
  fix p d1
  assume p: "permit_row pid db = Some p" "pm_event_id p = ev" "pm_state p = ISSUED"
    and sb: "insert_submission \<lparr>sb_permit_id = pid, sb_event_id = ev, sb_broker_order_id = order, sb_submitted_at = isoformat_z now\<rparr>
        (set_permit_state pid SUBMITTED now db) = (Inr (), d1)"
    and pass: "(if w then \<exists>h. append_passport H ''ORDER_SUBMITTED''
        (JObj [(''event_id'', JStr ev), (''permit_id'', JStr pid), (''broker_order_id'', JStr order)]) now d1 = (Inr h, db')
      else db' = d1)"
  have "ledger_inv H d1" by (rule submit_inv [OF assms(2) p sb])
  then show ?thesis using pass passport_inv [of H _ _ now d1] by (cases w) auto
qed

lemma reconcile_Inr:
  assumes "reconcile_observed_order H ev pid order st q t now db = (Inr u, db')"
  obtains p ps rs et d1 d2 h1 h2 where "permit_row pid db = Some p" "pm_event_id p = ev" "pm_state p = SUBMITTED"
    "submitted_order_matches pid ev order db" "reservation_in_state pid ev RESERVED db"
    "terminal_states pid st q = Inr (ps, rs, et)" "is_utc now" "is_utc t"
    "insert_fill \<lparr>fl_id = order, fl_permit_id = pid, fl_event_id = ev, fl_quantity = dec_str q, fl_status = st,
       fl_observed_at = isoformat_z t\<rparr> (set_reservation_state ev rs now (set_permit_state pid ps now db)) = (Inr (), d1)"
    "append_passport H (passport_event_type_value et)
       (JObj [(''event_id'', JStr ev), (''permit_id'', JStr pid), (''broker_order_id'', JStr order),
              (''status'', JStr st), (''filled_quantity'', JStr (dec_str q))]) now d1 = (Inr h1, d2)"
    "append_passport H ''RECONCILED''
       (JObj [(''event_id'', JStr ev), (''permit_id'', JStr pid), (''result'', JStr (permit_state_value ps))]) now d2 = (Inr h2, db')"
proof -
  note run = assms [unfolded reconcile_observed_order_def outcome_simps]
  then obtain p where p: "permit_row pid db = Some p" "pm_event_id p = ev" by (auto dest!: owns_event_Some)
  show thesis using run p by (auto simp: outcome_simps validator_defs intro: that)
qed

lemma reconcile_observed_order_inv:
  assumes "reconcile_observed_order H ev pid order st q t now db = (Inr u, db')" "ledger_inv H db"
  shows "ledger_inv H db'"
proof -
  obtain p ps rs et d1 d2 h1 h2 where p: "permit_row pid db = Some p" "pm_event_id p = ev" "pm_state p = SUBMITTED"
    and ts: "terminal_states pid st q = Inr (ps, rs, et)"
    and fill: "insert_fill \<lparr>fl_id = order, fl_permit_id = pid, fl_event_id = ev, fl_quantity = dec_str q, fl_status = st,
       fl_observed_at = isoformat_z t\<rparr> (set_reservation_state ev rs now (set_permit_state pid ps now db)) = (Inr (), d1)"
    and pass: "append_passport H (passport_event_type_value et)
       (JObj [(''event_id'', JStr ev), (''permit_id'', JStr pid), (''broker_order_id'', JStr order),
              (''status'', JStr st), (''filled_quantity'', JStr (dec_str q))]) now d1 = (Inr h1, d2)"
    "append_passport H ''RECONCILED''
       (JObj [(''event_id'', JStr ev), (''permit_id'', JStr pid), (''result'', JStr (permit_state_value ps))]) now d2 = (Inr h2, db')"
    by (rule reconcile_Inr [OF assms(1)])
  have "ledger_inv H (set_reservation_state ev rs now (set_permit_state pid ps now db))"
    using move_both_inv [OF assms(2) p(1,2)] p(3) terminal_states_allowed [OF ts] by simp
  then show ?thesis using insert_fill_inv [OF fill] pass passport_inv by simp
qed

lemma release_flat_Inr:
  assumes "release_consumed_after_flat H ev pid now db = (Inr u, db')"
  obtains p h where "permit_row pid db = Some p" "pm_event_id p = ev" "pm_state p = FILLED"
    "reservation_in_state pid ev CONSUMED db" "is_utc now"
    "append_passport H ''RECONCILED'' (JObj [(''event_id'', JStr ev), (''permit_id'', JStr pid), (''result'', JStr ''FLAT'')]) now
       (set_reservation_state ev RELEASED now db) = (Inr h, db')"
proof -
  note run = assms [unfolded release_consumed_after_flat_def outcome_simps]
  then obtain p where p: "permit_row pid db = Some p" "pm_event_id p = ev" by (auto dest!: owns_event_Some)
  show thesis using run p by (auto simp: outcome_simps validator_defs intro: that)
qed

lemma release_consumed_after_flat_inv:
  assumes "release_consumed_after_flat H ev pid now db = (Inr u, db')" "ledger_inv H db"
  shows "ledger_inv H db'"
proof -
  obtain p h where p: "permit_row pid db = Some p" "pm_event_id p = ev" "pm_state p = FILLED"
    and pass: "append_passport H ''RECONCILED''
      (JObj [(''event_id'', JStr ev), (''permit_id'', JStr pid), (''result'', JStr ''FLAT'')]) now
       (set_reservation_state ev RELEASED now db) = (Inr h, db')"
    by (rule release_flat_Inr [OF assms(1)])
  show ?thesis using passport_inv [OF pass _ release_inv [OF assms(2) p]] by simp
qed

section \<open>Intents\<close>

lemma intent_row_Some: "lifecycle_intent_for_permit pid db = Some i \<Longrightarrow> i \<in> set (lifecycle_intents db) \<and> it_permit_id i = pid"
  by (auto simp: lifecycle_intent_for_permit_def dest: row_where_Some)

lemma intent_guards_None:
  "first_reject (intent_guards H it now) = None \<Longrightarrow>
     is_object (request_payload it) \<and> canonical_json_bytes (request_payload it) = it_request_json it
     \<and> H (it_request_json it) = it_request_sha256 it \<and> is_utc now"
  by (auto simp: intent_guards_def request_payload_def validator_defs split: option.splits)

lemma record_lifecycle_intent_Inr:
  assumes "record_lifecycle_intent H it now db = (Inr u, db')"
  obtains d1 h where "first_reject (intent_guards H it now) = None"
    "insert_intent (it\<lparr>it_broker_order_id := None, it_state := INTENDED, it_created_at := isoformat_z now,
       it_updated_at := isoformat_z now\<rparr>) db = (Inr (), d1)"
    "append_passport H ''ORDER_INTENDED'' (json_set (request_payload it) ''request_sha256'' (JStr (it_request_sha256 it))) now d1
       = (Inr h, db')"
  using assms unfolding record_lifecycle_intent_def by (auto simp: outcome_simps)

lemma record_lifecycle_intent_inv:
  assumes "record_lifecycle_intent H it now db = (Inr u, db')" "ledger_inv H db"
  shows "ledger_inv H db'"
proof -
  obtain d1 h where guards: "first_reject (intent_guards H it now) = None"
    and row: "insert_intent (it\<lparr>it_broker_order_id := None, it_state := INTENDED, it_created_at := isoformat_z now,
       it_updated_at := isoformat_z now\<rparr>) db = (Inr (), d1)"
    and pass: "append_passport H ''ORDER_INTENDED'' (json_set (request_payload it) ''request_sha256'' (JStr (it_request_sha256 it))) now d1
       = (Inr h, db')"
    by (rule record_lifecycle_intent_Inr [OF assms(1)])
  have "ledger_inv H d1" using insert_intent_inv [OF row] assms(2) by simp
  then show ?thesis using passport_inv [OF pass] intent_guards_None [OF guards] by simp
qed

lemma intents_update:
  assumes "intents_ok its"
    and same: "\<And>i. it_permit_id (f i) = it_permit_id i \<and> it_event_id (f i) = it_event_id i \<and> it_phase (f i) = it_phase i"
    and state: "\<And>i. i \<in> set its \<Longrightarrow> it_state (f i) = INTENDED \<longleftrightarrow> it_broker_order_id (f i) = None"
    and orders: "\<And>i j order. i \<in> set its \<Longrightarrow> j \<in> set its \<Longrightarrow> it_broker_order_id (f i) = Some order \<Longrightarrow>
       it_broker_order_id (f j) = Some order \<Longrightarrow> it_permit_id i = it_permit_id j"
  shows "intents_ok (map f its)"
proof -
  have "map it_permit_id (map f its) = map it_permit_id its"
    "map (\<lambda>i. (it_event_id i, it_phase i)) (map f its) = map (\<lambda>i. (it_event_id i, it_phase i)) its"
    using same by simp_all
  moreover have "bound_once (map f its)"
    unfolding bound_once_def set_map ball_simps(9) using orders same by metis
  moreover have "\<forall>i \<in> set (map f its). it_state i = INTENDED \<longleftrightarrow> it_broker_order_id i = None" using state by simp
  ultimately show ?thesis using assms(1) unfolding intents_ok_def by (simp only: simp_thms)
qed

lemma bind_intent_row_Inr:
  "bind_intent_row pid order now db = (Inr u, db') \<longleftrightarrow>
     (\<forall>i \<in> set (lifecycle_intents db). it_permit_id i \<noteq> pid \<longrightarrow> it_broker_order_id i \<noteq> Some order)
     \<and> db' = db\<lparr>lifecycle_intents := map (\<lambda>i. if it_permit_id i = pid
          then i\<lparr>it_broker_order_id := Some order, it_state := INTENT_SUBMITTED, it_updated_at := isoformat_z now\<rparr> else i)
          (lifecycle_intents db)\<rparr>"
  by (auto simp: bind_intent_row_def list_ex_iff update_where_def)

lemma bind_intent_row_inv:
  assumes "bind_intent_row pid order now db = (Inr u, db')" "ledger_inv H db"
  shows "ledger_inv H db'"
proof -
  let ?f = "\<lambda>i. if it_permit_id i = pid
     then i\<lparr>it_broker_order_id := Some order, it_state := INTENT_SUBMITTED, it_updated_at := isoformat_z now\<rparr> else i"
  have free: "\<forall>i \<in> set (lifecycle_intents db). it_permit_id i \<noteq> pid \<longrightarrow> it_broker_order_id i \<noteq> Some order"
    and db': "db' = db\<lparr>lifecycle_intents := map ?f (lifecycle_intents db)\<rparr>"
    using assms(1) by (simp_all add: bind_intent_row_Inr)
  have old: "intents_ok (lifecycle_intents db)" using assms(2) by (simp add: ledger_inv_def)
  have "intents_ok (map ?f (lifecycle_intents db))"
  proof (rule intents_update [OF old])
    fix i j oid
    assume ij: "i \<in> set (lifecycle_intents db)" "j \<in> set (lifecycle_intents db)" "it_broker_order_id (?f i) = Some oid"
      "it_broker_order_id (?f j) = Some oid"
    show "it_permit_id i = it_permit_id j"
    proof (cases "it_permit_id i = pid \<or> it_permit_id j = pid")
      case True
      then show ?thesis using ij free by (auto split: if_splits)
    next
      case False
      then have "it_broker_order_id i = Some oid" "it_broker_order_id j = Some oid" using ij by simp_all
      then show ?thesis using ij(1,2) old unfolding intents_ok_def bound_once_def by blast
    qed
  qed (use old in \<open>simp_all add: intents_ok_def\<close>)
  then show ?thesis using assms(2) by (simp add: db' ledger_inv_def)
qed

lemma bind_lifecycle_intent_Inr:
  assumes "bind_lifecycle_intent H pid ph order now db = (Inr u, db')"
  obtains i d1 h where "lifecycle_intent_for_permit pid db = Some i" "it_phase i = ph" "it_state i = INTENDED"
    "bind_intent_row pid order now db = (Inr (), d1)" "is_object (request_payload i)"
    "append_passport H ''ORDER_SUBMITTED'' (json_set (json_set (request_payload i) ''request_sha256'' (JStr (it_request_sha256 i)))
       ''broker_order_id'' (JStr order)) now d1 = (Inr h, db')"
  using assms unfolding bind_lifecycle_intent_def by (auto simp: outcome_simps split: option.splits)

lemma bind_lifecycle_intent_inv:
  assumes "bind_lifecycle_intent H pid ph order now db = (Inr u, db')" "ledger_inv H db"
  shows "ledger_inv H db'"
proof (rule bind_lifecycle_intent_Inr [OF assms(1)])
  fix i d1 h
  assume row: "bind_intent_row pid order now db = (Inr (), d1)" and obj: "is_object (request_payload i)"
    and pass: "append_passport H ''ORDER_SUBMITTED'' (json_set (json_set (request_payload i) ''request_sha256'' (JStr (it_request_sha256 i)))
       ''broker_order_id'' (JStr order)) now d1 = (Inr h, db')"
  show ?thesis using passport_inv [OF pass] bind_intent_row_inv [OF row assms(2)] obj by simp
qed

lemma mark_intent_reconciled_inv:
  assumes "mark_lifecycle_intent_reconciled pid now db = (Inr u, db')" "ledger_inv H db"
  shows "ledger_inv H db'"
proof -
  let ?f = "\<lambda>i. if it_permit_id i = pid then i\<lparr>it_state := INTENT_RECONCILED, it_updated_at := isoformat_z now\<rparr> else i"
  obtain k where k: "lifecycle_intent_for_permit pid db = Some k" "it_state k = INTENT_SUBMITTED"
    and db': "db' = db\<lparr>lifecycle_intents := map ?f (lifecycle_intents db)\<rparr>"
    using assms(1) by (auto simp: mark_lifecycle_intent_reconciled_def outcome_simps update_where_def)
  have old: "intents_ok (lifecycle_intents db)" using assms(2) by (simp add: ledger_inv_def)
  have uniq: "i = k" if "i \<in> set (lifecycle_intents db)" "it_permit_id i = pid" for i
    using key_inject [of it_permit_id "lifecycle_intents db" i k] intent_row_Some [OF k(1)] old that by (simp add: intents_ok_def)
  have "intents_ok (map ?f (lifecycle_intents db))"
  proof (rule intents_update [OF old])
    fix i
    assume i: "i \<in> set (lifecycle_intents db)"
    have "it_state i = INTENDED \<longleftrightarrow> it_broker_order_id i = None" using old i by (simp add: intents_ok_def)
    then show "it_state (?f i) = INTENDED \<longleftrightarrow> it_broker_order_id (?f i) = None"
      using uniq [OF i] k(2) by (cases "it_permit_id i = pid") auto
  next
    fix i j oid
    assume ij: "i \<in> set (lifecycle_intents db)" "j \<in> set (lifecycle_intents db)"
      "it_broker_order_id (?f i) = Some oid" "it_broker_order_id (?f j) = Some oid"
    then have "it_broker_order_id i = Some oid" "it_broker_order_id j = Some oid" by (simp_all split: if_splits)
    then show "it_permit_id i = it_permit_id j" using ij(1,2) old unfolding intents_ok_def bound_once_def by blast
  qed simp
  then show ?thesis using assms(2) by (simp add: db' ledger_inv_def)
qed

section \<open>Failed operations leave no trace\<close>

definition rolls_back :: "('s \<Rightarrow> ('s, 'e, 'a) outcome) \<Rightarrow> bool" where
  "rolls_back m = (\<forall>s e t. m s = (Inl e, t) \<longrightarrow> t = s)"

lemma rolls_back_transaction [simp]: "rolls_back (transaction body)"
  by (simp add: rolls_back_def transaction_Inl)

lemma rolls_back_checked [simp]: "rolls_back m \<Longrightarrow> rolls_back (checked gs m)"
  by (auto simp: rolls_back_def checked_Inl)

lemma rolls_back_on_integrity [simp]: "rolls_back m \<Longrightarrow> rolls_back (on_integrity e m)"
  by (auto simp: rolls_back_def on_integrity_def split: prod.splits sum.splits)

lemma rolls_back_exec [simp]: "rolls_back (exec f)"
  by (simp add: rolls_back_def exec_def)

definition forget :: "('s \<Rightarrow> ('s, 'e, 'a) outcome) \<Rightarrow> 's \<Rightarrow> ('s, 'e, unit) outcome" where
  "forget m s = (case m s of (Inl e, t) \<Rightarrow> (Inl e, t) | (Inr a, t) \<Rightarrow> (Inr (), t))"

lemma rolls_back_forget [simp]: "rolls_back m \<Longrightarrow> rolls_back (forget m)"
  by (auto simp: rolls_back_def forget_def split: prod.splits sum.splits)

lemma forget_Inr [outcome_simps]: "forget m s = (Inr u, t) \<longleftrightarrow> (\<exists>a. m s = (Inr a, t))"
  by (auto simp: forget_def split: prod.splits sum.splits)

section \<open>The ledger as a machine\<close>

text \<open>The operations the program performs on the ledger, with their arguments.\<close>

datatype ledger_command =
    FreezeCandidate string string string string string string datetime
  | MarkNotRun string string datetime
  | Authorize string string string string string string dec dec int int debit_vertical_permit datetime
  | AuthorizeV2 v2_authorization
  | RecordIntent intent_row datetime
  | BindIntent string intent_phase string datetime
  | ReconcileIntent string datetime
  | RecordSubmission string string string datetime bool
  | RecordFill string string string dec string datetime
  | ReconcileOrder string string string string dec datetime datetime
  | ReleaseAfterFlat string string datetime
  | RecordAccount dec datetime
  | ChangeControl control_state "string option" "(string \<times> json) list" datetime
  | AppendDecision "(string \<times> json) list" string string
  | AppendOutcome "(string \<times> json) list" string string
  | AppendTruth "(string \<times> json) list" string string

fun run_command :: "hash_function \<Rightarrow> ledger_command \<Rightarrow> unit ledger_op" where
  "run_command H (FreezeCandidate ev cand pol de ex mode now) = freeze_candidate H ev cand pol de ex mode now"
| "run_command H (MarkNotRun ev detail now) = mark_not_run H ev detail now"
| "run_command H (Authorize ev sy cand pol de ex am agg mo me pm now) =
     forget (reserve_and_issue_permit H ev sy cand pol de ex am agg mo me pm now)"
| "run_command H (AuthorizeV2 a) = forget (reserve_v2_and_issue_permit H a)"
| "run_command H (RecordIntent it now) = record_lifecycle_intent H it now"
| "run_command H (BindIntent pid ph order now) = bind_lifecycle_intent H pid ph order now"
| "run_command H (ReconcileIntent pid now) = mark_lifecycle_intent_reconciled pid now"
| "run_command H (RecordSubmission ev pid order now w) = record_submission H ev pid order now w"
| "run_command H (RecordFill fid pid ev q st t) = record_fill fid pid ev q st t"
| "run_command H (ReconcileOrder ev pid order st q t now) = reconcile_observed_order H ev pid order st q t now"
| "run_command H (ReleaseAfterFlat ev pid now) = release_consumed_after_flat H ev pid now"
| "run_command H (RecordAccount eq now) = record_account_snapshot eq now"
| "run_command H (ChangeControl st d payload now) = set_control_state_with_passport H st d (JObj payload) now"
| "run_command H (AppendDecision vs p sha) = forget (append_decision_episode vs p sha)"
| "run_command H (AppendOutcome vs p sha) = forget (append_outcome_episode vs p sha)"
| "run_command H (AppendTruth vs p sha) = forget (append_broker_truth_snapshot vs p sha)"

definition run_commands :: "hash_function \<Rightarrow> ledger_command list \<Rightarrow> ledger \<Rightarrow> ledger" where
  "run_commands H cs db = foldl (\<lambda>db c. snd (run_command H c db)) db cs"

lemma append_episode_row_Inl: "append_episode_row table cols idc vs p sha rows = (Inl e, rows') \<Longrightarrow> rows' = rows"
  by (erule append_episode_row_cases) simp_all

lemma rolls_back_episodes [simp]:
  "rolls_back (append_decision_episode vs p sha)" "rolls_back (append_outcome_episode vs p sha)"
  "rolls_back (append_broker_truth_snapshot vs p sha)"
  by (auto simp: rolls_back_def append_decision_episode_def append_outcome_episode_def append_broker_truth_snapshot_def
      split: prod.splits dest: append_episode_row_Inl)

lemma run_command_rolls_back: "rolls_back (run_command H c)"
  by (cases c) (simp_all add: freeze_candidate_def mark_not_run_def record_not_run_with_def reserve_and_issue_permit_def
      reserve_v2_and_issue_permit_def record_lifecycle_intent_def bind_lifecycle_intent_def
      mark_lifecycle_intent_reconciled_def record_submission_def record_fill_def reconcile_observed_order_def
      release_consumed_after_flat_def record_account_snapshot_def set_control_state_with_passport_def Let_def)

lemma other_commands_inv:
  "record_fill fid pid ev q st t db = (Inr u, db') \<Longrightarrow> ledger_inv H db \<Longrightarrow> ledger_inv H db'"
  "record_account_snapshot eq now db = (Inr u, db') \<Longrightarrow> ledger_inv H db \<Longrightarrow> ledger_inv H db'"
  "set_control_state_with_passport H cs d (JObj kvs) now db = (Inr u, db') \<Longrightarrow> ledger_inv H db \<Longrightarrow> ledger_inv H db'"
proof -
  show "ledger_inv H db'" if "record_fill fid pid ev q st t db = (Inr u, db')" "ledger_inv H db"
    using that insert_fill_inv [of _ db u db' H] by (auto simp: record_fill_def outcome_simps)
  show "ledger_inv H db'" if "record_account_snapshot eq now db = (Inr u, db')" "ledger_inv H db"
    using that by (auto simp: record_account_snapshot_def outcome_simps ledger_inv_def)
  assume run: "set_control_state_with_passport H cs d (JObj kvs) now db = (Inr u, db')" and inv: "ledger_inv H db"
  then obtain h where "append_passport H ''CONTROL_STATE_CHANGED'' (JObj kvs) now (put_control_state cs d now db) = (Inr h, db')"
    by (auto simp: set_control_state_with_passport_def outcome_simps)
  then show "ledger_inv H db'" using passport_inv [of H _ "JObj kvs" now "put_control_state cs d now db"] inv
    by (simp add: put_control_state_inv)
qed

lemma episode_commands_inv:
  "append_decision_episode vs p sha db = (Inr b, db') \<Longrightarrow> ledger_inv H db' = ledger_inv H db"
  "append_outcome_episode vs p sha db = (Inr b, db') \<Longrightarrow> ledger_inv H db' = ledger_inv H db"
  "append_broker_truth_snapshot vs p sha db = (Inr b, db') \<Longrightarrow> ledger_inv H db' = ledger_inv H db"
  by (auto simp: append_decision_episode_def append_outcome_episode_def append_broker_truth_snapshot_def ledger_inv_def
      split: prod.splits)

lemmas operation_inv = freeze_candidate_inv mark_not_run_inv reserve_and_issue_permit_inv reserve_v2_inv
  record_lifecycle_intent_inv bind_lifecycle_intent_inv mark_intent_reconciled_inv record_submission_inv
  reconcile_observed_order_inv release_consumed_after_flat_inv other_commands_inv

lemma run_command_inv: "run_command H c db = (Inr u, db') \<Longrightarrow> ledger_inv H db \<Longrightarrow> ledger_inv H db'"
  by (cases c) (auto simp only: run_command.simps forget_Inr episode_commands_inv intro: operation_inv)

interpretation durable: transactional_machine "run_command H" "ledger_inv H" for H
proof
  show "run_command H c s = (Inl e, t) \<Longrightarrow> t = s" for c s e t
    using run_command_rolls_back by (auto simp: rolls_back_def)
  show "ledger_inv H s \<Longrightarrow> run_command H c s = (Inr a, t) \<Longrightarrow> ledger_inv H t" for s c a t
    by (rule run_command_inv)
qed

end
