(* ===== verification/Ledger_Properties.thy ===== *)
theory Ledger_Properties
  imports Ledger_Invariant "HOL-Library.Sublist"
begin

text \<open>
  What follows from the ledger's contract: its tables stay consistent under every sequence
  of commands, history is never rewritten, an authorization stays inside its budgets, and a
  permit or an event is used once.
\<close>

section \<open>History is append-only\<close>

fun reservation_le :: "reservation_state \<Rightarrow> reservation_state \<Rightarrow> bool" where
  "reservation_le RESERVED s = True"
| "reservation_le CONSUMED s = (s \<noteq> RESERVED)"
| "reservation_le RELEASED s = (s = RELEASED)"

fun permit_le :: "permit_state \<Rightarrow> permit_state \<Rightarrow> bool" where
  "permit_le ISSUED s = True"
| "permit_le SUBMITTED s = (s \<noteq> ISSUED)"
| "permit_le s s' = (s = s')"

definition reservation_evolves :: "reservation_row \<Rightarrow> reservation_row \<Rightarrow> bool" where
  "reservation_evolves r r' =
     (r' = r\<lparr>rs_state := rs_state r', rs_updated_at := rs_updated_at r'\<rparr> \<and> reservation_le (rs_state r) (rs_state r'))"

definition permit_evolves :: "permit_row \<Rightarrow> permit_row \<Rightarrow> bool" where
  "permit_evolves p p' =
     (p' = p\<lparr>pm_state := pm_state p', pm_updated_at := pm_updated_at p'\<rparr> \<and> permit_le (pm_state p) (pm_state p'))"

definition rows_evolve :: "('r \<Rightarrow> 'r \<Rightarrow> bool) \<Rightarrow> 'r list \<Rightarrow> 'r list \<Rightarrow> bool" where
  "rows_evolve R xs ys = (length xs \<le> length ys \<and> list_all2 R xs (take (length xs) ys))"

text \<open>
  One state of the ledger is a later state of another: facts are only added, and a
  reservation or a permit changes nothing but its state, forwards.
\<close>

definition later :: "ledger \<Rightarrow> ledger \<Rightarrow> bool" where
  "later db db' =
     (prefix (candidates db) (candidates db') \<and> prefix (not_run db) (not_run db')
      \<and> prefix (passport_events db) (passport_events db') \<and> prefix (submissions db) (submissions db')
      \<and> prefix (fills db) (fills db') \<and> prefix (v2_reservations db) (v2_reservations db')
      \<and> rows_evolve reservation_evolves (reservations db) (reservations db')
      \<and> rows_evolve permit_evolves (permits db) (permits db'))"

lemma reservation_le_trans: "reservation_le a b \<Longrightarrow> reservation_le b c \<Longrightarrow> reservation_le a c"
  by (cases a; cases b; cases c) simp_all

lemma permit_le_trans: "permit_le a b \<Longrightarrow> permit_le b c \<Longrightarrow> permit_le a c"
  by (cases a; cases b; cases c) simp_all

lemma evolves_refl [simp]: "reservation_evolves r r" "permit_evolves p p"
  by (cases "rs_state r"; simp add: reservation_evolves_def) (cases "pm_state p"; simp add: permit_evolves_def)

lemma reservation_evolves_trans: "reservation_evolves a b \<Longrightarrow> reservation_evolves b c \<Longrightarrow> reservation_evolves a c"
  by (cases a; cases b; cases c) (auto simp: reservation_evolves_def intro: reservation_le_trans)

lemma permit_evolves_trans: "permit_evolves a b \<Longrightarrow> permit_evolves b c \<Longrightarrow> permit_evolves a c"
  by (cases a; cases b; cases c) (auto simp: permit_evolves_def intro: permit_le_trans)

lemma rows_evolve_refl: "(\<And>x. R x x) \<Longrightarrow> rows_evolve R xs xs"
  by (simp add: rows_evolve_def list_all2_refl)

lemma rows_evolve_trans:
  assumes "\<And>a b c. R a b \<Longrightarrow> R b c \<Longrightarrow> R a c" "rows_evolve R xs ys" "rows_evolve R ys zs"
  shows "rows_evolve R xs zs"
  using assms unfolding rows_evolve_def list_all2_conv_all_nth by (auto dest: order.strict_trans1) 

lemma rows_evolve_append: "(\<And>x. R x x) \<Longrightarrow> rows_evolve R xs (xs @ ys)"
  by (simp add: rows_evolve_def list_all2_refl)

lemma rows_evolve_map: "(\<And>x. x \<in> set xs \<Longrightarrow> R x (f x)) \<Longrightarrow> rows_evolve R xs (map f xs)"
  by (simp add: rows_evolve_def list_all2_conv_all_nth)

lemma later_refl: "later db db"
  by (simp add: later_def rows_evolve_refl)

lemma later_trans: "later a b \<Longrightarrow> later b c \<Longrightarrow> later a c"
  unfolding later_def
  by (meson prefix_order.trans rows_evolve_trans reservation_evolves_trans permit_evolves_trans)

lemma passport_later: "append_passport H t payload now db = (Inr h, db') \<Longrightarrow> later db db'"
  by (auto simp: append_passport_Inr later_def rows_evolve_refl)

lemma insert_later:
  "insert_candidate c db = (Inr u, db') \<Longrightarrow> later db db'"
  "insert_not_run ev d now db = (Inr u, db') \<Longrightarrow> later db db'"
  "insert_reservation_row r db = (Inr u, db') \<Longrightarrow> later db db'"
  "insert_permit_row p db = (Inr u, db') \<Longrightarrow> later db db'"
  "insert_intent i db = (Inr u, db') \<Longrightarrow> later db db'"
  "insert_fill f db = (Inr u, db') \<Longrightarrow> later db db'"
  "insert_submission s db = (Inr u, db') \<Longrightarrow> later db db'"
  "insert_v2_row v db = (Inr u, db') \<Longrightarrow> later db db'"
  "bind_intent_row pid order now db = (Inr u, db') \<Longrightarrow> later db db'"
  by (auto simp: insert_Inr insert_v2_row_def bind_intent_row_Inr later_def rows_evolve_refl rows_evolve_append split: if_splits)

lemma evolves_update:
  "permit_le (pm_state q) ps \<Longrightarrow> permit_evolves q (q\<lparr>pm_state := ps, pm_updated_at := t\<rparr>)"
  "reservation_le (rs_state r) rs \<Longrightarrow> reservation_evolves r (r\<lparr>rs_state := rs, rs_updated_at := t\<rparr>)"
  by (cases q; simp add: permit_evolves_def) (cases r; simp add: reservation_evolves_def)

lemma permit_later:
  assumes "ledger_inv H db" "permit_row pid db = Some p" "permit_le (pm_state p) ps"
  shows "later db (set_permit_state pid ps now db)"
proof -
  have keys: "distinct (map pm_id (permits db))" using assms(1) by (simp add: ledger_inv_def permit_keys_def)
  have "permit_evolves q (if pm_id q = pid then q\<lparr>pm_state := ps, pm_updated_at := isoformat_z now\<rparr> else q)"
    if q: "q \<in> set (permits db)" for q
  proof (cases "pm_id q = pid")
    case True
    then have "q = p" using key_inject [OF keys q, of p] permit_row_Some [OF assms(2)] by simp
    then show ?thesis using evolves_update(1) [OF assms(3)] True by simp
  qed simp
  then have "rows_evolve permit_evolves (permits db) (permits (set_permit_state pid ps now db))"
    unfolding moved_rows by (rule rows_evolve_map)
  then show ?thesis by (simp add: later_def rows_evolve_refl set_permit_state_def)
qed

lemma reservation_later:
  assumes keys: "distinct (map rs_event_id (reservations db))"
    and r: "r \<in> set (reservations db)" "rs_event_id r = ev" "reservation_le (rs_state r) rs"
  shows "later db (set_reservation_state ev rs now db)"
proof -
  have "reservation_evolves q (if rs_event_id q = ev then q\<lparr>rs_state := rs, rs_updated_at := isoformat_z now\<rparr> else q)"
    if q: "q \<in> set (reservations db)" for q
  proof (cases "rs_event_id q = ev")
    case True
    then have "q = r" using key_inject [OF keys q r(1)] r(2) by simp
    then show ?thesis using evolves_update(2) [OF r(3)] True by simp
  qed simp
  then have "rows_evolve reservation_evolves (reservations db) (reservations (set_reservation_state ev rs now db))"
    unfolding moved_rows by (rule rows_evolve_map)
  then show ?thesis by (simp add: later_def rows_evolve_refl set_reservation_state_def)
qed

lemma reservation_in_state_row:
  assumes "reservation_in_state pid ev st db"
  obtains r where "r \<in> set (reservations db)" "rs_event_id r = ev" "rs_state r = st"
  using assms by (auto simp: reservation_in_state_def reservation_for_event_def split: option.splits dest: row_where_Some)

lemma reconcile_later:
  assumes "reconcile_observed_order H ev pid order st q t now db = (Inr u, db')" "ledger_inv H db"
  shows "later db db'"
proof -
  obtain p ps rs et d1 d2 h1 h2 where p: "permit_row pid db = Some p" "pm_event_id p = ev" "pm_state p = SUBMITTED"
    and res: "reservation_in_state pid ev RESERVED db" and ts: "terminal_states pid st q = Inr (ps, rs, et)"
    and fill: "insert_fill \<lparr>fl_id = order, fl_permit_id = pid, fl_event_id = ev, fl_quantity = dec_str q, fl_status = st,
       fl_observed_at = isoformat_z t\<rparr> (set_reservation_state ev rs now (set_permit_state pid ps now db)) = (Inr (), d1)"
    and pass: "append_passport H (passport_event_type_value et)
       (JObj [(''event_id'', JStr ev), (''permit_id'', JStr pid), (''broker_order_id'', JStr order),
              (''status'', JStr st), (''filled_quantity'', JStr (dec_str q))]) now d1 = (Inr h1, d2)"
    "append_passport H ''RECONCILED''
       (JObj [(''event_id'', JStr ev), (''permit_id'', JStr pid), (''result'', JStr (permit_state_value ps))]) now d2 = (Inr h2, db')"
    by (rule reconcile_Inr [OF assms(1)])
  let ?d = "set_permit_state pid ps now db"
  have "later db ?d" using permit_later [OF assms(2) p(1)] p(3) terminal_states_allowed [OF ts] by simp
  moreover obtain r where r: "r \<in> set (reservations db)" "rs_event_id r = ev" "rs_state r = RESERVED"
    by (rule reservation_in_state_row [OF res])
  then have "later ?d (set_reservation_state ev rs now ?d)"
    using reservation_later [of ?d r ev rs now] assms(2) by (simp add: ledger_inv_def reservation_keys_def)
  ultimately show ?thesis using insert_later(6) [OF fill] passport_later [OF pass(1)] passport_later [OF pass(2)] later_trans by blast
qed

lemma release_later:
  assumes "release_consumed_after_flat H ev pid now db = (Inr u, db')" "ledger_inv H db"
  shows "later db db'"
proof -
  obtain p h where res: "reservation_in_state pid ev CONSUMED db"
    and pass: "append_passport H ''RECONCILED''
      (JObj [(''event_id'', JStr ev), (''permit_id'', JStr pid), (''result'', JStr ''FLAT'')]) now
       (set_reservation_state ev RELEASED now db) = (Inr h, db')"
    by (rule release_flat_Inr [OF assms(1)])
  obtain r where r: "r \<in> set (reservations db)" "rs_event_id r = ev" "rs_state r = CONSUMED"
    by (rule reservation_in_state_row [OF res])
  have "later db (set_reservation_state ev RELEASED now db)"
    using reservation_later [of db r ev RELEASED now] r assms(2) by (simp add: ledger_inv_def reservation_keys_def)
  then show ?thesis using passport_later [OF pass] later_trans by blast
qed

lemma submission_later:
  assumes "record_submission H ev pid order now w db = (Inr u, db')" "ledger_inv H db"
  shows "later db db'"
proof (rule record_submission_Inr [OF assms(1)])
  fix p d1
  assume p: "permit_row pid db = Some p" "pm_state p = ISSUED"
    and sb: "insert_submission \<lparr>sb_permit_id = pid, sb_event_id = ev, sb_broker_order_id = order, sb_submitted_at = isoformat_z now\<rparr>
        (set_permit_state pid SUBMITTED now db) = (Inr (), d1)"
    and pass: "(if w then \<exists>h. append_passport H ''ORDER_SUBMITTED''
        (JObj [(''event_id'', JStr ev), (''permit_id'', JStr pid), (''broker_order_id'', JStr order)]) now d1 = (Inr h, db')
      else db' = d1)"
  have "later db (set_permit_state pid SUBMITTED now db)" using permit_later [OF assms(2) p(1)] p(2) by simp
  moreover have "later d1 db'" using pass by (auto simp: later_refl dest: passport_later split: if_splits)
  ultimately show ?thesis using insert_later(7) [OF sb] later_trans by blast
qed

lemma authorize_later:
  assumes "reserve_and_issue_permit H ev sy cand pol de ex am agg mo me pm now db = (Inr res, db')"
  shows "later db db'"
  by (rule reserve_and_issue_Inr [OF assms]) (meson insert_later(3,4) later_trans passport_later)

lemma authorize_v2_later:
  assumes "reserve_v2_and_issue_permit H a db = (Inr res, db')"
  shows "later db db'"
  using assms
proof (cases rule: reserve_v2_Inr)
  case replay
  then show ?thesis by (simp add: later_refl)
next
  case (fresh c tot)
  show ?thesis
    by (rule v2_insert_all_Inr [OF fresh(9)]) (meson insert_later(3,4,8) later_trans passport_later)
qed

lemma simple_later:
  "freeze_candidate H ev cand pol de ex mode now db = (Inr u, db') \<Longrightarrow> later db db'"
  "mark_not_run H ev detail now db = (Inr u, db') \<Longrightarrow> later db db'"
  "record_lifecycle_intent H it now db = (Inr u, db') \<Longrightarrow> later db db'"
  "bind_lifecycle_intent H pid ph order now db = (Inr u, db') \<Longrightarrow> later db db'"
  "record_fill fid pid ev q st t db = (Inr u, db') \<Longrightarrow> later db db'"
proof -
  show "later db db'" if "freeze_candidate H ev cand pol de ex mode now db = (Inr u, db')"
    using that unfolding freeze_candidate_def outcome_simps by (elim conjE exE) (meson insert_later(1) later_trans passport_later)
  show "later db db'" if "mark_not_run H ev detail now db = (Inr u, db')"
    using that unfolding mark_not_run_def record_not_run_with_def if_True outcome_simps
    by (elim conjE exE) (meson insert_later(2) later_trans passport_later)
  show "later db db'" if "record_lifecycle_intent H it now db = (Inr u, db')"
    by (rule record_lifecycle_intent_Inr [OF that]) (meson insert_later(5) later_trans passport_later)
  show "later db db'" if "bind_lifecycle_intent H pid ph order now db = (Inr u, db')"
    by (rule bind_lifecycle_intent_Inr [OF that]) (meson insert_later(9) later_trans passport_later)
  show "later db db'" if "record_fill fid pid ev q st t db = (Inr u, db')"
    using that unfolding record_fill_def outcome_simps by (metis insert_later(6))
qed

lemma passive_later:
  "mark_lifecycle_intent_reconciled pid now db = (Inr u, db') \<Longrightarrow> later db db'"
  "record_account_snapshot eq now db = (Inr u, db') \<Longrightarrow> later db db'"
  "append_decision_episode vs p sha db = (Inr b, db') \<Longrightarrow> later db db'"
  "append_outcome_episode vs p sha db = (Inr b, db') \<Longrightarrow> later db db'"
  "append_broker_truth_snapshot vs p sha db = (Inr b, db') \<Longrightarrow> later db db'"
  by (auto simp: mark_lifecycle_intent_reconciled_def record_account_snapshot_def outcome_simps append_decision_episode_def
      append_outcome_episode_def append_broker_truth_snapshot_def later_def rows_evolve_refl split: prod.splits)

lemma control_later:
  assumes "set_control_state_with_passport H st d payload now db = (Inr u, db')"
  shows "later db db'"
proof -
  obtain h where pass: "append_passport H ''CONTROL_STATE_CHANGED'' payload now (put_control_state st d now db) = (Inr h, db')"
    using assms by (auto simp: set_control_state_with_passport_def outcome_simps)
  have "later db (put_control_state st d now db)" by (simp add: later_def rows_evolve_refl put_control_state_def)
  then show ?thesis using passport_later [OF pass] later_trans by blast
qed

lemma run_command_later: "run_command H c db = (Inr u, db') \<Longrightarrow> ledger_inv H db \<Longrightarrow> later db db'"
  by (cases c) (auto simp only: run_command.simps forget_Inr intro: simple_later passive_later control_later authorize_later
      authorize_v2_later submission_later reconcile_later release_later)

lemma step_later: "ledger_inv H db \<Longrightarrow> later db (snd (run_command H c db))"
  using run_command_later [of H c db] durable.rollback [of H c db]
  by (cases "run_command H c db"; cases "fst (run_command H c db)") (auto simp: later_refl)

lemma run_commands_inv: "ledger_inv H db \<Longrightarrow> ledger_inv H (run_commands H cs db)"
  unfolding run_commands_def by (rule durable.run_inv)

lemma run_commands_later: "ledger_inv H db \<Longrightarrow> later db (run_commands H cs db)"
proof (induction cs arbitrary: db)
  case Nil
  then show ?case by (simp add: run_commands_def later_refl)
next
  case (Cons c cs)
  have "ledger_inv H (snd (run_command H c db))" using durable.step_inv Cons.prems by blast
  from later_trans [OF step_later [OF Cons.prems] Cons.IH [OF this]] show ?case
    unfolding run_commands_def foldl.simps .
qed

section \<open>Consistency\<close>

lemma authorized_events:
  assumes "ledger_inv H db" "r \<in> set (reservations db)"
  shows "candidate_for_event (rs_event_id r) db \<noteq> None \<and> \<not> not_run_exists (rs_event_id r) db"
proof -
  have "rs_event_id r \<in> cd_event_id ` set (candidates db)" "rs_event_id r \<notin> nr_event_id ` set (not_run db)"
    using assms by (simp_all add: ledger_inv_def authorized_ok_def)
  then show ?thesis by (force simp: candidate_for_event_def not_run_exists_def)
qed

text \<open>
  C1. Whatever commands the program issues on a new ledger, in whatever order and with
  whatever arguments, the tables stay consistent: the stored passport verifies in full; an event has at
  most one reservation and one permit, a permit has at most one submission and a broker order is bound to at most one
  permit; every permit owns the reservation of its event, in a state that fits its own (RESERVED until the
  broker answers, CONSUMED or RELEASED once filled, RELEASED once cancelled); and every
  reservation belongs to a frozen candidate that was not marked NOT_RUN.
\<close>

theorem ledger_consistent:
  "let db = run_commands H cs empty_ledger
   in (\<exists>es. stored_passport_events db = Inr es \<and> verify_passport H es = Inr (length (passport_events db)))
    \<and> distinct (map rs_event_id (reservations db)) \<and> distinct (map pm_event_id (permits db))
    \<and> distinct (map sb_permit_id (submissions db)) \<and> distinct (map sb_broker_order_id (submissions db))
    \<and> (\<forall>p \<in> set (permits db). \<exists>r \<in> set (reservations db).
          rs_event_id r = pm_event_id p \<and> rs_id r = pm_reservation_id p \<and> allowed_states (pm_state p) (rs_state r))
    \<and> (\<forall>r \<in> set (reservations db). candidate_for_event (rs_event_id r) db \<noteq> None \<and> \<not> not_run_exists (rs_event_id r) db)"
proof -
  let ?db = "run_commands H cs empty_ledger"
  have inv: "ledger_inv H ?db" by (rule run_commands_inv [OF empty_ledger_inv])
  then have "\<exists>es. stored_passport_events ?db = Inr es \<and> verify_passport H es = Inr (length (passport_events ?db))"
    by (intro passport_ok_verifies) (simp add: ledger_inv_def)
  moreover have "\<forall>r \<in> set (reservations ?db). candidate_for_event (rs_event_id r) ?db \<noteq> None \<and> \<not> not_run_exists (rs_event_id r) ?db"
    using authorized_events inv by blast
  ultimately show ?thesis
    using inv by (simp add: Let_def ledger_inv_def coupled_ok_def reservation_keys_def permit_keys_def submission_keys_def)
qed

text \<open>
  C22. History is never rewritten. Along every run that starts in a consistent ledger,
  candidates, abstentions, submissions, fills, passport events and version 2 bindings are
  only appended; a reservation keeps its identity, event, amount, underlying and creation
  time and its state only moves forwards, RESERVED to CONSUMED to RELEASED; a permit only moves
  from ISSUED to SUBMITTED to FILLED or CANCELLED.
\<close>

theorem history_append_only:
  assumes "ledger_inv H db"
  shows "prefix (candidates db) (candidates (run_commands H cs db)) \<and> prefix (not_run db) (not_run (run_commands H cs db))
    \<and> prefix (passport_events db) (passport_events (run_commands H cs db))
    \<and> prefix (submissions db) (submissions (run_commands H cs db)) \<and> prefix (fills db) (fills (run_commands H cs db))
    \<and> prefix (v2_reservations db) (v2_reservations (run_commands H cs db))
    \<and> rows_evolve reservation_evolves (reservations db) (reservations (run_commands H cs db))
    \<and> rows_evolve permit_evolves (permits db) (permits (run_commands H cs db))"
  using run_commands_later [OF assms, of cs] unfolding later_def .

section \<open>Budgets\<close>

lemma sum_amounts_append:
  "sum_amounts t (xs @ ys) = rbind (sum_amounts t xs) (\<lambda>s. sum_amounts s ys)"
  by (induction t xs rule: sum_amounts.induct) (auto simp: guarded_def rbind_def split: option.splits sum.splits)

text \<open>
  C4. A version 1 authorization stays inside its budgets, measured on the ledger it leaves
  behind: the open exposure that the ledger itself computes is the previous exposure plus
  the new amount and does not exceed the aggregate limit, the number of open expressions
  does not exceed its limit, nor does the number of entries of the day; and the event's
  reservation is the new one, RESERVED, with an ISSUED permit bound to it.
\<close>

theorem authorization_within_budget:
  assumes "reserve_and_issue_permit H ev sy cand pol de ex am agg mo me pm now db = (Inr (rid, pid, sha), db')"
  shows "\<exists>held. open_reservation_total db = Inr held \<and> open_reservation_total db' = Inr (dec_add held am)
      \<and> dec_le (dec_add held am) agg
      \<and> open_reservation_count db' \<le> mo \<and> open_reservation_count db' = open_reservation_count db + 1
      \<and> entries_today now db' \<le> me
      \<and> reservation_for_event ev db' = Some (new_reservation rid ev (dec_str am) sy now)
      \<and> new_permit pid ev rid sha now \<in> set (permits db')"
proof (rule reserve_and_issue_Inr [OF assms])
  fix c held d1 d2 d3 h1 h2
  assume counts: "entries_today now db < me" "open_reservation_count db < mo" and none: "reservation_for_event ev db = None"
    and held: "open_reservation_total db = Inr held" "dec_le (dec_add held am) agg"
    and am: "is_finite am" "\<not> dec_lt am dec_zero"
    and rows: "insert_reservation_row (new_reservation (''rsv-'' @ ev) ev (dec_str am) sy now) db = (Inr (), d1)"
      "insert_permit_row (new_permit (permit_id pm) ev (''rsv-'' @ ev) (H (debit_vertical_permit_bytes pm)) now) d1 = (Inr (), d2)"
    and pass: "append_passport H ''RESERVATION_HELD'' (v1_payload H ev cand pol de ex am pm) now d2 = (Inr h1, d3)"
      "append_passport H ''PERMIT_ISSUED'' (v1_payload H ev cand pol de ex am pm) now d3 = (Inr h2, db')"
    and res: "(rid, pid, sha) = (''rsv-'' @ ev, permit_id pm, H (debit_vertical_permit_bytes pm))"
  have tables: "reservations db' = reservations db @ [new_reservation rid ev (dec_str am) sy now]"
    "permits db' = permits db @ [new_permit pid ev rid sha now]"
    using rows pass res by (auto simp: insert_Inr append_passport_Inr)
  have new: "is_open (new_reservation rid ev (dec_str am) sy now)"
    "rs_amount (new_reservation rid ev (dec_str am) sy now) = dec_str am"
    "rs_event_id (new_reservation rid ev (dec_str am) sy now) = ev"
    by (simp_all add: is_open_def new_reservation_def)
  have "open_reservation_total db' = Inr (dec_add held am)"
    using held(1) am new dec_parse_str [OF am(1)]
    by (simp add: open_reservation_total_def tables sum_amounts_append guarded_def amount_text_def)
  moreover have "entries_today now db' \<le> me" "open_reservation_count db' \<le> mo"
    "open_reservation_count db' = open_reservation_count db + 1"
    using counts new(1) by (simp_all add: entries_today_def open_reservation_count_def tables)
  moreover have "reservation_for_event ev db' = Some (new_reservation rid ev (dec_str am) sy now)"
    using none new(3) by (simp add: reservation_for_event_def tables del: row_where_None)
  ultimately show ?thesis using held by (simp add: tables)
qed

section \<open>Nothing is used twice\<close>

lemma rows_evolve_keys:
  assumes "rows_evolve R xs ys" "\<And>x y. R x y \<Longrightarrow> key y = key x"
  shows "key ` set xs \<subseteq> key ` set ys"
proof
  fix k
  assume "k \<in> key ` set xs"
  then obtain i where i: "i < length xs" "k = key (xs ! i)" by (auto simp: in_set_conv_nth)
  then have "R (xs ! i) (ys ! i)" "i < length ys" using assms(1) by (auto simp: rows_evolve_def list_all2_conv_all_nth)
  then show "k \<in> key ` set ys" using assms(2) [of "xs ! i" "ys ! i"] i(2) by (metis imageI nth_mem)
qed

lemma reserved_iff: "reservation_for_event ev db \<noteq> None \<longleftrightarrow> ev \<in> rs_event_id ` set (reservations db)"
  by (auto simp: reservation_for_event_def)

lemma reservation_evolves_event: "reservation_evolves r r' \<Longrightarrow> rs_event_id r' = rs_event_id r"
  by (cases r; cases r') (simp add: reservation_evolves_def)

lemma later_reserved: "later db db' \<Longrightarrow> reservation_for_event ev db \<noteq> None \<Longrightarrow> reservation_for_event ev db' \<noteq> None"
  using rows_evolve_keys [of reservation_evolves "reservations db" "reservations db'" rs_event_id] reservation_evolves_event
  unfolding reserved_iff later_def by blast

lemma submission_present:
  assumes "record_submission H ev pid order now w db = (Inr u, db')"
  shows "pid \<in> sb_permit_id ` set (submissions db')"
proof (rule record_submission_Inr [OF assms])
  fix p d1
  assume sb: "insert_submission \<lparr>sb_permit_id = pid, sb_event_id = ev, sb_broker_order_id = order, sb_submitted_at = isoformat_z now\<rparr>
        (set_permit_state pid SUBMITTED now db) = (Inr (), d1)"
    and pass: "(if w then \<exists>h. append_passport H ''ORDER_SUBMITTED''
        (JObj [(''event_id'', JStr ev), (''permit_id'', JStr pid), (''broker_order_id'', JStr order)]) now d1 = (Inr h, db')
      else db' = d1)"
  have "submissions db' = submissions d1" using pass by (cases w) (auto simp: append_passport_Inr)
  then show ?thesis using sb by (simp add: insert_Inr)
qed

lemma record_submission_refused:
  assumes "ledger_inv H db" "pid \<in> sb_permit_id ` set (submissions db)"
  shows "\<exists>e. record_submission H ev pid order now w db = (Inl e, db)"
proof -
  have "record_submission H ev pid order now w db \<noteq> (Inr u, db')" for u db'
  proof
    assume run: "record_submission H ev pid order now w db = (Inr u, db')"
    obtain p where p: "permit_row pid db = Some p" "pm_state p = ISSUED" by (rule record_submission_Inr [OF run])
    have "submitted_ok (permits db) (submissions db)" using assms(1) by (simp add: ledger_inv_def)
    then show False using permit_row_Some [OF p(1)] p(2) assms(2) unfolding submitted_ok_def by blast
  qed
  moreover have "rolls_back (record_submission H ev pid order now w)" by (simp add: record_submission_def)
  ultimately show ?thesis
    by (cases "record_submission H ev pid order now w db"; cases "fst (record_submission H ev pid order now w db)")
      (auto simp: rolls_back_def)
qed

text \<open>
  C8. A permit is used once: after its submission to the broker has been recorded, and
  whatever the program does to the ledger afterwards, every further attempt to record a
  submission of the same permit, with any order identity, is refused and changes nothing.
\<close>

theorem permit_used_once:
  assumes "ledger_inv H db" "record_submission H ev pid order now w db = (Inr (), db')"
  shows "\<exists>e. record_submission H ev2 pid order2 now2 w2 (run_commands H cs db') = (Inl e, run_commands H cs db')"
proof -
  have inv: "ledger_inv H db'" using record_submission_inv assms by blast
  have "sb_permit_id ` set (submissions db') \<subseteq> sb_permit_id ` set (submissions (run_commands H cs db'))"
    using run_commands_later [OF inv, of cs] unfolding later_def by (meson image_mono set_mono_prefix)
  then show ?thesis
    using submission_present [OF assms(2)] record_submission_refused [OF run_commands_inv [OF inv]] by blast
qed

text \<open>
  C21. An event is reserved once: as soon as it has a reservation, in whatever state, no later
  authorization of version 1 for the same event succeeds, and neither does an abstention.
\<close>

theorem event_reserved_once:
  assumes "ledger_inv H db" "reservation_for_event ev db \<noteq> None"
  shows "(\<nexists>res db'. reserve_and_issue_permit H ev sy cand pol de ex am agg mo me pm now (run_commands H cs db) = (Inr res, db'))
    \<and> (\<nexists>db'. mark_not_run H ev detail now (run_commands H cs db) = (Inr (), db'))"
proof -
  have some: "reservation_for_event ev (run_commands H cs db) \<noteq> None"
    using later_reserved run_commands_later assms by blast
  have "reserve_and_issue_permit H ev sy cand pol de ex am agg mo me pm now (run_commands H cs db) \<noteq> (Inr res, db')" for res db'
    using some by (auto elim: reserve_and_issue_Inr)
  moreover have "mark_not_run H ev detail now (run_commands H cs db) \<noteq> (Inr (), db')" for db'
    using some by (auto simp: mark_not_run_def record_not_run_with_def outcome_simps)
  ultimately show ?thesis by blast
qed

section \<open>Capacity of version 2\<close>

definition totals_finite :: "open_totals \<Rightarrow> bool" where
  "totals_finite tot = (is_finite (consumed_total tot) \<and> is_finite (reserved_total tot)
     \<and> is_finite (consumed_underlying tot) \<and> is_finite (reserved_underlying tot))"

lemma v2_stored_amount_finite: "v2_stored_amount t path b = Inr d \<Longrightarrow> is_finite d"
  by (auto simp: v2_stored_amount_def guarded_Inr amount_text_def split: option.splits)

lemma v2_open_totals_finite:
  "v2_open_totals vs sy tot rs = Inr tot' \<Longrightarrow> totals_finite tot \<Longrightarrow> totals_finite tot'"
proof (induction vs sy tot rs rule: v2_open_totals.induct)
  case (2 vs sy tot r rest)
  then obtain v a b where v: "row_where (\<lambda>v. v_reservation_id v = rs_id r) vs = Some v"
    "v2_stored_amount (rs_amount r) ''reservations.amount'' True = Inr a"
    "v2_stored_amount (v_amount v) ''v2_reservations.amount'' True = Inr b" "dec_eq a b"
    "v2_open_totals vs sy (add_open_row sy r a tot) rest = Inr tot'"
    by (auto simp: rbind_Inr split: option.splits if_splits)
  have "totals_finite (add_open_row sy r a tot)"
    using 2(3) v2_stored_amount_finite [OF v(2)] by (simp add: add_open_row_def totals_finite_def Let_def)
  then show ?case using 2(1) [OF v(1) _ v(5)] v(4) by simp
qed simp

lemma v2_arguments:
  assumes "first_reject (v2_argument_guards H a) = None"
  shows "is_finite (va_amount a)" "is_finite (va_account_equity a)" "is_finite (va_account_cash a)" "is_finite (va_risk_tier a)"
    "is_finite (va_max_per_underlying_fraction a)" "is_finite (va_max_aggregate_fraction a)"
    "dec_eq (va_max_per_underlying_fraction a) (Fin 20 (-2))" "dec_eq (va_max_aggregate_fraction a) (Fin 50 (-2))"
    "permit_id (va_permit a) = debit_vertical_permit_id H (va_permit a)" "quantity (va_permit a) = va_quantity a"
    "dec_eq (maximum_loss (va_permit a)) (va_amount a)" "event_run_id (va_permit a) = va_event_id a"
    "dec_le (va_account_cash a) (va_account_equity a)"
proof -
  have guards: "\<And>g. g \<in> set (v2_argument_guards H a) \<Longrightarrow> \<not> fst g"
    using assms by (auto simp: first_reject_None)
  have mem: "amount_text (va_amount a) ''v2_authorization.amount'' \<in> set (v2_argument_guards H a)"
    "amount_text (va_account_equity a) ''v2_authorization.account_equity'' \<in> set (v2_argument_guards H a)"
    "amount_text (va_account_cash a) ''v2_authorization.account_cash'' \<in> set (v2_argument_guards H a)"
    "amount_text (va_risk_tier a) ''v2_authorization.risk_tier'' \<in> set (v2_argument_guards H a)"
    "amount_text (va_max_per_underlying_fraction a) ''v2_authorization.max_per_underlying_fraction'' \<in> set (v2_argument_guards H a)"
    "amount_text (va_max_aggregate_fraction a) ''v2_authorization.max_aggregate_fraction'' \<in> set (v2_argument_guards H a)"
    by (simp_all add: v2_argument_guards_def positive_limit_def v2_risk_tier_def)
  show fin: "is_finite (va_amount a)" "is_finite (va_account_equity a)" "is_finite (va_account_cash a)" "is_finite (va_risk_tier a)"
    "is_finite (va_max_per_underlying_fraction a)" "is_finite (va_max_aggregate_fraction a)"
    using guards [OF mem(1)] guards [OF mem(2)] guards [OF mem(3)] guards [OF mem(4)] guards [OF mem(5)] guards [OF mem(6)]
    by (simp_all add: amount_text_def)
  have tests: "(\<not> dec_eq (va_max_per_underlying_fraction a) (Fin 20 (-2)) \<or> \<not> dec_eq (va_max_aggregate_fraction a) (Fin 50 (-2)),
      lrej POLICY_UNVERIFIED_CONSTANT ''v2_authorization.capacity_fractions'') \<in> set (v2_argument_guards H a)"
    "(permit_id (va_permit a) \<noteq> debit_vertical_permit_id H (va_permit a), lrej UNSUPPORTED_INPUT ''v2_authorization.permit_id'')
       \<in> set (v2_argument_guards H a)"
    "(event_run_id (va_permit a) \<noteq> va_event_id a \<or> decision_sha256 (va_permit a) \<noteq> va_decision_sha256 a
           \<or> policy_sha256 (va_permit a) \<noteq> va_policy_sha256 a \<or> permit_underlying (va_permit a) \<noteq> va_underlying a
           \<or> quantity (va_permit a) \<noteq> va_quantity a \<or> \<not> dec_eq (maximum_loss (va_permit a)) (va_amount a),
           lrej UNSUPPORTED_INPUT ''v2_authorization.permit'') \<in> set (v2_argument_guards H a)"
    "(dec_lt (va_account_equity a) (va_account_cash a), lrej CONTRADICTORY_TRUTH ''v2_authorization.account_cash'')
       \<in> set (v2_argument_guards H a)"
    by (simp_all add: v2_argument_guards_def)
  show "dec_eq (va_max_per_underlying_fraction a) (Fin 20 (-2))" "dec_eq (va_max_aggregate_fraction a) (Fin 50 (-2))"
    using guards [OF tests(1)] by simp_all
  show "permit_id (va_permit a) = debit_vertical_permit_id H (va_permit a)" using guards [OF tests(2)] by simp
  show "quantity (va_permit a) = va_quantity a" "dec_eq (maximum_loss (va_permit a)) (va_amount a)"
    "event_run_id (va_permit a) = va_event_id a" using guards [OF tests(3)] by simp_all
  show "dec_le (va_account_cash a) (va_account_equity a)" using guards [OF tests(4)] fin by (simp add: dec_order)
qed

definition identical_replay :: "hash_function \<Rightarrow> v2_authorization \<Rightarrow> ledger \<Rightarrow> v2_receipt \<Rightarrow> bool" where
  "identical_replay H a db rc =
     (\<exists>v \<in> set (v2_reservations db). \<exists>r \<in> set (reservations db). \<exists>p \<in> set (permits db).
        same_binding v (v2_expected_row H a)
        \<and> rs_id r = v_reservation_id v \<and> rs_state r = RESERVED \<and> pm_id p = v_permit_id v \<and> pm_state p = ISSUED
        \<and> v2_receipt_from_row v = Inr rc)"

text \<open>The rows a new authorization leaves: one reservation, one permit and one binding, all for its own arguments.\<close>

definition rows_authorized :: "hash_function \<Rightarrow> v2_authorization \<Rightarrow> ledger \<Rightarrow> ledger \<Rightarrow> bool" where
  "rows_authorized H a db db' =
     (reservations db' = reservations db
        @ [new_reservation (va_allocation_reservation_id a) (va_event_id a) (v2_decimal_text (va_amount a)) (va_underlying a) (va_now a)]
      \<and> permits db' = permits db
        @ [new_permit (permit_id (va_permit a)) (va_event_id a) (va_allocation_reservation_id a)
             (H (debit_vertical_permit_bytes (va_permit a))) (va_now a)]
      \<and> v2_reservations db' = v2_reservations db @ [v2_expected_row H a])"

lemma v2_insert_all_rows:
  assumes "v2_insert_all H a db = (Inr rc, db')"
  shows "rows_authorized H a db db'" "rc = v2_new_receipt H a"
  using assms by (auto elim!: v2_insert_all_Inr simp: rows_authorized_def insert_Inr append_passport_Inr insert_v2_row_def split: if_splits)

lemma v2_replay_identical:
  assumes "v2_replay (v2_expected_row H a) (v2_reservation_for_event ev db) (v2_reservation_for_opportunity op db) = Some (Inr rc)"
  shows "identical_replay H a db rc"
proof -
  obtain v where v: "(v, RESERVED, ISSUED) \<in> set (v2_bindings db)" "same_binding v (v2_expected_row H a)" "v2_receipt_from_row v = Inr rc"
    using assms by (auto simp: v2_replay_def Let_def v2_reservation_for_event_def v2_reservation_for_opportunity_def
        dest!: row_where_Some split: option.splits if_splits)
  from v(1) obtain r p where "v \<in> set (v2_reservations db)" "row_where (\<lambda>r. rs_id r = v_reservation_id v) (reservations db) = Some r"
    "permit_row (v_permit_id v) db = Some p" "rs_state r = RESERVED" "pm_state p = ISSUED"
    by (auto simp: v2_bindings_def v2_join_def List.map_filter_def split: option.splits)
  then show ?thesis
    using v(2,3) by (auto simp: identical_replay_def permit_row_def dest!: row_where_Some intro!: bexI [of _ v] bexI [of _ r] bexI [of _ p])
qed

text \<open>
  C5. A version 2 authorization succeeds in two ways only. Either it replays: the ledger already holds a binding
  with every value of this request but the time, whose reservation is still RESERVED and whose permit is still ISSUED,
  the receipt is the one of that binding, and nothing changes. Or it is new: exactly one reservation,
  one permit and one binding for these arguments are added, the receipt is theirs, and every cap of the owner's policy holds, measured on
  all open reservations of the ledger: the debit is at most its tier of current equity; the
  debit together with everything consumed or reserved is at most 50 percent of equity, on
  its underlying at most 20 percent; and it is covered by cash that is neither borrowed nor
  already reserved. Its amount is the maximum loss of the very permit that is issued.
\<close>

theorem v2_authorization_within_caps:
  assumes "reserve_v2_and_issue_permit H a db = (Inr rc, db')"
  shows "db' = db \<and> identical_replay H a db rc
   \<or> rows_authorized H a db db' \<and> rc = v2_new_receipt H a
     \<and> (\<exists>tot. v2_open_totals (v2_reservations db) (va_underlying a) no_totals (filter is_open (reservations db)) = Inr tot
     \<and> dval (va_amount a) \<le> dval (dec_mul (va_risk_tier a) (va_account_equity a))
     \<and> dval (dec_add (dec_add (consumed_total tot) (reserved_total tot)) (va_amount a))
         \<le> dval (dec_mul (va_max_aggregate_fraction a) (va_account_equity a)) \<and> dval (va_max_aggregate_fraction a) = 1 / 2
     \<and> dval (dec_add (dec_add (consumed_underlying tot) (reserved_underlying tot)) (va_amount a))
         \<le> dval (dec_mul (va_max_per_underlying_fraction a) (va_account_equity a)) \<and> dval (va_max_per_underlying_fraction a) = 1 / 5
     \<and> dval (va_amount a) \<le> dval (dec_sub (va_account_cash a) (reserved_total tot))
     \<and> dval (va_account_cash a) \<le> dval (va_account_equity a)
     \<and> dec_eq (maximum_loss (va_permit a)) (va_amount a) \<and> quantity (va_permit a) = va_quantity a
     \<and> permit_id (va_permit a) = debit_vertical_permit_id H (va_permit a))"
  using assms
proof (cases rule: reserve_v2_Inr)
  case replay
  then show ?thesis using v2_replay_identical by blast
next
  case (fresh c tot)
  note args = v2_arguments [OF fresh(8)]
  have fin: "totals_finite tot" using v2_open_totals_finite [OF fresh(6)] by (simp add: totals_finite_def no_totals_def)
  have caps: "dval (va_amount a) \<le> dval (dec_mul (va_risk_tier a) (va_account_equity a))"
    "dval (dec_add (dec_add (consumed_total tot) (reserved_total tot)) (va_amount a))
         \<le> dval (dec_mul (va_max_aggregate_fraction a) (va_account_equity a))"
    "dval (dec_add (dec_add (consumed_underlying tot) (reserved_underlying tot)) (va_amount a))
         \<le> dval (dec_mul (va_max_per_underlying_fraction a) (va_account_equity a))"
    "dval (va_amount a) \<le> dval (dec_sub (va_account_cash a) (reserved_total tot))"
    using fresh(7) args fin by (simp_all add: v2_capacity_guards_def totals_finite_def dec_lt_iff not_less)
  have "dval (va_max_aggregate_fraction a) = dval (Fin 50 (-2))" "dval (va_max_per_underlying_fraction a) = dval (Fin 20 (-2))"
    "dval (va_account_cash a) \<le> dval (va_account_equity a)"
    using args by (simp_all add: dec_order del: dval.simps)
  then show ?thesis using caps args fresh(6) v2_insert_all_rows [OF fresh(9)] by (simp add: power_int_minus del: dec_eq.simps)
qed

end
