(* ===== verification/Ledger_Witnesses.thy ===== *)
theory Ledger_Witnesses
  imports Ledger_Properties
begin

text \<open>
  A concrete day of the ledger: a candidate is frozen, its permit is authorized and its
  order is recorded. The general theorems of the ledger are applied to this run, which shows that their
  hypotheses can hold.
\<close>

definition sha :: "char \<Rightarrow> string" where "sha c = replicate 64 c"

definition sample_freeze :: ledger_command where
  "sample_freeze = FreezeCandidate ''ev-1'' ''cand-1'' (sha (CHR ''c'')) (sha (CHR ''a'')) (sha (CHR ''e'')) ''PAPER'' (utc_at 0)"

definition frozen_ledger :: ledger where
  "frozen_ledger = run_commands const_hash [sample_freeze] empty_ledger"

definition sample_permit_id :: string where
  "sample_permit_id = ''rd-permit-'' @ replicate 32 (CHR ''a'')"

definition sample_authorize :: ledger_command where
  "sample_authorize = Authorize ''ev-1'' ''SPY'' ''cand-1'' (sha (CHR ''c'')) (sha (CHR ''a'')) (sha (CHR ''e''))
     (Fin 12500 (-2)) (Fin 2000 0) 3 3 sample_permit (utc_at 0)"

definition authorized_ledger :: ledger where
  "authorized_ledger = run_commands const_hash [sample_freeze, sample_authorize] empty_ledger"

lemmas operation_defs = obind_def othen_def oreturn_def exec_def query_def result_of_def require_def checked_def
  transaction_def on_integrity_def

lemma sample_shas: "is_sha256 (sha (CHR ''a''))" "is_sha256 (sha (CHR ''c''))" "is_sha256 (sha (CHR ''e''))" "is_sha256 (sha (CHR ''1''))"
  "is_sha256 (sha (CHR ''2''))"
  by code_simp+

lemma sample_identifiers:
  "exact_text ''ev-1''" "exact_text ''cand-1''" "exact_text ''PAPER''" "exact_text ''SPY''" "upper ''SPY'' = ''SPY''"
  "exact_text ''order-1''" "exact_text ''opp-1''" "exact_text sample_permit_id" "is_utc (utc_at 0)"
  "exact_text ''CANDIDATE_FROZEN''" "exact_text ''RESERVATION_HELD''" "exact_text ''PERMIT_ISSUED''" "exact_text ''ORDER_SUBMITTED''"
  by code_simp+

lemma sample_permit_identity:
  "debit_vertical_permit_id const_hash sample_permit = sample_permit_id" "permit_id sample_permit = sample_permit_id"
  by code_simp+

lemmas sample_facts = sample_shas sample_identifiers sample_permit_identity

lemma frozen_ledger_rows:
  "frozen_ledger = empty_ledger\<lparr>
     candidates := [new_candidate ''ev-1'' ''cand-1'' (sha (CHR ''c'')) (sha (CHR ''a'')) (sha (CHR ''e'')) ''PAPER'' (utc_at 0)],
     passport_events := passport_events frozen_ledger\<rparr>"
  "fst (run_command const_hash sample_freeze empty_ledger) = Inr ()"
  by (simp_all add: frozen_ledger_def run_commands_def sample_freeze_def freeze_candidate_def operation_defs Let_def validator_defs
      validated_candidate_def sample_facts candidate_guards_def lookup_defs empty_ledger_def insert_candidate_def
      append_passport_def)


lemma run_commands_Cons: "run_commands H (c # cs) db = run_commands H cs (snd (run_command H c db))"
  by (simp add: run_commands_def)

lemma run_commands_Nil [simp]: "run_commands H [] db = db"
  by (simp add: run_commands_def)

lemma frozen_ledger_inv: "ledger_inv const_hash frozen_ledger"
  unfolding frozen_ledger_def by (rule run_commands_inv [OF empty_ledger_inv])

definition sample_reservation :: reservation_row where
  "sample_reservation = new_reservation ''rsv-ev-1'' ''ev-1'' (dec_str (Fin 12500 (-2))) ''SPY'' (utc_at 0)"

lemma frozen_tables:
  "candidates frozen_ledger = [new_candidate ''ev-1'' ''cand-1'' (sha (CHR ''c'')) (sha (CHR ''a'')) (sha (CHR ''e'')) ''PAPER'' (utc_at 0)]"
  "not_run frozen_ledger = []" "reservations frozen_ledger = []" "permits frozen_ledger = []" "submissions frozen_ledger = []"
  "v2_reservations frozen_ledger = []"
  by (subst frozen_ledger_rows, simp add: empty_ledger_def)+

lemma sample_authorized:
  obtains db' where "reserve_and_issue_permit const_hash ''ev-1'' ''SPY'' ''cand-1'' (sha (CHR ''c'')) (sha (CHR ''a'')) (sha (CHR ''e''))
     (Fin 12500 (-2)) (Fin 2000 0) 3 3 sample_permit (utc_at 0) frozen_ledger
   = (Inr (''rsv-ev-1'', sample_permit_id, sha (CHR ''a'')), db')"
    "reservations db' = [sample_reservation]" "permits db' = [new_permit sample_permit_id ''ev-1'' ''rsv-ev-1'' (sha (CHR ''a'')) (utc_at 0)]"
    "submissions db' = []"
  by (simp add: reserve_and_issue_permit_def operation_defs Let_def validator_defs sample_facts lookup_defs frozen_tables
      frozen_candidate_guards_def new_candidate_def entries_today_def open_reservation_count_def open_reservation_total_def aligned_def
      dec_lt_def insert_reservation_def insert_reservation_row_def new_reservation_def insert_permit_row_def new_permit_def
      const_hash_def dfix_exact prec_def sha_def [symmetric] sample_reservation_def append_passport_def)


lemma authorized_ledger_eq:
  "reserve_and_issue_permit const_hash ''ev-1'' ''SPY'' ''cand-1'' (sha (CHR ''c'')) (sha (CHR ''a'')) (sha (CHR ''e''))
     (Fin 12500 (-2)) (Fin 2000 0) 3 3 sample_permit (utc_at 0) frozen_ledger
   = (Inr (''rsv-ev-1'', sample_permit_id, sha (CHR ''a'')), authorized_ledger)"
  "reservations authorized_ledger = [sample_reservation]"
  "permits authorized_ledger = [new_permit sample_permit_id ''ev-1'' ''rsv-ev-1'' (sha (CHR ''a'')) (utc_at 0)]"
  "submissions authorized_ledger = []"
proof -
  obtain db' where db': "reserve_and_issue_permit const_hash ''ev-1'' ''SPY'' ''cand-1'' (sha (CHR ''c'')) (sha (CHR ''a'')) (sha (CHR ''e''))
     (Fin 12500 (-2)) (Fin 2000 0) 3 3 sample_permit (utc_at 0) frozen_ledger
   = (Inr (''rsv-ev-1'', sample_permit_id, sha (CHR ''a'')), db')"
    "reservations db' = [sample_reservation]" "permits db' = [new_permit sample_permit_id ''ev-1'' ''rsv-ev-1'' (sha (CHR ''a'')) (utc_at 0)]"
    "submissions db' = []" by (rule sample_authorized)
  moreover have "authorized_ledger = db'"
    using db'(1) by (simp add: authorized_ledger_def run_commands_Cons frozen_ledger_def sample_authorize_def forget_def)
  ultimately show "reserve_and_issue_permit const_hash ''ev-1'' ''SPY'' ''cand-1'' (sha (CHR ''c'')) (sha (CHR ''a'')) (sha (CHR ''e''))
     (Fin 12500 (-2)) (Fin 2000 0) 3 3 sample_permit (utc_at 0) frozen_ledger
   = (Inr (''rsv-ev-1'', sample_permit_id, sha (CHR ''a'')), authorized_ledger)"
  "reservations authorized_ledger = [sample_reservation]"
  "permits authorized_ledger = [new_permit sample_permit_id ''ev-1'' ''rsv-ev-1'' (sha (CHR ''a'')) (utc_at 0)]"
  "submissions authorized_ledger = []" by simp_all
qed

lemma authorized_ledger_inv: "ledger_inv const_hash authorized_ledger"
  unfolding authorized_ledger_def by (rule run_commands_inv [OF empty_ledger_inv])

theorem ledger_consistent_witness:
  "candidate_for_event ''ev-1'' authorized_ledger \<noteq> None \<and> \<not> not_run_exists ''ev-1'' authorized_ledger"
  using ledger_consistent [of const_hash "[sample_freeze, sample_authorize]"] authorized_ledger_eq(2)
  by (simp add: authorized_ledger_def Let_def sample_reservation_def new_reservation_def)

theorem history_append_only_witness:
  "prefix (passport_events frozen_ledger) (passport_events (run_commands const_hash [sample_authorize] frozen_ledger))"
  using history_append_only [OF frozen_ledger_inv, of "[sample_authorize]"] by blast

theorem authorization_within_budget_witness:
  "entries_today (utc_at 0) authorized_ledger \<le> 3 \<and> open_reservation_count authorized_ledger = 1"
  using authorization_within_budget [OF authorized_ledger_eq(1)]
  by (auto simp: open_reservation_count_def frozen_tables)

lemma sample_submission:
  "fst (record_submission const_hash ''ev-1'' sample_permit_id ''order-1'' (utc_at 0) True authorized_ledger) = Inr ()"
  by (simp add: record_submission_def operation_defs Let_def validator_defs sample_facts lookup_defs authorized_ledger_eq
      owns_event_def reservation_in_state_def sample_reservation_def new_reservation_def new_permit_def
      transition_permit_in_transaction_def set_permit_state_def update_where_def insert_submission_def append_passport_def)

theorem permit_used_once_witness:
  "\<exists>db' e. record_submission const_hash ''ev-1'' sample_permit_id ''order-1'' (utc_at 0) True authorized_ledger = (Inr (), db')
     \<and> record_submission const_hash ''ev-1'' sample_permit_id ''order-2'' (utc_at 0) True db' = (Inl e, db')"
proof -
  obtain db' where "record_submission const_hash ''ev-1'' sample_permit_id ''order-1'' (utc_at 0) True authorized_ledger = (Inr (), db')"
    using sample_submission by (metis prod.collapse)
  with permit_used_once [OF authorized_ledger_inv this, of "''ev-1''" "''order-2''" "utc_at 0" True "[]"]
  show ?thesis by auto
qed

theorem event_reserved_once_witness:
  "\<nexists>db'. mark_not_run const_hash ''ev-1'' ''late'' (utc_at 0) (run_commands const_hash [] authorized_ledger) = (Inr (), db')"
proof -
  have "reservation_for_event ''ev-1'' authorized_ledger \<noteq> None"
    by (simp add: lookup_defs authorized_ledger_eq sample_reservation_def new_reservation_def)
  from event_reserved_once [OF authorized_ledger_inv this] show ?thesis by blast
qed


section \<open>A version 2 authorization\<close>

definition sample_v2 :: v2_authorization where
  "sample_v2 =
     \<lparr>va_event_id = ''ev-1'', va_candidate_id = ''cand-1'', va_underlying = ''SPY'', va_policy_sha256 = sha (CHR ''c''),
      va_decision_sha256 = sha (CHR ''a''), va_expression_sha256 = sha (CHR ''e''), va_opportunity_id = ''opp-1'',
      va_opportunity_sha256 = sha (CHR ''1''), va_allocation_reservation_id = sha (CHR ''2''), va_risk_tier = Fin 5 (-2),
      va_quantity = 1, va_amount = Fin 125 0, va_account_equity = Fin 4000 0, va_account_cash = Fin 3000 0,
      va_max_per_underlying_fraction = Fin 20 (-2), va_max_aggregate_fraction = Fin 50 (-2),
      va_permit = sample_permit, va_now = utc_at 0\<rparr>"

lemma sample_v2_arguments: "first_reject (v2_argument_guards const_hash sample_v2) = None"
proof -
  have "event_run_id sample_permit = ''ev-1''" "decision_sha256 sample_permit = sha (CHR ''a'')" "policy_sha256 sample_permit = sha (CHR ''c'')"
    "permit_underlying sample_permit = ''SPY''" "quantity sample_permit = 1"
    by (simp_all add: sample_permit_def sha_def sample_leg_def permit_underlying_def)
  moreover have "dec_eq (maximum_loss sample_permit) (Fin 125 0)"
    by (simp add: sample_permit_def maximum_loss_def dfix_exact prec_def aligned_def)
  ultimately show ?thesis
    by (simp add: v2_argument_guards_def sample_v2_def validator_defs sample_facts v2_risk_tier_def v2_tier_values_def dec_lt_def
        aligned_def)
qed

lemma sample_v2_fields:
  "va_event_id sample_v2 = ''ev-1''" "va_candidate_id sample_v2 = ''cand-1''" "va_policy_sha256 sample_v2 = sha (CHR ''c'')"
  "va_decision_sha256 sample_v2 = sha (CHR ''a'')" "va_expression_sha256 sample_v2 = sha (CHR ''e'')"
  "va_risk_tier sample_v2 = Fin 5 (-2)" "va_quantity sample_v2 = 1" "va_amount sample_v2 = Fin 125 0" "va_account_equity sample_v2 = Fin 4000 0"
  "va_account_cash sample_v2 = Fin 3000 0" "va_max_per_underlying_fraction sample_v2 = Fin 20 (-2)"
  "va_max_aggregate_fraction sample_v2 = Fin 50 (-2)" "va_now sample_v2 = utc_at 0"
  by (simp_all add: sample_v2_def)

lemma sample_v2_authorized:
  "fst (reserve_v2_and_issue_permit const_hash sample_v2 frozen_ledger) = Inr (v2_new_receipt const_hash sample_v2)"
  "\<exists>r. reservations (snd (reserve_v2_and_issue_permit const_hash sample_v2 frozen_ledger)) = [r]"
  by (simp_all add: reserve_v2_and_issue_permit_def operation_defs Let_def lookup_defs frozen_tables sample_v2_arguments
      frozen_candidate_guards_def v2_replay_def v2_reservation_for_event_def v2_reservation_for_opportunity_def v2_bindings_def
      new_candidate_def v2_capacity_guards_def no_totals_def v2_insert_all_def insert_reservation_row_def new_reservation_def
      insert_permit_row_def new_permit_def insert_v2_row_def v2_expected_row_def append_passport_def sample_v2_fields sample_facts dec_lt_def
      aligned_def dfix_exact prec_def v2_risk_tier_text_def require_identifier_def timestamp_def dec_sub_def)

theorem v2_authorization_within_caps_witness:
  "\<exists>db' (tot :: open_totals). rows_authorized const_hash sample_v2 frozen_ledger db'
     \<and> dval (dec_add (dec_add (consumed_total tot) (reserved_total tot)) (va_amount sample_v2))
        \<le> dval (dec_mul (va_max_aggregate_fraction sample_v2) (va_account_equity sample_v2))
     \<and> dval (va_amount sample_v2) \<le> dval (dec_sub (va_account_cash sample_v2) (reserved_total tot))"
proof -
  obtain db' where run: "reserve_v2_and_issue_permit const_hash sample_v2 frozen_ledger = (Inr (v2_new_receipt const_hash sample_v2), db')"
    using sample_v2_authorized(1) by (metis prod.collapse)
  moreover have "db' \<noteq> frozen_ledger" using sample_v2_authorized(2) run frozen_tables by auto
  ultimately show ?thesis
    using v2_authorization_within_caps [OF run] by blast
qed

end
