(* ===== verification/Universe.thy ===== *)
theory Universe
  imports Permits Decimal_Rounding "HOL-Library.Product_Lexorder"
begin

text \<open>
  \<open>autonomy/universe.py\<close>, first half: the deterministic scan of the liquid universe. Supplied
  observations are validated, tested against the liquidity floor and split into ranked
  candidates and rejections. A malformed input raises \<open>UniverseContractRejected\<close>
  (\<open>UniverseRejected\<close>); a decimal operation without a result raises \<open>InvalidOperation\<close>.
\<close>

section \<open>Enumerations and errors\<close>

datatype product_kind = US_COMMON_STOCK | US_EXCHANGE_TRADED_PRODUCT | OTC | WARRANT | RIGHT | UNIT
  | LEVERAGED_INVERSE_ETP | NON_US_PRODUCT

datatype universe_lane = MARKET_ANCHOR | CATALYST_STOCK

datatype readiness = SCAN_ELIGIBLE | DECISION_READY

datatype scan_exclusion_reason = INACTIVE_PRODUCT | UNTRADABLE_PRODUCT | EXCLUDED_PRODUCT_KIND | INELIGIBLE_MARKET_ANCHOR
  | PRICE_BELOW_FLOOR | QUOTE_MISSING | QUOTE_STALE | QUOTE_CLOCK_SKEW | QUOTE_ONE_SIDED | QUOTE_CROSSED
  | SPREAD_TOO_WIDE | OPTION_LIQUIDITY_INSUFFICIENT

datatype readiness_reason = OPTION_PAGE_INCOMPLETE | NEWS_PAGE_INCOMPLETE | NO_CONTEMPORANEOUS_NEWS

datatype universe_reason = INVALID_DOCUMENT | DUPLICATE_FIELD | MISSING_FIELD | UNKNOWN_FIELD | UNSUPPORTED_SCHEMA
  | NON_CANONICAL_DOCUMENT | INVALID_IDENTIFIER | INVALID_BOOLEAN | FLOAT_FORBIDDEN | INVALID_DECIMAL | INVALID_CLOCK
  | INVALID_COUNT | INVALID_RANK | UNKNOWN_STATE | INCONSISTENT_STATE | DUPLICATE_EXPOSURE | DUPLICATE_SYMBOL
  | DUPLICATE_RESERVATION | IDENTITY_CONFLICT

datatype universe_error = UniverseRejected universe_reason string | InvalidOperation

fun product_kind_value :: "product_kind \<Rightarrow> string" where
  "product_kind_value US_COMMON_STOCK = ''US_COMMON_STOCK''"
| "product_kind_value US_EXCHANGE_TRADED_PRODUCT = ''US_EXCHANGE_TRADED_PRODUCT''"
| "product_kind_value OTC = ''OTC''"
| "product_kind_value WARRANT = ''WARRANT''"
| "product_kind_value RIGHT = ''RIGHT''"
| "product_kind_value UNIT = ''UNIT''"
| "product_kind_value LEVERAGED_INVERSE_ETP = ''LEVERAGED_INVERSE_ETP''"
| "product_kind_value NON_US_PRODUCT = ''NON_US_PRODUCT''"

fun lane_value :: "universe_lane \<Rightarrow> string" where
  "lane_value MARKET_ANCHOR = ''MARKET_ANCHOR''"
| "lane_value CATALYST_STOCK = ''CATALYST_STOCK''"

fun readiness_value :: "readiness \<Rightarrow> string" where
  "readiness_value SCAN_ELIGIBLE = ''SCAN_ELIGIBLE''"
| "readiness_value DECISION_READY = ''DECISION_READY''"

fun readiness_reason_value :: "readiness_reason \<Rightarrow> string" where
  "readiness_reason_value OPTION_PAGE_INCOMPLETE = ''OPTION_PAGE_INCOMPLETE''"
| "readiness_reason_value NEWS_PAGE_INCOMPLETE = ''NEWS_PAGE_INCOMPLETE''"
| "readiness_reason_value NO_CONTEMPORANEOUS_NEWS = ''NO_CONTEMPORANEOUS_NEWS''"

fun exclusion_value :: "scan_exclusion_reason \<Rightarrow> string" where
  "exclusion_value INACTIVE_PRODUCT = ''INACTIVE_PRODUCT''"
| "exclusion_value UNTRADABLE_PRODUCT = ''UNTRADABLE_PRODUCT''"
| "exclusion_value EXCLUDED_PRODUCT_KIND = ''EXCLUDED_PRODUCT_KIND''"
| "exclusion_value INELIGIBLE_MARKET_ANCHOR = ''INELIGIBLE_MARKET_ANCHOR''"
| "exclusion_value PRICE_BELOW_FLOOR = ''PRICE_BELOW_FLOOR''"
| "exclusion_value QUOTE_MISSING = ''QUOTE_MISSING''"
| "exclusion_value QUOTE_STALE = ''QUOTE_STALE''"
| "exclusion_value QUOTE_CLOCK_SKEW = ''QUOTE_CLOCK_SKEW''"
| "exclusion_value QUOTE_ONE_SIDED = ''QUOTE_ONE_SIDED''"
| "exclusion_value QUOTE_CROSSED = ''QUOTE_CROSSED''"
| "exclusion_value SPREAD_TOO_WIDE = ''SPREAD_TOO_WIDE''"
| "exclusion_value OPTION_LIQUIDITY_INSUFFICIENT = ''OPTION_LIQUIDITY_INSUFFICIENT''"

definition UNDERLYING_PRICE_FLOOR :: dec where "UNDERLYING_PRICE_FLOOR = Fin 5 0"
definition MAX_STOCK_SPREAD_BPS :: dec where "MAX_STOCK_SPREAD_BPS = Fin 100 0"
definition MIN_ACTIVE_OPTION_CONTRACTS :: int where "MIN_ACTIVE_OPTION_CONTRACTS = 20"
definition MAX_QUOTE_AGE :: int where "MAX_QUOTE_AGE = seconds (15 * 60)"
definition MARKET_ANCHOR_SYMBOLS :: "string list" where "MARKET_ANCHOR_SYMBOLS = [''QQQ'', ''SPY'']"
definition ELIGIBLE_PRODUCT_KINDS :: "product_kind list" where
  "ELIGIBLE_PRODUCT_KINDS = [US_COMMON_STOCK, US_EXCHANGE_TRADED_PRODUCT]"

section \<open>Validators\<close>

definition urej :: "universe_reason \<Rightarrow> string \<Rightarrow> universe_error" where
  "urej r path = UniverseRejected r path"

definition is_alnum :: "char \<Rightarrow> bool" where
  "is_alnum c = (let n = of_char c :: nat in 48 \<le> n \<and> n \<le> 57 \<or> 65 \<le> n \<and> n \<le> 90 \<or> 97 \<le> n \<and> n \<le> 122)"

text \<open>The patterns \<open>_IDENTIFIER\<close> and \<open>_SYMBOL\<close>.\<close>

definition identifier_text :: "string \<Rightarrow> bool" where
  "identifier_text s = (case s of [] \<Rightarrow> False
     | c # r \<Rightarrow> is_alnum c \<and> list_all (\<lambda>d. is_alnum d \<or> d \<in> set ''._:/-'') r \<and> length r \<le> 127)"

definition symbol_text :: "string \<Rightarrow> bool" where
  "symbol_text s = (case s of [] \<Rightarrow> False
     | c # r \<Rightarrow> is_upper_letter c \<and> list_all (\<lambda>d. is_upper_letter d \<or> is_digit d) r \<and> length r \<le> 15)"

definition uv_identifier :: "string \<Rightarrow> string \<Rightarrow> bool \<times> universe_error" where
  "uv_identifier v path = (\<not> identifier_text v, urej INVALID_IDENTIFIER path)"

definition uv_symbol :: "string \<Rightarrow> string \<Rightarrow> bool \<times> universe_error" where
  "uv_symbol v path = (\<not> symbol_text v, urej INVALID_IDENTIFIER path)"

definition uv_sha256_text :: "string \<Rightarrow> string \<Rightarrow> bool \<times> universe_error" where
  "uv_sha256_text v path = (\<not> is_sha256 v, urej INVALID_DOCUMENT path)"

definition uv_decimal :: "dec \<Rightarrow> string \<Rightarrow> bool \<times> universe_error" where
  "uv_decimal v path = (\<not> is_finite v, urej INVALID_DECIMAL path)"

definition uv_decimal_or_none :: "dec option \<Rightarrow> string \<Rightarrow> bool \<times> universe_error" where
  "uv_decimal_or_none v path = (case v of None \<Rightarrow> False | Some d \<Rightarrow> \<not> is_finite d, urej INVALID_DECIMAL path)"

definition uv_positive_decimal :: "dec \<Rightarrow> string \<Rightarrow> (bool \<times> universe_error) list" where
  "uv_positive_decimal v path = [uv_decimal v path, (dec_le v dec_zero, urej INVALID_DECIMAL path)]"

definition uv_nonnegative_decimal :: "dec \<Rightarrow> string \<Rightarrow> (bool \<times> universe_error) list" where
  "uv_nonnegative_decimal v path = [uv_decimal v path, (dec_lt v dec_zero, urej INVALID_DECIMAL path)]"

definition uv_count :: "int \<Rightarrow> string \<Rightarrow> bool \<times> universe_error" where
  "uv_count n path = (n < 0, urej INVALID_COUNT path)"

definition uv_rank :: "int option \<Rightarrow> string \<Rightarrow> bool \<times> universe_error" where
  "uv_rank r path = (case r of None \<Rightarrow> False | Some n \<Rightarrow> n < 1, urej INVALID_RANK path)"

definition uv_timestamp :: "datetime \<Rightarrow> string \<Rightarrow> bool \<times> universe_error" where
  "uv_timestamp t path = (\<not> equals_utc t, urej INVALID_CLOCK path)"

definition uv_timestamp_or_none :: "datetime option \<Rightarrow> string \<Rightarrow> bool \<times> universe_error" where
  "uv_timestamp_or_none t path = (case t of None \<Rightarrow> False | Some u \<Rightarrow> \<not> equals_utc u, urej INVALID_CLOCK path)"

lemmas uv_defs = uv_identifier_def uv_symbol_def uv_sha256_text_def uv_decimal_def uv_decimal_or_none_def
  uv_positive_decimal_def uv_nonnegative_decimal_def uv_count_def uv_rank_def uv_timestamp_def uv_timestamp_or_none_def

text \<open>The text forms: a UTC time with its fraction cut after the last digit, a plain decimal.\<close>

definition rstrip_char :: "char \<Rightarrow> string \<Rightarrow> string" where
  "rstrip_char c s = rev (dropWhile (\<lambda>d. d = c) (rev s))"

definition timestamp_text :: "datetime \<Rightarrow> string" where
  "timestamp_text t =
     (let i = instant t; us = i mod 1000000; whole = local_text (i - us)
      in if us = 0 then whole @ ''Z'' else whole @ ''.'' @ rstrip_char (CHR ''0'') (pad_digits 6 us) @ ''Z'')"

definition plain_decimal_text :: "dec \<Rightarrow> string" where
  "plain_decimal_text d =
     (if dec_eq d dec_zero then ''0''
      else let r = dec_format_f d
           in if CHR ''.'' \<in> set r then rstrip_char (CHR ''.'') (rstrip_char (CHR ''0'') r) else r)"

section \<open>Observations and candidates\<close>

record universe_observation =
  ob_symbol :: string
  ob_product_kind :: product_kind
  ob_lane :: universe_lane
  ob_active :: bool
  ob_tradable :: bool
  ob_last :: "dec option"
  ob_bid :: "dec option"
  ob_ask :: "dec option"
  ob_quoted_at :: "datetime option"
  ob_observed_at :: datetime
  ob_option_contracts_active :: int
  ob_option_page_complete :: bool
  ob_news_records :: int
  ob_news_page_complete :: bool
  ob_iv_available :: "bool option"
  ob_greeks_available :: "bool option"
  ob_activity_rank :: "int option"
  ob_absolute_movement :: "dec option"

definition universe_observation_checks :: "universe_observation \<Rightarrow> universe_error option" where
  "universe_observation_checks ob = first_reject
     [uv_symbol (ob_symbol ob) ''symbol'', uv_decimal_or_none (ob_last ob) ''last'', uv_decimal_or_none (ob_bid ob) ''bid'',
      uv_decimal_or_none (ob_ask ob) ''ask'', uv_timestamp_or_none (ob_quoted_at ob) ''quoted_at'',
      uv_timestamp (ob_observed_at ob) ''observed_at'', uv_count (ob_option_contracts_active ob) ''option_contracts_active'',
      uv_count (ob_news_records ob) ''news_records'', uv_rank (ob_activity_rank ob) ''activity_rank'',
      uv_decimal_or_none (ob_absolute_movement ob) ''absolute_movement'',
      (case ob_absolute_movement ob of None \<Rightarrow> False | Some mv \<Rightarrow> dec_lt mv dec_zero, urej INVALID_DECIMAL ''absolute_movement'')]"

record scan_candidate =
  sc_symbol :: string
  sc_lane :: universe_lane
  sc_product_kind :: product_kind
  sc_readiness :: readiness
  sc_readiness_reasons :: "readiness_reason list"
  sc_last :: dec
  sc_bid :: dec
  sc_ask :: dec
  sc_spread_bps :: dec
  sc_quoted_at :: datetime
  sc_observed_at :: datetime
  sc_option_contracts_active :: int
  sc_option_page_complete :: bool
  sc_news_records :: int
  sc_news_page_complete :: bool
  sc_iv_available :: "bool option"
  sc_greeks_available :: "bool option"
  sc_activity_rank :: "int option"
  sc_absolute_movement :: "dec option"

record scan_rejection =
  sr_symbol :: string
  sr_reasons :: "scan_exclusion_reason list"

record universe_scan_result =
  us_as_of :: datetime
  us_candidates :: "scan_candidate list"
  us_rejections :: "scan_rejection list"

definition spread_bps :: "dec \<Rightarrow> dec \<Rightarrow> universe_error + dec" where
  "spread_bps bid ask =
     (case dec_div (dec_mul (Fin 20000 0) (dec_sub ask bid)) (dec_add bid ask) of
        None \<Rightarrow> Inl InvalidOperation | Some d \<Rightarrow> Inr d)"

definition quote_reasons :: "dec \<Rightarrow> dec \<Rightarrow> datetime \<Rightarrow> datetime \<Rightarrow> universe_error + scan_exclusion_reason list" where
  "quote_reasons bid ask quoted_at as_of =
     (let clock = (if instant quoted_at > instant as_of then [QUOTE_CLOCK_SKEW]
                   else if instant as_of - instant quoted_at > MAX_QUOTE_AGE then [QUOTE_STALE] else [])
      in if dec_le bid dec_zero \<or> dec_le ask dec_zero then Inr (clock @ [QUOTE_ONE_SIDED])
         else if dec_lt ask bid then Inr (clock @ [QUOTE_CROSSED])
         else rbind (spread_bps bid ask) (\<lambda>s.
           Inr (clock @ (if dec_lt MAX_STOCK_SPREAD_BPS s then [SPREAD_TOO_WIDE] else []))))"

definition product_reasons :: "universe_observation \<Rightarrow> scan_exclusion_reason list" where
  "product_reasons ob =
     (if \<not> ob_active ob then [INACTIVE_PRODUCT] else [])
     @ (if \<not> ob_tradable ob then [UNTRADABLE_PRODUCT] else [])
     @ (if ob_product_kind ob \<notin> set ELIGIBLE_PRODUCT_KINDS then [EXCLUDED_PRODUCT_KIND] else [])
     @ (if ob_lane ob = MARKET_ANCHOR \<and> ob_symbol ob \<notin> set MARKET_ANCHOR_SYMBOLS then [INELIGIBLE_MARKET_ANCHOR] else [])
     @ (case ob_last ob of Some l \<Rightarrow> if dec_lt l UNDERLYING_PRICE_FLOOR then [PRICE_BELOW_FLOOR] else [] | None \<Rightarrow> [])"

definition observed_quote :: "universe_observation \<Rightarrow> (dec \<times> dec \<times> dec \<times> datetime) option" where
  "observed_quote ob =
     (case (ob_last ob, ob_bid ob, ob_ask ob, ob_quoted_at ob) of
        (Some l, Some bid, Some ask, Some quoted_at) \<Rightarrow> Some (l, bid, ask, quoted_at) | _ \<Rightarrow> None)"

definition exclusion_reasons :: "universe_observation \<Rightarrow> datetime \<Rightarrow> universe_error + scan_exclusion_reason list" where
  "exclusion_reasons ob as_of =
     rbind (case observed_quote ob of
              None \<Rightarrow> Inr [QUOTE_MISSING]
            | Some (l, bid, ask, quoted_at) \<Rightarrow> quote_reasons bid ask quoted_at as_of) (\<lambda>quote.
     Inr (product_reasons ob @ quote
          @ (if ob_option_contracts_active ob < MIN_ACTIVE_OPTION_CONTRACTS then [OPTION_LIQUIDITY_INSUFFICIENT] else [])))"

definition readiness_of :: "universe_observation \<Rightarrow> readiness \<times> readiness_reason list" where
  "readiness_of ob =
     (let blockers = (if \<not> ob_option_page_complete ob then [OPTION_PAGE_INCOMPLETE] else [])
                     @ (if ob_lane ob = CATALYST_STOCK
                        then (if \<not> ob_news_page_complete ob then [NEWS_PAGE_INCOMPLETE]
                              else if ob_news_records ob < 1 then [NO_CONTEMPORANEOUS_NEWS] else [])
                        else [])
      in if blockers \<noteq> [] then (SCAN_ELIGIBLE, blockers) else (DECISION_READY, []))"

text \<open>\<open>_candidate\<close>, called only when no field of the quote is missing.\<close>

definition candidate_of :: "universe_observation \<Rightarrow> universe_error + scan_candidate" where
  "candidate_of ob =
     (case observed_quote ob of
        Some (l, bid, ask, quoted_at) \<Rightarrow>
          rbind (spread_bps bid ask) (\<lambda>s. Inr
            \<lparr>sc_symbol = ob_symbol ob, sc_lane = ob_lane ob, sc_product_kind = ob_product_kind ob,
             sc_readiness = fst (readiness_of ob), sc_readiness_reasons = snd (readiness_of ob),
             sc_last = l, sc_bid = bid, sc_ask = ask, sc_spread_bps = s, sc_quoted_at = quoted_at,
             sc_observed_at = ob_observed_at ob, sc_option_contracts_active = ob_option_contracts_active ob,
             sc_option_page_complete = ob_option_page_complete ob, sc_news_records = ob_news_records ob,
             sc_news_page_complete = ob_news_page_complete ob, sc_iv_available = ob_iv_available ob,
             sc_greeks_available = ob_greeks_available ob, sc_activity_rank = ob_activity_rank ob,
             sc_absolute_movement = ob_absolute_movement ob\<rparr>)
      | None \<Rightarrow> Inl InvalidOperation)"

text \<open>The rank key, a Python tuple; its decimals compare by value.\<close>

definition rank_key :: "datetime \<Rightarrow> scan_candidate \<Rightarrow> nat \<times> int \<times> rat \<times> bool \<times> int \<times> bool \<times> rat \<times> nat \<times> string" where
  "rank_key as_of c =
     (if sc_lane c = MARKET_ANCHOR then 0 else 1,
      instant as_of - instant (sc_quoted_at c),
      dval (sc_spread_bps c),
      sc_activity_rank c = None,
      case sc_activity_rank c of None \<Rightarrow> 0 | Some r \<Rightarrow> r,
      sc_absolute_movement c = None,
      case sc_absolute_movement c of None \<Rightarrow> 0 | Some mv \<Rightarrow> dval (dec_minus mv),
      if sc_news_records c \<ge> 1 then 0 else 1,
      sc_symbol c)"

fun duplicate_symbol :: "nat \<Rightarrow> string list \<Rightarrow> string list \<Rightarrow> universe_error option" where
  "duplicate_symbol i seen [] = None"
| "duplicate_symbol i seen (s # ss) =
     (if s \<in> set seen then Some (urej DUPLICATE_SYMBOL (''observations['' @ digs i @ ''].symbol''))
      else duplicate_symbol (Suc i) (s # seen) ss)"

fun scan_items :: "datetime \<Rightarrow> universe_observation list \<Rightarrow> universe_error + scan_candidate list \<times> scan_rejection list" where
  "scan_items as_of [] = Inr ([], [])"
| "scan_items as_of (ob # obs) =
     rbind (exclusion_reasons ob as_of) (\<lambda>reasons.
       if reasons \<noteq> []
       then rbind (scan_items as_of obs) (\<lambda>(cs, rs). Inr (cs, \<lparr>sr_symbol = ob_symbol ob, sr_reasons = reasons\<rparr> # rs))
       else rbind (candidate_of ob) (\<lambda>c. rbind (scan_items as_of obs) (\<lambda>(cs, rs). Inr (c # cs, rs))))"

definition scan_universe :: "universe_observation list \<Rightarrow> datetime \<Rightarrow> universe_error + universe_scan_result" where
  "scan_universe obs as_of =
     guarded [uv_timestamp as_of ''as_of'']
       (case duplicate_symbol 0 [] (map ob_symbol obs) of
          Some e \<Rightarrow> Inl e
        | None \<Rightarrow> rbind (scan_items as_of obs) (\<lambda>(cs, rs).
            Inr \<lparr>us_as_of = as_of, us_candidates = sort_key (rank_key as_of) cs, us_rejections = sort_key sr_symbol rs\<rparr>))"

section \<open>The canonical form of a scan\<close>

definition json_option :: "('a \<Rightarrow> json) \<Rightarrow> 'a option \<Rightarrow> json" where
  "json_option f v = (case v of None \<Rightarrow> JNull | Some a \<Rightarrow> f a)"

definition candidate_payload :: "scan_candidate \<Rightarrow> json" where
  "candidate_payload c = JObj
     [(''absolute_movement'', json_option (\<lambda>d. JStr (plain_decimal_text d)) (sc_absolute_movement c)),
      (''activity_rank'', json_option JInt (sc_activity_rank c)),
      (''ask'', JStr (plain_decimal_text (sc_ask c))), (''bid'', JStr (plain_decimal_text (sc_bid c))),
      (''greeks_available'', json_option JBool (sc_greeks_available c)),
      (''iv_available'', json_option JBool (sc_iv_available c)),
      (''lane'', JStr (lane_value (sc_lane c))), (''last'', JStr (plain_decimal_text (sc_last c))),
      (''news_page_complete'', JBool (sc_news_page_complete c)), (''news_records'', JInt (sc_news_records c)),
      (''observed_at'', JStr (timestamp_text (sc_observed_at c))),
      (''option_contracts_active'', JInt (sc_option_contracts_active c)),
      (''option_page_complete'', JBool (sc_option_page_complete c)),
      (''product_kind'', JStr (product_kind_value (sc_product_kind c))),
      (''quoted_at'', JStr (timestamp_text (sc_quoted_at c))),
      (''readiness'', JStr (readiness_value (sc_readiness c))),
      (''readiness_reasons'', JList (map (\<lambda>r. JStr (readiness_reason_value r)) (sc_readiness_reasons c))),
      (''spread_bps'', JStr (plain_decimal_text (sc_spread_bps c))), (''symbol'', JStr (sc_symbol c))]"

definition universe_scan_payload :: "universe_scan_result \<Rightarrow> json" where
  "universe_scan_payload r = JObj
     [(''as_of'', JStr (timestamp_text (us_as_of r))),
      (''candidates'', JList (map candidate_payload (us_candidates r))),
      (''rejections'', JList (map (\<lambda>x. JObj [(''reasons'', JList (map (\<lambda>y. JStr (exclusion_value y)) (sr_reasons x))),
                                            (''symbol'', JStr (sr_symbol x))]) (us_rejections r))),
      (''schema'', JStr ''esscher.liquid_universe_scan''), (''schema_version'', JInt 1)]"

definition universe_scan_bytes :: "universe_scan_result \<Rightarrow> string" where
  "universe_scan_bytes r = canonical_json_bytes (universe_scan_payload r)"

definition universe_scan_sha256 :: "hash_function \<Rightarrow> universe_scan_result \<Rightarrow> string" where
  "universe_scan_sha256 H r = H (universe_scan_bytes r)"

section \<open>What a scan keeps\<close>

lemma finite_result_if: "pred_option is_finite (if c then a else b) \<longleftrightarrow> (if c then pred_option is_finite a else pred_option is_finite b)"
  by simp

lemma finite_result_case: "pred_option is_finite (case p of (q, ex) \<Rightarrow> Some (dfix (f q) ex))"
  by (cases p) simp

lemma dec_div_Some:
  assumes "is_finite x" "is_finite y" "dval y \<noteq> 0"
  shows "\<exists>d. dec_div x y = Some d \<and> is_finite d"
proof -
  obtain m1 e1 m2 e2 where xy: "x = Fin m1 e1" "y = Fin m2 e2" using assms(1,2) by (cases x; cases y) auto
  have m2: "m2 \<noteq> 0" using assms(3) xy by auto
  have "pred_option is_finite (dec_div x y)" "dec_div x y \<noteq> None"
    unfolding xy dec_div.simps Let_def finite_result_if using m2
    by (simp_all only: if_False finite_result_case option.pred_inject dfix_finite is_finite.simps if_cancel refl if_True
        option.distinct split: if_split prod.split) blast+
  then show ?thesis by auto
qed

lemma dec_add_pos: "is_finite x \<Longrightarrow> is_finite y \<Longrightarrow> 0 < dval x \<Longrightarrow> 0 < dval y \<Longrightarrow> 0 < dval (dec_add x y)"
proof -
  assume fin: "is_finite x" "is_finite y" and pos: "0 < dval x" "0 < dval y"
  obtain m e where v: "dec_add x y = dfix m e" "dval x + dval y = of_int m * 10 powi e" using dec_add_value [OF fin] .
  have "\<not> rat_of_int m * 10 powi e \<le> 0" using pos v(2) by linarith
  then have "0 < m" using mult_nonpos_nonneg [of "rat_of_int m" "10 powi e"] by (cases "0 < m") simp_all
  then show ?thesis unfolding v(1) by (rule dfix_pos)
qed

lemma spread_bps_Inr:
  "is_finite b \<Longrightarrow> is_finite a \<Longrightarrow> 0 < dval b \<Longrightarrow> 0 < dval a \<Longrightarrow> \<exists>s. spread_bps b a = Inr s \<and> is_finite s"
  using dec_div_Some [of "dec_mul (Fin 20000 0) (dec_sub a b)" "dec_add b a"] dec_add_pos [of b a]
  by (auto simp: spread_bps_def)

text \<open>An observation the dataclass accepts.\<close>

definition observation_ok :: "universe_observation \<Rightarrow> bool" where
  "observation_ok ob = (universe_observation_checks ob = None)"

lemma observed_finite:
  assumes "observation_ok ob" "observed_quote ob = Some (l, b, a, q)"
  shows "is_finite l" "is_finite b" "is_finite a" "ob_last ob = Some l"
  using assms
  by (auto simp: observation_ok_def universe_observation_checks_def uv_defs observed_quote_def split: option.splits)

lemma quote_reasons_Inr:
  assumes "is_finite b" "is_finite a"
  shows "\<exists>rs. quote_reasons b a q t = Inr rs"
proof (cases "dec_le b dec_zero \<or> dec_le a dec_zero \<or> dec_lt a b")
  case False
  then show ?thesis using assms spread_bps_Inr [of b a] by (auto simp: quote_reasons_def Let_def dec_order not_le)
qed (auto simp: quote_reasons_def Let_def)

lemma exclusion_reasons_Inr:
  assumes "observation_ok ob"
  shows "\<exists>rs. exclusion_reasons ob t = Inr rs"
proof (cases "observed_quote ob")
  case (Some x)
  then obtain l b a q where x: "observed_quote ob = Some (l, b, a, q)" by (cases x) auto
  then obtain rs where "quote_reasons b a q t = Inr rs" using quote_reasons_Inr observed_finite [OF assms x] by blast
  then show ?thesis by (simp add: exclusion_reasons_def x)
qed (simp add: exclusion_reasons_def)

text \<open>What the absence of every exclusion reason means.\<close>

definition liquid :: "datetime \<Rightarrow> scan_candidate \<Rightarrow> bool" where
  "liquid as_of c = (5 \<le> dval (sc_last c) \<and> 0 < dval (sc_bid c) \<and> dval (sc_bid c) \<le> dval (sc_ask c)
     \<and> dval (sc_spread_bps c) \<le> 100 \<and> 20 \<le> sc_option_contracts_active c
     \<and> 0 \<le> instant as_of - instant (sc_quoted_at c) \<and> instant as_of - instant (sc_quoted_at c) \<le> 900000000
     \<and> sc_product_kind c \<in> {US_COMMON_STOCK, US_EXCHANGE_TRADED_PRODUCT}
     \<and> (sc_lane c = MARKET_ANCHOR \<longrightarrow> sc_symbol c \<in> {''QQQ'', ''SPY''})
     \<and> (sc_readiness c = DECISION_READY \<longleftrightarrow> sc_option_page_complete c
          \<and> (sc_lane c = CATALYST_STOCK \<longrightarrow> sc_news_page_complete c \<and> 1 \<le> sc_news_records c)))"

lemma no_quote_reasons:
  assumes "quote_reasons b a q t = Inr []" "is_finite b" "is_finite a"
  obtains s where "spread_bps b a = Inr s" "is_finite s" "dval s \<le> 100" "0 < dval b" "dval b \<le> dval a"
    "0 \<le> instant t - instant q" "instant t - instant q \<le> 900000000"
proof -
  have pos: "0 < dval b" "0 < dval a" "dval b \<le> dval a"
    using assms by (auto simp: quote_reasons_def Let_def dec_order not_le not_less split: if_splits)
  then obtain s where s: "spread_bps b a = Inr s" "is_finite s" using spread_bps_Inr [OF assms(2,3)] by blast
  have "dval s \<le> 100" "0 \<le> instant t - instant q" "instant t - instant q \<le> 900000000"
    using assms s pos by (auto simp: quote_reasons_def Let_def dec_order MAX_STOCK_SPREAD_BPS_def MAX_QUOTE_AGE_def
        seconds_def split: if_splits)
  then show thesis using that s pos by blast
qed

lemma product_reasons_Nil:
  "product_reasons ob = [] \<Longrightarrow> ob_last ob = Some l \<Longrightarrow> is_finite l \<Longrightarrow>
     5 \<le> dval l \<and> ob_product_kind ob \<in> {US_COMMON_STOCK, US_EXCHANGE_TRADED_PRODUCT}
     \<and> (ob_lane ob = MARKET_ANCHOR \<longrightarrow> ob_symbol ob \<in> {''QQQ'', ''SPY''})"
  by (simp add: product_reasons_def dec_order UNDERLYING_PRICE_FLOOR_def ELIGIBLE_PRODUCT_KINDS_def MARKET_ANCHOR_SYMBOLS_def
      not_less split: if_splits)

lemma readiness_ready:
  "fst (readiness_of ob) = DECISION_READY \<longleftrightarrow> ob_option_page_complete ob
     \<and> (ob_lane ob = CATALYST_STOCK \<longrightarrow> ob_news_page_complete ob \<and> 1 \<le> ob_news_records ob)"
  by (simp add: readiness_of_def Let_def not_less)

lemma candidate_liquid:
  assumes "observation_ok ob" "exclusion_reasons ob t = Inr []"
  obtains c where "candidate_of ob = Inr c" "liquid t c" "sc_symbol c = ob_symbol ob"
proof -
  obtain l b a q where quote: "observed_quote ob = Some (l, b, a, q)"
    using assms(2) by (cases "observed_quote ob") (auto simp: exclusion_reasons_def)
  have parts: "quote_reasons b a q t = Inr []" "product_reasons ob = []" "20 \<le> ob_option_contracts_active ob"
    using assms(2) by (auto simp: exclusion_reasons_def rbind_Inr quote MIN_ACTIVE_OPTION_CONTRACTS_def split: if_splits)
  note fin = observed_finite [OF assms(1) quote]
  obtain s where s: "spread_bps b a = Inr s" "dval s \<le> 100" "0 < dval b" "dval b \<le> dval a"
    "0 \<le> instant t - instant q" "instant t - instant q \<le> 900000000"
    using no_quote_reasons [OF parts(1) fin(2,3)] by blast
  obtain c where c: "candidate_of ob = Inr c" using quote s by (simp add: candidate_of_def)
  have "liquid t c" "sc_symbol c = ob_symbol ob"
    using c s parts(3) product_reasons_Nil [OF parts(2) fin(4,1)] readiness_ready [of ob]
    by (auto simp: candidate_of_def liquid_def quote)
  then show thesis using that c by blast
qed

section \<open>Scans as a partition\<close>

lemma duplicate_symbol_None: "duplicate_symbol i seen ss = None \<longleftrightarrow> distinct ss \<and> set seen \<inter> set ss = {}"
  by (induction i seen ss rule: duplicate_symbol.induct) auto

definition kept :: "datetime \<Rightarrow> universe_observation \<Rightarrow> scan_candidate option" where
  "kept t ob = (case (exclusion_reasons ob t, candidate_of ob) of (Inr [], Inr c) \<Rightarrow> Some c | _ \<Rightarrow> None)"

definition refused :: "datetime \<Rightarrow> universe_observation \<Rightarrow> scan_rejection option" where
  "refused t ob = (case exclusion_reasons ob t of
     Inr (x # xs) \<Rightarrow> Some \<lparr>sr_symbol = ob_symbol ob, sr_reasons = x # xs\<rparr> | _ \<Rightarrow> None)"

definition scannable :: "datetime \<Rightarrow> universe_observation \<Rightarrow> bool" where
  "scannable t ob = ((kept t ob = None) \<noteq> (refused t ob = None))"

lemma scan_items_Inr:
  "scan_items t obs = Inr (cs, rs) \<longleftrightarrow>
     list_all (scannable t) obs \<and> cs = List.map_filter (kept t) obs \<and> rs = List.map_filter (refused t) obs"
proof (induction obs arbitrary: cs rs)
  case Nil
  then show ?case by (auto simp: List.map_filter_simps)
next
  case (Cons ob obs)
  show ?case
  proof (cases "exclusion_reasons ob t")
    case (Inr rsn)
    note ex = Inr
    show ?thesis
    proof (cases rsn)
      case Nil
      then show ?thesis using ex Cons.IH
        by (cases "candidate_of ob") (auto simp: rbind_Inr scannable_def kept_def refused_def List.map_filter_simps)
    next
      case (Cons x xs)
      then show ?thesis using ex Cons.IH by (auto simp: rbind_Inr scannable_def kept_def refused_def List.map_filter_simps)
    qed
  qed (simp add: scannable_def kept_def refused_def)
qed

lemma scan_universe_Inr:
  "scan_universe obs t = Inr r \<longleftrightarrow> equals_utc t \<and> distinct (map ob_symbol obs) \<and> list_all (scannable t) obs
     \<and> r = \<lparr>us_as_of = t, us_candidates = sort_key (rank_key t) (List.map_filter (kept t) obs),
            us_rejections = sort_key sr_symbol (List.map_filter (refused t) obs)\<rparr>"
  by (auto simp: scan_universe_def guarded_Inr uv_timestamp_def duplicate_symbol_None rbind_Inr scan_items_Inr)

lemma kept_symbol: "kept t ob = Some c \<Longrightarrow> sc_symbol c = ob_symbol ob"
  by (auto simp: kept_def candidate_of_def rbind_Inr split: sum.splits list.splits option.splits)

lemma refused_symbol: "refused t ob = Some r \<Longrightarrow> sr_symbol r = ob_symbol ob \<and> sr_reasons r \<noteq> []"
  by (auto simp: refused_def split: sum.splits list.splits)

lemma set_map_filter: "x \<in> set (List.map_filter f xs) \<longleftrightarrow> (\<exists>y \<in> set xs. f y = Some x)"
  by (auto simp: List.map_filter_def intro!: image_eqI)

lemma mset_map_filter_perm: "mset xs = mset ys \<Longrightarrow> mset (List.map_filter f xs) = mset (List.map_filter f ys)"
  by (simp add: List.map_filter_def mset_filter)

text \<open>Sorting by a key that tells the elements apart forgets their order.\<close>

lemma sort_key_perm:
  assumes "mset xs = mset ys" "inj_on f (set xs)"
  shows "sort_key f xs = sort_key f ys"
  using assms by (intro sort_key_inj_key_eq) simp_all

lemma map_filter_inj:
  assumes "distinct (map name obs)" "\<And>ob y. f ob = Some y \<Longrightarrow> key y = key' (name ob)" "inj key'"
  shows "inj_on key (set (List.map_filter f obs))"
proof (rule inj_onI)
  fix y z
  assume "y \<in> set (List.map_filter f obs)" "z \<in> set (List.map_filter f obs)" and eq: "key y = key z"
  then obtain a b where ab: "a \<in> set obs" "f a = Some y" "b \<in> set obs" "f b = Some z" by (auto simp: set_map_filter)
  then have "key' (name a) = key' (name b)" using assms(2) [OF ab(2)] assms(2) [OF ab(4)] eq by simp
  then have "name a = name b" using assms(3) by (simp add: inj_eq)
  moreover have "inj_on name (set obs)" using assms(1) by (simp add: distinct_map)
  ultimately have "a = b" using ab(1,3) by (simp add: inj_on_eq_iff)
  then show "y = z" using ab(2,4) by simp
qed

text \<open>
  C35. A scan does not depend on the order in which the observations arrive: every permutation
  of an accepted list of observations gives the very same ranked candidates and rejections.
\<close>

theorem scan_order_independent:
  assumes "scan_universe obs t = Inr r" "mset obs' = mset obs"
  shows "scan_universe obs' t = Inr r"
proof -
  have ok: "equals_utc t" "distinct (map ob_symbol obs)" "list_all (scannable t) obs" using assms(1) by (simp_all add: scan_universe_Inr)
  have "mset (map ob_symbol obs') = mset (map ob_symbol obs)" "set obs' = set obs" using assms(2) mset_eq_setD by auto
  then have ok': "distinct (map ob_symbol obs')" "list_all (scannable t) obs'"
    using ok mset_eq_imp_distinct_iff [of "map ob_symbol obs'" "map ob_symbol obs"] by (simp_all add: list_all_iff)
  have "inj_on ((\<lambda>k. snd (snd (snd (snd (snd (snd (snd (snd k)))))))) \<circ> rank_key t) (set (List.map_filter (kept t) obs))"
    by (rule map_filter_inj [OF ok(2), of _ _ id]) (simp_all add: rank_key_def kept_symbol)
  then have "inj_on (rank_key t) (set (List.map_filter (kept t) obs))" by (rule inj_on_imageI2)
  moreover have "inj_on sr_symbol (set (List.map_filter (refused t) obs))"
    by (rule map_filter_inj [OF ok(2), of _ _ id]) (simp_all add: refused_symbol)
  ultimately have "sort_key (rank_key t) (List.map_filter (kept t) obs) = sort_key (rank_key t) (List.map_filter (kept t) obs')"
    "sort_key sr_symbol (List.map_filter (refused t) obs) = sort_key sr_symbol (List.map_filter (refused t) obs')"
    using sort_key_perm [OF mset_map_filter_perm [OF assms(2) [symmetric]]] by blast+
  then show ?thesis using assms(1) ok ok' by (simp add: scan_universe_Inr)
qed

lemma scannable_ok:
  assumes "observation_ok ob"
  shows "scannable t ob" "kept t ob = Some c \<Longrightarrow> liquid t c"
proof -
  obtain rs where rs: "exclusion_reasons ob t = Inr rs" using exclusion_reasons_Inr [OF assms] by blast
  have "scannable t ob \<and> (kept t ob = Some c \<longrightarrow> liquid t c)"
  proof (cases rs)
    case Nil
    then obtain d where "candidate_of ob = Inr d" "liquid t d" using candidate_liquid [OF assms, of t] rs by blast
    then show ?thesis using rs Nil by (auto simp: scannable_def kept_def refused_def)
  qed (use rs in \<open>simp add: scannable_def kept_def refused_def\<close>)
  then show "scannable t ob" "kept t ob = Some c \<Longrightarrow> liquid t c" by blast+
qed

lemma partition_symbols:
  "list_all (scannable t) obs \<Longrightarrow>
     mset (map sc_symbol (List.map_filter (kept t) obs)) + mset (map sr_symbol (List.map_filter (refused t) obs)) = mset (map ob_symbol obs)"
proof (induction obs)
  case (Cons ob obs)
  then show ?case
    by (cases "kept t ob"; cases "refused t ob")
      (auto simp: List.map_filter_simps scannable_def kept_symbol refused_symbol)
qed (simp add: List.map_filter_simps)

text \<open>
  C34. On well-formed observations with different symbols the scan always answers. Every
  observation is either a candidate or a rejection with at least one reason, never both;
  the candidates are ranked; and every candidate is liquid: price at least 5, a positive
  uncrossed quote at most 15 minutes old and not from the future, a computed spread of at most 100 basis points, at
  least 20 active contracts, an eligible product, an anchor only for QQQ and SPY, and it is
  decision-ready only with complete option pages and, for a catalyst stock, with news.
\<close>

theorem scan_candidates_liquid:
  assumes "list_all observation_ok obs" "distinct (map ob_symbol obs)" "equals_utc t"
  shows "\<exists>r. scan_universe obs t = Inr r \<and> list_all (liquid t) (us_candidates r)
      \<and> sorted (map (rank_key t) (us_candidates r)) \<and> list_all (\<lambda>x. sr_reasons x \<noteq> []) (us_rejections r)
      \<and> mset (map sc_symbol (us_candidates r)) + mset (map sr_symbol (us_rejections r)) = mset (map ob_symbol obs)"
proof -
  let ?cs = "List.map_filter (kept t) obs" and ?rs = "List.map_filter (refused t) obs"
  let ?r = "\<lparr>us_as_of = t, us_candidates = sort_key (rank_key t) ?cs, us_rejections = sort_key sr_symbol ?rs\<rparr>"
  have all: "list_all (scannable t) obs" using assms(1) scannable_ok by (auto simp: list_all_iff)
  then have "scan_universe obs t = Inr ?r" using assms by (simp add: scan_universe_Inr)
  moreover have "list_all (liquid t) ?cs" "list_all (\<lambda>x. sr_reasons x \<noteq> []) ?rs"
    using assms(1) scannable_ok(2) [of _ t] refused_symbol [of t]
    by (auto simp only: list_all_iff set_map_filter Ball_def)
  moreover have "mset (map sc_symbol (sort_key (rank_key t) ?cs)) = mset (map sc_symbol ?cs)"
    "mset (map sr_symbol (sort_key sr_symbol ?rs)) = mset (map sr_symbol ?rs)" by (simp_all only: mset_map mset_sort)
  ultimately show ?thesis using partition_symbols [OF all] by (intro exI [of _ ?r]) (simp add: list_all_iff)
qed

text \<open>A liquid market anchor and a stock without a quote.\<close>

definition sample_anchor :: universe_observation where
  "sample_anchor =
     \<lparr>ob_symbol = ''SPY'', ob_product_kind = US_EXCHANGE_TRADED_PRODUCT, ob_lane = MARKET_ANCHOR, ob_active = True,
      ob_tradable = True, ob_last = Some (Fin 500 0), ob_bid = Some (Fin 49999 (-2)), ob_ask = Some (Fin 50001 (-2)),
      ob_quoted_at = Some (utc_at 0), ob_observed_at = utc_at 0, ob_option_contracts_active = 400,
      ob_option_page_complete = True, ob_news_records = 0, ob_news_page_complete = False, ob_iv_available = None,
      ob_greeks_available = Some True, ob_activity_rank = Some 1, ob_absolute_movement = None\<rparr>"

definition sample_stock :: universe_observation where
  "sample_stock = sample_anchor\<lparr>ob_symbol := ''XYZ'', ob_lane := CATALYST_STOCK, ob_bid := None\<rparr>"

lemma sample_observations_ok: "list_all observation_ok [sample_anchor, sample_stock]"
  by (simp add: observation_ok_def universe_observation_checks_def sample_anchor_def sample_stock_def uv_defs symbol_text_def
      is_upper_letter_def equals_utc_def)

theorem scan_candidates_liquid_witness:
  "\<exists>r. scan_universe [sample_anchor, sample_stock] (utc_at 0) = Inr r
     \<and> mset (map sc_symbol (us_candidates r)) + mset (map sr_symbol (us_rejections r)) = {#''SPY'', ''XYZ''#}"
proof -
  have "distinct (map ob_symbol [sample_anchor, sample_stock])" "equals_utc (utc_at 0)"
    "mset (map ob_symbol [sample_anchor, sample_stock]) = {#''SPY'', ''XYZ''#}"
    by (simp_all add: sample_anchor_def sample_stock_def equals_utc_def)
  then show ?thesis using scan_candidates_liquid [OF sample_observations_ok, of "utc_at 0"] by metis
qed

theorem scan_order_independent_witness:
  "\<exists>r. scan_universe [sample_anchor, sample_stock] (utc_at 0) = Inr r \<and> scan_universe [sample_stock, sample_anchor] (utc_at 0) = Inr r"
proof -
  have "distinct (map ob_symbol [sample_anchor, sample_stock])" "equals_utc (utc_at 0)"
    by (simp_all add: sample_anchor_def sample_stock_def equals_utc_def)
  moreover have "list_all (scannable (utc_at 0)) [sample_anchor, sample_stock]"
    using sample_observations_ok scannable_ok(1) by simp
  ultimately obtain r where r: "scan_universe [sample_anchor, sample_stock] (utc_at 0) = Inr r" by (simp add: scan_universe_Inr)
  have "mset [sample_stock, sample_anchor] = mset [sample_anchor, sample_stock]" by simp
  from scan_order_independent [OF r this] r show ?thesis by blast
qed

end
