(* ===== verification/Allocation.thy ===== *)
theory Allocation
  imports Universe
begin

text \<open>
  \<open>autonomy/universe.py\<close>, second half: the portfolio, the approved opportunities and the
  deterministic allocation of defined-risk capital. An opportunity is sized against the
  minimum of four capacities: its tier of equity, 20 percent of equity per underlying, 50
  percent in aggregate, and unreserved cash.
\<close>

section \<open>Data\<close>

datatype risk_tier = FIVE_PERCENT | TEN_PERCENT | TWENTY_PERCENT

fun tier_fraction :: "risk_tier \<Rightarrow> dec" where
  "tier_fraction FIVE_PERCENT = Fin 5 (-2)"
| "tier_fraction TEN_PERCENT = Fin 10 (-2)"
| "tier_fraction TWENTY_PERCENT = Fin 20 (-2)"

datatype allocation_status = ALLOCATED | ABSTAINED

datatype abstain_reason = OPPORTUNITY_NOT_READY | TIER_CAPACITY_INSUFFICIENT | UNDERLYING_CAP_INSUFFICIENT
  | AGGREGATE_CAP_INSUFFICIENT | CASH_INSUFFICIENT

definition MAX_PER_UNDERLYING_FRACTION :: dec where "MAX_PER_UNDERLYING_FRACTION = Fin 20 (-2)"
definition MAX_AGGREGATE_OPEN_DEBIT_FRACTION :: dec where "MAX_AGGREGATE_OPEN_DEBIT_FRACTION = Fin 50 (-2)"

record underlying_exposure =
  ue_underlying :: string
  ue_open_debit :: dec

definition underlying_exposure_checks :: "underlying_exposure \<Rightarrow> universe_error option" where
  "underlying_exposure_checks x = first_reject
     (uv_symbol (ue_underlying x) ''underlying'' # uv_positive_decimal (ue_open_debit x) ''open_debit'')"

record portfolio_state =
  pf_equity :: dec
  pf_cash :: dec
  pf_open_debit :: dec
  pf_exposures :: "underlying_exposure list"

definition portfolio_state_checks :: "portfolio_state \<Rightarrow> universe_error option" where
  "portfolio_state_checks p = first_reject
     (uv_positive_decimal (pf_equity p) ''equity'' @ uv_nonnegative_decimal (pf_cash p) ''cash''
      @ uv_nonnegative_decimal (pf_open_debit p) ''open_debit''
      @ [(\<not> distinct (map ue_underlying (pf_exposures p)), urej DUPLICATE_EXPOSURE ''exposures''),
         (dec_lt (pf_open_debit p) (dec_sum (map ue_open_debit (pf_exposures p))), urej INCONSISTENT_STATE ''exposures''),
         (dec_lt (pf_equity p) (pf_open_debit p), urej INCONSISTENT_STATE ''open_debit''),
         (dec_lt (pf_equity p) (pf_cash p), urej INCONSISTENT_STATE ''cash'')])"

record defined_risk_opportunity =
  op_opportunity_id :: string
  op_decision_id :: string
  op_expression_id :: string
  op_underlying :: string
  op_risk_tier :: risk_tier
  op_max_debit :: dec
  op_decision_ready :: bool

definition opportunity_checks :: "defined_risk_opportunity \<Rightarrow> universe_error option" where
  "opportunity_checks o' = first_reject
     ([uv_identifier (op_opportunity_id o') ''opportunity_id'', uv_identifier (op_decision_id o') ''decision_id'',
       uv_identifier (op_expression_id o') ''expression_id'', uv_symbol (op_underlying o') ''underlying'']
      @ uv_positive_decimal (op_max_debit o') ''max_debit_per_contract'')"

record allocation_reservation =
  ar_opportunity_id :: string
  ar_opportunity_sha256 :: string
  ar_reservation_id :: string
  ar_underlying :: string
  ar_quantity :: int
  ar_max_loss :: dec

definition allocation_reservation_checks :: "allocation_reservation \<Rightarrow> universe_error option" where
  "allocation_reservation_checks r = first_reject
     ([uv_identifier (ar_opportunity_id r) ''opportunity_id'', uv_sha256_text (ar_opportunity_sha256 r) ''opportunity_sha256'',
       uv_sha256_text (ar_reservation_id r) ''reservation_id'', uv_symbol (ar_underlying r) ''underlying'',
       (ar_quantity r < 1, urej INVALID_COUNT ''quantity'')]
      @ uv_positive_decimal (ar_max_loss r) ''max_loss'')"

record allocation_decision =
  ad_status :: allocation_status
  ad_reason_codes :: "abstain_reason list"
  ad_quantity :: int
  ad_max_loss :: dec
  ad_reservation_id :: "string option"
  ad_remaining_tier :: dec
  ad_remaining_underlying :: dec
  ad_remaining_aggregate :: dec
  ad_remaining_cash :: dec

section \<open>Identities\<close>

definition defined_risk_opportunity_payload :: "defined_risk_opportunity \<Rightarrow> json" where
  "defined_risk_opportunity_payload o' = JObj
     [(''decision_id'', JStr (op_decision_id o')), (''decision_ready'', JBool (op_decision_ready o')),
      (''expression_id'', JStr (op_expression_id o')),
      (''max_debit_per_contract'', JStr (plain_decimal_text (op_max_debit o'))),
      (''opportunity_id'', JStr (op_opportunity_id o')),
      (''risk_tier'', JStr (plain_decimal_text (tier_fraction (op_risk_tier o')))),
      (''schema'', JStr ''esscher.defined_risk_opportunity''), (''schema_version'', JInt 1),
      (''underlying'', JStr (op_underlying o'))]"

definition defined_risk_opportunity_bytes :: "defined_risk_opportunity \<Rightarrow> string" where
  "defined_risk_opportunity_bytes o' = canonical_json_bytes (defined_risk_opportunity_payload o')"

definition defined_risk_opportunity_sha256 :: "hash_function \<Rightarrow> defined_risk_opportunity \<Rightarrow> string" where
  "defined_risk_opportunity_sha256 H o' = H (defined_risk_opportunity_bytes o')"

definition reservation_payload :: "defined_risk_opportunity \<Rightarrow> int \<Rightarrow> dec \<Rightarrow> json" where
  "reservation_payload o' q loss = JObj
     [(''max_loss'', JStr (plain_decimal_text loss)), (''opportunity'', defined_risk_opportunity_payload o'),
      (''quantity'', JInt q), (''schema'', JStr ''esscher.defined_risk_reservation''), (''schema_version'', JInt 1)]"

definition reservation_identity :: "hash_function \<Rightarrow> defined_risk_opportunity \<Rightarrow> int \<Rightarrow> dec \<Rightarrow> string" where
  "reservation_identity H o' q loss = H (canonical_json_bytes (reservation_payload o' q loss))"

section \<open>Allocation\<close>

definition underlying_open :: "portfolio_state \<Rightarrow> string \<Rightarrow> dec" where
  "underlying_open p u =
     (case find (\<lambda>x. ue_underlying x = u) (pf_exposures p) of Some x \<Rightarrow> ue_open_debit x | None \<Rightarrow> dec_zero)"

fun duplicate_reservation :: "nat \<Rightarrow> string list \<Rightarrow> string list \<Rightarrow> universe_error option" where
  "duplicate_reservation i seen [] = None"
| "duplicate_reservation i seen (s # ss) =
     (if s \<in> set seen then Some (urej DUPLICATE_RESERVATION (''existing_reservations['' @ digs i @ ''].opportunity_id''))
      else duplicate_reservation (Suc i) (s # seen) ss)"

definition validate_reservations :: "allocation_reservation list \<Rightarrow> universe_error + allocation_reservation list" where
  "validate_reservations rs =
     (case duplicate_reservation 0 [] (map ar_opportunity_id rs) of Some e \<Rightarrow> Inl e | None \<Rightarrow> Inr rs)"

text \<open>The capacities before this allocation.\<close>

record capacities =
  tier_capacity :: dec
  remaining_underlying :: dec
  remaining_aggregate :: dec
  remaining_cash :: dec

definition allocation_reserved :: "allocation_reservation list \<Rightarrow> dec" where
  "allocation_reserved rs = dec_sum (map ar_max_loss rs)"

definition allocation_reserved_on :: "string \<Rightarrow> allocation_reservation list \<Rightarrow> dec" where
  "allocation_reserved_on u rs = dec_sum (map ar_max_loss (filter (\<lambda>r. ar_underlying r = u) rs))"

definition capacities_of :: "portfolio_state \<Rightarrow> defined_risk_opportunity \<Rightarrow> allocation_reservation list \<Rightarrow> capacities" where
  "capacities_of p o' rs =
     \<lparr>tier_capacity = dec_mul (tier_fraction (op_risk_tier o')) (pf_equity p),
      remaining_underlying =
        dec_sub (dec_sub (dec_mul MAX_PER_UNDERLYING_FRACTION (pf_equity p)) (underlying_open p (op_underlying o')))
                (allocation_reserved_on (op_underlying o') rs),
      remaining_aggregate =
        dec_sub (dec_sub (dec_mul MAX_AGGREGATE_OPEN_DEBIT_FRACTION (pf_equity p)) (pf_open_debit p)) (allocation_reserved rs),
      remaining_cash = dec_sub (pf_cash p) (allocation_reserved rs)\<rparr>"

definition abstained :: "abstain_reason list \<Rightarrow> capacities \<Rightarrow> allocation_decision" where
  "abstained reasons c =
     \<lparr>ad_status = ABSTAINED, ad_reason_codes = reasons, ad_quantity = 0, ad_max_loss = dec_zero, ad_reservation_id = None,
      ad_remaining_tier = tier_capacity c, ad_remaining_underlying = remaining_underlying c,
      ad_remaining_aggregate = remaining_aggregate c, ad_remaining_cash = remaining_cash c\<rparr>"

definition replayed :: "allocation_reservation \<Rightarrow> capacities \<Rightarrow> allocation_decision" where
  "replayed r c =
     \<lparr>ad_status = ALLOCATED, ad_reason_codes = [], ad_quantity = ar_quantity r, ad_max_loss = ar_max_loss r,
      ad_reservation_id = Some (ar_reservation_id r),
      ad_remaining_tier = dec_sub (tier_capacity c) (ar_max_loss r), ad_remaining_underlying = remaining_underlying c,
      ad_remaining_aggregate = remaining_aggregate c, ad_remaining_cash = remaining_cash c\<rparr>"

text \<open>\<open>min(tier, underlying, aggregate, cash)\<close>.\<close>

definition capacity :: "capacities \<Rightarrow> dec" where
  "capacity c = dec_min (dec_min (dec_min (tier_capacity c) (remaining_underlying c)) (remaining_aggregate c)) (remaining_cash c)"

definition binding_reasons :: "capacities \<Rightarrow> abstain_reason list" where
  "binding_reasons c =
     (if dec_eq (tier_capacity c) (capacity c) then [TIER_CAPACITY_INSUFFICIENT] else [])
     @ (if dec_eq (remaining_underlying c) (capacity c) then [UNDERLYING_CAP_INSUFFICIENT] else [])
     @ (if dec_eq (remaining_aggregate c) (capacity c) then [AGGREGATE_CAP_INSUFFICIENT] else [])
     @ (if dec_eq (remaining_cash c) (capacity c) then [CASH_INSUFFICIENT] else [])"

definition allocated :: "hash_function \<Rightarrow> defined_risk_opportunity \<Rightarrow> int \<Rightarrow> capacities \<Rightarrow> allocation_decision" where
  "allocated H o' q c =
     (let loss = dec_mul (dec_of_int q) (op_max_debit o')
      in \<lparr>ad_status = ALLOCATED, ad_reason_codes = [], ad_quantity = q, ad_max_loss = loss,
          ad_reservation_id = Some (reservation_identity H o' q loss),
          ad_remaining_tier = dec_sub (tier_capacity c) loss, ad_remaining_underlying = dec_sub (remaining_underlying c) loss,
          ad_remaining_aggregate = dec_sub (remaining_aggregate c) loss, ad_remaining_cash = dec_sub (remaining_cash c) loss\<rparr>)"

definition allocate_defined_risk ::
    "hash_function \<Rightarrow> portfolio_state \<Rightarrow> defined_risk_opportunity \<Rightarrow> allocation_reservation list
     \<Rightarrow> universe_error + allocation_decision" where
  "allocate_defined_risk H p o' existing =
     rbind (validate_reservations existing) (\<lambda>rs.
       let c = capacities_of p o' rs
       in case find (\<lambda>r. ar_opportunity_id r = op_opportunity_id o') rs of
            Some r \<Rightarrow> guarded [(ar_opportunity_sha256 r \<noteq> defined_risk_opportunity_sha256 H o', urej IDENTITY_CONFLICT ''opportunity'')]
                        (Inr (replayed r c))
          | None \<Rightarrow>
              if \<not> op_decision_ready o' then Inr (abstained [OPPORTUNITY_NOT_READY] c)
              else (case dec_floordiv (capacity c) (op_max_debit o') of
                      None \<Rightarrow> Inl InvalidOperation
                    | Some q \<Rightarrow> if q < 1 then Inr (abstained (binding_reasons c) c) else Inr (allocated H o' q c)))"

section \<open>Capacities are respected\<close>

lemma floordiv_value:
  assumes "dec_floordiv x y = Some q" "0 < dval y"
  shows "1 \<le> q \<longleftrightarrow> dval y \<le> dval x" "1 \<le> q \<Longrightarrow> of_int q * dval y \<le> dval x" "1 \<le> q \<Longrightarrow> dval x < of_int (q + 1) * dval y"
proof -
  obtain m1 e1 m2 e2 where xy: "x = Fin m1 e1" "y = Fin m2 e2"
    using assms(1) by (cases x; cases y) auto
  define k a b where "k = min e1 e2" and "a = aligned m1 e1 k" and "b = aligned m2 e2 k"
  have val: "dval x = of_int a * 10 powi k" "dval y = of_int b * 10 powi k"
    using aligned_value [of k e1 m1] aligned_value [of k e2 m2] by (simp_all add: xy a_def b_def k_def)
  have b: "0 < b" using assms(2) unfolding val by (cases "0 < b") (simp_all add: not_less mult_nonpos_nonneg leD)
  have q: "q = sgn a * (\<bar>a\<bar> div b)" using assms(1) b by (auto simp: xy Let_def a_def b_def k_def split: if_splits)
  have scale: "of_int u * (10 :: rat) powi k \<le> of_int v * 10 powi k \<longleftrightarrow> u \<le> v" for u v by (rule scaled_le_iff)
  have one: "1 \<le> q \<longleftrightarrow> b \<le> a"
    using b q by (cases a "0 :: int" rule: linorder_cases) (auto simp: pos_imp_zdiv_pos_iff pos_imp_zdiv_neg_iff int_one_le_iff_zero_less)
  then show "1 \<le> q \<longleftrightarrow> dval y \<le> dval x" unfolding val scale .
  assume "1 \<le> q"
  then have pos: "b \<le> a" "q = a div b" using one q b by simp_all
  have "a = q * b + a mod b" "0 \<le> a mod b" "a mod b < b" using b pos(2) by simp_all
  then have "q * b \<le> a" "\<not> (q + 1) * b \<le> a" unfolding distrib_right by linarith+
  moreover have "of_int q * dval y = of_int (q * b) * 10 powi k" "of_int (q + 1) * dval y = of_int ((q + 1) * b) * 10 powi k"
    unfolding val by simp_all
  ultimately show "of_int q * dval y \<le> dval x" "dval x < of_int (q + 1) * dval y"
    using scale [of "q * b" a] scale [of "(q + 1) * b" a] unfolding val(1) by linarith+
qed

lemma dec_min_le:
  assumes "is_finite x" "is_finite y"
  shows "is_finite (dec_min x y)" "dval (dec_min x y) = min (dval x) (dval y)" "dec_min x y = x \<or> dec_min x y = y"
  using assms by (auto simp: dec_min_def dec_order)

definition capacities_ok :: "capacities \<Rightarrow> bool" where
  "capacities_ok c = (\<forall>x \<in> {tier_capacity c, remaining_underlying c, remaining_aggregate c, remaining_cash c}.
     is_finite x \<and> representable (dval x))"

lemma capacity_bounds:
  assumes "capacities_ok c"
  shows "is_finite (capacity c)" "representable (dval (capacity c))"
    "dval (capacity c) \<le> dval (tier_capacity c)" "dval (capacity c) \<le> dval (remaining_underlying c)"
    "dval (capacity c) \<le> dval (remaining_aggregate c)" "dval (capacity c) \<le> dval (remaining_cash c)"
    "binding_reasons c \<noteq> []"
proof -
  have fin: "is_finite (tier_capacity c)" "is_finite (remaining_underlying c)" "is_finite (remaining_aggregate c)" "is_finite (remaining_cash c)"
    using assms by (simp_all add: capacities_ok_def)
  note m1 = dec_min_le [OF fin(1,2)] and m2 = dec_min_le [OF dec_min_le(1) [OF fin(1,2)] fin(3)]
  note m3 = dec_min_le [OF m2(1) fin(4)]
  show "is_finite (capacity c)" "dval (capacity c) \<le> dval (tier_capacity c)" "dval (capacity c) \<le> dval (remaining_underlying c)"
    "dval (capacity c) \<le> dval (remaining_aggregate c)" "dval (capacity c) \<le> dval (remaining_cash c)"
    using m3 m2 m1 by (simp_all add: capacity_def)
  have one: "capacity c \<in> {tier_capacity c, remaining_underlying c, remaining_aggregate c, remaining_cash c}"
    using m3(3) m2(3) m1(3) unfolding capacity_def by auto
  then show "representable (dval (capacity c))" using assms by (auto simp: capacities_ok_def)
  show "binding_reasons c \<noteq> []" using one fin by (auto simp: binding_reasons_def)
qed

definition allocation_input_ok :: "portfolio_state \<Rightarrow> defined_risk_opportunity \<Rightarrow> allocation_reservation list \<Rightarrow> bool" where
  "allocation_input_ok p o' rs = (portfolio_state_checks p = None \<and> list_all (\<lambda>x. underlying_exposure_checks x = None) (pf_exposures p)
     \<and> opportunity_checks o' = None \<and> list_all (\<lambda>r. allocation_reservation_checks r = None) rs)"

lemma positive_decimal_ok: "first_reject (uv_positive_decimal d path) = None \<longleftrightarrow> is_finite d \<and> 0 < dval d"
  by (auto simp: uv_positive_decimal_def uv_decimal_def dec_order not_le)

lemma nonnegative_decimal_ok: "first_reject (uv_nonnegative_decimal d path) = None \<longleftrightarrow> is_finite d \<and> 0 \<le> dval d"
  by (auto simp: uv_nonnegative_decimal_def uv_decimal_def dec_order not_less)

lemmas decimal_checks = positive_decimal_ok nonnegative_decimal_ok

lemma input_finite:
  assumes "allocation_input_ok p o' rs"
  shows "is_finite (pf_equity p)" "is_finite (pf_cash p)" "is_finite (pf_open_debit p)" "is_finite (op_max_debit o')"
    "0 < dval (op_max_debit o')" "is_finite (underlying_open p u)" "r \<in> set rs \<Longrightarrow> is_finite (ar_max_loss r) \<and> 0 \<le> dval (ar_max_loss r)"
proof -
  show "is_finite (pf_equity p)" "is_finite (pf_cash p)" "is_finite (pf_open_debit p)" "is_finite (op_max_debit o')"
    "0 < dval (op_max_debit o')"
    using assms unfolding allocation_input_ok_def portfolio_state_checks_def opportunity_checks_def first_reject_append
    by (auto simp: decimal_checks split: option.splits)
  show "is_finite (underlying_open p u)"
  proof (cases "find (\<lambda>x. ue_underlying x = u) (pf_exposures p)")
    case (Some x)
    then have "x \<in> set (pf_exposures p)" by (auto simp: find_Some_iff)
    then have "underlying_exposure_checks x = None" using assms by (auto simp: allocation_input_ok_def list_all_iff)
    then show ?thesis using Some by (simp add: underlying_open_def underlying_exposure_checks_def uv_symbol_def positive_decimal_ok)
  qed (simp add: underlying_open_def)
  show "is_finite (ar_max_loss r) \<and> 0 \<le> dval (ar_max_loss r)" if "r \<in> set rs"
  proof -
    have "allocation_reservation_checks r = None" using assms that by (auto simp: allocation_input_ok_def list_all_iff)
    then show ?thesis unfolding allocation_reservation_checks_def first_reject_append
      by (auto simp: decimal_checks split: option.splits)
  qed
qed

lemma reserved_finite:
  assumes "allocation_input_ok p o' rs"
  shows "is_finite (allocation_reserved rs)" "is_finite (allocation_reserved_on u rs)"
  using dec_sum_nonneg [of "map ar_max_loss rs"] dec_sum_nonneg [of "map ar_max_loss (filter (\<lambda>r. ar_underlying r = u) rs)"]
    input_finite(7) [OF assms] by (auto simp: allocation_reserved_def allocation_reserved_on_def)

lemma tier_fraction_finite [simp]: "is_finite (tier_fraction t)" by (cases t) simp_all

lemma capacities_of_ok: "allocation_input_ok p o' rs \<Longrightarrow> capacities_ok (capacities_of p o' rs)"
  using input_finite [of p o' rs] reserved_finite [of p o' rs]
  by (simp add: capacities_ok_def capacities_of_def representable_results MAX_PER_UNDERLYING_FRACTION_def
      MAX_AGGREGATE_OPEN_DEBIT_FRACTION_def)

text \<open>What a fresh allocation of a ready opportunity looks like.\<close>

lemma fresh_allocation:
  assumes "allocate_defined_risk H p o' rs = Inr d" "find (\<lambda>r. ar_opportunity_id r = op_opportunity_id o') rs = None"
    "op_decision_ready o'"
  obtains q where "dec_floordiv (capacity (capacities_of p o' rs)) (op_max_debit o') = Some q"
    "d = (if q < 1 then abstained (binding_reasons (capacities_of p o' rs)) (capacities_of p o' rs)
          else allocated H o' q (capacities_of p o' rs))"
  using assms by (auto simp: allocate_defined_risk_def rbind_Inr validate_reservations_def Let_def split: option.splits if_splits)

lemma allocated_bounds:
  assumes ok: "allocation_input_ok p o' rs" and q: "1 \<le> q"
    and fits: "of_int q * dval (op_max_debit o') \<le> dval (capacity (capacities_of p o' rs))"
    and c_def: "c = capacities_of p o' rs" and d_def: "d = allocated H o' q c"
  shows "dval (ad_max_loss d) \<le> dval (capacity c)" "0 < dval (ad_max_loss d)"
    "0 \<le> dval (ad_remaining_tier d)" "0 \<le> dval (ad_remaining_underlying d)"
    "0 \<le> dval (ad_remaining_aggregate d)" "0 \<le> dval (ad_remaining_cash d)"
proof -
  note fin = input_finite(4,5) [OF ok]
  note caps = capacities_of_ok [OF ok, folded c_def]
  note bounds = capacity_bounds [OF caps]
  have loss: "ad_max_loss d = dec_mul (dec_of_int q) (op_max_debit o')" "is_finite (ad_max_loss d)"
    using fin by (simp_all add: d_def allocated_def Let_def dec_of_int_def)
  show le: "dval (ad_max_loss d) \<le> dval (capacity c)" unfolding loss(1)
    by (rule dec_mul_le [OF _ fin(1) bounds(2)]) (use fits in \<open>simp_all add: dec_of_int_def c_def\<close>)
  obtain m e where m: "op_max_debit o' = Fin m e" using fin(1) by (cases "op_max_debit o'") auto
  then have "0 < m" using fin(2) by (cases "0 < m") (simp_all add: not_less mult_nonpos_nonneg leD)
  then have "0 < dval (dfix (q * m) e)" using q by (intro dfix_pos) simp
  then show "0 < dval (ad_max_loss d)" by (simp add: loss(1) m dec_of_int_def)
  have "is_finite (tier_capacity c)" "is_finite (remaining_underlying c)" "is_finite (remaining_aggregate c)" "is_finite (remaining_cash c)"
    using caps by (simp_all add: capacities_ok_def)
  then show "0 \<le> dval (ad_remaining_tier d)" "0 \<le> dval (ad_remaining_underlying d)"
    "0 \<le> dval (ad_remaining_aggregate d)" "0 \<le> dval (ad_remaining_cash d)"
    using bounds le loss(2)
    by (simp_all add: d_def allocated_def Let_def dec_sub_nonneg)
qed

text \<open>
  C31. Sizing is exact and never exceeds a cap. For a portfolio, an opportunity and
  reservations the dataclasses accept, and an opportunity that holds no reservation yet: the
  decision is ALLOCATED precisely when the opportunity is ready and one contract fits into
  the smallest of the four capacities. Then the quantity is the largest that fits, the
  maximum loss is positive and at most the tier, the underlying, the aggregate and the cash
  capacity, and no remaining capacity is negative. Otherwise nothing is reserved and at
  least one reason is named.
\<close>

theorem allocation_within_caps:
  assumes ok: "allocation_input_ok p o' rs" and run: "allocate_defined_risk H p o' rs = Inr d"
    and new: "find (\<lambda>r. ar_opportunity_id r = op_opportunity_id o') rs = None"
  shows "let c = capacities_of p o' rs in (ad_status d = ALLOCATED \<longleftrightarrow> op_decision_ready o' \<and> dval (op_max_debit o') \<le> dval (capacity c))
    \<and> (ad_status d = ALLOCATED \<longrightarrow>
         1 \<le> ad_quantity d \<and> of_int (ad_quantity d) * dval (op_max_debit o') \<le> dval (capacity c)
         \<and> dval (capacity c) < of_int (ad_quantity d + 1) * dval (op_max_debit o')
         \<and> 0 < dval (ad_max_loss d) \<and> dval (ad_max_loss d) \<le> dval (tier_capacity c)
         \<and> dval (ad_max_loss d) \<le> dval (remaining_underlying c) \<and> dval (ad_max_loss d) \<le> dval (remaining_aggregate c)
         \<and> dval (ad_max_loss d) \<le> dval (remaining_cash c)
         \<and> 0 \<le> dval (ad_remaining_tier d) \<and> 0 \<le> dval (ad_remaining_underlying d)
         \<and> 0 \<le> dval (ad_remaining_aggregate d) \<and> 0 \<le> dval (ad_remaining_cash d))
    \<and> (ad_status d = ABSTAINED \<longrightarrow> ad_quantity d = 0 \<and> ad_reservation_id d = None \<and> ad_reason_codes d \<noteq> [])"
proof -
  define c where "c = capacities_of p o' rs"
  note bounds = capacity_bounds [OF capacities_of_ok [OF ok, folded c_def]]
  show ?thesis
  proof (cases "op_decision_ready o'")
    case False
    then have "d = abstained [OPPORTUNITY_NOT_READY] c"
      using run new by (auto simp: allocate_defined_risk_def rbind_Inr validate_reservations_def Let_def c_def split: option.splits)
    then show ?thesis using False by (simp add: abstained_def Let_def)
  next
    case True
    obtain q where q: "dec_floordiv (capacity c) (op_max_debit o') = Some q"
      and d: "d = (if q < 1 then abstained (binding_reasons c) c else allocated H o' q c)"
      using fresh_allocation [OF run new True] unfolding c_def .
    note quotient = floordiv_value [OF q input_finite(5) [OF ok]]
    show ?thesis
    proof (cases "q < 1")
      case True
      then show ?thesis using d quotient(1) bounds(7) by (simp add: abstained_def Let_def c_def [symmetric])
    next
      case False
      then have one: "1 \<le> q" by simp
      have alloc: "d = allocated H o' q c" using d False by simp
      note fits = quotient(2) [OF one] quotient(3) [OF one]
      note within = allocated_bounds [OF ok one fits(1) [unfolded c_def] c_def alloc]
      have shape: "ad_status d = ALLOCATED" "ad_quantity d = q" by (simp_all add: alloc allocated_def Let_def)
      show ?thesis using \<open>op_decision_ready o'\<close> quotient(1) one fits within bounds shape by (simp add: Let_def c_def [symmetric])
    qed
  qed
qed

lemma duplicate_reservation_None: "duplicate_reservation i seen ss = None \<longleftrightarrow> distinct ss \<and> set seen \<inter> set ss = {}"
  by (induction i seen ss rule: duplicate_reservation.induct) auto

text \<open>The reservation a decision is persisted as.\<close>

definition persisted :: "hash_function \<Rightarrow> defined_risk_opportunity \<Rightarrow> allocation_decision \<Rightarrow> allocation_reservation" where
  "persisted H o' d =
     \<lparr>ar_opportunity_id = op_opportunity_id o', ar_opportunity_sha256 = defined_risk_opportunity_sha256 H o',
      ar_reservation_id = the (ad_reservation_id d), ar_underlying = op_underlying o', ar_quantity = ad_quantity d,
      ar_max_loss = ad_max_loss d\<rparr>"

text \<open>
  C32. Allocation is idempotent: once the reservation of an allocated opportunity is
  persisted, allocating the same opportunity again, against any portfolio, repeats the same
  quantity, loss and reservation identity and never sizes it a second time; and the same
  identity with other canonical bytes is refused.
\<close>

theorem allocation_idempotent:
  assumes run: "allocate_defined_risk H p o' rs = Inr d" and new: "find (\<lambda>r. ar_opportunity_id r = op_opportunity_id o') rs = None"
    and status: "ad_status d = ALLOCATED"
  shows "(\<exists>d'. allocate_defined_risk H p2 o' (rs @ [persisted H o' d]) = Inr d' \<and> ad_status d' = ALLOCATED
           \<and> ad_quantity d' = ad_quantity d \<and> ad_max_loss d' = ad_max_loss d \<and> ad_reservation_id d' = ad_reservation_id d)
    \<and> (op_opportunity_id o2 = op_opportunity_id o' \<longrightarrow> defined_risk_opportunity_sha256 H o2 \<noteq> defined_risk_opportunity_sha256 H o' \<longrightarrow>
         allocate_defined_risk H p2 o2 (rs @ [persisted H o' d]) = Inl (urej IDENTITY_CONFLICT ''opportunity''))"
proof -
  have rid: "\<exists>i. ad_reservation_id d = Some i"
    using run new status
    by (auto simp: allocate_defined_risk_def rbind_Inr validate_reservations_def Let_def allocated_def abstained_def
        split: option.splits if_splits)
  have "distinct (map ar_opportunity_id rs)"
    using run by (auto simp: allocate_defined_risk_def rbind_Inr validate_reservations_def duplicate_reservation_None split: option.splits)
  then have valid: "validate_reservations (rs @ [persisted H o' d]) = Inr (rs @ [persisted H o' d])"
    using new by (auto simp: validate_reservations_def persisted_def find_None_iff duplicate_reservation_None split: option.splits)
  have "find (\<lambda>r. ar_opportunity_id r = op_opportunity_id o') (rs @ [persisted H o' d]) = Some (persisted H o' d)"
    using new by (induction rs) (auto simp: persisted_def split: if_splits)
  then show ?thesis
    using valid rid by (auto simp: allocate_defined_risk_def Let_def guarded_def replayed_def persisted_def)
qed

end
