(* ===== verification/Plain_Decimal.thy ===== *)
theory Plain_Decimal
  imports Universe
begin

text \<open>
  The plain decimal text of \<open>autonomy/universe.py\<close> (\<open>_decimal_text\<close>, \<open>_decimal_field\<close>): it
  depends on the value alone, it matches the pattern the reader demands, and reading it
  back gives the same value.
\<close>

section \<open>Digit strings\<close>

lemma nat_of_digs_append: "nat_of_digs (s @ t) = nat_of_digs s * 10 ^ length t + nat_of_digs t"
proof (induction t rule: rev_induct)
  case (snoc c t)
  then show ?case by (simp only: append_assoc [symmetric] nat_of_digs_snoc length_append) (simp add: algebra_simps)
qed simp

lemma nat_of_zeros [simp]: "nat_of_digs (zeros k) = 0"
  using nat_of_digs_zeros [of k "[]"] by simp

lemma digit_val_less: "is_digit c \<Longrightarrow> digit_val c < 10"
  by (auto simp: is_digit_def digit_val_def Let_def)

lemma digit_val_inject: "is_digit c \<Longrightarrow> is_digit d \<Longrightarrow> digit_val c = digit_val d \<Longrightarrow> c = d"
proof -
  assume "is_digit c" "is_digit d" "digit_val c = digit_val d"
  then have "(of_char c :: nat) = of_char d" unfolding is_digit_def digit_val_def Let_def by linarith
  then show ?thesis by (simp add: of_char_eq_iff)
qed

lemma digit_zero: "is_digit c \<Longrightarrow> digit_val c = 0 \<longleftrightarrow> c = CHR ''0''"
  using digit_val_inject [of c "CHR ''0''"] by (auto simp: digit_val_def)

lemma nat_of_digs_less: "list_all is_digit s \<Longrightarrow> nat_of_digs s < 10 ^ length s"
proof (induction s rule: rev_induct)
  case (snoc c s)
  then show ?case using digit_val_less [of c] by simp
qed simp

lemma nat_of_digs_eq_length:
  "length s = length t \<Longrightarrow> list_all is_digit s \<Longrightarrow> list_all is_digit t \<Longrightarrow> nat_of_digs s = nat_of_digs t \<Longrightarrow> s = t"
proof (induction s arbitrary: t rule: rev_induct)
  case (snoc c s)
  then obtain d t' where t: "t = t' @ [d]" by (cases t rule: rev_cases) auto
  have dig: "is_digit c" "is_digit d" "list_all is_digit s" "list_all is_digit t'" using snoc.prems t by simp_all
  have eq: "10 * nat_of_digs s + digit_val c = 10 * nat_of_digs t' + digit_val d" using snoc.prems(4) t by simp
  have "digit_val c = digit_val d" "nat_of_digs s = nat_of_digs t'"
    using eq digit_val_less [OF dig(1)] digit_val_less [OF dig(2)] by presburger+
  then show ?case using snoc.IH [of t'] snoc.prems(1) dig digit_val_inject t by simp
qed simp

lemma nat_of_digs_lower: "s \<noteq> [] \<Longrightarrow> list_all is_digit s \<Longrightarrow> hd s \<noteq> CHR ''0'' \<Longrightarrow> 10 ^ (length s - 1) \<le> nat_of_digs s"
proof -
  assume "s \<noteq> []" "list_all is_digit s" "hd s \<noteq> CHR ''0''"
  then obtain c t where s: "s = [c] @ t" "is_digit c" "c \<noteq> CHR ''0''" by (cases s) auto
  have "0 < nat_of_digs [c]" using digit_zero [OF s(2)] s(3) by (cases "digit_val c") (simp_all add: nat_of_digs_def)
  then have "1 * 10 ^ length t \<le> nat_of_digs [c] * 10 ^ length t" by (intro mult_right_mono) simp_all
  then have "10 ^ length t \<le> nat_of_digs s" unfolding s(1) nat_of_digs_append by linarith
  then show ?thesis using s(1) by simp
qed

lemma digs_head: "0 < n \<Longrightarrow> hd (digs n) \<noteq> CHR ''0''"
proof (induction n rule: digs.induct)
  case (1 n)
  show ?case
  proof (cases "n < 10")
    case True
    have "digit_val (digit_char n) = n" using True by (simp add: digit_val_def digit_char_def of_char_of)
    then show ?thesis using True 1(2) by (subst digs.simps) (auto simp: digit_val_def)
  next
    case False
    then show ?thesis using 1(1) by (subst digs.simps) (simp add: hd_append)
  qed
qed

section \<open>Plain forms\<close>

definition plain_form :: "string \<Rightarrow> string \<Rightarrow> bool" where
  "plain_form ip fp = (list_all is_digit ip \<and> list_all is_digit fp \<and> ip \<noteq> [] \<and> (hd ip = CHR ''0'' \<longrightarrow> ip = ''0'')
     \<and> (fp \<noteq> [] \<longrightarrow> last fp \<noteq> CHR ''0''))"

definition plain_value :: "string \<Rightarrow> string \<Rightarrow> rat" where
  "plain_value ip fp = of_nat (nat_of_digs (ip @ fp)) * 10 powi (- int (length fp))"

lemma plain_scaled:
  assumes "plain_value ip fp = plain_value ip' fp'" "length fp \<le> length fp'"
  shows "nat_of_digs (ip' @ fp') = nat_of_digs (ip @ fp) * 10 ^ (length fp' - length fp)"
proof -
  have "(10 :: rat) powi (- int (length fp)) = 10 ^ (length fp' - length fp) * 10 powi (- int (length fp'))"
    using powi_split [of "- int (length fp')" "- int (length fp)"] assms(2) by (simp add: nat_diff_distrib')
  then have "of_nat (nat_of_digs (ip @ fp) * 10 ^ (length fp' - length fp)) * (10 :: rat) powi (- int (length fp'))
      = of_nat (nat_of_digs (ip' @ fp')) * 10 powi (- int (length fp'))"
    using assms(1) by (simp add: plain_value_def mult.assoc)
  then show ?thesis by (simp only: mult_cancel_right power_int_eq_0_iff of_nat_eq_iff) simp
qed

lemma plain_same_length:
  assumes "plain_form ip fp" "plain_form ip' fp'" "plain_value ip fp = plain_value ip' fp'" "length fp \<le> length fp'"
  shows "length fp = length fp'"
proof (rule ccontr)
  assume "length fp \<noteq> length fp'"
  then have "fp' \<noteq> []" "0 < length fp' - length fp" using assms(4) by auto
  then obtain gs c where fp': "fp' = gs @ [c]" by (cases fp' rule: rev_cases) auto
  have c: "is_digit c" "c \<noteq> CHR ''0''" using assms(2) by (simp_all add: plain_form_def fp')
  have "10 dvd nat_of_digs (ip' @ fp')"
    unfolding plain_scaled [OF assms(3,4)] using \<open>0 < length fp' - length fp\<close> by (simp add: dvd_power)
  moreover have "nat_of_digs (ip' @ fp') = 10 * nat_of_digs (ip' @ gs) + digit_val c"
    using nat_of_digs_snoc [of "ip' @ gs" c] by (simp add: fp')
  ultimately have "10 dvd digit_val c" by (metis dvd_add_right_iff dvd_triv_left)
  then have "digit_val c = 0" using digit_val_less [OF c(1)] by (cases "digit_val c = 0") (auto dest: dvd_imp_le)
  then show False using c digit_zero by simp
qed

lemma plain_lengths:
  assumes "plain_form ip fp" "plain_form ip' fp'" "length fp = length fp'" "nat_of_digs (ip @ fp) = nat_of_digs (ip' @ fp')"
  shows "length ip' \<le> length ip"
proof (rule ccontr)
  assume "\<not> length ip' \<le> length ip"
  then have lt: "length ip < length ip'" by simp
  have forms: "ip \<noteq> []" "ip' \<noteq> []" "list_all is_digit (ip @ fp)" "list_all is_digit (ip' @ fp')"
    using assms(1,2) by (simp_all add: plain_form_def)
  have "length ip' \<noteq> 1" using lt forms(1) by (cases ip) auto
  then have "hd (ip' @ fp') \<noteq> CHR ''0''" using assms(2) forms(2) by (auto simp: plain_form_def hd_append)
  then have "10 ^ (length (ip' @ fp') - 1) \<le> nat_of_digs (ip' @ fp')" using forms by (intro nat_of_digs_lower) simp_all
  also have "\<dots> < 10 ^ length (ip @ fp)" using nat_of_digs_less [OF forms(3)] assms(4) by simp
  finally have "length (ip' @ fp') - 1 < length (ip @ fp)" by (simp add: power_less_imp_less_exp)
  then show False using lt assms(3) by simp
qed

lemma plain_unique_le:
  assumes "plain_form ip fp" "plain_form ip' fp'" "plain_value ip fp = plain_value ip' fp'" "length fp \<le> length fp'"
  shows "ip = ip' \<and> fp = fp'"
proof -
  have len: "length fp = length fp'" by (rule plain_same_length [OF assms])
  then have eq: "nat_of_digs (ip @ fp) = nat_of_digs (ip' @ fp')" using plain_scaled [OF assms(3,4)] by simp
  have "length ip = length ip'" using plain_lengths [OF assms(1,2) len eq] plain_lengths [OF assms(2,1) len [symmetric] eq [symmetric]] by simp
  then have "ip @ fp = ip' @ fp'" using len eq assms(1,2) by (intro nat_of_digs_eq_length) (simp_all add: plain_form_def)
  then show ?thesis using len by simp
qed

lemma plain_unique: "plain_form ip fp \<Longrightarrow> plain_form ip' fp' \<Longrightarrow> plain_value ip fp = plain_value ip' fp' \<Longrightarrow> ip = ip' \<and> fp = fp'"
  using plain_unique_le [of ip fp ip' fp'] plain_unique_le [of ip' fp' ip fp] by (cases "length fp \<le> length fp'") auto

section \<open>Plain text of a positive decimal\<close>

lemma rstrip_zeros:
  obtains j where "s = rstrip_char (CHR ''0'') s @ zeros j"
    "rstrip_char (CHR ''0'') s \<noteq> [] \<longrightarrow> last (rstrip_char (CHR ''0'') s) \<noteq> CHR ''0''"
proof -
  let ?P = "\<lambda>d. d = CHR ''0''"
  let ?z = "takeWhile ?P (rev s)"
  have "\<forall>x \<in> set ?z. x = CHR ''0''" by (auto dest: set_takeWhileD)
  then have "rev ?z = zeros (length ?z)" unfolding zeros_def by (metis replicate_length_same rev_replicate)
  moreover have "s = rev (dropWhile ?P (rev s)) @ rev ?z" by (metis rev_append rev_rev_ident takeWhile_dropWhile_id)
  ultimately have "s = rstrip_char (CHR ''0'') s @ zeros (length ?z)" unfolding rstrip_char_def by simp
  moreover have "rstrip_char (CHR ''0'') s \<noteq> [] \<longrightarrow> last (rstrip_char (CHR ''0'') s) \<noteq> CHR ''0''"
    using hd_dropWhile [of ?P "rev s"] by (auto simp: rstrip_char_def last_rev)
  ultimately show thesis by (rule that)
qed

lemma rstrip_append:
  "rstrip_char c (s @ t) = (if rstrip_char c t = [] then rstrip_char c s else s @ rstrip_char c t)"
  by (auto simp: rstrip_char_def dropWhile_append)

lemma rstrip_keep: "s \<noteq> [] \<Longrightarrow> last s \<noteq> c \<Longrightarrow> rstrip_char c s = s"
  by (cases s rule: rev_cases) (simp_all add: rstrip_char_def)

lemma point_free: "list_all is_digit s \<Longrightarrow> CHR ''.'' \<notin> set s"
  by (auto simp: list_all_iff is_digit_def Let_def)

lemma stripped_text:
  assumes "list_all is_digit ip" "list_all is_digit fp" "ip \<noteq> []"
  shows "(if CHR ''.'' \<in> set (printed False ip fp 0) then rstrip_char (CHR ''.'') (rstrip_char (CHR ''0'') (printed False ip fp 0))
          else printed False ip fp 0) = printed False ip (rstrip_char (CHR ''0'') fp) 0"
proof (cases "fp = []")
  case True
  then show ?thesis using point_free [OF assms(1)] by (simp add: printed_def exponent_text_def rstrip_char_def)
next
  case False
  have last_ip: "last ip \<noteq> CHR ''.''" using point_free [OF assms(1)] last_in_set [OF assms(3)] by metis
  have fp': "set (rstrip_char (CHR ''0'') fp) \<subseteq> set fp" by (auto simp: rstrip_char_def dest: set_dropWhileD)
  show ?thesis
  proof (cases "rstrip_char (CHR ''0'') fp = []")
    case True
    then have "rstrip_char (CHR ''0'') (ip @ [CHR ''.''] @ fp) = ip @ [CHR ''.'']"
      using rstrip_append [of "CHR ''0''" "ip @ [CHR ''.'']" fp] rstrip_keep [of "ip @ [CHR ''.'']" "CHR ''0''"] by simp
    moreover have "rstrip_char (CHR ''.'') (ip @ [CHR ''.'']) = rstrip_char (CHR ''.'') ip" by (simp add: rstrip_char_def)
    ultimately show ?thesis using False True rstrip_keep [OF assms(3) last_ip] by (simp add: printed_def exponent_text_def)
  next
    case nonempty: False
    then have "rstrip_char (CHR ''0'') (ip @ [CHR ''.''] @ fp) = ip @ [CHR ''.''] @ rstrip_char (CHR ''0'') fp"
      using rstrip_append [of "CHR ''0''" "ip @ [CHR ''.'']" fp] by simp
    moreover have "last (rstrip_char (CHR ''0'') fp) \<noteq> CHR ''.''"
    proof
      assume "last (rstrip_char (CHR ''0'') fp) = CHR ''.''"
      then have "CHR ''.'' \<in> set fp" using subsetD [OF fp' last_in_set [OF nonempty]] by simp
      then show False using point_free [OF assms(2)] by simp
    qed
    then have "rstrip_char (CHR ''.'') (ip @ [CHR ''.''] @ rstrip_char (CHR ''0'') fp) = ip @ [CHR ''.''] @ rstrip_char (CHR ''0'') fp"
      using nonempty by (intro rstrip_keep) simp_all
    ultimately show ?thesis using False nonempty by (simp add: printed_def exponent_text_def)
  qed
qed

lemma format_f_shape:
  assumes "0 < m"
  obtains ip fp where "dec_format_f (Fin m e) = printed False ip fp 0" "list_all is_digit ip" "list_all is_digit fp" "ip \<noteq> []"
    "hd ip = CHR ''0'' \<longrightarrow> ip = ''0''" "plain_value ip fp = of_int m * 10 powi e"
proof -
  define ds where "ds = digs (nat m)"
  have ds: "list_all is_digit ds" "ds \<noteq> []" "hd ds \<noteq> CHR ''0''" "nat_of_digs ds = nat m"
    using digs_head [of "nat m"] assms by (simp_all add: ds_def)
  have fmt: "dec_format_f (Fin m e) = (let dotplace = e + int (length ds);
       intpart = (if dotplace \<le> 0 then ''0'' else if dotplace > int (length ds) then ds @ zeros (nat (dotplace - int (length ds)))
                  else take (nat dotplace) ds);
       fracpart = (if dotplace < 0 then zeros (nat (- dotplace)) @ ds else if dotplace > int (length ds) then [] else drop (nat dotplace) ds)
     in printed False intpart fracpart 0)"
    using assms by (simp add: Let_def ds_def printed_def exponent_text_def)
  consider "e + int (length ds) \<le> 0" | "0 < e" | "0 < e + int (length ds)" "e \<le> 0" by linarith
  then show thesis
  proof cases
    case 1
    let ?fp = "zeros (nat (- (e + int (length ds)))) @ ds"
    have "dec_format_f (Fin m e) = printed False ''0'' ?fp 0" using 1 unfolding fmt Let_def by auto
    moreover have "plain_value ''0'' ?fp = of_int m * 10 powi e"
      using ds assms 1 by (simp add: plain_value_def of_nat_nat)
    ultimately show thesis using ds by (intro that) simp_all
  next
    case 2
    let ?ip = "ds @ zeros (nat e)"
    have "dec_format_f (Fin m e) = printed False ?ip [] 0" using 2 unfolding fmt Let_def by simp
    moreover have "plain_value ?ip [] = of_int m * 10 powi e"
      using ds assms 2 by (simp add: plain_value_def nat_of_digs_append of_nat_nat power_int_def)
    ultimately show thesis using ds by (intro that) simp_all
  next
    case 3
    let ?k = "nat (e + int (length ds))"
    have "dec_format_f (Fin m e) = printed False (take ?k ds) (drop ?k ds) 0" using 3 unfolding fmt Let_def by simp
    moreover have "plain_value (take ?k ds) (drop ?k ds) = of_int m * 10 powi e"
      using ds assms 3 by (simp add: plain_value_def of_nat_nat of_nat_diff nat_le_iff)
    moreover have "list_all is_digit (take ?k ds)" "list_all is_digit (drop ?k ds)"
      using ds(1) by (auto simp: list_all_iff dest: in_set_takeD in_set_dropD)
    moreover have "take ?k ds \<noteq> []" "hd (take ?k ds) = hd ds" using 3 ds(2) by simp_all
    ultimately show thesis using ds by (intro that) simp_all
  qed
qed

lemma plain_text_shape:
  assumes "is_finite d" "0 < dval d"
  obtains ip fp where "plain_decimal_text d = printed False ip fp 0" "plain_form ip fp" "plain_value ip fp = dval d"
proof -
  obtain m e where d: "d = Fin m e" using assms(1) by (cases d) auto
  have m: "0 < m" using assms(2) d by (cases "0 < m") (simp_all add: not_less mult_nonpos_nonneg leD)
  obtain ip fp where fmt: "dec_format_f (Fin m e) = printed False ip fp 0" "list_all is_digit ip" "list_all is_digit fp" "ip \<noteq> []"
    "hd ip = CHR ''0'' \<longrightarrow> ip = ''0''" "plain_value ip fp = of_int m * 10 powi e" using format_f_shape [OF m] .
  obtain j where j: "fp = rstrip_char (CHR ''0'') fp @ zeros j"
    "rstrip_char (CHR ''0'') fp \<noteq> [] \<longrightarrow> last (rstrip_char (CHR ''0'') fp) \<noteq> CHR ''0''" using rstrip_zeros .
  define gs where "gs = rstrip_char (CHR ''0'') fp"
  note j = j [folded gs_def]
  have "\<not> dec_eq d dec_zero" using assms by (simp add: dec_order)
  then have "plain_decimal_text d = printed False ip gs 0"
    using stripped_text [OF fmt(2,3,4)] by (simp add: plain_decimal_text_def d fmt(1) Let_def gs_def del: dec_format_f.simps)
  moreover have "plain_form ip gs" using fmt j by (simp add: plain_form_def)
  moreover have "plain_value ip fp = plain_value ip gs"
  proof -
    have "nat_of_digs (ip @ fp) = nat_of_digs (ip @ gs) * 10 ^ j"
      using nat_of_digs_append [of "ip @ gs" "zeros j"] by (subst j(1)) simp
    moreover have "- int (length fp) + int j = - int (length gs)" by (subst j(1)) simp
    then have "(10 :: rat) powi (- int (length gs)) = 10 powi (- int (length fp)) * 10 ^ j"
      using power_int_add [of "10 :: rat" "- int (length fp)" "int j"] by simp
    ultimately show ?thesis by (simp add: plain_value_def)
  qed
  ultimately show thesis using fmt(6) d by (intro that) simp_all
qed

section \<open>Reading it back\<close>

text \<open>The pattern \<open>-?(?:0|[1-9][0-9]*)(?:\.[0-9]+)?\<close> of the whole text.\<close>

definition decimal_pattern :: "string \<Rightarrow> bool" where
  "decimal_pattern s =
     (let t = (case s of c # r \<Rightarrow> if c = CHR ''-'' then r else s | [] \<Rightarrow> s);
          ip = takeWhile is_digit t; r = dropWhile is_digit t
      in ip \<noteq> [] \<and> (hd ip = CHR ''0'' \<longrightarrow> ip = ''0'')
         \<and> (case r of [] \<Rightarrow> True | c # fs \<Rightarrow> c = CHR ''.'' \<and> fs \<noteq> [] \<and> list_all is_digit fs))"

definition uv_decimal_field :: "json \<Rightarrow> string \<Rightarrow> universe_error + dec" where
  "uv_decimal_field v path =
     (case v of
        JStr s \<Rightarrow>
          if \<not> decimal_pattern s then Inl (urej INVALID_DECIMAL path)
          else (case dec_parse s of
                  None \<Rightarrow> Inl (urej INVALID_DECIMAL path)
                | Some d \<Rightarrow> guarded [(\<not> is_finite d \<or> plain_decimal_text d \<noteq> s, urej INVALID_DECIMAL path)] (Inr d))
      | _ \<Rightarrow> Inl (urej INVALID_DECIMAL path))"

lemma pattern_plain: "plain_form ip fp \<Longrightarrow> decimal_pattern (printed False ip fp 0)"
proof -
  assume form: "plain_form ip fp"
  then obtain c r where ip: "ip = c # r" "is_digit c" by (cases ip) (auto simp: plain_form_def)
  then obtain w where w: "printed False ip fp 0 = c # w" by (simp add: printed_def)
  have "c \<noteq> CHR ''-''" using ip(2) by (auto simp: is_digit_def Let_def)
  then have "(case printed False ip fp 0 of c # r \<Rightarrow> if c = CHR ''-'' then r else printed False ip fp 0
      | [] \<Rightarrow> printed False ip fp 0) = printed False ip fp 0" unfolding w by simp
  then show ?thesis
    using form printed_int_part [of ip fp 0]
    by (auto simp: decimal_pattern_def plain_form_def Let_def exponent_text_def)
qed

lemma plain_text_reads:
  assumes "is_finite d" "0 < dval d"
  obtains d' where "uv_decimal_field (JStr (plain_decimal_text d)) path = Inr d'" "is_finite d'" "dval d' = dval d"
proof -
  obtain ip fp where t: "plain_decimal_text d = printed False ip fp 0" "plain_form ip fp" "plain_value ip fp = dval d"
    using plain_text_shape [OF assms] .
  let ?d = "Fin (int (nat_of_digs (ip @ fp))) (- int (length fp))"
  have parse: "dec_parse (plain_decimal_text d) = Some ?d"
    using dec_parse_printed [of ip fp False 0] t(2) unfolding t(1) by (simp add: plain_form_def)
  have val: "dval ?d = dval d" using t(3) by (simp add: plain_value_def)
  obtain ip' fp' where u: "plain_decimal_text ?d = printed False ip' fp' 0" "plain_form ip' fp'" "plain_value ip' fp' = dval ?d"
    using plain_text_shape [of ?d] val assms(2) by auto
  have "ip' = ip \<and> fp' = fp" by (rule plain_unique [OF u(2) t(2)]) (use u(3) val t(3) in simp)
  then have same: "plain_decimal_text ?d = plain_decimal_text d" using u(1) t(1) by simp
  show thesis
  proof (rule that)
    show "uv_decimal_field (JStr (plain_decimal_text d)) path = Inr ?d"
      using parse same pattern_plain [OF t(2)] unfolding uv_decimal_field_def by (simp add: t(1) guarded_def)
  qed (use val in simp_all)
qed

lemma plain_text_value:
  assumes "is_finite d" "0 < dval d" "is_finite d'" "dval d' = dval d"
  shows "plain_decimal_text d' = plain_decimal_text d"
proof -
  obtain ip fp where t: "plain_decimal_text d = printed False ip fp 0" "plain_form ip fp" "plain_value ip fp = dval d"
    using plain_text_shape [OF assms(1,2)] .
  obtain ip' fp' where u: "plain_decimal_text d' = printed False ip' fp' 0" "plain_form ip' fp'" "plain_value ip' fp' = dval d'"
    using plain_text_shape [of d'] assms by auto
  show ?thesis using plain_unique [OF u(2) t(2)] u t assms(4) by simp
qed

end
