(* ===== verification/Opportunity.thy ===== *)
theory Opportunity
  imports Allocation Plain_Decimal Policy
begin

text \<open>
  \<open>autonomy/universe.py\<close>: the strict reader of opportunity documents. It accepts exactly the
  canonical bytes of a valid opportunity. The reader \<open>json_loads\<close> covers the canonical fragment
  of JSON; on any other text the model rejects the document at once, where the code rejects it
  there or, at the latest, when it compares the bytes with their canonical form.
\<close>

definition OPPORTUNITY_FIELDS :: "string list" where
  "OPPORTUNITY_FIELDS =
     [''schema'', ''schema_version'', ''opportunity_id'', ''decision_id'', ''expression_id'', ''underlying'', ''risk_tier'',
      ''max_debit_per_contract'', ''decision_ready'']"

definition uv_decode :: "string \<Rightarrow> universe_error + json" where
  "uv_decode raw =
     (case json_loads raw of
        None \<Rightarrow> Inl (urej INVALID_DOCUMENT ''document'')
      | Some v \<Rightarrow> guarded [(\<not> json_unique v, urej DUPLICATE_FIELD ''document''),
                           (\<not> is_object v, urej INVALID_DOCUMENT ''document'')] (Inr v))"

definition uv_strict_object :: "json \<Rightarrow> string \<Rightarrow> string list \<Rightarrow> universe_error + json" where
  "uv_strict_object v path names =
     (let missing = sort (filter (\<lambda>f. f \<notin> set (object_keys v)) names);
          unknown = sort (filter (\<lambda>k. k \<notin> set names) (object_keys v))
      in case missing of
           f # _ \<Rightarrow> Inl (urej MISSING_FIELD (path @ ''.'' @ f))
         | [] \<Rightarrow> (case unknown of k # _ \<Rightarrow> Inl (urej UNKNOWN_FIELD (path @ ''.'' @ k)) | [] \<Rightarrow> Inr v))"

definition uv_identifier_field :: "json \<Rightarrow> string \<Rightarrow> universe_error + string" where
  "uv_identifier_field v path =
     (case v of JStr s \<Rightarrow> guarded [uv_identifier s path] (Inr s) | _ \<Rightarrow> Inl (urej INVALID_IDENTIFIER path))"

definition uv_symbol_field :: "json \<Rightarrow> string \<Rightarrow> universe_error + string" where
  "uv_symbol_field v path =
     (case v of JStr s \<Rightarrow> guarded [uv_symbol s path] (Inr s) | _ \<Rightarrow> Inl (urej INVALID_IDENTIFIER path))"

definition uv_boolean_field :: "json \<Rightarrow> string \<Rightarrow> universe_error + bool" where
  "uv_boolean_field v path = (case v of JBool b \<Rightarrow> Inr b | _ \<Rightarrow> Inl (urej INVALID_BOOLEAN path))"

definition parse_risk_tier :: "json \<Rightarrow> string \<Rightarrow> universe_error + risk_tier" where
  "parse_risk_tier v path =
     rbind (uv_decimal_field v path) (\<lambda>d.
       case find (\<lambda>t. dec_eq (tier_fraction t) d) [FIVE_PERCENT, TEN_PERCENT, TWENTY_PERCENT] of
         Some t \<Rightarrow> Inr t | None \<Rightarrow> Inl (urej UNKNOWN_STATE path))"

definition parse_defined_risk_opportunity :: "string \<Rightarrow> universe_error + defined_risk_opportunity" where
  "parse_defined_risk_opportunity raw =
     rbind (uv_decode raw) (\<lambda>doc.
     rbind (uv_strict_object doc ''document'' OPPORTUNITY_FIELDS) (\<lambda>payload.
     guarded [(field_of payload ''schema'' \<noteq> JStr ''esscher.defined_risk_opportunity''
                 \<or> field_of payload ''schema_version'' \<noteq> JInt 1, urej UNSUPPORTED_SCHEMA ''document'')]
     (rbind (uv_identifier_field (field_of payload ''opportunity_id'') ''opportunity_id'') (\<lambda>oid.
      rbind (uv_identifier_field (field_of payload ''decision_id'') ''decision_id'') (\<lambda>did.
      rbind (uv_identifier_field (field_of payload ''expression_id'') ''expression_id'') (\<lambda>eid.
      rbind (uv_symbol_field (field_of payload ''underlying'') ''underlying'') (\<lambda>u.
      rbind (parse_risk_tier (field_of payload ''risk_tier'') ''risk_tier'') (\<lambda>tier.
      rbind (uv_decimal_field (field_of payload ''max_debit_per_contract'') ''max_debit_per_contract'') (\<lambda>debit.
      rbind (uv_boolean_field (field_of payload ''decision_ready'') ''decision_ready'') (\<lambda>ready.
      (let o' = \<lparr>op_opportunity_id = oid, op_decision_id = did, op_expression_id = eid, op_underlying = u,
                 op_risk_tier = tier, op_max_debit = debit, op_decision_ready = ready\<rparr>
       in case opportunity_checks o' of
            Some e \<Rightarrow> Inl e
          | None \<Rightarrow> guarded [(raw \<noteq> defined_risk_opportunity_bytes o', urej NON_CANONICAL_DOCUMENT ''document'')] (Inr o'))))))))))))"

section \<open>Round trip\<close>

lemma tier_positive: "0 < dval (tier_fraction t)"
  by (cases t) (simp_all add: power_int_minus)

lemma tier_reads: "parse_risk_tier (JStr (plain_decimal_text (tier_fraction t))) path = Inr t"
proof -
  obtain d where d: "uv_decimal_field (JStr (plain_decimal_text (tier_fraction t))) path = Inr d" "is_finite d" "dval d = dval (tier_fraction t)"
    using plain_text_reads [of "tier_fraction t" path] tier_positive by auto
  have "dec_eq (tier_fraction u) d \<longleftrightarrow> u = t" for u
    using d(2,3) by (cases u; cases t) (simp_all add: dec_eq_iff power_int_minus)
  then show ?thesis using d(1) by (cases t) (simp_all add: parse_risk_tier_def del: tier_fraction.simps)
qed

lemma uv_strict_object_ok: "set (object_keys v) = set names \<Longrightarrow> uv_strict_object v path names = Inr v"
  by (simp add: uv_strict_object_def Let_def filter_False)

text \<open>The members of an opportunity's payload, as the reader finds them.\<close>

lemma opportunity_loaded:
  defines "doc \<equiv> \<lambda>o'. json_sort (defined_risk_opportunity_payload o')"
  shows "uv_decode (defined_risk_opportunity_bytes o') = Inr (doc o')"
    "uv_strict_object (doc o') ''document'' OPPORTUNITY_FIELDS = Inr (doc o')"
    "field_of (doc o') ''schema'' = JStr ''esscher.defined_risk_opportunity''" "field_of (doc o') ''schema_version'' = JInt 1"
    "field_of (doc o') ''opportunity_id'' = JStr (op_opportunity_id o')" "field_of (doc o') ''decision_id'' = JStr (op_decision_id o')"
    "field_of (doc o') ''expression_id'' = JStr (op_expression_id o')" "field_of (doc o') ''underlying'' = JStr (op_underlying o')"
    "field_of (doc o') ''risk_tier'' = JStr (plain_decimal_text (tier_fraction (op_risk_tier o')))"
    "field_of (doc o') ''max_debit_per_contract'' = JStr (plain_decimal_text (op_max_debit o'))"
    "field_of (doc o') ''decision_ready'' = JBool (op_decision_ready o')"
proof -
  obtain kvs where kvs: "defined_risk_opportunity_payload o' = JObj kvs" "distinct (map fst kvs)" "json_unique (JObj kvs)"
    by (simp add: defined_risk_opportunity_payload_def)
  show "uv_decode (defined_risk_opportunity_bytes o') = Inr (doc o')"
    using json_unique_sorted [OF kvs(3)] kvs(1)
    by (simp add: uv_decode_def defined_risk_opportunity_bytes_def json_loads_canonical guarded_def doc_def)
  have "set (object_keys (doc o')) = set OPPORTUNITY_FIELDS"
    unfolding doc_def defined_risk_opportunity_payload_def object_keys_sorted by (auto simp: OPPORTUNITY_FIELDS_def)
  then show "uv_strict_object (doc o') ''document'' OPPORTUNITY_FIELDS = Inr (doc o')" by (rule uv_strict_object_ok)
  show "field_of (doc o') ''schema'' = JStr ''esscher.defined_risk_opportunity''" "field_of (doc o') ''schema_version'' = JInt 1"
    "field_of (doc o') ''opportunity_id'' = JStr (op_opportunity_id o')" "field_of (doc o') ''decision_id'' = JStr (op_decision_id o')"
    "field_of (doc o') ''expression_id'' = JStr (op_expression_id o')" "field_of (doc o') ''underlying'' = JStr (op_underlying o')"
    "field_of (doc o') ''risk_tier'' = JStr (plain_decimal_text (tier_fraction (op_risk_tier o')))"
    "field_of (doc o') ''max_debit_per_contract'' = JStr (plain_decimal_text (op_max_debit o'))"
    "field_of (doc o') ''decision_ready'' = JBool (op_decision_ready o')"
    unfolding doc_def defined_risk_opportunity_payload_def by (subst field_of_sorted; simp)+
qed

lemma opportunity_checks_None:
  "opportunity_checks o' = None \<longleftrightarrow> identifier_text (op_opportunity_id o') \<and> identifier_text (op_decision_id o')
     \<and> identifier_text (op_expression_id o') \<and> symbol_text (op_underlying o') \<and> is_finite (op_max_debit o') \<and> 0 < dval (op_max_debit o')"
  by (auto simp: opportunity_checks_def uv_identifier_def uv_symbol_def positive_decimal_ok)

text \<open>
  C33. The opportunity document has exactly one byte form. Reading the bytes of a valid
  opportunity gives back the same opportunity with the same debit value and the same bytes,
  hence the same identity; and whatever bytes the reader accepts are the canonical bytes of
  the valid opportunity it returns.
\<close>

theorem opportunity_roundtrip:
  "(opportunity_checks o' = None \<longrightarrow>
      (\<exists>d. parse_defined_risk_opportunity (defined_risk_opportunity_bytes o') = Inr (o'\<lparr>op_max_debit := d\<rparr>)
         \<and> dval d = dval (op_max_debit o') \<and> defined_risk_opportunity_bytes (o'\<lparr>op_max_debit := d\<rparr>) = defined_risk_opportunity_bytes o'))
   \<and> (parse_defined_risk_opportunity raw = Inr o2 \<longrightarrow> raw = defined_risk_opportunity_bytes o2 \<and> opportunity_checks o2 = None)"
proof (intro conjI impI)
  assume "opportunity_checks o' = None"
  note ok = this [unfolded opportunity_checks_None]
  obtain d where d: "uv_decimal_field (JStr (plain_decimal_text (op_max_debit o'))) ''max_debit_per_contract'' = Inr d"
    "is_finite d" "dval d = dval (op_max_debit o')" using plain_text_reads [of "op_max_debit o'"] ok by blast
  have same: "defined_risk_opportunity_bytes (o'\<lparr>op_max_debit := d\<rparr>) = defined_risk_opportunity_bytes o'"
    using plain_text_value [of "op_max_debit o'" d] ok d
    by (simp add: defined_risk_opportunity_bytes_def defined_risk_opportunity_payload_def)
  have rebuilt: "\<lparr>op_opportunity_id = op_opportunity_id o', op_decision_id = op_decision_id o', op_expression_id = op_expression_id o',
      op_underlying = op_underlying o', op_risk_tier = op_risk_tier o', op_max_debit = d, op_decision_ready = op_decision_ready o'\<rparr>
    = o'\<lparr>op_max_debit := d\<rparr>" by simp
  have "opportunity_checks (o'\<lparr>op_max_debit := d\<rparr>) = None" using ok d by (simp add: opportunity_checks_None)
  then have "parse_defined_risk_opportunity (defined_risk_opportunity_bytes o') = Inr (o'\<lparr>op_max_debit := d\<rparr>)"
    using ok d(1) same
    by (simp add: parse_defined_risk_opportunity_def opportunity_loaded guarded_def uv_identifier_field_def uv_identifier_def
        uv_symbol_field_def uv_symbol_def uv_boolean_field_def tier_reads Let_def rebuilt)
  then show "\<exists>d. parse_defined_risk_opportunity (defined_risk_opportunity_bytes o') = Inr (o'\<lparr>op_max_debit := d\<rparr>)
         \<and> dval d = dval (op_max_debit o') \<and> defined_risk_opportunity_bytes (o'\<lparr>op_max_debit := d\<rparr>) = defined_risk_opportunity_bytes o'"
    using d(3) same by blast
next
  assume "parse_defined_risk_opportunity raw = Inr o2"
  then show "raw = defined_risk_opportunity_bytes o2" "opportunity_checks o2 = None"
    by (auto simp: parse_defined_risk_opportunity_def rbind_Inr guarded_Inr Let_def split: option.splits)
qed

section \<open>A sample opportunity\<close>

definition sample_opportunity :: defined_risk_opportunity where
  "sample_opportunity =
     \<lparr>op_opportunity_id = ''opp-1'', op_decision_id = ''dec-1'', op_expression_id = ''expr-1'', op_underlying = ''SPY'',
      op_risk_tier = FIVE_PERCENT, op_max_debit = Fin 12500 (-2), op_decision_ready = True\<rparr>"

definition sample_portfolio :: portfolio_state where
  "sample_portfolio = \<lparr>pf_equity = Fin 100000 0, pf_cash = Fin 60000 0, pf_open_debit = Fin 0 0, pf_exposures = []\<rparr>"

lemma sample_allocation_input: "allocation_input_ok sample_portfolio sample_opportunity []"
  by (simp add: allocation_input_ok_def portfolio_state_checks_def sample_portfolio_def opportunity_checks_None sample_opportunity_def
      uv_defs dec_lt_def aligned_def dec_sum_def identifier_text_def is_alnum_def symbol_text_def is_upper_letter_def is_digit_def)

lemma sample_allocation: "allocate_defined_risk const_hash sample_portfolio sample_opportunity []
    = Inr (allocated const_hash sample_opportunity 40 (capacities_of sample_portfolio sample_opportunity []))"
  by (simp add: allocate_defined_risk_def validate_reservations_def Let_def capacities_of_def sample_portfolio_def sample_opportunity_def
      capacity_def dec_min_def dec_lt_def dec_sub_def aligned_def dfix_exact prec_def MAX_PER_UNDERLYING_FRACTION_def
      MAX_AGGREGATE_OPEN_DEBIT_FRACTION_def underlying_open_def allocation_reserved_def allocation_reserved_on_def dec_sum_def)

theorem opportunity_roundtrip_witness:
  "opportunity_checks sample_opportunity = None
   \<and> (\<exists>d. parse_defined_risk_opportunity (defined_risk_opportunity_bytes sample_opportunity) = Inr (sample_opportunity\<lparr>op_max_debit := d\<rparr>))"
proof -
  have "opportunity_checks sample_opportunity = None" using sample_allocation_input by (simp add: allocation_input_ok_def)
  then show ?thesis using opportunity_roundtrip [of sample_opportunity] by blast
qed

theorem allocation_within_caps_witness:
  "dval (dec_mul (dec_of_int 40) (op_max_debit sample_opportunity)) \<le> dval (tier_capacity (capacities_of sample_portfolio sample_opportunity []))"
  using allocation_within_caps [OF sample_allocation_input sample_allocation]
  by (simp add: Let_def allocated_def del: dec_mul.simps dval.simps)

theorem allocation_idempotent_witness:
  "\<exists>d'. allocate_defined_risk const_hash sample_portfolio sample_opportunity
       [persisted const_hash sample_opportunity (allocated const_hash sample_opportunity 40 (capacities_of sample_portfolio sample_opportunity []))]
     = Inr d' \<and> ad_quantity d' = 40"
  using allocation_idempotent [OF sample_allocation, of sample_portfolio]
  by (auto simp: allocated_def Let_def)

end
