(* ===== verification/Kernel.thy ===== *)
theory Kernel
  imports Allocation Ledger Policy
begin

text \<open>
  \<open>risk/kernel.py\<close>: the PAPER risk kernel. Its object holds a policy, the ledger and a
  source of broker truth; the ledger is the state, the policy and the truth are the record
  \<open>risk_kernel\<close>. Broker truth is code outside the kernel: a truth source is the answers it
  gives to the four reads, each of which may raise. An operation is a ledger operation; a
  handler that moves the control state and then raises keeps the moved state.
\<close>

lemma map_sum_id_Inr [simp]: "map_sum f id r = Inr a \<longleftrightarrow> r = Inr a"
  by (cases r) auto

section \<open>Values\<close>

text \<open>What a read may raise: a \<open>RiskRejected\<close>, an \<open>AttributeError\<close> or \<open>TypeError\<close>, or a \<open>ValueError\<close> or \<open>ArithmeticError\<close>.\<close>

datatype truth_error = TruthRejected risk_rejected | TruthTypeError | TruthValueError value_error

record account_truth =
  tr_clock :: "truth_error + datetime"
  tr_account :: "truth_error + account_snapshot option"
  tr_positions :: "truth_error + position_snapshot list"
  tr_orders :: "truth_error + order_snapshot list"

datatype kernel_policy = PolicyV1 risk_policy | PolicyV2 risk_policy_v2

record risk_kernel =
  kn_policy :: kernel_policy
  kn_truth :: account_truth

record risk_approval =
  ra_event_id :: string
  ra_candidate_id :: string
  ra_reservation_id :: string
  ra_permit_id :: string
  ra_permit_sha256 :: string
  ra_exposure :: dec
  ra_control_state :: control_state

record risk_approval_v2 =
  rv_event_id :: string
  rv_candidate_id :: string
  rv_opportunity_id :: string
  rv_opportunity_sha256 :: string
  rv_reservation_id :: string
  rv_allocation_reservation_id :: string
  rv_risk_tier :: risk_tier
  rv_quantity :: int
  rv_max_loss :: dec
  rv_account_equity :: dec
  rv_account_cash :: dec
  rv_policy_sha256 :: string
  rv_permit_id :: string
  rv_permit_sha256 :: string
  rv_control_state :: control_state

record risk_abstention_v2 =
  rb_event_id :: string
  rb_candidate_id :: string
  rb_opportunity_id :: string
  rb_account_equity :: dec
  rb_account_cash :: dec
  rb_allocation :: allocation_decision
  rb_control_state :: control_state

datatype v2_outcome = ApprovedV2 risk_approval_v2 | AbstainedV2 risk_abstention_v2

record allocation_preview =
  pv_authority :: string
  pv_opportunity_id :: string
  pv_opportunity_sha256 :: string
  pv_expression_sha256 :: string
  pv_policy_sha256 :: string
  pv_account_equity :: dec
  pv_account_cash :: dec
  pv_control_state :: control_state
  pv_allocation :: allocation_decision

definition preview_checks :: "allocation_preview \<Rightarrow> value_error option" where
  "preview_checks v = first_reject
     ([(pv_authority v \<noteq> ''NON_AUTHORITATIVE_PREVIEW'', ''V2 allocation previews have no authorization authority''),
       (pv_opportunity_id v = [], ''V2 allocation preview requires an opportunity identity'')]
      @ map (\<lambda>s. (length s \<noteq> 64, ''V2 allocation preview hashes must be exact SHA-256 identities''))
          [pv_opportunity_sha256 v, pv_expression_sha256 v, pv_policy_sha256 v])"

fun control_state_value :: "control_state \<Rightarrow> string" where
  "control_state_value ACTIVE = ''ACTIVE''"
| "control_state_value ENTRY_DISABLED = ''ENTRY_DISABLED''"
| "control_state_value CLOSE_ONLY = ''CLOSE_ONLY''"
| "control_state_value KILL = ''KILL''"
| "control_state_value MANUAL_REQUIRED = ''MANUAL_REQUIRED''"

fun trigger_value :: "control_trigger \<Rightarrow> string" where
  "trigger_value TDrawdownLimitBreached = ''DRAWDOWN_LIMIT_BREACHED''"
| "trigger_value TDailyLossLimitBreached = ''DAILY_LOSS_LIMIT_BREACHED''"
| "trigger_value TStaleTruth = ''STALE_TRUTH''"
| "trigger_value TContradictoryTruth = ''CONTRADICTORY_TRUTH''"
| "trigger_value TPartialFillState = ''PARTIAL_FILL_STATE''"
| "trigger_value TNonFlatState = ''NON_FLAT_STATE''"
| "trigger_value TCloseOnlyEquityThreshold = ''CLOSE_ONLY_EQUITY_THRESHOLD''"
| "trigger_value TConcentrationLimitBreached = ''CONCENTRATION_LIMIT_BREACHED''"
| "trigger_value TKillRequest = ''KILL_REQUEST''"
| "trigger_value TManualRequiredRequest = ''MANUAL_REQUIRED_REQUEST''"
| "trigger_value TResolved = ''RESOLVED''"

section \<open>Bindings\<close>

definition kernel_identifier :: "string \<Rightarrow> string \<Rightarrow> bool \<times> ledger_error" where
  "kernel_identifier v path = (\<not> exact_text v, lrej UNSUPPORTED_INPUT path)"

definition kernel_underlying :: "string \<Rightarrow> string \<Rightarrow> (bool \<times> ledger_error) list" where
  "kernel_underlying v path = [kernel_identifier v path, (v \<noteq> upper v, lrej UNSUPPORTED_INPUT path)]"

definition require_now :: "datetime \<Rightarrow> bool \<times> ledger_error" where
  "require_now now = (\<not> is_utc now, lrej UNSUPPORTED_INPUT ''now'')"

fun block_of_kind :: "expression_kind \<Rightarrow> compiled_expression \<Rightarrow> json option" where
  "block_of_kind SHARES c = shares c"
| "block_of_kind ONE_LONG_OPTION c = long_option c"
| "block_of_kind DEBIT_VERTICAL c = debit_vertical c"
| "block_of_kind CASH_NO_TRADE c = None"

text \<open>\<open>block.get(key)\<close>, where an absent key and a null are both \<open>None\<close>.\<close>

definition block_get :: "json \<Rightarrow> string \<Rightarrow> json option" where
  "block_get b k = (case json_get b k of Some JNull \<Rightarrow> None | r \<Rightarrow> r)"

definition compiled_underlying :: "compiled_expression \<Rightarrow> ledger_error + string" where
  "compiled_underlying c =
     (if expression_kind c = CASH_NO_TRADE then Inl (lrej UNSUPPORTED_INPUT ''compiled.expression_kind'')
      else case block_of_kind (expression_kind c) c of
        None \<Rightarrow> Inl (lrej UNSUPPORTED_INPUT ''compiled.underlying'')
      | Some b \<Rightarrow>
          if \<not> is_object b then Inl (lrej UNSUPPORTED_INPUT ''compiled.underlying'')
          else (case (case block_get b ''underlying'' of
                        None \<Rightarrow> if expression_kind c = SHARES then block_get b ''symbol'' else None
                      | r \<Rightarrow> r) of
                  Some (JStr v) \<Rightarrow> guarded (kernel_underlying v ''compiled.underlying'') (Inr v)
                | _ \<Rightarrow> Inl (lrej UNSUPPORTED_INPUT ''compiled.underlying'')))"

text \<open>The permit's terms against those of the compiled block, field by field.\<close>

definition leg_field :: "json \<Rightarrow> string \<Rightarrow> string \<Rightarrow> json option" where
  "leg_field b leg k = Option.bind (json_get b leg) (\<lambda>l. block_get l k)"

definition permit_terms_match :: "debit_vertical_permit \<Rightarrow> json \<Rightarrow> bool" where
  "permit_terms_match p b =
     (block_get b ''underlying'' = Some (JStr (permit_underlying p))
      \<and> block_get b ''vertical_type'' = Some (JStr (vertical_type_value (vertical_type p)))
      \<and> (case block_get b ''quantity'' of None \<Rightarrow> False | Some q \<Rightarrow> json_equals_int q (quantity p))
      \<and> block_get b ''limit_price'' = Some (JStr (dec_str (limit_price p)))
      \<and> leg_field b ''long_leg'' ''symbol'' = Some (JStr (leg_symbol (long_leg p)))
      \<and> leg_field b ''long_leg'' ''option_type'' = Some (JStr (option_type_value (leg_type (long_leg p))))
      \<and> leg_field b ''long_leg'' ''strike'' = Some (JStr (dec_str (leg_strike (long_leg p))))
      \<and> leg_field b ''short_leg'' ''symbol'' = Some (JStr (leg_symbol (short_leg p)))
      \<and> leg_field b ''short_leg'' ''option_type'' = Some (JStr (option_type_value (leg_type (short_leg p))))
      \<and> leg_field b ''short_leg'' ''strike'' = Some (JStr (dec_str (leg_strike (short_leg p)))))"

definition validate_permit_binding ::
    "hash_function \<Rightarrow> debit_vertical_permit \<Rightarrow> compiled_expression \<Rightarrow> string \<Rightarrow> datetime \<Rightarrow> ledger_error + unit" where
  "validate_permit_binding H p c active now =
     guarded
       [(expression_kind c \<noteq> DEBIT_VERTICAL, lrej UNSUPPORTED_INPUT ''compiled.expression_kind''),
        (permit_id p \<noteq> debit_vertical_permit_id H p, lrej UNSUPPORTED_INPUT ''permit.permit_id''),
        (instant (issued_at p) > instant now \<or> instant (expires_at p) \<le> instant now, lrej UNSUPPORTED_INPUT ''permit.timing''),
        (event_run_id p \<noteq> ce_event_id c \<or> decision_sha256 p \<noteq> ce_decision_sha256 c
           \<or> snapshot_sha256 p \<noteq> ce_snapshot_sha256 c \<or> policy_sha256 p \<noteq> active, lrej UNSUPPORTED_INPUT ''permit.lineage'')]
     (case debit_vertical c of
        None \<Rightarrow> Inl (lrej UNSUPPORTED_INPUT ''compiled.debit_vertical'')
      | Some b \<Rightarrow>
          guarded
            [(\<not> is_object b, lrej UNSUPPORTED_INPUT ''compiled.debit_vertical''),
             (\<not> permit_terms_match p b, lrej UNSUPPORTED_INPUT ''permit.expression'')]
          (case expression_exposure c of
             Inl e \<Rightarrow> Inl (LedgerRejected e)
           | Inr exposure \<Rightarrow>
               guarded [(\<not> dec_eq (maximum_loss p) exposure, lrej UNSUPPORTED_INPUT ''permit.maximum_loss'')] (Inr ())))"

definition kernel_policy_sha256 :: "hash_function \<Rightarrow> kernel_policy \<Rightarrow> string" where
  "kernel_policy_sha256 H pol = (case pol of PolicyV1 p \<Rightarrow> risk_policy_sha256 H p | PolicyV2 p \<Rightarrow> risk_policy_v2_sha256 H p)"

definition kernel_max_age :: "kernel_policy \<Rightarrow> int" where
  "kernel_max_age pol = (case pol of PolicyV1 p \<Rightarrow> truth_max_age_seconds p | PolicyV2 p \<Rightarrow> v2_truth_max_age_seconds p)"

definition kernel_v2_policy :: "string \<Rightarrow> kernel_policy \<Rightarrow> ledger_error + risk_policy_v2" where
  "kernel_v2_policy owner pol =
     (case pol of
        PolicyV1 _ \<Rightarrow> Inl (lrej UNSUPPORTED_INPUT ''risk_policy'')
      | PolicyV2 p \<Rightarrow>
          guarded [(\<not> v2_constants_verified owner p, lrej POLICY_UNVERIFIED_CONSTANT ''risk_policy'')] (Inr p))"

section \<open>Control state\<close>

definition apply_trigger :: "hash_function \<Rightarrow> control_trigger \<Rightarrow> datetime \<Rightarrow> control_state ledger_op" where
  "apply_trigger H trigger now =
     obind (query (\<lambda>db. fst (get_control_state db))) (\<lambda>current.
     obind (result_of (map_sum LedgerRejected id (next_control_state current trigger))) (\<lambda>updated.
     othen (set_control_state_with_passport H updated (Some (trigger_value trigger))
              (JObj [(''from'', JStr (control_state_value current)), (''to'', JStr (control_state_value updated)),
                     (''trigger'', JStr (trigger_value trigger))]) now)
           (oreturn updated)))"

definition trip :: "hash_function \<Rightarrow> control_trigger \<Rightarrow> datetime \<Rightarrow> ledger_error \<Rightarrow> 'a ledger_op" where
  "trip H trigger now e = othen (apply_trigger H trigger now) (oraise e)"

definition partial_fill_error :: "ledger_error \<Rightarrow> bool" where
  "partial_fill_error e = (case e of LedgerRejected r \<Rightarrow> reason r = PARTIAL_FILL_STATE | _ \<Rightarrow> False)"

definition STALE_REASONS :: "risk_reason list" where
  "STALE_REASONS = [STALE_ACCOUNT_TRUTH, STALE_POSITION_TRUTH, STALE_ORDER_TRUTH, STALE_CLOCK]"

definition failure_trigger :: "risk_rejected \<Rightarrow> control_trigger" where
  "failure_trigger e = (if reason e \<in> set STALE_REASONS then TStaleTruth else TContradictoryTruth)"

section \<open>Reading broker truth\<close>

definition truth_result :: "risk_rejected + 'a \<Rightarrow> truth_error + 'a" where
  "truth_result = map_sum TruthRejected id"

definition read_clock :: "account_truth \<Rightarrow> datetime \<Rightarrow> int \<Rightarrow> truth_error + unit" where
  "read_clock tr now max_age =
     rbind (tr_clock tr) (\<lambda>clock.
       truth_result (guarded
         [require_utc clock ''broker_clock'',
          (\<bar>instant clock - instant now\<bar> > seconds max_age, reject STALE_CLOCK ''broker_clock'')] (Inr ())))"

definition read_account :: "account_truth \<Rightarrow> datetime \<Rightarrow> int \<Rightarrow> truth_error + account_snapshot" where
  "read_account tr now max_age =
     rbind (tr_account tr) (\<lambda>a. truth_result (validate_account_freshness a now max_age))"

definition read_positions :: "account_truth \<Rightarrow> datetime \<Rightarrow> int \<Rightarrow> truth_error + position_snapshot list" where
  "read_positions tr now max_age =
     rbind (tr_positions tr) (\<lambda>ps. truth_result (validate_positions_freshness ps now max_age))"

definition read_orders :: "account_truth \<Rightarrow> datetime \<Rightarrow> int \<Rightarrow> truth_error + order_snapshot list" where
  "read_orders tr now max_age =
     rbind (tr_orders tr) (\<lambda>rs. truth_result (validate_orders_freshness rs now max_age))"

definition read_truth ::
    "account_truth \<Rightarrow> datetime \<Rightarrow> int \<Rightarrow> truth_error + account_snapshot \<times> position_snapshot list \<times> order_snapshot list" where
  "read_truth tr now max_age =
     rbind (read_clock tr now max_age) (\<lambda>_.
     rbind (read_account tr now max_age) (\<lambda>a.
     rbind (read_positions tr now max_age) (\<lambda>ps.
     rbind (read_orders tr now max_age) (\<lambda>rs. Inr (a, ps, rs)))))"

definition propagated :: "truth_error \<Rightarrow> ledger_error" where
  "propagated e = (case e of TruthRejected r \<Rightarrow> LedgerRejected r | TruthTypeError \<Rightarrow> LedgerTypeError | TruthValueError m \<Rightarrow> LedgerValueError m)"

text \<open>The \<open>except\<close> clauses of the three families of readers.\<close>

definition truth_or_trip_v1 :: "hash_function \<Rightarrow> datetime \<Rightarrow> truth_error + 'a \<Rightarrow> 'a ledger_op" where
  "truth_or_trip_v1 H now r =
     (case r of
        Inr a \<Rightarrow> oreturn a
      | Inl (TruthRejected e) \<Rightarrow> trip H (failure_trigger e) now (LedgerRejected e)
      | Inl TruthTypeError \<Rightarrow> trip H TContradictoryTruth now (lrej CONTRADICTORY_TRUTH ''truth'')
      | Inl (TruthValueError m) \<Rightarrow> oraise (LedgerValueError m))"

definition truth_or_trip_v2 :: "hash_function \<Rightarrow> datetime \<Rightarrow> truth_error + 'a \<Rightarrow> 'a ledger_op" where
  "truth_or_trip_v2 H now r =
     (case r of
        Inr a \<Rightarrow> oreturn a
      | Inl (TruthRejected e) \<Rightarrow> trip H (failure_trigger e) now (LedgerRejected e)
      | Inl _ \<Rightarrow> trip H TContradictoryTruth now (lrej CONTRADICTORY_TRUTH ''truth''))"

definition truth_or_trip_reconcile :: "hash_function \<Rightarrow> datetime \<Rightarrow> truth_error + 'a \<Rightarrow> 'a ledger_op" where
  "truth_or_trip_reconcile H now r =
     (case r of
        Inr a \<Rightarrow> oreturn a
      | Inl (TruthRejected e) \<Rightarrow> trip H (failure_trigger e) now (LedgerRejected e)
      | Inl e \<Rightarrow> oraise (propagated e))"

section \<open>Startup\<close>

definition holds_position :: "position_snapshot \<Rightarrow> bool" where
  "holds_position p = (\<not> dec_eq (pos_quantity p) dec_zero)"

definition startup_reconciliation :: "hash_function \<Rightarrow> risk_kernel \<Rightarrow> datetime \<Rightarrow> control_state ledger_op" where
  "startup_reconciliation H k now =
     othen (require (\<lambda>_. [require_now now]))
     (case read_truth (kn_truth k) now (kernel_max_age (kn_policy k)) of
        Inl (TruthRejected e) \<Rightarrow> apply_trigger H (failure_trigger e) now
      | Inl TruthTypeError \<Rightarrow> apply_trigger H TContradictoryTruth now
      | Inl (TruthValueError m) \<Rightarrow> oraise (LedgerValueError m)
      | Inr (account, ps, rs) \<Rightarrow>
          if list_ex is_partial_fill rs then apply_trigger H TPartialFillState now
          else if list_ex holds_position ps then apply_trigger H TNonFlatState now
          else obind (query (\<lambda>db. fst (get_control_state db))) (\<lambda>state.
                 if state = KILL \<or> state = ACTIVE then oreturn state else apply_trigger H TResolved now))"

section \<open>Candidates\<close>

definition kernel_freeze_candidate ::
    "hash_function \<Rightarrow> risk_kernel \<Rightarrow> string \<Rightarrow> string \<Rightarrow> compiled_expression \<Rightarrow> string \<Rightarrow> datetime \<Rightarrow> unit ledger_op" where
  "kernel_freeze_candidate H k event candidate c mode now =
     othen (require (\<lambda>_.
         [require_now now, kernel_identifier event ''candidate.event_id'', kernel_identifier candidate ''candidate.candidate_id'',
          kernel_identifier (ce_event_id c) ''compiled.event_id'',
          (event \<noteq> ce_event_id c, lrej UNSUPPORTED_INPUT ''candidate.event_id''),
          kernel_identifier (ce_decision_sha256 c) ''compiled.decision_sha256'',
          kernel_identifier mode ''candidate.evidence_mode'']))
       (freeze_candidate H event candidate (kernel_policy_sha256 H (kn_policy k)) (ce_decision_sha256 c)
          (compiled_expression_sha256 H c) mode now)"

definition kernel_mark_not_run :: "hash_function \<Rightarrow> string \<Rightarrow> string \<Rightarrow> datetime \<Rightarrow> unit ledger_op" where
  "kernel_mark_not_run H event detail now =
     othen (require (\<lambda>_. [kernel_identifier event ''not_run.event_id'', kernel_identifier detail ''not_run.reason'', require_now now]))
       (mark_not_run H event detail now)"

definition frozen_binding_guards ::
    "hash_function \<Rightarrow> string \<Rightarrow> string \<Rightarrow> string \<Rightarrow> compiled_expression \<Rightarrow> ledger \<Rightarrow> (bool \<times> ledger_error) list" where
  "frozen_binding_guards H active event candidate c db =
     (not_run_reason event db \<noteq> None, lrej NOT_RUN_EVENT (''event.'' @ event)) #
     (case candidate_for_event event db of
        None \<Rightarrow> [(True, lrej UNSUPPORTED_INPUT (''candidate.'' @ event))]
      | Some frozen \<Rightarrow>
          [(cd_policy_sha256 frozen \<noteq> active, lrej POLICY_HASH_MISMATCH (''candidate.'' @ event @ ''.policy_sha256'')),
           kernel_identifier (ce_decision_sha256 c) ''compiled.decision_sha256'',
           (cd_candidate_id frozen \<noteq> candidate, lrej UNSUPPORTED_INPUT (''candidate.'' @ event @ ''.candidate_id'')),
           (cd_decision_sha256 frozen \<noteq> ce_decision_sha256 c, lrej UNSUPPORTED_INPUT (''candidate.'' @ event @ ''.decision_sha256'')),
           (cd_expression_sha256 frozen \<noteq> compiled_expression_sha256 H c,
              lrej UNSUPPORTED_INPUT (''candidate.'' @ event @ ''.expression_sha256''))])"

definition validate_candidate_binding ::
    "hash_function \<Rightarrow> risk_kernel \<Rightarrow> string \<Rightarrow> string \<Rightarrow> string \<Rightarrow> compiled_expression \<Rightarrow> string ledger_op" where
  "validate_candidate_binding H k event symbol candidate c =
     othen (require (\<lambda>_.
         [kernel_identifier event ''event_id''] @ kernel_underlying symbol ''underlying''
         @ [kernel_identifier candidate ''candidate_id'', kernel_identifier (ce_event_id c) ''compiled.event_id'',
            (event \<noteq> ce_event_id c, lrej UNSUPPORTED_INPUT ''event_id'')]))
     (obind (result_of (compiled_underlying c)) (\<lambda>own.
      othen (require (\<lambda>db. (symbol \<noteq> own, lrej UNSUPPORTED_INPUT ''underlying'')
               # frozen_binding_guards H (kernel_policy_sha256 H (kn_policy k)) event candidate c db))
            (oreturn (kernel_policy_sha256 H (kn_policy k)))))"

section \<open>Entry authorization, version 1\<close>

definition entry_gate :: "control_state \<Rightarrow> bool \<times> ledger_error" where
  "entry_gate st = (\<not> entry_allowed st, lrej CONTROL_STATE_BLOCKS_ENTRY (''control_state.'' @ control_state_value st))"

definition exposure_guards :: "risk_policy \<Rightarrow> account_snapshot \<Rightarrow> string \<Rightarrow> dec \<Rightarrow> (bool \<times> ledger_error) list" where
  "exposure_guards pol account event exposure =
     [(\<not> is_finite exposure \<or> dec_lt exposure dec_zero, lrej UNKNOWN_EXPOSURE (''exposure.'' @ event)),
      (dec_lt (per_event_loss_budget pol) exposure, lrej BUDGET_EXCEEDED (''exposure.'' @ event)),
      (dec_lt (buying_power account) exposure, lrej BUDGET_EXCEEDED ''buying_power'')]"

definition gross_market_value :: "string \<Rightarrow> position_snapshot list \<Rightarrow> dec" where
  "gross_market_value symbol ps = dec_sum (map (\<lambda>p. dec_abs (market_value p)) (filter (\<lambda>p. pos_underlying p = symbol) ps))"

text \<open>The portfolio limits, each of which trips the control state before it refuses.\<close>

definition portfolio_limits ::
    "hash_function \<Rightarrow> risk_policy \<Rightarrow> account_snapshot \<Rightarrow> position_snapshot list \<Rightarrow> string \<Rightarrow> dec \<Rightarrow> datetime \<Rightarrow> unit ledger_op" where
  "portfolio_limits H pol account ps symbol exposure now =
     othen (record_account_snapshot (equity account) now)
     (obind (\<lambda>db. (intraday_peak_equity now db, db)) (\<lambda>peak.
        if dec_lt (daily_loss_limit pol) (dec_sub peak (equity account))
        then trip H TDailyLossLimitBreached now (lrej DAILY_LOSS_LIMIT_BREACHED ''daily_loss'')
        else if dec_lt (drawdown_limit pol) (dec_sub (account_capital pol) (equity account))
        then trip H TDrawdownLimitBreached now (lrej DRAWDOWN_LIMIT_BREACHED ''drawdown'')
        else if dec_le (equity account) (close_only_equity_threshold pol)
        then trip H TCloseOnlyEquityThreshold now (lrej CONTROL_STATE_BLOCKS_ENTRY ''close_only_equity_threshold'')
        else obind (\<lambda>db. (open_reservation_total_for_underlying symbol db, db)) (\<lambda>held.
          if dec_lt (concentration_limit pol) (dec_add (dec_add (gross_market_value symbol ps) held) exposure)
          then trip H TConcentrationLimitBreached now (lrej CONCENTRATION_LIMIT_BREACHED (''concentration.'' @ symbol))
          else oreturn ())))"

definition permit_sha256 :: "hash_function \<Rightarrow> debit_vertical_permit \<Rightarrow> string" where
  "permit_sha256 H p = H (debit_vertical_permit_bytes p)"

definition issue_v1 ::
    "hash_function \<Rightarrow> risk_policy \<Rightarrow> string \<Rightarrow> string \<Rightarrow> string \<Rightarrow> string \<Rightarrow> compiled_expression \<Rightarrow> debit_vertical_permit
     \<Rightarrow> dec \<Rightarrow> control_state \<Rightarrow> datetime \<Rightarrow> risk_approval ledger_op" where
  "issue_v1 H pol active event symbol candidate c permit exposure state now =
     othen (require (\<lambda>_. [kernel_identifier (ce_decision_sha256 c) ''compiled.decision_sha256'']))
     (obind (reserve_and_issue_permit H event symbol candidate active (ce_decision_sha256 c) (compiled_expression_sha256 H c)
               exposure (aggregate_exposure_limit pol) (max_open_expressions pol) (max_entries_per_day pol) permit now)
       (\<lambda>(rid, pid, sha).
        othen (require (\<lambda>_. [(pid \<noteq> permit_id permit \<or> sha \<noteq> permit_sha256 H permit, lrej UNSUPPORTED_INPUT ''risk_approval.permit'')]))
              (oreturn \<lparr>ra_event_id = event, ra_candidate_id = candidate, ra_reservation_id = rid, ra_permit_id = pid,
                        ra_permit_sha256 = sha, ra_exposure = exposure, ra_control_state = state\<rparr>)))"

definition authorize_entry ::
    "hash_function \<Rightarrow> risk_kernel \<Rightarrow> string \<Rightarrow> string \<Rightarrow> string \<Rightarrow> compiled_expression \<Rightarrow> debit_vertical_permit \<Rightarrow> datetime
     \<Rightarrow> risk_approval ledger_op" where
  "authorize_entry H k event symbol candidate c permit now =
     othen (require (\<lambda>_. [require_now now]))
     (case kn_policy k of
        PolicyV2 _ \<Rightarrow> oraise (lrej UNSUPPORTED_INPUT ''risk_policy'')
      | PolicyV1 pol \<Rightarrow>
          othen (require (\<lambda>_.
              [(\<not> constants_verified pol, lrej POLICY_UNVERIFIED_CONSTANT ''risk_policy.constants''),
               (run_mode pol \<noteq> ''PAPER'', lrej POLICY_NOT_PAPER_ONLY ''risk_policy.run_mode'')]))
          (obind (query (\<lambda>db. fst (get_control_state db))) (\<lambda>state.
           othen (require (\<lambda>_. [entry_gate state]))
          (obind (validate_candidate_binding H k event symbol candidate c) (\<lambda>active.
           othen (result_of (validate_permit_binding H permit c active now))
          (obind (truth_or_trip_v1 H now (read_truth (kn_truth k) now (truth_max_age_seconds pol))) (\<lambda>(account, ps, rs).
           if list_ex is_partial_fill rs then trip H TPartialFillState now (lrej PARTIAL_FILL_STATE ''orders'')
           else obind (result_of (map_sum LedgerRejected id (expression_exposure c))) (\<lambda>exposure.
             othen (require (\<lambda>_. exposure_guards pol account event exposure))
            (othen (portfolio_limits H pol account ps symbol exposure now)
                   (issue_v1 H pol active event symbol candidate c permit exposure state now))))))))))"

section \<open>Current portfolio, version 2\<close>

definition v2_account_guards :: "account_snapshot \<Rightarrow> risk_rejected + account_snapshot \<times> dec" where
  "v2_account_guards a =
     (case cash a of
        None \<Rightarrow> Inl (reject CONTRADICTORY_TRUTH ''account.cash'')
      | Some c \<Rightarrow>
          guarded [(\<not> is_finite (equity a) \<or> dec_le (equity a) dec_zero \<or> \<not> is_finite c \<or> dec_lt c dec_zero \<or> dec_lt (equity a) c,
                    reject CONTRADICTORY_TRUTH ''account'')] (Inr (a, c)))"

text \<open>Fresh truth of version 2: the account comes with its explicit cash.\<close>

definition v2_fresh_truth ::
    "hash_function \<Rightarrow> risk_kernel \<Rightarrow> datetime \<Rightarrow> risk_policy_v2
     \<Rightarrow> ((account_snapshot \<times> dec) \<times> position_snapshot list \<times> order_snapshot list) ledger_op" where
  "v2_fresh_truth H k now pol =
     truth_or_trip_v2 H now
       (rbind (read_truth (kn_truth k) now (v2_truth_max_age_seconds pol)) (\<lambda>(a, ps, rs).
        rbind (truth_result (v2_account_guards a)) (\<lambda>ac. Inr (ac, ps, rs))))"

definition v2_row_amount :: "string \<Rightarrow> string \<Rightarrow> ledger_error + dec" where
  "v2_row_amount stored field =
     (let bad = lrej UNKNOWN_EXPOSURE (''v2_reservations.'' @ field)
      in case dec_parse stored of
           None \<Rightarrow> Inl bad
         | Some d \<Rightarrow> guarded [(\<not> is_finite d \<or> dec_lt d dec_zero \<or> decimal_text d \<noteq> stored, bad)] (Inr d))"

text \<open>What the rows of open reservations add up to: consumed debit, consumed debit per underlying, pending reservations.\<close>

record v2_exposure =
  vx_total :: dec
  vx_by_underlying :: "(string \<times> dec) list"
  vx_pending :: "allocation_reservation list"

definition no_exposure :: v2_exposure where
  "no_exposure = \<lparr>vx_total = dec_zero, vx_by_underlying = [], vx_pending = []\<rparr>"

definition add_consumed :: "string \<Rightarrow> dec \<Rightarrow> v2_exposure \<Rightarrow> v2_exposure" where
  "add_consumed u amount x =
     x\<lparr>vx_total := dec_add (vx_total x) amount,
       vx_by_underlying := AList.update u
         (dec_add (case map_of (vx_by_underlying x) u of None \<Rightarrow> dec_zero | Some d \<Rightarrow> d) amount) (vx_by_underlying x)\<rparr>"

definition pending_of_row :: "v2_row \<Rightarrow> dec \<Rightarrow> allocation_reservation" where
  "pending_of_row v amount =
     \<lparr>ar_opportunity_id = v_opportunity_id v, ar_opportunity_sha256 = v_opportunity_sha256 v,
      ar_reservation_id = v_allocation_reservation_id v, ar_underlying = v_underlying v, ar_quantity = v_quantity v,
      ar_max_loss = amount\<rparr>"

definition v2_add_row :: "string \<Rightarrow> v2_binding \<Rightarrow> v2_exposure \<Rightarrow> ledger_error + v2_exposure" where
  "v2_add_row active row x =
     (case row of (v, rs, ps) \<Rightarrow>
       guarded [(v_policy_sha256 v \<noteq> active, lrej UNKNOWN_EXPOSURE ''v2_reservations.policy_sha256'')]
       (rbind (v2_row_amount (v_amount v) ''amount'') (\<lambda>amount.
        guarded ((dec_le amount dec_zero, lrej UNKNOWN_EXPOSURE ''v2_reservations.amount'')
                 # kernel_underlying (v_underlying v) ''v2_reservations.underlying'')
        (if rs = CONSUMED
         then guarded [(ps \<noteq> FILLED, lrej UNKNOWN_EXPOSURE ''v2_reservations.permit_state'')]
                (Inr (add_consumed (v_underlying v) amount x))
         else guarded
                [(rs \<noteq> RESERVED \<or> ps \<notin> {ISSUED, SUBMITTED}, lrej UNKNOWN_EXPOSURE ''v2_reservations.state''),
                 (v_quantity v < 1, lrej UNKNOWN_EXPOSURE ''v2_reservations.quantity''),
                 (\<not> exact_text (v_opportunity_id v) \<or> \<not> exact_text (v_opportunity_sha256 v)
                    \<or> \<not> exact_text (v_allocation_reservation_id v) \<or> allocation_reservation_checks (pending_of_row v amount) \<noteq> None,
                    lrej UNKNOWN_EXPOSURE ''v2_reservations'')]
                (Inr (x\<lparr>vx_pending := vx_pending x @ [pending_of_row v amount]\<rparr>))))))"

fun v2_add_rows :: "string \<Rightarrow> v2_binding list \<Rightarrow> v2_exposure \<Rightarrow> ledger_error + v2_exposure" where
  "v2_add_rows active [] x = Inr x"
| "v2_add_rows active (row # rows) x = rbind (v2_add_row active row x) (v2_add_rows active rows)"

definition TERMINAL_ORDER_STATES :: "string list" where
  "TERMINAL_ORDER_STATES = [''FILLED'', ''CANCELLED'', ''CANCELED'', ''REJECTED'', ''EXPIRED'']"

definition v2_order_guards :: "string list \<Rightarrow> order_snapshot list \<Rightarrow> (bool \<times> ledger_error) list" where
  "v2_order_guards known rs =
     concat (map (\<lambda>r.
       [(is_partial_fill r, lrej PARTIAL_FILL_STATE ''orders''),
        (order_status r \<notin> set TERMINAL_ORDER_STATES \<and> order_id r \<notin> set known, lrej UNKNOWN_EXPOSURE ''orders'')]) rs)"

definition portfolio_of :: "account_snapshot \<Rightarrow> dec \<Rightarrow> v2_exposure \<Rightarrow> portfolio_state" where
  "portfolio_of a csh x =
     \<lparr>pf_equity = equity a, pf_cash = csh, pf_open_debit = vx_total x,
      pf_exposures = map (\<lambda>(u, d). \<lparr>ue_underlying = u, ue_open_debit = d\<rparr>) (sort_key fst (vx_by_underlying x))\<rparr>"

definition v2_portfolio ::
    "account_snapshot \<Rightarrow> dec \<Rightarrow> position_snapshot list \<Rightarrow> order_snapshot list \<Rightarrow> string \<Rightarrow> ledger
     \<Rightarrow> ledger_error + portfolio_state \<times> allocation_reservation list" where
  "v2_portfolio account csh ps rs active db =
     guarded [(has_non_v2_open_reservations db, lrej UNKNOWN_EXPOSURE ''reservations'')]
     (rbind (v2_add_rows active (v2_open_reservation_rows db) no_exposure) (\<lambda>x.
      guarded ((list_ex (\<lambda>p. holds_position p \<and> pos_underlying p \<notin> fst ` set (vx_by_underlying x)) ps, lrej UNKNOWN_EXPOSURE ''positions'')
               # v2_order_guards (v2_submitted_order_ids db) rs
               @ [(\<not> list_all (\<lambda>e. underlying_exposure_checks e = None) (pf_exposures (portfolio_of account csh x))
                   \<or> portfolio_state_checks (portfolio_of account csh x) \<noteq> None, lrej CONTRADICTORY_TRUTH ''portfolio'')])
        (Inr (portfolio_of account csh x, vx_pending x))))"

section \<open>Preview and authorization, version 2\<close>

definition v2_policy_guards :: "risk_policy_v2 \<Rightarrow> (bool \<times> ledger_error) list" where
  "v2_policy_guards pol =
     [(v2_run_mode pol \<noteq> ''PAPER'' \<or> \<not> cash_only pol \<or> \<not> defined_risk_only pol, lrej POLICY_NOT_PAPER_ONLY ''risk_policy_v2'')]"

definition v2_request_guards :: "string \<Rightarrow> defined_risk_opportunity \<Rightarrow> compiled_expression \<Rightarrow> (bool \<times> ledger_error) list" where
  "v2_request_guards active o' c =
     [(\<not> op_decision_ready o', lrej UNSUPPORTED_INPUT ''opportunity.decision_ready''),
      (expression_kind c \<noteq> DEBIT_VERTICAL, lrej UNSUPPORTED_INPUT ''compiled.expression_kind''),
      (ce_policy_sha256 c \<noteq> active, lrej POLICY_HASH_MISMATCH ''compiled.policy_sha256'')]"

definition v2_identity_guards ::
    "hash_function \<Rightarrow> risk_policy_v2 \<Rightarrow> defined_risk_opportunity \<Rightarrow> compiled_expression \<Rightarrow> string \<Rightarrow> (bool \<times> ledger_error) list" where
  "v2_identity_guards H pol o' c symbol =
     [(op_decision_id o' \<noteq> ce_decision_sha256 c, lrej UNSUPPORTED_INPUT ''opportunity.decision_id''),
      (op_expression_id o' \<noteq> compiled_expression_sha256 H c, lrej UNSUPPORTED_INPUT ''opportunity.expression_id''),
      (op_underlying o' \<noteq> symbol, lrej UNSUPPORTED_INPUT ''opportunity.underlying''),
      (\<not> list_ex (dec_eq (tier_fraction (op_risk_tier o'))) (risk_tiers pol), lrej POLICY_UNVERIFIED_CONSTANT ''opportunity.risk_tier'')]"

text \<open>From fresh truth to the pure allocation; what both the preview and the authorization run.\<close>

definition portfolio_or_trip ::
    "hash_function \<Rightarrow> datetime \<Rightarrow> account_snapshot \<Rightarrow> dec \<Rightarrow> position_snapshot list \<Rightarrow> order_snapshot list \<Rightarrow> string
     \<Rightarrow> (portfolio_state \<times> allocation_reservation list) ledger_op" where
  "portfolio_or_trip H now account csh ps rs active db =
     (case v2_portfolio account csh ps rs active db of
        Inr r \<Rightarrow> (Inr r, db)
      | Inl e \<Rightarrow> trip H (if partial_fill_error e then TPartialFillState else TContradictoryTruth)
                   now e db)"

definition current_allocation ::
    "hash_function \<Rightarrow> risk_kernel \<Rightarrow> risk_policy_v2 \<Rightarrow> string \<Rightarrow> defined_risk_opportunity \<Rightarrow> datetime
     \<Rightarrow> (account_snapshot \<times> dec \<times> allocation_decision) ledger_op" where
  "current_allocation H k pol active o' now =
     obind (v2_fresh_truth H k now pol) (\<lambda>((account, csh), ps, rs).
       if dec_le (equity account) (dec_mul (starting_equity pol) (emergency_drawdown_freeze_fraction pol))
       then trip H TDrawdownLimitBreached now (lrej DRAWDOWN_LIMIT_BREACHED ''account.equity'')
       else obind (portfolio_or_trip H now account csh ps rs active) (\<lambda>(portfolio, existing).
         (case allocate_defined_risk H portfolio o' existing of
            Inl e \<Rightarrow> oraise (lrej UNKNOWN_EXPOSURE ''allocation'')
          | Inr d \<Rightarrow> oreturn (account, csh, d))))"

definition preview_allocation_v2 ::
    "hash_function \<Rightarrow> string \<Rightarrow> risk_kernel \<Rightarrow> defined_risk_opportunity \<Rightarrow> compiled_expression \<Rightarrow> datetime
     \<Rightarrow> allocation_preview ledger_op" where
  "preview_allocation_v2 H owner k o' c now =
     othen (require (\<lambda>_. [require_now now]))
     (obind (result_of (kernel_v2_policy owner (kn_policy k))) (\<lambda>pol.
      othen (require (\<lambda>_. v2_policy_guards pol))
     (obind (query (\<lambda>db. fst (get_control_state db))) (\<lambda>state.
      let active = kernel_policy_sha256 H (kn_policy k)
      in othen (require (\<lambda>_. entry_gate state # v2_request_guards active o' c))
     (obind (result_of (compiled_underlying c)) (\<lambda>symbol.
      othen (require (\<lambda>_. v2_identity_guards H pol o' c symbol))
     (obind (current_allocation H k pol active o' now) (\<lambda>(account, csh, allocation).
      let v = \<lparr>pv_authority = ''NON_AUTHORITATIVE_PREVIEW'', pv_opportunity_id = op_opportunity_id o',
               pv_opportunity_sha256 = defined_risk_opportunity_sha256 H o', pv_expression_sha256 = compiled_expression_sha256 H c,
               pv_policy_sha256 = active, pv_account_equity = equity account, pv_account_cash = csh,
               pv_control_state = state, pv_allocation = allocation\<rparr>
      in case preview_checks v of Some m \<Rightarrow> oraise (LedgerValueError m) | None \<Rightarrow> oreturn v))))))))"

definition compiled_quantity :: "compiled_expression \<Rightarrow> ledger_error + int" where
  "compiled_quantity c =
     (case Option.bind (debit_vertical c) (\<lambda>b. json_get b ''quantity'') of
        Some (JInt q) \<Rightarrow> guarded [(q < 1, lrej UNSUPPORTED_INPUT ''compiled.debit_vertical.quantity'')] (Inr q)
      | _ \<Rightarrow> Inl (lrej UNSUPPORTED_INPUT ''compiled.debit_vertical.quantity''))"

definition v2_terms_guards :: "defined_risk_opportunity \<Rightarrow> debit_vertical_permit \<Rightarrow> int \<Rightarrow> dec \<Rightarrow> (bool \<times> ledger_error) list" where
  "v2_terms_guards o' permit q max_loss =
     [(\<not> is_finite max_loss \<or> dec_le max_loss dec_zero, lrej UNKNOWN_EXPOSURE ''compiled.debit_vertical''),
      (\<not> dec_eq (dec_mul (op_max_debit o') (dec_of_int q)) max_loss, lrej UNSUPPORTED_INPUT ''opportunity.max_debit_per_contract''),
      (quantity permit \<noteq> q \<or> \<not> dec_eq (maximum_loss permit) max_loss, lrej UNSUPPORTED_INPUT ''permit'')]"

definition receipt_matches ::
    "hash_function \<Rightarrow> v2_receipt \<Rightarrow> allocation_decision \<Rightarrow> defined_risk_opportunity \<Rightarrow> debit_vertical_permit \<Rightarrow> dec \<Rightarrow> dec \<Rightarrow> string \<Rightarrow> bool" where
  "receipt_matches H r d o' permit eq csh active =
     (Some (rc_reservation_id r) = ad_reservation_id d \<and> Some (rc_allocation_reservation_id r) = ad_reservation_id d
      \<and> rc_opportunity_id r = op_opportunity_id o' \<and> rc_opportunity_sha256 r = defined_risk_opportunity_sha256 H o'
      \<and> dec_eq (rc_risk_tier r) (tier_fraction (op_risk_tier o')) \<and> rc_quantity r = ad_quantity d
      \<and> dec_eq (rc_amount r) (ad_max_loss d) \<and> dec_eq (rc_account_equity r) eq \<and> dec_eq (rc_account_cash r) csh
      \<and> rc_policy_sha256 r = active \<and> rc_permit_id r = permit_id permit \<and> rc_permit_sha256 r = permit_sha256 H permit)"

definition v2_request ::
    "hash_function \<Rightarrow> risk_policy_v2 \<Rightarrow> string \<Rightarrow> string \<Rightarrow> string \<Rightarrow> string \<Rightarrow> defined_risk_opportunity \<Rightarrow> compiled_expression
     \<Rightarrow> debit_vertical_permit \<Rightarrow> allocation_decision \<Rightarrow> string \<Rightarrow> dec \<Rightarrow> dec \<Rightarrow> datetime \<Rightarrow> v2_authorization" where
  "v2_request H pol active event symbol candidate o' c permit d rid eq csh now =
     \<lparr>va_event_id = event, va_candidate_id = candidate, va_underlying = symbol, va_policy_sha256 = active,
      va_decision_sha256 = ce_decision_sha256 c, va_expression_sha256 = compiled_expression_sha256 H c,
      va_opportunity_id = op_opportunity_id o', va_opportunity_sha256 = defined_risk_opportunity_sha256 H o',
      va_allocation_reservation_id = rid, va_risk_tier = tier_fraction (op_risk_tier o'), va_quantity = ad_quantity d,
      va_amount = ad_max_loss d, va_account_equity = eq, va_account_cash = csh,
      va_max_per_underlying_fraction = max_per_underlying_open_debit_fraction pol,
      va_max_aggregate_fraction = max_aggregate_open_debit_fraction pol, va_permit = permit, va_now = now\<rparr>"

definition approval_of_receipt :: "v2_receipt \<Rightarrow> string \<Rightarrow> string \<Rightarrow> defined_risk_opportunity \<Rightarrow> string \<Rightarrow> control_state \<Rightarrow> risk_approval_v2" where
  "approval_of_receipt r event candidate o' opportunity_sha state =
     \<lparr>rv_event_id = event, rv_candidate_id = candidate, rv_opportunity_id = op_opportunity_id o',
      rv_opportunity_sha256 = opportunity_sha, rv_reservation_id = rc_reservation_id r,
      rv_allocation_reservation_id = rc_allocation_reservation_id r, rv_risk_tier = op_risk_tier o',
      rv_quantity = rc_quantity r, rv_max_loss = rc_amount r, rv_account_equity = rc_account_equity r,
      rv_account_cash = rc_account_cash r, rv_policy_sha256 = rc_policy_sha256 r, rv_permit_id = rc_permit_id r,
      rv_permit_sha256 = rc_permit_sha256 r, rv_control_state = state\<rparr>"

text \<open>The last step: abstain, or reserve exactly what was allocated.\<close>

definition settle_v2 ::
    "hash_function \<Rightarrow> risk_policy_v2 \<Rightarrow> string \<Rightarrow> string \<Rightarrow> string \<Rightarrow> string \<Rightarrow> defined_risk_opportunity \<Rightarrow> compiled_expression
     \<Rightarrow> debit_vertical_permit \<Rightarrow> int \<Rightarrow> dec \<Rightarrow> control_state \<Rightarrow> datetime \<Rightarrow> account_snapshot \<Rightarrow> dec \<Rightarrow> allocation_decision
     \<Rightarrow> v2_outcome ledger_op" where
  "settle_v2 H pol active event symbol candidate o' c permit q max_loss state now account csh d =
     (if ad_status d = allocation_status.ABSTAINED
      then oreturn (AbstainedV2 \<lparr>rb_event_id = event, rb_candidate_id = candidate, rb_opportunity_id = op_opportunity_id o',
              rb_account_equity = equity account, rb_account_cash = csh, rb_allocation = d, rb_control_state = state\<rparr>)
      else case ad_reservation_id d of
        None \<Rightarrow> oraise (lrej UNSUPPORTED_INPUT ''allocation'')
      | Some rid \<Rightarrow>
          othen (require (\<lambda>_. [(ad_quantity d \<noteq> q \<or> \<not> dec_eq (ad_max_loss d) max_loss, lrej UNSUPPORTED_INPUT ''allocation'')]))
         (obind (reserve_v2_and_issue_permit H
                   (v2_request H pol active event symbol candidate o' c permit d rid (equity account) csh now)) (\<lambda>receipt.
          othen (require (\<lambda>_. [(\<not> receipt_matches H receipt d o' permit (equity account) csh active,
                                lrej UNSUPPORTED_INPUT ''v2_authorization.receipt'')]))
                (oreturn (ApprovedV2 (approval_of_receipt receipt event candidate o' (defined_risk_opportunity_sha256 H o') state))))))"

definition authorize_entry_v2 ::
    "hash_function \<Rightarrow> string \<Rightarrow> risk_kernel \<Rightarrow> string \<Rightarrow> string \<Rightarrow> defined_risk_opportunity \<Rightarrow> compiled_expression
     \<Rightarrow> debit_vertical_permit \<Rightarrow> datetime \<Rightarrow> v2_outcome ledger_op" where
  "authorize_entry_v2 H owner k event candidate o' c permit now =
     othen (require (\<lambda>_. [require_now now]))
     (obind (result_of (kernel_v2_policy owner (kn_policy k))) (\<lambda>pol.
      othen (require (\<lambda>_. v2_policy_guards pol))
     (obind (query (\<lambda>db. fst (get_control_state db))) (\<lambda>state.
      let active = kernel_policy_sha256 H (kn_policy k)
      in othen (require (\<lambda>_. entry_gate state # v2_request_guards active o' c
                   @ [kernel_identifier event ''event_id'', kernel_identifier candidate ''candidate_id'']))
     (obind (result_of (compiled_underlying c)) (\<lambda>symbol.
      othen (require (\<lambda>_. [kernel_identifier (ce_event_id c) ''compiled.event_id'', (event \<noteq> ce_event_id c, lrej UNSUPPORTED_INPUT ''event_id'')]
                   @ v2_identity_guards H pol o' c symbol))
     (othen (validate_candidate_binding H k event symbol candidate c)
     (othen (result_of (validate_permit_binding H permit c active now))
     (obind (result_of (compiled_quantity c)) (\<lambda>q.
      obind (result_of (map_sum LedgerRejected id (expression_exposure c))) (\<lambda>max_loss.
      othen (require (\<lambda>_. v2_terms_guards o' permit q max_loss))
     (obind (current_allocation H k pol active o' now) (\<lambda>(account, csh, d).
      settle_v2 H pol active event symbol candidate o' c permit q max_loss state now account csh d)))))))))))))"

section \<open>After the trade\<close>

definition kernel_record_submission :: "hash_function \<Rightarrow> string \<Rightarrow> string \<Rightarrow> string \<Rightarrow> datetime \<Rightarrow> unit ledger_op" where
  "kernel_record_submission H event pid order now =
     othen (require (\<lambda>_. [require_now now])) (record_submission H event pid order now True)"

text \<open>Equality of the dataclass: decimals by value, instants of aware datetimes.\<close>

definition order_equal :: "order_snapshot \<Rightarrow> order_snapshot \<Rightarrow> bool" where
  "order_equal a b =
     (order_id a = order_id b \<and> order_symbol a = order_symbol b \<and> order_status a = order_status b
      \<and> dec_eq (filled_quantity a) (filled_quantity b) \<and> instant (order_observed_at a) = instant (order_observed_at b))"

definition reconcile_or_trip :: "hash_function \<Rightarrow> string \<Rightarrow> string \<Rightarrow> order_snapshot \<Rightarrow> datetime \<Rightarrow> unit ledger_op" where
  "reconcile_or_trip H event pid fill now db =
     (case reconcile_observed_order H event pid (order_id fill) (order_status fill) (filled_quantity fill)
             (order_observed_at fill) now db of
        (Inl e, db') \<Rightarrow>
          if partial_fill_error e then trip H TPartialFillState now e db' else (Inl e, db')
      | r \<Rightarrow> r)"

definition reconcile_fill :: "hash_function \<Rightarrow> risk_kernel \<Rightarrow> string \<Rightarrow> string \<Rightarrow> order_snapshot \<Rightarrow> datetime \<Rightarrow> unit ledger_op" where
  "reconcile_fill H k event pid fill now =
     (let max_age = kernel_max_age (kn_policy k)
      in othen (require (\<lambda>_. [require_now now]))
        (obind (truth_or_trip_reconcile H now
                  (rbind (read_clock (kn_truth k) now max_age) (\<lambda>_. read_orders (kn_truth k) now max_age))) (\<lambda>rs.
         if \<not> list_ex (order_equal fill) rs then trip H TContradictoryTruth now (lrej CONTRADICTORY_TRUTH ''fill'')
         else reconcile_or_trip H event pid fill now)))"

definition reconcile_flat :: "hash_function \<Rightarrow> risk_kernel \<Rightarrow> string \<Rightarrow> string \<Rightarrow> datetime \<Rightarrow> unit ledger_op" where
  "reconcile_flat H k event pid now =
     (let max_age = kernel_max_age (kn_policy k)
      in othen (require (\<lambda>_. [require_now now, require_identifier event ''reservation.event_id'']))
        (obind (query (reservation_for_event event)) (\<lambda>found.
         case found of
           None \<Rightarrow> oraise (lrej EVENT_LIFECYCLE_INVALID (''flat.'' @ event))
         | Some r \<Rightarrow>
             othen (require (\<lambda>_. kernel_underlying (rs_underlying r) ''reservation.underlying''))
            (obind (truth_or_trip_reconcile H now
                      (rbind (read_clock (kn_truth k) now max_age) (\<lambda>_.
                       rbind (read_positions (kn_truth k) now max_age) (\<lambda>ps.
                       rbind (read_orders (kn_truth k) now max_age) (\<lambda>rs. Inr (ps, rs)))))) (\<lambda>(ps, rs).
             if list_ex is_partial_fill rs then trip H TPartialFillState now (lrej PARTIAL_FILL_STATE ''orders'')
             else if list_ex (\<lambda>p. pos_underlying p = rs_underlying r \<and> holds_position p) ps
             then trip H TNonFlatState now (lrej NON_FLAT_STATE (''positions.'' @ rs_underlying r))
             else release_consumed_after_flat H event pid now)))))"

end
