(* ===== verification/Desk.thy ===== *)
theory Desk
  imports Ledger_Properties Kernel
begin

text \<open>
  The abstract machine the risk kernel implements. A desk has a control state and, for
  every event, the state of its reservation. It may halt; it may resume unless it was
  killed; it may enter an event once, and only while it is ACTIVE; it settles what it
  reserved and releases what was consumed. \<open>desk_of\<close> reads the desk off the ledger, and
  \<open>triple\<close> is the logic in which the operations are shown to make steps of the desk: the
  locale \<open>stepping\<close> holds its rules for any reflexive and transitive relation between the
  ledgers before and after.
\<close>

section \<open>The abstract machine\<close>

type_synonym desk = "control_state \<times> (string \<Rightarrow> reservation_state option)"

datatype desk_action = Halt | Resume | Enter string | Settle string | Release string

inductive desk_step :: "desk_action \<Rightarrow> desk \<Rightarrow> desk \<Rightarrow> bool" where
  halt: "c' \<noteq> ACTIVE \<Longrightarrow> c = KILL \<longrightarrow> c' = KILL \<Longrightarrow> desk_step Halt (c, held) (c', held)"
| resume: "c \<noteq> KILL \<Longrightarrow> desk_step Resume (c, held) (ACTIVE, held)"
| enter: "held ev = None \<Longrightarrow> desk_step (Enter ev) (ACTIVE, held) (ACTIVE, held(ev \<mapsto> RESERVED))"
| settle: "held ev = Some RESERVED \<Longrightarrow> st = CONSUMED \<or> st = RELEASED \<Longrightarrow> desk_step (Settle ev) (c, held) (c, held(ev \<mapsto> st))"
| release: "held ev = Some CONSUMED \<Longrightarrow> desk_step (Release ev) (c, held) (c, held(ev \<mapsto> RELEASED))"

inductive_cases desk_stepE: "desk_step a d d'"

inductive desk_path :: "desk_action list \<Rightarrow> desk \<Rightarrow> desk \<Rightarrow> bool" where
  none: "desk_path [] d d"
| more: "desk_step a d e \<Longrightarrow> desk_path as e f \<Longrightarrow> desk_path (a # as) d f"

inductive_simps desk_path_simps: "desk_path [] d e" "desk_path (a # as) d e"

lemma desk_path_append: "desk_path as d e \<Longrightarrow> desk_path bs e f \<Longrightarrow> desk_path (as @ bs) d f"
  by (induction rule: desk_path.induct) (auto intro: desk_path.intros)

lemma desk_path_one: "desk_step a d e \<Longrightarrow> desk_path [a] d e"
  by (auto intro: desk_path.intros)

text \<open>What the desk promises, by induction over its paths.\<close>

lemma desk_needs_resume: "desk_path as d e \<Longrightarrow> fst d \<noteq> ACTIVE \<Longrightarrow> fst e = ACTIVE \<Longrightarrow> Resume \<in> set as"
proof (induction rule: desk_path.induct)
  case (more a d e as f)
  then show ?case by (cases "fst e = ACTIVE") (auto elim: desk_stepE)
qed simp

lemma desk_killed: "desk_path as d e \<Longrightarrow> fst d = KILL \<Longrightarrow> fst e = KILL"
proof (induction rule: desk_path.induct)
  case (more a d e as f)
  then show ?case by (auto elim!: desk_stepE)
qed simp

lemma desk_entered: "desk_path as d e \<Longrightarrow> snd d ev = None \<Longrightarrow> snd e ev \<noteq> None \<Longrightarrow> Enter ev \<in> set as"
proof (induction rule: desk_path.induct)
  case (more a d e as f)
  then show ?case by (cases "snd e ev = None") (auto elim!: desk_stepE split: if_splits)
qed simp

lemma desk_held_le:
  "desk_path as d e \<Longrightarrow> snd d ev = Some st \<Longrightarrow> \<exists>st'. snd e ev = Some st' \<and> reservation_le st st'"
proof (induction arbitrary: st rule: desk_path.induct)
  case (none d)
  then show ?case by (cases st) simp_all
next
  case (more a d e as f)
  have "\<exists>st'. snd e ev = Some st' \<and> reservation_le st st'"
    using more(1,4) by (cases st) (auto elim!: desk_stepE)
  then show ?case using more(3) reservation_le_trans by blast
qed

section \<open>The desk of a ledger\<close>

definition desk_of :: "ledger \<Rightarrow> desk" where
  "desk_of db = (fst (get_control_state db), \<lambda>ev. map_option rs_state (reservation_for_event ev db))"

lemma desk_of_cong:
  "control_state_row db' = control_state_row db \<Longrightarrow> reservations db' = reservations db \<Longrightarrow> desk_of db' = desk_of db"
  by (simp add: desk_of_def get_control_state_def reservation_for_event_def)

lemma desk_passport [simp]: "append_passport H t p now db = (Inr h, db') \<Longrightarrow> desk_of db' = desk_of db"
  by (auto simp: append_passport_Inr intro!: desk_of_cong)

lemma desk_set_reservation:
  "reservation_for_event ev db \<noteq> None \<Longrightarrow>
     desk_of (set_reservation_state ev st now db) = (fst (desk_of db), (snd (desk_of db))(ev \<mapsto> st))"
proof -
  assume some: "reservation_for_event ev db \<noteq> None"
  have row: "reservation_for_event e (set_reservation_state ev st now db) =
      map_option (\<lambda>r. if rs_event_id r = ev then r\<lparr>rs_state := st, rs_updated_at := isoformat_z now\<rparr> else r) (reservation_for_event e db)" for e
    by (simp add: reservation_for_event_def set_reservation_state_def row_where_update)
  have ids: "reservation_for_event e db = Some r \<Longrightarrow> rs_event_id r = e" for e r
    by (auto simp: reservation_for_event_def dest: row_where_Some)
  have "map_option rs_state (reservation_for_event e (set_reservation_state ev st now db))
      = ((\<lambda>ev. map_option rs_state (reservation_for_event ev db))(ev \<mapsto> st)) e" for e
    using some row [of e] ids [of e] by (cases "reservation_for_event e db") auto
  moreover have "get_control_state (set_reservation_state ev st now db) = get_control_state db"
    by (simp add: get_control_state_def set_reservation_state_def)
  ultimately show ?thesis by (auto simp: desk_of_def)
qed

lemma desk_set_permit: "desk_of (set_permit_state pid st now db) = desk_of db"
  by (rule desk_of_cong) (simp_all add: set_permit_state_def)

lemma desk_insert_reservation:
  assumes "insert_reservation_row r db = (Inr u, db')"
  shows "snd (desk_of db) (rs_event_id r) = None" "desk_of db' = (fst (desk_of db), (snd (desk_of db))(rs_event_id r \<mapsto> rs_state r))"
proof -
  have new: "rs_event_id r \<notin> rs_event_id ` set (reservations db)" and db': "db' = db\<lparr>reservations := reservations db @ [r]\<rparr>"
    using assms by (auto simp: insert_Inr)
  have none: "reservation_for_event (rs_event_id r) db = None" unfolding reservation_for_event_def row_where_None using new by (metis imageI)
  then show "snd (desk_of db) (rs_event_id r) = None" by (simp add: desk_of_def)
  have "map_option rs_state (reservation_for_event e db')
      = ((\<lambda>ev. map_option rs_state (reservation_for_event ev db))(rs_event_id r \<mapsto> rs_state r)) e" for e
    using none by (cases "e = rs_event_id r") (auto simp: db' reservation_for_event_def split: option.splits simp del: row_where_None)
  then show "desk_of db' = (fst (desk_of db), (snd (desk_of db))(rs_event_id r \<mapsto> rs_state r))"
    by (auto simp: desk_of_def get_control_state_def db')
qed

section \<open>Reasoning about operations\<close>

definition triple ::
    "('s \<Rightarrow> 's \<Rightarrow> bool) \<Rightarrow> ('s \<Rightarrow> bool) \<Rightarrow> ('s \<Rightarrow> ('s, 'e, 'a) outcome) \<Rightarrow> ('a \<Rightarrow> 's \<Rightarrow> bool) \<Rightarrow> bool" where
  "triple R P m Q = (\<forall>s r s'. P s \<longrightarrow> m s = (r, s') \<longrightarrow> R s s' \<and> (\<forall>a. r = Inr a \<longrightarrow> Q a s'))"

lemma tripleD: "triple R P m Q \<Longrightarrow> P s \<Longrightarrow> m s = (r, s') \<Longrightarrow> R s s'"
  by (auto simp: triple_def)

lemma tripleD_Inr: "triple R P m Q \<Longrightarrow> P s \<Longrightarrow> m s = (Inr a, s') \<Longrightarrow> Q a s'"
  by (auto simp: triple_def)

lemma triple_pre: "triple R P' m Q \<Longrightarrow> (\<And>s. P s \<Longrightarrow> P' s) \<Longrightarrow> triple R P m Q"
  by (auto simp: triple_def)

lemma triple_post: "triple R P m Q' \<Longrightarrow> (\<And>a s. Q' a s \<Longrightarrow> Q a s) \<Longrightarrow> triple R P m Q"
  by (simp add: triple_def)

locale stepping =
  fixes R :: "'s \<Rightarrow> 's \<Rightarrow> bool"
  assumes stay: "R s s"
    and chain: "R a b \<Longrightarrow> R b c \<Longrightarrow> R a c"
begin

lemma obind_rule:
  assumes "triple R P m Q" "\<And>a. triple R (Q a) (f a) Q'"
  shows "triple R P (obind m f) Q'"
  unfolding triple_def
proof (intro allI impI)
  fix s r s'
  assume pre: "P s" and run: "obind m f s = (r, s')"
  obtain x t where x: "m s = (x, t)" by (cases "m s")
  have one: "R s t" using assms(1) pre x by (auto simp: triple_def)
  show "R s s' \<and> (\<forall>a. r = Inr a \<longrightarrow> Q' a s')"
  proof (cases x)
    case (Inl e)
    then show ?thesis using run x one by (auto simp: obind_def)
  next
    case (Inr a)
    then have "Q a t" "f a t = (r, s')" using assms(1) pre x run by (auto simp: triple_def obind_def)
    then show ?thesis using assms(2) [of a] one chain by (auto simp: triple_def)
  qed
qed

lemma othen_rule: "triple R P m (\<lambda>_. Q) \<Longrightarrow> triple R Q n Q' \<Longrightarrow> triple R P (othen m n) Q'"
  unfolding othen_def by (rule obind_rule)

lemma reads_rule: "(\<And>s. snd (m s) = s) \<Longrightarrow> triple R P m (\<lambda>a s. P s \<and> m s = (Inr a, s))"
  by (auto simp: triple_def stay) (metis snd_conv stay, metis snd_conv, metis snd_conv)

lemma require_rule: "triple R P (require gs) (\<lambda>_ s. P s \<and> first_reject (gs s) = None)"
  by (auto simp: triple_def stay require_def split: option.splits)

lemma query_rule: "triple R P (query f) (\<lambda>a s. P s \<and> a = f s)"
  by (auto simp: triple_def stay query_def)

lemma result_rule: "triple R P (result_of r) (\<lambda>a s. P s \<and> r = Inr a)"
  by (auto simp: triple_def stay result_of_def)

text \<open>The same for a statement and what follows it.\<close>

lemma then_require: "(first_reject gs = None \<Longrightarrow> triple R P n Q) \<Longrightarrow> triple R P (othen (require (\<lambda>_. gs)) n) Q"
  by (cases "first_reject gs") (auto simp: triple_def stay othen_def obind_def require_def)

lemma then_require_state:
  "triple R (\<lambda>s. P s \<and> first_reject (gs s) = None) n Q \<Longrightarrow> triple R P (othen (require gs) n) Q"
  by (rule othen_rule [OF require_rule])

lemma then_query: "(\<And>a. triple R (\<lambda>s. P s \<and> a = f s) (g a) Q) \<Longrightarrow> triple R P (obind (query f) g) Q"
  by (rule obind_rule [OF query_rule])

lemma then_result: "(\<And>a. r = Inr a \<Longrightarrow> triple R P (f a) Q) \<Longrightarrow> triple R P (obind (result_of r) f) Q"
  by (cases r) (auto simp: triple_def stay obind_def result_of_def)

lemma then_result_unit: "triple R P n Q \<Longrightarrow> triple R P (othen (result_of r) n) Q"
  unfolding othen_def by (rule then_result)

lemma return_rule: "(\<And>s. P s \<Longrightarrow> Q a s) \<Longrightarrow> triple R P (oreturn a) Q"
  by (auto simp: triple_def stay oreturn_def)

lemma raise_rule: "triple R P (oraise e) Q"
  by (auto simp: triple_def stay oraise_def)

lemma operation_rule:
  "rolls_back m \<Longrightarrow> (\<And>s a s'. P s \<Longrightarrow> m s = (Inr a, s') \<Longrightarrow> R s s' \<and> Q a s') \<Longrightarrow> triple R P m Q"
  unfolding triple_def rolls_back_def by (metis stay sum.exhaust sum.inject(2))

end

end
