(* ===== verification/Kernel_Refinement.thy ===== *)
theory Kernel_Refinement
  imports Desk
begin

text \<open>
  The kernel implements the desk: every operation of \<open>risk/kernel.py\<close>, whether it returns or
  raises, moves the ledger along a path of the desk, with the actions that operation may use
  and no other. A second instance of \<open>stepping\<close> shows which tables an operation leaves alone.
\<close>

section \<open>What the ledger operations do to the desk\<close>

lemma desk_passive:
  "freeze_candidate H ev cand pol de ex mode now db = (Inr u, db') \<Longrightarrow> desk_of db' = desk_of db"
  "mark_not_run H ev detail now db = (Inr u, db') \<Longrightarrow> desk_of db' = desk_of db"
  "record_account_snapshot eq now db = (Inr u, db') \<Longrightarrow> desk_of db' = desk_of db"
proof -
  show "desk_of db' = desk_of db" if "freeze_candidate H ev cand pol de ex mode now db = (Inr u, db')"
    using that by (auto simp: freeze_candidate_def outcome_simps insert_Inr append_passport_Inr intro!: desk_of_cong)
  show "desk_of db' = desk_of db" if "mark_not_run H ev detail now db = (Inr u, db')"
    using that by (auto simp: mark_not_run_def record_not_run_with_def outcome_simps insert_Inr append_passport_Inr intro!: desk_of_cong)
  show "desk_of db' = desk_of db" if "record_account_snapshot eq now db = (Inr u, db')"
    using that by (auto simp: record_account_snapshot_def outcome_simps intro!: desk_of_cong)
qed

lemma desk_submission:
  assumes "record_submission H ev pid order now w db = (Inr u, db')"
  shows "desk_of db' = desk_of db"
proof (rule record_submission_Inr [OF assms])
  fix p d1
  assume "insert_submission \<lparr>sb_permit_id = pid, sb_event_id = ev, sb_broker_order_id = order, sb_submitted_at = isoformat_z now\<rparr>
      (set_permit_state pid SUBMITTED now db) = (Inr (), d1)"
  then have "desk_of d1 = desk_of (set_permit_state pid SUBMITTED now db)" by (auto simp: insert_Inr intro!: desk_of_cong)
  moreover assume "if w then \<exists>h. append_passport H ''ORDER_SUBMITTED''
      (JObj [(''event_id'', JStr ev), (''permit_id'', JStr pid), (''broker_order_id'', JStr order)]) now d1 = (Inr h, db')
    else db' = d1"
  ultimately show ?thesis by (auto simp: desk_set_permit split: if_splits)
qed

lemma desk_control:
  assumes "set_control_state_with_passport H st d payload now db = (Inr u, db')"
  shows "desk_of db' = (st, snd (desk_of db))"
  using assms by (auto simp: set_control_state_with_passport_def outcome_simps)
    (simp add: desk_of_def put_control_state_def get_control_state_def reservation_for_event_def)

lemma desk_authorize:
  assumes "reserve_and_issue_permit H ev sy cand pol de ex am agg mo me pm now db = (Inr res, db')"
  shows "snd (desk_of db) ev = None" "desk_of db' = (fst (desk_of db), (snd (desk_of db))(ev \<mapsto> RESERVED))"
proof -
  obtain d1 d2 d3 h1 h2 where rows:
      "insert_reservation_row (new_reservation (''rsv-'' @ ev) ev (dec_str am) sy now) db = (Inr (), d1)"
      "insert_permit_row (new_permit (permit_id pm) ev (''rsv-'' @ ev) (H (debit_vertical_permit_bytes pm)) now) d1 = (Inr (), d2)"
      "append_passport H ''RESERVATION_HELD'' (v1_payload H ev cand pol de ex am pm) now d2 = (Inr h1, d3)"
      "append_passport H ''PERMIT_ISSUED'' (v1_payload H ev cand pol de ex am pm) now d3 = (Inr h2, db')"
    by (rule reserve_and_issue_Inr [OF assms])
  have d2: "desk_of d2 = desk_of d1" using rows(2) by (auto simp: insert_Inr intro!: desk_of_cong)
  note first = desk_insert_reservation [OF rows(1)]
  show "snd (desk_of db) ev = None" using first(1) by (simp add: new_reservation_def)
  show "desk_of db' = (fst (desk_of db), (snd (desk_of db))(ev \<mapsto> RESERVED))"
    using first(2) d2 rows(3,4) by (simp add: new_reservation_def)
qed

lemma desk_authorize_v2:
  assumes "reserve_v2_and_issue_permit H a db = (Inr res, db')"
  shows "db' = db \<or> snd (desk_of db) (va_event_id a) = None
    \<and> desk_of db' = (fst (desk_of db), (snd (desk_of db))(va_event_id a \<mapsto> RESERVED))"
  using assms
proof (cases rule: reserve_v2_Inr)
  case (fresh c tot)
  obtain d1 d2 d3 d4 h1 h2 where rows:
      "insert_reservation_row (new_reservation (va_allocation_reservation_id a) (va_event_id a) (v2_decimal_text (va_amount a))
         (va_underlying a) (va_now a)) db = (Inr (), d1)"
      "insert_permit_row (new_permit (permit_id (va_permit a)) (va_event_id a) (va_allocation_reservation_id a)
         (H (debit_vertical_permit_bytes (va_permit a))) (va_now a)) d1 = (Inr (), d2)"
      "insert_v2_row (v2_expected_row H a) d2 = (Inr (), d3)"
      "append_passport H ''RESERVATION_HELD'' (v2_payload (v2_expected_row H a)) (va_now a) d3 = (Inr h1, d4)"
      "append_passport H ''PERMIT_ISSUED'' (v2_payload (v2_expected_row H a)) (va_now a) d4 = (Inr h2, db')"
    by (rule v2_insert_all_Inr [OF fresh(9)])
  have same: "desk_of d2 = desk_of d1" "desk_of d3 = desk_of d2"
    using rows(2,3) by (auto simp: insert_Inr insert_v2_row_def split: if_splits intro!: desk_of_cong)
  show ?thesis using desk_insert_reservation [OF rows(1)] same rows(4,5) by (simp add: new_reservation_def)
qed simp

lemma reservation_in_state_desk: "reservation_in_state pid ev st db \<Longrightarrow> snd (desk_of db) ev = Some st"
  by (auto simp: reservation_in_state_def desk_of_def split: option.splits)

lemma desk_reconcile_exact:
  assumes "reconcile_observed_order H ev pid order st q t now db = (Inr u, db')"
  obtains ps rs et where "terminal_states pid st q = Inr (ps, rs, et)" "snd (desk_of db) ev = Some RESERVED"
    "desk_of db' = (fst (desk_of db), (snd (desk_of db))(ev \<mapsto> rs))"
proof -
  obtain ps rs et d1 d2 h1 h2 where held: "reservation_in_state pid ev RESERVED db"
    and ts: "terminal_states pid st q = Inr (ps, rs, et)"
    and fill: "insert_fill \<lparr>fl_id = order, fl_permit_id = pid, fl_event_id = ev, fl_quantity = dec_str q, fl_status = st,
       fl_observed_at = isoformat_z t\<rparr> (set_reservation_state ev rs now (set_permit_state pid ps now db)) = (Inr (), d1)"
    and pass: "append_passport H (passport_event_type_value et)
       (JObj [(''event_id'', JStr ev), (''permit_id'', JStr pid), (''broker_order_id'', JStr order),
              (''status'', JStr st), (''filled_quantity'', JStr (dec_str q))]) now d1 = (Inr h1, d2)"
    "append_passport H ''RECONCILED''
       (JObj [(''event_id'', JStr ev), (''permit_id'', JStr pid), (''result'', JStr (permit_state_value ps))]) now d2 = (Inr h2, db')"
    by (rule reconcile_Inr [OF assms])
  have "reservation_for_event ev (set_permit_state pid ps now db) \<noteq> None"
    using held by (auto simp: reservation_in_state_def reservation_for_event_def set_permit_state_def split: option.splits simp del: row_where_None)
  then have "desk_of (set_reservation_state ev rs now (set_permit_state pid ps now db)) = (fst (desk_of db), (snd (desk_of db))(ev \<mapsto> rs))"
    by (simp add: desk_set_reservation desk_set_permit)
  moreover have "desk_of d1 = desk_of (set_reservation_state ev rs now (set_permit_state pid ps now db))"
    using fill by (auto simp: insert_Inr intro!: desk_of_cong)
  ultimately show thesis using that [OF ts] pass reservation_in_state_desk [OF held] by simp
qed

lemma desk_reconcile:
  assumes "reconcile_observed_order H ev pid order st q t now db = (Inr u, db')"
  shows "desk_step (Settle ev) (desk_of db) (desk_of db')"
proof -
  obtain ps rs et where ts: "terminal_states pid st q = Inr (ps, rs, et)" and held: "snd (desk_of db) ev = Some RESERVED"
    and db': "desk_of db' = (fst (desk_of db), (snd (desk_of db))(ev \<mapsto> rs))" by (rule desk_reconcile_exact [OF assms])
  have "rs = CONSUMED \<or> rs = RELEASED" using ts by (auto simp: terminal_states_def split: if_splits)
  then show ?thesis using held desk_step.settle [of "snd (desk_of db)" ev rs "fst (desk_of db)"] by (simp add: db')
qed

lemma desk_release:
  assumes "release_consumed_after_flat H ev pid now db = (Inr u, db')"
  shows "desk_step (Release ev) (desk_of db) (desk_of db')"
proof -
  obtain h where held: "reservation_in_state pid ev CONSUMED db"
    and pass: "append_passport H ''RECONCILED''
      (JObj [(''event_id'', JStr ev), (''permit_id'', JStr pid), (''result'', JStr ''FLAT'')]) now
       (set_reservation_state ev RELEASED now db) = (Inr h, db')"
    by (rule release_flat_Inr [OF assms])
  have "reservation_for_event ev db \<noteq> None" using held by (auto simp: reservation_in_state_def split: option.splits)
  then show ?thesis
    using pass reservation_in_state_desk [OF held] desk_step.release [of "snd (desk_of db)" ev "fst (desk_of db)"]
    by (simp add: desk_set_reservation)
qed

section \<open>Refinement\<close>

definition desk_refines :: "hash_function \<Rightarrow> desk_action set \<Rightarrow> ledger \<Rightarrow> ledger \<Rightarrow> bool" where
  "desk_refines H A db db' =
     (ledger_inv H db \<longrightarrow> ledger_inv H db' \<and> (\<exists>as. set as \<subseteq> A \<and> desk_path as (desk_of db) (desk_of db')))"

interpretation refine: stepping "desk_refines H A" for H A
proof
  show "desk_refines H A s s" for s
    unfolding desk_refines_def by (metis desk_path.none empty_set empty_subsetI)
  show "desk_refines H A a c" if "desk_refines H A a b" "desk_refines H A b c" for a b c
    using that unfolding desk_refines_def by (metis desk_path_append set_append Un_least)
qed

lemma refines_silent: "desk_of db' = desk_of db \<Longrightarrow> (ledger_inv H db \<Longrightarrow> ledger_inv H db') \<Longrightarrow> desk_refines H A db db'"
  unfolding desk_refines_def by (metis desk_path.none empty_set empty_subsetI)

lemma refines_step:
  "desk_step a (desk_of db) (desk_of db') \<Longrightarrow> a \<in> A \<Longrightarrow> (ledger_inv H db \<Longrightarrow> ledger_inv H db') \<Longrightarrow> desk_refines H A db db'"
  unfolding desk_refines_def by (intro impI conjI exI [of _ "[a]"]) (auto intro: desk_path_one)

lemma kernel_rolls_back [simp]:
  "rolls_back (freeze_candidate H ev cand pol de ex mode now)" "rolls_back (mark_not_run H ev detail now)"
  "rolls_back (reserve_and_issue_permit H ev sy cand pol de ex am agg mo me pm now)" "rolls_back (reserve_v2_and_issue_permit H a)"
  "rolls_back (record_submission H ev pid order now w)" "rolls_back (reconcile_observed_order H ev pid order st q t now)"
  "rolls_back (release_consumed_after_flat H ev pid now)" "rolls_back (record_account_snapshot eq now)"
  "rolls_back (set_control_state_with_passport H st' d payload now)"
  by (simp_all add: freeze_candidate_def mark_not_run_def record_not_run_with_def reserve_and_issue_permit_def
      reserve_v2_and_issue_permit_def record_submission_def reconcile_observed_order_def
      release_consumed_after_flat_def record_account_snapshot_def set_control_state_with_passport_def Let_def)

lemma refines_freeze: "triple (desk_refines H A) P (freeze_candidate H ev cand pol de ex mode now) (\<lambda>_ _. True)"
  by (rule refine.operation_rule) (auto intro: refines_silent freeze_candidate_inv simp: desk_passive)

lemma refines_not_run: "triple (desk_refines H A) P (mark_not_run H ev detail now) (\<lambda>_ _. True)"
  by (rule refine.operation_rule) (auto intro: refines_silent mark_not_run_inv simp: desk_passive)

lemma refines_submission: "triple (desk_refines H A) P (record_submission H ev pid order now w) (\<lambda>_ _. True)"
  by (rule refine.operation_rule) (auto intro: refines_silent record_submission_inv simp: desk_submission)

text \<open>Recording the account truth keeps the desk, and so what is known of its control state.\<close>

definition control_is :: "control_state \<Rightarrow> ledger \<Rightarrow> bool" where
  "control_is st db = (fst (get_control_state db) = st)"

lemma control_is_desk: "control_is st db \<longleftrightarrow> fst (desk_of db) = st"
  by (simp add: control_is_def desk_of_def)

lemma refines_snapshot: "triple (desk_refines H A) (control_is st) (record_account_snapshot eq now) (\<lambda>_. control_is st)"
  by (rule refine.operation_rule)
    (auto intro: refines_silent other_commands_inv(2) simp: desk_passive control_is_desk)

lemma refines_authorize:
  assumes "Enter ev \<in> A"
  shows "triple (desk_refines H A) (control_is ACTIVE) (reserve_and_issue_permit H ev sy cand pol de ex am agg mo me pm now) (\<lambda>_ _. True)"
proof (rule refine.operation_rule)
  fix s a s'
  assume act: "control_is ACTIVE s" and run: "reserve_and_issue_permit H ev sy cand pol de ex am agg mo me pm now s = (Inr a, s')"
  have "desk_step (Enter ev) (desk_of s) (desk_of s')"
    using desk_authorize [OF run] act desk_step.enter [of "snd (desk_of s)" ev] unfolding control_is_desk by (metis prod.collapse)
  then show "desk_refines H A s s' \<and> True" using refines_step assms reserve_and_issue_permit_inv [OF run] by blast
qed simp

lemma refines_authorize_v2:
  assumes "Enter (va_event_id a) \<in> A"
  shows "triple (desk_refines H A) (control_is ACTIVE) (reserve_v2_and_issue_permit H a) (\<lambda>_ _. True)"
proof (rule refine.operation_rule)
  fix s r s'
  assume act: "control_is ACTIVE s" and run: "reserve_v2_and_issue_permit H a s = (Inr r, s')"
  have "s' = s \<or> desk_step (Enter (va_event_id a)) (desk_of s) (desk_of s')"
    using desk_authorize_v2 [OF run] act desk_step.enter [of "snd (desk_of s)" "va_event_id a"]
    unfolding control_is_desk by (metis prod.collapse)
  then show "desk_refines H A s s' \<and> True" using refines_step assms reserve_v2_inv [OF run] refine.stay by blast
qed simp

lemma refines_reconcile:
  "Settle ev \<in> A \<Longrightarrow> triple (desk_refines H A) P (reconcile_observed_order H ev pid order st q t now) (\<lambda>_ _. True)"
  by (rule refine.operation_rule) (auto intro: refines_step desk_reconcile reconcile_observed_order_inv)

lemma refines_release:
  "Release ev \<in> A \<Longrightarrow> triple (desk_refines H A) P (release_consumed_after_flat H ev pid now) (\<lambda>_ _. True)"
  by (rule refine.operation_rule) (auto intro: refines_step desk_release release_consumed_after_flat_inv)

section \<open>Triggers\<close>

lemma next_state_halts:
  "next_control_state c t = Inr c' \<Longrightarrow> t \<noteq> TResolved \<Longrightarrow> c' \<noteq> ACTIVE \<and> (c = KILL \<longrightarrow> c' = KILL)"
  by (cases c; cases t) (auto simp: next_control_state_def control_table_simps)

lemma next_state_resumes: "next_control_state c TResolved = Inr c' \<Longrightarrow> c \<noteq> ACTIVE \<Longrightarrow> c \<noteq> KILL \<and> c' = ACTIVE"
  by (cases c) (auto simp: next_control_state_def control_table_simps)

text \<open>A trigger that is applied changes the control state and records it; nothing can fail after that.\<close>

lemma apply_trigger_Inr:
  assumes "apply_trigger H t now db = (Inr c', db')"
  shows "next_control_state (fst (get_control_state db)) t = Inr c'" "desk_of db' = (c', snd (desk_of db))"
    "ledger_inv H db \<Longrightarrow> ledger_inv H db'"
  using assms by (auto simp: apply_trigger_def outcome_simps desk_control dest: other_commands_inv(3))

lemma rolls_back_apply [simp]: "rolls_back (apply_trigger H t now)"
  unfolding apply_trigger_def rolls_back_def
  by (auto simp: obind_def othen_def oreturn_def query_def result_of_def set_control_state_with_passport_def transaction_def
      split: prod.splits sum.splits)

lemma halts:
  assumes "Halt \<in> A" "t \<noteq> TResolved"
  shows "triple (desk_refines H A) P (apply_trigger H t now) (\<lambda>st _. st \<noteq> ACTIVE)"
proof (rule refine.operation_rule)
  fix s c s'
  assume run: "apply_trigger H t now s = (Inr c, s')"
  note eff = apply_trigger_Inr [OF run]
  note halt = next_state_halts [OF eff(1) assms(2)]
  have "desk_step Halt (desk_of s) (desk_of s')"
    using eff(2) halt desk_step.halt [of c "fst (get_control_state s)" "snd (desk_of s)"] by (simp add: desk_of_def)
  then show "desk_refines H A s s' \<and> c \<noteq> ACTIVE" using refines_step assms(1) eff(3) halt by blast
qed simp

lemma resumes:
  assumes "Resume \<in> A"
  shows "triple (desk_refines H A) (\<lambda>s. \<not> control_is ACTIVE s) (apply_trigger H TResolved now) (\<lambda>_ _. True)"
proof (rule refine.operation_rule)
  fix s c s'
  assume off: "\<not> control_is ACTIVE s" and run: "apply_trigger H TResolved now s = (Inr c, s')"
  note eff = apply_trigger_Inr [OF run]
  have res: "fst (get_control_state s) \<noteq> KILL" "c = ACTIVE"
    using next_state_resumes [OF eff(1)] off by (auto simp: control_is_def)
  have "desk_step Resume (desk_of s) (desk_of s')"
    using eff(2) res desk_step.resume [of "fst (get_control_state s)" "snd (desk_of s)"] by (simp add: desk_of_def)
  then show "desk_refines H A s s' \<and> True" using refines_step assms eff(3) by blast
qed simp

lemma failure_trigger_halts [simp]: "failure_trigger e \<noteq> TResolved"
  by (simp add: failure_trigger_def)

section \<open>Operations that may trip the control state\<close>

text \<open>
  Every handler of the kernel that refuses on bad truth first applies a trigger other than
  RESOLVED. A relation that such a trigger respects is respected by all of them.
\<close>

locale tripping = stepping R for R :: "ledger \<Rightarrow> ledger \<Rightarrow> bool" +
  fixes H :: hash_function
  assumes triggers: "t \<noteq> TResolved \<Longrightarrow> triple R P (apply_trigger H t now) (\<lambda>_ _. True)"
begin

lemma trips: "t \<noteq> TResolved \<Longrightarrow> triple R P (trip H t now e) Q"
  unfolding trip_def by (rule othen_rule [OF triggers]) (auto intro: raise_rule)

lemma truth_read:
  "triple R P (truth_or_trip_v1 H now r) (\<lambda>a s. P s \<and> r = Inr a)"
  "triple R P (truth_or_trip_v2 H now r) (\<lambda>a s. P s \<and> r = Inr a)"
  "triple R P (truth_or_trip_reconcile H now r) (\<lambda>a s. P s \<and> r = Inr a)"
  unfolding truth_or_trip_v1_def truth_or_trip_v2_def truth_or_trip_reconcile_def
  by (auto split: sum.splits truth_error.splits intro: trips raise_rule return_rule)

lemma then_truth:
  assumes "\<And>a. r = Inr a \<Longrightarrow> triple R P (f a) Q"
  shows "triple R P (obind (truth_or_trip_v1 H now r) f) Q" "triple R P (obind (truth_or_trip_v2 H now r) f) Q"
    "triple R P (obind (truth_or_trip_reconcile H now r) f) Q"
proof -
  have rest: "triple R (\<lambda>s. P s \<and> r = Inr a) (f a) Q" for a
    using assms [of a] by (auto simp: triple_def)
  show "triple R P (obind (truth_or_trip_v1 H now r) f) Q" "triple R P (obind (truth_or_trip_v2 H now r) f) Q"
    "triple R P (obind (truth_or_trip_reconcile H now r) f) Q"
    by (rule obind_rule [OF truth_read(1) rest], rule obind_rule [OF truth_read(2) rest], rule obind_rule [OF truth_read(3) rest])
qed

lemma reads_state: "triple R P (\<lambda>db. (f db, db)) (\<lambda>_. P)"
  by (auto simp: triple_def stay)

lemma portfolio_rule: "triple R P (portfolio_or_trip H now account csh ps rs active) (\<lambda>_. P)"
  unfolding triple_def
proof (intro allI impI)
  fix s r s'
  assume pre: "P s" and run: "portfolio_or_trip H now account csh ps rs active s = (r, s')"
  show "R s s' \<and> (\<forall>a. r = Inr a \<longrightarrow> P s')"
  proof (cases "v2_portfolio account csh ps rs active s")
    case (Inl e)
    have "triple R P (trip H (if partial_fill_error e then TPartialFillState else TContradictoryTruth) now e)
        (\<lambda>_ :: portfolio_state \<times> allocation_reservation list. P)"
      by (intro trips) auto
    then show ?thesis using run pre unfolding portfolio_or_trip_def Inl triple_def by auto
  next
    case (Inr a)
    then show ?thesis using run pre by (auto simp: portfolio_or_trip_def stay)
  qed
qed

lemma allocation_rule: "triple R P (current_allocation H k pol active o' now) (\<lambda>_. P)"
  unfolding current_allocation_def v2_fresh_truth_def
  by (rule then_truth(2))
    (auto intro!: trips obind_rule [OF portfolio_rule] raise_rule return_rule split: sum.splits)

text \<open>A preview reads, and may trip; it does nothing else.\<close>

lemma preview_rule: "triple R P (preview_allocation_v2 H owner k o' c now) (\<lambda>_. P)"
  unfolding preview_allocation_v2_def Let_def
  by (intro then_require then_result then_query obind_rule [OF allocation_rule])
    (auto intro!: raise_rule return_rule split: option.splits)

end

interpretation refine: tripping "desk_refines H (insert Halt A)" H for H A
  by unfold_locales (rule triple_post [OF halts], simp_all)

section \<open>The operations of the kernel\<close>

text \<open>The kernel's methods as commands; the kernel they run on carries the truth of the moment.\<close>

datatype kernel_command =
    KStartup
  | KFreeze string string compiled_expression string
  | KNotRun string string
  | KPreview defined_risk_opportunity compiled_expression
  | KAuthorize string string string compiled_expression debit_vertical_permit
  | KAuthorizeV2 string string defined_risk_opportunity compiled_expression debit_vertical_permit
  | KSubmit string string string
  | KFill string string order_snapshot
  | KFlat string string

fun run_kernel :: "hash_function \<Rightarrow> string \<Rightarrow> risk_kernel \<Rightarrow> datetime \<Rightarrow> kernel_command \<Rightarrow> unit ledger_op" where
  "run_kernel H owner k now KStartup = forget (startup_reconciliation H k now)"
| "run_kernel H owner k now (KFreeze ev cand c mode) = kernel_freeze_candidate H k ev cand c mode now"
| "run_kernel H owner k now (KNotRun ev detail) = kernel_mark_not_run H ev detail now"
| "run_kernel H owner k now (KPreview o' c) = forget (preview_allocation_v2 H owner k o' c now)"
| "run_kernel H owner k now (KAuthorize ev sy cand c p) = forget (authorize_entry H k ev sy cand c p now)"
| "run_kernel H owner k now (KAuthorizeV2 ev cand o' c p) = forget (authorize_entry_v2 H owner k ev cand o' c p now)"
| "run_kernel H owner k now (KSubmit ev pid order) = kernel_record_submission H ev pid order now"
| "run_kernel H owner k now (KFill ev pid fill) = reconcile_fill H k ev pid fill now"
| "run_kernel H owner k now (KFlat ev pid) = reconcile_flat H k ev pid now"

text \<open>Truth that lets the kernel resume: complete, fresh, with no partial fill and no position.\<close>

definition flat_truth :: "risk_kernel \<Rightarrow> datetime \<Rightarrow> bool" where
  "flat_truth k now =
     (case read_truth (kn_truth k) now (kernel_max_age (kn_policy k)) of
        Inl _ \<Rightarrow> False
      | Inr (a, ps, rs) \<Rightarrow> \<not> list_ex is_partial_fill rs \<and> \<not> list_ex holds_position ps)"

fun kernel_actions :: "risk_kernel \<Rightarrow> datetime \<Rightarrow> kernel_command \<Rightarrow> desk_action set" where
  "kernel_actions k now KStartup = (if flat_truth k now then {Resume} else {Halt})"
| "kernel_actions k now (KPreview o' c) = {Halt}"
| "kernel_actions k now (KAuthorize ev sy cand c p) = {Halt, Enter ev}"
| "kernel_actions k now (KAuthorizeV2 ev cand o' c p) = {Halt, Enter ev}"
| "kernel_actions k now (KFill ev pid fill) = {Halt, Settle ev}"
| "kernel_actions k now (KFlat ev pid) = {Halt, Release ev}"
| "kernel_actions k now _ = {}"

lemma triple_forget: "triple R P m (\<lambda>_. Q) \<Longrightarrow> triple R P (forget m) (\<lambda>_. Q)"
  by (fastforce simp: triple_def forget_def split: prod.splits sum.splits)

abbreviation anything :: "'a \<Rightarrow> ledger \<Rightarrow> bool" where "anything \<equiv> \<lambda>_ _. True"

lemma refines_startup:
  "triple (desk_refines H (kernel_actions k now KStartup)) P (startup_reconciliation H k now) anything"
  (is "triple (desk_refines H ?A) _ _ _")
  unfolding startup_reconciliation_def
proof (rule refine.then_require)
  show "triple (desk_refines H ?A) P
     (case read_truth (kn_truth k) now (kernel_max_age (kn_policy k)) of
        Inl (TruthRejected e) \<Rightarrow> apply_trigger H (failure_trigger e) now
      | Inl TruthTypeError \<Rightarrow> apply_trigger H TContradictoryTruth now
      | Inl (TruthValueError m) \<Rightarrow> oraise (LedgerValueError m)
      | Inr (account, ps, rs) \<Rightarrow>
          if list_ex is_partial_fill rs then apply_trigger H TPartialFillState now
          else if list_ex holds_position ps then apply_trigger H TNonFlatState now
          else obind (query (\<lambda>db. fst (get_control_state db))) (\<lambda>state.
                 if state = KILL \<or> state = ACTIVE then oreturn state else apply_trigger H TResolved now)) anything"
  proof (cases "flat_truth k now")
    case True
    then obtain a ps rs where tr: "read_truth (kn_truth k) now (kernel_max_age (kn_policy k)) = Inr (a, ps, rs)"
      and flat: "\<not> list_ex is_partial_fill rs" "\<not> list_ex holds_position ps"
      by (auto simp: flat_truth_def split: sum.splits prod.splits)
    have "triple (desk_refines H ?A) P (obind (query (\<lambda>db. fst (get_control_state db))) (\<lambda>state.
        if state = KILL \<or> state = ACTIVE then oreturn state else apply_trigger H TResolved now)) anything"
      by (rule refine.then_query)
        (auto simp: True control_is_def intro!: refine.return_rule triple_pre [OF resumes])
    then show ?thesis using tr flat by simp
  next
    case False
    then show ?thesis
      by (auto simp: flat_truth_def split: sum.splits truth_error.splits
          intro!: refine.raise_rule triple_post [OF halts])
  qed
qed

lemma refines_binding:
  "triple (desk_refines H A) P (validate_candidate_binding H' k ev sy cand c) (\<lambda>a s. P s \<and> a = kernel_policy_sha256 H' (kn_policy k))"
  unfolding validate_candidate_binding_def
  by (intro refine.then_require refine.then_result refine.then_require_state refine.return_rule) simp

lemma then_binding:
  "(\<And>a. a = kernel_policy_sha256 H' (kn_policy k) \<Longrightarrow> triple (desk_refines H A) P (f a) Q) \<Longrightarrow>
     triple (desk_refines H A) P (obind (validate_candidate_binding H' k ev sy cand c) f) Q"
  by (rule refine.obind_rule [OF refines_binding]) (auto simp: triple_def)

lemma refines_limits:
  "triple (desk_refines H (insert Halt A)) (control_is st) (portfolio_limits H pol account ps sy exposure now) (\<lambda>_. control_is st)"
  unfolding portfolio_limits_def
  by (intro refine.othen_rule [OF refines_snapshot] refine.obind_rule [OF refine.reads_state])
    (auto intro!: refine.trips refine.obind_rule [OF refine.reads_state] refine.return_rule)

lemma refines_issue:
  "Enter ev \<in> A \<Longrightarrow>
     triple (desk_refines H A) (control_is ACTIVE) (issue_v1 H pol active ev sy cand c p exposure st now) anything"
  unfolding issue_v1_def
  by (intro refine.then_require refine.obind_rule [OF refines_authorize])
    (auto intro!: refine.then_require refine.return_rule)

lemma gate_active: "first_reject (entry_gate st # gs) = None \<Longrightarrow> st = ACTIVE"
  by (auto simp: entry_gate_def entry_allowed_def split: if_splits)

lemma then_gate:
  "triple (desk_refines H A) (control_is ACTIVE) (n ACTIVE) Q \<Longrightarrow>
     triple (desk_refines H A) P (obind (query (\<lambda>db. fst (get_control_state db))) (\<lambda>st. othen (require (\<lambda>_. entry_gate st # gs)) (n st))) Q"
  by (intro refine.then_query refine.then_require) (auto dest!: gate_active simp: control_is_def elim!: triple_pre)

lemma refines_authorize_entry:
  "triple (desk_refines H {Halt, Enter ev}) P (authorize_entry H k ev sy cand c p now) anything"
  unfolding authorize_entry_def
  by (rule refine.then_require, cases "kn_policy k")
    (auto intro!: refine.raise_rule refine.then_require then_gate then_binding refine.then_result_unit refine.then_truth(1) refine.trips
      refine.then_result refine.othen_rule [OF refines_limits] refines_issue)

lemma refines_settle:
  assumes "Enter ev \<in> A"
  shows "triple (desk_refines H A) (control_is ACTIVE) (settle_v2 H pol active ev sy cand o' c p q loss st now account csh d) anything"
proof (cases "ad_status d = allocation_status.ABSTAINED")
  case True
  then show ?thesis by (simp add: settle_v2_def refine.return_rule)
next
  case False
  then show ?thesis
    unfolding settle_v2_def
    by (cases "ad_reservation_id d")
      (auto simp: assms v2_request_def intro!: refine.raise_rule refine.then_require refine.obind_rule [OF refines_authorize_v2]
        refine.return_rule)
qed

lemma refines_authorize_entry_v2:
  "triple (desk_refines H {Halt, Enter ev}) P (authorize_entry_v2 H owner k ev cand o' c p now) anything"
  unfolding authorize_entry_v2_def Let_def othen_def [of "validate_candidate_binding H k ev _ cand c"]
  by (intro refine.then_require refine.then_result then_gate then_binding refine.then_result_unit
      refine.obind_rule [OF refine.allocation_rule]) (auto intro: refines_settle)

lemma refines_fill:
  "triple (desk_refines H {Halt, Settle ev}) P (reconcile_fill H k ev pid fill now) anything"
proof -
  have one: "triple (desk_refines H {Halt, Settle ev}) Q (reconcile_or_trip H ev pid fill now) anything" for Q
    unfolding triple_def
  proof (intro allI impI)
    fix s r s'
    assume run: "reconcile_or_trip H ev pid fill now s = (r, s')"
    obtain x t where x: "reconcile_observed_order H ev pid (order_id fill) (order_status fill) (filled_quantity fill)
        (order_observed_at fill) now s = (x, t)"
      by (metis prod.exhaust)
    have st: "desk_refines H {Halt, Settle ev} s t" by (rule tripleD [OF refines_reconcile [of ev] TrueI x]) simp
    have "desk_refines H {Halt, Settle ev} t s'"
      using run x tripleD [OF refine.trips [of TPartialFillState H "{Settle ev}" "\<lambda>_. True" now] TrueI]
      by (auto simp: reconcile_or_trip_def refine.stay split: sum.splits if_splits)
    then show "desk_refines H {Halt, Settle ev} s s' \<and> (\<forall>a. r = Inr a \<longrightarrow> True)" using st refine.chain by blast
  qed
  show ?thesis
    unfolding reconcile_fill_def Let_def by (auto intro!: refine.then_require refine.then_truth(3) refine.trips one)
qed

lemma refines_flat:
  "triple (desk_refines H {Halt, Release ev}) P (reconcile_flat H k ev pid now) anything"
  unfolding reconcile_flat_def Let_def
  by (rule refine.then_require, rule refine.then_query)
    (auto intro!: refine.then_require refine.then_truth(3) refine.trips refines_release refine.raise_rule split: option.splits)

end
