(* ===== verification/Kernel_Properties.thy ===== *)
theory Kernel_Properties
  imports Kernel_Refinement
begin

text \<open>
  The properties of \<open>risk/kernel.py\<close>: it refines the desk, what an approval certifies in both
  versions, that a preview is harmless and agrees with the authorization that follows it, what an authorization
  that meets bad truth does to the kernel's authority to enter, and on what proof exposure is given back.
\<close>

section \<open>Refinement\<close>

lemma run_kernel_refines: "triple (desk_refines H (kernel_actions k now c)) P (run_kernel H owner k now c) anything"
proof (cases c)
  case KStartup
  then show ?thesis using triple_forget [OF refines_startup] by simp
next
  case KFreeze
  then show ?thesis by (auto simp: kernel_freeze_candidate_def intro!: refine.then_require refines_freeze)
next
  case KNotRun
  then show ?thesis by (auto simp: kernel_mark_not_run_def intro!: refine.then_require refines_not_run)
next
  case (KPreview o' ce)
  have "triple (desk_refines H {Halt}) P (preview_allocation_v2 H owner k o' ce now) anything"
    by (rule triple_post [OF refine.preview_rule]) simp
  then show ?thesis using KPreview triple_forget by simp
next
  case KAuthorize
  then show ?thesis using triple_forget [OF refines_authorize_entry] by simp
next
  case KAuthorizeV2
  then show ?thesis using triple_forget [OF refines_authorize_entry_v2] by simp
next
  case KSubmit
  then show ?thesis by (auto simp: kernel_record_submission_def intro!: refine.then_require refines_submission)
next
  case KFill
  then show ?thesis using refines_fill by simp
next
  case KFlat
  then show ?thesis using refines_flat by simp
qed

text \<open>
  C3. The risk kernel refines the desk. Whatever a method of the kernel does on a consistent
  ledger, returning or raising, the ledger stays consistent, and the control state and the
  reservations it leaves are reached from the old ones by a path of the abstract machine
  that uses only the actions allowed to that method: a reconciliation at startup may resume
  (only on complete, fresh and flat truth) or halt, an authorization may enter its own event (which the
  abstract machine allows only while ACTIVE and only once) or halt, a fill may settle, a
  flat proof may release, and every other method leaves the desk as it is.
\<close>

theorem kernel_refines_desk:
  assumes "ledger_inv H db" "run_kernel H owner k now c db = (r, db')"
  shows "ledger_inv H db' \<and> (\<exists>as. set as \<subseteq> kernel_actions k now c \<and> desk_path as (desk_of db) (desk_of db'))"
  using tripleD [OF run_kernel_refines TrueI assms(2)] assms(1) unfolding desk_refines_def by blast

type_synonym kernel_call = "risk_kernel \<times> datetime \<times> kernel_command"

definition run_calls :: "hash_function \<Rightarrow> string \<Rightarrow> kernel_call list \<Rightarrow> ledger \<Rightarrow> ledger" where
  "run_calls H owner calls db = foldl (\<lambda>db (k, now, c). snd (run_kernel H owner k now c db)) db calls"

definition calls_actions :: "kernel_call list \<Rightarrow> desk_action set" where
  "calls_actions calls = (\<Union>(k, now, c) \<in> set calls. kernel_actions k now c)"

lemma run_calls_refines: "desk_refines H (calls_actions calls) db (run_calls H owner calls db)"
proof (induction calls arbitrary: db)
  case Nil
  show ?case by (simp add: run_calls_def refine.stay)
next
  case (Cons x calls)
  obtain k now c where x: "x = (k, now, c)" by (cases x)
  obtain r s where s: "run_kernel H owner k now c db = (r, s)" by (metis prod.exhaust)
  have mono: "desk_refines H B t u" if "desk_refines H A t u" "A \<subseteq> B" for A B t u
    using that unfolding desk_refines_def by blast
  have "desk_refines H (kernel_actions k now c) db s" by (rule tripleD [OF run_kernel_refines TrueI s])
  then have "desk_refines H (calls_actions (x # calls)) db s" by (rule mono) (auto simp: calls_actions_def x)
  moreover have "desk_refines H (calls_actions (x # calls)) s (run_calls H owner calls s)"
    by (rule mono [OF Cons.IH]) (auto simp: calls_actions_def)
  ultimately have "desk_refines H (calls_actions (x # calls)) db (run_calls H owner calls s)" by (rule refine.chain)
  then show ?case using s by (simp add: run_calls_def x)
qed

lemma actions_of_call:
  "Resume \<in> kernel_actions k now c \<Longrightarrow> c = KStartup \<and> flat_truth k now"
  "Enter ev \<in> kernel_actions k now c \<Longrightarrow>
     (\<exists>sy cand ce p. c = KAuthorize ev sy cand ce p) \<or> (\<exists>cand o' ce p. c = KAuthorizeV2 ev cand o' ce p)"
  by (cases c; auto split: if_splits)+

text \<open>
  C36. Authority over a whole run of the kernel, in any order and with any truth: a kernel that
  is not ACTIVE becomes ACTIVE only through a startup reconciliation that read complete,
  fresh truth without a position or a partial fill; a killed kernel stays killed; an event
  acquires a reservation only through an authorization of that very event; and the state of
  a reservation never goes back.
\<close>

theorem kernel_authority:
  assumes "ledger_inv H db"
  shows "let db' = run_calls H owner calls db in
    ledger_inv H db'
    \<and> (fst (get_control_state db') = ACTIVE \<longrightarrow> fst (get_control_state db) \<noteq> ACTIVE \<longrightarrow>
         (\<exists>k now. (k, now, KStartup) \<in> set calls \<and> flat_truth k now))
    \<and> (fst (get_control_state db) = KILL \<longrightarrow> fst (get_control_state db') = KILL)
    \<and> (reservation_for_event ev db = None \<longrightarrow> reservation_for_event ev db' \<noteq> None \<longrightarrow>
         (\<exists>k now c. (k, now, c) \<in> set calls \<and> ((\<exists>sy cand ce p. c = KAuthorize ev sy cand ce p) \<or> (\<exists>cand o' ce p. c = KAuthorizeV2 ev cand o' ce p))))
    \<and> (\<forall>r. reservation_for_event ev db = Some r \<longrightarrow>
         (\<exists>r'. reservation_for_event ev db' = Some r' \<and> reservation_le (rs_state r) (rs_state r')))"
proof -
  define db' where "db' = run_calls H owner calls db"
  obtain as where inv: "ledger_inv H db'" and as: "set as \<subseteq> calls_actions calls" and path: "desk_path as (desk_of db) (desk_of db')"
    using run_calls_refines [of H calls db owner] assms unfolding desk_refines_def db'_def by blast
  have desk: "fst (desk_of d) = fst (get_control_state d)" "snd (desk_of d) e = map_option rs_state (reservation_for_event e d)" for d e
    by (simp_all add: desk_of_def)
  have "\<exists>k now. (k, now, KStartup) \<in> set calls \<and> flat_truth k now"
    if "fst (get_control_state db') = ACTIVE" "fst (get_control_state db) \<noteq> ACTIVE"
    using desk_needs_resume [OF path] that as unfolding desk calls_actions_def by (fastforce dest: actions_of_call(1))
  moreover have "fst (get_control_state db') = KILL" if "fst (get_control_state db) = KILL"
    using desk_killed [OF path] that unfolding desk by blast
  moreover have "\<exists>k now c. (k, now, c) \<in> set calls \<and> ((\<exists>sy cand ce p. c = KAuthorize ev sy cand ce p) \<or> (\<exists>cand o' ce p. c = KAuthorizeV2 ev cand o' ce p))"
    if "reservation_for_event ev db = None" "reservation_for_event ev db' \<noteq> None"
  proof -
    have "Enter ev \<in> set as" using desk_entered [OF path, of ev] that unfolding desk by simp
    then obtain k now c where "(k, now, c) \<in> set calls" "Enter ev \<in> kernel_actions k now c"
      using as unfolding calls_actions_def by blast
    then show ?thesis using actions_of_call(2) by blast
  qed
  moreover have "\<exists>r'. reservation_for_event ev db' = Some r' \<and> reservation_le (rs_state r) (rs_state r')"
    if "reservation_for_event ev db = Some r" for r
    using desk_held_le [OF path, of ev "rs_state r"] that unfolding desk by auto
  ultimately show ?thesis using inv unfolding Let_def db'_def [symmetric] by blast
qed

section \<open>What success implies\<close>

lemma trip_Inr [outcome_simps]: "trip H t now e db = (Inr a, db') \<longleftrightarrow> False"
  by (simp add: trip_def outcome_simps)

lemma truth_or_trip_Inr [outcome_simps]:
  "truth_or_trip_v1 H now r db = (Inr a, db') \<longleftrightarrow> r = Inr a \<and> db' = db"
  "truth_or_trip_v2 H now r db = (Inr a, db') \<longleftrightarrow> r = Inr a \<and> db' = db"
  "truth_or_trip_reconcile H now r db = (Inr a, db') \<longleftrightarrow> r = Inr a \<and> db' = db"
  unfolding truth_or_trip_v1_def truth_or_trip_v2_def truth_or_trip_reconcile_def
  by (auto simp: outcome_simps split: sum.splits truth_error.splits)

definition clock_ok :: "account_truth \<Rightarrow> datetime \<Rightarrow> int \<Rightarrow> bool" where
  "clock_ok tr now m = (case tr_clock tr of Inl _ \<Rightarrow> False | Inr t \<Rightarrow> is_utc t \<and> \<bar>instant t - instant now\<bar> \<le> seconds m)"

lemma truth_result_Inr [simp]: "truth_result r = Inr a \<longleftrightarrow> r = Inr a"
  by (simp add: truth_result_def)

lemma read_Inr:
  "read_clock tr now m = Inr u \<longleftrightarrow> clock_ok tr now m"
  "read_account tr now m = Inr a \<longleftrightarrow> tr_account tr = Inr (Some a) \<and> fresh (account_observed_at a) now m"
  "read_positions tr now m = Inr ps \<longleftrightarrow> tr_positions tr = Inr ps \<and> list_all (\<lambda>p. fresh (position_observed_at p) now m) ps"
  "read_orders tr now m = Inr rs \<longleftrightarrow> tr_orders tr = Inr rs \<and> list_all (\<lambda>r. fresh (order_observed_at r) now m) rs"
proof -
  show "read_clock tr now m = Inr u \<longleftrightarrow> clock_ok tr now m"
    by (auto simp: read_clock_def clock_ok_def guarded_Inr require_utc_def split: sum.splits)
  show "read_account tr now m = Inr a \<longleftrightarrow> tr_account tr = Inr (Some a) \<and> fresh (account_observed_at a) now m"
    by (auto simp: read_account_def rbind_Inr validate_account_freshness_def validate_age_None split: option.splits if_splits)
      (simp add: fresh_def)
  show "read_positions tr now m = Inr ps \<longleftrightarrow> tr_positions tr = Inr ps \<and> list_all (\<lambda>p. fresh (position_observed_at p) now m) ps"
    by (auto simp: read_positions_def rbind_Inr validate_positions_freshness_def validate_ages_None list_all_iff split: option.splits)
  show "read_orders tr now m = Inr rs \<longleftrightarrow> tr_orders tr = Inr rs \<and> list_all (\<lambda>r. fresh (order_observed_at r) now m) rs"
    by (auto simp: read_orders_def rbind_Inr validate_orders_freshness_def validate_ages_None list_all_iff split: option.splits)
qed

text \<open>Truth the kernel acts on: the clock agrees, and every answer is there and fresh.\<close>

definition truth_is :: "account_truth \<Rightarrow> datetime \<Rightarrow> int \<Rightarrow> account_snapshot \<Rightarrow> position_snapshot list \<Rightarrow> order_snapshot list \<Rightarrow> bool" where
  "truth_is tr now m a ps rs =
     (clock_ok tr now m \<and> tr_account tr = Inr (Some a) \<and> tr_positions tr = Inr ps \<and> tr_orders tr = Inr rs
      \<and> fresh (account_observed_at a) now m \<and> list_all (\<lambda>p. fresh (position_observed_at p) now m) ps
      \<and> list_all (\<lambda>r. fresh (order_observed_at r) now m) rs)"

lemma read_truth_Inr: "read_truth tr now m = Inr (a, ps, rs) \<longleftrightarrow> truth_is tr now m a ps rs"
  by (auto simp: read_truth_def rbind_Inr read_Inr truth_is_def)

lemma binding_Inr:
  assumes "validate_candidate_binding H k ev sy cand c db = (Inr active, db')"
  obtains f where "db' = db" "active = kernel_policy_sha256 H (kn_policy k)" "ev = ce_event_id c" "compiled_underlying c = Inr sy"
    "not_run_reason ev db = None" "candidate_for_event ev db = Some f" "cd_policy_sha256 f = active" "cd_candidate_id f = cand"
    "cd_decision_sha256 f = ce_decision_sha256 c" "cd_expression_sha256 f = compiled_expression_sha256 H c"
  using assms by (auto simp: validate_candidate_binding_def outcome_simps first_reject_append frozen_binding_guards_def
      kernel_identifier_def kernel_underlying_def split: option.splits)

definition permit_bound :: "hash_function \<Rightarrow> debit_vertical_permit \<Rightarrow> compiled_expression \<Rightarrow> string \<Rightarrow> datetime \<Rightarrow> dec \<Rightarrow> bool" where
  "permit_bound H p c active now exposure =
     (expression_kind c = DEBIT_VERTICAL \<and> permit_id p = debit_vertical_permit_id H p
      \<and> instant (issued_at p) \<le> instant now \<and> instant now < instant (expires_at p)
      \<and> event_run_id p = ce_event_id c \<and> decision_sha256 p = ce_decision_sha256 c \<and> snapshot_sha256 p = ce_snapshot_sha256 c
      \<and> policy_sha256 p = active \<and> (\<exists>b. debit_vertical c = Some b \<and> permit_terms_match p b)
      \<and> expression_exposure c = Inr exposure \<and> dec_eq (maximum_loss p) exposure)"

lemma permit_binding_Inr: "validate_permit_binding H p c active now = Inr u \<Longrightarrow> \<exists>exposure. permit_bound H p c active now exposure"
  by (auto simp: validate_permit_binding_def permit_bound_def guarded_Inr split: option.splits sum.splits)

lemma snapshot_tables:
  assumes "record_account_snapshot eq now db = (Inr u, d1)"
  shows "reservations d1 = reservations db" "permits d1 = permits db" "candidates d1 = candidates db" "not_run d1 = not_run db"
  using assms by (auto simp: record_account_snapshot_def outcome_simps)

lemma limits_Inr:
  assumes "portfolio_limits H pol a ps sy exposure now db = (Inr u, d1)"
  obtains peak held where "reservations d1 = reservations db" "intraday_peak_equity now d1 = Inr peak"
    "\<not> dec_lt (daily_loss_limit pol) (dec_sub peak (equity a))"
    "\<not> dec_lt (drawdown_limit pol) (dec_sub (account_capital pol) (equity a))"
    "\<not> dec_le (equity a) (close_only_equity_threshold pol)"
    "open_reservation_total_for_underlying sy db = Inr held"
    "\<not> dec_lt (concentration_limit pol) (dec_add (dec_add (gross_market_value sy ps) held) exposure)"
proof -
  obtain u1 d where snap: "record_account_snapshot (equity a) now db = (Inr u1, d)"
    using assms by (auto simp: portfolio_limits_def othen_Inr)
  have held: "open_reservation_total_for_underlying sy d = open_reservation_total_for_underlying sy db"
    by (simp add: open_reservation_total_for_underlying_def snapshot_tables [OF snap])
  show thesis using assms snap snapshot_tables [OF snap] held
    by (auto simp: portfolio_limits_def outcome_simps split: if_splits intro: that)
qed

section \<open>Approval, version 1\<close>

lemma policy_finite:
  assumes "risk_policy_ok pol"
  shows "is_finite (per_event_loss_budget pol)" "is_finite (drawdown_limit pol)" "is_finite (account_capital pol)"
    "is_finite (close_only_equity_threshold pol)" "is_finite (concentration_limit pol)" "is_finite (aggregate_exposure_limit pol)"
    "is_finite (daily_loss_limit pol)"
  using assms unfolding risk_policy_ok_def risk_policy_checks_def first_reject_append
  by (simp_all add: DECIMAL_FIELDS_def policy_decimal_def policy_decimals_def positive_dec_def split: option.splits)

lemma sum_amounts_finite: "sum_amounts t xs = Inr d \<Longrightarrow> is_finite t \<Longrightarrow> is_finite d"
  by (induction t xs rule: sum_amounts.induct) (auto simp: guarded_Inr amount_text_def split: option.splits)

lemma held_finite:
  "open_reservation_total db = Inr d \<Longrightarrow> is_finite d" "open_reservation_total_for_underlying sy db = Inr d \<Longrightarrow> is_finite d"
  by (auto simp: open_reservation_total_def open_reservation_total_for_underlying_def guarded_Inr dest: sum_amounts_finite)

lemma peak_finite: "peak_from p xs = Inr d \<Longrightarrow> (\<And>v. p = Some v \<Longrightarrow> is_finite v) \<Longrightarrow> is_finite d"
proof (induction p xs rule: peak_from.induct)
  case (1 p)
  then show ?case by (auto split: option.splits)
next
  case (2 p raw rest)
  then show ?case by (auto simp: guarded_Inr finite_decimal_def split: option.splits if_splits)
qed

lemma gross_finite:
  assumes "list_all (\<lambda>p. position_snapshot_checks p = None) ps"
  shows "is_finite (gross_market_value sy ps)"
proof -
  have "is_finite (market_value p)" if "p \<in> set ps" for p
    using assms that by (auto simp: list_all_iff position_snapshot_checks_def require_decimal_def)
  then have "is_finite (dec_abs (market_value p))" if "p \<in> set ps" for p
    using that by (cases "market_value p") fastforce+
  then have "is_finite (foldl dec_add t (map (\<lambda>p. dec_abs (market_value p)) (filter (\<lambda>p. pos_underlying p = sy) ps)))" if "is_finite t" for t
    using that by (induction ps arbitrary: t) auto
  then show ?thesis by (simp add: gross_market_value_def dec_sum_def)
qed

lemma authorize_entry_Inr:
  assumes "authorize_entry H k ev sy cand c p now db = (Inr ap, db')" "kn_policy k = PolicyV1 pol"
  obtains a ps rs exposure d1 where "constants_verified pol" "run_mode pol = ''PAPER''" "control_is ACTIVE db"
    "truth_is (kn_truth k) now (truth_max_age_seconds pol) a ps rs" "\<not> list_ex is_partial_fill rs"
    "permit_bound H p c (kernel_policy_sha256 H (kn_policy k)) now exposure" "ev = ce_event_id c"
    "first_reject (exposure_guards pol a ev exposure) = None" "compiled_underlying c = Inr sy"
    "portfolio_limits H pol a ps sy exposure now db = (Inr (), d1)"
    "reserve_and_issue_permit H ev sy cand (kernel_policy_sha256 H (kn_policy k)) (ce_decision_sha256 c)
       (compiled_expression_sha256 H c) exposure (aggregate_exposure_limit pol) (max_open_expressions pol)
       (max_entries_per_day pol) p now d1 = (Inr (ra_reservation_id ap, ra_permit_id ap, ra_permit_sha256 ap), db')"
    "ra_exposure ap = exposure" "ra_permit_id ap = permit_id p"
proof -
  obtain st active a ps rs exposure d1 where
    pol: "constants_verified pol" "run_mode pol = ''PAPER''" and st: "st = fst (get_control_state db)" "first_reject [entry_gate st] = None"
    and bind: "validate_candidate_binding H k ev sy cand c db = (Inr active, db)"
    and permit: "validate_permit_binding H p c active now = Inr ()"
    and truth: "read_truth (kn_truth k) now (truth_max_age_seconds pol) = Inr (a, ps, rs)" "\<not> list_ex is_partial_fill rs"
    and exposure: "expression_exposure c = Inr exposure" "first_reject (exposure_guards pol a ev exposure) = None"
    and limits: "portfolio_limits H pol a ps sy exposure now db = (Inr (), d1)"
    and issue: "issue_v1 H pol active ev sy cand c p exposure st now d1 = (Inr ap, db')"
    using assms
    by (auto simp: authorize_entry_def outcome_simps split: if_splits dest: binding_Inr elim!: binding_Inr)
  obtain f where b: "active = kernel_policy_sha256 H (kn_policy k)" "ev = ce_event_id c" "compiled_underlying c = Inr sy"
    by (rule binding_Inr [OF bind])
  obtain x where x: "permit_bound H p c active now x" using permit_binding_Inr [OF permit] by blast
  then have "x = exposure" using exposure(1) by (simp add: permit_bound_def)
  moreover have "control_is ACTIVE db" using gate_active [OF st(2)] st(1) by (simp add: control_is_def)
  ultimately show thesis
    using that [of a ps rs exposure d1] pol truth exposure limits issue x b
    by (auto simp: read_truth_Inr issue_v1_def outcome_simps)
qed

lemma authorized_tables:
  assumes "reserve_and_issue_permit H ev sy cand pol de ex am agg mo me pm now db = (Inr (rid, pid, sha), db')"
  shows "reservation_for_event ev db' = Some (new_reservation rid ev (dec_str am) sy now)"
    "new_permit pid ev rid sha now \<in> set (permits db')" "account_snapshots db' = account_snapshots db"
    "\<exists>held. open_reservation_total db = Inr held \<and> dec_le (dec_add held am) agg"
    "open_reservation_count db' \<le> mo" "entries_today now db' \<le> me"
proof -
  obtain held d1 d2 d3 h1 h2 where none: "reservation_for_event ev db = None"
    and counts: "entries_today now db < me" "open_reservation_count db < mo"
    and held: "open_reservation_total db = Inr held" "dec_le (dec_add held am) agg"
    and rows: "insert_reservation_row (new_reservation (''rsv-'' @ ev) ev (dec_str am) sy now) db = (Inr (), d1)"
      "insert_permit_row (new_permit (permit_id pm) ev (''rsv-'' @ ev) (H (debit_vertical_permit_bytes pm)) now) d1 = (Inr (), d2)"
    and pass: "append_passport H ''RESERVATION_HELD'' (v1_payload H ev cand pol de ex am pm) now d2 = (Inr h1, d3)"
      "append_passport H ''PERMIT_ISSUED'' (v1_payload H ev cand pol de ex am pm) now d3 = (Inr h2, db')"
    and res: "(rid, pid, sha) = (''rsv-'' @ ev, permit_id pm, H (debit_vertical_permit_bytes pm))"
    by (rule reserve_and_issue_Inr [OF assms])
  have tables: "reservations db' = reservations db @ [new_reservation rid ev (dec_str am) sy now]"
    "permits db' = permits db @ [new_permit pid ev rid sha now]" "account_snapshots db' = account_snapshots db"
    using rows pass res by (auto simp: insert_Inr append_passport_Inr)
  show "reservation_for_event ev db' = Some (new_reservation rid ev (dec_str am) sy now)"
    using none by (simp add: reservation_for_event_def tables new_reservation_def del: row_where_None)
  show "new_permit pid ev rid sha now \<in> set (permits db')" "account_snapshots db' = account_snapshots db"
    by (simp_all add: tables)
  show "\<exists>held. open_reservation_total db = Inr held \<and> dec_le (dec_add held am) agg" using held by blast
  have "is_open (new_reservation rid ev (dec_str am) sy now)" by (simp add: is_open_def new_reservation_def)
  then show "open_reservation_count db' \<le> mo" "entries_today now db' \<le> me"
    using counts by (simp_all add: entries_today_def open_reservation_count_def tables)
qed

text \<open>
  C9. A version 1 approval certifies the whole chain. When \<open>authorize_entry\<close> approves, the
  kernel was ACTIVE under a verified PAPER policy; the clock and all three surfaces of broker truth were
  present and fresh and no order was partially filled; the permit is the canonical one of
  this compiled debit vertical, of this event and policy, in its lifetime, and its maximum loss is the
  exposure; the exposure fits the per-event budget, the buying power, the concentration
  limit together with what is held and reserved on the underlying, and the aggregate limit together with
  every open reservation; with this entry, the open reservations and the entries of the day are at most what the policy allows; the account is above its close-only threshold and within its daily-loss
  and drawdown limits; and the ledger now holds the reservation with an issued permit.
\<close>

theorem authorize_entry_sound:
  assumes run: "authorize_entry H k ev sy cand c p now db = (Inr ap, db')"
    and pol: "kn_policy k = PolicyV1 pol" "risk_policy_ok pol"
    and account: "tr_account (kn_truth k) = Inr (Some a)" "account_snapshot_ok a"
    and pos: "tr_positions (kn_truth k) = Inr ps" "list_all (\<lambda>p. position_snapshot_checks p = None) ps"
  shows "fst (get_control_state db) = ACTIVE \<and> constants_verified pol \<and> run_mode pol = ''PAPER''
    \<and> (\<exists>rs. truth_is (kn_truth k) now (truth_max_age_seconds pol) a ps rs \<and> \<not> list_ex is_partial_fill rs)
    \<and> event_run_id p = ev \<and> permit_bound H p c (risk_policy_sha256 H pol) now (ra_exposure ap)
    \<and> 0 \<le> dval (ra_exposure ap) \<and> dval (ra_exposure ap) \<le> dval (per_event_loss_budget pol)
    \<and> dval (ra_exposure ap) \<le> dval (buying_power a)
    \<and> (\<exists>held. open_reservation_total_for_underlying sy db = Inr held
         \<and> dval (dec_add (dec_add (gross_market_value sy ps) held) (ra_exposure ap)) \<le> dval (concentration_limit pol))
    \<and> (\<exists>total. open_reservation_total db = Inr total \<and> dval (dec_add total (ra_exposure ap)) \<le> dval (aggregate_exposure_limit pol))
    \<and> open_reservation_count db' \<le> max_open_expressions pol \<and> entries_today now db' \<le> max_entries_per_day pol
    \<and> (\<exists>peak. intraday_peak_equity now db' = Inr peak \<and> dval (dec_sub peak (equity a)) \<le> dval (daily_loss_limit pol))
    \<and> dval (dec_sub (account_capital pol) (equity a)) \<le> dval (drawdown_limit pol)
    \<and> dval (close_only_equity_threshold pol) < dval (equity a)
    \<and> reservation_for_event ev db' = Some (new_reservation (ra_reservation_id ap) ev (dec_str (ra_exposure ap)) sy now)
    \<and> new_permit (ra_permit_id ap) ev (ra_reservation_id ap) (ra_permit_sha256 ap) now \<in> set (permits db')"
proof (rule authorize_entry_Inr [OF run pol(1)])
  fix a' ps' rs exposure d1
  assume verified: "constants_verified pol" "run_mode pol = ''PAPER''" "control_is ACTIVE db"
    and truth: "truth_is (kn_truth k) now (truth_max_age_seconds pol) a' ps' rs" "\<not> list_ex is_partial_fill rs"
    and bound: "permit_bound H p c (kernel_policy_sha256 H (kn_policy k)) now exposure" "ev = ce_event_id c"
    and guards: "first_reject (exposure_guards pol a' ev exposure) = None"
    and limits: "portfolio_limits H pol a' ps' sy exposure now db = (Inr (), d1)"
    and issue: "reserve_and_issue_permit H ev sy cand (kernel_policy_sha256 H (kn_policy k)) (ce_decision_sha256 c)
       (compiled_expression_sha256 H c) exposure (aggregate_exposure_limit pol) (max_open_expressions pol)
       (max_entries_per_day pol) p now d1 = (Inr (ra_reservation_id ap, ra_permit_id ap, ra_permit_sha256 ap), db')"
    and ap: "ra_exposure ap = exposure" "ra_permit_id ap = permit_id p"
  have same: "a' = a" "ps' = ps" using truth account pos by (simp_all add: truth_is_def)
  note fin = policy_finite [OF pol(2)]
  have acc: "is_finite (equity a)" "is_finite (buying_power a)"
    using account(2) by (auto simp: account_snapshot_ok_def account_snapshot_checks_def require_decimal_def first_reject_append)
  obtain peak held where res: "reservations d1 = reservations db" and lim: "intraday_peak_equity now d1 = Inr peak"
    "\<not> dec_lt (daily_loss_limit pol) (dec_sub peak (equity a))"
    "\<not> dec_lt (drawdown_limit pol) (dec_sub (account_capital pol) (equity a))"
    "\<not> dec_le (equity a) (close_only_equity_threshold pol)"
    "open_reservation_total_for_underlying sy db = Inr held"
    "\<not> dec_lt (concentration_limit pol) (dec_add (dec_add (gross_market_value sy ps) held) exposure)"
    by (rule limits_Inr [OF limits [unfolded same]])
  note tables = authorized_tables [OF issue]
  have x: "is_finite exposure" "0 \<le> dval exposure" "dval exposure \<le> dval (per_event_loss_budget pol)" "dval exposure \<le> dval (buying_power a)"
    using guards fin acc unfolding same by (auto simp: exposure_guards_def dec_order)
  have peak: "is_finite peak" using lim(1) peak_finite by (auto simp: intraday_peak_equity_def guarded_Inr)
  have "intraday_peak_equity now db' = Inr peak" using lim(1) by (simp add: intraday_peak_equity_def tables)
  moreover have "dval (dec_sub peak (equity a)) \<le> dval (daily_loss_limit pol)"
    using lim(2) peak acc fin by (simp add: dec_order not_less)
  moreover have "dval (dec_add (dec_add (gross_market_value sy ps) held) exposure) \<le> dval (concentration_limit pol)"
    using lim(6) gross_finite [OF pos(2)] held_finite(2) [OF lim(5)] x fin by (simp add: dec_order not_less)
  moreover obtain total where total: "open_reservation_total db = Inr total" "dec_le (dec_add total exposure) (aggregate_exposure_limit pol)"
    using tables(4) res by (auto simp: open_reservation_total_def)
  moreover have "dval (dec_add total exposure) \<le> dval (aggregate_exposure_limit pol)"
    using total(2) held_finite(1) [OF total(1)] x fin by (simp add: dec_order)
  moreover have "dval (dec_sub (account_capital pol) (equity a)) \<le> dval (drawdown_limit pol)"
    "dval (close_only_equity_threshold pol) < dval (equity a)"
    using lim(3,4) acc fin by (simp_all add: dec_order not_less not_le)
  moreover have "event_run_id p = ev" "permit_bound H p c (risk_policy_sha256 H pol) now exposure"
    using bound pol(1) by (simp_all add: permit_bound_def kernel_policy_sha256_def)
  ultimately show ?thesis
    using verified truth lim(5) x tables(1,2,5,6) unfolding ap(1) same control_is_def by blast
qed

section \<open>Approval and abstention, version 2\<close>

lemma portfolio_or_trip_Inr [outcome_simps]:
  "portfolio_or_trip H now a csh ps rs active db = (Inr r, db') \<longleftrightarrow> v2_portfolio a csh ps rs active db = Inr r \<and> db' = db"
  by (auto simp: portfolio_or_trip_def outcome_simps split: sum.splits)

lemma case_return_Inr [outcome_simps]:
  "(case r of Inl e \<Rightarrow> oraise x | Inr d \<Rightarrow> oreturn (f d)) s = (Inr y, t) \<longleftrightarrow> (\<exists>d. r = Inr d \<and> y = f d \<and> t = s)"
  by (cases r) (auto simp: outcome_simps)

lemma account_guards_Inr:
  "v2_account_guards a = Inr (a', csh) \<longleftrightarrow> a' = a \<and> cash a = Some csh \<and> is_finite (equity a) \<and> is_finite csh
     \<and> 0 < dval (equity a) \<and> 0 \<le> dval csh \<and> dval csh \<le> dval (equity a)"
  by (auto simp: v2_account_guards_def guarded_Inr dec_order split: option.splits)

lemma current_allocation_Inr:
  assumes "current_allocation H k pol active o' now db = (Inr (a, csh, d), db')"
  obtains ps rs portfolio existing where "db' = db" "truth_is (kn_truth k) now (v2_truth_max_age_seconds pol) a ps rs"
    "cash a = Some csh" "is_finite (equity a)" "is_finite csh" "0 \<le> dval csh" "dval csh \<le> dval (equity a)"
    "\<not> dec_le (equity a) (dec_mul (starting_equity pol) (emergency_drawdown_freeze_fraction pol))"
    "v2_portfolio a csh ps rs active db = Inr (portfolio, existing)" "allocate_defined_risk H portfolio o' existing = Inr d"
proof -
  show thesis using assms that
    by (auto simp: current_allocation_def v2_fresh_truth_def outcome_simps account_guards_Inr read_truth_Inr split: if_splits)
qed

lemma authorize_entry_v2_Inr:
  assumes "authorize_entry_v2 H owner k ev cand o' c p now db = (Inr out, db')"
  obtains pol sy q loss a csh d where "kn_policy k = PolicyV2 pol" "v2_constants_verified owner pol" "v2_run_mode pol = ''PAPER''"
    "cash_only pol" "defined_risk_only pol" "control_is ACTIVE db" "is_utc now"
    "first_reject (v2_request_guards (risk_policy_v2_sha256 H pol) o' c) = None" "compiled_underlying c = Inr sy"
    "first_reject (v2_identity_guards H pol o' c sy) = None" "ev = ce_event_id c"
    "permit_bound H p c (risk_policy_v2_sha256 H pol) now loss" "quantity p = q" "is_finite loss" "0 < dval loss"
    "dec_eq (dec_mul (op_max_debit o') (dec_of_int q)) loss"
    "current_allocation H k pol (risk_policy_v2_sha256 H pol) o' now db = (Inr (a, csh, d), db)"
    "settle_v2 H pol (risk_policy_v2_sha256 H pol) ev sy cand o' c p q loss ACTIVE now a csh d db = (Inr out, db')"
proof -
  let ?active = "kernel_policy_sha256 H (kn_policy k)"
  obtain pol st sy q loss active' a csh d d1 where utc: "is_utc now" and pol: "kernel_v2_policy owner (kn_policy k) = Inr pol"
    "first_reject (v2_policy_guards pol) = None"
    and st: "st = fst (get_control_state db)" "first_reject (entry_gate st # v2_request_guards ?active o' c) = None"
    and sy: "compiled_underlying c = Inr sy" "first_reject (v2_identity_guards H pol o' c sy) = None"
    and bind: "validate_candidate_binding H k ev sy cand c db = (Inr active', db)"
    and permit: "validate_permit_binding H p c ?active now = Inr ()"
    and terms: "compiled_quantity c = Inr q" "expression_exposure c = Inr loss" "first_reject (v2_terms_guards o' p q loss) = None"
    and alloc: "current_allocation H k pol ?active o' now db = (Inr (a, csh, d), d1)"
    and settle: "settle_v2 H pol ?active ev sy cand o' c p q loss st now a csh d d1 = (Inr out, db')"
  proof -
    obtain pol st sy where 1: "is_utc now" "kernel_v2_policy owner (kn_policy k) = Inr pol" "first_reject (v2_policy_guards pol) = None"
      "st = fst (get_control_state db)"
      "first_reject (entry_gate st # v2_request_guards ?active o' c @ [kernel_identifier ev ''event_id'', kernel_identifier cand ''candidate_id'']) = None"
      "compiled_underlying c = Inr sy"
      and rest: "(othen (require (\<lambda>_. [kernel_identifier (ce_event_id c) ''compiled.event_id'', (ev \<noteq> ce_event_id c, lrej UNSUPPORTED_INPUT ''event_id'')]
                   @ v2_identity_guards H pol o' c sy))
     (othen (validate_candidate_binding H k ev sy cand c)
     (othen (result_of (validate_permit_binding H p c ?active now))
     (obind (result_of (compiled_quantity c)) (\<lambda>q.
      obind (result_of (map_sum LedgerRejected id (expression_exposure c))) (\<lambda>max_loss.
      othen (require (\<lambda>_. v2_terms_guards o' p q max_loss))
     (obind (current_allocation H k pol ?active o' now) (\<lambda>(account, csh, d).
      settle_v2 H pol ?active ev sy cand o' c p q max_loss st now account csh d)))))))) db = (Inr out, db')"
      using assms unfolding authorize_entry_v2_def Let_def
      by (auto simp: othen_Inr obind_Inr require_Inr statement_Inr require_now_def)
    have guards: "first_reject (entry_gate st # v2_request_guards ?active o' c) = None"
      using 1(5) by (auto simp: first_reject_None)
    have cons: "first_reject (g # h # gs) = None \<longleftrightarrow> \<not> fst g \<and> \<not> fst h \<and> first_reject gs = None" for g h :: "bool \<times> ledger_error" and gs
      by (cases g; cases h) auto
    obtain active' d0 q loss a csh d d1 where 2: "first_reject (v2_identity_guards H pol o' c sy) = None"
      "validate_candidate_binding H k ev sy cand c db = (Inr active', d0)" "validate_permit_binding H p c ?active now = Inr ()"
      "compiled_quantity c = Inr q" "expression_exposure c = Inr loss" "first_reject (v2_terms_guards o' p q loss) = None"
      "current_allocation H k pol ?active o' now d0 = (Inr (a, csh, d), d1)"
      "settle_v2 H pol ?active ev sy cand o' c p q loss st now a csh d d1 = (Inr out, db')"
      using rest by (auto simp: othen_Inr obind_Inr require_Inr statement_Inr cons simp del: first_reject.simps)
    have "d0 = db" by (rule binding_Inr [OF 2(2)])
    then show thesis using that 1(1-4,6) guards 2 by blast
  qed
  obtain v2: "kn_policy k = PolicyV2 pol" "v2_constants_verified owner pol"
    using pol(1) by (auto simp: kernel_v2_policy_def guarded_Inr split: kernel_policy.splits)
  then have active: "?active = risk_policy_v2_sha256 H pol" by (simp add: kernel_policy_sha256_def)
  have act: "st = ACTIVE" by (rule gate_active [OF st(2)])
  obtain x where x: "permit_bound H p c ?active now x" using permit_binding_Inr [OF permit] by blast
  then have "x = loss" using terms(2) by (simp add: permit_bound_def)
  moreover have "ev = ce_event_id c" by (rule binding_Inr [OF bind])
  moreover have "d1 = db" by (rule current_allocation_Inr [OF alloc])
  moreover have "quantity p = q" "is_finite loss" "0 < dval loss" "dec_eq (dec_mul (op_max_debit o') (dec_of_int q)) loss"
    using terms(3) by (auto simp: v2_terms_guards_def dec_order)
  moreover have "v2_run_mode pol = ''PAPER''" "cash_only pol" "defined_risk_only pol"
    using pol(2) by (auto simp: v2_policy_guards_def)
  moreover have "control_is ACTIVE db" using st(1) act by (simp add: control_is_def)
  moreover have "first_reject (v2_request_guards ?active o' c) = None" using st(2) by (simp add: entry_gate_def split: if_splits)
  ultimately show thesis
    using that v2 sy utc x alloc settle unfolding active act by blast
qed

lemma settle_v2_Inr:
  assumes "settle_v2 H pol active ev sy cand o' c p q loss st now a csh d db = (Inr out, db')"
  obtains (abstained) "ad_status d = allocation_status.ABSTAINED" "db' = db"
      "out = AbstainedV2 \<lparr>rb_event_id = ev, rb_candidate_id = cand, rb_opportunity_id = op_opportunity_id o',
         rb_account_equity = equity a, rb_account_cash = csh, rb_allocation = d, rb_control_state = st\<rparr>"
  | (approved) rid rc where "ad_status d = ALLOCATED" "ad_reservation_id d = Some rid" "ad_quantity d = q" "dec_eq (ad_max_loss d) loss"
      "reserve_v2_and_issue_permit H (v2_request H pol active ev sy cand o' c p d rid (equity a) csh now) db = (Inr rc, db')"
      "receipt_matches H rc d o' p (equity a) csh active"
      "out = ApprovedV2 (approval_of_receipt rc ev cand o' (defined_risk_opportunity_sha256 H o') st)"
proof (cases "ad_status d")
  case ALLOCATED
  then show thesis using assms approved
    by (cases "ad_reservation_id d") (auto simp: settle_v2_def outcome_simps)
next
  case ABSTAINED
  then show thesis using assms abstained by (auto simp: settle_v2_def outcome_simps)
qed

lemma dec_eq_FinD: "dec_eq x (Fin m e) \<Longrightarrow> is_finite x \<and> dval x = dval (Fin m e)"
proof -
  assume eq: "dec_eq x (Fin m e)"
  then have "is_finite x" by (cases x) auto
  then show ?thesis using eq dec_eq_iff [of x "Fin m e"] by simp
qed

text \<open>The state of an allocation as the authorization used it.\<close>

definition v2_allocation_at ::
    "hash_function \<Rightarrow> risk_kernel \<Rightarrow> risk_policy_v2 \<Rightarrow> defined_risk_opportunity \<Rightarrow> datetime \<Rightarrow> ledger \<Rightarrow> account_snapshot \<Rightarrow> dec
     \<Rightarrow> allocation_decision \<Rightarrow> bool" where
  "v2_allocation_at H k pol o' now db a csh d =
     (\<exists>ps rs portfolio existing. truth_is (kn_truth k) now (v2_truth_max_age_seconds pol) a ps rs \<and> cash a = Some csh
        \<and> 0 \<le> dval csh \<and> dval csh \<le> dval (equity a)
        \<and> v2_portfolio a csh ps rs (risk_policy_v2_sha256 H pol) db = Inr (portfolio, existing)
        \<and> allocate_defined_risk H portfolio o' existing = Inr d)"

text \<open>
  C10. What the version 2 authorization certifies. When \<open>authorize_entry_v2\<close> returns, the kernel was ACTIVE under
  the owner's verified policy, broker truth was fresh with explicit unborrowed cash, equity was above the 50
  percent freeze, and the pure allocation was evaluated on the portfolio the ledger and that truth imply. An
  abstention leaves the ledger untouched and carries that allocation. An approval is exactly that allocation: its
  quantity is the allocated quantity and the permit's, its loss the allocated loss and the permit's maximum loss,
  its reservation the allocation's identity; and the event is reserved, or it was already by an identical request.
\<close>

theorem authorize_entry_v2_sound:
  assumes run: "authorize_entry_v2 H owner k ev cand o' c p now db = (Inr out, db')"
    and pol: "kn_policy k = PolicyV2 pol" "risk_policy_v2_ok owner pol"
  shows "fst (get_control_state db) = ACTIVE \<and> v2_constants_verified owner pol
    \<and> (\<exists>a csh d. v2_allocation_at H k pol o' now db a csh d \<and> 50000 < dval (equity a)
        \<and> (case out of
             AbstainedV2 b \<Rightarrow> db' = db \<and> rb_allocation b = d \<and> ad_status d = allocation_status.ABSTAINED
           | ApprovedV2 v \<Rightarrow> ad_status d = ALLOCATED \<and> rv_quantity v = ad_quantity d \<and> quantity p = ad_quantity d
               \<and> dec_eq (rv_max_loss v) (ad_max_loss d) \<and> Some (rv_reservation_id v) = ad_reservation_id d
               \<and> (\<exists>loss. permit_bound H p c (risk_policy_v2_sha256 H pol) now loss \<and> 0 < dval loss \<and> dec_eq (ad_max_loss d) loss)
               \<and> rv_permit_id v = permit_id p
               \<and> (db' = db \<or> map_option rs_state (reservation_for_event ev db') = Some RESERVED)))"
proof (rule authorize_entry_v2_Inr [OF run])
  fix pol' sy q loss a csh d
  assume k: "kn_policy k = PolicyV2 pol'" "v2_constants_verified owner pol'" "control_is ACTIVE db"
    and permit: "permit_bound H p c (risk_policy_v2_sha256 H pol') now loss" "quantity p = q" "0 < dval loss"
    and alloc: "current_allocation H k pol' (risk_policy_v2_sha256 H pol') o' now db = (Inr (a, csh, d), db)"
    and settle: "settle_v2 H pol' (risk_policy_v2_sha256 H pol') ev sy cand o' c p q loss ACTIVE now a csh d db = (Inr out, db')"
  have same: "pol' = pol" using k(1) pol(1) by simp
  have at: "v2_allocation_at H k pol o' now db a csh d"
    by (rule current_allocation_Inr [OF alloc [unfolded same]]) (unfold v2_allocation_at_def, blast)
  have eq: "dec_eq (starting_equity pol) V2_STARTING_EQUITY" "dec_eq (emergency_drawdown_freeze_fraction pol) V2_FREEZE_FRACTION"
    using pol(2) by (auto simp: risk_policy_v2_ok_def risk_policy_v2_checks_def)
  define s f where "s = starting_equity pol" and "f = emergency_drawdown_freeze_fraction pol"
  have sf: "is_finite s" "is_finite f" "dval s = 100000" "dval f = 1 / 2"
    using dec_eq_FinD [OF eq(1) [unfolded V2_STARTING_EQUITY_def]] dec_eq_FinD [OF eq(2) [unfolded V2_FREEZE_FRACTION_def]]
    by (simp_all add: s_def f_def power_int_minus)
  have "dval (dec_mul s f) = 50000"
    using dec_mul_representable [OF sf(1,2), of 50000 0] sf(3,4) by (simp add: prec_def)
  then have "50000 < dval (equity a)"
    by (rule_tac current_allocation_Inr [OF alloc [unfolded same]]) (use sf in \<open>simp add: dec_order s_def f_def\<close>)
  moreover have "case out of
             AbstainedV2 b \<Rightarrow> db' = db \<and> rb_allocation b = d \<and> ad_status d = allocation_status.ABSTAINED
           | ApprovedV2 v \<Rightarrow> ad_status d = ALLOCATED \<and> rv_quantity v = ad_quantity d \<and> quantity p = ad_quantity d
               \<and> dec_eq (rv_max_loss v) (ad_max_loss d) \<and> Some (rv_reservation_id v) = ad_reservation_id d
               \<and> (\<exists>loss. permit_bound H p c (risk_policy_v2_sha256 H pol) now loss \<and> 0 < dval loss \<and> dec_eq (ad_max_loss d) loss)
               \<and> rv_permit_id v = permit_id p
               \<and> (db' = db \<or> map_option rs_state (reservation_for_event ev db') = Some RESERVED)"
    using settle
  proof (cases rule: settle_v2_Inr)
    case abstained
    then show ?thesis by simp
  next
    case (approved rid rc)
    have "db' = db \<or> snd (desk_of db') ev = Some RESERVED"
      using desk_authorize_v2 [OF approved(5)] by (auto simp: v2_request_def)
    then have "db' = db \<or> map_option rs_state (reservation_for_event ev db') = Some RESERVED"
      by (simp add: desk_of_def)
    then show ?thesis using approved permit unfolding same by (auto simp: approval_of_receipt_def receipt_matches_def)
  qed
  ultimately show ?thesis using k at unfolding same control_is_def by blast
qed

section \<open>Previews\<close>

text \<open>The tables that carry authority to trade.\<close>

definition same_entries :: "ledger \<Rightarrow> ledger \<Rightarrow> bool" where
  "same_entries db db' =
     (candidates db' = candidates db \<and> not_run db' = not_run db \<and> reservations db' = reservations db \<and> permits db' = permits db
      \<and> v2_reservations db' = v2_reservations db \<and> submissions db' = submissions db \<and> fills db' = fills db
      \<and> lifecycle_intents db' = lifecycle_intents db)"

lemma apply_trigger_same_entries: "apply_trigger H t now db = (Inr c, db') \<Longrightarrow> same_entries db db'"
  by (auto simp: apply_trigger_def set_control_state_with_passport_def outcome_simps append_passport_Inr put_control_state_def
      same_entries_def)

interpretation quiet: stepping same_entries
  by unfold_locales (auto simp: same_entries_def)

interpretation quiet: tripping same_entries H for H
  by unfold_locales (rule quiet.operation_rule, simp_all add: apply_trigger_same_entries)

lemma current_allocation_pure:
  "current_allocation H k pol active o' now db = (Inr x, db') \<Longrightarrow> db' = db"
  by (cases x) (auto elim: current_allocation_Inr)

lemma preview_Inr_same: "preview_allocation_v2 H owner k o' c now db = (Inr v, db') \<Longrightarrow> db' = db"
  by (auto simp: preview_allocation_v2_def Let_def outcome_simps split: option.splits dest: current_allocation_pure)

text \<open>
  C37. A preview is harmless and honest. However a preview ends, no candidate, abstention, reservation, permit,
  submission, fill or intent changes, and a preview that returns changes nothing at all. And it is the allocation an
  authorization would use: whenever \<open>authorize_entry_v2\<close> returns, the preview of the same request against the
  same ledger and truth returns, with the same equity and cash and an allocation whose quantity, loss and
  reservation identity are those of the approval (or which is the abstention's).
\<close>

theorem preview_agrees:
  assumes "\<And>x. length (H x) = 64" "op_opportunity_id o' \<noteq> []"
    and run: "authorize_entry_v2 H owner k ev cand o' c p now db = (Inr out, db')"
  shows "same_entries db1 (snd (preview_allocation_v2 H owner k2 o2 c2 now2 db1))
    \<and> (\<exists>v. preview_allocation_v2 H owner k o' c now db = (Inr v, db)
        \<and> (case out of
             AbstainedV2 b \<Rightarrow> rb_allocation b = pv_allocation v \<and> rb_account_equity b = pv_account_equity v \<and> rb_account_cash b = pv_account_cash v
           | ApprovedV2 a \<Rightarrow> rv_quantity a = ad_quantity (pv_allocation v) \<and> dec_eq (rv_max_loss a) (ad_max_loss (pv_allocation v))
               \<and> Some (rv_reservation_id a) = ad_reservation_id (pv_allocation v) \<and> rv_policy_sha256 a = pv_policy_sha256 v
               \<and> dec_eq (rv_account_equity a) (pv_account_equity v) \<and> dec_eq (rv_account_cash a) (pv_account_cash v)))"
proof (rule authorize_entry_v2_Inr [OF run])
  fix pol sy q loss a csh d
  assume k: "kn_policy k = PolicyV2 pol" "v2_constants_verified owner pol" "v2_run_mode pol = ''PAPER''" "cash_only pol"
      "defined_risk_only pol" "control_is ACTIVE db" "is_utc now"
    and request: "first_reject (v2_request_guards (risk_policy_v2_sha256 H pol) o' c) = None" "compiled_underlying c = Inr sy"
      "first_reject (v2_identity_guards H pol o' c sy) = None"
    and alloc: "current_allocation H k pol (risk_policy_v2_sha256 H pol) o' now db = (Inr (a, csh, d), db)"
    and settle: "settle_v2 H pol (risk_policy_v2_sha256 H pol) ev sy cand o' c p q loss ACTIVE now a csh d db = (Inr out, db')"
  define v where "v = \<lparr>pv_authority = ''NON_AUTHORITATIVE_PREVIEW'', pv_opportunity_id = op_opportunity_id o',
               pv_opportunity_sha256 = defined_risk_opportunity_sha256 H o', pv_expression_sha256 = compiled_expression_sha256 H c,
               pv_policy_sha256 = risk_policy_v2_sha256 H pol, pv_account_equity = equity a, pv_account_cash = csh,
               pv_control_state = ACTIVE, pv_allocation = d\<rparr>"
  have checks: "preview_checks v = None"
    using assms(1,2) by (simp add: preview_checks_def v_def defined_risk_opportunity_sha256_def compiled_expression_sha256_def
        risk_policy_v2_sha256_def)
  have pol: "kernel_v2_policy owner (kn_policy k) = Inr pol" "first_reject (v2_policy_guards pol) = None"
    "kernel_policy_sha256 H (kn_policy k) = risk_policy_v2_sha256 H pol"
    using k by (simp_all add: kernel_v2_policy_def guarded_def v2_policy_guards_def kernel_policy_sha256_def)
  have gate: "first_reject (entry_gate (fst (get_control_state db)) # v2_request_guards (risk_policy_v2_sha256 H pol) o' c) = None"
    "fst (get_control_state db) = ACTIVE"
    using k(6) request(1) by (simp_all add: entry_gate_def entry_allowed_def control_is_def)
  have preview: "preview_allocation_v2 H owner k o' c now db = (Inr v, db)"
    unfolding preview_allocation_v2_def Let_def pol(3)
    using k(7) pol(1,2) gate request(2,3) alloc checks
    by (simp add: othen_Inr obind_Inr require_Inr statement_Inr require_now_def v_def)
  have "same_entries db1 (snd (preview_allocation_v2 H owner k2 o2 c2 now2 db1))"
    using tripleD [OF quiet.preview_rule TrueI] by (metis prod.collapse)
  moreover have "case out of
             AbstainedV2 b \<Rightarrow> rb_allocation b = pv_allocation v \<and> rb_account_equity b = pv_account_equity v \<and> rb_account_cash b = pv_account_cash v
           | ApprovedV2 a \<Rightarrow> rv_quantity a = ad_quantity (pv_allocation v) \<and> dec_eq (rv_max_loss a) (ad_max_loss (pv_allocation v))
               \<and> Some (rv_reservation_id a) = ad_reservation_id (pv_allocation v) \<and> rv_policy_sha256 a = pv_policy_sha256 v
               \<and> dec_eq (rv_account_equity a) (pv_account_equity v) \<and> dec_eq (rv_account_cash a) (pv_account_cash v)"
    using settle by (cases rule: settle_v2_Inr) (auto simp: v_def approval_of_receipt_def receipt_matches_def)
  ultimately show ?thesis using preview by blast
qed

section \<open>Bad truth, and the proof of flatness\<close>

lemma apply_trigger_total:
  assumes "is_utc now" "t \<noteq> TResolved"
  shows "\<exists>c db'. apply_trigger H t now db = (Inr c, db') \<and> c \<noteq> ACTIVE \<and> fst (get_control_state db') = c"
proof -
  obtain c where c: "next_control_state (fst (get_control_state db)) t = Inr c"
    using assms(2) by (cases "fst (get_control_state db)"; cases t) (simp_all add: next_control_state_def control_table_simps)
  have "exact_text (passport_event_type_value CONTROL_STATE_CHANGED)" by (simp add: text_simps)
  then obtain db' where run: "apply_trigger H t now db = (Inr c, db')"
    using assms(1) c
    by (simp add: apply_trigger_def set_control_state_with_passport_def othen_def obind_def query_def result_of_def oreturn_def
        transaction_def require_def exec_def append_passport_def validator_defs Let_def)
  then show ?thesis using apply_trigger_Inr(2) [OF run] next_state_halts [OF c assms(2)] by (auto simp: desk_of_def)
qed

lemma trip_outcome:
  assumes "is_utc now" "t \<noteq> TResolved"
  shows "\<exists>db'. trip H t now e db = (Inl e, db') \<and> fst (get_control_state db') \<noteq> ACTIVE \<and> same_entries db db'"
proof -
  obtain c db' where "apply_trigger H t now db = (Inr c, db')" "c \<noteq> ACTIVE" "fst (get_control_state db') = c"
    using apply_trigger_total [OF assms] by blast
  then show ?thesis using apply_trigger_same_entries by (auto simp: trip_def othen_def obind_def oraise_def)
qed

lemma trip_halts:
  assumes "trip H t now e db = (r, db')" "is_utc now" "t \<noteq> TResolved"
  shows "r = Inl e \<and> fst (get_control_state db') \<noteq> ACTIVE"
  using trip_outcome [OF assms(2,3)] assms(1) by (metis prod.inject)

lemma truth_fails:
  assumes "truth_or_trip_v1 H now (Inl e) db = (r, db')" "is_utc now" "\<forall>m. e \<noteq> TruthValueError m"
  shows "(\<exists>err. r = Inl err) \<and> fst (get_control_state db') \<noteq> ACTIVE"
  using assms by (cases e) (auto simp: truth_or_trip_v1_def dest: trip_halts)

lemma truth_fails_v2:
  assumes "truth_or_trip_v2 H now (Inl e) db = (r, db')" "is_utc now"
  shows "(\<exists>err. r = Inl err) \<and> fst (get_control_state db') \<noteq> ACTIVE"
  using assms by (cases e) (auto simp: truth_or_trip_v2_def dest: trip_halts)

text \<open>
  Truth on which nothing may be entered: it is not all present and fresh, or an order is
  partially filled. And the checks of the two authorizations that come before truth is read.
\<close>

definition bad_truth :: "risk_kernel \<Rightarrow> datetime \<Rightarrow> bool" where
  "bad_truth k now =
     (\<nexists>a ps rs. truth_is (kn_truth k) now (kernel_max_age (kn_policy k)) a ps rs \<and> \<not> list_ex is_partial_fill rs)"

definition unread_value :: "risk_kernel \<Rightarrow> datetime \<Rightarrow> string \<Rightarrow> bool" where
  "unread_value k now m = (read_truth (kn_truth k) now (kernel_max_age (kn_policy k)) = Inl (TruthValueError m))"

definition identified_v1 ::
    "hash_function \<Rightarrow> risk_kernel \<Rightarrow> string \<Rightarrow> string \<Rightarrow> string \<Rightarrow> compiled_expression \<Rightarrow> debit_vertical_permit \<Rightarrow> datetime \<Rightarrow> ledger \<Rightarrow> bool" where
  "identified_v1 H k ev sy cand c p now db =
     (\<exists>pol active. kn_policy k = PolicyV1 pol \<and> constants_verified pol \<and> run_mode pol = ''PAPER''
        \<and> validate_candidate_binding H k ev sy cand c db = (Inr active, db) \<and> validate_permit_binding H p c active now = Inr ())"

definition identified_v2 ::
    "hash_function \<Rightarrow> string \<Rightarrow> risk_kernel \<Rightarrow> string \<Rightarrow> string \<Rightarrow> defined_risk_opportunity \<Rightarrow> compiled_expression
     \<Rightarrow> debit_vertical_permit \<Rightarrow> datetime \<Rightarrow> ledger \<Rightarrow> bool" where
  "identified_v2 H owner k ev cand o' c p now db =
     (\<exists>pol sy active q loss. kernel_v2_policy owner (kn_policy k) = Inr pol \<and> first_reject (v2_policy_guards pol) = None
        \<and> first_reject (v2_request_guards (kernel_policy_sha256 H (kn_policy k)) o' c) = None
        \<and> compiled_underlying c = Inr sy \<and> first_reject (v2_identity_guards H pol o' c sy) = None
        \<and> validate_candidate_binding H k ev sy cand c db = (Inr active, db)
        \<and> validate_permit_binding H p c active now = Inr () \<and> compiled_quantity c = Inr q \<and> expression_exposure c = Inr loss
        \<and> first_reject (v2_terms_guards o' p q loss) = None)"

lemma binding_reads: "snd (validate_candidate_binding H k ev sy cand c db) = db"
  by (auto simp: validate_candidate_binding_def othen_def obind_def require_def result_of_def oreturn_def split: option.splits sum.splits)

lemma never_returns: "triple R P m Q \<Longrightarrow> (\<And>s a s'. m s \<noteq> (Inr a, s')) \<Longrightarrow> triple R P m (\<lambda>_ _. False)"
  by (fastforce simp: triple_def)

lemma never_returnsD: "triple R (\<lambda>_. True) m (\<lambda>_ _. False) \<Longrightarrow> m s = (r, s') \<Longrightarrow> (\<exists>e. r = Inl e) \<and> R s s'"
  by (cases r) (auto simp: triple_def)

lemma bad_v1_quiet:
  assumes "bad_truth k now"
  shows "triple same_entries P (authorize_entry H k ev sy cand c p now) (\<lambda>_ _. False)"
proof (cases "kn_policy k")
  case (PolicyV1 pol)
  have "triple same_entries Q
     (if list_ex is_partial_fill rs then trip H TPartialFillState now e else m) (\<lambda>_ _. False)"
    if "read_truth (kn_truth k) now (truth_max_age_seconds pol) = Inr (a, ps, rs)" for Q a ps rs e and m :: "risk_approval ledger_op"
    using assms that PolicyV1 by (auto simp: bad_truth_def read_truth_Inr kernel_max_age_def intro!: quiet.trips)
  then show ?thesis
    unfolding authorize_entry_def PolicyV1
    by (auto intro!: quiet.then_require quiet.then_query quiet.then_truth(1) quiet.then_result_unit
        quiet.obind_rule [OF quiet.reads_rule] simp: binding_reads)
next
  case PolicyV2
  then show ?thesis unfolding authorize_entry_def by (auto intro!: quiet.then_require quiet.raise_rule)
qed

lemma partial_fill_refused: "list_ex is_partial_fill rs \<Longrightarrow> first_reject (v2_order_guards known rs) \<noteq> None"
  by (auto simp: v2_order_guards_def first_reject_None list_ex_iff)

lemma bad_allocation:
  assumes "bad_truth k now" "kn_policy k = PolicyV2 pol"
  shows "current_allocation H k pol active o' now db \<noteq> (Inr x, db')"
proof
  assume run: "current_allocation H k pol active o' now db = (Inr x, db')"
  obtain a csh d where x: "x = (a, csh, d)" by (cases x)
  obtain ps rs portfolio existing where "truth_is (kn_truth k) now (v2_truth_max_age_seconds pol) a ps rs"
    "v2_portfolio a csh ps rs active db = Inr (portfolio, existing)"
    by (rule current_allocation_Inr [OF run [unfolded x]])
  then show False
    using assms partial_fill_refused [of rs "v2_submitted_order_ids db"]
    by (auto simp: bad_truth_def kernel_max_age_def v2_portfolio_def guarded_Inr rbind_Inr first_reject_append)
qed

lemma bad_v2_quiet:
  assumes "bad_truth k now"
  shows "triple same_entries P (authorize_entry_v2 H owner k ev cand o' c p now) (\<lambda>_ _. False)"
proof -
  have "triple same_entries Q (obind (current_allocation H k pol active o' now) f) (\<lambda>_ _. False)"
    if "kernel_v2_policy owner (kn_policy k) = Inr pol" for Q pol active and f :: "_ \<Rightarrow> v2_outcome ledger_op"
  proof -
    have k: "kn_policy k = PolicyV2 pol" using that by (auto simp: kernel_v2_policy_def guarded_Inr split: kernel_policy.splits)
    show ?thesis
      by (rule quiet.obind_rule [OF never_returns [OF quiet.allocation_rule]])
        (auto simp: bad_allocation [OF assms k] triple_def)
  qed
  then show ?thesis
    unfolding authorize_entry_v2_def Let_def
    by (auto intro!: quiet.then_require quiet.then_query quiet.then_result quiet.then_result_unit
        quiet.othen_rule [OF triple_post [OF quiet.reads_rule]] simp: binding_reads)
qed

lemma bad_allocation_trips:
  assumes "bad_truth k now" "kn_policy k = PolicyV2 pol" "is_utc now"
  shows "\<exists>e db'. current_allocation H k pol active o' now db = (Inl e, db') \<and> fst (get_control_state db') \<noteq> ACTIVE"
proof -
  let ?read = "rbind (read_truth (kn_truth k) now (v2_truth_max_age_seconds pol)) (\<lambda>(a, ps, rs).
        rbind (truth_result (v2_account_guards a)) (\<lambda>ac. Inr (ac, ps, rs)))"
  obtain r db' where run: "current_allocation H k pol active o' now db = (r, db')" by (metis prod.exhaust)
  obtain e where e: "r = Inl e" using bad_allocation [OF assms(1,2)] run by (cases r) blast+
  have "fst (get_control_state db') \<noteq> ACTIVE"
  proof (cases ?read)
    case (Inl t)
    then show ?thesis
      using run assms(3) truth_fails_v2 [of H now t db]
      by (auto simp: current_allocation_def v2_fresh_truth_def obind_def split: prod.splits sum.splits)
  next
    case (Inr x)
    obtain a csh ps rs where x: "x = ((a, csh), ps, rs)" by (cases x) auto
    have "list_ex is_partial_fill rs"
      using Inr assms(1,2) unfolding x by (auto simp: rbind_Inr read_truth_Inr bad_truth_def kernel_max_age_def)
    then obtain err where port: "v2_portfolio a csh ps rs active db = Inl err"
      using partial_fill_refused [of rs "v2_submitted_order_ids db"]
      by (cases "v2_portfolio a csh ps rs active db") (auto simp: v2_portfolio_def guarded_Inr rbind_Inr first_reject_append)
    let ?trigger = "if partial_fill_error err then TPartialFillState else TContradictoryTruth"
    have "trip H TDrawdownLimitBreached now (lrej DRAWDOWN_LIMIT_BREACHED ''account.equity'') db = (r, db')
      \<or> (\<exists>q. trip H ?trigger now err db = (q :: ledger_error + portfolio_state \<times> allocation_reservation list, db'))"
      using run trip_halts [of H ?trigger now err db] assms(3)
      by (auto simp: current_allocation_def v2_fresh_truth_def obind_def Inr x truth_or_trip_v2_def oreturn_def
          portfolio_or_trip_def port split: prod.splits sum.splits if_split_asm simp del: if_split)
    then show ?thesis using assms(3) by (auto dest: trip_halts split: if_splits)
  qed
  then show ?thesis using run e by blast
qed

lemma bad_v1_trips:
  assumes now: "is_utc now" and bad: "bad_truth k now" and id: "identified_v1 H k ev sy cand c p now db"
    and run: "authorize_entry H k ev sy cand c p now db = (r, db')"
  shows "(\<nexists>m. unread_value k now m) \<Longrightarrow> fst (get_control_state db') \<noteq> ACTIVE"
    "fst (get_control_state db) = ACTIVE \<Longrightarrow> unread_value k now m \<Longrightarrow> r = Inl (LedgerValueError m) \<and> db' = db"
proof -
  obtain pol active where bound: "kn_policy k = PolicyV1 pol" "constants_verified pol" "run_mode pol = ''PAPER''"
      "validate_candidate_binding H k ev sy cand c db = (Inr active, db)" "validate_permit_binding H p c active now = Inr ()"
    using id by (auto simp: identified_v1_def)
  let ?read = "read_truth (kn_truth k) now (truth_max_age_seconds pol)"
  have age: "kernel_max_age (kn_policy k) = truth_max_age_seconds pol" using bound(1) by (simp add: kernel_max_age_def)
  have start: "authorize_entry H k ev sy cand c p now db =
    (if fst (get_control_state db) = ACTIVE
     then obind (truth_or_trip_v1 H now ?read) (\<lambda>(account, ps, rs).
           if list_ex is_partial_fill rs then trip H TPartialFillState now (lrej PARTIAL_FILL_STATE ''orders'')
           else obind (result_of (map_sum LedgerRejected id (expression_exposure c))) (\<lambda>exposure.
             othen (require (\<lambda>_. exposure_guards pol account ev exposure))
            (othen (portfolio_limits H pol account ps sy exposure now)
                   (issue_v1 H pol active ev sy cand c p exposure ACTIVE now)))) db
     else (Inl (snd (entry_gate (fst (get_control_state db)))), db))"
    using now bound
    by (cases "fst (get_control_state db) = ACTIVE")
      (simp_all add: authorize_entry_def othen_def obind_def [where s = db] require_def query_def result_of_def require_now_def
        entry_gate_def entry_allowed_def)
  show "r = Inl (LedgerValueError m) \<and> db' = db" if "fst (get_control_state db) = ACTIVE" "unread_value k now m"
    using that run unfolding start by (simp add: unread_value_def age truth_or_trip_v1_def obind_def oraise_def)
  show "fst (get_control_state db') \<noteq> ACTIVE" if ok: "\<nexists>m. unread_value k now m"
  proof (cases "fst (get_control_state db) = ACTIVE")
    case True
    show ?thesis
    proof (cases ?read)
      case (Inl e)
      then have "\<forall>m. e \<noteq> TruthValueError m" using ok by (auto simp: unread_value_def age)
      then show ?thesis
        using run True now unfolding start Inl by (auto simp: obind_def dest: truth_fails split: prod.splits sum.splits)
    next
      case (Inr x)
      obtain a ps rs where x: "x = (a, ps, rs)" by (cases x)
      have "list_ex is_partial_fill rs" using bad Inr unfolding x by (auto simp: bad_truth_def age read_truth_Inr)
      then show ?thesis
        using run True now unfolding start Inr x by (auto simp: obind_def truth_or_trip_v1_def oreturn_def dest: trip_halts)
    qed
  qed (use run in \<open>simp add: start\<close>)
qed

lemma bad_v2_trips:
  assumes now: "is_utc now" and bad: "bad_truth k now" and id: "identified_v2 H owner k ev cand o' c p now db"
    and run: "authorize_entry_v2 H owner k ev cand o' c p now db = (r, db')"
  shows "fst (get_control_state db') \<noteq> ACTIVE"
proof -
  let ?active = "kernel_policy_sha256 H (kn_policy k)"
  obtain pol sy active q loss where pol: "kernel_v2_policy owner (kn_policy k) = Inr pol" "first_reject (v2_policy_guards pol) = None"
    and req: "first_reject (v2_request_guards ?active o' c) = None" "compiled_underlying c = Inr sy"
      "first_reject (v2_identity_guards H pol o' c sy) = None"
    and bind: "validate_candidate_binding H k ev sy cand c db = (Inr active, db)" "validate_permit_binding H p c active now = Inr ()"
    and terms: "compiled_quantity c = Inr q" "expression_exposure c = Inr loss" "first_reject (v2_terms_guards o' p q loss) = None"
    using id by (auto simp: identified_v2_def)
  have k: "kn_policy k = PolicyV2 pol" using pol(1) by (auto simp: kernel_v2_policy_def guarded_Inr split: kernel_policy.splits)
  have same: "active = ?active" "ev = ce_event_id c" by (rule binding_Inr [OF bind(1)], assumption)+
  have ids: "\<not> fst (kernel_identifier ev ''event_id'')" "\<not> fst (kernel_identifier cand ''candidate_id'')"
    "\<not> fst (kernel_identifier (ce_event_id c) ''compiled.event_id'')"
    using bind(1) by (auto simp: validate_candidate_binding_def outcome_simps first_reject_append kernel_identifier_def)
  show ?thesis
  proof (cases "fst (get_control_state db) = ACTIVE")
    case True
    obtain e d1 where alloc: "current_allocation H k pol ?active o' now db = (Inl e, d1)" "fst (get_control_state d1) \<noteq> ACTIVE"
      using bad_allocation_trips [OF bad k now] by blast
    have guards: "first_reject (entry_gate ACTIVE # v2_request_guards ?active o' c
                   @ [kernel_identifier ev ''event_id'', kernel_identifier cand ''candidate_id'']) = None"
      "first_reject ([kernel_identifier (ce_event_id c) ''compiled.event_id'', (ev \<noteq> ce_event_id c, lrej UNSUPPORTED_INPUT ''event_id'')]
                   @ v2_identity_guards H pol o' c sy) = None"
      using req ids same(2) by (auto simp: first_reject_None entry_gate_def entry_allowed_def)
    have "authorize_entry_v2 H owner k ev cand o' c p now db = (Inl e, d1)"
      using now pol req(2) bind terms alloc(1) True guards unfolding same(1)
      by (simp add: authorize_entry_v2_def Let_def othen_def obind_def [where s = db] require_def query_def result_of_def require_now_def)
    then show ?thesis using run alloc(2) by simp
  next
    case False
    have gate: "first_reject (entry_gate (fst (get_control_state db)) # gs) = Some (snd (entry_gate (fst (get_control_state db))))" for gs
      using False by (simp add: entry_gate_def entry_allowed_def)
    have "authorize_entry_v2 H owner k ev cand o' c p now db = (Inl (snd (entry_gate (fst (get_control_state db)))), db)"
      using now pol gate
      by (simp add: authorize_entry_v2_def Let_def othen_def obind_def [where s = db] require_def query_def result_of_def require_now_def)
    then show ?thesis using run False by simp
  qed
qed


lemma reconcile_or_trip_Inr [outcome_simps]:
  "reconcile_or_trip H ev pid fill now db = (Inr u, db') \<longleftrightarrow>
     reconcile_observed_order H ev pid (order_id fill) (order_status fill) (filled_quantity fill) (order_observed_at fill) now db = (Inr u, db')"
  by (auto simp: reconcile_or_trip_def outcome_simps split: prod.splits sum.splits if_splits)

lemma desk_release_state:
  assumes "desk_step (Release ev) (desk_of db) (desk_of db')"
  shows "map_option rs_state (reservation_for_event ev db) = Some CONSUMED" "map_option rs_state (reservation_for_event ev db') = Some RELEASED"
proof -
  have "snd (desk_of db) ev = Some CONSUMED" "snd (desk_of db') ev = Some RELEASED"
    using assms by (auto elim: desk_stepE)
  then show "map_option rs_state (reservation_for_event ev db) = Some CONSUMED" "map_option rs_state (reservation_for_event ev db') = Some RELEASED"
    by (simp_all add: desk_of_def)
qed

text \<open>
  The proofs on which exposure is given back. A flat proof: the event is CONSUMED under a FILLED permit, and
  fresh positions and orders show no position on the reserved underlying and no partial fill. An order proof: the order is
  among the fresh orders the broker reports and is the one submitted for this permit and event, which is still RESERVED.
\<close>

definition exposure_state :: "string \<Rightarrow> ledger \<Rightarrow> reservation_state option" where
  "exposure_state ev db = map_option rs_state (reservation_for_event ev db)"

definition flat_proof :: "risk_kernel \<Rightarrow> datetime \<Rightarrow> string \<Rightarrow> string \<Rightarrow> ledger \<Rightarrow> bool" where
  "flat_proof k now ev pid db =
     (\<exists>r ps rs. reservation_for_event ev db = Some r \<and> rs_state r = CONSUMED \<and> map_option pm_state (permit_row pid db) = Some FILLED
         \<and> clock_ok (kn_truth k) now (kernel_max_age (kn_policy k))
         \<and> tr_positions (kn_truth k) = Inr ps \<and> list_all (\<lambda>p. fresh (position_observed_at p) now (kernel_max_age (kn_policy k))) ps
         \<and> tr_orders (kn_truth k) = Inr rs \<and> list_all (\<lambda>x. fresh (order_observed_at x) now (kernel_max_age (kn_policy k)) \<and> \<not> is_partial_fill x) rs
         \<and> list_all (\<lambda>p. pos_underlying p = rs_underlying r \<longrightarrow> dec_eq (pos_quantity p) dec_zero) ps)"

definition order_proof :: "risk_kernel \<Rightarrow> datetime \<Rightarrow> string \<Rightarrow> string \<Rightarrow> order_snapshot \<Rightarrow> ledger \<Rightarrow> bool" where
  "order_proof k now ev pid fill db =
     (\<exists>rs x sb. clock_ok (kn_truth k) now (kernel_max_age (kn_policy k)) \<and> tr_orders (kn_truth k) = Inr rs
         \<and> x \<in> set rs \<and> order_equal fill x \<and> fresh (order_observed_at x) now (kernel_max_age (kn_policy k))
         \<and> submission_for_permit pid db = Some sb \<and> sb_event_id sb = ev \<and> sb_broker_order_id sb = order_id fill
         \<and> map_option pm_state (permit_row pid db) = Some SUBMITTED \<and> exposure_state ev db = Some RESERVED)"

lemma reconcile_flat_returns:
  assumes run: "reconcile_flat H k ev pid now db = (Inr u, db')"
  shows "flat_proof k now ev pid db" "exposure_state ev db' = Some RELEASED"
proof -
  obtain r ps rs where 1: "reservation_for_event ev db = Some r" "clock_ok (kn_truth k) now (kernel_max_age (kn_policy k))"
    "tr_positions (kn_truth k) = Inr ps" "list_all (\<lambda>p. fresh (position_observed_at p) now (kernel_max_age (kn_policy k))) ps"
    "tr_orders (kn_truth k) = Inr rs" "list_all (\<lambda>x. fresh (order_observed_at x) now (kernel_max_age (kn_policy k))) rs"
    "\<not> list_ex is_partial_fill rs" "\<not> list_ex (\<lambda>p. pos_underlying p = rs_underlying r \<and> holds_position p) ps"
    "release_consumed_after_flat H ev pid now db = (Inr (), db')"
    using run by (auto simp: reconcile_flat_def Let_def outcome_simps read_Inr split: option.splits if_splits)
  obtain pm where pm: "permit_row pid db = Some pm" "pm_state pm = FILLED" by (rule release_flat_Inr [OF 1(9)])
  have "rs_state r = CONSUMED" using desk_release_state(1) [OF desk_release [OF 1(9)]] 1(1) by simp
  moreover have "list_all (\<lambda>x. fresh (order_observed_at x) now (kernel_max_age (kn_policy k)) \<and> \<not> is_partial_fill x) rs"
    "list_all (\<lambda>p. pos_underlying p = rs_underlying r \<longrightarrow> dec_eq (pos_quantity p) dec_zero) ps"
    using 1(6,7,8) by (auto simp: list_all_iff list_ex_iff holds_position_def)
  ultimately show "flat_proof k now ev pid db"
    unfolding flat_proof_def using 1 pm by (intro exI [of _ r] exI [of _ ps] exI [of _ rs]) simp
  show "exposure_state ev db' = Some RELEASED"
    unfolding exposure_state_def by (rule desk_release_state(2) [OF desk_release [OF 1(9)]])
qed

lemma set_permit_state_row:
  assumes "permit_row pid db = Some p"
  shows "map_option pm_state (permit_row pid (set_permit_state pid st now db)) = Some st"
proof -
  have p: "row_where (\<lambda>r. pm_id r = pid) (permits db) = Some p" "pm_id p = pid"
    using assms by (auto simp: permit_row_def dest: row_where_Some)
  have "row_where (\<lambda>r. pm_id r = pid) (permits (set_permit_state pid st now db))
      = map_option (\<lambda>r. if pm_id r = pid then r\<lparr>pm_state := st, pm_updated_at := isoformat_z now\<rparr> else r) (Some p)"
    unfolding p(1) [symmetric] set_permit_state_def by (simp add: row_where_update)
  then show ?thesis using p(2) by (simp add: permit_row_def)
qed

lemma reconciled_permit:
  assumes "reconcile_observed_order H ev pid order st q t now db = (Inr u, db')" "terminal_states pid st q = Inr (ps, rs, et)"
  shows "map_option pm_state (permit_row pid db') = Some ps"
proof (rule reconcile_Inr [OF assms(1)])
  fix p ps' rs' et' d1 d2 h1 h2
  assume p: "permit_row pid db = Some p" and ts: "terminal_states pid st q = Inr (ps', rs', et')"
    and fill: "insert_fill \<lparr>fl_id = order, fl_permit_id = pid, fl_event_id = ev, fl_quantity = dec_str q, fl_status = st,
       fl_observed_at = isoformat_z t\<rparr> (set_reservation_state ev rs' now (set_permit_state pid ps' now db)) = (Inr (), d1)"
    and pass: "append_passport H (passport_event_type_value et')
       (JObj [(''event_id'', JStr ev), (''permit_id'', JStr pid), (''broker_order_id'', JStr order),
              (''status'', JStr st), (''filled_quantity'', JStr (dec_str q))]) now d1 = (Inr h1, d2)"
      "append_passport H ''RECONCILED''
       (JObj [(''event_id'', JStr ev), (''permit_id'', JStr pid), (''result'', JStr (permit_state_value ps'))]) now d2 = (Inr h2, db')"
  have "permits db' = permits (set_permit_state pid ps' now db)"
    using fill pass by (auto simp: insert_Inr append_passport_Inr set_reservation_state_def)
  then have "permit_row pid db' = permit_row pid (set_permit_state pid ps' now db)" by (simp add: permit_row_def)
  then show ?thesis using set_permit_state_row [OF p, of ps' now] ts assms(2) by simp
qed

lemma reconcile_fill_returns:
  assumes run: "reconcile_fill H k ev pid fill now db = (Inr u, db')"
  shows "order_proof k now ev pid fill db"
    "order_status fill = ''FILLED'' \<and> dec_lt dec_zero (filled_quantity fill)
       \<and> exposure_state ev db' = Some CONSUMED \<and> map_option pm_state (permit_row pid db') = Some FILLED
     \<or> order_status fill = ''CANCELED'' \<and> dec_eq (filled_quantity fill) dec_zero
       \<and> exposure_state ev db' = Some RELEASED \<and> map_option pm_state (permit_row pid db') = Some CANCELLED"
proof -
  obtain rs where 1: "clock_ok (kn_truth k) now (kernel_max_age (kn_policy k))" "tr_orders (kn_truth k) = Inr rs"
    "list_all (\<lambda>x. fresh (order_observed_at x) now (kernel_max_age (kn_policy k))) rs" "list_ex (order_equal fill) rs"
    and rec: "reconcile_observed_order H ev pid (order_id fill) (order_status fill) (filled_quantity fill) (order_observed_at fill) now db = (Inr u, db')"
    using run by (auto simp: reconcile_fill_def Let_def outcome_simps read_Inr split: if_splits)
  obtain p where match: "permit_row pid db = Some p" "pm_state p = SUBMITTED" "submitted_order_matches pid ev (order_id fill) db"
    "reservation_in_state pid ev RESERVED db"
    by (rule reconcile_Inr [OF rec])
  have fin: "is_finite (filled_quantity fill)" using rec by (auto simp: reconcile_observed_order_def outcome_simps validator_defs)
  obtain sb where sb: "submission_for_permit pid db = Some sb" "sb_event_id sb = ev" "sb_broker_order_id sb = order_id fill"
    using match(3) by (auto simp: submitted_order_matches_def split: option.splits)
  have "exposure_state ev db = Some RESERVED"
    using reservation_in_state_desk [OF match(4)] by (simp add: desk_of_def exposure_state_def)
  moreover obtain x where "x \<in> set rs" "order_equal fill x" "fresh (order_observed_at x) now (kernel_max_age (kn_policy k))"
    using 1(3,4) by (auto simp: list_all_iff list_ex_iff)
  ultimately show "order_proof k now ev pid fill db" unfolding order_proof_def using 1(1,2) sb match(1,2) by auto
  obtain ps rst et where ts: "terminal_states pid (order_status fill) (filled_quantity fill) = Inr (ps, rst, et)"
    and desk: "desk_of db' = (fst (desk_of db), (snd (desk_of db))(ev \<mapsto> rst))"
    by (rule desk_reconcile_exact [OF rec])
  have "exposure_state ev db' = Some rst" using desk by (simp add: desk_of_def exposure_state_def fun_eq_iff)
  then show "order_status fill = ''FILLED'' \<and> dec_lt dec_zero (filled_quantity fill)
       \<and> exposure_state ev db' = Some CONSUMED \<and> map_option pm_state (permit_row pid db') = Some FILLED
     \<or> order_status fill = ''CANCELED'' \<and> dec_eq (filled_quantity fill) dec_zero
       \<and> exposure_state ev db' = Some RELEASED \<and> map_option pm_state (permit_row pid db') = Some CANCELLED"
    using ts reconciled_permit [OF rec ts] fin by (auto simp: terminal_states_def dec_order not_le split: if_splits)
qed

text \<open>A reconciliation that raises gives nothing back.\<close>

lemma outcome_Inl:
  "obind m f s = (Inl e, t) \<longleftrightarrow> m s = (Inl e, t) \<or> (\<exists>a u. m s = (Inr a, u) \<and> f a u = (Inl e, t))"
  "othen m n s = (Inl e, t) \<longleftrightarrow> m s = (Inl e, t) \<or> (\<exists>a u. m s = (Inr a, u) \<and> n u = (Inl e, t))"
  by (auto simp: othen_def obind_def split: prod.splits sum.splits)

lemma statement_Inl:
  "require gs s = (Inl e, t) \<Longrightarrow> t = s" "oraise x s = (Inl e, t) \<Longrightarrow> t = s" "query f s = (Inl e, t) \<Longrightarrow> t = s"
  by (auto simp: require_def query_def oraise_def split: option.splits)

lemma reconcile_raises:
  "reconcile_flat H k ev pid now db = (Inl e, db') \<Longrightarrow> same_entries db db'"
  "reconcile_fill H k ev pid fill now db = (Inl e, db') \<Longrightarrow> same_entries db db'"
proof -
  note quiet_trip = tripleD [OF quiet.trips TrueI] tripleD [OF quiet.truth_read(3) TrueI]
  have undone: "release_consumed_after_flat H ev pid now s = (Inl e, t) \<Longrightarrow> t = s"
    "reconcile_observed_order H ev pid o' st q ob now s = (Inl e, t) \<Longrightarrow> t = s" for s t e o' st q ob
    using kernel_rolls_back(6,7) unfolding rolls_back_def by blast+
  have fill: "reconcile_or_trip H ev pid fill now s = (Inl e, t) \<Longrightarrow> same_entries s t" for s t e
    by (auto simp: reconcile_or_trip_def quiet.stay split: prod.splits sum.splits if_splits dest!: undone(2) intro: quiet_trip(1))
  show "reconcile_flat H k ev pid now db = (Inl e, db') \<Longrightarrow> same_entries db db'"
    by (auto simp: reconcile_flat_def Let_def outcome_Inl outcome_simps quiet.stay split: option.splits if_splits
        dest!: statement_Inl undone(1) intro: quiet_trip)
  show "reconcile_fill H k ev pid fill now db = (Inl e, db') \<Longrightarrow> same_entries db db'"
    by (auto simp: reconcile_fill_def Let_def outcome_Inl outcome_simps quiet.stay split: if_splits
        dest!: statement_Inl intro: quiet_trip fill)
qed

lemma same_entries_state: "same_entries db db' \<Longrightarrow> exposure_state ev db' = exposure_state ev db"
  by (simp add: same_entries_def exposure_state_def reservation_for_event_def)

lemma desk_releases:
  "desk_path as d e \<Longrightarrow> snd d ev \<noteq> Some RELEASED \<Longrightarrow> snd e ev = Some RELEASED \<Longrightarrow> Settle ev \<in> set as \<or> Release ev \<in> set as"
proof (induction rule: desk_path.induct)
  case (more a d e as f)
  then show ?case by (cases "snd e ev = Some RELEASED") (auto elim!: desk_stepE split: if_splits)
qed simp

text \<open>
  C14. Exposure is given back only on proof. Whatever method of the kernel runs on a consistent ledger and
  however it ends, a reservation that was not RELEASED before and is RELEASED after was released in one of two ways: by a flat reconciliation
  of that event that returned and had a flat proof, or by the reconciliation of that event's own order, reported fresh by the
  broker as CANCELED with nothing filled. A fill reconciliation that returns had the order proof,
  and leaves the reservation CONSUMED and the permit FILLED for a FILLED order of positive quantity, RELEASED and CANCELLED for a
  CANCELED order with nothing filled, and accepts no other order. A flat reconciliation that returns leaves the reservation RELEASED.
\<close>

theorem released_on_proof:
  assumes inv: "ledger_inv H db" and run: "run_kernel H owner k now c db = (r, db')"
  shows "(exposure_state ev db \<noteq> Some RELEASED \<longrightarrow> exposure_state ev db' = Some RELEASED \<longrightarrow> r = Inr ()
       \<and> ((\<exists>pid. c = KFlat ev pid \<and> flat_proof k now ev pid db)
        \<or> (\<exists>pid fill. c = KFill ev pid fill \<and> order_proof k now ev pid fill db
             \<and> order_status fill = ''CANCELED'' \<and> dec_eq (filled_quantity fill) dec_zero)))
    \<and> (\<forall>pid. c = KFlat ev pid \<longrightarrow> r = Inr () \<longrightarrow> flat_proof k now ev pid db \<and> exposure_state ev db' = Some RELEASED)
    \<and> (\<forall>pid fill. c = KFill ev pid fill \<longrightarrow> r = Inr () \<longrightarrow> order_proof k now ev pid fill db
       \<and> (order_status fill = ''FILLED'' \<and> dec_lt dec_zero (filled_quantity fill)
            \<and> exposure_state ev db' = Some CONSUMED \<and> map_option pm_state (permit_row pid db') = Some FILLED
          \<or> order_status fill = ''CANCELED'' \<and> dec_eq (filled_quantity fill) dec_zero
            \<and> exposure_state ev db' = Some RELEASED \<and> map_option pm_state (permit_row pid db') = Some CANCELLED))"
proof -
  have flat: "flat_proof k now ev pid db \<and> exposure_state ev db' = Some RELEASED" if "c = KFlat ev pid" "r = Inr ()" for pid
    using reconcile_flat_returns run that by simp
  have fill: "order_proof k now ev pid fill db
       \<and> (order_status fill = ''FILLED'' \<and> dec_lt dec_zero (filled_quantity fill)
            \<and> exposure_state ev db' = Some CONSUMED \<and> map_option pm_state (permit_row pid db') = Some FILLED
          \<or> order_status fill = ''CANCELED'' \<and> dec_eq (filled_quantity fill) dec_zero
            \<and> exposure_state ev db' = Some RELEASED \<and> map_option pm_state (permit_row pid db') = Some CANCELLED)"
    if "c = KFill ev pid fill" "r = Inr ()" for pid fill
    using reconcile_fill_returns run that by simp
  have "r = Inr () \<and> ((\<exists>pid. c = KFlat ev pid) \<or> (\<exists>pid fill. c = KFill ev pid fill))"
    if change: "exposure_state ev db \<noteq> Some RELEASED" "exposure_state ev db' = Some RELEASED"
  proof -
    obtain as where "set as \<subseteq> kernel_actions k now c" "desk_path as (desk_of db) (desk_of db')"
      using tripleD [OF run_kernel_refines TrueI run] inv unfolding desk_refines_def by blast
    then have "Settle ev \<in> kernel_actions k now c \<or> Release ev \<in> kernel_actions k now c"
      using desk_releases [of as "desk_of db" "desk_of db'" ev] change by (auto simp: desk_of_def exposure_state_def)
    then have c: "(\<exists>pid. c = KFlat ev pid) \<or> (\<exists>pid fill. c = KFill ev pid fill)" by (cases c) (auto split: if_splits)
    moreover have "\<nexists>e. r = Inl e" using c run change reconcile_raises same_entries_state by fastforce
    ultimately show ?thesis by (cases r) auto
  qed
  then show ?thesis using flat fill by fastforce
qed

end
