(* ===== verification/Kernel_Witnesses.thy ===== *)
theory Kernel_Witnesses
  imports Kernel_Properties Ledger_Witnesses Opportunity
begin

text \<open>
  The kernel on a concrete day: it starts on an empty ledger with flat truth, freezes a
  candidate, authorizes it, and the same in version 2. The theorems about the kernel are
  applied to this run.
\<close>

definition a64 :: string where "a64 = replicate 64 (CHR ''a'')"

definition kernel_permit :: debit_vertical_permit where
  "kernel_permit = sample_permit\<lparr>policy_sha256 := a64\<rparr>"

definition kernel_block :: json where
  "kernel_block = JObj
     [(''underlying'', JStr ''SPY''), (''vertical_type'', JStr (vertical_type_value BULL_CALL)), (''quantity'', JInt 1),
      (''limit_price'', JStr (dec_str (Fin 125 (-2)))), (''maximum_loss'', JStr ''125.00''),
      (''long_leg'', JObj [(''symbol'', JStr ''SPY260116C00500000''), (''option_type'', JStr (option_type_value CALL)),
         (''strike'', JStr (dec_str (leg_strike (long_leg sample_permit))))]),
      (''short_leg'', JObj [(''symbol'', JStr ''SPY260116C00505000''), (''option_type'', JStr (option_type_value CALL)),
         (''strike'', JStr (dec_str (leg_strike (short_leg sample_permit))))])]"

definition kernel_compiled :: compiled_expression where
  "kernel_compiled = sample_compiled\<lparr>ce_policy_sha256 := a64, debit_vertical := Some kernel_block\<rparr>"

definition kernel_account :: account_snapshot where
  "kernel_account = \<lparr>equity = Fin 100000 0, buying_power = Fin 5000 0, currency = ''USD'', account_observed_at = utc_at 0,
     cash = Some (Fin 200 0)\<rparr>"

definition kernel_truth :: account_truth where
  "kernel_truth = \<lparr>tr_clock = Inr (utc_at 0), tr_account = Inr (Some kernel_account), tr_positions = Inr [], tr_orders = Inr []\<rparr>"

definition kernel_v1 :: risk_kernel where "kernel_v1 = \<lparr>kn_policy = PolicyV1 sample_policy, kn_truth = kernel_truth\<rparr>"
definition kernel_v2 :: risk_kernel where "kernel_v2 = \<lparr>kn_policy = PolicyV2 (sample_policy_v2 a64), kn_truth = kernel_truth\<rparr>"

definition kernel_morning :: "kernel_call list" where
  "kernel_morning = [(kernel_v1, utc_at 0, KStartup), (kernel_v1, utc_at 0, KFreeze ''ev-1'' ''cand-1'' kernel_compiled ''PAPER'')]"

definition kernel_ledger :: ledger where "kernel_ledger = run_calls const_hash a64 kernel_morning empty_ledger"

lemma const_hash_a64: "const_hash x = a64"
  by (simp add: const_hash_def a64_def)

lemma kernel_fields:
  "ce_event_id kernel_compiled = ''ev-1''" "ce_decision_sha256 kernel_compiled = a64" "ce_snapshot_sha256 kernel_compiled = replicate 64 (CHR ''b'')"
  "ce_policy_sha256 kernel_compiled = a64" "expression_kind kernel_compiled = DEBIT_VERTICAL" "debit_vertical kernel_compiled = Some kernel_block"
  "event_run_id kernel_permit = ''ev-1''" "decision_sha256 kernel_permit = a64" "snapshot_sha256 kernel_permit = replicate 64 (CHR ''b'')"
  "policy_sha256 kernel_permit = a64" "issued_at kernel_permit = utc_at 0" "expires_at kernel_permit = utc_at 60000000"
  "permit_id kernel_permit = sample_permit_id" "quantity kernel_permit = 1"
  by (simp_all add: kernel_compiled_def sample_compiled_def kernel_permit_def sample_permit_def a64_def sample_permit_id_def)

lemma parsed_loss: "dec_parse ''125.00'' = Some (Fin 12500 (-2))"
  by code_simp

lemma kernel_terms:
  "compiled_underlying kernel_compiled = Inr ''SPY''" "expression_exposure kernel_compiled = Inr (Fin 12500 (-2))"
  "permit_terms_match kernel_permit kernel_block" "is_object kernel_block" "compiled_quantity kernel_compiled = Inr 1"
  "dec_eq (maximum_loss kernel_permit) (Fin 12500 (-2))"
proof -
  show "compiled_underlying kernel_compiled = Inr ''SPY''"
    by (simp add: compiled_underlying_def kernel_fields kernel_block_def block_get_def guarded_def kernel_underlying_def
        kernel_identifier_def sample_facts)
  show "expression_exposure kernel_compiled = Inr (Fin 12500 (-2))"
    by (simp add: expression_exposure_def kernel_fields block_field_def decimal_field_def kernel_block_def parsed_loss dec_lt_def aligned_def)
  show "permit_terms_match kernel_permit kernel_block"
    by (simp add: permit_terms_match_def kernel_block_def block_get_def leg_field_def kernel_permit_def sample_permit_def sample_leg_def
        permit_underlying_def)
  show "is_object kernel_block" by (simp add: kernel_block_def)
  show "compiled_quantity kernel_compiled = Inr 1"
    by (simp add: compiled_quantity_def kernel_fields kernel_block_def guarded_def)
  show "dec_eq (maximum_loss kernel_permit) (Fin 12500 (-2))"
    by (simp add: kernel_permit_def sample_permit_def maximum_loss_def dfix_exact prec_def aligned_def)
qed

lemma kernel_permit_identity: "debit_vertical_permit_id const_hash kernel_permit = sample_permit_id"
  by (simp add: debit_vertical_permit_id_def paper_execution_permit_id_def const_hash_def sample_permit_id_def)

lemma kernel_permit_bound: "validate_permit_binding const_hash kernel_permit kernel_compiled a64 (utc_at 0) = Inr ()"
  by (simp add: validate_permit_binding_def guarded_def kernel_fields kernel_terms kernel_permit_identity)

lemma kernel_shas: "kernel_policy_sha256 const_hash x = a64" "compiled_expression_sha256 const_hash y = a64"
    "defined_risk_opportunity_sha256 const_hash z = a64" "risk_policy_v2_sha256 const_hash w = a64" "is_sha256 a64" "exact_text a64"
    "risk_policy_sha256 const_hash v = a64"
proof -
  show sha: "is_sha256 a64" unfolding a64_def by (rule sample_owner_digest)
  then show "exact_text a64" by simp
qed (simp_all add: kernel_policy_sha256_def risk_policy_sha256_def risk_policy_v2_sha256_def compiled_expression_sha256_def
    defined_risk_opportunity_sha256_def const_hash_a64 split: kernel_policy.splits)

lemma kernel_truth_is: "truth_is kernel_truth (utc_at 0) 30 kernel_account [] []"
  by (simp add: truth_is_def kernel_truth_def kernel_account_def clock_ok_def fresh_def seconds_def)

lemma kernel_read: "read_truth kernel_truth (utc_at 0) 30 = Inr (kernel_account, [], [])"
  using kernel_truth_is by (simp add: read_truth_Inr)

lemma kernel_ages: "kernel_max_age (PolicyV1 sample_policy) = 30" "kernel_max_age (PolicyV2 (sample_policy_v2 a64)) = 30"
    "kn_truth kernel_v1 = kernel_truth" "kn_truth kernel_v2 = kernel_truth" "kn_policy kernel_v1 = PolicyV1 sample_policy"
    "kn_policy kernel_v2 = PolicyV2 (sample_policy_v2 a64)" "truth_max_age_seconds sample_policy = 30"
    "v2_truth_max_age_seconds (sample_policy_v2 a64) = 30"
  by (simp_all add: kernel_v1_def kernel_v2_def kernel_max_age_def sample_policy_def sample_policy_v2_def)

lemma kernel_flat: "flat_truth kernel_v1 (utc_at 0)"
  by (simp add: flat_truth_def kernel_ages kernel_read)

lemma passport_texts: "exact_text ''CONTROL_STATE_CHANGED''" "exact_text ''compiled''"
  by code_simp+

lemma kernel_ledger_tables:
  "candidates kernel_ledger = [new_candidate ''ev-1'' ''cand-1'' a64 a64 a64 ''PAPER'' (utc_at 0)]"
  "not_run kernel_ledger = []" "reservations kernel_ledger = []" "permits kernel_ledger = []" "submissions kernel_ledger = []"
  "v2_reservations kernel_ledger = []" "account_snapshots kernel_ledger = []" "fst (get_control_state kernel_ledger) = ACTIVE"
  by (simp_all add: kernel_ledger_def run_calls_def kernel_morning_def startup_reconciliation_def kernel_read kernel_ages operation_defs
      require_now_def get_control_state_def empty_ledger_def apply_trigger_def next_control_state_def control_table_simps forget_def
      set_control_state_with_passport_def validator_defs put_control_state_def append_passport_def sample_facts passport_texts Let_def
      kernel_freeze_candidate_def kernel_identifier_def kernel_fields kernel_shas freeze_candidate_def validated_candidate_def
      candidate_guards_def lookup_defs insert_candidate_def)

lemma kernel_ledger_inv: "ledger_inv const_hash kernel_ledger"
  using run_calls_refines [of const_hash kernel_morning empty_ledger a64] empty_ledger_inv
  unfolding kernel_ledger_def desk_refines_def by blast

lemma kernel_bound: "validate_candidate_binding const_hash k ''ev-1'' ''SPY'' ''cand-1'' kernel_compiled kernel_ledger = (Inr a64, kernel_ledger)"
  by (simp add: validate_candidate_binding_def operation_defs kernel_identifier_def kernel_underlying_def sample_facts kernel_fields
      kernel_terms frozen_binding_guards_def not_run_reason_def lookup_defs kernel_ledger_tables new_candidate_def kernel_shas)

definition kernel_approval :: risk_approval where
  "kernel_approval = \<lparr>ra_event_id = ''ev-1'', ra_candidate_id = ''cand-1'', ra_reservation_id = ''rsv-ev-1'',
      ra_permit_id = sample_permit_id, ra_permit_sha256 = a64, ra_exposure = Fin 12500 (-2), ra_control_state = ACTIVE\<rparr>"

definition counted_ledger :: ledger where
  "counted_ledger = kernel_ledger\<lparr>account_snapshots := [\<lparr>ac_equity = dec_str (Fin 100000 0), ac_observed_at = isoformat_z (utc_at 0)\<rparr>]\<rparr>"

lemma kernel_limits:
  "portfolio_limits const_hash sample_policy kernel_account [] ''SPY'' (Fin 12500 (-2)) (utc_at 0) kernel_ledger = (Inr (), counted_ledger)"
proof -
  have parse: "dec_parse (dec_str (Fin 100000 0)) = Some (Fin 100000 0)" by (rule dec_parse_str) simp
  show ?thesis
    by (simp add: portfolio_limits_def operation_defs record_account_snapshot_def validator_defs kernel_account_def kernel_ledger_tables
        counted_ledger_def [symmetric] sample_facts)
      (simp add: counted_ledger_def intraday_peak_equity_def guarded_def validator_defs parse sample_policy_def dec_sub_def dec_lt_def
        aligned_def dfix_exact prec_def open_reservation_total_for_underlying_def kernel_ledger_tables sample_facts gross_market_value_def
        dec_sum_def oreturn_def obind_def del: dec_str.simps)
qed

lemma kernel_issued:
  "\<exists>db'. reserve_and_issue_permit const_hash ''ev-1'' ''SPY'' ''cand-1'' a64 a64 a64 (Fin 12500 (-2)) (Fin 2000 0) 3 3 kernel_permit
      (utc_at 0) counted_ledger = (Inr (''rsv-ev-1'', sample_permit_id, a64), db')"
  by (simp add: reserve_and_issue_permit_def operation_defs Let_def validator_defs sample_facts lookup_defs kernel_ledger_tables counted_ledger_def
      frozen_candidate_guards_def new_candidate_def entries_today_def open_reservation_count_def open_reservation_total_def aligned_def
      dec_lt_def insert_reservation_def insert_reservation_row_def new_reservation_def insert_permit_row_def new_permit_def
      const_hash_a64 dfix_exact prec_def append_passport_def kernel_shas kernel_fields kernel_permit_identity)

lemma kernel_authorized:
  "\<exists>db'. authorize_entry const_hash kernel_v1 ''ev-1'' ''SPY'' ''cand-1'' kernel_compiled kernel_permit (utc_at 0) kernel_ledger
     = (Inr kernel_approval, db')"
proof -
  obtain db' where issue: "reserve_and_issue_permit const_hash ''ev-1'' ''SPY'' ''cand-1'' a64 a64 a64 (Fin 12500 (-2)) (Fin 2000 0) 3 3 kernel_permit
      (utc_at 0) counted_ledger = (Inr (''rsv-ev-1'', sample_permit_id, a64), db')" using kernel_issued by blast
  have fields: "constants_verified sample_policy" "run_mode sample_policy = ''PAPER''" "aggregate_exposure_limit sample_policy = Fin 2000 0"
    "max_open_expressions sample_policy = 3" "max_entries_per_day sample_policy = 3"
    using sample_shas by (simp_all add: sample_policy_def constants_verified_def sha_def)
  have guards: "first_reject (exposure_guards sample_policy kernel_account ''ev-1'' (Fin 12500 (-2))) = None"
    by (simp add: exposure_guards_def sample_policy_def kernel_account_def dec_lt_def aligned_def)
  have gate: "first_reject [entry_gate ACTIVE] = None" by (simp add: entry_gate_def entry_allowed_def)
  show ?thesis
    unfolding authorize_entry_def kernel_ages
    by (intro exI [of _ db'])
      (simp add: othen_Inr obind_Inr require_Inr statement_Inr require_now_def kernel_ages fields kernel_ledger_tables gate kernel_bound
        kernel_permit_bound truth_or_trip_Inr kernel_read kernel_terms guards kernel_limits issue_v1_def kernel_fields kernel_identifier_def
        kernel_shas issue permit_sha256_def const_hash_a64 kernel_approval_def)
qed

theorem kernel_refines_desk_witness:
  "ledger_inv const_hash (snd (run_kernel const_hash a64 kernel_v1 (utc_at 0) KStartup empty_ledger))
   \<and> (\<exists>as. set as \<subseteq> {Resume} \<and> desk_path as (desk_of empty_ledger)
        (desk_of (snd (run_kernel const_hash a64 kernel_v1 (utc_at 0) KStartup empty_ledger))))"
  using kernel_refines_desk [OF empty_ledger_inv, of const_hash a64 kernel_v1 "utc_at 0" KStartup] kernel_flat
  by (metis kernel_actions.simps(1) prod.collapse)

theorem kernel_authority_witness:
  "fst (get_control_state (run_calls const_hash a64 kernel_morning empty_ledger)) = ACTIVE
   \<and> (\<exists>k now. (k, now, KStartup) \<in> set kernel_morning \<and> flat_truth k now)"
proof -
  have "fst (get_control_state empty_ledger) \<noteq> ACTIVE" by (simp add: get_control_state_def empty_ledger_def)
  then show ?thesis
    using kernel_authority [OF empty_ledger_inv, of const_hash a64 kernel_morning "''ev-1''"] kernel_ledger_tables(8)
    unfolding kernel_ledger_def Let_def by blast
qed

lemma kernel_account_ok: "account_snapshot_ok kernel_account"
  by (simp add: account_snapshot_ok_def account_snapshot_checks_def kernel_account_def require_decimal_def require_utc_def dec_lt_def aligned_def)

lemma kernel_answers: "tr_account kernel_truth = Inr (Some kernel_account)" "tr_positions kernel_truth = Inr []"
  by (simp_all add: kernel_truth_def)

theorem authorize_entry_sound_witness:
  "\<exists>db'. fst (authorize_entry const_hash kernel_v1 ''ev-1'' ''SPY'' ''cand-1'' kernel_compiled kernel_permit (utc_at 0) kernel_ledger)
        = Inr kernel_approval
     \<and> dval (ra_exposure kernel_approval) \<le> dval (per_event_loss_budget sample_policy)
     \<and> reservation_for_event ''ev-1'' db' \<noteq> None"
proof -
  obtain db' where run: "authorize_entry const_hash kernel_v1 ''ev-1'' ''SPY'' ''cand-1'' kernel_compiled kernel_permit (utc_at 0) kernel_ledger
     = (Inr kernel_approval, db')" using kernel_authorized by blast
  show ?thesis
    using authorize_entry_sound [OF run kernel_ages(5) sample_policy_ok, of kernel_account "[]"] run kernel_account_ok
    by (auto simp: kernel_ages kernel_answers simp del: dval.simps)
qed

section \<open>Version 2\<close>

definition kernel_opportunity :: defined_risk_opportunity where
  "kernel_opportunity = \<lparr>op_opportunity_id = ''opp-1'', op_decision_id = a64, op_expression_id = a64, op_underlying = ''SPY'',
      op_risk_tier = FIVE_PERCENT, op_max_debit = Fin 12500 (-2), op_decision_ready = True\<rparr>"

definition kernel_portfolio :: portfolio_state where
  "kernel_portfolio = \<lparr>pf_equity = Fin 100000 0, pf_cash = Fin 200 0, pf_open_debit = dec_zero, pf_exposures = []\<rparr>"

definition kernel_allocation :: allocation_decision where
  "kernel_allocation = allocated const_hash kernel_opportunity 1 (capacities_of kernel_portfolio kernel_opportunity [])"

lemma kernel_portfolio_is: "v2_portfolio kernel_account (Fin 200 0) [] [] a64 kernel_ledger = Inr (kernel_portfolio, [])"
  by (simp add: v2_portfolio_def guarded_def has_non_v2_open_reservations_def kernel_ledger_tables v2_open_reservation_rows_def
      v2_bindings_def no_exposure_def portfolio_of_def v2_order_guards_def kernel_account_def portfolio_state_checks_def uv_defs
      dec_lt_def aligned_def dec_sum_def kernel_portfolio_def List.map_filter_def)

lemma kernel_allocates: "allocate_defined_risk const_hash kernel_portfolio kernel_opportunity [] = Inr kernel_allocation"
  by (simp add: allocate_defined_risk_def validate_reservations_def Let_def capacities_of_def kernel_portfolio_def kernel_opportunity_def
      capacity_def dec_min_def dec_lt_def dec_sub_def aligned_def dfix_exact prec_def MAX_PER_UNDERLYING_FRACTION_def
      MAX_AGGREGATE_OPEN_DEBIT_FRACTION_def underlying_open_def allocation_reserved_def allocation_reserved_on_def dec_sum_def
      kernel_allocation_def)

lemma kernel_allocation_fields: "ad_status kernel_allocation = ALLOCATED" "ad_quantity kernel_allocation = 1"
    "ad_max_loss kernel_allocation = Fin 12500 (-2)" "ad_reservation_id kernel_allocation = Some a64"
  by (simp_all add: kernel_allocation_def allocated_def Let_def kernel_opportunity_def dec_of_int_def dfix_exact prec_def
      reservation_identity_def const_hash_a64)

lemma kernel_current:
  "current_allocation const_hash kernel_v2 (sample_policy_v2 a64) a64 kernel_opportunity (utc_at 0) kernel_ledger
     = (Inr (kernel_account, Fin 200 0, kernel_allocation), kernel_ledger)"
proof -
  have guards: "v2_account_guards kernel_account = Inr (kernel_account, Fin 200 0)"
    by (simp add: v2_account_guards_def guarded_def kernel_account_def dec_lt_def aligned_def)
  have freeze: "\<not> dec_le (equity kernel_account)
      (dec_mul (starting_equity (sample_policy_v2 a64)) (emergency_drawdown_freeze_fraction (sample_policy_v2 a64)))"
    by (simp add: kernel_account_def sample_policy_v2_def v2_constants dfix_exact prec_def aligned_def)
  show ?thesis
    unfolding current_allocation_def v2_fresh_truth_def
    by (simp add: kernel_ages kernel_read guards freeze obind_Inr truth_or_trip_Inr portfolio_or_trip_Inr kernel_portfolio_is
        kernel_allocates statement_Inr truth_result_def)
qed

definition kernel_request :: v2_authorization where
  "kernel_request = v2_request const_hash (sample_policy_v2 a64) a64 ''ev-1'' ''SPY'' ''cand-1'' kernel_opportunity kernel_compiled kernel_permit
     kernel_allocation a64 (equity kernel_account) (Fin 200 0) (utc_at 0)"

lemma kernel_request_fields:
  "va_event_id kernel_request = ''ev-1''" "va_candidate_id kernel_request = ''cand-1''" "va_underlying kernel_request = ''SPY''"
  "va_policy_sha256 kernel_request = a64" "va_decision_sha256 kernel_request = a64" "va_expression_sha256 kernel_request = a64"
  "va_opportunity_id kernel_request = ''opp-1''" "va_opportunity_sha256 kernel_request = a64" "va_allocation_reservation_id kernel_request = a64"
  "va_risk_tier kernel_request = Fin 5 (-2)" "va_quantity kernel_request = 1" "va_amount kernel_request = Fin 12500 (-2)"
  "va_account_equity kernel_request = Fin 100000 0" "va_account_cash kernel_request = Fin 200 0"
  "va_max_per_underlying_fraction kernel_request = Fin 20 (-2)" "va_max_aggregate_fraction kernel_request = Fin 50 (-2)"
  "va_permit kernel_request = kernel_permit" "va_now kernel_request = utc_at 0"
  by (simp_all add: kernel_request_def v2_request_def kernel_fields kernel_shas kernel_opportunity_def kernel_allocation_fields
      kernel_account_def sample_policy_v2_def v2_constants)

lemma kernel_request_arguments: "first_reject (v2_argument_guards const_hash kernel_request) = None"
proof -
  have "permit_underlying kernel_permit = ''SPY''" by (simp add: kernel_permit_def sample_permit_def sample_leg_def permit_underlying_def)
  then show ?thesis
    by (simp add: v2_argument_guards_def kernel_request_fields validator_defs sample_facts kernel_shas v2_risk_tier_def v2_tier_values_def
        dec_lt_def aligned_def kernel_fields kernel_permit_identity kernel_terms(6) del: dec_eq.simps)
qed

lemma kernel_reserved:
  "\<exists>db'. reserve_v2_and_issue_permit const_hash kernel_request kernel_ledger = (Inr (v2_new_receipt const_hash kernel_request), db')"
  by (simp add: reserve_v2_and_issue_permit_def operation_defs Let_def lookup_defs kernel_ledger_tables kernel_request_arguments
      frozen_candidate_guards_def v2_replay_def v2_reservation_for_event_def v2_reservation_for_opportunity_def v2_bindings_def
      new_candidate_def v2_capacity_guards_def no_totals_def v2_insert_all_def insert_reservation_row_def new_reservation_def
      insert_permit_row_def new_permit_def insert_v2_row_def v2_expected_row_def append_passport_def kernel_request_fields sample_facts dec_lt_def
      aligned_def dfix_exact prec_def v2_risk_tier_text_def require_identifier_def timestamp_def dec_sub_def List.map_filter_def)

definition kernel_approval_v2 :: v2_outcome where
  "kernel_approval_v2 = ApprovedV2 (approval_of_receipt (v2_new_receipt const_hash kernel_request) ''ev-1'' ''cand-1'' kernel_opportunity a64 ACTIVE)"

lemma kernel_settled:
  assumes "reserve_v2_and_issue_permit const_hash kernel_request kernel_ledger = (Inr (v2_new_receipt const_hash kernel_request), db')"
  shows "settle_v2 const_hash (sample_policy_v2 a64) a64 ''ev-1'' ''SPY'' ''cand-1'' kernel_opportunity kernel_compiled kernel_permit 1 (Fin 12500 (-2))
     ACTIVE (utc_at 0) kernel_account (Fin 200 0) kernel_allocation kernel_ledger = (Inr kernel_approval_v2, db')"
proof -
  have eqs: "dec_eq (Fin 12500 (-2)) (Fin 12500 (-2))" "dec_eq (Fin 5 (-2)) (Fin 5 (-2))" "dec_eq (Fin 100000 0) (Fin 100000 0)"
    "dec_eq (Fin 200 0) (Fin 200 0)" by simp_all
  have match: "receipt_matches const_hash (v2_new_receipt const_hash kernel_request) kernel_allocation kernel_opportunity kernel_permit
      (equity kernel_account) (Fin 200 0) a64"
    by (simp add: receipt_matches_def v2_new_receipt_def kernel_request_fields kernel_allocation_fields kernel_shas eqs kernel_fields
        permit_sha256_def const_hash_a64 del: dec_eq.simps) (simp add: kernel_opportunity_def kernel_account_def eqs del: dec_eq.simps)
  show ?thesis
    using assms eqs match unfolding settle_v2_def
    by (simp add: othen_Inr obind_Inr require_Inr statement_Inr kernel_allocation_fields kernel_request_def [symmetric] kernel_shas
        kernel_approval_v2_def del: dec_eq.simps)
qed

lemma kernel_guards_v2:
  "kernel_v2_policy a64 (PolicyV2 (sample_policy_v2 a64)) = Inr (sample_policy_v2 a64)"
  "first_reject (v2_policy_guards (sample_policy_v2 a64)) = None"
  "first_reject (entry_gate ACTIVE # v2_request_guards a64 kernel_opportunity kernel_compiled
      @ [kernel_identifier ''ev-1'' ''event_id'', kernel_identifier ''cand-1'' ''candidate_id'']) = None"
  "first_reject ([kernel_identifier (ce_event_id kernel_compiled) ''compiled.event_id'',
        (''ev-1'' \<noteq> ce_event_id kernel_compiled, lrej UNSUPPORTED_INPUT ''event_id'')]
      @ v2_identity_guards const_hash (sample_policy_v2 a64) kernel_opportunity kernel_compiled ''SPY'') = None"
  "first_reject (v2_terms_guards kernel_opportunity kernel_permit 1 (Fin 12500 (-2))) = None"
proof -
  show "kernel_v2_policy a64 (PolicyV2 (sample_policy_v2 a64)) = Inr (sample_policy_v2 a64)"
    "first_reject (v2_policy_guards (sample_policy_v2 a64)) = None"
    by (simp_all add: kernel_v2_policy_def guarded_def v2_constants_verified_def sample_policy_v2_def v2_policy_guards_def)
  show "first_reject (entry_gate ACTIVE # v2_request_guards a64 kernel_opportunity kernel_compiled
      @ [kernel_identifier ''ev-1'' ''event_id'', kernel_identifier ''cand-1'' ''candidate_id'']) = None"
    by (simp add: entry_gate_def entry_allowed_def v2_request_guards_def kernel_opportunity_def kernel_fields kernel_identifier_def sample_facts)
  show "first_reject ([kernel_identifier (ce_event_id kernel_compiled) ''compiled.event_id'',
        (''ev-1'' \<noteq> ce_event_id kernel_compiled, lrej UNSUPPORTED_INPUT ''event_id'')]
      @ v2_identity_guards const_hash (sample_policy_v2 a64) kernel_opportunity kernel_compiled ''SPY'') = None"
    by (simp add: v2_identity_guards_def kernel_opportunity_def kernel_fields kernel_shas kernel_identifier_def sample_facts
        sample_policy_v2_def v2_constants aligned_def)
  show "first_reject (v2_terms_guards kernel_opportunity kernel_permit 1 (Fin 12500 (-2))) = None"
    using kernel_terms(6) by (simp add: v2_terms_guards_def kernel_opportunity_def kernel_fields dec_of_int_def dfix_exact prec_def aligned_def)
qed

lemma kernel_authorized_v2:
  "\<exists>db'. authorize_entry_v2 const_hash a64 kernel_v2 ''ev-1'' ''cand-1'' kernel_opportunity kernel_compiled kernel_permit (utc_at 0) kernel_ledger
     = (Inr kernel_approval_v2, db')"
proof -
  obtain db' where run: "reserve_v2_and_issue_permit const_hash kernel_request kernel_ledger = (Inr (v2_new_receipt const_hash kernel_request), db')"
    using kernel_reserved by blast
  note pol = kernel_guards_v2(1,2) and gate = kernel_guards_v2(3) and ident = kernel_guards_v2(4) and terms = kernel_guards_v2(5)
  show ?thesis
    unfolding authorize_entry_v2_def Let_def kernel_ages kernel_shas
    by (intro exI [of _ db'])
      (simp add: othen_Inr obind_Inr require_Inr statement_Inr require_now_def pol kernel_ledger_tables gate [simplified] kernel_terms ident [simplified]
        kernel_bound kernel_permit_bound terms kernel_current kernel_settled [OF run])
qed

theorem authorize_entry_v2_sound_witness:
  "\<exists>db' a csh d. authorize_entry_v2 const_hash a64 kernel_v2 ''ev-1'' ''cand-1'' kernel_opportunity kernel_compiled kernel_permit (utc_at 0) kernel_ledger
       = (Inr kernel_approval_v2, db')
     \<and> v2_allocation_at const_hash kernel_v2 (sample_policy_v2 a64) kernel_opportunity (utc_at 0) kernel_ledger a csh d
     \<and> 50000 < dval (equity a)"
proof -
  obtain db' where run: "authorize_entry_v2 const_hash a64 kernel_v2 ''ev-1'' ''cand-1'' kernel_opportunity kernel_compiled kernel_permit (utc_at 0) kernel_ledger
     = (Inr kernel_approval_v2, db')" using kernel_authorized_v2 by blast
  show ?thesis
    using authorize_entry_v2_sound [OF run kernel_ages(6) sample_policy_v2_ok [OF kernel_shas(5)]] run by blast
qed

theorem preview_agrees_witness:
  "\<exists>v. preview_allocation_v2 const_hash a64 kernel_v2 kernel_opportunity kernel_compiled (utc_at 0) kernel_ledger = (Inr v, kernel_ledger)"
proof -
  obtain db' where run: "authorize_entry_v2 const_hash a64 kernel_v2 ''ev-1'' ''cand-1'' kernel_opportunity kernel_compiled kernel_permit (utc_at 0) kernel_ledger
     = (Inr kernel_approval_v2, db')" using kernel_authorized_v2 by blast
  have "length (const_hash x) = 64" for x by (simp add: const_hash_def)
  then show ?thesis
    using preview_agrees [OF _ _ run, of empty_ledger kernel_v2 kernel_opportunity kernel_compiled "utc_at 0"] by (auto simp: kernel_opportunity_def)
qed

definition stale_v1 :: risk_kernel where
  "stale_v1 = kernel_v1\<lparr>kn_truth := kernel_truth\<lparr>tr_account := Inr None\<rparr>\<rparr>"

definition stale_v2 :: risk_kernel where
  "stale_v2 = kernel_v2\<lparr>kn_truth := kernel_truth\<lparr>tr_account := Inr None\<rparr>\<rparr>"

lemma stale_kernels:
  "bad_truth stale_v1 (utc_at 0)" "bad_truth stale_v2 (utc_at 0)" "\<not> unread_value stale_v1 (utc_at 0) m"
  "identified_v1 const_hash stale_v1 ''ev-1'' ''SPY'' ''cand-1'' kernel_compiled kernel_permit (utc_at 0) kernel_ledger"
  "identified_v2 const_hash a64 stale_v2 ''ev-1'' ''cand-1'' kernel_opportunity kernel_compiled kernel_permit (utc_at 0) kernel_ledger"
proof -
  show "bad_truth stale_v1 (utc_at 0)" "bad_truth stale_v2 (utc_at 0)"
    by (simp_all add: bad_truth_def stale_v1_def stale_v2_def truth_is_def)
  have "read_truth (kn_truth stale_v1) (utc_at 0) (kernel_max_age (kn_policy stale_v1)) = Inl (TruthRejected (reject STALE_ACCOUNT_TRUTH ''account''))"
    by (simp add: read_truth_def read_clock_def read_account_def stale_v1_def kernel_truth_def guarded_def require_utc_def seconds_def
        validate_account_freshness_def truth_result_def kernel_ages)
  then show "\<not> unread_value stale_v1 (utc_at 0) m" by (simp add: unread_value_def)
  have "kn_policy stale_v1 = PolicyV1 sample_policy" "constants_verified sample_policy" "run_mode sample_policy = ''PAPER''"
    using sample_shas by (simp_all add: stale_v1_def kernel_ages sample_policy_def constants_verified_def sha_def)
  then show "identified_v1 const_hash stale_v1 ''ev-1'' ''SPY'' ''cand-1'' kernel_compiled kernel_permit (utc_at 0) kernel_ledger"
    unfolding identified_v1_def using kernel_bound kernel_permit_bound by blast
  have k: "kn_policy stale_v2 = PolicyV2 (sample_policy_v2 a64)" by (simp add: stale_v2_def kernel_ages)
  have "first_reject (v2_request_guards a64 kernel_opportunity kernel_compiled) = None"
    "first_reject (v2_identity_guards const_hash (sample_policy_v2 a64) kernel_opportunity kernel_compiled ''SPY'') = None"
    using kernel_guards_v2(3,4) by (auto simp: first_reject_None)
  then show "identified_v2 const_hash a64 stale_v2 ''ev-1'' ''cand-1'' kernel_opportunity kernel_compiled kernel_permit (utc_at 0) kernel_ledger"
    unfolding identified_v2_def k kernel_shas
    using kernel_guards_v2(1,2,5) kernel_terms(1,2,5) kernel_bound kernel_permit_bound by blast
qed


definition filled_ledger :: ledger where
  "filled_ledger = empty_ledger\<lparr>
     candidates := [new_candidate ''ev-1'' ''cand-1'' a64 a64 a64 ''PAPER'' (utc_at 0)],
     reservations := [(new_reservation ''rsv-ev-1'' ''ev-1'' ''125.00'' ''SPY'' (utc_at 0))\<lparr>rs_state := CONSUMED\<rparr>],
     permits := [(new_permit sample_permit_id ''ev-1'' ''rsv-ev-1'' a64 (utc_at 0))\<lparr>pm_state := FILLED\<rparr>],
     submissions := [\<lparr>sb_permit_id = sample_permit_id, sb_event_id = ''ev-1'', sb_broker_order_id = ''order-1'',
                      sb_submitted_at = isoformat_z (utc_at 0)\<rparr>]\<rparr>"

lemma filled_ledger_inv: "ledger_inv const_hash filled_ledger"
  using empty_ledger_inv [of const_hash]
  by (simp add: ledger_inv_def table_invs filled_ledger_def empty_ledger_def new_candidate_def new_reservation_def new_permit_def)

lemma filled_tables:
  "reservation_for_event ''ev-1'' filled_ledger = Some ((new_reservation ''rsv-ev-1'' ''ev-1'' ''125.00'' ''SPY'' (utc_at 0))\<lparr>rs_state := CONSUMED\<rparr>)"
  "permit_row sample_permit_id filled_ledger = Some ((new_permit sample_permit_id ''ev-1'' ''rsv-ev-1'' a64 (utc_at 0))\<lparr>pm_state := FILLED\<rparr>)"
  by (simp_all add: lookup_defs filled_ledger_def empty_ledger_def new_reservation_def new_permit_def)

lemma kernel_flat_run: "fst (reconcile_flat const_hash kernel_v1 ''ev-1'' sample_permit_id (utc_at 0) filled_ledger) = Inr ()"
proof -
  have texts: "exact_text ''RECONCILED''" by code_simp
  have truth: "clock_ok kernel_truth (utc_at 0) 30" by (simp add: clock_ok_def kernel_truth_def seconds_def)
  have reads: "read_clock kernel_truth (utc_at 0) 30 = Inr ()" "read_positions kernel_truth (utc_at 0) 30 = Inr []"
      "read_orders kernel_truth (utc_at 0) 30 = Inr []"
    using truth by (simp_all add: read_Inr kernel_truth_def)
  show ?thesis
    by (simp add: reconcile_flat_def Let_def operation_defs require_now_def filled_tables new_reservation_def kernel_underlying_def
        kernel_identifier_def sample_facts kernel_ages reads truth_or_trip_reconcile_def release_consumed_after_flat_def validator_defs
        owns_event_def reservation_in_state_def new_permit_def append_passport_def texts)
qed

theorem released_on_proof_witness:
  "flat_proof kernel_v1 (utc_at 0) ''ev-1'' sample_permit_id filled_ledger
   \<and> exposure_state ''ev-1'' filled_ledger = Some CONSUMED
   \<and> exposure_state ''ev-1'' (snd (reconcile_flat const_hash kernel_v1 ''ev-1'' sample_permit_id (utc_at 0) filled_ledger)) = Some RELEASED"
proof -
  obtain db' where run: "reconcile_flat const_hash kernel_v1 ''ev-1'' sample_permit_id (utc_at 0) filled_ledger = (Inr (), db')"
    using kernel_flat_run by (metis prod.collapse)
  have "exposure_state ''ev-1'' filled_ledger = Some CONSUMED" by (simp add: exposure_state_def filled_tables)
  then show ?thesis
    using released_on_proof [OF filled_ledger_inv, of a64 kernel_v1 "utc_at 0" "KFlat ''ev-1'' sample_permit_id" "Inr ()" db' "''ev-1''"] run
    by auto
qed

end
