(* ===== verification/Lifecycle_Identity.thy ===== *)
theory Lifecycle_Identity
  imports Ledger Lifecycle_States
begin

text \<open>
  \<open>lifecycle/correlation.py\<close> and \<open>lifecycle/clocks.py\<close>: the identity that links every artifact of
  one lifecycle run, and the frozen exit-plan clocks of its event. The strict reader of
  exit-plan bytes (\<open>parse_lifecycle_clocks\<close>) is not modelled.
\<close>

section \<open>Correlation\<close>

record correlation_identity =
  co_event_run_id :: string
  co_snapshot_sha256 :: string
  co_decision_sha256 :: string
  co_expression_sha256 :: string
  co_reservation_id :: string
  co_open_permit_id :: string
  co_close_permit_id :: "string option"

definition correlation_checks :: "correlation_identity \<Rightarrow> value_error option" where
  "correlation_checks c = first_reject
     [(strip (co_event_run_id c) = [], ''event_run_id must be non-empty text''),
      (length (co_snapshot_sha256 c) \<noteq> 64, ''snapshot_sha256''),
      (length (co_decision_sha256 c) \<noteq> 64, ''decision_sha256''),
      (length (co_expression_sha256 c) \<noteq> 64, ''expression_sha256''),
      (strip (co_reservation_id c) = [] \<or> strip (co_open_permit_id c) = [], ''reservation_id and open_permit_id must be non-empty''),
      ((case co_close_permit_id c of None \<Rightarrow> False | Some pid \<Rightarrow> strip pid = []), ''close_permit_id must be non-empty when present'')]"

text \<open>A new value of the dataclass: its checks run again.\<close>

definition with_close_permit :: "string \<Rightarrow> correlation_identity \<Rightarrow> value_error + correlation_identity" where
  "with_close_permit pid c =
     (let d = c\<lparr>co_close_permit_id := Some pid\<rparr>
      in case correlation_checks d of Some e \<Rightarrow> Inl e | None \<Rightarrow> Inr d)"

definition correlation_payload :: "correlation_identity \<Rightarrow> json" where
  "correlation_payload c = JObj
     [(''schema_version'', JInt 1), (''event_run_id'', JStr (co_event_run_id c)),
      (''snapshot_sha256'', JStr (co_snapshot_sha256 c)), (''decision_sha256'', JStr (co_decision_sha256 c)),
      (''expression_sha256'', JStr (co_expression_sha256 c)), (''reservation_id'', JStr (co_reservation_id c)),
      (''open_permit_id'', JStr (co_open_permit_id c)),
      (''close_permit_id'', (case co_close_permit_id c of None \<Rightarrow> JNull | Some pid \<Rightarrow> JStr pid))]"

definition correlation_sha256 :: "hash_function \<Rightarrow> correlation_identity \<Rightarrow> string" where
  "correlation_sha256 H c = H (canonical_json_bytes (correlation_payload c))"

lemma with_close_permit_Inr: "with_close_permit pid c = Inr d \<Longrightarrow> d = c\<lparr>co_close_permit_id := Some pid\<rparr>"
  by (simp add: with_close_permit_def Let_def split: option.splits)

section \<open>Exit-plan clocks\<close>

record lifecycle_clocks =
  lk_event_run_id :: string
  lk_cohort_id :: string
  lk_policy_sha256 :: string
  lk_source_sha256 :: string
  lk_observation_window_start_at :: datetime
  lk_observation_window_end_at :: datetime
  lk_entry_deadline_at :: datetime
  lk_time_exit_at :: datetime
  lk_flattening_deadline_at :: datetime

definition KNOWN_COHORTS :: "string list" where
  "KNOWN_COHORTS = [''BMO'', ''AMC'', ''BLS_JOLTS'', ''BLS_EMPLOYMENT_SITUATION'']"

text \<open>Ordering a naive against an aware datetime is a \<open>TypeError\<close>.\<close>

datatype clock_error = ClockValueError value_error | ClockTypeError

definition ordered_clocks :: "lifecycle_clocks \<Rightarrow> datetime list" where
  "ordered_clocks k = [lk_observation_window_start_at k, lk_observation_window_end_at k, lk_entry_deadline_at k,
     lk_time_exit_at k, lk_flattening_deadline_at k]"

fun pairwise_ordered :: "datetime list \<Rightarrow> (bool \<times> clock_error) list" where
  "pairwise_ordered (a # b # ts) =
     [(aware a \<noteq> aware b, ClockTypeError),
      (instant b \<le> instant a, ClockValueError ''lifecycle clocks must be strictly ordered'')]
     @ pairwise_ordered (b # ts)"
| "pairwise_ordered _ = []"

definition lifecycle_clocks_checks :: "lifecycle_clocks \<Rightarrow> clock_error option" where
  "lifecycle_clocks_checks k = first_reject
     ([(strip (lk_event_run_id k) = [], ClockValueError ''event_run_id must be non-empty text''),
       (lk_cohort_id k \<notin> set KNOWN_COHORTS, ClockValueError ''cohort_id is not a registered cohort''),
       (length (lk_policy_sha256 k) \<noteq> 64, ClockValueError ''policy_sha256 must be a SHA-256 digest''),
       (length (lk_source_sha256 k) \<noteq> 64, ClockValueError ''source_sha256 must be a SHA-256 digest'')]
      @ pairwise_ordered (ordered_clocks k))"

definition source_verified :: "lifecycle_clocks \<Rightarrow> bool" where
  "source_verified k = (is_sha256 (lk_source_sha256 k) \<and> lk_source_sha256 k \<noteq> replicate 64 (CHR ''0''))"

definition clock_timestamp_text :: "datetime \<Rightarrow> lifecycle_rejected + string" where
  "clock_timestamp_text t = guarded [(\<not> equals_utc t, lreject LC_UNSUPPORTED_INPUT ''clock'')] (Inr (isoformat_z t))"

definition lifecycle_clocks_payload :: "lifecycle_clocks \<Rightarrow> lifecycle_rejected + json" where
  "lifecycle_clocks_payload k =
     rbind (rmap_list clock_timestamp_text (ordered_clocks k)) (\<lambda>ts.
       Inr (JObj ([(''schema'', JStr ''esscher.lifecycle_exit_plan''), (''schema_version'', JInt 1),
         (''event_run_id'', JStr (lk_event_run_id k)), (''cohort_id'', JStr (lk_cohort_id k)),
         (''policy_sha256'', JStr (lk_policy_sha256 k)), (''source_sha256'', JStr (lk_source_sha256 k))]
         @ zip [''observation_window_start_at'', ''observation_window_end_at'', ''entry_deadline_at'',
                ''time_exit_at'', ''flattening_deadline_at''] (map JStr ts))))"

definition lifecycle_clocks_bytes :: "lifecycle_clocks \<Rightarrow> lifecycle_rejected + string" where
  "lifecycle_clocks_bytes k = rbind (lifecycle_clocks_payload k) (\<lambda>v. Inr (canonical_json_bytes v))"

definition lifecycle_clocks_sha256 :: "hash_function \<Rightarrow> lifecycle_clocks \<Rightarrow> lifecycle_rejected + string" where
  "lifecycle_clocks_sha256 H k = rbind (lifecycle_clocks_bytes k) (\<lambda>b. Inr (H b))"

text \<open>Clocks that exist leave a window between the entry deadline and the flattening deadline.\<close>

lemma clocks_ordered:
  "lifecycle_clocks_checks k = None \<Longrightarrow>
     instant (lk_entry_deadline_at k) < instant (lk_time_exit_at k)
     \<and> instant (lk_time_exit_at k) < instant (lk_flattening_deadline_at k)"
  by (simp add: lifecycle_clocks_checks_def ordered_clocks_def)

end
