(* ===== verification/Decimal_Normal.thy ===== *)
theory Decimal_Normal
  imports Decimal_Rounding Plain_Decimal
begin

text \<open>
  The text \<open>format(d.normalize(), "f")\<close> that permits and order requests carry: reading it back
  gives a decimal of the same normalized value, which prints the same text again. So a
  request restored from its stored text hashes to the hash stored with it.
\<close>

lemma strip_all_zeros_normal:
  "m \<noteq> 0 \<Longrightarrow> \<bar>m\<bar> < 10 ^ f \<Longrightarrow> strip_all_zeros f m e = (m', e') \<Longrightarrow>
     m' mod 10 \<noteq> 0 \<and> of_int m' * (10 :: rat) powi e' = of_int m * 10 powi e"
proof (induction f arbitrary: m e)
  case (Suc f)
  show ?case
  proof (cases "m mod 10 = 0")
    case True
    then obtain k where k: "m = 10 * k" by (auto simp: mod_eq_0_iff_dvd elim: dvdE)
    have "strip_all_zeros f (m div 10) (e + 1) = (m', e')" using Suc.prems(3) True by simp
    then have strip: "strip_all_zeros f k (e + 1) = (m', e')" by (simp add: k)
    have "k \<noteq> 0" using Suc.prems(1) k by simp
    moreover have "\<bar>k\<bar> < 10 ^ f" using Suc.prems(2) k by (simp add: abs_mult)
    ultimately have "m' mod 10 \<noteq> 0 \<and> of_int m' * (10 :: rat) powi e' = of_int k * 10 powi (e + 1)"
      by (rule Suc.IH) (rule strip)
    moreover have "(10 :: rat) powi (e + 1) = 10 powi e * 10" by (simp add: power_int_add)
    ultimately show ?thesis by (simp add: k mult.assoc)
  next
    case False
    then show ?thesis using Suc.prems(3) by auto
  qed
qed simp

lemma normal_unique_le:
  assumes "of_int m * (10 :: rat) powi e = of_int m' * 10 powi e'" "m mod 10 \<noteq> 0" "e \<le> e'"
  shows "e = e'"
proof (rule ccontr)
  assume "e \<noteq> e'"
  then obtain k where k: "e' = e + int (Suc k)" using assms(3) by (metis zless_iff_Suc_zadd le_less)
  have "(10 :: rat) powi e' = 10 powi e * 10 ^ Suc k"
    using power_int_add [of "10 :: rat" e "int (Suc k)"] unfolding k power_int_of_nat by simp
  then have "of_int m * (10 :: rat) powi e = of_int (m' * 10 ^ Suc k) * 10 powi e"
    using assms(1) by (simp add: mult.commute mult.left_commute)
  then have "(of_int m :: rat) = of_int (m' * 10 ^ Suc k)" by simp
  then have "m = m' * 10 ^ Suc k" by (simp only: of_int_eq_iff)
  then show False using assms(2) by simp
qed

lemma normal_unique:
  assumes "of_int m * (10 :: rat) powi e = of_int m' * 10 powi e'" "m mod 10 \<noteq> 0" "m' mod 10 \<noteq> 0"
  shows "m = m' \<and> e = e'"
proof -
  have "e = e'" using normal_unique_le [of m e m' e'] normal_unique_le [of m' e' m e] assms by linarith
  then show ?thesis using assms(1) by simp
qed

definition normal_form :: "dec \<Rightarrow> bool" where
  "normal_form d = (case d of Fin m e \<Rightarrow> m = 0 \<and> e = 0 \<or> m mod 10 \<noteq> 0 | _ \<Rightarrow> False)"

lemma normal_form_unique: "normal_form x \<Longrightarrow> normal_form y \<Longrightarrow> dval x = dval y \<Longrightarrow> x = y"
proof -
  assume n: "normal_form x" "normal_form y" and v: "dval x = dval y"
  obtain m e m' e' where xy: "x = Fin m e" "y = Fin m' e'" using n by (auto simp: normal_form_def split: dec.splits)
  have zero: "m = 0 \<longleftrightarrow> m' = 0" using v xy by (metis dval.simps(1) mult_eq_0_iff of_int_eq_0_iff power_int_eq_0_iff zero_neq_numeral)
  show "x = y"
  proof (cases "m = 0")
    case True
    then show ?thesis using n zero xy by (simp add: normal_form_def)
  next
    case False
    then show ?thesis using n zero xy v normal_unique [of m e m' e'] by (simp add: normal_form_def)
  qed
qed

lemma normalize_normal:
  assumes "is_finite d"
  shows "normal_form (dec_normalize d)" "\<exists>m e. d = Fin m e \<and> dval (dec_normalize d) = dval (dfix m e)"
proof -
  obtain m e where d: "d = Fin m e" using assms by (cases d) auto
  obtain m' e' where f: "dfix m e = Fin m' e'" using dfix_finite [of m e] by (cases "dfix m e") auto
  have "normal_form (dec_normalize d) \<and> dval (dec_normalize d) = dval (dfix m e)"
  proof (cases "m' = 0")
    case False
    obtain a b where ab: "strip_all_zeros (ndigits (nat \<bar>m'\<bar>)) m' e' = (a, b)" by (cases "strip_all_zeros (ndigits (nat \<bar>m'\<bar>)) m' e'")
    obtain k where k: "ndigits (nat \<bar>m'\<bar>) = Suc k" using ndigits_pos [of "nat \<bar>m'\<bar>"] gr0_implies_Suc by blast
    then have "nat \<bar>m'\<bar> < 10 ^ Suc k" using ndigits_le_iff [of "nat \<bar>m'\<bar>" k] by simp
    then have "\<bar>m'\<bar> < 10 ^ ndigits (nat \<bar>m'\<bar>)" using k by (simp add: nat_less_iff)
    then show ?thesis using strip_all_zeros_normal [OF False _ ab] False by (simp add: d f ab normal_form_def)
  qed (simp add: d f normal_form_def)
  then show "normal_form (dec_normalize d)" "\<exists>m e. d = Fin m e \<and> dval (dec_normalize d) = dval (dfix m e)"
    using d by blast+
qed

lemma normalize_representable: "is_finite d \<Longrightarrow> representable (dval (dec_normalize d))"
  using normalize_normal(2) dfix_result by fastforce

lemma normalize_value:
  assumes "is_finite d" "representable (dval d)"
  shows "dval (dec_normalize d) = dval d"
proof -
  obtain m e where d: "d = Fin m e" "dval (dec_normalize d) = dval (dfix m e)" using normalize_normal(2) [OF assms(1)] by blast
  obtain a j where aj: "dval d = of_int a * 10 powi j" "\<bar>a\<bar> < 10 ^ prec" using assms(2) by (auto simp: representable_def)
  show ?thesis using dfix_representable [of m e a j] aj d by simp
qed

lemma normalize_same:
  assumes "is_finite x" "is_finite y" "dval y = dval (dec_normalize x)"
  shows "dec_normalize y = dec_normalize x"
proof -
  have "dval (dec_normalize y) = dval (dec_normalize x)"
    using normalize_value [of y] normalize_representable [of x] assms by simp
  then show ?thesis using normal_form_unique normalize_normal(1) assms by blast
qed

lemma normal_finite: "normal_form d \<Longrightarrow> is_finite d"
  by (cases d) (simp_all add: normal_form_def)

lemma format_f_negative: "m < 0 \<Longrightarrow> dec_format_f (Fin m e) = CHR ''-'' # dec_format_f (Fin (- m) e)"
  by (simp add: Let_def)

lemma format_f_reads:
  assumes "normal_form d"
  obtains d' where "dec_parse (dec_format_f d) = Some d'" "is_finite d'" "dval d' = dval d"
    "exact_text (dec_format_f d)"
proof -
  obtain m e where d: "d = Fin m e" using assms by (auto simp: normal_form_def split: dec.splits)
  have exact: "exact_text (printed neg ip fp 0)" if "list_all is_digit ip" "list_all is_digit fp" "ip \<noteq> []" for neg ip fp
  proof -
    have "printed neg ip fp 0 \<noteq> []" using that(3) by (simp add: printed_def)
    moreover have "list_all (\<lambda>c. \<not> is_space c) (printed neg ip fp 0)"
      using printed_number [OF that(1,2), of neg 0] number_char_plain by (auto simp: list_all_iff)
    ultimately show ?thesis by (simp add: exact_text_def strip_no_space)
  qed
  obtain ip fp where t: "dec_format_f d = printed (m < 0) ip fp 0" "list_all is_digit ip" "list_all is_digit fp" "ip \<noteq> []"
    "(if m < 0 then - 1 else 1) * plain_value ip fp = dval d"
  proof (cases "m = 0")
    case True
    then have "e = 0" using assms d by (simp add: normal_form_def)
    moreover have "digs 0 = ''0''" by code_simp
    ultimately have "dec_format_f d = printed (m < 0) ''0'' [] 0"
      using True by (simp add: d printed_def exponent_text_def Let_def)
    then show thesis using that [of "''0''" "[]"] True by (simp add: d plain_value_def nat_of_digs_def digit_val_def)
  next
    case False
    then have "0 < \<bar>m\<bar>" by simp
    then obtain ip fp where f: "dec_format_f (Fin \<bar>m\<bar> e) = printed False ip fp 0" "list_all is_digit ip" "list_all is_digit fp"
      "ip \<noteq> []" "plain_value ip fp = of_int \<bar>m\<bar> * 10 powi e" by (rule format_f_shape)
    have "dec_format_f d = printed (m < 0) ip fp 0"
      using f(1) format_f_negative [of m e] by (cases "m < 0") (simp_all add: d printed_def del: dec_format_f.simps)
    then show thesis using that [of ip fp] f by (simp add: d)
  qed
  let ?d = "Fin (if m < 0 then - int (nat_of_digs (ip @ fp)) else int (nat_of_digs (ip @ fp))) (0 - int (length fp))"
  have "dec_parse (dec_format_f d) = Some ?d" unfolding t(1) by (rule dec_parse_printed [OF t(2,3,4)])
  moreover have "dval ?d = dval d" using t(5) by (auto simp: plain_value_def)
  ultimately show thesis using that [of ?d] exact [OF t(2,3,4)] t(1) by simp
qed

lemma decimal_text_reads:
  assumes "is_finite d"
  obtains d' where "dec_parse (decimal_text d) = Some d'" "is_finite d'" "dec_normalize d' = dec_normalize d"
    "decimal_text d' = decimal_text d" "exact_text (decimal_text d)"
proof -
  obtain d' where d': "dec_parse (dec_format_f (dec_normalize d)) = Some d'" "is_finite d'" "dval d' = dval (dec_normalize d)"
    "exact_text (dec_format_f (dec_normalize d))" using format_f_reads [OF normalize_normal(1) [OF assms]] .
  moreover have "dec_normalize d' = dec_normalize d" using normalize_same [OF assms d'(2,3)] .
  ultimately show thesis using that [of d'] by (simp add: decimal_text_def)
qed

end
