(* ===== verification/Broker.thy ===== *)
theory Broker
  imports Lifecycle_Identity Policy Decimal_Normal
begin

text \<open>
  \<open>lifecycle/broker.py\<close>: the PAPER-only broker boundary. The order request that is persisted
  before a mutation, its canonical payload and the reader that restores it; the readbacks;
  the protocol \<open>PaperBroker\<close> as a record of operations on the state of some broker; and
  \<open>FakePaperBroker\<close>, the deterministic in-memory broker. Fields that the sources type as text,
  integers or decimals have those types here, so their \<open>isinstance\<close> tests hold.
\<close>

section \<open>Requests\<close>

record broker_option_leg =
  bl_symbol :: string
  bl_quantity :: int
  bl_side :: string
  bl_position_intent :: string

record broker_order_request =
  rq_client_order_id :: string
  rq_phase :: intent_phase
  rq_permit_id :: string
  rq_open_permit_id :: string
  rq_event_run_id :: string
  rq_reservation_id :: string
  rq_correlation_sha256 :: string
  rq_policy_sha256 :: string
  rq_snapshot_sha256 :: string
  rq_account_id :: string
  rq_account_class :: string
  rq_order_class :: string
  rq_limit_price :: dec
  rq_legs :: "broker_option_leg list"

definition PAPER_ACCOUNT_CLASS :: string where "PAPER_ACCOUNT_CLASS = ''PAPER''"
definition MULTI_LEG_ORDER_CLASS :: string where "MULTI_LEG_ORDER_CLASS = ''MULTI_LEG''"
definition ORDER_REQUEST_SCHEMA :: string where "ORDER_REQUEST_SCHEMA = ''ringdown.lifecycle_order_request''"

definition request_leg_payload :: "broker_option_leg \<Rightarrow> json" where
  "request_leg_payload l = JObj
     [(''symbol'', JStr (bl_symbol l)), (''quantity'', JInt (bl_quantity l)), (''side'', JStr (bl_side l)),
      (''position_intent'', JStr (bl_position_intent l))]"

definition broker_order_request_members :: "broker_order_request \<Rightarrow> int \<Rightarrow> (string \<times> json) list" where
  "broker_order_request_members r expected_quantity =
     [(''schema'', JStr ORDER_REQUEST_SCHEMA), (''schema_version'', JInt 1),
      (''client_order_id'', JStr (rq_client_order_id r)), (''phase'', JStr (phase_value (rq_phase r))),
      (''permit_id'', JStr (rq_permit_id r)), (''open_permit_id'', JStr (rq_open_permit_id r)),
      (''event_run_id'', JStr (rq_event_run_id r)), (''reservation_id'', JStr (rq_reservation_id r)),
      (''correlation_sha256'', JStr (rq_correlation_sha256 r)), (''policy_sha256'', JStr (rq_policy_sha256 r)),
      (''snapshot_sha256'', JStr (rq_snapshot_sha256 r)), (''account_id'', JStr (rq_account_id r)),
      (''account_class'', JStr (rq_account_class r)), (''order_class'', JStr (rq_order_class r)),
      (''expected_quantity'', JInt expected_quantity), (''limit_price'', JStr (decimal_text (rq_limit_price r))),
      (''legs'', JList (map request_leg_payload (rq_legs r)))]"

definition broker_order_request_payload :: "broker_order_request \<Rightarrow> int \<Rightarrow> json" where
  "broker_order_request_payload r expected_quantity = JObj (broker_order_request_members r expected_quantity)"

definition broker_order_request_sha256 :: "hash_function \<Rightarrow> broker_order_request \<Rightarrow> int \<Rightarrow> string" where
  "broker_order_request_sha256 H r expected_quantity =
     H (canonical_json_bytes (broker_order_request_payload r expected_quantity))"

section \<open>Restoring a request\<close>

definition exact_field :: "json \<Rightarrow> string \<Rightarrow> value_error + string" where
  "exact_field v name =
     (case json_get v name of
        Some (JStr s) \<Rightarrow> guarded [(\<not> exact_text s, name @ '' must be non-empty exact text'')] (Inr s)
      | _ \<Rightarrow> Inl (name @ '' must be non-empty exact text''))"

definition positive_field :: "json \<Rightarrow> string \<Rightarrow> value_error \<Rightarrow> value_error + int" where
  "positive_field v name complaint =
     (case json_get v name of
        Some (JInt n) \<Rightarrow> guarded [(n \<le> 0, complaint)] (Inr n)
      | _ \<Rightarrow> Inl complaint)"

definition parse_request_leg :: "json \<Rightarrow> value_error + broker_option_leg" where
  "parse_request_leg v =
     (if \<not> is_object v then Inl ''leg must be an object''
      else rbind (positive_field v ''quantity'' ''leg quantity must be a positive integer'') (\<lambda>q.
           rbind (exact_field v ''symbol'') (\<lambda>symbol.
           rbind (exact_field v ''side'') (\<lambda>side.
           rbind (exact_field v ''position_intent'') (\<lambda>pi.
             Inr \<lparr>bl_symbol = symbol, bl_quantity = q, bl_side = side, bl_position_intent = pi\<rparr>)))))"

definition parse_phase :: "json \<Rightarrow> value_error + intent_phase" where
  "parse_phase v =
     rbind (exact_field v ''phase'') (\<lambda>s.
       if s = ''OPEN'' then Inr OPEN else if s = ''CLOSE'' then Inr CLOSE else Inl ''phase must be OPEN or CLOSE'')"

definition parse_limit_price :: "json \<Rightarrow> value_error + dec" where
  "parse_limit_price v =
     (case exact_field v ''limit_price'' of
        Inl e \<Rightarrow> Inl ''limit_price must be a finite Decimal string''
      | Inr s \<Rightarrow>
          (case dec_parse s of
             None \<Rightarrow> Inl ''limit_price must be a finite Decimal string''
           | Some d \<Rightarrow> guarded [(\<not> is_finite d, ''limit_price must be finite'')] (Inr d)))"

definition parse_legs :: "json \<Rightarrow> value_error + broker_option_leg list" where
  "parse_legs v =
     (case json_get v ''legs'' of
        Some (JList (l # ls)) \<Rightarrow> rmap_list parse_request_leg (l # ls)
      | _ \<Rightarrow> Inl ''legs must be a non-empty list'')"

definition parse_broker_order_request_payload :: "json \<Rightarrow> value_error + broker_order_request \<times> int" where
  "parse_broker_order_request_payload v =
     (if json_get v ''schema'' \<noteq> Some (JStr ORDER_REQUEST_SCHEMA)
         \<or> (case json_get v ''schema_version'' of None \<Rightarrow> True | Some n \<Rightarrow> \<not> json_equals_int n 1)
      then Inl ''unsupported lifecycle order-request schema''
      else rbind (parse_phase v) (\<lambda>phase.
           rbind (positive_field v ''expected_quantity'' ''expected_quantity must be a positive integer'') (\<lambda>q.
           rbind (parse_limit_price v) (\<lambda>price.
           rbind (parse_legs v) (\<lambda>legs.
           rbind (exact_field v ''client_order_id'') (\<lambda>client.
           rbind (exact_field v ''permit_id'') (\<lambda>permit.
           rbind (exact_field v ''open_permit_id'') (\<lambda>open_permit.
           rbind (exact_field v ''event_run_id'') (\<lambda>event.
           rbind (exact_field v ''reservation_id'') (\<lambda>reservation.
           rbind (exact_field v ''correlation_sha256'') (\<lambda>correlation.
           rbind (exact_field v ''policy_sha256'') (\<lambda>policy.
           rbind (exact_field v ''snapshot_sha256'') (\<lambda>snapshot.
           rbind (exact_field v ''account_id'') (\<lambda>account.
           rbind (exact_field v ''account_class'') (\<lambda>account_cls.
           rbind (exact_field v ''order_class'') (\<lambda>order_cls.
             Inr (\<lparr>rq_client_order_id = client, rq_phase = phase, rq_permit_id = permit, rq_open_permit_id = open_permit,
                   rq_event_run_id = event, rq_reservation_id = reservation, rq_correlation_sha256 = correlation,
                   rq_policy_sha256 = policy, rq_snapshot_sha256 = snapshot, rq_account_id = account,
                   rq_account_class = account_cls, rq_order_class = order_cls, rq_limit_price = price, rq_legs = legs\<rparr>,
                  q)))))))))))))))))"

section \<open>Readbacks\<close>

record broker_order_ack =
  ak_order_id :: string
  ak_client_order_id :: string
  ak_observed_at :: datetime

record broker_order_truth =
  ot_order_id :: string
  ot_client_order_id :: string
  ot_status :: order_status
  ot_filled_qty :: int
  ot_observed_at :: datetime
  ot_permit_id :: string
  ot_open_permit_id :: string
  ot_event_run_id :: string
  ot_reservation_id :: string
  ot_correlation_sha256 :: string
  ot_policy_sha256 :: string
  ot_snapshot_sha256 :: string
  ot_account_id :: string
  ot_account_class :: string
  ot_order_class :: string
  ot_limit_price :: dec
  ot_legs :: "broker_option_leg list"

record broker_position_snapshot =
  bp_order_id :: string
  bp_client_order_id :: string
  bp_permit_id :: string
  bp_open_permit_id :: string
  bp_event_run_id :: string
  bp_reservation_id :: string
  bp_correlation_sha256 :: string
  bp_policy_sha256 :: string
  bp_snapshot_sha256 :: string
  bp_account_id :: string
  bp_account_class :: string
  bp_order_class :: string
  bp_limit_price :: dec
  bp_legs :: "broker_option_leg list"
  bp_observed_at :: datetime
  bp_positions :: "position_truth list"

record paper_account =
  pa_account_id :: string
  pa_account_class :: string
  pa_equity :: dec
  pa_buying_power :: dec
  pa_observed_at :: datetime

definition ensure_no_residue :: "position_truth list \<Rightarrow> lifecycle_rejected + unit" where
  "ensure_no_residue ps =
     guarded [(list_ex (\<lambda>p. \<not> dec_eq (pt_qty p) dec_zero) ps, lreject NON_FLAT_CLOSE ''positions'')] (Inr ())"

lemma ensure_no_residue_Inr: "ensure_no_residue ps = Inr u \<longleftrightarrow> positions_flat ps"
  by (simp add: ensure_no_residue_def outcome_simps positions_flat_def list_ex_iff list_all_iff)

section \<open>The protocol\<close>

text \<open>
  A broker raises \<open>BrokerOutage\<close>, or a rejection of its own (the fake broker's clock), or
  anything else (\<open>BrokerFailure\<close>). Its state of type \<open>'b\<close> is private to it: what a call returns
  and does is any function of that state.
\<close>

datatype broker_error = BrokerOutage | BrokerRejected lifecycle_rejected | BrokerFailure

type_synonym ('b, 'a) broker_op = "'b \<Rightarrow> ('b, broker_error, 'a) outcome"

record 'b paper_broker =
  pb_submit_open :: "broker_order_request \<Rightarrow> ('b, broker_order_ack) broker_op"
  pb_read_order :: "string \<Rightarrow> ('b, broker_order_truth) broker_op"
  pb_cancel_order :: "string \<Rightarrow> ('b, broker_order_ack) broker_op"
  pb_submit_close :: "broker_order_request \<Rightarrow> ('b, broker_order_ack) broker_op"
  pb_read_positions :: "('b, broker_position_snapshot) broker_op"
  pb_read_account :: "('b, paper_account) broker_op"

section \<open>The fake broker\<close>

text \<open>
  The scripted behaviour and the counters of \<open>FakePaperBroker\<close>. \<open>replace(x, **overrides)\<close> is an
  update function on the record; the \<open>n\<close>-th call of the clock returns \<open>fb_clock n\<close>.
\<close>

record fake_paper_broker =
  fb_open_terminal_state :: order_status
  fb_close_terminal_state :: order_status
  fb_open_filled_qty :: int
  fb_close_filled_qty :: int
  fb_open_submit_outage :: bool
  fb_close_submit_outage :: bool
  fb_read_outage :: bool
  fb_cancel_outage :: bool
  fb_positions_flat_after_close :: bool
  fb_residual_position_symbols :: "string list"
  fb_account :: "paper_account option"
  fb_open_truth_overrides :: "broker_order_truth \<Rightarrow> broker_order_truth"
  fb_close_truth_overrides :: "broker_order_truth \<Rightarrow> broker_order_truth"
  fb_open_position_overrides :: "broker_position_snapshot \<Rightarrow> broker_position_snapshot"
  fb_close_position_overrides :: "broker_position_snapshot \<Rightarrow> broker_position_snapshot"
  fb_clock :: "nat \<Rightarrow> datetime"
  fb_clock_calls :: nat
  fb_open_submissions :: int
  fb_close_submissions :: int
  fb_cancel_attempts :: int
  fb_order_readbacks :: int
  fb_position_readbacks :: int
  fb_account_readbacks :: int
  fb_open_order_id :: string
  fb_close_order_id :: string
  fb_open_state :: order_status
  fb_close_state :: order_status
  fb_open_request :: "broker_order_request option"
  fb_close_request :: "broker_order_request option"

type_synonym 'a fake_op = "(fake_paper_broker, 'a) broker_op"

definition FAKE_BROKER_EPOCH :: datetime where "FAKE_BROKER_EPOCH = utc_at 1789135200000000"

definition fake_broker :: fake_paper_broker where
  "fake_broker =
     \<lparr>fb_open_terminal_state = FILLED_STATUS, fb_close_terminal_state = FILLED_STATUS, fb_open_filled_qty = 1,
      fb_close_filled_qty = 1, fb_open_submit_outage = False, fb_close_submit_outage = False, fb_read_outage = False,
      fb_cancel_outage = False, fb_positions_flat_after_close = True, fb_residual_position_symbols = [],
      fb_account = None, fb_open_truth_overrides = (\<lambda>t. t), fb_close_truth_overrides = (\<lambda>t. t),
      fb_open_position_overrides = (\<lambda>p. p), fb_close_position_overrides = (\<lambda>p. p), fb_clock = (\<lambda>_. FAKE_BROKER_EPOCH),
      fb_clock_calls = 0, fb_open_submissions = 0, fb_close_submissions = 0, fb_cancel_attempts = 0, fb_order_readbacks = 0,
      fb_position_readbacks = 0, fb_account_readbacks = 0, fb_open_order_id = ''fake-open-order-1'',
      fb_close_order_id = ''fake-close-order-1'', fb_open_state = ''new'', fb_close_state = ''new'',
      fb_open_request = None, fb_close_request = None\<rparr>"

definition fake_now :: "datetime fake_op" where
  "fake_now b =
     (let t = fb_clock b (fb_clock_calls b); b' = b\<lparr>fb_clock_calls := Suc (fb_clock_calls b)\<rparr>
      in if aware t then (Inr t, b') else (Inl (BrokerRejected (lreject LC_UNSUPPORTED_INPUT ''clock'')), b'))"

definition fake_ack :: "string \<Rightarrow> broker_order_request \<Rightarrow> broker_order_ack fake_op" where
  "fake_ack order r =
     obind fake_now (\<lambda>t. oreturn \<lparr>ak_order_id = order, ak_client_order_id = rq_client_order_id r, ak_observed_at = t\<rparr>)"

definition fake_submit_open :: "broker_order_request \<Rightarrow> broker_order_ack fake_op" where
  "fake_submit_open r =
     othen (require (\<lambda>b. [(fb_open_submit_outage b, BrokerOutage)]))
    (othen (exec (\<lambda>b. b\<lparr>fb_open_submissions := fb_open_submissions b + 1, fb_open_request := Some r,
                         fb_open_state := fb_open_terminal_state b\<rparr>))
    (obind (query fb_open_order_id) (\<lambda>order. fake_ack order r)))"

definition fake_submit_close :: "broker_order_request \<Rightarrow> broker_order_ack fake_op" where
  "fake_submit_close r =
     othen (require (\<lambda>b. [(fb_close_submit_outage b, BrokerOutage)]))
    (othen (exec (\<lambda>b. b\<lparr>fb_close_submissions := fb_close_submissions b + 1, fb_close_request := Some r,
                         fb_close_state := fb_close_terminal_state b\<rparr>))
    (obind (query fb_close_order_id) (\<lambda>order. fake_ack order r)))"

definition fake_filled_qty :: "order_status \<Rightarrow> int \<Rightarrow> int" where
  "fake_filled_qty status configured = (if status \<in> {FILLED_STATUS, PARTIALLY_FILLED_STATUS} then configured else 0)"

definition fake_order_truth ::
    "string \<Rightarrow> broker_order_request \<Rightarrow> order_status \<Rightarrow> int \<Rightarrow> (broker_order_truth \<Rightarrow> broker_order_truth) \<Rightarrow> broker_order_truth fake_op" where
  "fake_order_truth order r status filled overrides =
     obind fake_now (\<lambda>t. oreturn (overrides
       \<lparr>ot_order_id = order, ot_client_order_id = rq_client_order_id r, ot_status = status, ot_filled_qty = filled,
        ot_observed_at = t, ot_permit_id = rq_permit_id r, ot_open_permit_id = rq_open_permit_id r,
        ot_event_run_id = rq_event_run_id r, ot_reservation_id = rq_reservation_id r,
        ot_correlation_sha256 = rq_correlation_sha256 r, ot_policy_sha256 = rq_policy_sha256 r,
        ot_snapshot_sha256 = rq_snapshot_sha256 r, ot_account_id = rq_account_id r, ot_account_class = rq_account_class r,
        ot_order_class = rq_order_class r, ot_limit_price = rq_limit_price r, ot_legs = rq_legs r\<rparr>))"

definition fake_read_order :: "string \<Rightarrow> broker_order_truth fake_op" where
  "fake_read_order order =
     othen (require (\<lambda>b. [(fb_read_outage b, BrokerOutage)]))
    (othen (exec (\<lambda>b. b\<lparr>fb_order_readbacks := fb_order_readbacks b + 1\<rparr>))
    (obind (query id) (\<lambda>b.
       if order = fb_open_order_id b \<and> fb_open_request b \<noteq> None
       then fake_order_truth order (the (fb_open_request b)) (fb_open_state b)
              (fake_filled_qty (fb_open_state b) (fb_open_filled_qty b)) (fb_open_truth_overrides b)
       else if order = fb_close_order_id b \<and> fb_close_request b \<noteq> None
       then fake_order_truth order (the (fb_close_request b)) (fb_close_state b)
              (fake_filled_qty (fb_close_state b) (fb_close_filled_qty b)) (fb_close_truth_overrides b)
       else oraise BrokerOutage)))"

definition fake_cancel_order :: "string \<Rightarrow> broker_order_ack fake_op" where
  "fake_cancel_order order =
     othen (require (\<lambda>b. [(fb_cancel_outage b, BrokerOutage)]))
    (othen (exec (\<lambda>b. b\<lparr>fb_cancel_attempts := fb_cancel_attempts b + 1\<rparr>))
    (obind (query id) (\<lambda>b.
       case fb_open_request b of
         Some r \<Rightarrow>
           if order = fb_open_order_id b
           then othen (exec (\<lambda>b. b\<lparr>fb_open_state := ''canceled''\<rparr>)) (fake_ack order r)
           else oraise BrokerOutage
       | None \<Rightarrow> oraise BrokerOutage)))"

text \<open>One \<open>PositionTruth\<close> per pair of a symbol and a quantity, each with its own reading of the clock.\<close>

fun fake_positions :: "(string \<times> int) list \<Rightarrow> position_truth list fake_op" where
  "fake_positions [] = oreturn []"
| "fake_positions ((symbol, qty) # rest) =
     obind fake_now (\<lambda>t.
     obind (fake_positions rest) (\<lambda>ps.
       oreturn (\<lparr>pt_symbol = symbol, pt_qty = dec_of_int qty, pt_observed_at = t\<rparr> # ps)))"

definition fake_position_snapshot ::
    "string \<Rightarrow> broker_order_request \<Rightarrow> position_truth list \<Rightarrow> (broker_position_snapshot \<Rightarrow> broker_position_snapshot)
     \<Rightarrow> broker_position_snapshot fake_op" where
  "fake_position_snapshot order r ps overrides =
     obind fake_now (\<lambda>t. oreturn (overrides
       \<lparr>bp_order_id = order, bp_client_order_id = rq_client_order_id r, bp_permit_id = rq_permit_id r,
        bp_open_permit_id = rq_open_permit_id r, bp_event_run_id = rq_event_run_id r, bp_reservation_id = rq_reservation_id r,
        bp_correlation_sha256 = rq_correlation_sha256 r, bp_policy_sha256 = rq_policy_sha256 r,
        bp_snapshot_sha256 = rq_snapshot_sha256 r, bp_account_id = rq_account_id r, bp_account_class = rq_account_class r,
        bp_order_class = rq_order_class r, bp_limit_price = rq_limit_price r, bp_legs = rq_legs r,
        bp_observed_at = t, bp_positions = ps\<rparr>))"

definition leg_position :: "broker_option_leg \<Rightarrow> string \<times> int" where
  "leg_position l = (bl_symbol l, if bl_side l = ''buy'' then bl_quantity l else - bl_quantity l)"

definition fake_read_positions :: "broker_position_snapshot fake_op" where
  "fake_read_positions =
     othen (require (\<lambda>b. [(fb_read_outage b, BrokerOutage)]))
    (othen (exec (\<lambda>b. b\<lparr>fb_position_readbacks := fb_position_readbacks b + 1\<rparr>))
    (obind (query id) (\<lambda>b.
       case fb_close_request b of
         Some r \<Rightarrow>
           obind (if fb_positions_flat_after_close b \<and> fb_close_state b = FILLED_STATUS then oreturn []
                  else fake_positions (map (\<lambda>s. (s, 1))
                         (if fb_residual_position_symbols b \<noteq> [] then fb_residual_position_symbols b
                          else map bl_symbol (rq_legs r))))
             (\<lambda>ps. fake_position_snapshot (fb_close_order_id b) r ps (fb_close_position_overrides b))
       | None \<Rightarrow>
           (case fb_open_request b of
              Some r \<Rightarrow>
                obind (fake_positions (map leg_position (rq_legs r)))
                  (\<lambda>ps. fake_position_snapshot (fb_open_order_id b) r ps (fb_open_position_overrides b))
            | None \<Rightarrow> oraise BrokerOutage))))"

definition fake_read_account :: "paper_account fake_op" where
  "fake_read_account =
     othen (require (\<lambda>b. [(fb_read_outage b, BrokerOutage)]))
    (othen (exec (\<lambda>b. b\<lparr>fb_account_readbacks := fb_account_readbacks b + 1\<rparr>))
    (obind (query fb_account) (\<lambda>acc.
       case acc of
         Some a \<Rightarrow> oreturn a
       | None \<Rightarrow> obind fake_now (\<lambda>t.
           oreturn \<lparr>pa_account_id = ''paper-account'', pa_account_class = PAPER_ACCOUNT_CLASS,
                    pa_equity = Fin 10000000 (-2), pa_buying_power = Fin 10000000 (-2), pa_observed_at = t\<rparr>))))"

definition fake_ops :: "fake_paper_broker paper_broker" where
  "fake_ops =
     \<lparr>pb_submit_open = fake_submit_open, pb_read_order = fake_read_order, pb_cancel_order = fake_cancel_order,
      pb_submit_close = fake_submit_close, pb_read_positions = fake_read_positions, pb_read_account = fake_read_account\<rparr>"

section \<open>A stored request is restored exactly\<close>

definition leg_ok :: "broker_option_leg \<Rightarrow> bool" where
  "leg_ok l = (exact_text (bl_symbol l) \<and> 0 < bl_quantity l \<and> exact_text (bl_side l) \<and> exact_text (bl_position_intent l))"

definition request_texts :: "broker_order_request \<Rightarrow> string list" where
  "request_texts r = [rq_client_order_id r, rq_permit_id r, rq_open_permit_id r, rq_event_run_id r, rq_reservation_id r,
     rq_correlation_sha256 r, rq_policy_sha256 r, rq_snapshot_sha256 r, rq_account_id r, rq_account_class r, rq_order_class r]"

definition request_ok :: "broker_order_request \<Rightarrow> int \<Rightarrow> bool" where
  "request_ok r q = (list_all exact_text (request_texts r) \<and> is_finite (rq_limit_price r) \<and> rq_legs r \<noteq> []
     \<and> list_all leg_ok (rq_legs r) \<and> 0 < q)"

lemma request_members_distinct: "distinct (map fst (broker_order_request_members r q))"
  by (simp add: broker_order_request_members_def)

lemma request_field:
  "json_get (json_sort (broker_order_request_payload r q)) k = map_option json_sort (map_of (broker_order_request_members r q) k)"
  unfolding broker_order_request_payload_def by (rule json_get_sorted [OF request_members_distinct])

lemmas request_member = request_field broker_order_request_members_def

lemma request_leg_reads: "leg_ok l \<Longrightarrow> parse_request_leg (json_sort (request_leg_payload l)) = Inr l"
proof -
  assume ok: "leg_ok l"
  let ?kvs = "[(''symbol'', JStr (bl_symbol l)), (''quantity'', JInt (bl_quantity l)), (''side'', JStr (bl_side l)),
      (''position_intent'', JStr (bl_position_intent l))]"
  have "json_get (json_sort (request_leg_payload l)) k = map_option json_sort (map_of ?kvs k)" for k
    unfolding request_leg_payload_def by (rule json_get_sorted) simp
  moreover have "is_object (json_sort (request_leg_payload l))" by (simp add: request_leg_payload_def)
  ultimately show ?thesis
    using ok unfolding parse_request_leg_def positive_field_def exact_field_def
    by (simp add: leg_ok_def guarded_def)
qed

lemma request_leg_list_reads:
  "list_all leg_ok ls \<Longrightarrow> rmap_list parse_request_leg (map (\<lambda>l. json_sort (request_leg_payload l)) ls) = Inr ls"
  by (induction ls) (simp_all add: request_leg_reads)

lemma request_legs_read:
  "rq_legs r \<noteq> [] \<Longrightarrow> list_all leg_ok (rq_legs r) \<Longrightarrow>
     parse_legs (json_sort (broker_order_request_payload r q)) = Inr (rq_legs r)"
proof -
  assume ne: "rq_legs r \<noteq> []" and ok: "list_all leg_ok (rq_legs r)"
  have "json_get (json_sort (broker_order_request_payload r q)) ''legs''
      = Some (JList (map (\<lambda>l. json_sort (request_leg_payload l)) (rq_legs r)))"
    by (simp add: request_member comp_def)
  moreover have "rmap_list parse_request_leg (map (\<lambda>l. json_sort (request_leg_payload l)) (rq_legs r)) = Inr (rq_legs r)"
    using request_leg_list_reads [OF ok] .
  ultimately show ?thesis using ne by (cases "rq_legs r") (simp_all add: parse_legs_def)
qed

lemma request_text_reads:
  "exact_text s \<Longrightarrow> map_of (broker_order_request_members r q) k = Some (JStr s) \<Longrightarrow>
     exact_field (json_sort (broker_order_request_payload r q)) k = Inr s"
  by (simp add: exact_field_def request_field guarded_def)

lemma request_phase_reads: "parse_phase (json_sort (broker_order_request_payload r q)) = Inr (rq_phase r)"
proof -
  have "exact_text (phase_value (rq_phase r))" by (cases "rq_phase r") (simp_all add: text_simps)
  then have "exact_field (json_sort (broker_order_request_payload r q)) ''phase'' = Inr (phase_value (rq_phase r))"
    by (rule request_text_reads) (simp add: broker_order_request_members_def)
  then show ?thesis by (cases "rq_phase r") (simp_all add: parse_phase_def)
qed

lemma request_restored:
  assumes ok: "request_ok r q"
  shows "\<exists>v r'. json_loads (canonical_json_bytes (broker_order_request_payload r q)) = Some v
    \<and> parse_broker_order_request_payload v = Inr (r', q)
    \<and> r' = r\<lparr>rq_limit_price := rq_limit_price r'\<rparr>
    \<and> dec_normalize (rq_limit_price r') = dec_normalize (rq_limit_price r)
    \<and> broker_order_request_sha256 H r' q = broker_order_request_sha256 H r q"
proof -
  let ?v = "json_sort (broker_order_request_payload r q)"
  obtain d where d: "dec_parse (decimal_text (rq_limit_price r)) = Some d" "is_finite d"
    "dec_normalize d = dec_normalize (rq_limit_price r)" "decimal_text d = decimal_text (rq_limit_price r)"
    "exact_text (decimal_text (rq_limit_price r))"
    using decimal_text_reads ok by (auto simp: request_ok_def)
  have price: "parse_limit_price ?v = Inr d"
    using d request_text_reads [OF d(5), of r q "''limit_price''"]
    by (simp add: parse_limit_price_def broker_order_request_members_def guarded_def)
  have quantity: "positive_field ?v ''expected_quantity'' e = Inr q" for e
    using ok by (simp add: positive_field_def request_member guarded_def request_ok_def)
  have texts: "exact_field ?v k = Inr s" if "map_of (broker_order_request_members r q) k = Some (JStr s)" "s \<in> set (request_texts r)" for k s
    using that ok by (intro request_text_reads) (auto simp: request_ok_def list_all_iff)
  have schema: "json_get ?v ''schema'' = Some (JStr ORDER_REQUEST_SCHEMA)" "json_get ?v ''schema_version'' = Some (JInt 1)"
    by (simp_all add: request_member)
  have "parse_broker_order_request_payload ?v = Inr (r\<lparr>rq_limit_price := d\<rparr>, q)"
    unfolding parse_broker_order_request_payload_def
    using request_legs_read [of r q] ok
    by (simp add: schema request_phase_reads quantity price texts broker_order_request_members_def request_texts_def request_ok_def)
  moreover have "broker_order_request_sha256 H (r\<lparr>rq_limit_price := d\<rparr>) q = broker_order_request_sha256 H r q"
    by (simp add: broker_order_request_sha256_def broker_order_request_payload_def broker_order_request_members_def d(4))
  ultimately show ?thesis using d(3) by (intro exI [of _ ?v] exI [of _ "r\<lparr>rq_limit_price := d\<rparr>"]) (simp add: json_loads_canonical)
qed

text \<open>
  A request that was persisted is restored exactly: reading back the canonical payload of a
  well-formed request gives the same request with the same quantity; only the representation of
  the limit price may differ, not its normalized value. The restored request hashes to the
  hash the original was stored under, so the restart check of the worker accepts it.
\<close>

theorem order_request_roundtrip:
  assumes ok: "request_ok r q"
  shows "\<exists>v r'. json_loads (canonical_json_bytes (broker_order_request_payload r q)) = Some v
    \<and> parse_broker_order_request_payload v = Inr (r', q)
    \<and> r' = r\<lparr>rq_limit_price := rq_limit_price r'\<rparr>
    \<and> dec_normalize (rq_limit_price r') = dec_normalize (rq_limit_price r)
    \<and> broker_order_request_sha256 H r' q = broker_order_request_sha256 H r q"
  by (rule request_restored [OF ok])

definition sample_request :: broker_order_request where
  "sample_request =
     \<lparr>rq_client_order_id = ''open-p-a'', rq_phase = OPEN, rq_permit_id = ''p'', rq_open_permit_id = ''p'', rq_event_run_id = ''e'',
      rq_reservation_id = ''rsv-e'', rq_correlation_sha256 = ''c'', rq_policy_sha256 = ''d'', rq_snapshot_sha256 = ''f'',
      rq_account_id = ''paper-account'', rq_account_class = PAPER_ACCOUNT_CLASS, rq_order_class = MULTI_LEG_ORDER_CLASS,
      rq_limit_price = Fin 150 (-2),
      rq_legs = [\<lparr>bl_symbol = ''A'', bl_quantity = 1, bl_side = ''buy'', bl_position_intent = ''buy_to_open''\<rparr>]\<rparr>"

lemma sample_request_ok: "request_ok sample_request 1"
  by (simp add: request_ok_def request_texts_def sample_request_def leg_ok_def text_simps PAPER_ACCOUNT_CLASS_def MULTI_LEG_ORDER_CLASS_def)

theorem order_request_roundtrip_witness:
  "\<exists>v r'. json_loads (canonical_json_bytes (broker_order_request_payload sample_request 1)) = Some v
    \<and> parse_broker_order_request_payload v = Inr (r', 1) \<and> rq_legs r' = rq_legs sample_request"
proof -
  obtain v r' where "json_loads (canonical_json_bytes (broker_order_request_payload sample_request 1)) = Some v"
    "parse_broker_order_request_payload v = Inr (r', 1)" and r': "r' = sample_request\<lparr>rq_limit_price := rq_limit_price r'\<rparr>"
    using order_request_roundtrip [OF sample_request_ok, of const_hash] by blast
  moreover have "rq_legs r' = rq_legs sample_request" by (subst r') simp
  ultimately show ?thesis by blast
qed

end
