(* ===== verification/Worker.thy ===== *)
theory Worker
  imports Broker
begin

text \<open>
  \<open>lifecycle/worker.py\<close>: the deterministic worker of one monitored PAPER lifecycle, every
  method with its guards and calls in the order of the source. Its state is the durable
  ledger, the state of the broker it drives, the number of clock readings taken so far, and
  the two in-memory sets of submitted permits; its configuration is the frozen dataclass. The
  broker is a parameter \<open>B\<close> (any implementation of the protocol), and so is SHA-256 (\<open>H\<close>).
  The \<open>n\<close>-th call of the clock returns \<open>lc_clock cfg n\<close>: nothing is assumed about its course.
\<close>

section \<open>State, configuration, exceptions\<close>

datatype worker_error =
    WorkerRejected lifecycle_rejected
  | WorkerLedger ledger_error
  | WorkerValueError value_error
  | WorkerTypeError
  | WorkerBrokerFailure

abbreviation wrej :: "lifecycle_reason \<Rightarrow> string \<Rightarrow> worker_error" where
  "wrej r path \<equiv> WorkerRejected (lreject r path)"

record lifecycle_config =
  lc_clocks :: lifecycle_clocks
  lc_correlation :: correlation_identity
  lc_mutation_permitted :: bool
  lc_clock :: "nat \<Rightarrow> datetime"
  lc_account_id :: string
  lc_account_class :: string
  lc_order_class :: string
  lc_truth_max_age_seconds :: int

definition DEFAULT_TRUTH_MAX_AGE_SECONDS :: int where "DEFAULT_TRUTH_MAX_AGE_SECONDS = 30"

text \<open>The default gate keeps every mutation blocked.\<close>

definition closed_mutation_gate :: bool where "closed_mutation_gate = False"

record 'b worker_state =
  ws_ledger :: ledger
  ws_broker :: 'b
  ws_readings :: nat
  ws_submitted_open :: "string list"
  ws_submitted_close :: "string list"

type_synonym ('b, 'a) worker_op = "'b worker_state \<Rightarrow> ('b worker_state, worker_error, 'a) outcome"

text \<open>
  Calls of the ledger and of the broker. \<open>try: ... except RiskRejected\<close> around a ledger call turns
  its rejections into one of the worker, \<open>try: ... except BrokerOutage\<close> around a broker call an
  outage; every other exception passes through.
\<close>

fun ledger_failure :: "worker_error \<Rightarrow> ledger_error \<Rightarrow> worker_error" where
  "ledger_failure e (LedgerRejected _) = e"
| "ledger_failure e err = WorkerLedger err"

fun broker_failure :: "worker_error \<Rightarrow> broker_error \<Rightarrow> worker_error" where
  "broker_failure e BrokerOutage = e"
| "broker_failure e (BrokerRejected r) = WorkerRejected r"
| "broker_failure e BrokerFailure = WorkerBrokerFailure"

definition on_ledger :: "worker_error \<Rightarrow> 'a ledger_op \<Rightarrow> ('b, 'a) worker_op" where
  "on_ledger e m s =
     (case m (ws_ledger s) of
        (Inl err, db) \<Rightarrow> (Inl (ledger_failure e err), s\<lparr>ws_ledger := db\<rparr>)
      | (Inr a, db) \<Rightarrow> (Inr a, s\<lparr>ws_ledger := db\<rparr>))"

definition on_broker :: "worker_error \<Rightarrow> ('b, 'a) broker_op \<Rightarrow> ('b, 'a) worker_op" where
  "on_broker e m s =
     (case m (ws_broker s) of
        (Inl err, b) \<Rightarrow> (Inl (broker_failure e err), s\<lparr>ws_broker := b\<rparr>)
      | (Inr a, b) \<Rightarrow> (Inr a, s\<lparr>ws_broker := b\<rparr>))"

text \<open>A public lookup of the ledger validates its identifier first; that rejection is not caught.\<close>

definition find_by :: "string \<Rightarrow> string \<Rightarrow> (ledger \<Rightarrow> 'a) \<Rightarrow> ('b, 'a) worker_op" where
  "find_by identifier path f =
     othen (require (\<lambda>s. [(\<not> exact_text identifier, WorkerLedger (lrej UNSUPPORTED_INPUT path))]))
           (query (\<lambda>s. f (ws_ledger s)))"

definition worker_now :: "lifecycle_config \<Rightarrow> ('b, datetime) worker_op" where
  "worker_now cfg s =
     (let t = lc_clock cfg (ws_readings s); s' = s\<lparr>ws_readings := Suc (ws_readings s)\<rparr>
      in if aware t then (Inr t, s') else (Inl (wrej LC_UNSUPPORTED_INPUT ''clock''), s'))"

section \<open>Close permits\<close>

definition close_credit_within_vertical_width :: "debit_vertical_permit \<Rightarrow> dec \<Rightarrow> bool" where
  "close_credit_within_vertical_width p price =
     (if \<not> is_finite price \<or> dec_le dec_zero price then False
      else dec_le (dec_abs price) (dec_abs (dec_sub (leg_strike (short_leg p)) (leg_strike (long_leg p)))))"

definition close_permit_id ::
    "hash_function \<Rightarrow> string \<Rightarrow> string \<Rightarrow> string \<Rightarrow> string \<Rightarrow> datetime \<Rightarrow> datetime \<Rightarrow> dec \<Rightarrow> string" where
  "close_permit_id H open_permit event policy snapshot issued expires price =
     ''pc-'' @ take 32 (H (canonical_json_bytes (JObj
       [(''schema'', JStr ''ringdown.close_permit_id''), (''schema_version'', JInt 1), (''open_permit_id'', JStr open_permit),
        (''event_run_id'', JStr event), (''policy_sha256'', JStr policy), (''snapshot_sha256'', JStr snapshot),
        (''issued_at'', JStr (isoformat issued)), (''expires_at'', JStr (isoformat expires)),
        (''limit_price'', JStr (decimal_text price))])))"

definition issue_close_permit ::
    "hash_function \<Rightarrow> debit_vertical_permit \<Rightarrow> string \<Rightarrow> string \<Rightarrow> string \<Rightarrow> datetime \<Rightarrow> datetime \<Rightarrow> dec
     \<Rightarrow> worker_error + close_permit" where
  "issue_close_permit H p event policy snapshot issued expires price =
     guarded
       [(event_run_id p \<noteq> event, wrej LC_UNSUPPORTED_INPUT ''close_permit.event_run_id''),
        (policy \<noteq> policy_sha256 p \<or> snapshot \<noteq> snapshot_sha256 p, wrej BROKER_TRUTH_MISMATCH ''close_permit''),
        (\<not> close_credit_within_vertical_width p price, wrej LC_UNSUPPORTED_INPUT ''close_permit.limit_price'')]
       (let c = \<lparr>cp_permit_id = close_permit_id H (permit_id p) event policy snapshot issued expires price,
                 cp_open_permit_id = permit_id p, cp_event_run_id = event, cp_policy_sha256 = policy,
                 cp_snapshot_sha256 = snapshot, cp_issued_at = issued, cp_expires_at = expires, cp_limit_price = price\<rparr>
        in case close_permit_checks c of Some e \<Rightarrow> Inl (WorkerValueError e) | None \<Rightarrow> Inr c)"

section \<open>Guards\<close>

definition require_clocks_verified :: "lifecycle_config \<Rightarrow> (bool \<times> worker_error) list" where
  "require_clocks_verified cfg = [(\<not> source_verified (lc_clocks cfg), wrej EXIT_PLAN_UNVERIFIED ''clocks.source_sha256'')]"

definition require_paper_boundary :: "lifecycle_config \<Rightarrow> (bool \<times> worker_error) list" where
  "require_paper_boundary cfg =
     [(\<not> exact_text (lc_account_id cfg) \<or> lc_account_class cfg \<noteq> PAPER_ACCOUNT_CLASS \<or> lc_order_class cfg \<noteq> MULTI_LEG_ORDER_CLASS,
       wrej LC_UNSUPPORTED_INPUT ''broker_boundary'')]"

definition require_clock_scope :: "lifecycle_config \<Rightarrow> debit_vertical_permit \<Rightarrow> (bool \<times> worker_error) list" where
  "require_clock_scope cfg p =
     [(lk_event_run_id (lc_clocks cfg) \<noteq> event_run_id p \<or> lk_policy_sha256 (lc_clocks cfg) \<noteq> policy_sha256 p,
       wrej EXIT_PLAN_UNVERIFIED ''clocks'')]"

definition require_mutation :: "lifecycle_config \<Rightarrow> (bool \<times> worker_error) list" where
  "require_mutation cfg = [(\<not> lc_mutation_permitted cfg, wrej MUTATION_GATE_CLOSED ''mutation_gate'')]"

text \<open>A naive datetime cannot be ordered against the aware lifecycle clock.\<close>

definition require_active_window ::
    "lifecycle_config \<Rightarrow> datetime \<Rightarrow> datetime \<Rightarrow> string \<Rightarrow> lifecycle_reason \<Rightarrow> ('b, unit) worker_op" where
  "require_active_window cfg issued expires path why =
     obind (worker_now cfg) (\<lambda>now.
       require (\<lambda>_.
         [(\<not> aware issued, WorkerTypeError), (instant now < instant issued, wrej why path),
          (\<not> aware expires, WorkerTypeError), (instant expires \<le> instant now, wrej why path)]))"

definition open_identity_guards :: "hash_function \<Rightarrow> lifecycle_config \<Rightarrow> debit_vertical_permit \<Rightarrow> (bool \<times> worker_error) list" where
  "open_identity_guards H cfg p =
     (let co = lc_correlation cfg
      in [(permit_id p \<noteq> co_open_permit_id co \<or> permit_id p \<noteq> debit_vertical_permit_id H p
             \<or> event_run_id p \<noteq> co_event_run_id co \<or> snapshot_sha256 p \<noteq> co_snapshot_sha256 co
             \<or> decision_sha256 p \<noteq> co_decision_sha256 co,
           wrej BROKER_TRUTH_MISMATCH ''open_permit'')])"

definition open_binding_ok :: "lifecycle_config \<Rightarrow> debit_vertical_permit \<Rightarrow> reservation_row option \<Rightarrow> permit_row option \<Rightarrow> bool" where
  "open_binding_ok cfg p reservation permit =
     (case (reservation, permit) of
        (Some r, Some q) \<Rightarrow>
          rs_id r = co_reservation_id (lc_correlation cfg) \<and> rs_state r = RESERVED \<and> pm_id q = permit_id p
          \<and> pm_reservation_id q = co_reservation_id (lc_correlation cfg) \<and> pm_state q = ISSUED
      | _ \<Rightarrow> False)"

definition require_open_binding :: "hash_function \<Rightarrow> lifecycle_config \<Rightarrow> debit_vertical_permit \<Rightarrow> ('b, unit) worker_op" where
  "require_open_binding H cfg p =
     othen (require (\<lambda>_. open_identity_guards H cfg p))
    (obind (find_by (event_run_id p) ''reservation.event_id'' (reservation_for_event (event_run_id p))) (\<lambda>reservation.
     obind (find_by (event_run_id p) ''permit.event_id'' (permit_for_event (event_run_id p))) (\<lambda>permit.
       require (\<lambda>_. [(\<not> open_binding_ok cfg p reservation permit, wrej BROKER_TRUTH_MISMATCH ''open_permit.ledger'')]))))"

definition close_permit_guards :: "hash_function \<Rightarrow> lifecycle_config \<Rightarrow> debit_vertical_permit \<Rightarrow> close_permit \<Rightarrow> (bool \<times> worker_error) list" where
  "close_permit_guards H cfg p c =
     open_identity_guards H cfg p
     @ [(cp_open_permit_id c \<noteq> permit_id p \<or> cp_event_run_id c \<noteq> co_event_run_id (lc_correlation cfg)
           \<or> cp_policy_sha256 c \<noteq> policy_sha256 p \<or> cp_snapshot_sha256 c \<noteq> snapshot_sha256 p,
          wrej BROKER_TRUTH_MISMATCH ''close_permit''),
        (\<not> close_credit_within_vertical_width p (cp_limit_price c), wrej BROKER_TRUTH_MISMATCH ''close_permit.limit_price''),
        (cp_permit_id c \<noteq> close_permit_id H (cp_open_permit_id c) (cp_event_run_id c) (cp_policy_sha256 c) (cp_snapshot_sha256 c)
             (cp_issued_at c) (cp_expires_at c) (cp_limit_price c),
          wrej BROKER_TRUTH_MISMATCH ''close_permit.permit_id''),
        (co_close_permit_id (lc_correlation cfg) \<notin> {None, Some (cp_permit_id c)},
          wrej BROKER_TRUTH_MISMATCH ''correlation.close_permit_id'')]"

definition close_proof_ok ::
    "lifecycle_config \<Rightarrow> string \<Rightarrow> submission_row option \<Rightarrow> permit_state option \<Rightarrow> reservation_row option \<Rightarrow> bool" where
  "close_proof_ok cfg open_order submission permit reservation =
     (case (submission, reservation) of
        (Some sb, Some r) \<Rightarrow>
          sb_broker_order_id sb = open_order \<and> permit = Some FILLED
          \<and> rs_id r = co_reservation_id (lc_correlation cfg) \<and> rs_state r = CONSUMED
      | _ \<Rightarrow> False)"

definition value_of :: "value_error + 'a \<Rightarrow> ('b, 'a) worker_op" where
  "value_of r = (case r of Inl e \<Rightarrow> oraise (WorkerValueError e) | Inr a \<Rightarrow> oreturn a)"

definition require_close_binding ::
    "hash_function \<Rightarrow> lifecycle_config \<Rightarrow> debit_vertical_permit \<Rightarrow> close_permit \<Rightarrow> string \<Rightarrow> ('b, correlation_identity) worker_op" where
  "require_close_binding H cfg p c open_order =
     othen (require (\<lambda>_. close_permit_guards H cfg p c))
    (obind (find_by (permit_id p) ''submission.permit_id'' (submission_for_permit (permit_id p))) (\<lambda>submission.
     obind (find_by (event_run_id p) ''reservation.event_id'' (reservation_for_event (event_run_id p))) (\<lambda>reservation.
     obind (find_by (permit_id p) ''permit.permit_id'' (\<lambda>db. map_option pm_state (permit_row (permit_id p) db))) (\<lambda>permit.
     othen (require (\<lambda>_. [(\<not> close_proof_ok cfg open_order submission permit reservation, wrej BROKER_TRUTH_MISMATCH ''close.open_proof'')]))
           (value_of (with_close_permit (cp_permit_id c) (lc_correlation cfg)))))))"

section \<open>Building and persisting requests\<close>

definition open_leg :: "debit_vertical_permit \<Rightarrow> option_leg \<Rightarrow> broker_option_leg" where
  "open_leg p l = \<lparr>bl_symbol = leg_symbol l, bl_quantity = quantity p * leg_ratio l, bl_side = side_value (leg_side l),
     bl_position_intent = intent_value (leg_intent l)\<rparr>"

definition open_legs :: "debit_vertical_permit \<Rightarrow> broker_option_leg list" where
  "open_legs p = map (open_leg p) [long_leg p, short_leg p]"

fun inverse_side :: "option_side \<Rightarrow> option_side" where
  "inverse_side BUY = SELL"
| "inverse_side SELL = BUY"

fun inverse_intent :: "position_intent \<Rightarrow> position_intent option" where
  "inverse_intent BUY_TO_OPEN = Some SELL_TO_CLOSE"
| "inverse_intent SELL_TO_OPEN = Some BUY_TO_CLOSE"
| "inverse_intent _ = None"

definition close_leg :: "debit_vertical_permit \<Rightarrow> option_leg \<Rightarrow> worker_error + broker_option_leg" where
  "close_leg p l =
     (case inverse_intent (leg_intent l) of
        None \<Rightarrow> Inl (wrej LC_UNSUPPORTED_INPUT ''close.legs'')
      | Some i \<Rightarrow> Inr \<lparr>bl_symbol = leg_symbol l, bl_quantity = quantity p * leg_ratio l,
                      bl_side = side_value (inverse_side (leg_side l)), bl_position_intent = intent_value i\<rparr>)"

definition close_legs :: "debit_vertical_permit \<Rightarrow> worker_error + broker_option_leg list" where
  "close_legs p = rmap_list (close_leg p) [long_leg p, short_leg p]"

definition order_request ::
    "hash_function \<Rightarrow> lifecycle_config \<Rightarrow> intent_phase \<Rightarrow> string \<Rightarrow> debit_vertical_permit \<Rightarrow> correlation_identity \<Rightarrow> dec
     \<Rightarrow> broker_option_leg list \<Rightarrow> broker_order_request" where
  "order_request H cfg phase pid p co price legs =
     (let digest = correlation_sha256 H co
      in \<lparr>rq_client_order_id = lower (phase_value phase) @ ''-'' @ pid @ ''-'' @ take 16 digest, rq_phase = phase,
          rq_permit_id = pid, rq_open_permit_id = permit_id p, rq_event_run_id = co_event_run_id co,
          rq_reservation_id = co_reservation_id co, rq_correlation_sha256 = digest, rq_policy_sha256 = policy_sha256 p,
          rq_snapshot_sha256 = snapshot_sha256 p, rq_account_id = lc_account_id cfg, rq_account_class = lc_account_class cfg,
          rq_order_class = lc_order_class cfg, rq_limit_price = price, rq_legs = legs\<rparr>)"

text \<open>The columns that \<open>record_lifecycle_intent\<close> receives; it sets the last four itself.\<close>

definition request_intent :: "hash_function \<Rightarrow> broker_order_request \<Rightarrow> int \<Rightarrow> intent_row" where
  "request_intent H r q =
     \<lparr>it_permit_id = rq_permit_id r, it_phase = rq_phase r, it_event_id = rq_event_run_id r,
      it_open_permit_id = rq_open_permit_id r, it_reservation_id = rq_reservation_id r,
      it_correlation_sha256 = rq_correlation_sha256 r, it_policy_sha256 = rq_policy_sha256 r,
      it_snapshot_sha256 = rq_snapshot_sha256 r, it_account_id = rq_account_id r, it_account_class = rq_account_class r,
      it_order_class = rq_order_class r, it_client_order_id = rq_client_order_id r,
      it_request_sha256 = broker_order_request_sha256 H r q,
      it_request_json = canonical_json_bytes (broker_order_request_payload r q),
      it_broker_order_id = None, it_state = INTENDED, it_created_at = [], it_updated_at = []\<rparr>"

definition record_intent :: "hash_function \<Rightarrow> lifecycle_config \<Rightarrow> broker_order_request \<Rightarrow> int \<Rightarrow> ('b, unit) worker_op" where
  "record_intent H cfg r q =
     obind (worker_now cfg) (\<lambda>now.
       on_ledger (wrej DUPLICATE_TICK (''intent.'' @ rq_permit_id r)) (record_lifecycle_intent H (request_intent H r q) now))"

definition bind_ack :: "hash_function \<Rightarrow> lifecycle_config \<Rightarrow> broker_order_request \<Rightarrow> broker_order_ack \<Rightarrow> ('b, unit) worker_op" where
  "bind_ack H cfg r ack =
     othen (require (\<lambda>_. [(strip (ak_order_id ack) = [] \<or> ak_client_order_id ack \<noteq> rq_client_order_id r,
              wrej BROKER_TRUTH_MISMATCH ''submission.ack'')]))
    (obind (worker_now cfg) (\<lambda>now.
       on_ledger (wrej BROKER_TRUTH_MISMATCH ''submission.intent'')
         (bind_lifecycle_intent H (rq_permit_id r) (rq_phase r) (ak_order_id ack) now)))"

definition durable_intent_guards :: "lifecycle_config \<Rightarrow> intent_phase \<Rightarrow> intent_row \<Rightarrow> (bool \<times> worker_error) list" where
  "durable_intent_guards cfg phase it =
     [(it_phase it \<noteq> phase \<or> it_event_id it \<noteq> co_event_run_id (lc_correlation cfg)
         \<or> (case it_broker_order_id it of None \<Rightarrow> True | Some order \<Rightarrow> strip order = [])
         \<or> it_state it \<notin> {INTENT_SUBMITTED, INTENT_RECONCILED},
       wrej RESTART_STATE_INVALID ''recovery.intent'')]"

definition restored_request :: "intent_row \<Rightarrow> worker_error + broker_order_request \<times> int" where
  "restored_request it =
     (case json_loads (it_request_json it) of
        None \<Rightarrow> Inl (wrej RESTART_STATE_INVALID ''recovery.intent.request_json'')
      | Some v \<Rightarrow>
          if \<not> is_object v then Inl (wrej RESTART_STATE_INVALID ''recovery.intent.request_json'')
          else (case parse_broker_order_request_payload v of
                  Inl _ \<Rightarrow> Inl (wrej RESTART_STATE_INVALID ''recovery.intent.request_json'')
                | Inr rq \<Rightarrow> Inr rq))"

definition durable_submitted_request ::
    "hash_function \<Rightarrow> lifecycle_config \<Rightarrow> intent_row \<Rightarrow> intent_phase \<Rightarrow> worker_error + broker_order_request \<times> int \<times> string" where
  "durable_submitted_request H cfg it phase =
     guarded (durable_intent_guards cfg phase it)
      (rbind (case phase of OPEN \<Rightarrow> Inr (lc_correlation cfg)
              | CLOSE \<Rightarrow> (case with_close_permit (it_permit_id it) (lc_correlation cfg) of
                           Inl e \<Rightarrow> Inl (WorkerValueError e) | Inr co \<Rightarrow> Inr co)) (\<lambda>co.
       rbind (restored_request it) (\<lambda>(r, q).
         guarded [(broker_order_request_sha256 H r q \<noteq> it_request_sha256 it \<or> rq_permit_id r \<noteq> it_permit_id it \<or> rq_phase r \<noteq> phase
                     \<or> rq_event_run_id r \<noteq> co_event_run_id (lc_correlation cfg)
                     \<or> rq_open_permit_id r \<noteq> co_open_permit_id (lc_correlation cfg)
                     \<or> rq_correlation_sha256 r \<noteq> correlation_sha256 H co,
                   wrej RESTART_STATE_INVALID ''recovery.intent'')]
           (Inr (r, q, the (it_broker_order_id it))))))"

section \<open>Fresh broker truth\<close>

definition require_fresh :: "lifecycle_config \<Rightarrow> datetime \<Rightarrow> string \<Rightarrow> lifecycle_reason \<Rightarrow> ('b, unit) worker_op" where
  "require_fresh cfg observed path why =
     othen (require (\<lambda>_. [(\<not> aware observed, wrej BROKER_TRUTH_MISMATCH path)]))
    (obind (worker_now cfg) (\<lambda>now.
       require (\<lambda>_.
         [(instant now < instant observed, wrej CLOCK_JUMP path),
          (instant now - instant observed > seconds (lc_truth_max_age_seconds cfg), wrej why path)])))"

definition validate_account :: "lifecycle_config \<Rightarrow> paper_account \<Rightarrow> broker_order_request \<Rightarrow> ('b, unit) worker_op" where
  "validate_account cfg a r =
     othen (require_fresh cfg (pa_observed_at a) ''account.observed_at'' LC_STALE_ACCOUNT_TRUTH)
           (require (\<lambda>_. [(pa_account_id a \<noteq> rq_account_id r \<or> pa_account_class a \<noteq> rq_account_class r
              \<or> rq_account_class r \<noteq> PAPER_ACCOUNT_CLASS \<or> rq_order_class r \<noteq> MULTI_LEG_ORDER_CLASS,
              wrej BROKER_TRUTH_MISMATCH ''account'')]))"

definition order_binding_guards :: "broker_order_request \<Rightarrow> broker_order_ack \<Rightarrow> broker_order_truth \<Rightarrow> (bool \<times> worker_error) list" where
  "order_binding_guards r ack t =
     map (\<lambda>(name, bad). (bad, wrej BROKER_TRUTH_MISMATCH (''order.'' @ name)))
       [(''order_id'', ot_order_id t \<noteq> ak_order_id ack), (''client_order_id'', ot_client_order_id t \<noteq> rq_client_order_id r),
        (''permit_id'', ot_permit_id t \<noteq> rq_permit_id r), (''open_permit_id'', ot_open_permit_id t \<noteq> rq_open_permit_id r),
        (''event_run_id'', ot_event_run_id t \<noteq> rq_event_run_id r), (''reservation_id'', ot_reservation_id t \<noteq> rq_reservation_id r),
        (''correlation_sha256'', ot_correlation_sha256 t \<noteq> rq_correlation_sha256 r),
        (''policy_sha256'', ot_policy_sha256 t \<noteq> rq_policy_sha256 r), (''snapshot_sha256'', ot_snapshot_sha256 t \<noteq> rq_snapshot_sha256 r),
        (''account_id'', ot_account_id t \<noteq> rq_account_id r), (''account_class'', ot_account_class t \<noteq> rq_account_class r),
        (''order_class'', ot_order_class t \<noteq> rq_order_class r), (''legs'', ot_legs t \<noteq> rq_legs r)]"

definition price_in_bounds :: "broker_order_request \<Rightarrow> broker_order_truth \<Rightarrow> bool" where
  "price_in_bounds r t =
     (case rq_phase r of
        OPEN \<Rightarrow> dec_lt dec_zero (ot_limit_price t) \<and> dec_le (ot_limit_price t) (rq_limit_price r)
      | CLOSE \<Rightarrow> dec_le (rq_limit_price r) (ot_limit_price t) \<and> dec_le (ot_limit_price t) dec_zero)"

definition order_truth_guards :: "broker_order_request \<Rightarrow> broker_order_ack \<Rightarrow> broker_order_truth \<Rightarrow> (bool \<times> worker_error) list" where
  "order_truth_guards r ack t =
     order_binding_guards r ack t
     @ [(ot_status t = [] \<or> ot_filled_qty t < 0 \<or> \<not> is_finite (ot_limit_price t), wrej BROKER_TRUTH_MISMATCH ''order''),
        (\<not> price_in_bounds r t, wrej BROKER_TRUTH_MISMATCH ''order.limit_price'')]"

definition validate_order_truth ::
    "lifecycle_config \<Rightarrow> broker_order_request \<Rightarrow> broker_order_ack \<Rightarrow> broker_order_truth \<Rightarrow> ('b, unit) worker_op" where
  "validate_order_truth cfg r ack t =
     othen (require_fresh cfg (ot_observed_at t) (''order.'' @ ak_order_id ack @ ''.observed_at'') STALE_BROKER_TRUTH)
           (require (\<lambda>_. order_truth_guards r ack t))"

definition position_binding_guards :: "broker_order_request \<Rightarrow> broker_order_ack \<Rightarrow> broker_position_snapshot \<Rightarrow> (bool \<times> worker_error) list" where
  "position_binding_guards r ack p =
     map (\<lambda>(name, bad). (bad, wrej BROKER_TRUTH_MISMATCH (''positions.'' @ name)))
       [(''order_id'', bp_order_id p \<noteq> ak_order_id ack), (''client_order_id'', bp_client_order_id p \<noteq> rq_client_order_id r),
        (''permit_id'', bp_permit_id p \<noteq> rq_permit_id r), (''open_permit_id'', bp_open_permit_id p \<noteq> rq_open_permit_id r),
        (''event_run_id'', bp_event_run_id p \<noteq> rq_event_run_id r), (''reservation_id'', bp_reservation_id p \<noteq> rq_reservation_id r),
        (''correlation_sha256'', bp_correlation_sha256 p \<noteq> rq_correlation_sha256 r),
        (''policy_sha256'', bp_policy_sha256 p \<noteq> rq_policy_sha256 r), (''snapshot_sha256'', bp_snapshot_sha256 p \<noteq> rq_snapshot_sha256 r),
        (''account_id'', bp_account_id p \<noteq> rq_account_id r), (''account_class'', bp_account_class p \<noteq> rq_account_class r),
        (''order_class'', bp_order_class p \<noteq> rq_order_class r), (''limit_price'', \<not> dec_eq (bp_limit_price p) (rq_limit_price r)),
        (''legs'', bp_legs p \<noteq> rq_legs r)]"

fun validate_positions :: "lifecycle_config \<Rightarrow> position_truth list \<Rightarrow> ('b, unit) worker_op" where
  "validate_positions cfg [] = oreturn ()"
| "validate_positions cfg (p # ps) =
     othen (require (\<lambda>_. [(pt_symbol p = [] \<or> \<not> is_finite (pt_qty p), wrej BROKER_TRUTH_MISMATCH ''positions'')]))
    (othen (require_fresh cfg (pt_observed_at p) (''position.'' @ pt_symbol p @ ''.observed_at'') LC_STALE_QUOTE)
           (validate_positions cfg ps))"

text \<open>
  Equality of two dicts from symbols to quantities, each built by a comprehension (the last
  of two equal keys wins) and compared with \<open>Decimal\<close> equality.
\<close>

definition same_quantities :: "(string \<times> dec) list \<Rightarrow> (string \<times> dec) list \<Rightarrow> bool" where
  "same_quantities xs ys =
     list_all (\<lambda>k. case (map_of (rev xs) k, map_of (rev ys) k) of
                     (Some a, Some b) \<Rightarrow> dec_eq a b | (None, None) \<Rightarrow> True | _ \<Rightarrow> False)
       (map fst xs @ map fst ys)"

definition opened_exactly :: "broker_order_request \<Rightarrow> position_truth list \<Rightarrow> bool" where
  "opened_exactly r ps =
     same_quantities (map (\<lambda>p. (pt_symbol p, pt_qty p)) ps)
       (map (\<lambda>l. (bl_symbol l, dec_of_int (snd (leg_position l)))) (rq_legs r))"

definition validate_position_truth ::
    "lifecycle_config \<Rightarrow> broker_order_request \<Rightarrow> broker_order_ack \<Rightarrow> broker_position_snapshot \<Rightarrow> broker_order_truth \<Rightarrow> ('b, unit) worker_op" where
  "validate_position_truth cfg r ack p t =
     othen (require_fresh cfg (bp_observed_at p) (''positions.'' @ ak_order_id ack @ ''.observed_at'') LC_STALE_QUOTE)
    (othen (require (\<lambda>_. position_binding_guards r ack p))
    (othen (validate_positions cfg (bp_positions p))
           (require (\<lambda>_. [(rq_phase r = OPEN \<and> ot_status t = FILLED_STATUS \<and> \<not> opened_exactly r (bp_positions p),
              wrej BROKER_TRUTH_MISMATCH ''positions.legs'')]))))"

definition fresh_bound_truth ::
    "'b paper_broker \<Rightarrow> lifecycle_config \<Rightarrow> broker_order_request \<Rightarrow> broker_order_ack
     \<Rightarrow> ('b, broker_order_truth \<times> broker_position_snapshot) worker_op" where
  "fresh_bound_truth B cfg r ack =
     obind (on_broker (wrej BROKER_OUTAGE ''read_account'') (pb_read_account B)) (\<lambda>account.
     obind (on_broker (wrej BROKER_OUTAGE (''read_order.'' @ ak_order_id ack)) (pb_read_order B (ak_order_id ack))) (\<lambda>t.
     obind (on_broker (wrej BROKER_OUTAGE ''read_positions'') (pb_read_positions B)) (\<lambda>p.
     othen (validate_account cfg account r)
    (othen (validate_order_truth cfg r ack t)
    (othen (validate_position_truth cfg r ack p t)
           (oreturn (t, p)))))))"

section \<open>Opening\<close>

definition record_open_transition :: "hash_function \<Rightarrow> lifecycle_config \<Rightarrow> lifecycle_state \<Rightarrow> broker_order_truth \<Rightarrow> ('b, unit) worker_op" where
  "record_open_transition H cfg st t =
     (let event = co_event_run_id (lc_correlation cfg); pid = co_open_permit_id (lc_correlation cfg);
          bad = wrej BROKER_TRUTH_MISMATCH ''open.persistence''
      in obind (worker_now cfg) (\<lambda>now.
           if st = OPEN_FILLED then
             othen (on_ledger bad (reconcile_observed_order H event pid (ot_order_id t) ''FILLED'' (dec_of_int (ot_filled_qty t))
                      (ot_observed_at t) now))
                   (on_ledger bad (mark_lifecycle_intent_reconciled pid now))
           else if st = OPEN_CANCELED then
             othen (on_ledger bad (reconcile_observed_order H event pid (ot_order_id t) ''CANCELED'' dec_zero (ot_observed_at t) now))
                   (on_ledger bad (mark_lifecycle_intent_reconciled pid now))
           else on_ledger bad (record_fill (''open-'' @ ot_order_id t) pid event (dec_of_int (ot_filled_qty t)) (state_value st)
                      (ot_observed_at t))))"

definition open_request :: "hash_function \<Rightarrow> lifecycle_config \<Rightarrow> debit_vertical_permit \<Rightarrow> broker_order_request" where
  "open_request H cfg p = order_request H cfg OPEN (permit_id p) p (lc_correlation cfg) (limit_price p) (open_legs p)"

definition require_open_allowed :: "hash_function \<Rightarrow> lifecycle_config \<Rightarrow> debit_vertical_permit \<Rightarrow> ('b, unit) worker_op" where
  "require_open_allowed H cfg p =
     othen (require (\<lambda>_. require_clocks_verified cfg @ require_paper_boundary cfg @ require_clock_scope cfg p))
    (othen (require_active_window cfg (issued_at p) (expires_at p) ''open_permit'' PERMIT_NOT_ACTIVE)
    (obind (find_by (permit_id p) ''lifecycle_intent.permit_id'' (lifecycle_intent_for_permit (permit_id p))) (\<lambda>intent.
     othen (require (\<lambda>_. [(intent \<noteq> None, wrej DUPLICATE_TICK (''open.'' @ permit_id p))]))
    (obind (worker_now cfg) (\<lambda>now.
     othen (require (\<lambda>_.
         [(\<not> aware (lk_entry_deadline_at (lc_clocks cfg)), WorkerTypeError),
          (instant (lk_entry_deadline_at (lc_clocks cfg)) < instant now, wrej ENTRY_DEADLINE_PASSED ''clocks.entry_deadline_at'')]
         @ require_mutation cfg))
    (othen (require_open_binding H cfg p)
           (require (\<lambda>s. [(permit_id p \<in> set (ws_submitted_open s), wrej DUPLICATE_TICK (''open.'' @ permit_id p))]))))))))"

definition open_position ::
    "hash_function \<Rightarrow> 'b paper_broker \<Rightarrow> lifecycle_config \<Rightarrow> debit_vertical_permit \<Rightarrow> ('b, lifecycle_state \<times> string) worker_op" where
  "open_position H B cfg p =
     (let r = open_request H cfg p
      in othen (require_open_allowed H cfg p)
        (othen (record_intent H cfg r (quantity p))
        (othen (exec (\<lambda>s. s\<lparr>ws_submitted_open := List.insert (permit_id p) (ws_submitted_open s)\<rparr>))
        (obind (on_broker (wrej BROKER_OUTAGE ''open.submit'') (pb_submit_open B r)) (\<lambda>ack.
         othen (bind_ack H cfg r ack)
        (othen (obind (worker_now cfg) (\<lambda>now.
                  on_ledger (wrej BROKER_TRUTH_MISMATCH ''open.submission'')
                    (record_submission H (rq_event_run_id r) (rq_permit_id r) (ak_order_id ack) now False)))
        (obind (fresh_bound_truth B cfg r ack) (\<lambda>(t, ps).
         let st = reduce_open_order (ot_status t) (ot_filled_qty t) (quantity p)
         in othen (record_open_transition H cfg st t) (oreturn (st, ak_order_id ack))))))))))"

section \<open>Closing\<close>

definition require_close_allowed ::
    "hash_function \<Rightarrow> lifecycle_config \<Rightarrow> debit_vertical_permit \<Rightarrow> close_permit \<Rightarrow> string \<Rightarrow> ('b, correlation_identity) worker_op" where
  "require_close_allowed H cfg p c open_order =
     (let k = lc_clocks cfg; duplicate = wrej DUPLICATE_TICK (''close.'' @ cp_permit_id c)
      in othen (require (\<lambda>_. require_clocks_verified cfg @ require_paper_boundary cfg @ require_clock_scope cfg p @ require_mutation cfg))
        (obind (worker_now cfg) (\<lambda>now.
         othen (require (\<lambda>_.
             [(\<not> aware (lk_flattening_deadline_at k), WorkerTypeError),
              (instant (lk_flattening_deadline_at k) < instant now, wrej FLATTENING_DEADLINE_PASSED ''clocks.flattening_deadline_at'')]))
        (obind (require_close_binding H cfg p c open_order) (\<lambda>co.
         othen (require (\<lambda>_.
             [(\<not> aware (lk_time_exit_at k), WorkerTypeError),
              (instant now < instant (lk_time_exit_at k), wrej CLOSE_PERMIT_UNAVAILABLE ''clocks.time_exit_at'')]))
        (othen (require_active_window cfg (cp_issued_at c) (cp_expires_at c) ''close_permit'' CLOSE_PERMIT_UNAVAILABLE)
        (obind (find_by (co_event_run_id (lc_correlation cfg)) ''lifecycle_intent.event_id''
                  (lifecycle_intent_for_event_phase (co_event_run_id (lc_correlation cfg)) CLOSE)) (\<lambda>intent.
         othen (require (\<lambda>s. [(intent \<noteq> None, duplicate), (cp_permit_id c \<in> set (ws_submitted_close s), duplicate)]))
               (oreturn co)))))))))"

definition close_request ::
    "hash_function \<Rightarrow> lifecycle_config \<Rightarrow> debit_vertical_permit \<Rightarrow> close_permit \<Rightarrow> correlation_identity \<Rightarrow> broker_option_leg list
     \<Rightarrow> broker_order_request" where
  "close_request H cfg p c co legs = order_request H cfg CLOSE (cp_permit_id c) p co (cp_limit_price c) legs"

definition close_verdict :: "broker_order_ack \<Rightarrow> lifecycle_state \<Rightarrow> position_truth list \<Rightarrow> ('b, unit) worker_op" where
  "close_verdict ack st ps =
     othen (require (\<lambda>_.
         [(st = CLOSE_PARTIAL, wrej CLOSE_ORDER_PARTIAL (''close.'' @ ak_order_id ack)),
          (st = LC_MANUAL_REQUIRED, wrej REASON_MANUAL_REQUIRED (''close.'' @ ak_order_id ack))]))
           (case ensure_no_residue ps of Inl e \<Rightarrow> oraise (WorkerRejected e) | Inr _ \<Rightarrow> oreturn ())"

definition persist_flat :: "hash_function \<Rightarrow> lifecycle_config \<Rightarrow> debit_vertical_permit \<Rightarrow> close_permit \<Rightarrow> ('b, unit) worker_op" where
  "persist_flat H cfg p c =
     (let bad = wrej BROKER_TRUTH_MISMATCH ''close.persistence''
      in othen (obind (worker_now cfg) (\<lambda>now.
                  on_ledger bad (release_consumed_after_flat H (co_event_run_id (lc_correlation cfg)) (permit_id p) now)))
               (obind (worker_now cfg) (\<lambda>now. on_ledger bad (mark_lifecycle_intent_reconciled (cp_permit_id c) now))))"

definition close_position ::
    "hash_function \<Rightarrow> 'b paper_broker \<Rightarrow> lifecycle_config \<Rightarrow> debit_vertical_permit \<Rightarrow> close_permit \<Rightarrow> string
     \<Rightarrow> ('b, lifecycle_state \<times> string) worker_op" where
  "close_position H B cfg p c open_order =
     obind (require_close_allowed H cfg p c open_order) (\<lambda>co.
     obind (result_of (close_legs p)) (\<lambda>legs.
     let r = close_request H cfg p c co legs
     in othen (record_intent H cfg r (quantity p))
       (othen (exec (\<lambda>s. s\<lparr>ws_submitted_close := List.insert (cp_permit_id c) (ws_submitted_close s)\<rparr>))
       (obind (on_broker (wrej BROKER_OUTAGE ''close.submit'') (pb_submit_close B r)) (\<lambda>ack.
        othen (bind_ack H cfg r ack)
       (obind (fresh_bound_truth B cfg r ack) (\<lambda>(t, ps).
        let st = reduce_close_order (ot_status t) (ot_filled_qty t) (bp_positions ps) (quantity p)
        in othen (close_verdict ack st (bp_positions ps))
          (othen (persist_flat H cfg p c)
                 (oreturn (st, ak_order_id ack))))))))))"

section \<open>Recovery\<close>

definition recovered_ack :: "lifecycle_config \<Rightarrow> broker_order_request \<Rightarrow> string \<Rightarrow> ('b, broker_order_ack) worker_op" where
  "recovered_ack cfg r order =
     obind (worker_now cfg) (\<lambda>now.
       oreturn \<lparr>ak_order_id = order, ak_client_order_id = rq_client_order_id r, ak_observed_at = now\<rparr>)"

definition recover_open_state ::
    "hash_function \<Rightarrow> 'b paper_broker \<Rightarrow> lifecycle_config \<Rightarrow> string \<Rightarrow> int \<Rightarrow> ('b, lifecycle_state) worker_op" where
  "recover_open_state H B cfg open_order expected_qty =
     (let pid = co_open_permit_id (lc_correlation cfg); bad = wrej RESTART_STATE_INVALID ''recovery.open_intent''
      in obind (find_by pid ''lifecycle_intent.permit_id'' (lifecycle_intent_for_permit pid)) (\<lambda>intent.
           case intent of
             None \<Rightarrow> oraise bad
           | Some it \<Rightarrow>
               obind (result_of (durable_submitted_request H cfg it OPEN)) (\<lambda>(r, q, order).
               othen (require (\<lambda>_. [(open_order \<noteq> order \<or> expected_qty \<noteq> q, bad)]))
              (obind (recovered_ack cfg r order) (\<lambda>ack.
               obind (fresh_bound_truth B cfg r ack) (\<lambda>(t, ps).
                 oreturn (reduce_open_order (ot_status t) (ot_filled_qty t) q)))))))"

definition recover_flatness :: "hash_function \<Rightarrow> 'b paper_broker \<Rightarrow> lifecycle_config \<Rightarrow> ('b, lifecycle_state) worker_op" where
  "recover_flatness H B cfg =
     (let event = co_event_run_id (lc_correlation cfg)
      in obind (find_by event ''lifecycle_intent.event_id'' (lifecycle_intent_for_event_phase event CLOSE)) (\<lambda>intent.
           case intent of
             None \<Rightarrow> oreturn LC_MANUAL_REQUIRED
           | Some it \<Rightarrow>
               obind (result_of (durable_submitted_request H cfg it CLOSE)) (\<lambda>(r, q, order).
               obind (recovered_ack cfg r order) (\<lambda>ack.
               obind (fresh_bound_truth B cfg r ack) (\<lambda>(t, ps).
                 let st = reduce_close_order (ot_status t) (ot_filled_qty t) (bp_positions ps) q
                 in oreturn (if st = CLOSED_FLAT then st else LC_MANUAL_REQUIRED))))))"

end
