(* ===== verification/Intent_Journal.thy ===== *)
theory Intent_Journal
  imports Desk
begin

text \<open>
  The durable journal of lifecycle intents: whatever the program does to the ledger, an intent
  that was recorded stays recorded, with the columns it was recorded with. Only its state, its
  broker order and its time of change move. The proof runs over the statements of every ledger
  operation with the rules of \<open>stepping\<close>, extended here by the ledger's own combinators.
\<close>

context stepping
begin

lemma transaction_rule: "triple R P m Q \<Longrightarrow> triple R P (transaction m) Q"
  unfolding triple_def by (auto simp: transaction_def stay split: prod.splits sum.splits)

lemma checked_rule: "triple R P m Q \<Longrightarrow> triple R P (checked gs m) Q"
  unfolding triple_def by (auto simp: checked_def stay split: option.splits)

lemma if_rule: "triple R P m Q \<Longrightarrow> triple R P n Q \<Longrightarrow> triple R P (if b then m else n) Q"
  by simp

lemma done_rule: "triple R P m Q \<Longrightarrow> triple R P m (\<lambda>_ _. True)"
  by (rule triple_post) simp_all

lemma guard_rule: "triple R P (require gs) (\<lambda>_ _. True)"
  by (rule done_rule [OF require_rule])

lemma ask_rule: "triple R P (query f) (\<lambda>_ _. True)"
  by (rule done_rule [OF query_rule])

lemma give_rule: "triple R P (result_of r) (\<lambda>_ _. True)"
  by (rule done_rule [OF result_rule])

lemma end_rule: "triple R P (oreturn a) (\<lambda>_ _. True)"
  by (rule return_rule) simp

lemma pure_rule: "triple R P (\<lambda>s. (f s, s)) (\<lambda>_ _. True)"
  by (auto simp: triple_def stay)

end

section \<open>What an intent keeps\<close>

definition intent_frozen :: "intent_row \<Rightarrow> intent_row" where
  "intent_frozen i = i\<lparr>it_broker_order_id := None, it_state := INTENDED, it_created_at := [], it_updated_at := []\<rparr>"

definition frozen_intents :: "ledger \<Rightarrow> intent_row set" where
  "frozen_intents db = intent_frozen ` set (lifecycle_intents db)"

definition intents_kept :: "ledger \<Rightarrow> ledger \<Rightarrow> bool" where
  "intents_kept db db' = (frozen_intents db \<subseteq> frozen_intents db')"

interpretation kept: stepping intents_kept
  by unfold_locales (auto simp: intents_kept_def)

lemma frozen_columns:
  "intent_frozen i = intent_frozen j \<Longrightarrow>
     it_permit_id i = it_permit_id j \<and> it_event_id i = it_event_id j \<and> it_phase i = it_phase j"
  by (cases i; cases j) (simp add: intent_frozen_def)

lemma kept_cong: "lifecycle_intents db' = lifecycle_intents db \<Longrightarrow> intents_kept db db'"
  by (simp add: intents_kept_def frozen_intents_def)

lemma kept_on_integrity: "triple intents_kept P m Q \<Longrightarrow> triple intents_kept P (on_integrity e m) Q"
  unfolding triple_def by (auto simp: on_integrity_def split: prod.splits sum.splits)

lemma kept_exec: "(\<And>db. intents_kept db (f db)) \<Longrightarrow> triple intents_kept P (exec f) (\<lambda>_ _. True)"
  by (simp add: triple_def exec_def)

lemma kept_update:
  "(\<And>i. intent_frozen (g i) = intent_frozen i) \<Longrightarrow>
     intents_kept db (db\<lparr>lifecycle_intents := update_where p g (lifecycle_intents db)\<rparr>)"
proof -
  assume "\<And>i. intent_frozen (g i) = intent_frozen i"
  then have "map intent_frozen (update_where p g its) = map intent_frozen its" for its by (simp add: update_where_def)
  then have "intent_frozen ` set (update_where p g its) = intent_frozen ` set its" for its by (metis set_map)
  then show ?thesis by (simp add: intents_kept_def frozen_intents_def)
qed

lemma kept_insert:
  "triple intents_kept P (insert_candidate r1) (\<lambda>_ _. True)"
  "triple intents_kept P (insert_not_run ev detail now) (\<lambda>_ _. True)"
  "triple intents_kept P (insert_reservation_row r2) (\<lambda>_ _. True)"
  "triple intents_kept P (insert_permit_row r3) (\<lambda>_ _. True)"
  "triple intents_kept P (insert_submission r4) (\<lambda>_ _. True)"
  "triple intents_kept P (insert_fill r5) (\<lambda>_ _. True)"
  "triple intents_kept P (insert_v2_row r6) (\<lambda>_ _. True)"
  "triple intents_kept P (append_passport H t payload now) (\<lambda>_ _. True)"
  "triple intents_kept P (insert_reservation rid ev amt sy now) (\<lambda>_ _. True)"
  by (auto simp: triple_def insert_candidate_def insert_not_run_def insert_reservation_row_def insert_permit_row_def
      insert_submission_def insert_fill_def insert_v2_row_def append_passport_def insert_reservation_def Let_def
      split: if_splits option.splits intro!: kept_cong)

lemma kept_insert_intent: "triple intents_kept P (insert_intent r) (\<lambda>_ _. True)"
  by (auto simp: triple_def insert_intent_def intents_kept_def frozen_intents_def)

lemma kept_bind_intent: "triple intents_kept P (bind_intent_row pid order now) (\<lambda>_ _. True)"
  by (auto simp: triple_def bind_intent_row_def kept.stay intent_frozen_def split: if_splits intro!: kept_update)

lemma kept_states:
  "intents_kept db (set_reservation_state ev rs now db)" "intents_kept db (set_permit_state pid ps now db)"
  "intents_kept db (put_control_state st d now db)"
  by (auto simp: set_reservation_state_def set_permit_state_def put_control_state_def intro!: kept_cong)

lemma kept_transition: "triple intents_kept P (transition_permit_in_transaction pid a b now) (\<lambda>_ _. True)"
  unfolding transition_permit_in_transaction_def
  by (intro kept.othen_rule [OF kept.guard_rule] kept_exec kept_states)

lemmas kept_rules = kept.checked_rule kept_on_integrity kept.transaction_rule kept.othen_rule [OF kept.guard_rule]
  kept.end_rule kept.raise_rule kept.give_rule kept.guard_rule kept_exec kept_states kept_transition
  kept_insert kept_insert_intent kept_bind_intent

lemmas kept_then = kept.othen_rule [where Q = "\<lambda>_. True"] kept.obind_rule [where Q = "\<lambda>_ _. True"]

lemma kept_operations:
  "triple intents_kept P (freeze_candidate H ev cand pol de ex mode now) (\<lambda>_ _. True)"
  "triple intents_kept P (mark_not_run H ev detail now) (\<lambda>_ _. True)"
  "triple intents_kept P (record_lifecycle_intent H it now) (\<lambda>_ _. True)"
  "triple intents_kept P (record_submission H ev pid order now w) (\<lambda>_ _. True)"
  "triple intents_kept P (record_fill fid pid ev q st t) (\<lambda>_ _. True)"
  "triple intents_kept P (release_consumed_after_flat H ev pid now) (\<lambda>_ _. True)"
  "triple intents_kept P (record_account_snapshot eq now) (\<lambda>_ _. True)"
  "triple intents_kept P (set_control_state_with_passport H c d payload now) (\<lambda>_ _. True)"
  unfolding freeze_candidate_def mark_not_run_def record_not_run_with_def record_lifecycle_intent_def record_submission_def
    record_fill_def release_consumed_after_flat_def record_account_snapshot_def set_control_state_with_passport_def
  by (auto intro!: kept_rules kept_then kept_cong)

lemma kept_authorize:
  "triple intents_kept P (reserve_and_issue_permit H ev sy cand pol de ex am agg mo me pm now) (\<lambda>_ _. True)"
  unfolding reserve_and_issue_permit_def Let_def
  by (auto intro!: kept_rules kept_then kept.pure_rule)

lemma kept_authorize_v2: "triple intents_kept P (reserve_v2_and_issue_permit H a) (\<lambda>_ _. True)"
  unfolding reserve_v2_and_issue_permit_def v2_insert_all_def Let_def
  by (auto intro!: kept_rules kept_then kept.pure_rule kept.ask_rule split: option.splits)

lemma kept_intent_operations:
  "triple intents_kept P (bind_lifecycle_intent H pid ph order now) (\<lambda>_ _. True)"
  "triple intents_kept P (mark_lifecycle_intent_reconciled pid now) (\<lambda>_ _. True)"
  unfolding bind_lifecycle_intent_def mark_lifecycle_intent_reconciled_def
  by (auto intro!: kept_rules kept_then kept.ask_rule kept_update simp: intent_frozen_def split: option.splits)

lemma kept_reconcile: "triple intents_kept P (reconcile_observed_order H ev pid order st q t now) (\<lambda>_ _. True)"
  unfolding reconcile_observed_order_def
  by (auto intro!: kept_rules kept_then split: prod.splits)

lemma kept_episodes:
  "intents_kept db (snd (append_decision_episode vs p sha db))" "intents_kept db (snd (append_outcome_episode vs p sha db))"
  "intents_kept db (snd (append_broker_truth_snapshot vs p sha db))"
  by (auto simp: append_decision_episode_def append_outcome_episode_def append_broker_truth_snapshot_def split: prod.splits
      intro!: kept_cong)

lemma snd_forget: "snd (forget m db) = snd (m db)"
  by (auto simp: forget_def split: prod.splits sum.splits)

lemma kept_snd: "triple intents_kept (\<lambda>_. True) m Q \<Longrightarrow> intents_kept db (snd (m db))"
  by (metis prod.collapse tripleD)

lemma run_command_kept: "intents_kept db (snd (run_command H c db))"
  by (cases c) (simp_all add: snd_forget kept_episodes kept_snd [OF kept_operations(1)] kept_snd [OF kept_operations(2)]
      kept_snd [OF kept_operations(3)] kept_snd [OF kept_operations(4)] kept_snd [OF kept_operations(5)]
      kept_snd [OF kept_operations(6)] kept_snd [OF kept_operations(7)] kept_snd [OF kept_operations(8)] kept_snd [OF kept_authorize]
      kept_snd [OF kept_authorize_v2] kept_snd [OF kept_intent_operations(1)] kept_snd [OF kept_intent_operations(2)]
      kept_snd [OF kept_reconcile])

lemma run_commands_kept: "intents_kept db (run_commands H cs db)"
proof (induction cs arbitrary: db)
  case Nil
  then show ?case by (simp add: run_commands_def kept.stay)
next
  case (Cons c cs)
  then show ?case using kept.chain [OF run_command_kept Cons.IH] by (simp add: run_commands_def)
qed

lemma run_commands_append: "run_commands H (cs @ ds) db = run_commands H ds (run_commands H cs db)"
  by (simp add: run_commands_def)

end
