(* ===== verification/Worker_Checks.thy ===== *)
theory Worker_Checks
  imports Worker Intent_Journal
begin

text \<open>
  The checks of the worker, once for every property. A check reads the clock and otherwise
  changes nothing, so it respects any relation that ignores the clock (locale \<open>vetting\<close>); a
  relation that also ignores the broker's readbacks is respected by the whole establishment of
  truth and by the recovery of a restarted worker (locale \<open>reading\<close>).
\<close>

definition only_clock :: "'b worker_state \<Rightarrow> 'b worker_state \<Rightarrow> bool" where
  "only_clock s s' = (s' = s\<lparr>ws_readings := ws_readings s'\<rparr>)"

lemma only_clock_simps:
  "only_clock s s' \<Longrightarrow> ws_ledger s' = ws_ledger s" "only_clock s s' \<Longrightarrow> ws_broker s' = ws_broker s"
  by (metis only_clock_def worker_state.select_convs worker_state.surjective worker_state.update_convs(3))+

lemma only_clock_trans: "only_clock a b \<Longrightarrow> only_clock b c \<Longrightarrow> only_clock a c"
  by (cases a; cases b; cases c) (simp add: only_clock_def)

lemma worker_now_clock: "worker_now cfg s = (r, s') \<Longrightarrow> only_clock s s'"
  by (auto simp: worker_now_def only_clock_def Let_def split: if_splits)

lemma worker_now_Inr:
  "worker_now cfg s = (Inr t, s') \<Longrightarrow> only_clock s s' \<and> t = lc_clock cfg (ws_readings s) \<and> aware t"
  by (auto simp: worker_now_def only_clock_def Let_def split: if_splits)

locale vetting = stepping R for R :: "'b worker_state \<Rightarrow> 'b worker_state \<Rightarrow> bool" +
  assumes clock: "only_clock s s' \<Longrightarrow> R s s'"
begin

lemma now_rule: "triple R P (worker_now cfg) (\<lambda>_ _. True)"
  unfolding triple_def using worker_now_clock clock by blast

lemmas then_steps = othen_rule [where Q = "\<lambda>_. True"] obind_rule [where Q = "\<lambda>_ _. True"]

lemma find_rule: "triple R P (find_by i path f) (\<lambda>_ _. True)"
  unfolding find_by_def by (intro then_steps guard_rule ask_rule)

lemmas step_rules = guard_rule end_rule raise_rule give_rule now_rule find_rule

lemma value_rule: "triple R P (value_of r) (\<lambda>_ _. True)"
  by (cases r) (simp_all add: value_of_def step_rules)

lemma window_rule: "triple R P (require_active_window cfg i e path why) (\<lambda>_ _. True)"
  unfolding require_active_window_def by (intro then_steps step_rules)

lemma allowed_rules:
  "triple R P (require_open_allowed H cfg p) (\<lambda>_ _. True)"
  "triple R P (require_close_allowed H cfg p c order) (\<lambda>_ _. True)"
  unfolding require_open_allowed_def require_open_binding_def require_close_allowed_def require_close_binding_def Let_def
  by (intro then_steps step_rules window_rule value_rule)+

lemma fresh_rule: "triple R P (require_fresh cfg t path why) (\<lambda>_ _. True)"
  unfolding require_fresh_def by (intro then_steps step_rules)

lemma positions_rule: "triple R P (validate_positions cfg ps) (\<lambda>_ _. True)"
  by (induction ps arbitrary: P) (auto intro!: then_steps step_rules fresh_rule)

lemma check_rules:
  "triple R P (validate_account cfg a r) (\<lambda>_ _. True)"
  "triple R P (validate_order_truth cfg r ack t) (\<lambda>_ _. True)"
  "triple R P (validate_position_truth cfg r ack ps t) (\<lambda>_ _. True)"
  unfolding validate_account_def validate_order_truth_def validate_position_truth_def
  by (intro then_steps step_rules fresh_rule positions_rule)+

lemma verdict_rule: "triple R P (close_verdict ack st ps) (\<lambda>_ _. True)"
  unfolding close_verdict_def by (cases "ensure_no_residue ps") (auto intro!: then_steps step_rules)

end

locale reading = vetting R for R :: "'b worker_state \<Rightarrow> 'b worker_state \<Rightarrow> bool" +
  fixes B :: "'b paper_broker"
  assumes reads_account: "triple R P (on_broker e (pb_read_account B)) (\<lambda>_ _. True)"
    and reads_order: "triple R P (on_broker e (pb_read_order B order)) (\<lambda>_ _. True)"
    and reads_positions: "triple R P (on_broker e (pb_read_positions B)) (\<lambda>_ _. True)"
begin

lemma truth_rule: "triple R P (fresh_bound_truth B cfg r ack) (\<lambda>_ _. True)"
  unfolding fresh_bound_truth_def
  by (intro then_steps step_rules check_rules reads_account reads_order reads_positions)

lemma recovery_rules:
  "triple R P (recover_open_state H B cfg order q) (\<lambda>_ _. True)"
  "triple R P (recover_flatness H B cfg) (\<lambda>_ _. True)"
  unfolding recover_open_state_def recover_flatness_def recovered_ack_def Let_def
  by (auto intro!: then_steps step_rules truth_rule split: option.splits prod.splits)

end

end
