(* ===== verification/Worker_Journal.thy ===== *)
theory Worker_Journal
  imports Worker_Checks
begin

text \<open>
  The worker and its broker, observed. A traced broker answers as the broker it wraps and keeps
  the list of all calls with their answers, so a statement about the trace holds for every
  broker. The worker acts on the ledger only through the ledger's commands, and it submits an
  order only after the intent for exactly that order is durable: over any sequence of
  operations, restarts and other ledger commands in between, a permit and a phase of an event
  are submitted at most once.
\<close>

section \<open>Traces\<close>

datatype broker_event =
    SubmitOpenCall broker_order_request "broker_error + broker_order_ack"
  | SubmitCloseCall broker_order_request "broker_error + broker_order_ack"
  | CancelCall string "broker_error + broker_order_ack"
  | ReadOrderCall string "broker_error + broker_order_truth"
  | ReadPositionsCall "broker_error + broker_position_snapshot"
  | ReadAccountCall "broker_error + paper_account"

type_synonym 'b observed = "'b \<times> broker_event list"

definition recording :: "(broker_error + 'a \<Rightarrow> broker_event) \<Rightarrow> ('b, 'a) broker_op \<Rightarrow> ('b observed, 'a) broker_op" where
  "recording event m w = (case m (fst w) of (res, b) \<Rightarrow> (res, (b, snd w @ [event res])))"

definition traced :: "'b paper_broker \<Rightarrow> ('b observed) paper_broker" where
  "traced B =
     \<lparr>pb_submit_open = (\<lambda>r. recording (SubmitOpenCall r) (pb_submit_open B r)),
      pb_read_order = (\<lambda>oid. recording (ReadOrderCall oid) (pb_read_order B oid)),
      pb_cancel_order = (\<lambda>oid. recording (CancelCall oid) (pb_cancel_order B oid)),
      pb_submit_close = (\<lambda>r. recording (SubmitCloseCall r) (pb_submit_close B r)),
      pb_read_positions = recording ReadPositionsCall (pb_read_positions B),
      pb_read_account = recording ReadAccountCall (pb_read_account B)\<rparr>"

abbreviation trace :: "('b observed) worker_state \<Rightarrow> broker_event list" where
  "trace s \<equiv> snd (ws_broker s)"

fun submission_of :: "broker_event \<Rightarrow> broker_order_request option" where
  "submission_of (SubmitOpenCall r _) = Some r"
| "submission_of (SubmitCloseCall r _) = Some r"
| "submission_of _ = None"

definition submissions_of :: "broker_event list \<Rightarrow> broker_order_request list" where
  "submissions_of es = List.map_filter submission_of es"

lemma submissions_of_simps [simp]:
  "submissions_of [] = []" "submissions_of (es @ fs) = submissions_of es @ submissions_of fs"
  "submissions_of [e] = (case submission_of e of None \<Rightarrow> [] | Some r \<Rightarrow> [r])"
  by (simp_all add: submissions_of_def List.map_filter_def split: option.split)

section \<open>Quiet operations\<close>

text \<open>The ledger moves by commands and the broker receives no order.\<close>

definition quiet_step :: "hash_function \<Rightarrow> ('b observed) worker_state \<Rightarrow> ('b observed) worker_state \<Rightarrow> bool" where
  "quiet_step H s s' =
     ((\<exists>cs. ws_ledger s' = run_commands H cs (ws_ledger s)) \<and> submissions_of (trace s') = submissions_of (trace s))"

lemma quiet_ledger: "\<exists>cs. db' = run_commands H cs (ws_ledger s) \<Longrightarrow> quiet_step H s (s\<lparr>ws_ledger := db'\<rparr>)"
  by (simp add: quiet_step_def)

lemma run_one: "snd (run_command H c db) = run_commands H [c] db"
  by (simp add: run_commands_def)

lemma quiet_command:
  assumes "m = run_command H c"
  shows "triple (quiet_step H) P (on_ledger e m) (\<lambda>_ _. True)"
  unfolding triple_def
proof (intro allI impI conjI TrueI)
  fix s :: "('b observed) worker_state" and r s'
  assume "on_ledger e m s = (r, s')"
  then have "s' = s\<lparr>ws_ledger := snd (run_command H c (ws_ledger s))\<rparr>"
    by (auto simp: on_ledger_def assms split: prod.splits sum.splits)
  then show "quiet_step H s s'" by (auto simp: run_one intro!: quiet_ledger)
qed

text \<open>The operations of the ledger the worker calls, as commands.\<close>

lemma quiet_commands:
  "triple (quiet_step H) P (on_ledger e (record_lifecycle_intent H it now)) (\<lambda>_ _. True)"
  "triple (quiet_step H) P (on_ledger e (bind_lifecycle_intent H pid ph order now)) (\<lambda>_ _. True)"
  "triple (quiet_step H) P (on_ledger e (record_submission H ev pid order now w)) (\<lambda>_ _. True)"
  "triple (quiet_step H) P (on_ledger e (reconcile_observed_order H ev pid order st q t now)) (\<lambda>_ _. True)"
  "triple (quiet_step H) P (on_ledger e (mark_lifecycle_intent_reconciled pid now)) (\<lambda>_ _. True)"
  "triple (quiet_step H) P (on_ledger e (record_fill fid pid ev q st t)) (\<lambda>_ _. True)"
  "triple (quiet_step H) P (on_ledger e (release_consumed_after_flat H ev pid now)) (\<lambda>_ _. True)"
  by (rule quiet_command [where c = "RecordIntent it now"], simp,
      rule quiet_command [where c = "BindIntent pid ph order now"], simp,
      rule quiet_command [where c = "RecordSubmission ev pid order now w"], simp,
      rule quiet_command [where c = "ReconcileOrder ev pid order st q t now"], simp,
      rule quiet_command [where c = "ReconcileIntent pid now"], simp,
      rule quiet_command [where c = "RecordFill fid pid ev q st t"], simp,
      rule quiet_command [where c = "ReleaseAfterFlat ev pid now"], simp)

lemma quiet_refl: "ws_ledger s' = ws_ledger s \<Longrightarrow> ws_broker s' = ws_broker s \<Longrightarrow> quiet_step H s s'"
  unfolding quiet_step_def by (metis run_commands_def foldl_Nil)

lemma quiet_read:
  assumes "\<And>res. submission_of (event res) = None"
  shows "triple (quiet_step H) P (on_broker e (recording event m)) (\<lambda>_ _. True)"
  unfolding triple_def
proof (intro allI impI conjI TrueI)
  fix s :: "('b observed) worker_state" and r s'
  assume run: "on_broker e (recording event m) s = (r, s')"
  obtain res b where "m (fst (ws_broker s)) = (res, b)" by (cases "m (fst (ws_broker s))")
  then have "s' = s\<lparr>ws_broker := (b, trace s @ [event res])\<rparr>"
    using run by (auto simp: on_broker_def recording_def split: sum.splits)
  then show "quiet_step H s s'"
    using assms by (auto simp: quiet_step_def run_commands_def intro!: exI [of _ "[]"])
qed

interpretation quietly: reading "quiet_step H" "traced B" for H B
proof
  fix a b c :: "('b observed) worker_state"
  show "quiet_step H a a" by (simp add: quiet_refl)
  show "quiet_step H a b \<Longrightarrow> quiet_step H b c \<Longrightarrow> quiet_step H a c" unfolding quiet_step_def by (metis run_commands_append)
  show "only_clock a b \<Longrightarrow> quiet_step H a b" by (simp add: quiet_refl only_clock_simps)
qed (simp_all add: traced_def quiet_read)

lemma quiet_ack: "triple (quiet_step H) P (bind_ack H cfg r ack) (\<lambda>_ _. True)"
  unfolding bind_ack_def by (intro quietly.then_steps quietly.step_rules quiet_commands)

lemma quiet_submission: "triple (quiet_step H) P (obind (worker_now cfg) (\<lambda>now. on_ledger e (record_submission H ev pid order now w))) (\<lambda>_ _. True)"
  by (intro quietly.then_steps quietly.step_rules quiet_commands)

lemma quiet_open_transition: "triple (quiet_step H) P (record_open_transition H cfg st t) (\<lambda>_ _. True)"
  unfolding record_open_transition_def Let_def
  by (intro quietly.then_steps quietly.step_rules quiet_commands quietly.if_rule)

lemma quiet_flat: "triple (quiet_step H) P (persist_flat H cfg p c) (\<lambda>_ _. True)"
  unfolding persist_flat_def Let_def by (intro quietly.then_steps quietly.step_rules quiet_commands)

section \<open>The journal\<close>

text \<open>The durable intent for exactly this request, with its bytes and its hash.\<close>

definition recorded :: "hash_function \<Rightarrow> ledger \<Rightarrow> broker_order_request \<Rightarrow> bool" where
  "recorded H db r = (\<exists>q. request_intent H r q \<in> frozen_intents db)"

definition request_key :: "broker_order_request \<Rightarrow> string \<times> intent_phase" where
  "request_key r = (rq_event_run_id r, rq_phase r)"

definition journal :: "hash_function \<Rightarrow> ('b observed) worker_state \<Rightarrow> bool" where
  "journal H s =
     ((\<forall>r \<in> set (submissions_of (trace s)). recorded H (ws_ledger s) r)
      \<and> distinct (map rq_permit_id (submissions_of (trace s))) \<and> distinct (map request_key (submissions_of (trace s))))"

text \<open>The order is recorded and neither its permit nor its phase of the event was ever submitted.\<close>

definition submittable :: "hash_function \<Rightarrow> broker_order_request \<Rightarrow> ('b observed) worker_state \<Rightarrow> bool" where
  "submittable H r s =
     (journal H s \<and> recorded H (ws_ledger s) r
      \<and> (\<forall>x \<in> set (submissions_of (trace s)). rq_permit_id x \<noteq> rq_permit_id r \<and> request_key x \<noteq> request_key r))"

definition journal_step :: "hash_function \<Rightarrow> ('b observed) worker_state \<Rightarrow> ('b observed) worker_state \<Rightarrow> bool" where
  "journal_step H s s' =
     ((\<exists>cs. ws_ledger s' = run_commands H cs (ws_ledger s)) \<and> (journal H s \<longrightarrow> journal H s'))"

interpretation journaled: stepping "journal_step H" for H
proof
  fix s :: "('b observed) worker_state"
  show "journal_step H s s" unfolding journal_step_def by (metis run_commands_def foldl_Nil)
  fix a b c :: "('b observed) worker_state"
  assume "journal_step H a b" "journal_step H b c"
  then show "journal_step H a c" unfolding journal_step_def by (metis run_commands_append)
qed

lemma recorded_kept: "recorded H db r \<Longrightarrow> intents_kept db db' \<Longrightarrow> recorded H db' r"
  by (auto simp: recorded_def intents_kept_def)

lemma quiet_journal_step: "quiet_step H s s' \<Longrightarrow> journal_step H s s'"
proof -
  assume q: "quiet_step H s s'"
  then obtain cs where cs: "ws_ledger s' = run_commands H cs (ws_ledger s)" by (auto simp: quiet_step_def)
  have "intents_kept (ws_ledger s) (ws_ledger s')" unfolding cs by (rule run_commands_kept)
  then show ?thesis using q recorded_kept unfolding quiet_step_def journal_step_def journal_def by auto
qed

lemma journal_quiet: "triple (quiet_step H) (journal H) m Q \<Longrightarrow> triple (journal_step H) (journal H) m (\<lambda>_. journal H)"
  unfolding triple_def using quiet_journal_step [of H] journal_step_def [of H] by blast

lemma journal_done: "triple (quiet_step H) (journal H) m (\<lambda>_ _. True) \<Longrightarrow> triple (journal_step H) (journal H) m (\<lambda>_ _. True)"
  by (rule journaled.done_rule [OF journal_quiet])

lemma journal_recorded:
  assumes "journal H s" "r \<in> set (submissions_of (trace s))"
  shows "\<exists>i q. i \<in> set (lifecycle_intents (ws_ledger s)) \<and> intent_frozen i = request_intent H r q"
proof -
  obtain q where "request_intent H r q \<in> intent_frozen ` set (lifecycle_intents (ws_ledger s))"
    using assms unfolding journal_def recorded_def frozen_intents_def by blast
  then show ?thesis by (metis imageE)
qed

lemma frozen_request:
  assumes "intent_frozen i = request_intent H x k"
  shows "it_permit_id i = rq_permit_id x" "it_event_id i = rq_event_run_id x" "it_phase i = rq_phase x"
  using arg_cong [OF assms, of it_permit_id] arg_cong [OF assms, of it_event_id] arg_cong [OF assms, of it_phase]
  by (simp_all add: intent_frozen_def request_intent_def)

lemma insert_intent_row:
  "insert_intent row db = (Inr u, db') \<Longrightarrow>
     \<not> list_ex (intent_clash row) (lifecycle_intents db) \<and> lifecycle_intents db' = lifecycle_intents db @ [row]"
  by (auto simp: insert_intent_def split: if_splits)

lemma passport_intents: "append_passport H t payload now db = (Inr h, db') \<Longrightarrow> lifecycle_intents db' = lifecycle_intents db"
  by (auto simp: append_passport_Inr)

lemma journal_record:
  "triple (journal_step H) (journal H) (record_intent H cfg r q) (\<lambda>_. submittable H r)"
  unfolding record_intent_def
proof (rule journaled.obind_rule [OF journal_quiet [OF quietly.now_rule]])
  fix now
  let ?m = "on_ledger (wrej DUPLICATE_TICK (''intent.'' @ rq_permit_id r)) (record_lifecycle_intent H (request_intent H r q) now)"
  show "triple (journal_step H) (journal H) ?m (\<lambda>_. submittable H r)"
    unfolding triple_def
  proof (intro allI impI conjI)
    fix s res s'
    assume j: "journal H s" and run: "?m s = (res, s')"
    show step: "journal_step H s s'" by (rule tripleD [OF journal_quiet [OF quiet_commands(1)] j run])
    fix u
    assume "res = Inr u"
    then obtain db where ok: "record_lifecycle_intent H (request_intent H r q) now (ws_ledger s) = (Inr u, db)" and s': "s' = s\<lparr>ws_ledger := db\<rparr>"
      using run by (auto simp: on_ledger_def split: prod.splits sum.splits)
    let ?row = "(request_intent H r q)\<lparr>it_broker_order_id := None, it_state := INTENDED, it_created_at := isoformat_z now,
       it_updated_at := isoformat_z now\<rparr>"
    obtain d1 h where "first_reject (intent_guards H (request_intent H r q) now) = None"
      and row: "insert_intent ?row (ws_ledger s) = (Inr (), d1)"
      and pass: "append_passport H ''ORDER_INTENDED'' (json_set (request_payload (request_intent H r q)) ''request_sha256''
         (JStr (it_request_sha256 (request_intent H r q)))) now d1 = (Inr h, db)"
      by (rule record_lifecycle_intent_Inr [OF ok])
    have clash: "\<not> list_ex (intent_clash ?row) (lifecycle_intents (ws_ledger s))"
      and intents: "lifecycle_intents db = lifecycle_intents (ws_ledger s) @ [?row]"
      using insert_intent_row [OF row] passport_intents [OF pass] by simp_all
    have "intent_frozen ?row = request_intent H r q" by (simp add: intent_frozen_def request_intent_def)
    then have "recorded H db r" using intents by (auto simp: recorded_def frozen_intents_def)
    moreover have "rq_permit_id x \<noteq> rq_permit_id r \<and> request_key x \<noteq> request_key r" if x: "x \<in> set (submissions_of (trace s))" for x
    proof -
      obtain i k where i: "i \<in> set (lifecycle_intents (ws_ledger s))" "intent_frozen i = request_intent H x k"
        using journal_recorded [OF j x] by blast
      note frozen_request [OF i(2)]
      then show ?thesis using clash i(1) by (auto simp: list_ex_iff intent_clash_def request_intent_def request_key_def)
    qed
    moreover have "journal H s'" using step j by (simp add: journal_step_def)
    ultimately show "submittable H r s'" by (simp add: submittable_def s')
  qed
qed

lemma journal_mark: "(\<And>s. ws_ledger (f s) = ws_ledger s \<and> ws_broker (f s) = ws_broker s) \<Longrightarrow>
    triple (journal_step H) (submittable H r) (exec f) (\<lambda>_. submittable H r)"
  by (auto simp: triple_def exec_def submittable_def journal_step_def journal_def run_commands_def intro!: exI [of _ "[]"])

lemma journal_submit:
  assumes "\<And>res. submission_of (event res) = Some r"
  shows "triple (journal_step H) (submittable H r) (on_broker e (recording event m)) (\<lambda>_. journal H)"
  unfolding triple_def
proof (intro allI impI)
  fix s :: "('b observed) worker_state" and res s'
  assume sub: "submittable H r s" and run: "on_broker e (recording event m) s = (res, s')"
  obtain x b where "m (fst (ws_broker s)) = (x, b)" by (cases "m (fst (ws_broker s))")
  then have s': "s' = s\<lparr>ws_broker := (b, trace s @ [event x])\<rparr>"
    using run by (auto simp: on_broker_def recording_def split: sum.splits)
  have "journal H s'" using sub assms by (auto simp: s' submittable_def journal_def)
  then show "journal_step H s s' \<and> (\<forall>a. res = Inr a \<longrightarrow> journal H s')"
    by (auto simp: journal_step_def s' run_commands_def intro!: exI [of _ "[]"])
qed

lemma journal_submits:
  "triple (journal_step H) (submittable H r) (on_broker e (pb_submit_open (traced B) r)) (\<lambda>_. journal H)"
  "triple (journal_step H) (submittable H r) (on_broker e (pb_submit_close (traced B) r)) (\<lambda>_. journal H)"
  by (simp_all add: traced_def journal_submit)

lemma quiet_opened:
  "triple (quiet_step H) P
     (othen (bind_ack H cfg r ack)
     (othen (obind (worker_now cfg) (\<lambda>now. on_ledger e (record_submission H ev pid order now w)))
     (obind (fresh_bound_truth (traced B) cfg r ack) (\<lambda>(t, ps).
        othen (record_open_transition H cfg (st t) t) (oreturn (st t, order)))))) (\<lambda>_ _. True)"
  by (intro quietly.then_steps quiet_ack quiet_submission quietly.truth_rule)
    (auto intro!: quietly.then_steps quiet_open_transition quietly.step_rules split: prod.splits)

lemma quiet_closed:
  "triple (quiet_step H) P
     (othen (bind_ack H cfg r ack)
     (obind (fresh_bound_truth (traced B) cfg r ack) (\<lambda>(t, ps).
        othen (close_verdict ack (st t ps) (bp_positions ps))
       (othen (persist_flat H cfg p c) (oreturn (st t ps, order)))))) (\<lambda>_ _. True)"
  by (intro quietly.then_steps quiet_ack quietly.truth_rule)
    (auto intro!: quietly.then_steps quietly.verdict_rule quiet_flat quietly.step_rules split: prod.splits)

lemma journal_open: "triple (journal_step H) (journal H) (open_position H (traced B) cfg p) (\<lambda>_ _. True)"
  unfolding open_position_def Let_def
  by (intro journaled.othen_rule [OF journal_quiet [OF quietly.allowed_rules(1)]] journaled.othen_rule [OF journal_record]
      journaled.othen_rule [OF journal_mark] journaled.obind_rule [OF journal_submits(1)] journal_done quiet_opened) simp

lemma journal_close: "triple (journal_step H) (journal H) (close_position H (traced B) cfg p c order) (\<lambda>_ _. True)"
  unfolding close_position_def Let_def
  by (intro journaled.obind_rule [OF journal_quiet [OF quietly.allowed_rules(2)]] journaled.then_result journaled.othen_rule [OF journal_record]
      journaled.othen_rule [OF journal_mark] journaled.obind_rule [OF journal_submits(2)] journal_done quiet_closed) simp

section \<open>Sequences of operations\<close>

text \<open>
  What may happen to one ledger and one broker: operations of workers with any configuration,
  a restart (the in-memory sets are lost), and the ledger commands of the rest of the program.
\<close>

datatype worker_command =
    OpenPosition lifecycle_config debit_vertical_permit
  | ClosePosition lifecycle_config debit_vertical_permit close_permit string
  | RecoverOpen lifecycle_config string int
  | RecoverFlat lifecycle_config
  | Restart
  | OtherCommand ledger_command

fun run_worker :: "hash_function \<Rightarrow> 'b paper_broker \<Rightarrow> worker_command \<Rightarrow> 'b worker_state \<Rightarrow> 'b worker_state" where
  "run_worker H B (OpenPosition cfg p) s = snd (open_position H B cfg p s)"
| "run_worker H B (ClosePosition cfg p c order) s = snd (close_position H B cfg p c order s)"
| "run_worker H B (RecoverOpen cfg order q) s = snd (recover_open_state H B cfg order q s)"
| "run_worker H B (RecoverFlat cfg) s = snd (recover_flatness H B cfg s)"
| "run_worker H B Restart s = s\<lparr>ws_submitted_open := [], ws_submitted_close := []\<rparr>"
| "run_worker H B (OtherCommand c) s = s\<lparr>ws_ledger := snd (run_command H c (ws_ledger s))\<rparr>"

lemma triple_snd: "triple R P m Q \<Longrightarrow> P s \<Longrightarrow> R s (snd (m s))"
  by (metis prod.collapse tripleD)

lemma run_worker_journal: "journal H s \<Longrightarrow> journal_step H s (run_worker H (traced B) c s)"
proof (cases c)
  case Restart
  then have "quiet_step H s (run_worker H (traced B) c s)" by (auto simp: quiet_step_def run_commands_def intro!: exI [of _ "[]"])
  then show ?thesis by (rule quiet_journal_step)
next
  case (OtherCommand k)
  then have "quiet_step H s (run_worker H (traced B) c s)" by (auto simp: run_one intro!: quiet_ledger)
  then show ?thesis by (rule quiet_journal_step)
qed (simp_all add: triple_snd [OF journal_open] triple_snd [OF journal_close]
  quiet_journal_step [OF triple_snd [OF quietly.recovery_rules(1) [where P = "\<lambda>_. True"]]]
  quiet_journal_step [OF triple_snd [OF quietly.recovery_rules(2) [where P = "\<lambda>_. True"]]])

lemma run_workers_journal:
  "journal H s \<Longrightarrow> journal_step H s (foldl (\<lambda>s c. run_worker H (traced B) c s) s cs)"
proof (induction cs arbitrary: s)
  case Nil
  then show ?case by (simp add: journaled.stay)
next
  case (Cons c cs)
  have "journal_step H s (run_worker H (traced B) c s)" using run_worker_journal Cons.prems .
  then show ?case using Cons journaled.chain by (simp add: journal_step_def) (metis run_commands_append)
qed

text \<open>
  C6. However the operations of workers, restarts and other uses of the ledger are interleaved
  and whatever the broker answers, an order reaches the broker only after its durable intent:
  every submission the broker ever received has its intent in the ledger, with the bytes and
  the hash of exactly that request; no permit is submitted twice, and no event is opened or
  closed twice. The ledger stays consistent and its history is only extended.
\<close>

theorem worker_submits_once:
  assumes "ledger_inv H (ws_ledger s)" "trace s = []"
  shows "let s' = foldl (\<lambda>s c. run_worker H (traced B) c s) s cs; subs = submissions_of (trace s')
    in (\<forall>r \<in> set subs. \<exists>q. \<exists>it \<in> set (lifecycle_intents (ws_ledger s')).
          it_permit_id it = rq_permit_id r \<and> it_event_id it = rq_event_run_id r \<and> it_phase it = rq_phase r
          \<and> it_request_json it = canonical_json_bytes (broker_order_request_payload r q)
          \<and> it_request_sha256 it = broker_order_request_sha256 H r q)
      \<and> distinct (map rq_permit_id subs) \<and> distinct (map (\<lambda>r. (rq_event_run_id r, rq_phase r)) subs)
      \<and> ledger_inv H (ws_ledger s') \<and> later (ws_ledger s) (ws_ledger s')"
proof -
  define s' where "s' = foldl (\<lambda>s c. run_worker H (traced B) c s) s cs"
  have "journal H s" using assms(2) by (simp add: journal_def)
  then have step: "journal_step H s s'" unfolding s'_def by (rule run_workers_journal)
  then have j: "journal H s'" using \<open>journal H s\<close> by (simp add: journal_step_def)
  obtain ks where ks: "ws_ledger s' = run_commands H ks (ws_ledger s)" using step by (auto simp: journal_step_def)
  have "\<exists>q. \<exists>it \<in> set (lifecycle_intents (ws_ledger s')).
          it_permit_id it = rq_permit_id r \<and> it_event_id it = rq_event_run_id r \<and> it_phase it = rq_phase r
          \<and> it_request_json it = canonical_json_bytes (broker_order_request_payload r q)
          \<and> it_request_sha256 it = broker_order_request_sha256 H r q" if sub: "r \<in> set (submissions_of (trace s'))" for r
  proof -
    obtain q it where it: "it \<in> set (lifecycle_intents (ws_ledger s'))" "intent_frozen it = request_intent H r q"
      using journal_recorded [OF j sub] by blast
    have "it_request_json it = canonical_json_bytes (broker_order_request_payload r q)"
      "it_request_sha256 it = broker_order_request_sha256 H r q"
      using arg_cong [OF it(2), of it_request_json] arg_cong [OF it(2), of it_request_sha256]
      by (simp_all add: intent_frozen_def request_intent_def)
    then show ?thesis using it(1) frozen_request [OF it(2)] by blast
  qed
  moreover have "ledger_inv H (ws_ledger s')" "later (ws_ledger s) (ws_ledger s')"
    using run_commands_inv [OF assms(1)] run_commands_later [OF assms(1)] by (simp_all add: ks)
  moreover have "distinct (map rq_permit_id (submissions_of (trace s')))"
    "distinct (map (\<lambda>r. (rq_event_run_id r, rq_phase r)) (submissions_of (trace s')))"
    using j by (simp_all add: journal_def request_key_def [abs_def])
  ultimately show ?thesis unfolding Let_def s'_def [symmetric] by blast
qed

end
