(* ===== verification/Worker_Truth.thy ===== *)
theory Worker_Truth
  imports Worker_Journal Kernel_Refinement
begin

text \<open>
  What the worker needs before it settles anything: the readbacks of the broker that a
  successful check establishes, and the proof that in every run, failed ones included, the
  worker moves a reservation only after such readbacks in the same call.
\<close>

section \<open>Established truth\<close>

definition order_bound :: "broker_order_request \<Rightarrow> string \<Rightarrow> broker_order_truth \<Rightarrow> bool" where
  "order_bound r order t =
     (ot_order_id t = order \<and> ot_client_order_id t = rq_client_order_id r \<and> ot_permit_id t = rq_permit_id r
      \<and> ot_open_permit_id t = rq_open_permit_id r \<and> ot_event_run_id t = rq_event_run_id r
      \<and> ot_reservation_id t = rq_reservation_id r \<and> ot_correlation_sha256 t = rq_correlation_sha256 r
      \<and> ot_policy_sha256 t = rq_policy_sha256 r \<and> ot_snapshot_sha256 t = rq_snapshot_sha256 r
      \<and> ot_account_id t = rq_account_id r \<and> ot_account_class t = rq_account_class r \<and> ot_order_class t = rq_order_class r
      \<and> ot_legs t = rq_legs r \<and> 0 \<le> ot_filled_qty t \<and> price_in_bounds r t)"

definition position_bound :: "broker_order_request \<Rightarrow> string \<Rightarrow> broker_position_snapshot \<Rightarrow> bool" where
  "position_bound r order p =
     (bp_order_id p = order \<and> bp_client_order_id p = rq_client_order_id r \<and> bp_permit_id p = rq_permit_id r
      \<and> bp_open_permit_id p = rq_open_permit_id r \<and> bp_event_run_id p = rq_event_run_id r
      \<and> bp_reservation_id p = rq_reservation_id r \<and> bp_correlation_sha256 p = rq_correlation_sha256 r
      \<and> bp_policy_sha256 p = rq_policy_sha256 r \<and> bp_snapshot_sha256 p = rq_snapshot_sha256 r
      \<and> bp_account_id p = rq_account_id r \<and> bp_account_class p = rq_account_class r \<and> bp_order_class p = rq_order_class r
      \<and> dec_eq (bp_limit_price p) (rq_limit_price r) \<and> bp_legs p = rq_legs r)"

text \<open>
  Observed no later than the \<open>n\<close>-th reading of the worker's clock, and not longer before it than
  allowed. The checks of one call take consecutive readings: the account, the order, the
  snapshot of the positions, and then each position in turn.
\<close>

definition fresh_at :: "lifecycle_config \<Rightarrow> nat \<Rightarrow> datetime \<Rightarrow> bool" where
  "fresh_at cfg n t = (aware t \<and> aware (lc_clock cfg n) \<and> instant t \<le> instant (lc_clock cfg n)
     \<and> instant (lc_clock cfg n) - instant t \<le> seconds (lc_truth_max_age_seconds cfg))"

definition truth_established ::
    "lifecycle_config \<Rightarrow> nat \<Rightarrow> broker_order_request \<Rightarrow> string \<Rightarrow> paper_account \<Rightarrow> broker_order_truth \<Rightarrow> broker_position_snapshot \<Rightarrow> bool" where
  "truth_established cfg n r order a t ps =
     (fresh_at cfg n (pa_observed_at a) \<and> fresh_at cfg (n + 1) (ot_observed_at t) \<and> fresh_at cfg (n + 2) (bp_observed_at ps)
      \<and> (\<forall>i < length (bp_positions ps). fresh_at cfg (n + 3 + i) (pt_observed_at (bp_positions ps ! i)) \<and> is_finite (pt_qty (bp_positions ps ! i)))
      \<and> pa_account_id a = rq_account_id r \<and> pa_account_class a = PAPER_ACCOUNT_CLASS
      \<and> rq_account_class r = PAPER_ACCOUNT_CLASS \<and> rq_order_class r = MULTI_LEG_ORDER_CLASS
      \<and> order_bound r order t \<and> position_bound r order ps
      \<and> (rq_phase r = OPEN \<and> ot_status t = FILLED_STATUS \<longrightarrow> opened_exactly r (bp_positions ps)))"

text \<open>How many readings of the clock a step takes when it returns.\<close>

definition advances :: "nat \<Rightarrow> ('b, 'a) worker_op \<Rightarrow> bool" where
  "advances k m = (\<forall>s a s'. m s = (Inr a, s') \<longrightarrow> ws_readings s' = ws_readings s + k)"

lemma advancesD: "advances k m \<Longrightarrow> m s = (Inr a, s') \<Longrightarrow> ws_readings s' = ws_readings s + k"
  by (simp add: advances_def)

lemma advances_now: "advances 1 (worker_now cfg)"
  by (auto simp: advances_def worker_now_def Let_def split: if_splits)

lemma order_guards_None:
  "first_reject (order_truth_guards r ack t) = None \<Longrightarrow> order_bound r (ak_order_id ack) t"
  by (simp add: order_truth_guards_def order_binding_guards_def order_bound_def)

lemma position_guards_None:
  "first_reject (position_binding_guards r ack p) = None \<Longrightarrow> position_bound r (ak_order_id ack) p"
  by (simp add: position_binding_guards_def position_bound_def)

lemma require_fresh_Inr:
  assumes "require_fresh cfg t path why s = (Inr u, s')"
  shows "only_clock s s'" "ws_readings s' = ws_readings s + 1" "fresh_at cfg (ws_readings s) t"
proof -
  obtain now s1 where now: "worker_now cfg s = (Inr now, s1)" and ok: "aware t" "s' = s1" "instant t \<le> instant now"
    "instant now - instant t \<le> seconds (lc_truth_max_age_seconds cfg)"
    using assms by (auto simp: require_fresh_def outcome_simps not_less)
  then show "only_clock s s'" "ws_readings s' = ws_readings s + 1" "fresh_at cfg (ws_readings s) t"
    using worker_now_Inr [OF now] advancesD [OF advances_now now] by (auto simp: fresh_at_def)
qed

lemma validate_positions_Inr:
  "validate_positions cfg ps s = (Inr u, s') \<Longrightarrow>
     only_clock s s' \<and> (\<forall>i < length ps. fresh_at cfg (ws_readings s + i) (pt_observed_at (ps ! i)) \<and> is_finite (pt_qty (ps ! i)))"
proof (induction ps arbitrary: s)
  case Nil
  then show ?case by (simp add: outcome_simps only_clock_def)
next
  case (Cons p ps)
  then obtain s1 where 1: "require_fresh cfg (pt_observed_at p) (''position.'' @ pt_symbol p @ ''.observed_at'') LC_STALE_QUOTE s = (Inr (), s1)"
    "is_finite (pt_qty p)" "validate_positions cfg ps s1 = (Inr u, s')" by (auto simp: outcome_simps)
  note fresh = require_fresh_Inr [OF 1(1)] and rest = Cons.IH [OF 1(3)]
  have "fresh_at cfg (ws_readings s + i) (pt_observed_at ((p # ps) ! i)) \<and> is_finite (pt_qty ((p # ps) ! i))"
    if "i < length (p # ps)" for i
    using that rest fresh 1(2) by (cases i) auto
  then show ?case using rest fresh(1) only_clock_trans by blast
qed

lemma on_broker_Inr [outcome_simps]:
  "on_broker e m s = (Inr a, s') \<longleftrightarrow> (\<exists>b. m (ws_broker s) = (Inr a, b) \<and> s' = s\<lparr>ws_broker := b\<rparr>)"
  by (auto simp: on_broker_def split: prod.splits sum.splits)

lemma on_ledger_Inr [outcome_simps]:
  "on_ledger e m s = (Inr a, s') \<longleftrightarrow> (\<exists>db. m (ws_ledger s) = (Inr a, db) \<and> s' = s\<lparr>ws_ledger := db\<rparr>)"
  by (auto simp: on_ledger_def split: prod.splits sum.splits)

lemma recording_Inr [outcome_simps]:
  "recording event m w = (Inr a, w') \<longleftrightarrow> (\<exists>b. m (fst w) = (Inr a, b) \<and> w' = (b, snd w @ [event (Inr a)]))"
  by (auto simp: recording_def split: prod.splits)

lemma broker_call_Inr:
  "on_broker e (recording event m) s = (Inr a, s') \<Longrightarrow> trace s' = trace s @ [event (Inr a)] \<and> ws_ledger s' = ws_ledger s"
  by (auto simp: outcome_simps)

lemma fresh_bound_truth_Inr:
  assumes "fresh_bound_truth (traced B) cfg r ack s = (Inr (t, ps), s')"
  shows "\<exists>a. trace s' = trace s @ [ReadAccountCall (Inr a), ReadOrderCall (ak_order_id ack) (Inr t), ReadPositionsCall (Inr ps)]
    \<and> ws_ledger s' = ws_ledger s \<and> truth_established cfg (ws_readings s) r (ak_order_id ack) a t ps"
proof -
  obtain a s1 s2 s3 s4 s5 where reads:
      "on_broker (wrej BROKER_OUTAGE ''read_account'') (recording ReadAccountCall (pb_read_account B)) s = (Inr a, s1)"
      "on_broker (wrej BROKER_OUTAGE (''read_order.'' @ ak_order_id ack))
         (recording (ReadOrderCall (ak_order_id ack)) (pb_read_order B (ak_order_id ack))) s1 = (Inr t, s2)"
      "on_broker (wrej BROKER_OUTAGE ''read_positions'') (recording ReadPositionsCall (pb_read_positions B)) s2 = (Inr ps, s3)"
    and checks: "validate_account cfg a r s3 = (Inr (), s4)" "validate_order_truth cfg r ack t s4 = (Inr (), s5)"
      "validate_position_truth cfg r ack ps t s5 = (Inr (), s')"
    using assms unfolding fresh_bound_truth_def traced_def obind_Inr othen_Inr by (auto simp: oreturn_def)
  obtain s6 s7 where pos:
    "require_fresh cfg (bp_observed_at ps) (''positions.'' @ ak_order_id ack @ ''.observed_at'') LC_STALE_QUOTE s5 = (Inr (), s6)"
    "first_reject (position_binding_guards r ack ps) = None" "validate_positions cfg (bp_positions ps) s6 = (Inr (), s')"
    "rq_phase r = OPEN \<and> ot_status t = FILLED_STATUS \<longrightarrow> opened_exactly r (bp_positions ps)"
    using checks(3) by (auto simp: validate_position_truth_def outcome_simps)
  have account: "only_clock s3 s4" "ws_readings s4 = ws_readings s3 + 1" "fresh_at cfg (ws_readings s3) (pa_observed_at a)" "pa_account_id a = rq_account_id r"
    "pa_account_class a = rq_account_class r" "rq_account_class r = PAPER_ACCOUNT_CLASS" "rq_order_class r = MULTI_LEG_ORDER_CLASS"
    using checks(1) by (auto simp: validate_account_def outcome_simps dest: require_fresh_Inr)
  have order: "only_clock s4 s5" "ws_readings s5 = ws_readings s4 + 1" "fresh_at cfg (ws_readings s4) (ot_observed_at t)" "order_bound r (ak_order_id ack) t"
    using checks(2) by (auto simp: validate_order_truth_def outcome_simps dest: require_fresh_Inr order_guards_None)
  note snap = require_fresh_Inr [OF pos(1)] and each = validate_positions_Inr [OF pos(3)]
  have "only_clock s3 s'" using only_clock_trans account(1) order(1) snap(1) each by blast
  then have same: "trace s' = trace s3" "ws_ledger s' = ws_ledger s3" using only_clock_simps by metis+
  have read: "ws_readings s3 = ws_readings s" using reads by (auto simp: on_broker_Inr)
  have at: "ws_readings s4 = ws_readings s + 1" "ws_readings s5 = ws_readings s + 2" "ws_readings s6 = ws_readings s + 3"
    using account(2) order(2) snap(2) read by simp_all
  have "truth_established cfg (ws_readings s) r (ak_order_id ack) a t ps"
    unfolding truth_established_def
    using account(3-7) order(3,4) snap(3) each position_guards_None [OF pos(2)] pos(4) unfolding at read by simp
  then show ?thesis
    using broker_call_Inr [OF reads(1)] broker_call_Inr [OF reads(2)] broker_call_Inr [OF reads(3)] same
    by (intro exI [of _ a]) simp
qed

section \<open>Readings of the clock\<close>

lemma advances_parts:
  "advances 0 (require gs)" "advances 0 (query f)" "advances 0 (result_of r)" "advances 0 (oreturn a)" "advances 0 (value_of v)"
  "advances 0 (on_ledger e m)" "advances 0 (find_by i path g)"
  by (auto simp: advances_def find_by_def value_of_def on_ledger_Inr outcome_simps split: sum.splits)

lemma advances_exec: "(\<And>s. ws_readings (f s) = ws_readings s) \<Longrightarrow> advances 0 (exec f)"
  by (auto simp: advances_def exec_def)

lemma advances_obind:
  assumes "advances j m" "\<And>a. advances k (f a)" "n = j + k"
  shows "advances n (obind m f)"
  using assms unfolding advances_def obind_Inr by fastforce

lemma advances_othen: "advances j m \<Longrightarrow> advances k m' \<Longrightarrow> n = j + k \<Longrightarrow> advances n (othen m m')"
  unfolding othen_def by (rule advances_obind)

lemmas advances_rules = advances_othen advances_obind advances_parts advances_now

text \<open>The steps before the readbacks: two readings to be allowed, then one for each record.\<close>

lemma advances_window: "advances 1 (require_active_window cfg i e path why)"
  unfolding require_active_window_def by (rule advances_rules | simp)+

lemma advances_bindings: "advances 0 (require_open_binding H cfg p)" "advances 0 (require_close_binding H cfg p c order)"
  unfolding require_open_binding_def require_close_binding_def by (rule advances_rules | simp)+

lemma advances_steps:
  "advances 2 (require_open_allowed H cfg p)" "advances 2 (require_close_allowed H cfg p c order)"
  "advances 1 (record_intent H cfg r q)" "advances 1 (bind_ack H cfg r ack)"
  "advances 1 (obind (worker_now cfg) (\<lambda>now. on_ledger e (m now)))"
  unfolding require_open_allowed_def require_close_allowed_def Let_def record_intent_def bind_ack_def
  by (rule advances_rules advances_window advances_bindings refl | simp)+

section \<open>Steps that settle nothing\<close>

text \<open>Neither the broker is called nor does a reservation or the control state move.\<close>

definition still_step :: "'b worker_state \<Rightarrow> 'b worker_state \<Rightarrow> bool" where
  "still_step s s' = (ws_broker s' = ws_broker s \<and> desk_of (ws_ledger s') = desk_of (ws_ledger s))"

interpretation still: vetting still_step
  by unfold_locales (simp_all add: still_step_def only_clock_simps)

lemma still_ledger:
  assumes "rolls_back m" "\<And>db a db'. m db = (Inr a, db') \<Longrightarrow> desk_of db' = desk_of db"
  shows "triple still_step P (on_ledger e m) (\<lambda>_ _. True)"
  unfolding triple_def
proof (intro allI impI conjI TrueI)
  fix s :: "'b worker_state" and r s'
  assume run: "on_ledger e m s = (r, s')"
  obtain x db where x: "m (ws_ledger s) = (x, db)" by (cases "m (ws_ledger s)")
  have "desk_of db = desk_of (ws_ledger s)"
  proof (cases x)
    case (Inl err)
    then show ?thesis using assms(1) x unfolding rolls_back_def by metis
  next
    case (Inr a)
    then show ?thesis using assms(2) x by blast
  qed
  then show "still_step s s'" using run x by (auto simp: on_ledger_def still_step_def split: sum.splits)
qed

lemma desk_intents:
  "record_lifecycle_intent H it now db = (Inr u, db') \<Longrightarrow> desk_of db' = desk_of db"
  "bind_lifecycle_intent H pid ph order now db = (Inr u, db') \<Longrightarrow> desk_of db' = desk_of db"
  "mark_lifecycle_intent_reconciled pid now db = (Inr u, db') \<Longrightarrow> desk_of db' = desk_of db"
  "record_fill fid pid ev q st t db = (Inr u, db') \<Longrightarrow> desk_of db' = desk_of db"
proof -
  show "desk_of db' = desk_of db" if run: "record_lifecycle_intent H it now db = (Inr u, db')"
    by (rule record_lifecycle_intent_Inr [OF run]) (auto simp: insert_intent_def split: if_splits intro!: desk_of_cong)
  show "desk_of db' = desk_of db" if run: "bind_lifecycle_intent H pid ph order now db = (Inr u, db')"
    by (rule bind_lifecycle_intent_Inr [OF run]) (auto simp: bind_intent_row_Inr intro!: desk_of_cong)
  show "desk_of db' = desk_of db" if "mark_lifecycle_intent_reconciled pid now db = (Inr u, db')"
    using that by (auto simp: mark_lifecycle_intent_reconciled_def outcome_simps intro!: desk_of_cong)
  show "desk_of db' = desk_of db" if "record_fill fid pid ev q st t db = (Inr u, db')"
    using that by (auto simp: record_fill_def outcome_simps insert_Inr intro!: desk_of_cong)
qed

lemma worker_rolls_back:
  "rolls_back (record_lifecycle_intent H it now)" "rolls_back (bind_lifecycle_intent H pid ph order now)"
  "rolls_back (mark_lifecycle_intent_reconciled pid now)" "rolls_back (record_fill fid pid ev q st t)"
  "rolls_back (record_submission H ev pid order now w)"
  by (simp_all add: record_lifecycle_intent_def bind_lifecycle_intent_def mark_lifecycle_intent_reconciled_def record_fill_def
      record_submission_def)

lemma still_commands:
  "triple still_step P (on_ledger e (record_lifecycle_intent H it now)) (\<lambda>_ _. True)"
  "triple still_step P (on_ledger e (bind_lifecycle_intent H pid ph order now)) (\<lambda>_ _. True)"
  "triple still_step P (on_ledger e (mark_lifecycle_intent_reconciled pid now)) (\<lambda>_ _. True)"
  "triple still_step P (on_ledger e (record_fill fid pid ev q st t)) (\<lambda>_ _. True)"
  "triple still_step P (on_ledger e (record_submission H ev pid order now w)) (\<lambda>_ _. True)"
  by (rule still_ledger [OF worker_rolls_back(1) desk_intents(1)], assumption,
      rule still_ledger [OF worker_rolls_back(2) desk_intents(2)], assumption,
      rule still_ledger [OF worker_rolls_back(3) desk_intents(3)], assumption,
      rule still_ledger [OF worker_rolls_back(4) desk_intents(4)], assumption,
      rule still_ledger [OF worker_rolls_back(5) desk_submission], assumption)

lemma still_mark: "(\<And>s. ws_ledger (f s) = ws_ledger s \<and> ws_broker (f s) = ws_broker s) \<Longrightarrow> triple still_step P (exec f) (\<lambda>_ _. True)"
  by (auto simp: triple_def still_step_def exec_def)

lemma still_records:
  "triple still_step P (record_intent H cfg r q) (\<lambda>_ _. True)"
  "triple still_step P (bind_ack H cfg r ack) (\<lambda>_ _. True)"
  "triple still_step P (obind (worker_now cfg) (\<lambda>now. on_ledger e (record_submission H ev pid order now w))) (\<lambda>_ _. True)"
  unfolding record_intent_def bind_ack_def by (intro still.then_steps still.step_rules still_commands)+

section \<open>Steps that settle on proof\<close>

text \<open>
  Since the \<open>n\<close>-th call of the broker the trace has only grown, and a reservation or the
  control state has moved only if the calls since then are the proof \<open>good\<close>.
\<close>

definition moves_on :: "(broker_event list \<Rightarrow> bool) \<Rightarrow> nat \<Rightarrow> ('b observed) worker_state \<Rightarrow> ('b observed) worker_state \<Rightarrow> bool" where
  "moves_on good n s s' =
     ((\<exists>es. trace s' = trace s @ es) \<and> (desk_of (ws_ledger s') = desk_of (ws_ledger s) \<or> good (drop n (trace s'))))"

locale settling =
  fixes good :: "broker_event list \<Rightarrow> bool"
  assumes extend: "good es \<Longrightarrow> good (es @ fs)"

sublocale settling \<subseteq> moves: stepping "moves_on good n" for n
proof
  fix s :: "('x observed) worker_state"
  show "moves_on good n s s" by (simp add: moves_on_def)
  fix a b c :: "('x observed) worker_state"
  assume ab: "moves_on good n a b" and bc: "moves_on good n b c"
  obtain es where es: "trace c = trace b @ es" using bc by (auto simp: moves_on_def)
  have "good (drop n (trace c))" if "good (drop n (trace b))" using extend [OF that] by (simp add: es)
  moreover have "\<exists>es. trace c = trace a @ es" using ab bc by (auto simp: moves_on_def)
  ultimately show "moves_on good n a c" using ab bc unfolding moves_on_def by metis
qed

text \<open>The calls so far, and the readings of the clock so far.\<close>

definition traced_to :: "broker_event list \<Rightarrow> nat \<Rightarrow> ('b observed) worker_state \<Rightarrow> bool" where
  "traced_to es k s = (trace s = es \<and> ws_readings s = k)"

context settling
begin

lemma still_moves:
  assumes "triple still_step (traced_to es k) m (\<lambda>_ _. True)" "advances j m"
  shows "triple (moves_on good n) (traced_to es k) m (\<lambda>_. traced_to es (k + j))"
  unfolding triple_def
proof (intro allI impI)
  fix s r s'
  assume at: "traced_to es k s" and run: "m s = (r, s')"
  have "still_step s s'" by (rule tripleD [OF assms(1) at run])
  then show "moves_on good n s s' \<and> (\<forall>a. r = Inr a \<longrightarrow> traced_to es (k + j) s')"
    using at run advancesD [OF assms(2)] by (auto simp: still_step_def moves_on_def traced_to_def)
qed

lemma check_moves:
  assumes "triple still_step (\<lambda>s. trace s = es) m (\<lambda>_ _. True)"
  shows "triple (moves_on good n) (\<lambda>s. trace s = es) m (\<lambda>_ s. trace s = es)"
  unfolding triple_def
proof (intro allI impI)
  fix s r s'
  assume at: "trace s = es" and run: "m s = (r, s')"
  have "still_step s s'" by (rule tripleD [OF assms at run])
  then show "moves_on good n s s' \<and> (\<forall>a. r = Inr a \<longrightarrow> trace s' = es)" using at by (simp add: still_step_def moves_on_def)
qed

lemma call_moves:
  "triple (moves_on good n) (traced_to es k) (on_broker e (recording event m)) (\<lambda>a. traced_to (es @ [event (Inr a)]) k)"
  "triple (moves_on good n) (\<lambda>s. trace s = es) (on_broker e (recording event m)) (\<lambda>a s. trace s = es @ [event (Inr a)])"
  by (auto simp: triple_def moves_on_def traced_to_def on_broker_def recording_def split: prod.splits sum.splits)

lemma truth_steps:
  "triple (moves_on good n) (\<lambda>s. trace s = es) (fresh_bound_truth (traced B) cfg r ack) (\<lambda>_ _. True)"
  unfolding fresh_bound_truth_def traced_def
  by (simp, intro moves.obind_rule [OF call_moves(2)] moves.othen_rule [OF check_moves [OF still.check_rules(1)]]
      moves.othen_rule [OF check_moves [OF still.check_rules(2)]] moves.othen_rule [OF check_moves [OF still.check_rules(3)]] moves.end_rule)

lemma truth_moves:
  "triple (moves_on good n) (traced_to es k) (fresh_bound_truth (traced B) cfg r ack)
     (\<lambda>(t, ps) s. \<exists>a. trace s = es @ [ReadAccountCall (Inr a), ReadOrderCall (ak_order_id ack) (Inr t), ReadPositionsCall (Inr ps)]
        \<and> truth_established cfg k r (ak_order_id ack) a t ps)"
  using truth_steps [of n es B cfg r ack] fresh_bound_truth_Inr [of B cfg r ack]
  unfolding triple_def traced_to_def by (fastforce split: prod.splits)

text \<open>Once the proof is on the trace, the ledger may move.\<close>

lemma proven_ledger: "triple (moves_on good n) (\<lambda>s. good (drop n (trace s))) (on_ledger e m) (\<lambda>_ s. good (drop n (trace s)))"
  by (auto simp: triple_def moves_on_def on_ledger_def split: prod.splits sum.splits)

lemma proven_now: "triple (moves_on good n) (\<lambda>s. good (drop n (trace s))) (worker_now cfg) (\<lambda>_ s. good (drop n (trace s)))"
  by (auto simp: triple_def moves_on_def worker_now_def Let_def split: if_splits)

lemma still_proven:
  "triple still_step (\<lambda>_. True) m (\<lambda>_ _. True) \<Longrightarrow>
     triple (moves_on good n) (\<lambda>s. good (drop n (trace s))) m (\<lambda>_ s. good (drop n (trace s)))"
  unfolding triple_def still_step_def moves_on_def by auto

end

end
