(* ===== verification/Worker_Properties.thy ===== *)
theory Worker_Properties
  imports Worker_Truth
begin

text \<open>
  The properties of the lifecycle worker in its normal course: what settles a reservation and what its answers mean.
\<close>

section \<open>Proofs that settle\<close>

definition open_proof :: "hash_function \<Rightarrow> lifecycle_config \<Rightarrow> nat \<Rightarrow> debit_vertical_permit \<Rightarrow> broker_event list \<Rightarrow> bool" where
  "open_proof H cfg k p es =
     (\<exists>ack a t ps more. es = [SubmitOpenCall (open_request H cfg p) (Inr ack), ReadAccountCall (Inr a),
          ReadOrderCall (ak_order_id ack) (Inr t), ReadPositionsCall (Inr ps)] @ more
        \<and> truth_established cfg k (open_request H cfg p) (ak_order_id ack) a t ps
        \<and> reduce_open_order (ot_status t) (ot_filled_qty t) (quantity p) \<in> {OPEN_FILLED, OPEN_CANCELED})"

definition close_proof :: "hash_function \<Rightarrow> lifecycle_config \<Rightarrow> nat \<Rightarrow> debit_vertical_permit \<Rightarrow> close_permit \<Rightarrow> broker_event list \<Rightarrow> bool" where
  "close_proof H cfg k p c es =
     (\<exists>co legs ack a t ps more. es = [SubmitCloseCall (close_request H cfg p c co legs) (Inr ack), ReadAccountCall (Inr a),
          ReadOrderCall (ak_order_id ack) (Inr t), ReadPositionsCall (Inr ps)] @ more
        \<and> truth_established cfg k (close_request H cfg p c co legs) (ak_order_id ack) a t ps
        \<and> ot_status t = FILLED_STATUS \<and> ot_filled_qty t = quantity p \<and> positions_flat (bp_positions ps))"

interpretation entry: settling "open_proof H cfg k p" for H cfg k p
proof
  fix es fs
  assume "open_proof H cfg k p es"
  then show "open_proof H cfg k p (es @ fs)" unfolding open_proof_def by fastforce
qed

interpretation leave: settling "close_proof H cfg k p c" for H cfg k p c
proof
  fix es fs
  assume "close_proof H cfg k p c es"
  then show "close_proof H cfg k p c (es @ fs)" unfolding close_proof_def by fastforce
qed

lemma opening_transition:
  "triple (moves_on (open_proof H cfg k p) n)
     (\<lambda>s. st \<in> {OPEN_FILLED, OPEN_CANCELED} \<longrightarrow> open_proof H cfg k p (drop n (trace s))) (record_open_transition H cfg st t) (\<lambda>_ _. True)"
proof (cases "st \<in> {OPEN_FILLED, OPEN_CANCELED}")
  case True
  then have pre: "(\<lambda>s. st \<in> {OPEN_FILLED, OPEN_CANCELED} \<longrightarrow> open_proof H cfg k p (drop n (trace s)))
      = (\<lambda>s. open_proof H cfg k p (drop n (trace s)))" by auto
  show ?thesis
    unfolding pre record_open_transition_def Let_def
    by (intro entry.moves.obind_rule [OF entry.proven_now] entry.moves.if_rule
        entry.moves.othen_rule [OF entry.proven_ledger] entry.moves.done_rule [OF entry.proven_ledger])
next
  case False
  have "triple still_step P (record_open_transition H cfg st t) (\<lambda>_ _. True)" for P :: "('b observed) worker_state \<Rightarrow> bool"
    using False unfolding record_open_transition_def Let_def by (auto intro!: still.then_steps still.step_rules still_commands)
  then show ?thesis unfolding triple_def still_step_def moves_on_def by auto
qed

lemma open_moves:
  "triple (moves_on (open_proof H cfg (k + 5) p) (length es)) (traced_to es k) (open_position H (traced B) cfg p) (\<lambda>_ _. True)"
  unfolding open_position_def Let_def
proof (intro entry.moves.othen_rule [OF entry.still_moves [OF still.allowed_rules(1) advances_steps(1)]]
    entry.moves.othen_rule [OF entry.still_moves [OF still_records(1) advances_steps(3)]] entry.moves.othen_rule [OF entry.still_moves [OF still_mark advances_exec]])
  let ?r = "open_request H cfg p"
  show "triple (moves_on (open_proof H cfg (k + 5) p) (length es)) (traced_to es (k + 2 + 1 + 0))
     (obind (on_broker (wrej BROKER_OUTAGE ''open.submit'') (pb_submit_open (traced B) ?r)) (\<lambda>ack.
      othen (bind_ack H cfg ?r ack)
     (othen (obind (worker_now cfg) (\<lambda>now. on_ledger (wrej BROKER_TRUTH_MISMATCH ''open.submission'')
               (record_submission H (rq_event_run_id ?r) (rq_permit_id ?r) (ak_order_id ack) now False)))
     (obind (fresh_bound_truth (traced B) cfg ?r ack) (\<lambda>(t, ps).
        othen (record_open_transition H cfg (reduce_open_order (ot_status t) (ot_filled_qty t) (quantity p)) t)
          (oreturn (reduce_open_order (ot_status t) (ot_filled_qty t) (quantity p), ak_order_id ack))))))) (\<lambda>_ _. True)"
    (is "triple ?R _ (obind ?submit ?rest) _")
  proof (rule entry.moves.obind_rule)
    show "triple ?R (traced_to es (k + 2 + 1 + 0)) ?submit (\<lambda>ack. traced_to (es @ [SubmitOpenCall ?r (Inr ack)]) (k + 2 + 1 + 0))"
      unfolding traced_def by (simp add: entry.call_moves(1))
    fix ack
    show "triple ?R (traced_to (es @ [SubmitOpenCall ?r (Inr ack)]) (k + 2 + 1 + 0)) (?rest ack) (\<lambda>_ _. True)"
    proof (intro entry.moves.othen_rule [OF entry.still_moves [OF still_records(2) advances_steps(4)]]
        entry.moves.othen_rule [OF entry.still_moves [OF still_records(3) advances_steps(5)]] entry.moves.obind_rule [OF entry.truth_moves])
      fix tp :: "broker_order_truth \<times> broker_position_snapshot"
      obtain t ps where tp: "tp = (t, ps)" by (cases tp)
      let ?st = "reduce_open_order (ot_status t) (ot_filled_qty t) (quantity p)"
      let ?P = "\<lambda>s :: ('b observed) worker_state. \<exists>a. trace s = (es @ [SubmitOpenCall ?r (Inr ack)])
          @ [ReadAccountCall (Inr a), ReadOrderCall (ak_order_id ack) (Inr t), ReadPositionsCall (Inr ps)]
          \<and> truth_established cfg (k + 2 + 1 + 0 + 1 + 1) ?r (ak_order_id ack) a t ps"
      have "triple ?R ?P (othen (record_open_transition H cfg ?st t) (oreturn (?st, ak_order_id ack))) (\<lambda>_ _. True)"
      proof (rule entry.moves.othen_rule [OF triple_pre [OF opening_transition] entry.moves.end_rule])
        fix s
        assume "?P s"
        then show "?st \<in> {OPEN_FILLED, OPEN_CANCELED} \<longrightarrow> open_proof H cfg (k + 5) p (drop (length es) (trace s))"
          unfolding open_proof_def by (auto simp: numeral_eq_Suc)
      qed
      then show "triple ?R ((\<lambda>(t, ps) s. \<exists>a. trace s = (es @ [SubmitOpenCall ?r (Inr ack)])
          @ [ReadAccountCall (Inr a), ReadOrderCall (ak_order_id ack) (Inr t), ReadPositionsCall (Inr ps)]
          \<and> truth_established cfg (k + 2 + 1 + 0 + 1 + 1) ?r (ak_order_id ack) a t ps) tp)
        (case tp of (t, ps) \<Rightarrow> othen (record_open_transition H cfg (reduce_open_order (ot_status t) (ot_filled_qty t) (quantity p)) t)
          (oreturn (reduce_open_order (ot_status t) (ot_filled_qty t) (quantity p), ak_order_id ack))) (\<lambda>_ _. True)"
        by (simp add: tp)
    qed
  qed
qed simp_all

lemma verdict_flat:
  "close_verdict ack (reduce_close_order st f ps q) ps s = (Inr u, s') \<Longrightarrow>
     reduce_close_order st f ps q = CLOSED_FLAT \<and> s' = s"
  by (auto simp: close_verdict_def outcome_simps reduce_close_order_def Let_def ensure_no_residue_def guarded_def
      split: if_splits sum.splits)

lemma flat_truth: "reduce_close_order st f ps q = CLOSED_FLAT \<Longrightarrow> st = FILLED_STATUS \<and> f = q \<and> positions_flat ps"
  by (auto simp: reduce_close_order_def positions_flat_def Let_def filter_empty_conv list_all_iff split: if_splits)

lemma closing_transition:
  "triple (moves_on (close_proof H cfg k p c) n)
     (\<lambda>s. reduce_close_order st f ps q = CLOSED_FLAT \<longrightarrow> close_proof H cfg k p c (drop n (trace s)))
     (othen (close_verdict ack (reduce_close_order st f ps q) ps) (othen (persist_flat H cfg p c) (oreturn x))) (\<lambda>_ _. True)"
proof (rule leave.moves.othen_rule)
  show "triple (moves_on (close_proof H cfg k p c) n)
     (\<lambda>s. reduce_close_order st f ps q = CLOSED_FLAT \<longrightarrow> close_proof H cfg k p c (drop n (trace s)))
     (close_verdict ack (reduce_close_order st f ps q) ps) (\<lambda>_ s. close_proof H cfg k p c (drop n (trace s)))"
    unfolding triple_def
  proof (intro allI impI)
    fix s r s'
    assume pre: "reduce_close_order st f ps q = CLOSED_FLAT \<longrightarrow> close_proof H cfg k p c (drop n (trace s))"
      and run: "close_verdict ack (reduce_close_order st f ps q) ps s = (r, s')"
    have "still_step s s'" by (rule tripleD [OF still.verdict_rule [where P = "\<lambda>_. True"] _ run]) simp
    moreover have "close_proof H cfg k p c (drop n (trace s'))" if "r = Inr u" for u
      using verdict_flat run pre that by metis
    ultimately show "moves_on (close_proof H cfg k p c) n s s' \<and> (\<forall>a. r = Inr a \<longrightarrow> close_proof H cfg k p c (drop n (trace s')))"
      by (auto simp: still_step_def moves_on_def)
  qed
  have settle: "triple (moves_on (close_proof H cfg k p c) n) (\<lambda>s. close_proof H cfg k p c (drop n (trace s)))
     (obind (worker_now cfg) (\<lambda>now. on_ledger e (m now))) (\<lambda>_ s. close_proof H cfg k p c (drop n (trace s)))" for e and m :: "datetime \<Rightarrow> unit ledger_op"
    by (rule leave.moves.obind_rule [OF leave.proven_now leave.proven_ledger])
  show "triple (moves_on (close_proof H cfg k p c) n) (\<lambda>s. close_proof H cfg k p c (drop n (trace s)))
     (othen (persist_flat H cfg p c) (oreturn x)) (\<lambda>_ _. True)"
    unfolding persist_flat_def Let_def
    by (rule leave.moves.othen_rule [OF leave.moves.othen_rule [OF settle settle] leave.moves.end_rule])
qed

lemma close_moves:
  "triple (moves_on (close_proof H cfg (k + 4) p c) (length es)) (traced_to es k) (close_position H (traced B) cfg p c order) (\<lambda>_ _. True)"
  unfolding close_position_def Let_def
proof (intro leave.moves.obind_rule [OF leave.still_moves [OF still.allowed_rules(2) advances_steps(2)]] leave.moves.then_result
    leave.moves.othen_rule [OF leave.still_moves [OF still_records(1) advances_steps(3)]] leave.moves.othen_rule [OF leave.still_moves [OF still_mark advances_exec]])
  fix co legs
  have at: "k + 4 = k + 2 + 1 + 0 + 1" by simp
  let ?r = "close_request H cfg p c co legs"
  show "triple (moves_on (close_proof H cfg (k + 4) p c) (length es)) (traced_to es (k + 2 + 1 + 0))
     (obind (on_broker (wrej BROKER_OUTAGE ''close.submit'') (pb_submit_close (traced B) ?r)) (\<lambda>ack.
      othen (bind_ack H cfg ?r ack)
     (obind (fresh_bound_truth (traced B) cfg ?r ack) (\<lambda>(t, ps).
        othen (close_verdict ack (reduce_close_order (ot_status t) (ot_filled_qty t) (bp_positions ps) (quantity p)) (bp_positions ps))
       (othen (persist_flat H cfg p c)
          (oreturn (reduce_close_order (ot_status t) (ot_filled_qty t) (bp_positions ps) (quantity p), ak_order_id ack))))))) (\<lambda>_ _. True)"
    (is "triple ?R _ (obind ?submit ?rest) _")
  proof (rule leave.moves.obind_rule)
    show "triple ?R (traced_to es (k + 2 + 1 + 0)) ?submit (\<lambda>ack. traced_to (es @ [SubmitCloseCall ?r (Inr ack)]) (k + 2 + 1 + 0))"
      unfolding traced_def by (simp add: leave.call_moves(1))
    fix ack
    show "triple ?R (traced_to (es @ [SubmitCloseCall ?r (Inr ack)]) (k + 2 + 1 + 0)) (?rest ack) (\<lambda>_ _. True)"
    proof (intro leave.moves.othen_rule [OF leave.still_moves [OF still_records(2) advances_steps(4)]] leave.moves.obind_rule [OF leave.truth_moves])
      fix tp :: "broker_order_truth \<times> broker_position_snapshot"
      obtain t ps where tp: "tp = (t, ps)" by (cases tp)
      let ?st = "reduce_close_order (ot_status t) (ot_filled_qty t) (bp_positions ps) (quantity p)"
      let ?P = "\<lambda>s :: ('b observed) worker_state. \<exists>a. trace s = (es @ [SubmitCloseCall ?r (Inr ack)])
          @ [ReadAccountCall (Inr a), ReadOrderCall (ak_order_id ack) (Inr t), ReadPositionsCall (Inr ps)]
          \<and> truth_established cfg (k + 2 + 1 + 0 + 1) ?r (ak_order_id ack) a t ps"
      have "triple ?R ?P (othen (close_verdict ack ?st (bp_positions ps)) (othen (persist_flat H cfg p c) (oreturn (?st, ak_order_id ack)))) (\<lambda>_ _. True)"
      proof (rule triple_pre [OF closing_transition])
        fix s
        assume "?P s"
        then show "?st = CLOSED_FLAT \<longrightarrow> close_proof H cfg (k + 4) p c (drop (length es) (trace s))"
          using flat_truth unfolding close_proof_def at by fastforce
      qed
      then show "triple ?R ((\<lambda>(t, ps) s. \<exists>a. trace s = (es @ [SubmitCloseCall ?r (Inr ack)])
          @ [ReadAccountCall (Inr a), ReadOrderCall (ak_order_id ack) (Inr t), ReadPositionsCall (Inr ps)]
          \<and> truth_established cfg (k + 2 + 1 + 0 + 1) ?r (ak_order_id ack) a t ps) tp)
        (case tp of (t, ps) \<Rightarrow> othen (close_verdict ack (reduce_close_order (ot_status t) (ot_filled_qty t) (bp_positions ps) (quantity p)) (bp_positions ps))
          (othen (persist_flat H cfg p c)
            (oreturn (reduce_close_order (ot_status t) (ot_filled_qty t) (bp_positions ps) (quantity p), ak_order_id ack)))) (\<lambda>_ _. True)"
        by (simp add: tp)
    qed
  qed
qed simp_all

text \<open>
  C2. In every run of the worker, failed ones included, the reservation of an event moves only
  on proof. If an opening or a closing changes the state of any reservation, then in that same call the
  broker acknowledged the order, and readbacks of the PAPER account, of the order and of
  the positions followed, all bound to exactly the submitted request: for an opening a
  complete fill or an unfilled end of the order, for a closing a complete fill with no position
  left. Each readback is fresh at the reading of the clock that this call took to check it: an opening takes five readings before
  the checks and a closing four, then one each for the account, the order, the snapshot and every position.
\<close>

theorem settled_only_on_proof:
  "(open_position H (traced B) cfg p s = (res, s') \<longrightarrow> desk_of (ws_ledger s') \<noteq> desk_of (ws_ledger s) \<longrightarrow>
      (\<exists>es. trace s' = trace s @ es \<and> open_proof H cfg (ws_readings s + 5) p es))
   \<and> (close_position H (traced B) cfg p c order s = (res, s') \<longrightarrow> desk_of (ws_ledger s') \<noteq> desk_of (ws_ledger s) \<longrightarrow>
      (\<exists>es. trace s' = trace s @ es \<and> close_proof H cfg (ws_readings s + 4) p c es))"
proof (intro conjI impI)
  assume run: "open_position H (traced B) cfg p s = (res, s')" and moved: "desk_of (ws_ledger s') \<noteq> desk_of (ws_ledger s)"
  have "moves_on (open_proof H cfg (ws_readings s + 5) p) (length (trace s)) s s'"
    by (rule tripleD [OF open_moves _ run]) (simp add: traced_to_def)
  then show "\<exists>es. trace s' = trace s @ es \<and> open_proof H cfg (ws_readings s + 5) p es"
    using moved unfolding moves_on_def by auto
next
  assume run: "close_position H (traced B) cfg p c order s = (res, s')" and moved: "desk_of (ws_ledger s') \<noteq> desk_of (ws_ledger s)"
  have "moves_on (close_proof H cfg (ws_readings s + 4) p c) (length (trace s)) s s'"
    by (rule tripleD [OF close_moves _ run]) (simp add: traced_to_def)
  then show "\<exists>es. trace s' = trace s @ es \<and> close_proof H cfg (ws_readings s + 4) p c es"
    using moved unfolding moves_on_def by auto
qed

section \<open>What the answers mean\<close>

lemma traced_submit:
  "pb_submit_open (traced B) r = recording (SubmitOpenCall r) (pb_submit_open B r)"
  "pb_submit_close (traced B) r = recording (SubmitCloseCall r) (pb_submit_close B r)"
  by (simp_all add: traced_def)

lemma find_by_Inr: "find_by i path f s = (Inr a, s') \<longleftrightarrow> exact_text i \<and> a = f (ws_ledger s) \<and> s' = s"
  by (auto simp: find_by_def outcome_simps)

lemma still_Inr:
  assumes "\<And>P. triple still_step P m (\<lambda>_ _. True)" "m s = (r, s')"
  shows "ws_broker s' = ws_broker s" "desk_of (ws_ledger s') = desk_of (ws_ledger s)"
proof -
  have "still_step s s'" by (rule tripleD [OF assms(1) [of "\<lambda>_. True"] _ assms(2)]) simp
  then show "ws_broker s' = ws_broker s" "desk_of (ws_ledger s') = desk_of (ws_ledger s)" by (simp_all add: still_step_def)
qed

lemma window_Inr: "require_active_window cfg i e path why s = (Inr u, s') \<Longrightarrow> only_clock s s'"
  by (auto simp: require_active_window_def outcome_simps dest!: worker_now_Inr)

lemma open_binding_Inr:
  assumes "require_open_binding H cfg p s = (Inr u, s')"
  shows "event_run_id p = co_event_run_id (lc_correlation cfg)" "permit_id p = co_open_permit_id (lc_correlation cfg)"
    "snd (desk_of (ws_ledger s)) (event_run_id p) = Some RESERVED" "s' = s"
  using assms
  by (auto simp: require_open_binding_def outcome_simps find_by_Inr open_identity_guards_def Let_def open_binding_ok_def desk_of_def
      split: option.splits)

lemma open_allowed_Inr:
  assumes "require_open_allowed H cfg p s = (Inr u, s')"
  shows "lc_mutation_permitted cfg" "event_run_id p = co_event_run_id (lc_correlation cfg)"
    "permit_id p = co_open_permit_id (lc_correlation cfg)" "snd (desk_of (ws_ledger s)) (event_run_id p) = Some RESERVED"
proof -
  obtain s1 s2 now v w where steps:
    "require_active_window cfg (issued_at p) (expires_at p) ''open_permit'' PERMIT_NOT_ACTIVE s = (Inr v, s1)"
    "worker_now cfg s1 = (Inr now, s2)" "lc_mutation_permitted cfg" "require_open_binding H cfg p s2 = (Inr w, s')"
    using assms by (auto simp: require_open_allowed_def outcome_simps find_by_Inr require_mutation_def first_reject_append split: option.splits)
  have same: "ws_ledger s2 = ws_ledger s"
    using window_Inr [OF steps(1)] worker_now_Inr [OF steps(2)] only_clock_simps(1) by metis
  show "lc_mutation_permitted cfg" by (rule steps(3))
  show "event_run_id p = co_event_run_id (lc_correlation cfg)" "permit_id p = co_open_permit_id (lc_correlation cfg)"
    "snd (desk_of (ws_ledger s)) (event_run_id p) = Some RESERVED"
    using open_binding_Inr [OF steps(4)] by (simp_all add: same)
qed

text \<open>The state of the reservation that an answer of the opening stands for.\<close>

fun opened_reservation :: "lifecycle_state \<Rightarrow> reservation_state" where
  "opened_reservation OPEN_FILLED = CONSUMED"
| "opened_reservation OPEN_CANCELED = RELEASED"
| "opened_reservation _ = RESERVED"

lemma open_transition_Inr:
  assumes "record_open_transition H cfg st t s = (Inr u, s')" "ev = co_event_run_id (lc_correlation cfg)"
    "snd (desk_of (ws_ledger s)) ev = Some RESERVED"
  shows "snd (desk_of (ws_ledger s')) ev = Some (opened_reservation st)" "ws_broker s' = ws_broker s"
proof -
  let ?pid = "co_open_permit_id (lc_correlation cfg)"
  have "snd (desk_of (ws_ledger s')) ev = Some (opened_reservation st) \<and> ws_broker s' = ws_broker s"
  proof (cases "st = OPEN_FILLED \<or> st = OPEN_CANCELED")
    case True
    then obtain s1 now status q db1 db2 where now: "worker_now cfg s = (Inr now, s1)"
      and settle: "reconcile_observed_order H ev ?pid (ot_order_id t) status q (ot_observed_at t) now (ws_ledger s1) = (Inr (), db1)"
      and mark: "mark_lifecycle_intent_reconciled ?pid now db1 = (Inr (), db2)" and s': "s' = s1\<lparr>ws_ledger := db2\<rparr>"
      and status: "status = (if st = OPEN_FILLED then ''FILLED'' else ''CANCELED'')" "st = OPEN_CANCELED \<Longrightarrow> q = dec_zero"
      using assms(1) by (auto simp: record_open_transition_def Let_def outcome_simps assms(2) split: if_splits)
    obtain ps rs et where ts: "terminal_states ?pid status q = Inr (ps, rs, et)"
      and db1: "desk_of db1 = (fst (desk_of (ws_ledger s1)), (snd (desk_of (ws_ledger s1)))(ev \<mapsto> rs))"
      using settle by (rule desk_reconcile_exact)
    have "rs = opened_reservation st" using ts status True by (auto simp: terminal_states_def split: if_splits)
    moreover have "desk_of db2 = desk_of db1" using desk_intents(3) [OF mark] .
    moreover have "ws_broker s1 = ws_broker s" using worker_now_Inr [OF now] only_clock_simps(2) by blast
    ultimately show ?thesis by (simp add: s' db1)
  next
    case False
    have "triple still_step P (record_open_transition H cfg st t) (\<lambda>_ _. True)" for P :: "'b worker_state \<Rightarrow> bool"
      using False unfolding record_open_transition_def Let_def by (auto intro!: still.then_steps still.step_rules still_commands)
    note still = still_Inr [OF this assms(1)]
    have "opened_reservation st = RESERVED" using False by (cases st) simp_all
    then show ?thesis using still assms(3) by simp
  qed
  then show "snd (desk_of (ws_ledger s')) ev = Some (opened_reservation st)" "ws_broker s' = ws_broker s" by blast+
qed

lemma open_Inr:
  assumes "open_position H (traced B) cfg p s = (Inr (st, oid), s')"
  shows "\<exists>ack a t ps. oid = ak_order_id ack \<and> st = reduce_open_order (ot_status t) (ot_filled_qty t) (quantity p)
    \<and> trace s' = trace s @ [SubmitOpenCall (open_request H cfg p) (Inr ack), ReadAccountCall (Inr a), ReadOrderCall oid (Inr t), ReadPositionsCall (Inr ps)]
    \<and> truth_established cfg (ws_readings s + 5) (open_request H cfg p) oid a t ps"
    "snd (desk_of (ws_ledger s)) (event_run_id p) = Some RESERVED"
    "snd (desk_of (ws_ledger s')) (event_run_id p) = Some (opened_reservation st)"
proof -
  let ?r = "open_request H cfg p"
  obtain s1 s2 s3 s4 s5 s6 s7 s8 ack t ps now u1 u2 u4 u5 u6 where allowed: "require_open_allowed H cfg p s = (Inr u1, s1)"
    and intent: "record_intent H cfg ?r (quantity p) s1 = (Inr u2, s2)"
    and s3: "s3 = s2\<lparr>ws_submitted_open := List.insert (permit_id p) (ws_submitted_open s2)\<rparr>"
    and submit: "on_broker (wrej BROKER_OUTAGE ''open.submit'') (recording (SubmitOpenCall ?r) (pb_submit_open B ?r)) s3 = (Inr ack, s4)"
    and ack: "bind_ack H cfg ?r ack s4 = (Inr u4, s5)"
    and sub: "worker_now cfg s5 = (Inr now, s8)" "on_ledger (wrej BROKER_TRUTH_MISMATCH ''open.submission'')
         (record_submission H (rq_event_run_id ?r) (rq_permit_id ?r) (ak_order_id ack) now False) s8 = (Inr u5, s6)"
    and truth: "fresh_bound_truth (traced B) cfg ?r ack s6 = (Inr (t, ps), s7)"
    and st: "st = reduce_open_order (ot_status t) (ot_filled_qty t) (quantity p)"
    and settle: "record_open_transition H cfg st t s7 = (Inr u6, s')" and oid: "oid = ak_order_id ack"
    using assms unfolding open_position_def Let_def othen_Inr obind_Inr by (auto simp: othen_Inr oreturn_def exec_def traced_submit)
  note still = still_Inr [OF still.allowed_rules(1) allowed] still_Inr [OF still_records(1) intent] still_Inr [OF still_records(2) ack]
    still_Inr [OF still.now_rule sub(1)] still_Inr [OF still_commands(5) sub(2)]
  obtain a where a: "trace s7 = trace s6 @ [ReadAccountCall (Inr a), ReadOrderCall (ak_order_id ack) (Inr t), ReadPositionsCall (Inr ps)]"
    "ws_ledger s7 = ws_ledger s6" "truth_established cfg (ws_readings s6) ?r (ak_order_id ack) a t ps" using fresh_bound_truth_Inr [OF truth] by blast
  have "ws_readings s6 = ws_readings s + 5"
    using advancesD [OF advances_steps(1) allowed] advancesD [OF advances_steps(3) intent] advancesD [OF advances_steps(4) ack]
      advancesD [OF advances_now sub(1)] sub(2) submit by (auto simp: s3 outcome_simps)
  note a = a [unfolded this]
  have desk: "desk_of (ws_ledger s7) = desk_of (ws_ledger s)"
    using still a(2) broker_call_Inr [OF submit] by (simp add: s3)
  have seen: "trace s7 = trace s @ [SubmitOpenCall ?r (Inr ack), ReadAccountCall (Inr a), ReadOrderCall (ak_order_id ack) (Inr t), ReadPositionsCall (Inr ps)]"
    using still a(1) broker_call_Inr [OF submit] by (simp add: s3)
  show held: "snd (desk_of (ws_ledger s)) (event_run_id p) = Some RESERVED" by (rule open_allowed_Inr(4) [OF allowed])
  note after = open_transition_Inr [OF settle open_allowed_Inr(2) [OF allowed]]
  show "snd (desk_of (ws_ledger s')) (event_run_id p) = Some (opened_reservation st)" using after(1) held desk by simp
  show "\<exists>ack a t ps. oid = ak_order_id ack \<and> st = reduce_open_order (ot_status t) (ot_filled_qty t) (quantity p)
    \<and> trace s' = trace s @ [SubmitOpenCall ?r (Inr ack), ReadAccountCall (Inr a), ReadOrderCall oid (Inr t), ReadPositionsCall (Inr ps)]
    \<and> truth_established cfg (ws_readings s + 5) ?r oid a t ps"
    using seen after(2) held desk st oid a(3) by (intro exI [of _ ack] exI [of _ a] exI [of _ t] exI [of _ ps]) simp
qed

lemma persist_flat_Inr:
  assumes "persist_flat H cfg p c s = (Inr u, s')"
  shows "snd (desk_of (ws_ledger s)) (co_event_run_id (lc_correlation cfg)) = Some CONSUMED"
    "snd (desk_of (ws_ledger s')) (co_event_run_id (lc_correlation cfg)) = Some RELEASED" "ws_broker s' = ws_broker s"
proof -
  let ?ev = "co_event_run_id (lc_correlation cfg)"
  obtain n1 n2 s1 s2 s3 u1 where 1: "worker_now cfg s = (Inr n1, s1)"
    "on_ledger (wrej BROKER_TRUTH_MISMATCH ''close.persistence'') (release_consumed_after_flat H ?ev (permit_id p) n1) s1 = (Inr u1, s2)"
    "worker_now cfg s2 = (Inr n2, s3)"
    "on_ledger (wrej BROKER_TRUTH_MISMATCH ''close.persistence'') (mark_lifecycle_intent_reconciled (cp_permit_id c) n2) s3 = (Inr u, s')"
    using assms unfolding persist_flat_def Let_def othen_Inr obind_Inr by blast
  note still = still_Inr [OF still.now_rule 1(1)] still_Inr [OF still.now_rule 1(3)] still_Inr [OF still_commands(3) 1(4)]
  obtain db where db: "release_consumed_after_flat H ?ev (permit_id p) n1 (ws_ledger s1) = (Inr u1, db)" "s2 = s1\<lparr>ws_ledger := db\<rparr>"
    using 1(2) by (auto simp: on_ledger_Inr)
  have "snd (desk_of (ws_ledger s1)) ?ev = Some CONSUMED \<and> snd (desk_of db) ?ev = Some RELEASED"
    using desk_release [OF db(1)] by (auto elim!: desk_stepE)
  then show "snd (desk_of (ws_ledger s)) ?ev = Some CONSUMED" "snd (desk_of (ws_ledger s')) ?ev = Some RELEASED" "ws_broker s' = ws_broker s"
    using still db(2) by simp_all
qed

lemma close_allowed_co:
  "require_close_allowed H cfg p c order s = (Inr co, s') \<Longrightarrow> with_close_permit (cp_permit_id c) (lc_correlation cfg) = Inr co"
  unfolding require_close_allowed_def require_close_binding_def Let_def othen_Inr obind_Inr
  by (auto simp: outcome_simps value_of_def split: sum.splits)

lemma close_Inr:
  assumes "close_position H (traced B) cfg p c order s = (Inr (st, oid), s')"
  shows "\<exists>co legs ack a t ps. with_close_permit (cp_permit_id c) (lc_correlation cfg) = Inr co \<and> close_legs p = Inr legs
    \<and> oid = ak_order_id ack \<and> ot_status t = FILLED_STATUS \<and> ot_filled_qty t = quantity p \<and> positions_flat (bp_positions ps)
    \<and> trace s' = trace s @ [SubmitCloseCall (close_request H cfg p c co legs) (Inr ack), ReadAccountCall (Inr a),
         ReadOrderCall oid (Inr t), ReadPositionsCall (Inr ps)]
    \<and> truth_established cfg (ws_readings s + 4) (close_request H cfg p c co legs) oid a t ps"
    "st = CLOSED_FLAT" "snd (desk_of (ws_ledger s)) (co_event_run_id (lc_correlation cfg)) = Some CONSUMED"
    "snd (desk_of (ws_ledger s')) (co_event_run_id (lc_correlation cfg)) = Some RELEASED"
proof -
  obtain co legs s1 s2 s3 s4 s5 s6 s7 ack t ps u2 u4 u6 u7 where allowed: "require_close_allowed H cfg p c order s = (Inr co, s1)"
    and legs: "close_legs p = Inr legs"
    and intent: "record_intent H cfg (close_request H cfg p c co legs) (quantity p) s1 = (Inr u2, s2)"
    and s3: "s3 = s2\<lparr>ws_submitted_close := List.insert (cp_permit_id c) (ws_submitted_close s2)\<rparr>"
    and submit: "on_broker (wrej BROKER_OUTAGE ''close.submit'') (recording (SubmitCloseCall (close_request H cfg p c co legs))
        (pb_submit_close B (close_request H cfg p c co legs))) s3 = (Inr ack, s4)"
    and ack: "bind_ack H cfg (close_request H cfg p c co legs) ack s4 = (Inr u4, s5)"
    and truth: "fresh_bound_truth (traced B) cfg (close_request H cfg p c co legs) ack s5 = (Inr (t, ps), s6)"
    and st: "st = reduce_close_order (ot_status t) (ot_filled_qty t) (bp_positions ps) (quantity p)"
    and verdict: "close_verdict ack st (bp_positions ps) s6 = (Inr u6, s7)"
    and settle: "persist_flat H cfg p c s7 = (Inr u7, s')" and oid: "oid = ak_order_id ack"
    using assms unfolding close_position_def Let_def othen_Inr obind_Inr
    by (auto simp: othen_Inr oreturn_def exec_def result_of_def traced_submit)
  let ?r = "close_request H cfg p c co legs"
  note still = still_Inr [OF still.allowed_rules(2) allowed] still_Inr [OF still_records(1) intent] still_Inr [OF still_records(2) ack]
  obtain a where a: "trace s6 = trace s5 @ [ReadAccountCall (Inr a), ReadOrderCall (ak_order_id ack) (Inr t), ReadPositionsCall (Inr ps)]"
    "ws_ledger s6 = ws_ledger s5" "truth_established cfg (ws_readings s5) ?r (ak_order_id ack) a t ps" using fresh_bound_truth_Inr [OF truth] by blast
  have "ws_readings s5 = ws_readings s + 4"
    using advancesD [OF advances_steps(2) allowed] advancesD [OF advances_steps(3) intent] advancesD [OF advances_steps(4) ack] submit
    by (auto simp: s3 outcome_simps)
  note a = a [unfolded this]
  have flat: "st = CLOSED_FLAT" "s7 = s6" using verdict_flat verdict unfolding st by blast+
  have desk: "desk_of (ws_ledger s7) = desk_of (ws_ledger s)"
    using still a(2) broker_call_Inr [OF submit] by (simp add: s3 flat(2))
  have seen: "trace s7 = trace s @ [SubmitCloseCall ?r (Inr ack), ReadAccountCall (Inr a), ReadOrderCall (ak_order_id ack) (Inr t), ReadPositionsCall (Inr ps)]"
    using still a(1) broker_call_Inr [OF submit] by (simp add: s3 flat(2))
  show "st = CLOSED_FLAT" by (rule flat(1))
  show "snd (desk_of (ws_ledger s)) (co_event_run_id (lc_correlation cfg)) = Some CONSUMED"
    "snd (desk_of (ws_ledger s')) (co_event_run_id (lc_correlation cfg)) = Some RELEASED"
    using persist_flat_Inr(1,2) [OF settle] desk by simp_all
  show "\<exists>co legs ack a t ps. with_close_permit (cp_permit_id c) (lc_correlation cfg) = Inr co \<and> close_legs p = Inr legs
    \<and> oid = ak_order_id ack \<and> ot_status t = FILLED_STATUS \<and> ot_filled_qty t = quantity p \<and> positions_flat (bp_positions ps)
    \<and> trace s' = trace s @ [SubmitCloseCall (close_request H cfg p c co legs) (Inr ack), ReadAccountCall (Inr a),
         ReadOrderCall oid (Inr t), ReadPositionsCall (Inr ps)]
    \<and> truth_established cfg (ws_readings s + 4) (close_request H cfg p c co legs) oid a t ps"
    using flat_truth flat(1) st seen persist_flat_Inr(3) [OF settle] a(3) oid legs close_allowed_co [OF allowed]
    by (intro exI [of _ co] exI [of _ legs] exI [of _ ack] exI [of _ a] exI [of _ t] exI [of _ ps]) simp
qed

text \<open>
  C11. What the worker answers is what the broker showed and what the ledger now holds. A
  returning open made exactly one submission, of the request built from its permit, and exactly
  one readback each of account, order and positions, bound to that request and each fresh at the reading of the clock this call
  took to check it; its
  answer is the reduction of the order readback, and the event's reservation went from RESERVED
  to CONSUMED for a fill, to RELEASED for an unfilled end, and stays RESERVED otherwise. A
  returning close answers CLOSED_FLAT, after one submission of the request that closes the legs of the permit and such readbacks that show the whole
  quantity filled and no position left, and took the reservation from CONSUMED to RELEASED.
\<close>

theorem worker_reports_truth:
  "(open_position H (traced B) cfg p s = (Inr (st, oid), s') \<longrightarrow>
      (\<exists>ack a t ps. oid = ak_order_id ack \<and> st = reduce_open_order (ot_status t) (ot_filled_qty t) (quantity p)
        \<and> trace s' = trace s @ [SubmitOpenCall (open_request H cfg p) (Inr ack), ReadAccountCall (Inr a), ReadOrderCall oid (Inr t), ReadPositionsCall (Inr ps)]
        \<and> truth_established cfg (ws_readings s + 5) (open_request H cfg p) oid a t ps)
      \<and> snd (desk_of (ws_ledger s)) (event_run_id p) = Some RESERVED
      \<and> snd (desk_of (ws_ledger s')) (event_run_id p) = Some (opened_reservation st))
   \<and> (close_position H (traced B) cfg p c order s = (Inr (st, oid), s') \<longrightarrow>
      st = CLOSED_FLAT
      \<and> (\<exists>co legs ack a t ps. with_close_permit (cp_permit_id c) (lc_correlation cfg) = Inr co \<and> close_legs p = Inr legs
        \<and> oid = ak_order_id ack \<and> ot_status t = FILLED_STATUS \<and> ot_filled_qty t = quantity p \<and> positions_flat (bp_positions ps)
        \<and> trace s' = trace s @ [SubmitCloseCall (close_request H cfg p c co legs) (Inr ack), ReadAccountCall (Inr a),
             ReadOrderCall oid (Inr t), ReadPositionsCall (Inr ps)]
        \<and> truth_established cfg (ws_readings s + 4) (close_request H cfg p c co legs) oid a t ps)
      \<and> snd (desk_of (ws_ledger s)) (co_event_run_id (lc_correlation cfg)) = Some CONSUMED
      \<and> snd (desk_of (ws_ledger s')) (co_event_run_id (lc_correlation cfg)) = Some RELEASED)"
  by (intro conjI impI open_Inr close_Inr)

end
