(* ===== verification/Worker_Recovery.thy ===== *)
theory Worker_Recovery
  imports Worker_Properties
begin

text \<open>
  The worker around its normal course: what it refuses before touching anything, the close
  permits it issues, and its recovery after a restart.
\<close>

section \<open>Failing closed\<close>

interpretation idle: vetting only_clock
  by unfold_locales (auto simp: only_clock_trans, simp add: only_clock_def)

text \<open>Conditions that forbid every mutation for a permit under a configuration.\<close>

definition mutation_forbidden :: "lifecycle_config \<Rightarrow> debit_vertical_permit \<Rightarrow> bool" where
  "mutation_forbidden cfg p =
     (\<not> lc_mutation_permitted cfg \<or> \<not> source_verified (lc_clocks cfg) \<or> \<not> exact_text (lc_account_id cfg)
      \<or> lc_account_class cfg \<noteq> PAPER_ACCOUNT_CLASS \<or> lc_order_class cfg \<noteq> MULTI_LEG_ORDER_CLASS
      \<or> lk_event_run_id (lc_clocks cfg) \<noteq> event_run_id p \<or> lk_policy_sha256 (lc_clocks cfg) \<noteq> policy_sha256 p
      \<or> event_run_id p \<noteq> co_event_run_id (lc_correlation cfg) \<or> permit_id p \<noteq> co_open_permit_id (lc_correlation cfg))"

lemma open_forbidden: "mutation_forbidden cfg p \<Longrightarrow> require_open_allowed H cfg p s \<noteq> (Inr u, s')"
proof
  assume bad: "mutation_forbidden cfg p" and run: "require_open_allowed H cfg p s = (Inr u, s')"
  have "first_reject (require_clocks_verified cfg @ require_paper_boundary cfg @ require_clock_scope cfg p) = None"
    using run unfolding require_open_allowed_def othen_Inr require_Inr by blast
  then show False
    using bad open_allowed_Inr [OF run]
    by (auto simp: mutation_forbidden_def require_clocks_verified_def require_paper_boundary_def require_clock_scope_def)
qed

lemma close_forbidden:
  fixes s :: "'b worker_state"
  shows "mutation_forbidden cfg p \<Longrightarrow> require_close_allowed H cfg p c order s \<noteq> (Inr u, s')"
proof
  assume bad: "mutation_forbidden cfg p" and run: "require_close_allowed H cfg p c order s = (Inr u, s')"
  obtain s1 s2 :: "'b worker_state" and co where "first_reject (require_clocks_verified cfg @ require_paper_boundary cfg @ require_clock_scope cfg p @ require_mutation cfg) = None"
    and bind: "require_close_binding H cfg p c order s1 = (Inr co, s2)"
    using run unfolding require_close_allowed_def Let_def othen_Inr obind_Inr require_Inr by blast
  moreover have "first_reject (close_permit_guards H cfg p c) = None"
    using bind unfolding require_close_binding_def othen_Inr require_Inr by blast
  ultimately show False
    using bad by (auto simp: mutation_forbidden_def require_clocks_verified_def require_paper_boundary_def require_clock_scope_def
        require_mutation_def close_permit_guards_def open_identity_guards_def Let_def)
qed

lemma refused_at_once:
  assumes "\<And>P. triple only_clock P m (\<lambda>_ _. True)" "\<And>u t. m s \<noteq> (Inr u, t)" "obind m f s = (res, s')"
  shows "(\<exists>e. res = Inl e) \<and> only_clock s s'"
proof -
  obtain e t where m: "m s = (Inl e, t)" using assms(2) by (metis prod.exhaust sum.exhaust)
  have "only_clock s t" by (rule tripleD [OF assms(1) [of "\<lambda>_. True"] _ m]) simp
  then show ?thesis using assms(3) m by (auto simp: obind_def)
qed

text \<open>
  C38. The worker fails closed: while the mutation gate is closed, when the exit-plan clocks are
  unverified or belong to another event or policy, outside a named PAPER account with multi-leg
  orders, or for a permit of another lifecycle, neither opening nor closing does anything. It
  raises, the ledger is untouched, the broker is not called and no permit is marked submitted.
\<close>

theorem worker_fails_closed:
  assumes "mutation_forbidden cfg p"
    and "open_position H B cfg p s = (res, s')" "close_position H B cfg p c order u = (res2, u')"
  shows "(\<exists>e. res = Inl e) \<and> s' = s\<lparr>ws_readings := ws_readings s'\<rparr>
    \<and> (\<exists>e. res2 = Inl e) \<and> u' = u\<lparr>ws_readings := ws_readings u'\<rparr>"
proof -
  have "(\<exists>e. res = Inl e) \<and> only_clock s s'"
    using assms(2) unfolding open_position_def Let_def othen_def
    by (rule refused_at_once [OF idle.allowed_rules(1) open_forbidden [OF assms(1)]])
  moreover have "(\<exists>e. res2 = Inl e) \<and> only_clock u u'"
    using assms(3) unfolding close_position_def
    by (rule refused_at_once [OF idle.allowed_rules(2) close_forbidden [OF assms(1)]])
  ultimately show ?thesis by (simp add: only_clock_def)
qed

section \<open>Close permits\<close>

lemma issued_close_permit:
  assumes "issue_close_permit H p ev pol snap issued expires price = Inr c"
  shows "close_permit_checks c = None" "cp_open_permit_id c = permit_id p" "cp_event_run_id c = event_run_id p"
    "cp_policy_sha256 c = policy_sha256 p" "cp_snapshot_sha256 c = snapshot_sha256 p"
    "is_finite (cp_limit_price c)" "dval (cp_limit_price c) < 0" "dec_le (dec_abs (cp_limit_price c)) (vertical_width p)"
    "close_credit_within_vertical_width p (cp_limit_price c)"
    "cp_permit_id c = close_permit_id H (cp_open_permit_id c) (cp_event_run_id c) (cp_policy_sha256 c) (cp_snapshot_sha256 c)
       (cp_issued_at c) (cp_expires_at c) (cp_limit_price c)"
proof -
  have guards: "event_run_id p = ev" "policy_sha256 p = pol" "snapshot_sha256 p = snap" "close_credit_within_vertical_width p price"
    and c: "c = \<lparr>cp_permit_id = close_permit_id H (permit_id p) ev pol snap issued expires price,
                 cp_open_permit_id = permit_id p, cp_event_run_id = ev, cp_policy_sha256 = pol,
                 cp_snapshot_sha256 = snap, cp_issued_at = issued, cp_expires_at = expires, cp_limit_price = price\<rparr>"
    and ok: "close_permit_checks c = None"
    using assms by (auto simp: issue_close_permit_def outcome_simps Let_def split: option.splits)
  show "close_permit_checks c = None" by (rule ok)
  have "is_finite price" "dval price < 0" "dec_le (dec_abs price) (vertical_width p)"
    using guards(4) by (auto simp: close_credit_within_vertical_width_def vertical_width_def dec_order split: if_splits)
  then show "cp_open_permit_id c = permit_id p" "cp_event_run_id c = event_run_id p"
    "cp_policy_sha256 c = policy_sha256 p" "cp_snapshot_sha256 c = snapshot_sha256 p"
    "is_finite (cp_limit_price c)" "dval (cp_limit_price c) < 0" "dec_le (dec_abs (cp_limit_price c)) (vertical_width p)"
    "close_credit_within_vertical_width p (cp_limit_price c)"
    "cp_permit_id c = close_permit_id H (cp_open_permit_id c) (cp_event_run_id c) (cp_policy_sha256 c) (cp_snapshot_sha256 c)
       (cp_issued_at c) (cp_expires_at c) (cp_limit_price c)"
    using guards by (simp_all add: c)
qed

lemma close_guards_pass:
  assumes "issue_close_permit H p ev pol snap issued expires price = Inr c" "first_reject (open_identity_guards H cfg p) = None"
    and "co_close_permit_id (lc_correlation cfg) \<in> {None, Some (cp_permit_id c)}"
  shows "first_reject (close_permit_guards H cfg p c) = None"
proof -
  note issued = issued_close_permit [OF assms(1)]
  have "event_run_id p = co_event_run_id (lc_correlation cfg)" using assms(2) by (simp add: open_identity_guards_def Let_def)
  then show ?thesis
    using assms(2,3) issued(2-5,9,10) unfolding close_permit_guards_def first_reject_append by simp
qed

text \<open>
  A close permit that was issued is one the close accepts: it is well-formed, bound to the
  opening permit, its event, policy and snapshot, its credit is negative and within the width of
  the vertical, its identifier is the one the close recomputes, and the guards of the close pass
  for it in every lifecycle of the opening permit that names no other close permit.
\<close>

theorem close_permit_accepted:
  assumes "issue_close_permit H p ev pol snap issued expires price = Inr c"
    and "first_reject (open_identity_guards H cfg p) = None"
    and "co_close_permit_id (lc_correlation cfg) \<in> {None, Some (cp_permit_id c)}"
  shows "close_permit_checks c = None \<and> cp_open_permit_id c = permit_id p \<and> cp_event_run_id c = event_run_id p
    \<and> cp_policy_sha256 c = policy_sha256 p \<and> cp_snapshot_sha256 c = snapshot_sha256 p
    \<and> is_finite (cp_limit_price c) \<and> dval (cp_limit_price c) < 0 \<and> dec_le (dec_abs (cp_limit_price c)) (vertical_width p)
    \<and> first_reject (close_permit_guards H cfg p c) = None"
  using issued_close_permit [OF assms(1)] close_guards_pass [OF assms] by blast

section \<open>Recovery only reads\<close>

definition reads_step :: "('b observed) worker_state \<Rightarrow> ('b observed) worker_state \<Rightarrow> bool" where
  "reads_step s s' = (ws_ledger s' = ws_ledger s \<and> submissions_of (trace s') = submissions_of (trace s))"

interpretation readout: reading reads_step "traced B" for B
proof
  fix a b c :: "('b observed) worker_state"
  show "reads_step a a" by (simp add: reads_step_def)
  show "reads_step a b \<Longrightarrow> reads_step b c \<Longrightarrow> reads_step a c" by (simp add: reads_step_def)
  show "only_clock a b \<Longrightarrow> reads_step a b" by (simp add: reads_step_def only_clock_simps)
qed (auto simp: triple_def reads_step_def on_broker_def traced_def recording_def split: prod.splits sum.splits)

text \<open>The request and order that a durable intent of this lifecycle stands for.\<close>

definition restored_from ::
    "hash_function \<Rightarrow> lifecycle_config \<Rightarrow> intent_phase \<Rightarrow> intent_row \<Rightarrow> broker_order_request \<Rightarrow> int \<Rightarrow> string \<Rightarrow> bool" where
  "restored_from H cfg phase it r q order =
     (it_phase it = phase \<and> it_event_id it = co_event_run_id (lc_correlation cfg) \<and> it_broker_order_id it = Some order
      \<and> it_state it \<in> {INTENT_SUBMITTED, INTENT_RECONCILED}
      \<and> restored_request it = Inr (r, q) \<and> broker_order_request_sha256 H r q = it_request_sha256 it
      \<and> rq_permit_id r = it_permit_id it \<and> rq_phase r = phase \<and> rq_event_run_id r = co_event_run_id (lc_correlation cfg)
      \<and> rq_open_permit_id r = co_open_permit_id (lc_correlation cfg)
      \<and> (\<exists>co. (case phase of OPEN \<Rightarrow> co = lc_correlation cfg | CLOSE \<Rightarrow> with_close_permit (it_permit_id it) (lc_correlation cfg) = Inr co)
            \<and> rq_correlation_sha256 r = correlation_sha256 H co))"

lemma durable_request_Inr:
  "durable_submitted_request H cfg it phase = Inr (r, q, order) \<Longrightarrow> restored_from H cfg phase it r q order"
  unfolding durable_submitted_request_def restored_from_def
  by (cases phase) (auto simp: outcome_simps durable_intent_guards_def split: option.splits prod.splits sum.splits)

lemma recovered_truth:
  assumes "recovered_ack cfg r order s = (Inr ack, s1)" "fresh_bound_truth (traced B) cfg r ack s1 = (Inr (t, ps), s')"
  shows "\<exists>a. trace s' = trace s @ [ReadAccountCall (Inr a), ReadOrderCall order (Inr t), ReadPositionsCall (Inr ps)]
    \<and> truth_established cfg (ws_readings s + 1) r order a t ps"
proof -
  obtain now where now: "worker_now cfg s = (Inr now, s1)" and ack: "ak_order_id ack = order"
    using assms(1) unfolding recovered_ack_def obind_Inr by (auto simp: oreturn_def)
  have "trace s1 = trace s" "ws_readings s1 = ws_readings s + 1"
    using worker_now_Inr [OF now] only_clock_simps(2) advancesD [OF advances_now now] by metis+
  then show ?thesis using fresh_bound_truth_Inr [OF assms(2)] ack by auto
qed

lemma recover_open_Inr:
  assumes "recover_open_state H (traced B) cfg oid n s = (Inr st, s')"
  shows "\<exists>it r a t ps. lifecycle_intent_for_permit (co_open_permit_id (lc_correlation cfg)) (ws_ledger s) = Some it
    \<and> restored_from H cfg OPEN it r n oid
    \<and> trace s' = trace s @ [ReadAccountCall (Inr a), ReadOrderCall oid (Inr t), ReadPositionsCall (Inr ps)]
    \<and> truth_established cfg (ws_readings s + 1) r oid a t ps \<and> st = reduce_open_order (ot_status t) (ot_filled_qty t) n"
proof -
  obtain it r ack s1 t ps where it: "lifecycle_intent_for_permit (co_open_permit_id (lc_correlation cfg)) (ws_ledger s) = Some it"
    and durable: "durable_submitted_request H cfg it OPEN = Inr (r, n, oid)"
    and ack: "recovered_ack cfg r oid s = (Inr ack, s1)"
    and truth: "fresh_bound_truth (traced B) cfg r ack s1 = (Inr (t, ps), s')"
    and st: "st = reduce_open_order (ot_status t) (ot_filled_qty t) n"
    using assms unfolding recover_open_state_def Let_def obind_Inr find_by_Inr
    by (auto simp: obind_Inr othen_Inr require_Inr result_of_def oreturn_def oraise_def split: option.splits prod.splits if_splits)
  show ?thesis using it durable_request_Inr [OF durable] recovered_truth [OF ack truth] st by blast
qed

lemma recover_flat_Inr:
  assumes "recover_flatness H (traced B) cfg s = (Inr CLOSED_FLAT, s')"
  shows "\<exists>it r q order a t ps. lifecycle_intent_for_event_phase (co_event_run_id (lc_correlation cfg)) CLOSE (ws_ledger s) = Some it
    \<and> restored_from H cfg CLOSE it r q order
    \<and> trace s' = trace s @ [ReadAccountCall (Inr a), ReadOrderCall order (Inr t), ReadPositionsCall (Inr ps)]
    \<and> truth_established cfg (ws_readings s + 1) r order a t ps \<and> ot_status t = FILLED_STATUS \<and> ot_filled_qty t = q \<and> positions_flat (bp_positions ps)"
proof -
  let ?ev = "co_event_run_id (lc_correlation cfg)"
  obtain it r q order ack s1 t ps where it: "lifecycle_intent_for_event_phase ?ev CLOSE (ws_ledger s) = Some it"
    and durable: "durable_submitted_request H cfg it CLOSE = Inr (r, q, order)"
    and ack: "recovered_ack cfg r order s = (Inr ack, s1)"
    and truth: "fresh_bound_truth (traced B) cfg r ack s1 = (Inr (t, ps), s')"
    and flat: "reduce_close_order (ot_status t) (ot_filled_qty t) (bp_positions ps) q = CLOSED_FLAT"
    using assms unfolding recover_flatness_def Let_def obind_Inr find_by_Inr
    by (auto simp: obind_Inr result_of_def oreturn_def split: option.splits prod.splits if_splits)
  show ?thesis using it durable_request_Inr [OF durable] recovered_truth [OF ack truth] flat_truth [OF flat] by blast
qed

text \<open>
  C39. Recovery never replays: after a restart the worker only reads. However it ends, the
  ledger is unchanged and the broker receives no order. An answer about the open order is the reduction of
  readbacks bound to the request restored from the durable intent of this lifecycle's open permit, whose order and quantity are those asked
  for. Flatness is reported only on readbacks bound to the request restored from the durable close intent of this event, with its
  hash and its correlation, showing the whole quantity filled and no position left. All readbacks are fresh at the readings of the clock that this call took to
  check them, the ones after its first. Without a durable close
  intent of this event, and on any other readback, the answer about flatness is MANUAL_REQUIRED.
\<close>

theorem recovery_only_reads:
  "(recover_open_state H (traced B) cfg oid n s = (res, s') \<longrightarrow>
      ws_ledger s' = ws_ledger s \<and> submissions_of (trace s') = submissions_of (trace s)
      \<and> (\<forall>st. res = Inr st \<longrightarrow>
          (\<exists>it r a t ps. lifecycle_intent_for_permit (co_open_permit_id (lc_correlation cfg)) (ws_ledger s) = Some it
            \<and> restored_from H cfg OPEN it r n oid
            \<and> trace s' = trace s @ [ReadAccountCall (Inr a), ReadOrderCall oid (Inr t), ReadPositionsCall (Inr ps)]
            \<and> truth_established cfg (ws_readings s + 1) r oid a t ps \<and> st = reduce_open_order (ot_status t) (ot_filled_qty t) n)))
   \<and> (recover_flatness H (traced B) cfg s = (res, s') \<longrightarrow>
      ws_ledger s' = ws_ledger s \<and> submissions_of (trace s') = submissions_of (trace s)
      \<and> (res = Inr CLOSED_FLAT \<longrightarrow>
          (\<exists>it r q order a t ps. lifecycle_intent_for_event_phase (co_event_run_id (lc_correlation cfg)) CLOSE (ws_ledger s) = Some it
            \<and> restored_from H cfg CLOSE it r q order
            \<and> trace s' = trace s @ [ReadAccountCall (Inr a), ReadOrderCall order (Inr t), ReadPositionsCall (Inr ps)]
            \<and> truth_established cfg (ws_readings s + 1) r order a t ps
            \<and> ot_status t = FILLED_STATUS \<and> ot_filled_qty t = q \<and> positions_flat (bp_positions ps)))
      \<and> (\<forall>st. res = Inr st \<longrightarrow> st \<in> {CLOSED_FLAT, LC_MANUAL_REQUIRED})
      \<and> (exact_text (co_event_run_id (lc_correlation cfg)) \<longrightarrow>
          lifecycle_intent_for_event_phase (co_event_run_id (lc_correlation cfg)) CLOSE (ws_ledger s) = None \<longrightarrow> res = Inr LC_MANUAL_REQUIRED))"
proof (intro conjI impI)
  assume run: "recover_open_state H (traced B) cfg oid n s = (res, s')"
  have "reads_step s s'" by (rule tripleD [OF readout.recovery_rules(1) [where P = "\<lambda>_. True"] _ run]) simp
  then show "ws_ledger s' = ws_ledger s" "submissions_of (trace s') = submissions_of (trace s)" by (simp_all add: reads_step_def)
  show "\<forall>st. res = Inr st \<longrightarrow>
          (\<exists>it r a t ps. lifecycle_intent_for_permit (co_open_permit_id (lc_correlation cfg)) (ws_ledger s) = Some it
            \<and> restored_from H cfg OPEN it r n oid
            \<and> trace s' = trace s @ [ReadAccountCall (Inr a), ReadOrderCall oid (Inr t), ReadPositionsCall (Inr ps)]
            \<and> truth_established cfg (ws_readings s + 1) r oid a t ps \<and> st = reduce_open_order (ot_status t) (ot_filled_qty t) n)"
    using recover_open_Inr run by blast
next
  assume run: "recover_flatness H (traced B) cfg s = (res, s')"
  have "reads_step s s'" by (rule tripleD [OF readout.recovery_rules(2) [where P = "\<lambda>_. True"] _ run]) simp
  then show "ws_ledger s' = ws_ledger s" "submissions_of (trace s') = submissions_of (trace s)" by (simp_all add: reads_step_def)
  show "\<forall>st. res = Inr st \<longrightarrow> st \<in> {CLOSED_FLAT, LC_MANUAL_REQUIRED}"
    using run unfolding recover_flatness_def Let_def
    by (auto simp: obind_Inr oreturn_def split: option.splits prod.splits if_splits)
  show "res = Inr LC_MANUAL_REQUIRED" if "exact_text (co_event_run_id (lc_correlation cfg))"
    "lifecycle_intent_for_event_phase (co_event_run_id (lc_correlation cfg)) CLOSE (ws_ledger s) = None"
    using run that by (simp add: recover_flatness_def find_by_def othen_def obind_def require_def query_def oreturn_def)
qed (use recover_flat_Inr in blast)

end
