(* ===== verification/Worker_Restart.thy ===== *)
theory Worker_Restart
  imports Worker_Recovery
begin

text \<open>
  A crash between submission and readback loses nothing: the request that a restarted worker
  restores from the ledger is the one that was submitted.
\<close>

section \<open>Texts of a request\<close>

lemma occ_no_space:
  assumes "parse_occ s = Some occ"
  shows "list_all (\<lambda>c. \<not> is_space c) s" "s \<noteq> []"
proof -
  let ?n = "length s"
  let ?tail = "drop (?n - 15) s"
  have parts: "16 \<le> ?n" "list_all is_upper_letter (take (?n - 15) s)" "list_all is_digit (take 6 ?tail)"
    "?tail ! 6 \<in> {CHR ''C'', CHR ''P''}" "list_all is_digit (drop 7 ?tail)"
    using assms by (auto simp: parse_occ_def Let_def split: if_splits)
  show "s \<noteq> []" using parts(1) by auto
  have len: "length ?tail = 15" using parts(1) by simp
  have tail: "?tail = take 6 ?tail @ [?tail ! 6] @ drop 7 ?tail"
    using id_take_nth_drop [of 6 ?tail] len by simp
  have plain: "is_upper_letter c \<Longrightarrow> \<not> is_space c" "is_digit c \<Longrightarrow> \<not> is_space c" for c
    by (auto simp: is_upper_letter_def is_digit_def is_space_def Let_def)
  have "\<not> is_space (CHR ''C'')" "\<not> is_space (CHR ''P'')" by (simp_all add: is_space_def)
  then have "list_all (\<lambda>c. \<not> is_space c) (take 6 ?tail @ [?tail ! 6] @ drop 7 ?tail)"
    using parts(3,4,5) plain(2) unfolding list_all_append list.pred_inject list_all_iff by auto
  then have "list_all (\<lambda>c. \<not> is_space c) ?tail" by (simp only: tail [symmetric])
  moreover have "list_all (\<lambda>c. \<not> is_space c) (take (?n - 15) s)" using parts(2) plain(1) by (auto simp: list_all_iff)
  ultimately show "list_all (\<lambda>c. \<not> is_space c) s" by (metis append_take_drop_id list_all_append)
qed

lemma leg_symbol_exact: "option_leg_checks l = None \<Longrightarrow> exact_text (leg_symbol l)"
  using option_leg_checks_None(3) [of l] occ_no_space by (auto simp: exact_text_def strip_no_space)

lemma leg_ratio_one: "option_leg_checks l = None \<Longrightarrow> leg_ratio l = 1"
  by (auto simp: option_leg_checks_def split: option.splits if_splits)

lemma value_texts_exact: "exact_text (side_value sd)" "exact_text (intent_value it)"
  by (cases sd; simp add: text_simps) (cases it; simp add: text_simps)

lemma permit_legs_ok:
  assumes "permit_ok p"
  shows "open_legs p \<noteq> []" "list_all leg_ok (open_legs p)"
    "close_legs p = Inr legs \<Longrightarrow> legs \<noteq> [] \<and> list_all leg_ok legs"
proof -
  have facts: "quantity p = 1" "option_leg_checks (long_leg p) = None" "option_leg_checks (short_leg p) = None"
    using assms permit_checks_None(1) by (auto simp: permit_ok_def)
  note texts = leg_symbol_exact [OF facts(2)] leg_symbol_exact [OF facts(3)] leg_ratio_one [OF facts(2)] leg_ratio_one [OF facts(3)]
    value_texts_exact
  show "open_legs p \<noteq> []" "list_all leg_ok (open_legs p)"
    using texts facts(1) by (simp_all add: open_legs_def open_leg_def leg_ok_def)
  show "close_legs p = Inr legs \<Longrightarrow> legs \<noteq> [] \<and> list_all leg_ok legs"
    using texts facts(1) by (auto simp: close_legs_def close_leg_def leg_ok_def split: option.splits sum.splits)
qed

lemma intent_texts_exact:
  assumes "first_reject (intent_guards H (request_intent H r q) now) = None"
  shows "list_all exact_text (request_texts r)"
  using assms
  by (simp add: intent_guards_def request_intent_def request_texts_def validator_defs)

section \<open>The durable row of a submitted order\<close>

lemma record_intent_Inr:
  fixes s :: "'b worker_state"
  assumes "record_intent H cfg r q s = (Inr u, s')"
  obtains now row where "first_reject (intent_guards H (request_intent H r q) now) = None"
    "row = (request_intent H r q)\<lparr>it_broker_order_id := None, it_state := INTENDED, it_created_at := isoformat_z now,
       it_updated_at := isoformat_z now\<rparr>"
    "lifecycle_intents (ws_ledger s') = lifecycle_intents (ws_ledger s) @ [row]"
    "\<not> list_ex (intent_clash row) (lifecycle_intents (ws_ledger s))"
proof -
  obtain now s1 db where now: "worker_now cfg s = (Inr now, s1)"
    and rec: "record_lifecycle_intent H (request_intent H r q) now (ws_ledger s1) = (Inr u, db)" and s': "s' = s1\<lparr>ws_ledger := db\<rparr>"
    using assms unfolding record_intent_def obind_Inr on_ledger_Inr by blast
  let ?row = "(request_intent H r q)\<lparr>it_broker_order_id := None, it_state := INTENDED, it_created_at := isoformat_z now,
       it_updated_at := isoformat_z now\<rparr>"
  obtain d1 h where guards: "first_reject (intent_guards H (request_intent H r q) now) = None"
    and row: "insert_intent ?row (ws_ledger s1) = (Inr (), d1)"
    and pass: "append_passport H ''ORDER_INTENDED'' (json_set (request_payload (request_intent H r q)) ''request_sha256''
       (JStr (it_request_sha256 (request_intent H r q)))) now d1 = (Inr h, db)"
    by (rule record_lifecycle_intent_Inr [OF rec])
  have "ws_ledger s1 = ws_ledger s" using worker_now_Inr [OF now] only_clock_simps(1) by blast
  then show thesis
    using that [OF guards refl] insert_intent_row [OF row] passport_intents [OF pass] by (simp add: s')
qed

lemma bound_row:
  assumes "lifecycle_intents db = its @ [row]" "\<not> list_ex (intent_clash row) its" "it_permit_id row = pid"
    and "bind_lifecycle_intent H pid ph order now db = (Inr u, db')"
  shows "lifecycle_intent_for_permit pid db' =
     Some (row\<lparr>it_broker_order_id := Some order, it_state := INTENT_SUBMITTED, it_updated_at := isoformat_z now\<rparr>)"
proof -
  obtain i d1 h where "lifecycle_intent_for_permit pid db = Some i" "it_phase i = ph" "it_state i = INTENDED"
    and bind: "bind_intent_row pid order now db = (Inr (), d1)" and "is_object (request_payload i)"
    and pass: "append_passport H ''ORDER_SUBMITTED'' (json_set (json_set (request_payload i) ''request_sha256'' (JStr (it_request_sha256 i)))
       ''broker_order_id'' (JStr order)) now d1 = (Inr h, db')"
    by (rule bind_lifecycle_intent_Inr [OF assms(4)])
  let ?f = "\<lambda>i. if it_permit_id i = pid then i\<lparr>it_broker_order_id := Some order, it_state := INTENT_SUBMITTED, it_updated_at := isoformat_z now\<rparr> else i"
  have "lifecycle_intents db' = map ?f (its @ [row])"
    using bind passport_intents [OF pass] assms(1) by (simp add: bind_intent_row_Inr)
  moreover have "row_where (\<lambda>r. it_permit_id r = pid) (map ?f its) = None"
    using assms(2,3) by (auto simp: list_ex_iff intent_clash_def)
  ultimately show ?thesis
    using assms(3) by (simp add: lifecycle_intent_for_permit_def del: row_where_None)
qed

lemma restored_intent:
  assumes "request_ok r q" "it_request_json it = canonical_json_bytes (broker_order_request_payload r q)"
  shows "\<exists>r'. restored_request it = Inr (r', q) \<and> r' = r\<lparr>rq_limit_price := rq_limit_price r'\<rparr>
     \<and> dec_normalize (rq_limit_price r') = dec_normalize (rq_limit_price r)
     \<and> broker_order_request_sha256 H r' q = broker_order_request_sha256 H r q"
proof -
  obtain v r' where v: "json_loads (it_request_json it) = Some v" and r': "parse_broker_order_request_payload v = Inr (r', q)"
    "r' = r\<lparr>rq_limit_price := rq_limit_price r'\<rparr>" "dec_normalize (rq_limit_price r') = dec_normalize (rq_limit_price r)"
    "broker_order_request_sha256 H r' q = broker_order_request_sha256 H r q"
    using request_restored [OF assms(1)] assms(2) by fastforce
  have "v = json_sort (broker_order_request_payload r q)" using v by (simp add: assms(2) json_loads_canonical)
  then have "is_object v" by (simp add: broker_order_request_payload_def)
  then have "restored_request it = Inr (r', q)" using v r'(1) by (simp add: restored_request_def)
  then show ?thesis using r' by blast
qed

text \<open>
  C40. A restart restores the order: once a worker has recorded the intent for the order of a
  valid permit and bound the broker's acknowledgement to it, a restarted worker of the same
  lifecycle finds the durable intent under that permit, accepts it, and restores from it exactly
  the request that was submitted, its quantity and the broker's order identifier; the limit
  price is restored up to the representation of its normalized value.
\<close>

theorem restart_restores_request:
  assumes permit: "permit_ok p" "permit_id p = co_open_permit_id (lc_correlation cfg)" "is_finite price"
    and legs: "legs = open_legs p \<or> close_legs p = Inr legs"
    and co: "phase = OPEN \<and> co = lc_correlation cfg \<or> phase = CLOSE \<and> with_close_permit pid (lc_correlation cfg) = Inr co"
    and intent: "record_intent H cfg (order_request H cfg phase pid p co price legs) (quantity p) s = (Inr u, s1)"
    and crash: "ws_ledger s2 = ws_ledger s1"
    and ack: "bind_ack H cfg (order_request H cfg phase pid p co price legs) ack s2 = (Inr v, s3)"
  shows "\<exists>it r'. lifecycle_intent_for_permit pid (ws_ledger s3) = Some it
    \<and> durable_submitted_request H cfg it phase = Inr (r', quantity p, ak_order_id ack)
    \<and> r' = (order_request H cfg phase pid p co price legs)\<lparr>rq_limit_price := rq_limit_price r'\<rparr>
    \<and> dec_normalize (rq_limit_price r') = dec_normalize price"
proof -
  define r where "r = order_request H cfg phase pid p co price legs"
  have r: "rq_permit_id r = pid" "rq_phase r = phase" "rq_event_run_id r = co_event_run_id co" "rq_open_permit_id r = permit_id p"
    "rq_correlation_sha256 r = correlation_sha256 H co" "rq_limit_price r = price" "rq_legs r = legs"
    by (simp_all add: r_def order_request_def Let_def)
  have event: "co_event_run_id co = co_event_run_id (lc_correlation cfg)" using co with_close_permit_Inr by fastforce
  obtain now row where guards: "first_reject (intent_guards H (request_intent H r (quantity p)) now) = None"
    and row: "row = (request_intent H r (quantity p))\<lparr>it_broker_order_id := None, it_state := INTENDED, it_created_at := isoformat_z now,
       it_updated_at := isoformat_z now\<rparr>"
    and its: "lifecycle_intents (ws_ledger s1) = lifecycle_intents (ws_ledger s) @ [row]"
    and clash: "\<not> list_ex (intent_clash row) (lifecycle_intents (ws_ledger s))"
    using intent [folded r_def] by (rule record_intent_Inr)
  obtain now2 s4 db where now2: "worker_now cfg s2 = (Inr now2, s4)" and strip: "strip (ak_order_id ack) \<noteq> []"
    and bind: "bind_lifecycle_intent H pid phase (ak_order_id ack) now2 (ws_ledger s4) = (Inr v, db)" and s3: "s3 = s4\<lparr>ws_ledger := db\<rparr>"
    using ack [folded r_def] unfolding bind_ack_def othen_Inr obind_Inr on_ledger_Inr by (auto simp: outcome_simps r)
  have "ws_ledger s4 = ws_ledger s1" using worker_now_Inr [OF now2] only_clock_simps(1) crash by metis
  moreover have "it_permit_id row = pid" by (simp add: row request_intent_def r)
  ultimately have found: "lifecycle_intent_for_permit pid db =
      Some (row\<lparr>it_broker_order_id := Some (ak_order_id ack), it_state := INTENT_SUBMITTED, it_updated_at := isoformat_z now2\<rparr>)"
    using bound_row [OF _ clash] bind its by simp
  define it where "it = row\<lparr>it_broker_order_id := Some (ak_order_id ack), it_state := INTENT_SUBMITTED, it_updated_at := isoformat_z now2\<rparr>"
  have it: "it_permit_id it = pid" "it_phase it = phase" "it_event_id it = co_event_run_id (lc_correlation cfg)"
    "it_broker_order_id it = Some (ak_order_id ack)" "it_state it = INTENT_SUBMITTED"
    "it_request_json it = canonical_json_bytes (broker_order_request_payload r (quantity p))"
    "it_request_sha256 it = broker_order_request_sha256 H r (quantity p)"
    by (simp_all add: it_def row request_intent_def r event)
  have "request_ok r (quantity p)"
    using permit_legs_ok [OF permit(1)] legs permit intent_texts_exact [OF guards] permit_checks_None(1) [of p]
    by (auto simp: request_ok_def r permit_ok_def)
  then obtain r' where r': "restored_request it = Inr (r', quantity p)" "r' = r\<lparr>rq_limit_price := rq_limit_price r'\<rparr>"
    "dec_normalize (rq_limit_price r') = dec_normalize price"
    "broker_order_request_sha256 H r' (quantity p) = broker_order_request_sha256 H r (quantity p)"
    using restored_intent [OF _ it(6), of H] r(6) by metis
  have same: "rq_permit_id r' = pid" "rq_phase r' = phase" "rq_event_run_id r' = co_event_run_id (lc_correlation cfg)"
    "rq_open_permit_id r' = co_open_permit_id (lc_correlation cfg)" "rq_correlation_sha256 r' = correlation_sha256 H co"
    by (subst r'(2), simp add: r event permit(2))+
  have "durable_submitted_request H cfg it phase = Inr (r', quantity p, ak_order_id ack)"
    using co it strip r'(1,4) same unfolding durable_submitted_request_def
    by (auto simp: guarded_def durable_intent_guards_def)
  then show ?thesis using found r'(2,3) unfolding it_def [symmetric] r_def by (simp add: s3)
qed

end
