(* ===== verification/Worker_Liveness.thy ===== *)
theory Worker_Liveness
  imports Worker_Restart Ledger_Witnesses
begin

text \<open>
  The worker completes: on a ledger that authorized the permit, with a broker that answers (the
  fake broker of the sources with its default script), an opening returns OPEN_FILLED and a
  closing returns CLOSED_FLAT, and the reservation ends RELEASED.
\<close>

section \<open>Ledger operations that must succeed\<close>

lemma passport_after:
  "exact_text t \<Longrightarrow> is_utc now \<Longrightarrow>
     append_passport H t payload now db =
       (Inr (pp_event_sha256 (passport_row_for H t payload now (passport_events db))),
        db\<lparr>passport_events := passport_events db @ [passport_row_for H t payload now (passport_events db)]\<rparr>)"
  by (simp add: append_passport_Inr)

lemma passport_types_exact:
  "exact_text ''ORDER_INTENDED''" "exact_text ''ORDER_SUBMITTED''" "exact_text ''FILL_OBSERVED''" "exact_text ''RECONCILED''"
  "exact_text ''FILLED''"
  by (simp_all add: text_simps)

lemma intent_recorded:
  assumes "first_reject (intent_guards H it now) = None" "is_utc now"
    and "\<not> list_ex (intent_clash it) (lifecycle_intents db)"
  shows "\<exists>pe. record_lifecycle_intent H it now db = (Inr (), db\<lparr>lifecycle_intents := lifecycle_intents db
     @ [it\<lparr>it_broker_order_id := None, it_state := INTENDED, it_created_at := isoformat_z now, it_updated_at := isoformat_z now\<rparr>],
     passport_events := pe\<rparr>)"
proof -
  have "\<not> list_ex (intent_clash (it\<lparr>it_broker_order_id := None, it_state := INTENDED, it_created_at := isoformat_z now,
      it_updated_at := isoformat_z now\<rparr>)) (lifecycle_intents db)"
    using assms(3) by (simp add: intent_clash_def [abs_def])
  then show ?thesis
    unfolding record_lifecycle_intent_def
    by (simp add: operation_defs assms(1) insert_intent_def passport_after [OF passport_types_exact(1) assms(2)])
      (rule exI, rule refl)
qed

lemma intent_bound:
  assumes "lifecycle_intents db = its @ [row]" "\<forall>i \<in> set its. it_permit_id i \<noteq> pid \<and> it_broker_order_id i \<noteq> Some order"
    and "it_permit_id row = pid" "it_phase row = ph" "it_state row = INTENDED" "is_object (request_payload row)"
    and "exact_text pid" "exact_text order" "is_utc now"
  shows "\<exists>pe. bind_lifecycle_intent H pid ph order now db = (Inr (), db\<lparr>lifecycle_intents := its
     @ [row\<lparr>it_broker_order_id := Some order, it_state := INTENT_SUBMITTED, it_updated_at := isoformat_z now\<rparr>], passport_events := pe\<rparr>)"
proof -
  have found: "lifecycle_intent_for_permit pid db = Some row"
  proof -
    have "row_where (\<lambda>r. it_permit_id r = pid) its = None" using assms(2) by simp
    then show ?thesis using assms(1,3) by (simp add: lifecycle_intent_for_permit_def del: row_where_None)
  qed
  have bind: "bind_intent_row pid order now db = (Inr (), db\<lparr>lifecycle_intents := its
      @ [row\<lparr>it_broker_order_id := Some order, it_state := INTENT_SUBMITTED, it_updated_at := isoformat_z now\<rparr>]\<rparr>)"
  proof -
    let ?f = "\<lambda>i. if it_permit_id i = pid then i\<lparr>it_broker_order_id := Some order, it_state := INTENT_SUBMITTED, it_updated_at := isoformat_z now\<rparr> else i"
    have "map ?f its = its" using assms(2) by (auto intro!: map_idI)
    then show ?thesis using assms(1,2,3) by (simp add: bind_intent_row_Inr)
  qed
  show ?thesis
    unfolding bind_lifecycle_intent_def
    using assms by (simp add: operation_defs validator_defs found bind passport_after [OF passport_types_exact(2) assms(9)])
      (rule exI, rule refl)
qed

lemma intent_reconciled:
  assumes "lifecycle_intents db = its @ [row]" "\<forall>i \<in> set its. it_permit_id i \<noteq> pid"
    and "it_permit_id row = pid" "it_state row = INTENT_SUBMITTED" "exact_text pid" "is_utc now"
  shows "mark_lifecycle_intent_reconciled pid now db = (Inr (), db\<lparr>lifecycle_intents := its
     @ [row\<lparr>it_state := INTENT_RECONCILED, it_updated_at := isoformat_z now\<rparr>]\<rparr>)"
proof -
  have "row_where (\<lambda>r. it_permit_id r = pid) its = None" using assms(2) by simp
  then have "lifecycle_intent_for_permit pid db = Some row"
    using assms(1,3) by (simp add: lifecycle_intent_for_permit_def del: row_where_None)
  moreover have "update_where (\<lambda>r. it_permit_id r = pid) f its = its" for f
    using assms(2) by (auto simp: update_where_def intro!: map_idI)
  ultimately show ?thesis
    using assms by (simp add: mark_lifecycle_intent_reconciled_def operation_defs validator_defs) (simp add: update_where_def)
qed

lemma submission_recorded:
  assumes "permit_row pid db = Some q" "pm_event_id q = ev" "pm_state q = ISSUED" "reservation_in_state pid ev RESERVED db"
    and "pid \<notin> sb_permit_id ` set (submissions db)" "order \<notin> sb_broker_order_id ` set (submissions db)"
    and "exact_text pid" "exact_text ev" "exact_text order" "is_utc now"
  shows "record_submission H ev pid order now False db = (Inr (), (set_permit_state pid SUBMITTED now db)\<lparr>submissions := submissions db
     @ [\<lparr>sb_permit_id = pid, sb_event_id = ev, sb_broker_order_id = order, sb_submitted_at = isoformat_z now\<rparr>]\<rparr>)"
proof -
  have "pid \<in> pm_id ` set (permits (set_permit_state pid SUBMITTED now db))"
  proof -
    have "q \<in> set (permits db)" "pm_id q = pid" using permit_row_Some [OF assms(1)] by simp_all
    then have "pid \<in> pm_id ` set (permits db)" by blast
    moreover have "map pm_id (permits (set_permit_state pid SUBMITTED now db)) = map pm_id (permits db)"
      by (simp add: set_permit_state_def update_where_def)
    ultimately show ?thesis by (metis set_map)
  qed
  moreover have "submissions (set_permit_state pid SUBMITTED now db) = submissions db" by (simp add: set_permit_state_def)
  ultimately have ins: "insert_submission \<lparr>sb_permit_id = pid, sb_event_id = ev, sb_broker_order_id = order, sb_submitted_at = isoformat_z now\<rparr>
      (set_permit_state pid SUBMITTED now db) = (Inr (), (set_permit_state pid SUBMITTED now db)\<lparr>submissions := submissions db
     @ [\<lparr>sb_permit_id = pid, sb_event_id = ev, sb_broker_order_id = order, sb_submitted_at = isoformat_z now\<rparr>]\<rparr>)"
    using assms(5,6) by (simp add: insert_submission_def)
  have "owns_event pid ev db" using assms(1,2) by (simp add: owns_event_def)
  then show ?thesis
    using assms unfolding record_submission_def transition_permit_in_transaction_def
    by (simp add: operation_defs validator_defs ins)
qed

lemma fill_reconciled:
  assumes "permit_row pid db = Some q" "pm_event_id q = ev" "pm_state q = SUBMITTED" "reservation_in_state pid ev RESERVED db"
    and "submitted_order_matches pid ev order db" "order \<notin> fl_id ` set (fills db)"
    and "exact_text pid" "exact_text ev" "exact_text order" "is_utc now" "is_utc t" "0 < n"
  shows "\<exists>pe. reconcile_observed_order H ev pid order ''FILLED'' (dec_of_int n) t now db =
     (Inr (), (set_reservation_state ev CONSUMED now (set_permit_state pid FILLED now db))\<lparr>fills := fills db
     @ [\<lparr>fl_id = order, fl_permit_id = pid, fl_event_id = ev, fl_quantity = dec_str (dec_of_int n), fl_status = ''FILLED'',
         fl_observed_at = isoformat_z t\<rparr>], passport_events := pe\<rparr>)"
proof -
  let ?fill = "\<lparr>fl_id = order, fl_permit_id = pid, fl_event_id = ev, fl_quantity = dec_str (dec_of_int n), fl_status = ''FILLED'',
         fl_observed_at = isoformat_z t\<rparr>"
  let ?db = "set_reservation_state ev CONSUMED now (set_permit_state pid FILLED now db)"
  have "fills ?db = fills db" by (simp add: set_reservation_state_def set_permit_state_def)
  then have ins: "insert_fill ?fill ?db = (Inr (), ?db\<lparr>fills := fills db @ [?fill]\<rparr>)"
    using assms(6) by (simp add: insert_fill_def)
  have ts: "terminal_states pid ''FILLED'' (dec_of_int n) = Inr (FILLED, CONSUMED, FILL_OBSERVED)"
    using assms(12) by (simp add: terminal_states_def dec_of_int_def aligned_def)
  have amount: "is_finite (dec_of_int n)" "\<not> dec_lt (dec_of_int n) dec_zero"
    using assms(12) by (simp_all add: dec_of_int_def aligned_def dec_lt_def)
  have "owns_event pid ev db" using assms(1,2) by (simp add: owns_event_def)
  then show ?thesis
    using assms amount unfolding reconcile_observed_order_def transition_permit_in_transaction_def
    by (simp add: operation_defs validator_defs ts ins passport_types_exact passport_after)
      (rule exI, rule refl)
qed

lemma flat_released:
  assumes "permit_row pid db = Some q" "pm_event_id q = ev" "pm_state q = FILLED" "reservation_in_state pid ev CONSUMED db"
    and "exact_text pid" "exact_text ev" "is_utc now"
  shows "\<exists>pe. release_consumed_after_flat H ev pid now db = (Inr (), (set_reservation_state ev RELEASED now db)\<lparr>passport_events := pe\<rparr>)"
  using assms unfolding release_consumed_after_flat_def
  by (simp add: operation_defs validator_defs owns_event_def passport_after [OF passport_types_exact(4)])
    (rule exI, rule refl)

section \<open>A broker that answers\<close>

text \<open>The default script of the fake broker, at a clock that shows \<open>t\<close>.\<close>

definition scripted :: "datetime \<Rightarrow> fake_paper_broker \<Rightarrow> bool" where
  "scripted t b =
     (fb_open_terminal_state b = FILLED_STATUS \<and> fb_close_terminal_state b = FILLED_STATUS \<and> fb_open_filled_qty b = 1
      \<and> fb_close_filled_qty b = 1 \<and> \<not> fb_open_submit_outage b \<and> \<not> fb_close_submit_outage b \<and> \<not> fb_read_outage b
      \<and> fb_positions_flat_after_close b \<and> fb_account b = None \<and> fb_open_truth_overrides b = (\<lambda>x. x)
      \<and> fb_close_truth_overrides b = (\<lambda>x. x) \<and> fb_open_position_overrides b = (\<lambda>x. x) \<and> fb_close_position_overrides b = (\<lambda>x. x)
      \<and> fb_clock b = (\<lambda>_. t) \<and> aware t \<and> fb_open_order_id b = ''fake-open-order-1'' \<and> fb_close_order_id b = ''fake-close-order-1'')"

lemma fake_now_scripted: "scripted t b \<Longrightarrow> fake_now b = (Inr t, b\<lparr>fb_clock_calls := Suc (fb_clock_calls b)\<rparr>)"
  by (simp add: fake_now_def scripted_def)

lemma scripted_counters [simp]:
  "scripted t (b\<lparr>fb_clock_calls := n\<rparr>) = scripted t b" "scripted t (b\<lparr>fb_open_submissions := i\<rparr>) = scripted t b"
  "scripted t (b\<lparr>fb_close_submissions := i\<rparr>) = scripted t b" "scripted t (b\<lparr>fb_order_readbacks := i\<rparr>) = scripted t b"
  "scripted t (b\<lparr>fb_position_readbacks := i\<rparr>) = scripted t b" "scripted t (b\<lparr>fb_account_readbacks := i\<rparr>) = scripted t b"
  "scripted t (b\<lparr>fb_open_request := r\<rparr>) = scripted t b" "scripted t (b\<lparr>fb_close_request := r\<rparr>) = scripted t b"
  "scripted t (b\<lparr>fb_open_state := st\<rparr>) = scripted t b" "scripted t (b\<lparr>fb_close_state := st\<rparr>) = scripted t b"
  by (simp_all add: scripted_def)

lemmas fake_defs = fake_ops_def fake_submit_open_def fake_submit_close_def fake_ack_def fake_read_account_def fake_read_order_def
  fake_order_truth_def fake_read_positions_def fake_position_snapshot_def fake_filled_qty_def

text \<open>A worker whose clock shows the same time.\<close>

definition steady :: "datetime \<Rightarrow> lifecycle_config \<Rightarrow> bool" where
  "steady t cfg = (lc_clock cfg = (\<lambda>_. t) \<and> is_utc t \<and> 0 \<le> lc_truth_max_age_seconds cfg)"

lemma steady_now: "steady t cfg \<Longrightarrow> worker_now cfg s = (Inr t, s\<lparr>ws_readings := Suc (ws_readings s)\<rparr>)"
  by (simp add: worker_now_def steady_def)

lemma steady_fresh: "steady t cfg \<Longrightarrow> require_fresh cfg t path why s = (Inr (), s\<lparr>ws_readings := Suc (ws_readings s)\<rparr>)"
  by (simp add: require_fresh_def operation_defs steady_now) (simp add: steady_def seconds_def)

lemma same_quantities_refl: "\<forall>(k, v) \<in> set xs. is_finite v \<Longrightarrow> same_quantities xs xs"
proof -
  assume fin: "\<forall>(k, v) \<in> set xs. is_finite v"
  have "dec_eq a a" if "map_of (rev xs) k = Some a" for k a
    using map_of_SomeD [OF that] fin by (auto intro: dec_eq_refl)
  then show ?thesis by (auto simp: same_quantities_def list_all_iff split: option.splits)
qed

text \<open>The terms of a request that the default script confirms.\<close>

definition confirmable :: "broker_order_request \<Rightarrow> bool" where
  "confirmable r =
     (rq_account_id r = ''paper-account'' \<and> rq_account_class r = PAPER_ACCOUNT_CLASS \<and> rq_order_class r = MULTI_LEG_ORDER_CLASS
      \<and> is_finite (rq_limit_price r) \<and> (case rq_phase r of OPEN \<Rightarrow> 0 < dval (rq_limit_price r) | CLOSE \<Rightarrow> dval (rq_limit_price r) < 0)
      \<and> (\<exists>k l. rq_legs r = [k, l] \<and> bl_symbol k \<noteq> [] \<and> bl_symbol l \<noteq> []))"

lemma confirmable_price: "confirmable r \<Longrightarrow> ot_limit_price t = rq_limit_price r \<Longrightarrow> price_in_bounds r t"
  by (auto simp: confirmable_def price_in_bounds_def dec_order split: intent_phase.splits)

definition confirmed :: "broker_order_request \<Rightarrow> string \<Rightarrow> datetime \<Rightarrow> broker_order_truth" where
  "confirmed r order t =
     \<lparr>ot_order_id = order, ot_client_order_id = rq_client_order_id r, ot_status = FILLED_STATUS, ot_filled_qty = 1,
      ot_observed_at = t, ot_permit_id = rq_permit_id r, ot_open_permit_id = rq_open_permit_id r,
      ot_event_run_id = rq_event_run_id r, ot_reservation_id = rq_reservation_id r,
      ot_correlation_sha256 = rq_correlation_sha256 r, ot_policy_sha256 = rq_policy_sha256 r,
      ot_snapshot_sha256 = rq_snapshot_sha256 r, ot_account_id = rq_account_id r, ot_account_class = rq_account_class r,
      ot_order_class = rq_order_class r, ot_limit_price = rq_limit_price r, ot_legs = rq_legs r\<rparr>"

lemma confirmed_guards:
  assumes "confirmable r" "ak_order_id ack = order"
  shows "first_reject (order_truth_guards r ack (confirmed r order t)) = None"
proof -
  have "price_in_bounds r (confirmed r order t)" by (rule confirmable_price [OF assms(1)]) (simp add: confirmed_def)
  then show ?thesis
    using assms by (simp add: order_truth_guards_def order_binding_guards_def) (simp add: confirmed_def confirmable_def)
qed

definition orders_of :: "fake_paper_broker \<Rightarrow> (broker_order_request option \<times> order_status) \<times> broker_order_request option \<times> order_status" where
  "orders_of b = ((fb_open_request b, fb_open_state b), fb_close_request b, fb_close_state b)"

lemma submit_scripted:
  assumes "scripted t b"
  shows "\<exists>b'. fake_submit_open r b = (Inr \<lparr>ak_order_id = ''fake-open-order-1'', ak_client_order_id = rq_client_order_id r, ak_observed_at = t\<rparr>, b')
      \<and> scripted t b' \<and> orders_of b' = ((Some r, FILLED_STATUS), snd (orders_of b))"
    "\<exists>b'. fake_submit_close r b = (Inr \<lparr>ak_order_id = ''fake-close-order-1'', ak_client_order_id = rq_client_order_id r, ak_observed_at = t\<rparr>, b')
      \<and> scripted t b' \<and> orders_of b' = (fst (orders_of b), Some r, FILLED_STATUS)"
proof -
  have fields: "\<not> fb_open_submit_outage b" "\<not> fb_close_submit_outage b" "fb_open_terminal_state b = FILLED_STATUS"
    "fb_close_terminal_state b = FILLED_STATUS" "fb_open_order_id b = ''fake-open-order-1''" "fb_close_order_id b = ''fake-close-order-1''"
    using assms by (simp_all add: scripted_def)
  show "\<exists>b'. fake_submit_open r b = (Inr \<lparr>ak_order_id = ''fake-open-order-1'', ak_client_order_id = rq_client_order_id r, ak_observed_at = t\<rparr>, b')
      \<and> scripted t b' \<and> orders_of b' = ((Some r, FILLED_STATUS), snd (orders_of b))"
    using assms fields by (simp add: fake_submit_open_def fake_ack_def operation_defs fake_now_scripted orders_of_def)
  show "\<exists>b'. fake_submit_close r b = (Inr \<lparr>ak_order_id = ''fake-close-order-1'', ak_client_order_id = rq_client_order_id r, ak_observed_at = t\<rparr>, b')
      \<and> scripted t b' \<and> orders_of b' = (fst (orders_of b), Some r, FILLED_STATUS)"
    using assms fields by (simp add: fake_submit_close_def fake_ack_def operation_defs fake_now_scripted orders_of_def)
qed

lemma read_account_scripted:
  assumes "scripted t b"
  shows "\<exists>b' a. fake_read_account b = (Inr a, b') \<and> scripted t b' \<and> orders_of b' = orders_of b
     \<and> pa_observed_at a = t \<and> pa_account_id a = ''paper-account'' \<and> pa_account_class a = PAPER_ACCOUNT_CLASS"
proof -
  have "\<not> fb_read_outage b" "fb_account b = None" using assms by (simp_all add: scripted_def)
  then show ?thesis using assms by (simp add: fake_read_account_def operation_defs fake_now_scripted orders_of_def)
qed

lemma read_order_scripted:
  assumes "scripted t b"
  shows "fst (orders_of b) = (Some r, FILLED_STATUS) \<Longrightarrow>
      \<exists>b'. fake_read_order ''fake-open-order-1'' b = (Inr (confirmed r ''fake-open-order-1'' t), b') \<and> scripted t b' \<and> orders_of b' = orders_of b"
    "snd (orders_of b) = (Some r, FILLED_STATUS) \<Longrightarrow>
      \<exists>b'. fake_read_order ''fake-close-order-1'' b = (Inr (confirmed r ''fake-close-order-1'' t), b') \<and> scripted t b' \<and> orders_of b' = orders_of b"
proof -
  have fields: "\<not> fb_read_outage b" "fb_open_order_id b = ''fake-open-order-1''" "fb_close_order_id b = ''fake-close-order-1''"
    "fb_open_truth_overrides b = (\<lambda>x. x)" "fb_close_truth_overrides b = (\<lambda>x. x)" "fb_open_filled_qty b = 1" "fb_close_filled_qty b = 1"
    using assms by (simp_all add: scripted_def)
  show "fst (orders_of b) = (Some r, FILLED_STATUS) \<Longrightarrow>
      \<exists>b'. fake_read_order ''fake-open-order-1'' b = (Inr (confirmed r ''fake-open-order-1'' t), b') \<and> scripted t b' \<and> orders_of b' = orders_of b"
    using assms fields
    by (simp add: fake_read_order_def fake_order_truth_def fake_filled_qty_def operation_defs fake_now_scripted orders_of_def confirmed_def)
  show "snd (orders_of b) = (Some r, FILLED_STATUS) \<Longrightarrow>
      \<exists>b'. fake_read_order ''fake-close-order-1'' b = (Inr (confirmed r ''fake-close-order-1'' t), b') \<and> scripted t b' \<and> orders_of b' = orders_of b"
    using assms fields
    by (simp add: fake_read_order_def fake_order_truth_def fake_filled_qty_def operation_defs fake_now_scripted orders_of_def confirmed_def)
qed

definition confirmed_positions :: "broker_order_request \<Rightarrow> string \<Rightarrow> datetime \<Rightarrow> position_truth list \<Rightarrow> broker_position_snapshot" where
  "confirmed_positions r order t ps =
     \<lparr>bp_order_id = order, bp_client_order_id = rq_client_order_id r, bp_permit_id = rq_permit_id r,
      bp_open_permit_id = rq_open_permit_id r, bp_event_run_id = rq_event_run_id r, bp_reservation_id = rq_reservation_id r,
      bp_correlation_sha256 = rq_correlation_sha256 r, bp_policy_sha256 = rq_policy_sha256 r,
      bp_snapshot_sha256 = rq_snapshot_sha256 r, bp_account_id = rq_account_id r, bp_account_class = rq_account_class r,
      bp_order_class = rq_order_class r, bp_limit_price = rq_limit_price r, bp_legs = rq_legs r,
      bp_observed_at = t, bp_positions = ps\<rparr>"

definition leg_truth :: "datetime \<Rightarrow> broker_option_leg \<Rightarrow> position_truth" where
  "leg_truth t l = \<lparr>pt_symbol = bl_symbol l, pt_qty = dec_of_int (snd (leg_position l)), pt_observed_at = t\<rparr>"

lemma read_positions_scripted:
  assumes "scripted t b"
  shows "orders_of b = ((Some r, FILLED_STATUS), None, st) \<Longrightarrow> rq_legs r = [k, l] \<Longrightarrow>
      \<exists>b'. fake_read_positions b = (Inr (confirmed_positions r ''fake-open-order-1'' t [leg_truth t k, leg_truth t l]), b')
        \<and> scripted t b' \<and> orders_of b' = orders_of b"
    "snd (orders_of b) = (Some r, FILLED_STATUS) \<Longrightarrow>
      \<exists>b'. fake_read_positions b = (Inr (confirmed_positions r ''fake-close-order-1'' t []), b') \<and> scripted t b' \<and> orders_of b' = orders_of b"
proof -
  have fields: "\<not> fb_read_outage b" "fb_open_order_id b = ''fake-open-order-1''" "fb_close_order_id b = ''fake-close-order-1''"
    "fb_open_position_overrides b = (\<lambda>x. x)" "fb_close_position_overrides b = (\<lambda>x. x)" "fb_positions_flat_after_close b"
    using assms by (simp_all add: scripted_def)
  show "orders_of b = ((Some r, FILLED_STATUS), None, st) \<Longrightarrow> rq_legs r = [k, l] \<Longrightarrow>
      \<exists>b'. fake_read_positions b = (Inr (confirmed_positions r ''fake-open-order-1'' t [leg_truth t k, leg_truth t l]), b')
        \<and> scripted t b' \<and> orders_of b' = orders_of b"
    using assms fields
    by (simp add: fake_read_positions_def fake_position_snapshot_def operation_defs fake_now_scripted orders_of_def
        confirmed_positions_def leg_truth_def leg_position_def)
  show "snd (orders_of b) = (Some r, FILLED_STATUS) \<Longrightarrow>
      \<exists>b'. fake_read_positions b = (Inr (confirmed_positions r ''fake-close-order-1'' t []), b') \<and> scripted t b' \<and> orders_of b' = orders_of b"
    using assms fields
    by (simp add: fake_read_positions_def fake_position_snapshot_def operation_defs fake_now_scripted orders_of_def confirmed_positions_def)
qed

lemma confirmed_fields:
  "ot_observed_at (confirmed r order t) = t" "ot_status (confirmed r order t) = FILLED_STATUS" "ot_filled_qty (confirmed r order t) = 1"
  "ot_order_id (confirmed r order t) = order" "bp_observed_at (confirmed_positions r order t ps) = t"
  "bp_positions (confirmed_positions r order t ps) = ps"
  by (simp_all add: confirmed_def confirmed_positions_def)

lemma positions_guards:
  "confirmable r \<Longrightarrow> ak_order_id ack = order \<Longrightarrow> first_reject (position_binding_guards r ack (confirmed_positions r order t ps)) = None"
  by (simp add: position_binding_guards_def confirmed_positions_def confirmable_def dec_eq_refl)

section \<open>Truth is established\<close>

lemma steady_positions:
  assumes "steady t cfg" "\<forall>p \<in> set ps. pt_symbol p \<noteq> [] \<and> is_finite (pt_qty p) \<and> pt_observed_at p = t"
  shows "\<exists>n. validate_positions cfg ps s = (Inr (), s\<lparr>ws_readings := n\<rparr>)"
  using assms(2)
proof (induction ps arbitrary: s)
  case Nil
  then show ?case by (auto simp: oreturn_def intro!: exI [of _ "ws_readings s"])
next
  case (Cons p ps)
  obtain n where "validate_positions cfg ps (s\<lparr>ws_readings := Suc (ws_readings s)\<rparr>) = (Inr (), s\<lparr>ws_readings := n\<rparr>)"
    using Cons.IH [of "s\<lparr>ws_readings := Suc (ws_readings s)\<rparr>"] Cons.prems by auto
  then have "validate_positions cfg (p # ps) s = (Inr (), s\<lparr>ws_readings := n\<rparr>)"
    using Cons.prems by (simp add: operation_defs steady_fresh [OF assms(1)])
  then show ?case by blast
qed

lemma validated:
  assumes "steady t cfg" "confirmable r" "ak_order_id ack = order" "pa_observed_at a = t" "pa_account_id a = ''paper-account''"
    "pa_account_class a = PAPER_ACCOUNT_CLASS"
    and "\<forall>p \<in> set ps. pt_symbol p \<noteq> [] \<and> is_finite (pt_qty p) \<and> pt_observed_at p = t"
    and "rq_phase r = OPEN \<Longrightarrow> opened_exactly r ps"
  shows "\<exists>n. validate_account cfg a r s = (Inr (), s\<lparr>ws_readings := n\<rparr>)"
    "\<exists>n. validate_order_truth cfg r ack (confirmed r order t) s = (Inr (), s\<lparr>ws_readings := n\<rparr>)"
    "\<exists>n. validate_position_truth cfg r ack (confirmed_positions r order t ps) (confirmed r order t) s = (Inr (), s\<lparr>ws_readings := n\<rparr>)"
proof -
  show "\<exists>n. validate_account cfg a r s = (Inr (), s\<lparr>ws_readings := n\<rparr>)"
    using assms(2,4,5,6) by (auto simp: validate_account_def operation_defs steady_fresh [OF assms(1)] confirmable_def)
  show "\<exists>n. validate_order_truth cfg r ack (confirmed r order t) s = (Inr (), s\<lparr>ws_readings := n\<rparr>)"
    using confirmed_guards [OF assms(2,3), of t]
    by (auto simp: validate_order_truth_def operation_defs confirmed_fields steady_fresh [OF assms(1)])
  obtain n where n: "validate_positions cfg ps (s\<lparr>ws_readings := Suc (ws_readings s)\<rparr>) = (Inr (), s\<lparr>ws_readings := n\<rparr>)"
    using steady_positions [OF assms(1,7), of "s\<lparr>ws_readings := Suc (ws_readings s)\<rparr>"] by auto
  show "\<exists>n. validate_position_truth cfg r ack (confirmed_positions r order t ps) (confirmed r order t) s = (Inr (), s\<lparr>ws_readings := n\<rparr>)"
    using positions_guards [OF assms(2,3), of t ps] n assms(8)
    by (auto simp: validate_position_truth_def operation_defs confirmed_fields steady_fresh [OF assms(1)] intro!: exI [of _ n])
qed

section \<open>Requests are recorded\<close>

lemma exact_text_ends:
  assumes "s \<noteq> []" "\<not> is_space (hd s)" "\<not> is_space (last s)"
  shows "exact_text s"
proof -
  have "lstrip s = s" using assms(1,2) by (cases s) (auto simp: lstrip_def)
  moreover have "lstrip (rev s) = rev s" using assms(1,3) by (cases s rule: rev_cases) (auto simp: lstrip_def)
  ultimately show ?thesis using assms(1) by (simp add: exact_text_def strip_def)
qed

lemma client_order_exact:
  assumes "is_sha256 d"
  shows "exact_text (lower (phase_value ph) @ ''-'' @ pid @ ''-'' @ take 16 d)"
proof (rule exact_text_ends)
  have "take 16 d \<noteq> []" using assms by (auto simp: is_sha256_def)
  moreover from this have "last (take 16 d) \<in> set d" by (metis in_set_takeD last_in_set)
  ultimately show "\<not> is_space (last (lower (phase_value ph) @ ''-'' @ pid @ ''-'' @ take 16 d))"
    using assms hex_not_space by (auto simp: is_sha256_def list_all_iff)
  show "\<not> is_space (hd (lower (phase_value ph) @ ''-'' @ pid @ ''-'' @ take 16 d))"
    by (cases ph) (simp_all add: text_simps Let_def)
qed simp

lemma request_intent_guards:
  assumes "\<And>x. is_sha256 (H x)" "list_all exact_text [rq_permit_id r, rq_event_run_id r, rq_open_permit_id r, rq_reservation_id r,
      rq_account_id r, rq_account_class r, rq_order_class r, rq_client_order_id r]"
    and "is_sha256 (rq_correlation_sha256 r)" "is_sha256 (rq_policy_sha256 r)" "is_sha256 (rq_snapshot_sha256 r)" "is_utc now"
  shows "first_reject (intent_guards H (request_intent H r q) now) = None"
proof -
  let ?v = "broker_order_request_payload r q"
  have "canonical_json_bytes (json_sort ?v) = canonical_json_bytes ?v" by (simp add: canonical_json_bytes_def json_sort_idem)
  moreover have "list_all (\<lambda>(k, t). json_get (json_sort ?v) k = Some (JStr t)) (request_identity (request_intent H r q))"
    by (simp add: request_identity_def request_intent_def request_member)
  then have "\<not> list_ex (\<lambda>(k, t). json_get (json_sort ?v) k \<noteq> Some (JStr t)) (request_identity (request_intent H r q))"
    by (auto simp: list_ex_iff list_all_iff)
  moreover have "is_object (json_sort ?v)" by (simp add: broker_order_request_payload_def)
  moreover have "it_request_json (request_intent H r q) = canonical_json_bytes ?v"
    "it_request_sha256 (request_intent H r q) = H (canonical_json_bytes ?v)"
    by (simp_all add: request_intent_def broker_order_request_sha256_def)
  ultimately show ?thesis
    using assms unfolding intent_guards_def
    by (simp add: validator_defs json_loads_canonical) (simp add: request_intent_def)
qed

end
