(* ===== verification/Worker_Completion.thy ===== *)
theory Worker_Completion
  imports Worker_Liveness
begin

text \<open>
  The worker runs to completion. The locale states what a broker must do to be driven like the
  scripted fake broker: answer each call as the fake broker answers it in the state that is seen
  through a view. The fake broker itself is one such broker, and so is the traced one.
\<close>

section \<open>Brokers that answer like the fake broker\<close>

locale answering =
  fixes B :: "'b paper_broker" and view :: "'b \<Rightarrow> fake_paper_broker"
  assumes answers:
    "map_prod id view (pb_submit_open B r b) = fake_submit_open r (view b)"
    "map_prod id view (pb_submit_close B r b) = fake_submit_close r (view b)"
    "map_prod id view (pb_read_account B b) = fake_read_account (view b)"
    "map_prod id view (pb_read_order B order b) = fake_read_order order (view b)"
    "map_prod id view (pb_read_positions B b) = fake_read_positions (view b)"
begin

lemma answered:
  assumes "map_prod id view m = (Inr a, b1)"
  obtains b' where "m = (Inr a, b')" "view b' = b1"
  using assms by (cases m) auto

text \<open>What a step of the worker leaves as it was.\<close>

definition carries_on :: "datetime \<Rightarrow> 'b worker_state \<Rightarrow> 'b worker_state \<Rightarrow> bool" where
  "carries_on t s s' =
     (ws_ledger s' = ws_ledger s \<and> ws_submitted_open s' = ws_submitted_open s \<and> ws_submitted_close s' = ws_submitted_close s
      \<and> orders_of (view (ws_broker s')) = orders_of (view (ws_broker s)) \<and> scripted t (view (ws_broker s')))"

lemma truth_read:
  assumes cfg: "steady t cfg" "confirmable r" "ak_order_id ack = order"
    and script: "scripted t (view (ws_broker s))"
    and order: "rq_phase r = OPEN \<and> order = ''fake-open-order-1'' \<and> orders_of (view (ws_broker s)) = ((Some r, FILLED_STATUS), None, st)
      \<or> rq_phase r = CLOSE \<and> order = ''fake-close-order-1'' \<and> snd (orders_of (view (ws_broker s))) = (Some r, FILLED_STATUS)"
  shows "\<exists>ps s'. fresh_bound_truth B cfg r ack s = (Inr (confirmed r order t, confirmed_positions r order t ps), s')
    \<and> carries_on t s s' \<and> (rq_phase r = CLOSE \<longrightarrow> ps = [])"
proof -
  obtain k l where kl: "rq_legs r = [k, l]" "bl_symbol k \<noteq> []" "bl_symbol l \<noteq> []" using cfg(2) by (auto simp: confirmable_def)
  obtain f1 a where f1: "fake_read_account (view (ws_broker s)) = (Inr a, f1)" "scripted t f1" "orders_of f1 = orders_of (view (ws_broker s))"
    "pa_observed_at a = t" "pa_account_id a = ''paper-account''" "pa_account_class a = PAPER_ACCOUNT_CLASS"
    using read_account_scripted [OF script] by blast
  obtain b1 where b1: "pb_read_account B (ws_broker s) = (Inr a, b1)" "view b1 = f1"
    by (rule answered [OF answers(3) [of "ws_broker s", unfolded f1(1)]])
  obtain f2 where f2: "fake_read_order order f1 = (Inr (confirmed r order t), f2)" "scripted t f2" "orders_of f2 = orders_of (view (ws_broker s))"
    using read_order_scripted [OF f1(2)] order f1(3) by (auto simp: prod_eq_iff)
  obtain b2 where b2: "pb_read_order B order b1 = (Inr (confirmed r order t), b2)" "view b2 = f2"
    by (rule answered [OF answers(4) [of order b1, unfolded b1(2) f2(1)]])
  obtain f3 ps where f3: "fake_read_positions f2 = (Inr (confirmed_positions r order t ps), f3)" "scripted t f3"
    "orders_of f3 = orders_of (view (ws_broker s))" "rq_phase r = OPEN \<longrightarrow> ps = [leg_truth t k, leg_truth t l]" "rq_phase r = CLOSE \<longrightarrow> ps = []"
  proof (cases "rq_phase r")
    case OPEN
    then show thesis using read_positions_scripted(1) [OF f2(2) _ kl(1)] order f2(3) that by auto
  next
    case CLOSE
    then show thesis using read_positions_scripted(2) [OF f2(2), of r] order f2(3) that by auto
  qed
  obtain b3 where b3: "pb_read_positions B b2 = (Inr (confirmed_positions r order t ps), b3)" "view b3 = f3"
    by (rule answered [OF answers(5) [of b2, unfolded b2(2) f3(1)]])
  have positions: "\<forall>p \<in> set ps. pt_symbol p \<noteq> [] \<and> is_finite (pt_qty p) \<and> pt_observed_at p = t"
    using f3(4,5) kl by (cases "rq_phase r") (auto simp: leg_truth_def dec_of_int_def)
  have exact: "opened_exactly r ps" if "rq_phase r = OPEN"
    using f3(4) that kl(1) by (auto simp: opened_exactly_def leg_truth_def dec_of_int_def intro!: same_quantities_refl)
  note checks = validated [OF cfg f1(4,5,6) positions exact]
  obtain n1 where n1: "validate_account cfg a r (s\<lparr>ws_broker := b3\<rparr>) = (Inr (), s\<lparr>ws_broker := b3, ws_readings := n1\<rparr>)"
    using checks(1) [of "s\<lparr>ws_broker := b3\<rparr>"] by blast
  obtain n2 where n2: "validate_order_truth cfg r ack (confirmed r order t) (s\<lparr>ws_broker := b3, ws_readings := n1\<rparr>)
      = (Inr (), s\<lparr>ws_broker := b3, ws_readings := n2\<rparr>)"
    using checks(2) [of "s\<lparr>ws_broker := b3, ws_readings := n1\<rparr>"] by auto
  obtain n3 where n3: "validate_position_truth cfg r ack (confirmed_positions r order t ps) (confirmed r order t) (s\<lparr>ws_broker := b3, ws_readings := n2\<rparr>)
      = (Inr (), s\<lparr>ws_broker := b3, ws_readings := n3\<rparr>)"
    using checks(3) [of "s\<lparr>ws_broker := b3, ws_readings := n2\<rparr>"] by auto
  have "fresh_bound_truth B cfg r ack s
      = (Inr (confirmed r order t, confirmed_positions r order t ps), s\<lparr>ws_broker := b3, ws_readings := n3\<rparr>)"
    using b1(1) b2(1) b3(1) n1 n2 n3 by (simp add: fresh_bound_truth_def operation_defs on_broker_def cfg(3))
  moreover have "carries_on t s (s\<lparr>ws_broker := b3, ws_readings := n3\<rparr>)" using f3(2,3) b3(2) by (simp add: carries_on_def)
  ultimately show ?thesis using f3(5) by blast
qed

end

section \<open>What the ledger holds for a permit\<close>

definition holds :: "string \<times> string \<times> string \<Rightarrow> permit_state \<times> reservation_state \<Rightarrow> ledger \<Rightarrow> bool" where
  "holds = (\<lambda>(pid, ev, rid) (ps, rst) db. case (permit_row pid db, reservation_for_event ev db) of
     (Some q, Some r) \<Rightarrow> pm_event_id q = ev \<and> pm_reservation_id q = rid \<and> pm_state q = ps \<and> rs_id r = rid \<and> rs_state r = rst
   | _ \<Rightarrow> False)"

lemma holds_Some:
  assumes "holds (pid, ev, rid) (ps, rst) db"
  obtains q r where "permit_row pid db = Some q" "pm_event_id q = ev" "pm_reservation_id q = rid" "pm_state q = ps"
    "reservation_for_event ev db = Some r" "rs_id r = rid" "rs_state r = rst" "reservation_in_state pid ev rst db"
  using assms by (auto simp: holds_def reservation_in_state_def split: option.splits)

lemma holds_lookups:
  assumes "\<And>pid. permit_row pid db' = permit_row pid db" "\<And>ev. reservation_for_event ev db' = reservation_for_event ev db"
  shows "holds k v db' = holds k v db"
  by (cases k, cases v) (simp only: holds_def prod.case assms)

lemma holds_other [simp]:
  "holds k v (db\<lparr>lifecycle_intents := its\<rparr>) = holds k v db" "holds k v (db\<lparr>passport_events := pe\<rparr>) = holds k v db"
  "holds k v (db\<lparr>submissions := sb\<rparr>) = holds k v db" "holds k v (db\<lparr>fills := fs\<rparr>) = holds k v db"
  by (rule holds_lookups; simp add: permit_row_def reservation_for_event_def)+

lemma holds_permit: "holds (pid, ev, rid) (ps, rst) db \<Longrightarrow> holds (pid, ev, rid) (ps', rst) (set_permit_state pid ps' now db)"
  by (auto simp: holds_def permit_row_def reservation_for_event_def set_permit_state_def row_where_update
      simp del: row_where_None split: option.splits dest: row_where_Some)

lemma holds_reservation: "holds (pid, ev, rid) (ps, rst) db \<Longrightarrow> holds (pid, ev, rid) (ps, rst') (set_reservation_state ev rst' now db)"
  by (auto simp: holds_def permit_row_def reservation_for_event_def set_reservation_state_def row_where_update
      simp del: row_where_None split: option.splits dest: row_where_Some)

lemma row_appended:
  assumes "key row \<notin> key ` set rows"
  shows "row_where (\<lambda>r. key r = key row) (rows @ [row]) = Some row"
proof -
  have "row_where (\<lambda>r. key r = key row) rows = None" using assms by (auto simp: image_iff)
  then show ?thesis by (simp del: row_where_None)
qed

section \<open>Stages of a run\<close>

text \<open>The row of an intent, before the order is bound to it, after, and once it is reconciled.\<close>

definition intended :: "hash_function \<Rightarrow> broker_order_request \<Rightarrow> int \<Rightarrow> datetime \<Rightarrow> intent_row" where
  "intended H r q t = (request_intent H r q)\<lparr>it_broker_order_id := None, it_state := INTENDED,
     it_created_at := isoformat_z t, it_updated_at := isoformat_z t\<rparr>"

definition bound_to :: "string \<Rightarrow> datetime \<Rightarrow> intent_row \<Rightarrow> intent_row" where
  "bound_to order t it = it\<lparr>it_broker_order_id := Some order, it_state := INTENT_SUBMITTED, it_updated_at := isoformat_z t\<rparr>"

definition settled_at :: "datetime \<Rightarrow> intent_row \<Rightarrow> intent_row" where
  "settled_at t it = it\<lparr>it_state := INTENT_RECONCILED, it_updated_at := isoformat_z t\<rparr>"

context answering
begin

definition stage ::
    "datetime \<Rightarrow> string \<times> string \<times> string \<Rightarrow> permit_state \<times> reservation_state \<Rightarrow> intent_row list \<Rightarrow> submission_row list \<Rightarrow> fill_row list
     \<Rightarrow> (broker_order_request option \<times> order_status) \<times> broker_order_request option \<times> order_status \<Rightarrow> 'b worker_state \<Rightarrow> bool" where
  "stage t k v its subs fls ord s =
     (holds k v (ws_ledger s) \<and> lifecycle_intents (ws_ledger s) = its \<and> submissions (ws_ledger s) = subs \<and> fills (ws_ledger s) = fls
      \<and> orders_of (view (ws_broker s)) = ord \<and> scripted t (view (ws_broker s)))"

lemma stage_clock [simp]:
  "stage t k v its subs fls ord (s\<lparr>ws_readings := n\<rparr>) = stage t k v its subs fls ord s"
  "stage t k v its subs fls ord (s\<lparr>ws_submitted_open := xs\<rparr>) = stage t k v its subs fls ord s"
  "stage t k v its subs fls ord (s\<lparr>ws_submitted_close := xs\<rparr>) = stage t k v its subs fls ord s"
  by (simp_all add: stage_def)

lemma stage_carries: "carries_on t s s' \<Longrightarrow> stage t k v its subs fls ord s \<Longrightarrow> stage t k v its subs fls ord s'"
  by (simp add: carries_on_def stage_def)

lemma step_intent:
  assumes "steady t cfg" "stage t k v its subs fls ord s" "first_reject (intent_guards H (request_intent H r q) t) = None"
    and "\<not> list_ex (intent_clash (request_intent H r q)) its"
  shows "\<exists>s'. record_intent H cfg r q s = (Inr (), s') \<and> stage t k v (its @ [intended H r q t]) subs fls ord s'
    \<and> ws_submitted_open s' = ws_submitted_open s \<and> ws_submitted_close s' = ws_submitted_close s"
proof -
  have utc: "is_utc t" using assms(1) by (simp add: steady_def)
  have its: "lifecycle_intents (ws_ledger s) = its" using assms(2) by (simp add: stage_def)
  obtain pe where "record_lifecycle_intent H (request_intent H r q) t (ws_ledger s)
      = (Inr (), (ws_ledger s)\<lparr>lifecycle_intents := its @ [intended H r q t], passport_events := pe\<rparr>)"
    using intent_recorded [OF assms(3) utc, of "ws_ledger s"] assms(4) by (auto simp: its intended_def)
  then show ?thesis
    using assms(2) by (simp add: record_intent_def operation_defs steady_now [OF assms(1)] on_ledger_def stage_def)
qed

lemma step_bind:
  assumes "steady t cfg" "stage t k v (its @ [row]) subs fls ord s"
    and "\<forall>i \<in> set its. it_permit_id i \<noteq> rq_permit_id r \<and> it_broker_order_id i \<noteq> Some (ak_order_id ack)"
    and "row = intended H r q t" "is_object (request_payload row)" "exact_text (rq_permit_id r)"
    and "exact_text (ak_order_id ack)" "ak_client_order_id ack = rq_client_order_id r"
  shows "\<exists>s'. bind_ack H cfg r ack s = (Inr (), s') \<and> stage t k v (its @ [bound_to (ak_order_id ack) t row]) subs fls ord s'
    \<and> ws_submitted_open s' = ws_submitted_open s \<and> ws_submitted_close s' = ws_submitted_close s"
proof -
  have utc: "is_utc t" using assms(1) by (simp add: steady_def)
  have its: "lifecycle_intents (ws_ledger s) = its @ [row]" using assms(2) by (simp add: stage_def)
  have row: "it_permit_id row = rq_permit_id r" "it_phase row = rq_phase r" "it_state row = INTENDED"
    by (simp_all add: assms(4) intended_def request_intent_def)
  obtain pe where "bind_lifecycle_intent H (rq_permit_id r) (rq_phase r) (ak_order_id ack) t (ws_ledger s)
      = (Inr (), (ws_ledger s)\<lparr>lifecycle_intents := its @ [bound_to (ak_order_id ack) t row], passport_events := pe\<rparr>)"
    using intent_bound [OF its assms(3) row assms(5-7) utc, of H] by (auto simp: bound_to_def)
  moreover have "strip (ak_order_id ack) \<noteq> []" using assms(7) by (auto simp: exact_text_def)
  ultimately show ?thesis
    using assms(2,8) by (simp add: bind_ack_def operation_defs steady_now [OF assms(1)] on_ledger_def stage_def)
qed

lemma step_submission:
  assumes "steady t cfg" "stage t (pid, ev, rid) (ISSUED, RESERVED) its subs fls ord s"
    and "pid \<notin> sb_permit_id ` set subs" "order \<notin> sb_broker_order_id ` set subs" "exact_text pid" "exact_text ev" "exact_text order"
  shows "\<exists>s'. obind (worker_now cfg) (\<lambda>now. on_ledger e (record_submission H ev pid order now False)) s = (Inr (), s')
    \<and> stage t (pid, ev, rid) (SUBMITTED, RESERVED) its
        (subs @ [\<lparr>sb_permit_id = pid, sb_event_id = ev, sb_broker_order_id = order, sb_submitted_at = isoformat_z t\<rparr>]) fls ord s'
    \<and> ws_submitted_open s' = ws_submitted_open s \<and> ws_submitted_close s' = ws_submitted_close s"
proof -
  have utc: "is_utc t" using assms(1) by (simp add: steady_def)
  have held: "holds (pid, ev, rid) (ISSUED, RESERVED) (ws_ledger s)" and subs: "submissions (ws_ledger s) = subs"
    using assms(2) by (simp_all add: stage_def)
  obtain q r where q: "permit_row pid (ws_ledger s) = Some q" "pm_event_id q = ev" "pm_state q = ISSUED"
    and r: "reservation_in_state pid ev RESERVED (ws_ledger s)" using held by (rule holds_Some)
  note run = submission_recorded [OF q r _ _ assms(5-7) utc, unfolded subs, OF assms(3,4)]
  show ?thesis
    using assms(2) held by (simp add: operation_defs steady_now [OF assms(1)] on_ledger_def run stage_def holds_permit)
qed

lemma step_fill:
  assumes "steady t cfg" "stage t (pid, ev, rid) (SUBMITTED, RESERVED) (its @ [row]) subs fls ord s"
    and "co_event_run_id (lc_correlation cfg) = ev" "co_open_permit_id (lc_correlation cfg) = pid" "ot_observed_at o' = t" "0 < ot_filled_qty o'"
    and "row_where (\<lambda>b. sb_permit_id b = pid) subs = Some sb" "sb_event_id sb = ev" "sb_broker_order_id sb = ot_order_id o'"
    and "ot_order_id o' \<notin> fl_id ` set fls" "\<forall>i \<in> set its. it_permit_id i \<noteq> pid" "it_permit_id row = pid" "it_state row = INTENT_SUBMITTED"
    and "exact_text pid" "exact_text ev" "exact_text (ot_order_id o')"
  shows "\<exists>s' fls'. record_open_transition H cfg OPEN_FILLED o' s = (Inr (), s')
    \<and> stage t (pid, ev, rid) (FILLED, CONSUMED) (its @ [settled_at t row]) subs fls' ord s'
    \<and> ws_submitted_open s' = ws_submitted_open s \<and> ws_submitted_close s' = ws_submitted_close s"
proof -
  have utc: "is_utc t" using assms(1) by (simp add: steady_def)
  have held: "holds (pid, ev, rid) (SUBMITTED, RESERVED) (ws_ledger s)" and subs: "submissions (ws_ledger s) = subs"
    and fls: "fills (ws_ledger s) = fls" and its: "lifecycle_intents (ws_ledger s) = its @ [row]"
    using assms(2) by (simp_all add: stage_def)
  obtain q r where q: "permit_row pid (ws_ledger s) = Some q" "pm_event_id q = ev" "pm_state q = SUBMITTED"
    and r: "reservation_in_state pid ev RESERVED (ws_ledger s)" using held by (rule holds_Some)
  have matched: "submitted_order_matches pid ev (ot_order_id o') (ws_ledger s)"
    using assms(7-9) by (simp add: submitted_order_matches_def submission_for_permit_def subs)
  obtain pe fls' where run: "reconcile_observed_order H ev pid (ot_order_id o') ''FILLED'' (dec_of_int (ot_filled_qty o')) t t (ws_ledger s)
      = (Inr (), (set_reservation_state ev CONSUMED t (set_permit_state pid FILLED t (ws_ledger s)))\<lparr>fills := fls', passport_events := pe\<rparr>)"
    using fill_reconciled [OF q r matched _ assms(14-16) utc utc assms(6), unfolded fls, OF assms(10), of H] by blast
  let ?db = "(set_reservation_state ev CONSUMED t (set_permit_state pid FILLED t (ws_ledger s)))\<lparr>fills := fls', passport_events := pe\<rparr>"
  have "lifecycle_intents ?db = its @ [row]" using its by simp
  then have mark: "mark_lifecycle_intent_reconciled pid t ?db = (Inr (), ?db\<lparr>lifecycle_intents := its @ [settled_at t row]\<rparr>)"
    using intent_reconciled [OF _ assms(11-14) utc] by (simp add: settled_at_def)
  show ?thesis
    using assms(2) holds_reservation [OF holds_permit [OF held]]
    by (simp add: record_open_transition_def Let_def assms(3,4,5) operation_defs steady_now [OF assms(1)] on_ledger_def run mark stage_def)
qed

lemma step_flat:
  assumes "steady t cfg" "stage t (pid, ev, rid) (FILLED, CONSUMED) (its @ [row]) subs fls ord s"
    and "co_event_run_id (lc_correlation cfg) = ev" "permit_id p = pid"
    and "\<forall>i \<in> set its. it_permit_id i \<noteq> cp_permit_id c" "it_permit_id row = cp_permit_id c" "it_state row = INTENT_SUBMITTED"
    and "exact_text pid" "exact_text ev" "exact_text (cp_permit_id c)"
  shows "\<exists>s'. persist_flat H cfg p c s = (Inr (), s') \<and> stage t (pid, ev, rid) (FILLED, RELEASED) (its @ [settled_at t row]) subs fls ord s'"
proof -
  have utc: "is_utc t" using assms(1) by (simp add: steady_def)
  have held: "holds (pid, ev, rid) (FILLED, CONSUMED) (ws_ledger s)" and its: "lifecycle_intents (ws_ledger s) = its @ [row]"
    using assms(2) by (simp_all add: stage_def)
  obtain q r where q: "permit_row pid (ws_ledger s) = Some q" "pm_event_id q = ev" "pm_state q = FILLED"
    and r: "reservation_in_state pid ev CONSUMED (ws_ledger s)" using held by (rule holds_Some)
  obtain pe where run: "release_consumed_after_flat H ev pid t (ws_ledger s)
      = (Inr (), (set_reservation_state ev RELEASED t (ws_ledger s))\<lparr>passport_events := pe\<rparr>)"
    using flat_released [OF q r assms(8,9) utc] by blast
  let ?db = "(set_reservation_state ev RELEASED t (ws_ledger s))\<lparr>passport_events := pe\<rparr>"
  have "lifecycle_intents ?db = its @ [row]" using its by simp
  then have mark: "mark_lifecycle_intent_reconciled (cp_permit_id c) t ?db = (Inr (), ?db\<lparr>lifecycle_intents := its @ [settled_at t row]\<rparr>)"
    using intent_reconciled [OF _ assms(5-7,10) utc] by (simp add: settled_at_def)
  show ?thesis
    using assms(2) holds_reservation [OF held]
    by (simp add: persist_flat_def Let_def assms(3,4) operation_defs steady_now [OF assms(1)] on_ledger_def run mark stage_def)
qed

end

section \<open>Lifecycles that are ready\<close>

text \<open>
  The static guards of both operations pass: verified clocks of this event and policy, the PAPER
  account of the broker, an open mutation gate, and the permit of this lifecycle.
\<close>

definition lifecycle_ready :: "hash_function \<Rightarrow> lifecycle_config \<Rightarrow> debit_vertical_permit \<Rightarrow> bool" where
  "lifecycle_ready H cfg p =
     (permit_ok p \<and> first_reject (require_clocks_verified cfg @ require_paper_boundary cfg @ require_clock_scope cfg p @ require_mutation cfg
        @ open_identity_guards H cfg p) = None
      \<and> correlation_checks (lc_correlation cfg) = None \<and> lc_account_id cfg = ''paper-account''
      \<and> exact_text (permit_id p) \<and> exact_text (event_run_id p) \<and> exact_text (co_reservation_id (lc_correlation cfg)))"

definition window_open :: "datetime \<Rightarrow> datetime \<Rightarrow> datetime \<Rightarrow> bool" where
  "window_open issued t expires = (aware issued \<and> aware expires \<and> instant issued \<le> instant t \<and> instant t < instant expires)"

lemma ready_facts:
  assumes "lifecycle_ready H cfg p"
  shows "permit_ok p" "source_verified (lc_clocks cfg)" "lc_account_id cfg = ''paper-account''" "exact_text (lc_account_id cfg)"
    "lc_account_class cfg = PAPER_ACCOUNT_CLASS" "lc_order_class cfg = MULTI_LEG_ORDER_CLASS"
    "first_reject (require_clock_scope cfg p) = None" "lc_mutation_permitted cfg" "first_reject (open_identity_guards H cfg p) = None"
    "correlation_checks (lc_correlation cfg) = None" "co_open_permit_id (lc_correlation cfg) = permit_id p"
    "co_event_run_id (lc_correlation cfg) = event_run_id p"
    "exact_text (permit_id p)" "exact_text (event_run_id p)" "exact_text (co_reservation_id (lc_correlation cfg))"
  using assms
  by (auto simp: lifecycle_ready_def first_reject_append require_clocks_verified_def require_paper_boundary_def require_mutation_def
      open_identity_guards_def Let_def split: option.splits)

lemma class_texts_exact: "exact_text PAPER_ACCOUNT_CLASS" "exact_text MULTI_LEG_ORDER_CLASS"
  by (simp_all add: PAPER_ACCOUNT_CLASS_def MULTI_LEG_ORDER_CLASS_def text_simps)

text \<open>The request of either phase: the ledger accepts its intent, the broker confirms it.\<close>

lemma request_accepted:
  assumes ready: "lifecycle_ready H cfg p" and hash: "\<And>x. is_sha256 (H x)" and "is_utc t" "exact_text pid"
    and co: "co_event_run_id co = event_run_id p" "co_reservation_id co = co_reservation_id (lc_correlation cfg)"
    and r: "r = order_request H cfg phase pid p co price legs"
  shows "first_reject (intent_guards H (request_intent H r q) t) = None" "is_object (request_payload (intended H r q t))"
    "is_finite price \<Longrightarrow> (case phase of OPEN \<Rightarrow> 0 < dval price | CLOSE \<Rightarrow> dval price < 0) \<Longrightarrow>
       (\<exists>k l. legs = [k, l] \<and> bl_symbol k \<noteq> [] \<and> bl_symbol l \<noteq> []) \<Longrightarrow> confirmable r"
proof -
  note facts = ready_facts [OF ready]
  have shas: "is_sha256 (policy_sha256 p)" "is_sha256 (snapshot_sha256 p)"
    using facts(1) permit_checks_None by (auto simp: permit_ok_def)
  show "first_reject (intent_guards H (request_intent H r q) t) = None"
    by (rule request_intent_guards [OF hash _ _ _ _ assms(3)])
      (use facts shas hash assms(4) co client_order_exact [of "H (canonical_json_bytes (correlation_payload co))" phase pid] in
        \<open>simp_all add: r order_request_def Let_def correlation_sha256_def class_texts_exact\<close>)
  show "is_object (request_payload (intended H r q t))"
    by (simp add: request_payload_def intended_def request_intent_def json_loads_canonical broker_order_request_payload_def)
  show "is_finite price \<Longrightarrow> (case phase of OPEN \<Rightarrow> 0 < dval price | CLOSE \<Rightarrow> dval price < 0) \<Longrightarrow>
       (\<exists>k l. legs = [k, l] \<and> bl_symbol k \<noteq> [] \<and> bl_symbol l \<noteq> []) \<Longrightarrow> confirmable r"
    using facts(3,5,6) by (cases phase) (simp_all add: r order_request_def Let_def confirmable_def)
qed

lemma permit_legs_named:
  assumes "permit_ok p"
  shows "\<exists>k l. open_legs p = [k, l] \<and> bl_symbol k \<noteq> [] \<and> bl_symbol l \<noteq> []"
    "\<exists>k l. close_legs p = Inr [k, l] \<and> bl_symbol k \<noteq> [] \<and> bl_symbol l \<noteq> []"
proof -
  have legs: "option_leg_checks (long_leg p) = None" "option_leg_checks (short_leg p) = None" "permit_checks p = None"
    using assms by (simp_all add: permit_ok_def)
  then have "leg_symbol (long_leg p) \<noteq> []" "leg_symbol (short_leg p) \<noteq> []"
    using leg_symbol_exact by (auto simp: exact_text_def)
  moreover have "leg_intent (long_leg p) = BUY_TO_OPEN" "leg_intent (short_leg p) = SELL_TO_OPEN"
    using legs(3) by (auto simp: permit_checks_def first_reject_append split: option.splits)
  ultimately show "\<exists>k l. open_legs p = [k, l] \<and> bl_symbol k \<noteq> [] \<and> bl_symbol l \<noteq> []"
    "\<exists>k l. close_legs p = Inr [k, l] \<and> bl_symbol k \<noteq> [] \<and> bl_symbol l \<noteq> []"
    by (simp_all add: open_legs_def open_leg_def close_legs_def close_leg_def)
qed

lemma binding_held:
  assumes "ledger_inv H db" "open_binding_ok cfg p (reservation_for_event ev db) (permit_for_event ev db)"
  shows "holds (permit_id p, ev, co_reservation_id (lc_correlation cfg)) (ISSUED, RESERVED) db" "permit_id p \<notin> sb_permit_id ` set (submissions db)"
proof -
  obtain r q where r: "reservation_for_event ev db = Some r" "rs_id r = co_reservation_id (lc_correlation cfg)" "rs_state r = RESERVED"
    and q: "permit_for_event ev db = Some q" "pm_id q = permit_id p" "pm_reservation_id q = co_reservation_id (lc_correlation cfg)" "pm_state q = ISSUED"
    using assms(2) by (auto simp: open_binding_ok_def split: option.splits)
  have mem: "q \<in> set (permits db)" "pm_event_id q = ev"
    using row_where_Some [OF q(1) [unfolded permit_for_event_def]] by simp_all
  have "distinct (map pm_id (permits db))" using assms(1) by (simp add: ledger_inv_def permit_keys_def)
  then have "permit_row (permit_id p) db = Some q"
    using row_where_distinct [OF _ mem(1), of pm_id] q(2) by (simp add: permit_row_def)
  then show "holds (permit_id p, ev, co_reservation_id (lc_correlation cfg)) (ISSUED, RESERVED) db"
    using r q mem(2) by (simp add: holds_def)
  have "submitted_ok (permits db) (submissions db)" using assms(1) by (simp add: ledger_inv_def)
  then show "permit_id p \<notin> sb_permit_id ` set (submissions db)" using mem(1) q(2,4) by (auto simp: submitted_ok_def)
qed

lemma open_granted:
  fixes s :: "'b worker_state"
  assumes ready: "lifecycle_ready H cfg p" and cfg: "steady t cfg" and window: "window_open (issued_at p) t (expires_at p)"
    and deadline: "aware (lk_entry_deadline_at (lc_clocks cfg))" "instant t \<le> instant (lk_entry_deadline_at (lc_clocks cfg))"
    and fresh: "lifecycle_intent_for_permit (permit_id p) (ws_ledger s) = None" "permit_id p \<notin> set (ws_submitted_open s)"
    and bound: "open_binding_ok cfg p (reservation_for_event (event_run_id p) (ws_ledger s)) (permit_for_event (event_run_id p) (ws_ledger s))"
  shows "\<exists>n. require_open_allowed H cfg p s = (Inr (), s\<lparr>ws_readings := n\<rparr>)"
proof -
  note facts = ready_facts [OF ready]
  have static: "first_reject (require_clocks_verified cfg @ require_paper_boundary cfg @ require_clock_scope cfg p) = None"
    using facts by (simp add: first_reject_append require_clocks_verified_def require_paper_boundary_def)
  have window': "require_active_window cfg (issued_at p) (expires_at p) path why s' = (Inr (), s'\<lparr>ws_readings := Suc (ws_readings s')\<rparr>)"
    for path why and s' :: "'b worker_state"
    using window by (simp add: require_active_window_def operation_defs steady_now [OF cfg] window_open_def)
  have binding: "require_open_binding H cfg p s' = (Inr (), s')" if "ws_ledger s' = ws_ledger s" for s' :: "'b worker_state"
    using facts(9,14) bound that by (simp add: require_open_binding_def find_by_def operation_defs)
  show ?thesis
    unfolding require_open_allowed_def
    using static facts(8,13) deadline fresh
    by (simp add: operation_defs window' find_by_def steady_now [OF cfg] binding require_mutation_def) auto
qed

lemma order_ids_exact: "exact_text ''fake-open-order-1''" "exact_text ''fake-close-order-1''"
  by (simp_all add: text_simps)

text \<open>No record of the ledger is about this permit's orders yet.\<close>

definition untouched :: "debit_vertical_permit \<Rightarrow> string \<Rightarrow> ledger \<Rightarrow> bool" where
  "untouched p order db =
     ((\<forall>i \<in> set (lifecycle_intents db). it_permit_id i \<noteq> permit_id p \<and> it_event_id i \<noteq> event_run_id p \<and> it_broker_order_id i \<noteq> Some order)
      \<and> order \<notin> sb_broker_order_id ` set (submissions db) \<and> order \<notin> fl_id ` set (fills db))"

context answering
begin

definition scripted_ack :: "broker_order_request \<Rightarrow> datetime \<Rightarrow> broker_order_ack" where
  "scripted_ack r t =
     \<lparr>ak_order_id = (case rq_phase r of OPEN \<Rightarrow> ''fake-open-order-1'' | CLOSE \<Rightarrow> ''fake-close-order-1''),
      ak_client_order_id = rq_client_order_id r, ak_observed_at = t\<rparr>"

definition submit :: "broker_order_request \<Rightarrow> ('b, broker_order_ack) broker_op" where
  "submit r = (case rq_phase r of OPEN \<Rightarrow> pb_submit_open B r | CLOSE \<Rightarrow> pb_submit_close B r)"

fun placed where
  "placed r (opened, closing) = (case rq_phase r of OPEN \<Rightarrow> ((Some r, FILLED_STATUS), closing) | CLOSE \<Rightarrow> (opened, Some r, FILLED_STATUS))"

lemma submit_answered:
  assumes "scripted t (view b)"
  shows "\<exists>b'. submit r b = (Inr (scripted_ack r t), b') \<and> scripted t (view b') \<and> orders_of (view b') = placed r (orders_of (view b))"
proof (cases "rq_phase r")
  case OPEN
  obtain f where f: "fake_submit_open r (view b) = (Inr (scripted_ack r t), f)" "scripted t f" "orders_of f = ((Some r, FILLED_STATUS), snd (orders_of (view b)))"
    using submit_scripted(1) [OF assms, of r] OPEN by (auto simp: scripted_ack_def)
  obtain b' where "pb_submit_open B r b = (Inr (scripted_ack r t), b')" "view b' = f"
    by (rule answered [OF answers(1) [of r b, unfolded f(1)]])
  then show ?thesis using f OPEN by (cases "orders_of (view b)") (simp add: submit_def)
next
  case CLOSE
  obtain f where f: "fake_submit_close r (view b) = (Inr (scripted_ack r t), f)" "scripted t f" "orders_of f = (fst (orders_of (view b)), Some r, FILLED_STATUS)"
    using submit_scripted(2) [OF assms, of r] CLOSE by (auto simp: scripted_ack_def)
  obtain b' where "pb_submit_close B r b = (Inr (scripted_ack r t), b')" "view b' = f"
    by (rule answered [OF answers(2) [of r b, unfolded f(1)]])
  then show ?thesis using f CLOSE by (cases "orders_of (view b)") (simp add: submit_def)
qed

text \<open>Recording the intent, marking the permit, submitting, and binding the acknowledgement.\<close>

lemma order_placed:
  assumes cfg: "steady t cfg" and at: "stage t k v its subs fls ord s"
    and guards: "first_reject (intent_guards H (request_intent H r q) t) = None" "is_object (request_payload (intended H r q t))"
    and fresh: "\<forall>i \<in> set its. it_permit_id i \<noteq> rq_permit_id r \<and> (it_event_id i, it_phase i) \<noteq> (rq_event_run_id r, rq_phase r)
        \<and> it_broker_order_id i \<noteq> Some (ak_order_id (scripted_ack r t))"
    and exact: "exact_text (rq_permit_id r)"
    and mark: "\<And>s. \<exists>xs ys. mark s = s\<lparr>ws_submitted_open := xs, ws_submitted_close := ys\<rparr>"
  shows "\<exists>s'. othen (record_intent H cfg r q) (othen (exec mark) (obind (on_broker e (submit r)) (\<lambda>ack. othen (bind_ack H cfg r ack) (f ack)))) s
      = f (scripted_ack r t) s'
    \<and> stage t k v (its @ [bound_to (ak_order_id (scripted_ack r t)) t (intended H r q t)]) subs fls (placed r ord) s'
    \<and> ((\<forall>s. ws_submitted_close (mark s) = ws_submitted_close s) \<longrightarrow> ws_submitted_close s' = ws_submitted_close s)"
proof -
  let ?ack = "scripted_ack r t" and ?row = "intended H r q t"
  have "\<not> list_ex (intent_clash (request_intent H r q)) its"
    using fresh by (auto simp: list_ex_iff intent_clash_def request_intent_def)
  then obtain s1 where s1: "record_intent H cfg r q s = (Inr (), s1)" "stage t k v (its @ [?row]) subs fls ord s1"
    "ws_submitted_close s1 = ws_submitted_close s"
    using step_intent [OF cfg at guards(1)] by blast
  have marked: "stage t k v (its @ [?row]) subs fls ord (mark s1)" using mark [of s1] s1(2) by auto
  obtain b where b: "submit r (ws_broker (mark s1)) = (Inr ?ack, b)" "scripted t (view b)" "orders_of (view b) = placed r ord"
    using submit_answered [of t "ws_broker (mark s1)" r] marked by (auto simp: stage_def)
  have sent: "stage t k v (its @ [?row]) subs fls (placed r ord) ((mark s1)\<lparr>ws_broker := b\<rparr>)"
    using marked b(2,3) by (simp add: stage_def)
  have ack: "exact_text (ak_order_id ?ack)" "ak_client_order_id ?ack = rq_client_order_id r"
    by (cases "rq_phase r"; simp add: scripted_ack_def order_ids_exact)+
  obtain s2 where s2: "bind_ack H cfg r ?ack ((mark s1)\<lparr>ws_broker := b\<rparr>) = (Inr (), s2)"
    "stage t k v (its @ [bound_to (ak_order_id ?ack) t ?row]) subs fls (placed r ord) s2"
    "ws_submitted_close s2 = ws_submitted_close (mark s1)"
    using step_bind [OF cfg sent _ refl guards(2) exact ack] fresh by auto
  show ?thesis
    using s1 s2 b(1) by (auto simp: othen_def obind_def exec_def on_broker_def)
qed

end

end
