(* ===== verification/Worker_Lifecycle_Run.thy ===== *)
theory Worker_Lifecycle_Run
  imports Worker_Completion
begin

text \<open>
  One lifecycle from an authorized permit to a flat position, against any broker that answers
  like the scripted fake broker.
\<close>

section \<open>Opening completes\<close>

lemma marks:
  "\<exists>xs' ys'. (s :: 'b worker_state)\<lparr>ws_submitted_open := xs\<rparr> = s\<lparr>ws_submitted_open := xs', ws_submitted_close := ys'\<rparr>"
  "\<exists>xs' ys'. (s :: 'b worker_state)\<lparr>ws_submitted_close := ys\<rparr> = s\<lparr>ws_submitted_open := xs', ws_submitted_close := ys'\<rparr>"
  by (rule exI [of _ xs], rule exI [of _ "ws_submitted_close s"], simp)
    (rule exI [of _ "ws_submitted_open s"], rule exI [of _ ys], simp)

context answering
begin

text \<open>From the acknowledged order to the recorded fill.\<close>

definition open_settlement :: "hash_function \<Rightarrow> lifecycle_config \<Rightarrow> debit_vertical_permit \<Rightarrow> broker_order_request \<Rightarrow> broker_order_ack
    \<Rightarrow> ('b, lifecycle_state \<times> string) worker_op" where
  "open_settlement H cfg p r ack =
     othen (obind (worker_now cfg) (\<lambda>now. on_ledger (wrej BROKER_TRUTH_MISMATCH ''open.submission'')
        (record_submission H (rq_event_run_id r) (rq_permit_id r) (ak_order_id ack) now False)))
      (obind (fresh_bound_truth B cfg r ack) (\<lambda>(tr, ps). let st = reduce_open_order (ot_status tr) (ot_filled_qty tr) (quantity p)
         in othen (record_open_transition H cfg st tr) (oreturn (st, ak_order_id ack))))"

lemma open_settles:
  assumes cfg: "steady t cfg" and at: "stage t (pid, ev, rid) (ISSUED, RESERVED) (its @ [row]) subs fls ((Some r, FILLED_STATUS), None, cst) s"
    and r: "confirmable r" "rq_permit_id r = pid" "rq_phase r = OPEN" "rq_event_run_id r = ev" "quantity p = 1"
    and ids: "co_event_run_id (lc_correlation cfg) = ev" "co_open_permit_id (lc_correlation cfg) = pid" "exact_text pid" "exact_text ev"
    and row: "\<forall>i \<in> set its. it_permit_id i \<noteq> pid" "it_permit_id row = pid" "it_state row = INTENT_SUBMITTED"
    and fresh: "pid \<notin> sb_permit_id ` set subs" "''fake-open-order-1'' \<notin> sb_broker_order_id ` set subs" "''fake-open-order-1'' \<notin> fl_id ` set fls"
  shows "\<exists>s' sb fls'. open_settlement H cfg p r (scripted_ack r t) s = (Inr (OPEN_FILLED, ''fake-open-order-1''), s')
    \<and> stage t (pid, ev, rid) (FILLED, CONSUMED) (its @ [settled_at t row]) (subs @ [sb]) fls' ((Some r, FILLED_STATUS), None, cst) s'
    \<and> sb_permit_id sb = pid \<and> sb_broker_order_id sb = ''fake-open-order-1'' \<and> ws_submitted_close s' = ws_submitted_close s"
proof -
  let ?oid = "''fake-open-order-1''"
  have ack: "ak_order_id (scripted_ack r t) = ?oid" by (simp add: scripted_ack_def r)
  define sb where "sb = \<lparr>sb_permit_id = pid, sb_event_id = ev, sb_broker_order_id = ?oid, sb_submitted_at = isoformat_z t\<rparr>"
  obtain s1 where s1: "obind (worker_now cfg) (\<lambda>now. on_ledger (wrej BROKER_TRUTH_MISMATCH ''open.submission'')
        (record_submission H ev pid ?oid now False)) s = (Inr (), s1)"
    "stage t (pid, ev, rid) (SUBMITTED, RESERVED) (its @ [row]) (subs @ [sb]) fls ((Some r, FILLED_STATUS), None, cst) s1"
    "ws_submitted_close s1 = ws_submitted_close s"
    using step_submission [OF cfg at fresh(1,2) ids(3,4) order_ids_exact(1)] unfolding sb_def by blast
  obtain ps s2 where s2: "fresh_bound_truth B cfg r (scripted_ack r t) s1 = (Inr (confirmed r ?oid t, confirmed_positions r ?oid t ps), s2)" "carries_on t s1 s2"
    using truth_read [OF cfg r(1) ack, of s1 cst] s1(2) r(3) by (auto simp: stage_def)
  have found: "row_where (\<lambda>b. sb_permit_id b = pid) (subs @ [sb]) = Some sb"
    using row_appended [of sb_permit_id sb subs] fresh(1) by (simp add: sb_def)
  have truth: "ot_observed_at (confirmed r ?oid t) = t" "0 < ot_filled_qty (confirmed r ?oid t)" "sb_event_id sb = ev"
    "sb_broker_order_id sb = ot_order_id (confirmed r ?oid t)" "ot_order_id (confirmed r ?oid t) \<notin> fl_id ` set fls" "exact_text (ot_order_id (confirmed r ?oid t))"
    using fresh(3) order_ids_exact(1) by (simp_all add: confirmed_fields sb_def)
  obtain s3 fls' where s3: "record_open_transition H cfg OPEN_FILLED (confirmed r ?oid t) s2 = (Inr (), s3)"
    "stage t (pid, ev, rid) (FILLED, CONSUMED) (its @ [settled_at t row]) (subs @ [sb]) fls' ((Some r, FILLED_STATUS), None, cst) s3"
    "ws_submitted_close s3 = ws_submitted_close s2"
    using step_fill [OF cfg stage_carries [OF s2(2) s1(2)] ids(1,2) truth(1,2) found truth(3-5) row ids(3,4) truth(6), of H] by blast
  have "reduce_open_order FILLED_STATUS 1 1 = OPEN_FILLED" by code_simp
  then have "open_settlement H cfg p r (scripted_ack r t) s = (Inr (OPEN_FILLED, ?oid), s3)"
    using s1(1) s2(1) s3(1) r by (simp add: open_settlement_def Let_def othen_def obind_def oreturn_def ack confirmed_fields)
  moreover have "ws_submitted_close s3 = ws_submitted_close s" using s3(3) s2(2) s1(3) by (simp add: carries_on_def)
  ultimately show ?thesis using s3(2) by (auto simp: sb_def)
qed

lemma open_completes:
  assumes hash: "\<And>x. is_sha256 (H x)" and ready: "lifecycle_ready H cfg p" and cfg: "steady t cfg"
    and window: "window_open (issued_at p) t (expires_at p)"
    and deadline: "aware (lk_entry_deadline_at (lc_clocks cfg))" "instant t \<le> instant (lk_entry_deadline_at (lc_clocks cfg))"
    and ledger: "ledger_inv H (ws_ledger s)" "untouched p ''fake-open-order-1'' (ws_ledger s)" "permit_id p \<notin> set (ws_submitted_open s)"
    and bound: "open_binding_ok cfg p (reservation_for_event (event_run_id p) (ws_ledger s)) (permit_for_event (event_run_id p) (ws_ledger s))"
    and broker: "scripted t (view (ws_broker s))" "snd (orders_of (view (ws_broker s))) = (None, cst)"
  shows "\<exists>s' row sb fls. open_position H B cfg p s = (Inr (OPEN_FILLED, ''fake-open-order-1''), s')
    \<and> stage t (permit_id p, event_run_id p, co_reservation_id (lc_correlation cfg)) (FILLED, CONSUMED) (lifecycle_intents (ws_ledger s) @ [row])
        (submissions (ws_ledger s) @ [sb]) fls ((Some (open_request H cfg p), FILLED_STATUS), None, cst) s'
    \<and> it_permit_id row = permit_id p \<and> it_phase row = OPEN \<and> it_broker_order_id row = Some ''fake-open-order-1''
    \<and> sb_permit_id sb = permit_id p \<and> sb_broker_order_id sb = ''fake-open-order-1'' \<and> ws_submitted_close s' = ws_submitted_close s"
proof -
  define r its subs where "r = open_request H cfg p" and "its = lifecycle_intents (ws_ledger s)" and "subs = submissions (ws_ledger s)"
  define k where "k = (permit_id p, event_run_id p, co_reservation_id (lc_correlation cfg))"
  let ?oid = "''fake-open-order-1''" and ?row = "bound_to ''fake-open-order-1'' t (intended H r (quantity p) t)"
  note facts = ready_facts [OF ready] and held = binding_held [OF ledger(1) bound]
  have utc: "is_utc t" using cfg by (simp add: steady_def)
  have permit: "quantity p = 1" "is_finite (limit_price p)" "0 < dval (limit_price p)"
    using facts(1) permit_checks_None by (auto simp: permit_ok_def)
  have r: "rq_permit_id r = permit_id p" "rq_phase r = OPEN" "rq_event_run_id r = event_run_id p"
    by (simp_all add: r_def open_request_def order_request_def Let_def facts(12))
  have ack: "ak_order_id (scripted_ack r t) = ?oid" by (simp add: scripted_ack_def r)
  note accepted = request_accepted [OF ready hash utc facts(13) facts(12) refl r_def [unfolded open_request_def]]
  have confirm: "confirmable r" using accepted(3) permit permit_legs_named(1) [OF facts(1)] by simp
  have fresh: "\<forall>i \<in> set its. it_permit_id i \<noteq> permit_id p \<and> it_event_id i \<noteq> event_run_id p \<and> it_broker_order_id i \<noteq> Some ?oid"
    "?oid \<notin> sb_broker_order_id ` set subs" "?oid \<notin> fl_id ` set (fills (ws_ledger s))"
    using ledger(2) by (auto simp: untouched_def its_def subs_def)
  have none: "lifecycle_intent_for_permit (permit_id p) (ws_ledger s) = None"
    using fresh(1) by (simp add: lifecycle_intent_for_permit_def its_def)
  obtain n where granted: "require_open_allowed H cfg p s = (Inr (), s\<lparr>ws_readings := n\<rparr>)"
    using open_granted [OF ready cfg window deadline none ledger(3) bound] by blast
  have at: "stage t k (ISSUED, RESERVED) its subs (fills (ws_ledger s)) (orders_of (view (ws_broker s))) (s\<lparr>ws_readings := n\<rparr>)"
    using held(1) broker(1) by (simp add: stage_def k_def its_def subs_def)
  have placed: "placed r (orders_of (view (ws_broker s))) = ((Some r, FILLED_STATUS), None, cst)"
    using broker(2) r(2) by (cases "orders_of (view (ws_broker s))") simp
  obtain s5 where s5: "othen (record_intent H cfg r (quantity p)) (othen (exec (\<lambda>s. s\<lparr>ws_submitted_open := List.insert (permit_id p) (ws_submitted_open s)\<rparr>))
        (obind (on_broker (wrej BROKER_OUTAGE ''open.submit'') (submit r)) (\<lambda>ack. othen (bind_ack H cfg r ack) (open_settlement H cfg p r ack)))) (s\<lparr>ws_readings := n\<rparr>)
      = open_settlement H cfg p r (scripted_ack r t) s5"
    "stage t k (ISSUED, RESERVED) (its @ [?row]) subs (fills (ws_ledger s)) ((Some r, FILLED_STATUS), None, cst) s5"
    "ws_submitted_close s5 = ws_submitted_close s"
    using order_placed [where mark = "\<lambda>s. s\<lparr>ws_submitted_open := List.insert (permit_id p) (ws_submitted_open s)\<rparr>" and q = "quantity p"
        and e = "wrej BROKER_OUTAGE ''open.submit''" and f = "open_settlement H cfg p r", OF cfg at accepted(1,2) _ _ marks(1)] fresh(1) facts(13)
    by (auto simp: r ack placed)
  have row: "it_permit_id ?row = permit_id p" "it_state ?row = INTENT_SUBMITTED" "it_phase (settled_at t ?row) = OPEN"
    "it_broker_order_id (settled_at t ?row) = Some ?oid" "it_permit_id (settled_at t ?row) = permit_id p"
    by (simp_all add: settled_at_def bound_to_def intended_def request_intent_def r)
  have "\<forall>i \<in> set its. it_permit_id i \<noteq> permit_id p" using fresh(1) by blast
  from open_settles [OF cfg s5(2) [unfolded k_def] confirm r permit(1) facts(12,11,13,14) this row(1,2) held(2) [folded subs_def] fresh(2,3)]
  obtain s8 sb fls where s8: "open_settlement H cfg p r (scripted_ack r t) s5 = (Inr (OPEN_FILLED, ?oid), s8)"
    "stage t k (FILLED, CONSUMED) (its @ [settled_at t ?row]) (subs @ [sb]) fls ((Some r, FILLED_STATUS), None, cst) s8"
    "sb_permit_id sb = permit_id p" "sb_broker_order_id sb = ?oid" "ws_submitted_close s8 = ws_submitted_close s5"
    unfolding k_def by blast
  have "open_position H B cfg p s = (Inr (OPEN_FILLED, ?oid), s8)"
    using s5(1) s8(1) unfolding open_position_def Let_def r_def [symmetric] othen_def [of "require_open_allowed H cfg p"] obind_def [of "require_open_allowed H cfg p"] granted
    by (simp add: submit_def r(2) open_settlement_def [abs_def] Let_def)
  then show ?thesis using s8(2-5) s5(3) row unfolding k_def its_def subs_def r_def by auto
qed

end

section \<open>Closing completes\<close>

lemma obind_result: "obind (result_of (Inr a)) f s = f a s"
  by (simp add: obind_def result_of_def)

lemma close_permit_exact:
  assumes "\<And>x. is_sha256 (H x)" "issue_close_permit H p ev pol snap issued expires price = Inr c"
  shows "exact_text (cp_permit_id c)"
proof -
  have "\<exists>x. cp_permit_id c = ''pc-'' @ take 32 (H x)"
    unfolding issued_close_permit(10) [OF assms(2)] close_permit_id_def by (rule exI, rule refl)
  then obtain x where x: "cp_permit_id c = ''pc-'' @ take 32 (H x)" by blast
  have "take 32 (H x) \<noteq> []" using assms(1) [of x] by (auto simp: is_sha256_def)
  moreover from this have "last (take 32 (H x)) \<in> set (H x)" by (metis in_set_takeD last_in_set)
  ultimately show ?thesis
    unfolding x using assms(1) [of x] hex_not_space by (intro exact_text_ends) (auto simp: is_sha256_def list_all_iff is_space_def)
qed

lemma close_granted:
  fixes s :: "'b worker_state"
  assumes ready: "lifecycle_ready H cfg p" and cfg: "steady t cfg"
    and c: "issue_close_permit H p ev pol snap issued expires price = Inr c" "exact_text (cp_permit_id c)"
      "co_close_permit_id (lc_correlation cfg) \<in> {None, Some (cp_permit_id c)}" "window_open (cp_issued_at c) t (cp_expires_at c)"
    and clocks: "aware (lk_time_exit_at (lc_clocks cfg))" "instant (lk_time_exit_at (lc_clocks cfg)) \<le> instant t"
      "aware (lk_flattening_deadline_at (lc_clocks cfg))" "instant t \<le> instant (lk_flattening_deadline_at (lc_clocks cfg))"
    and held: "holds (permit_id p, event_run_id p, co_reservation_id (lc_correlation cfg)) (FILLED, CONSUMED) (ws_ledger s)"
    and order: "submission_for_permit (permit_id p) (ws_ledger s) = Some sb" "sb_broker_order_id sb = order"
    and fresh: "lifecycle_intent_for_event_phase (event_run_id p) CLOSE (ws_ledger s) = None" "cp_permit_id c \<notin> set (ws_submitted_close s)"
  shows "\<exists>n. require_close_allowed H cfg p c order s = (Inr ((lc_correlation cfg)\<lparr>co_close_permit_id := Some (cp_permit_id c)\<rparr>), s\<lparr>ws_readings := n\<rparr>)"
proof -
  note facts = ready_facts [OF ready]
  have static: "first_reject (require_clocks_verified cfg @ require_paper_boundary cfg @ require_clock_scope cfg p @ require_mutation cfg) = None"
    using facts by (simp add: first_reject_append require_clocks_verified_def require_paper_boundary_def require_mutation_def)
  obtain q r where "permit_row (permit_id p) (ws_ledger s) = Some q" "pm_state q = FILLED"
    "reservation_for_event (event_run_id p) (ws_ledger s) = Some r" "rs_id r = co_reservation_id (lc_correlation cfg)" "rs_state r = CONSUMED"
    using held by (rule holds_Some)
  then have proof': "close_proof_ok cfg order (submission_for_permit (permit_id p) (ws_ledger s))
      (map_option pm_state (permit_row (permit_id p) (ws_ledger s))) (reservation_for_event (event_run_id p) (ws_ledger s))"
    using order by (simp add: close_proof_ok_def)
  have with': "with_close_permit (cp_permit_id c) (lc_correlation cfg) = Inr ((lc_correlation cfg)\<lparr>co_close_permit_id := Some (cp_permit_id c)\<rparr>)"
    using facts(10) c(2) by (auto simp: with_close_permit_def Let_def correlation_checks_def exact_text_def)
  have binding: "require_close_binding H cfg p c order s' = (Inr ((lc_correlation cfg)\<lparr>co_close_permit_id := Some (cp_permit_id c)\<rparr>), s')"
    if "ws_ledger s' = ws_ledger s" for s' :: "'b worker_state"
    using close_guards_pass [OF c(1) facts(9) c(3)] facts(13,14) proof' that
    by (simp add: require_close_binding_def find_by_def operation_defs value_of_def with')
  have window': "require_active_window cfg (cp_issued_at c) (cp_expires_at c) path why s' = (Inr (), s'\<lparr>ws_readings := Suc (ws_readings s')\<rparr>)"
    for path why and s' :: "'b worker_state"
    using c(4) by (simp add: require_active_window_def operation_defs steady_now [OF cfg] window_open_def)
  show ?thesis
    unfolding require_close_allowed_def Let_def
    using static facts(12,14) clocks fresh
    by (simp add: operation_defs window' find_by_def steady_now [OF cfg] binding) auto
qed

context answering
begin

text \<open>From the acknowledged close order to the released reservation.\<close>

definition close_settlement :: "hash_function \<Rightarrow> lifecycle_config \<Rightarrow> debit_vertical_permit \<Rightarrow> close_permit \<Rightarrow> broker_order_request
    \<Rightarrow> broker_order_ack \<Rightarrow> ('b, lifecycle_state \<times> string) worker_op" where
  "close_settlement H cfg p c r ack =
     obind (fresh_bound_truth B cfg r ack) (\<lambda>(tr, ps).
        let st = reduce_close_order (ot_status tr) (ot_filled_qty tr) (bp_positions ps) (quantity p)
        in othen (close_verdict ack st (bp_positions ps)) (othen (persist_flat H cfg p c) (oreturn (st, ak_order_id ack))))"

lemma close_settles:
  assumes cfg: "steady t cfg" and at: "stage t (permit_id p, ev, rid) (FILLED, CONSUMED) (its @ [row]) subs fls (opened, Some r, FILLED_STATUS) s"
    and r: "confirmable r" "rq_phase r = CLOSE" "quantity p = 1"
    and ids: "co_event_run_id (lc_correlation cfg) = ev" "exact_text (permit_id p)" "exact_text ev" "exact_text (cp_permit_id c)"
    and row: "\<forall>i \<in> set its. it_permit_id i \<noteq> cp_permit_id c" "it_permit_id row = cp_permit_id c" "it_state row = INTENT_SUBMITTED"
  shows "\<exists>s'. close_settlement H cfg p c r (scripted_ack r t) s = (Inr (CLOSED_FLAT, ''fake-close-order-1''), s')
    \<and> stage t (permit_id p, ev, rid) (FILLED, RELEASED) (its @ [settled_at t row]) subs fls (opened, Some r, FILLED_STATUS) s'"
proof -
  let ?oid = "''fake-close-order-1''"
  have ack: "ak_order_id (scripted_ack r t) = ?oid" by (simp add: scripted_ack_def r)
  obtain s1 where s1: "fresh_bound_truth B cfg r (scripted_ack r t) s = (Inr (confirmed r ?oid t, confirmed_positions r ?oid t []), s1)" "carries_on t s s1"
    using truth_read [OF cfg r(1) ack, of s] at r(2) by (auto simp: stage_def)
  obtain s2 where s2: "persist_flat H cfg p c s1 = (Inr (), s2)"
    "stage t (permit_id p, ev, rid) (FILLED, RELEASED) (its @ [settled_at t row]) subs fls (opened, Some r, FILLED_STATUS) s2"
    using step_flat [OF cfg stage_carries [OF s1(2) at] ids(1) refl row ids(2-4)] by blast
  have "reduce_close_order FILLED_STATUS 1 [] 1 = CLOSED_FLAT" by code_simp
  moreover have "close_verdict ack CLOSED_FLAT [] s1 = (Inr (), s1)" for ack
    by (simp add: close_verdict_def operation_defs ensure_no_residue_def guarded_def)
  ultimately have "close_settlement H cfg p c r (scripted_ack r t) s = (Inr (CLOSED_FLAT, ?oid), s2)"
    using s1(1) s2(1) r by (simp add: close_settlement_def Let_def othen_def obind_def oreturn_def ack confirmed_fields)
  then show ?thesis using s2(2) by blast
qed

lemma close_completes:
  assumes hash: "\<And>x. is_sha256 (H x)" and ready: "lifecycle_ready H cfg p" and cfg: "steady t cfg"
    and c: "issue_close_permit H p ev pol snap issued expires price = Inr c"
      "co_close_permit_id (lc_correlation cfg) \<in> {None, Some (cp_permit_id c)}" "window_open (cp_issued_at c) t (cp_expires_at c)"
    and clocks: "aware (lk_time_exit_at (lc_clocks cfg))" "instant (lk_time_exit_at (lc_clocks cfg)) \<le> instant t"
      "aware (lk_flattening_deadline_at (lc_clocks cfg))" "instant t \<le> instant (lk_flattening_deadline_at (lc_clocks cfg))"
    and at: "stage t (permit_id p, event_run_id p, co_reservation_id (lc_correlation cfg)) (FILLED, CONSUMED) its subs fls (opened, None, cst) s"
    and order: "row_where (\<lambda>b. sb_permit_id b = permit_id p) subs = Some sb" "sb_broker_order_id sb = order"
    and fresh: "\<forall>i \<in> set its. it_permit_id i \<noteq> cp_permit_id c \<and> (it_event_id i, it_phase i) \<noteq> (event_run_id p, CLOSE)
        \<and> it_broker_order_id i \<noteq> Some ''fake-close-order-1''" "cp_permit_id c \<notin> set (ws_submitted_close s)"
  shows "\<exists>s' its' ord. close_position H B cfg p c order s = (Inr (CLOSED_FLAT, ''fake-close-order-1''), s')
    \<and> stage t (permit_id p, event_run_id p, co_reservation_id (lc_correlation cfg)) (FILLED, RELEASED) its' subs fls ord s'"
proof -
  note facts = ready_facts [OF ready] and exact = close_permit_exact [OF hash c(1)] and issued = issued_close_permit [OF c(1)]
  define co where "co = (lc_correlation cfg)\<lparr>co_close_permit_id := Some (cp_permit_id c)\<rparr>"
  obtain k l where legs: "close_legs p = Inr [k, l]" "bl_symbol k \<noteq> []" "bl_symbol l \<noteq> []" using permit_legs_named(2) [OF facts(1)] by blast
  define r where "r = close_request H cfg p c co [k, l]"
  let ?row = "bound_to ''fake-close-order-1'' t (intended H r (quantity p) t)"
  have r: "rq_permit_id r = cp_permit_id c" "rq_phase r = CLOSE" "rq_event_run_id r = event_run_id p"
    by (simp_all add: r_def close_request_def order_request_def Let_def facts(12) co_def)
  have ack: "ak_order_id (scripted_ack r t) = ''fake-close-order-1''" by (simp add: scripted_ack_def r)
  have utc: "is_utc t" using cfg by (simp add: steady_def)
  have co: "co_event_run_id co = event_run_id p" "co_reservation_id co = co_reservation_id (lc_correlation cfg)" by (simp_all add: co_def facts(12))
  note accepted = request_accepted [OF ready hash utc exact co r_def [unfolded close_request_def]]
  have confirm: "confirmable r" using accepted(3) issued(6,7) legs by auto
  have quantity: "quantity p = 1" using facts(1) permit_checks_None by (auto simp: permit_ok_def)
  have ledger: "holds (permit_id p, event_run_id p, co_reservation_id (lc_correlation cfg)) (FILLED, CONSUMED) (ws_ledger s)"
    "submission_for_permit (permit_id p) (ws_ledger s) = Some sb" "lifecycle_intent_for_event_phase (event_run_id p) CLOSE (ws_ledger s) = None"
    using at order fresh(1) by (auto simp: stage_def submission_for_permit_def lifecycle_intent_for_event_phase_def)
  obtain n where granted: "require_close_allowed H cfg p c order s = (Inr co, s\<lparr>ws_readings := n\<rparr>)"
    using close_granted [OF ready cfg c(1) exact c(2,3) clocks ledger(1,2) order(2) ledger(3) fresh(2)] unfolding co_def by blast
  have at': "stage t (permit_id p, event_run_id p, co_reservation_id (lc_correlation cfg)) (FILLED, CONSUMED) its subs fls (opened, None, cst) (s\<lparr>ws_readings := n\<rparr>)"
    using at by simp
  obtain s1 where s1: "othen (record_intent H cfg r (quantity p)) (othen (exec (\<lambda>s. s\<lparr>ws_submitted_close := List.insert (cp_permit_id c) (ws_submitted_close s)\<rparr>))
        (obind (on_broker (wrej BROKER_OUTAGE ''close.submit'') (submit r)) (\<lambda>ack. othen (bind_ack H cfg r ack) (close_settlement H cfg p c r ack)))) (s\<lparr>ws_readings := n\<rparr>)
      = close_settlement H cfg p c r (scripted_ack r t) s1"
    "stage t (permit_id p, event_run_id p, co_reservation_id (lc_correlation cfg)) (FILLED, CONSUMED) (its @ [?row]) subs fls (opened, Some r, FILLED_STATUS) s1"
    using order_placed [where mark = "\<lambda>s. s\<lparr>ws_submitted_close := List.insert (cp_permit_id c) (ws_submitted_close s)\<rparr>" and q = "quantity p"
        and e = "wrej BROKER_OUTAGE ''close.submit''" and f = "close_settlement H cfg p c r", OF cfg at' accepted(1,2) _ _ marks(2)] fresh(1) exact
    by (auto simp: r ack)
  have row: "it_permit_id ?row = cp_permit_id c" "it_state ?row = INTENT_SUBMITTED"
    by (simp_all add: bound_to_def intended_def request_intent_def r)
  have "\<forall>i \<in> set its. it_permit_id i \<noteq> cp_permit_id c" using fresh(1) by blast
  from close_settles [OF cfg s1(2) confirm r(2) quantity facts(12,13,14) exact this row]
  obtain s2 where s2: "close_settlement H cfg p c r (scripted_ack r t) s1 = (Inr (CLOSED_FLAT, ''fake-close-order-1''), s2)"
    "stage t (permit_id p, event_run_id p, co_reservation_id (lc_correlation cfg)) (FILLED, RELEASED) (its @ [settled_at t ?row]) subs fls (opened, Some r, FILLED_STATUS) s2"
    by blast
  have "close_position H B cfg p c order s = (Inr (CLOSED_FLAT, ''fake-close-order-1''), s2)"
    using s1(1) s2(1) unfolding close_position_def Let_def obind_def [of "require_close_allowed H cfg p c order"] granted
    by (simp add: legs(1) obind_result r_def [symmetric] submit_def r(2) close_settlement_def [abs_def] Let_def)
  then show ?thesis using s2(2) by blast
qed

end

section \<open>The whole lifecycle\<close>

text \<open>The same worker later: its clock and the broker's have moved on.\<close>

lemma ready_later [simp]: "lifecycle_ready H (cfg\<lparr>lc_clock := f\<rparr>) p = lifecycle_ready H cfg p"
  by (simp add: lifecycle_ready_def require_clocks_verified_def require_paper_boundary_def require_clock_scope_def require_mutation_def
      open_identity_guards_def)

definition untouched_close :: "debit_vertical_permit \<Rightarrow> close_permit \<Rightarrow> ledger \<Rightarrow> bool" where
  "untouched_close p c db =
     (cp_permit_id c \<noteq> permit_id p \<and> (\<forall>i \<in> set (lifecycle_intents db). it_permit_id i \<noteq> cp_permit_id c \<and> it_broker_order_id i \<noteq> Some ''fake-close-order-1''))"

context answering
begin

lemma lifecycle_completes:
  assumes hash: "\<And>x. is_sha256 (H x)" and ready: "lifecycle_ready H cfg p" and cfg: "steady t1 cfg" "is_utc t2"
    and opening_at: "window_open (issued_at p) t1 (expires_at p)"
      "aware (lk_entry_deadline_at (lc_clocks cfg))" "instant t1 \<le> instant (lk_entry_deadline_at (lc_clocks cfg))"
    and ledger: "ledger_inv H (ws_ledger s)" "untouched p ''fake-open-order-1'' (ws_ledger s)" "untouched_close p c (ws_ledger s)"
      "open_binding_ok cfg p (reservation_for_event (event_run_id p) (ws_ledger s)) (permit_for_event (event_run_id p) (ws_ledger s))"
    and worker: "permit_id p \<notin> set (ws_submitted_open s)" "cp_permit_id c \<notin> set (ws_submitted_close s)"
      "scripted t1 (view (ws_broker s))" "snd (orders_of (view (ws_broker s))) = (None, cst)"
    and c: "issue_close_permit H p ev pol snap issued expires price = Inr c"
      "co_close_permit_id (lc_correlation cfg) \<in> {None, Some (cp_permit_id c)}" "window_open (cp_issued_at c) t2 (cp_expires_at c)"
    and closing_at: "aware (lk_time_exit_at (lc_clocks cfg))" "instant (lk_time_exit_at (lc_clocks cfg)) \<le> instant t2"
      "aware (lk_flattening_deadline_at (lc_clocks cfg))" "instant t2 \<le> instant (lk_flattening_deadline_at (lc_clocks cfg))"
    and later: "\<And>b. scripted t1 (view b) \<Longrightarrow> scripted t2 (view (advance b)) \<and> orders_of (view (advance b)) = orders_of (view b)"
  shows "\<exists>s1 s2. open_position H B cfg p s = (Inr (OPEN_FILLED, ''fake-open-order-1''), s1)
    \<and> holds (permit_id p, event_run_id p, co_reservation_id (lc_correlation cfg)) (FILLED, CONSUMED) (ws_ledger s1)
    \<and> close_position H B (cfg\<lparr>lc_clock := \<lambda>_. t2\<rparr>) p c ''fake-open-order-1'' (s1\<lparr>ws_broker := advance (ws_broker s1)\<rparr>)
        = (Inr (CLOSED_FLAT, ''fake-close-order-1''), s2)
    \<and> holds (permit_id p, event_run_id p, co_reservation_id (lc_correlation cfg)) (FILLED, RELEASED) (ws_ledger s2)"
proof -
  let ?k = "(permit_id p, event_run_id p, co_reservation_id (lc_correlation cfg))" and ?cfg = "cfg\<lparr>lc_clock := \<lambda>_. t2\<rparr>"
  obtain s1 row sb fls where s1: "open_position H B cfg p s = (Inr (OPEN_FILLED, ''fake-open-order-1''), s1)"
    and at: "stage t1 ?k (FILLED, CONSUMED) (lifecycle_intents (ws_ledger s) @ [row]) (submissions (ws_ledger s) @ [sb]) fls
        ((Some (open_request H cfg p), FILLED_STATUS), None, cst) s1"
    and row: "it_permit_id row = permit_id p" "it_phase row = OPEN" "it_broker_order_id row = Some ''fake-open-order-1''"
    and sb: "sb_permit_id sb = permit_id p" "sb_broker_order_id sb = ''fake-open-order-1''" and closes: "ws_submitted_close s1 = ws_submitted_close s"
    using open_completes [OF hash ready cfg(1) opening_at ledger(1,2) worker(1) ledger(4) worker(3,4)] by blast
  let ?s = "s1\<lparr>ws_broker := advance (ws_broker s1)\<rparr>"
  have at': "stage t2 ?k (FILLED, CONSUMED) (lifecycle_intents (ws_ledger s) @ [row]) (submissions (ws_ledger s) @ [sb]) fls
        ((Some (open_request H cfg p), FILLED_STATUS), None, cst) ?s"
    using at later [of "ws_broker s1"] by (simp add: stage_def)
  have steady: "steady t2 ?cfg" using cfg by (simp add: steady_def)
  have found: "row_where (\<lambda>b. sb_permit_id b = permit_id p) (submissions (ws_ledger s) @ [sb]) = Some sb"
    using row_appended [of sb_permit_id sb "submissions (ws_ledger s)"] binding_held(2) [OF ledger(1,4)] sb(1) by simp
  have fresh: "\<forall>i \<in> set (lifecycle_intents (ws_ledger s) @ [row]). it_permit_id i \<noteq> cp_permit_id c \<and> (it_event_id i, it_phase i) \<noteq> (event_run_id p, CLOSE)
        \<and> it_broker_order_id i \<noteq> Some ''fake-close-order-1''"
    using ledger(2,3) row by (auto simp: untouched_def untouched_close_def)
  have ready': "lifecycle_ready H ?cfg p" using ready by simp
  have same: "co_close_permit_id (lc_correlation ?cfg) \<in> {None, Some (cp_permit_id c)}"
    "aware (lk_time_exit_at (lc_clocks ?cfg))" "instant (lk_time_exit_at (lc_clocks ?cfg)) \<le> instant t2"
    "aware (lk_flattening_deadline_at (lc_clocks ?cfg))" "instant t2 \<le> instant (lk_flattening_deadline_at (lc_clocks ?cfg))"
    "lc_correlation ?cfg = lc_correlation cfg" "cp_permit_id c \<notin> set (ws_submitted_close ?s)"
    using c(2) closing_at closes worker(2) by simp_all
  obtain s2 its' ord where "close_position H B ?cfg p c ''fake-open-order-1'' ?s = (Inr (CLOSED_FLAT, ''fake-close-order-1''), s2)"
    "stage t2 ?k (FILLED, RELEASED) its' (submissions (ws_ledger s) @ [sb]) fls ord s2"
    using close_completes [OF hash ready' steady c(1) same(1) c(3) same(2-5) at' [folded same(6)] found sb(2) fresh same(7)]
    unfolding same(6) by blast
  then show ?thesis using s1 at by (auto simp: stage_def)
qed

end

interpretation fake: answering fake_ops "\<lambda>b. b"
  by unfold_locales (simp_all add: fake_ops_def map_prod_def split: prod.split)

interpretation traced_fake: answering "traced fake_ops" fst
  by unfold_locales (simp_all add: traced_def recording_def fake_ops_def map_prod_def split: prod.split)

lemma clock_advanced:
  "scripted t b \<Longrightarrow> aware t2 \<Longrightarrow> scripted t2 (b\<lparr>fb_clock := \<lambda>_. t2\<rparr>) \<and> orders_of (b\<lparr>fb_clock := \<lambda>_. t2\<rparr>) = orders_of b"
  by (simp add: scripted_def orders_of_def)

definition fresh_worker :: "ledger \<Rightarrow> 'b \<Rightarrow> 'b worker_state" where
  "fresh_worker db b = \<lparr>ws_ledger = db, ws_broker = b, ws_readings = 0, ws_submitted_open = [], ws_submitted_close = []\<rparr>"

lemma fresh_worker_fields [simp]:
  "ws_ledger (fresh_worker db b) = db" "ws_broker (fresh_worker db b) = b" "ws_submitted_open (fresh_worker db b) = []"
  "ws_submitted_close (fresh_worker db b) = []"
  by (simp_all add: fresh_worker_def)

definition fake_at :: "datetime \<Rightarrow> fake_paper_broker" where
  "fake_at t = fake_broker\<lparr>fb_clock := \<lambda>_. t\<rparr>"

lemma fake_at_scripted: "aware t \<Longrightarrow> scripted t (fake_at t)" "snd (orders_of (fake_at t)) = (None, ''new'')"
  by (simp_all add: fake_at_def fake_broker_def scripted_def orders_of_def)

lemma holds_reservation_state:
  "holds (pid, ev, rid) (ps, rst) db \<Longrightarrow> map_option rs_state (reservation_for_event ev db) = Some rst"
  by (auto elim: holds_Some)

lemma utc_aware: "is_utc t \<Longrightarrow> aware t"
  by simp

text \<open>
  C12. The worker finishes what it may start. Given a ledger in order that authorized the
  permit and has no record of its orders, verified clocks and a correlation of this lifecycle
  with the gate open, an opening time inside the permit's window and before the entry deadline,
  a closing time between the time exit and the flattening deadline, and a close permit issued
  for the permit and open at that time, a fresh worker against the sources' fake broker returns
  OPEN_FILLED with the reservation CONSUMED, and its close then returns CLOSED_FLAT with the
  reservation RELEASED: no guard of the worker or of the ledger refuses a correct lifecycle.
\<close>

theorem worker_completes:
  assumes hash: "\<forall>x. is_sha256 (H x)" and ready: "lifecycle_ready H cfg p" and cfg: "steady t1 cfg" "is_utc t2"
    and opening_at: "window_open (issued_at p) t1 (expires_at p)"
      "aware (lk_entry_deadline_at (lc_clocks cfg))" "instant t1 \<le> instant (lk_entry_deadline_at (lc_clocks cfg))"
    and ledger: "ledger_inv H db" "untouched p ''fake-open-order-1'' db" "untouched_close p c db"
      "open_binding_ok cfg p (reservation_for_event (event_run_id p) db) (permit_for_event (event_run_id p) db)"
    and c: "issue_close_permit H p ev pol snap issued expires price = Inr c"
      "co_close_permit_id (lc_correlation cfg) \<in> {None, Some (cp_permit_id c)}" "window_open (cp_issued_at c) t2 (cp_expires_at c)"
    and closing_at: "aware (lk_time_exit_at (lc_clocks cfg))" "instant (lk_time_exit_at (lc_clocks cfg)) \<le> instant t2"
      "aware (lk_flattening_deadline_at (lc_clocks cfg))" "instant t2 \<le> instant (lk_flattening_deadline_at (lc_clocks cfg))"
  shows "\<exists>s1 s2. open_position H fake_ops cfg p (fresh_worker db (fake_at t1)) = (Inr (OPEN_FILLED, ''fake-open-order-1''), s1)
    \<and> map_option rs_state (reservation_for_event (event_run_id p) (ws_ledger s1)) = Some CONSUMED
    \<and> close_position H fake_ops (cfg\<lparr>lc_clock := \<lambda>_. t2\<rparr>) p c ''fake-open-order-1'' (s1\<lparr>ws_broker := (ws_broker s1)\<lparr>fb_clock := \<lambda>_. t2\<rparr>\<rparr>)
        = (Inr (CLOSED_FLAT, ''fake-close-order-1''), s2)
    \<and> map_option rs_state (reservation_for_event (event_run_id p) (ws_ledger s2)) = Some RELEASED"
proof -
  let ?s = "fresh_worker db (fake_at t1)"
  have "aware t1" "aware t2" using cfg by (simp_all add: steady_def utc_aware)
  note start = fake_at_scripted(1) [OF this(1)] fake_at_scripted(2) [of t1]
  have worker: "permit_id p \<notin> set (ws_submitted_open ?s)" "cp_permit_id c \<notin> set (ws_submitted_close ?s)"
    "scripted t1 (ws_broker ?s)" "snd (orders_of (ws_broker ?s)) = (None, ''new'')" using start by simp_all
  have all: "is_sha256 (H x)" for x using hash by blast
  have ledger': "ledger_inv H (ws_ledger ?s)" "untouched p ''fake-open-order-1'' (ws_ledger ?s)" "untouched_close p c (ws_ledger ?s)"
      "open_binding_ok cfg p (reservation_for_event (event_run_id p) (ws_ledger ?s)) (permit_for_event (event_run_id p) (ws_ledger ?s))"
    using ledger by simp_all
  have later: "scripted t2 (b\<lparr>fb_clock := \<lambda>_. t2\<rparr>) \<and> orders_of (b\<lparr>fb_clock := \<lambda>_. t2\<rparr>) = orders_of b" if "scripted t1 b" for b
    by (rule clock_advanced [OF that \<open>aware t2\<close>])
  note run = fake.lifecycle_completes [where advance = "\<lambda>b. b\<lparr>fb_clock := \<lambda>_. t2\<rparr>" and H = H and cfg = cfg and p = p and c = c and s = ?s and cst = "''new''", OF all ready cfg opening_at ledger' worker c closing_at later]
  from run obtain s1 s2 where finished: "open_position H fake_ops cfg p ?s = (Inr (OPEN_FILLED, ''fake-open-order-1''), s1)"
    "holds (permit_id p, event_run_id p, co_reservation_id (lc_correlation cfg)) (FILLED, CONSUMED) (ws_ledger s1)"
    "close_position H fake_ops (cfg\<lparr>lc_clock := \<lambda>_. t2\<rparr>) p c ''fake-open-order-1'' (s1\<lparr>ws_broker := (ws_broker s1)\<lparr>fb_clock := \<lambda>_. t2\<rparr>\<rparr>)
        = (Inr (CLOSED_FLAT, ''fake-close-order-1''), s2)"
    "holds (permit_id p, event_run_id p, co_reservation_id (lc_correlation cfg)) (FILLED, RELEASED) (ws_ledger s2)" by blast
  show ?thesis
    by (intro exI conjI, rule finished(1), rule holds_reservation_state [OF finished(2)], rule finished(3), rule holds_reservation_state [OF finished(4)])
qed

end
