(* ===== verification/Worker_Witnesses.thy ===== *)
theory Worker_Witnesses
  imports Worker_Lifecycle_Run
begin

text \<open>
  A concrete lifecycle: the permit that the sample day of the ledger authorized is opened and
  closed by a worker against the traced fake broker. The theorems about the worker are applied
  to this run, which shows that their hypotheses can hold.
\<close>

definition sample_clocks :: lifecycle_clocks where
  "sample_clocks =
     \<lparr>lk_event_run_id = ''ev-1'', lk_cohort_id = ''BMO'', lk_policy_sha256 = sha (CHR ''c''), lk_source_sha256 = sha (CHR ''e''),
      lk_observation_window_start_at = utc_at 0, lk_observation_window_end_at = utc_at 5, lk_entry_deadline_at = utc_at 10,
      lk_time_exit_at = utc_at 20, lk_flattening_deadline_at = utc_at 50\<rparr>"

definition sample_correlation :: correlation_identity where
  "sample_correlation =
     \<lparr>co_event_run_id = ''ev-1'', co_snapshot_sha256 = sha (CHR ''b''), co_decision_sha256 = sha (CHR ''a''),
      co_expression_sha256 = sha (CHR ''e''), co_reservation_id = ''rsv-ev-1'', co_open_permit_id = sample_permit_id,
      co_close_permit_id = None\<rparr>"

definition sample_config :: "datetime \<Rightarrow> lifecycle_config" where
  "sample_config t =
     \<lparr>lc_clocks = sample_clocks, lc_correlation = sample_correlation, lc_mutation_permitted = True, lc_clock = (\<lambda>_. t),
      lc_account_id = ''paper-account'', lc_account_class = PAPER_ACCOUNT_CLASS, lc_order_class = MULTI_LEG_ORDER_CLASS,
      lc_truth_max_age_seconds = DEFAULT_TRUTH_MAX_AGE_SECONDS\<rparr>"

definition sample_close :: close_permit where
  "sample_close =
     \<lparr>cp_permit_id = ''pc-'' @ replicate 32 (CHR ''a''), cp_open_permit_id = sample_permit_id, cp_event_run_id = ''ev-1'',
      cp_policy_sha256 = sha (CHR ''c''), cp_snapshot_sha256 = sha (CHR ''b''), cp_issued_at = utc_at 30, cp_expires_at = utc_at 45,
      cp_limit_price = Fin (-50) (-2)\<rparr>"

lemma sample_clocks_ok: "lifecycle_clocks_checks sample_clocks = None" by code_simp

lemma sample_close_issued:
  "issue_close_permit const_hash sample_permit ''ev-1'' (sha (CHR ''c'')) (sha (CHR ''b'')) (utc_at 30) (utc_at 45) (Fin (-50) (-2)) = Inr sample_close"
  by code_simp

lemma const_hash_sha: "is_sha256 (const_hash x)"
  using sample_shas(1) by (simp add: const_hash_def sha_def)

lemma sample_ready: "lifecycle_ready const_hash (sample_config t) sample_permit"
proof -
  have "first_reject (require_clocks_verified (sample_config t) @ require_paper_boundary (sample_config t) @ require_clock_scope (sample_config t) sample_permit
      @ require_mutation (sample_config t) @ open_identity_guards const_hash (sample_config t) sample_permit) = None"
    by code_simp
  moreover have "correlation_checks sample_correlation = None" "exact_text ''rsv-ev-1''" by code_simp+
  ultimately show ?thesis
    by (simp add: lifecycle_ready_def sample_permit_ok sample_facts) (simp add: sample_config_def sample_correlation_def sample_permit_def sample_facts)
qed

lemma sample_ledger_clean: "lifecycle_intents authorized_ledger = []" "fills authorized_ledger = []"
proof -
  have frozen: "lifecycle_intents frozen_ledger = []" "fills frozen_ledger = []"
    by (subst frozen_ledger_rows, simp add: empty_ledger_def)+
  have kept: "lifecycle_intents db' = lifecycle_intents db \<and> fills db' = fills db"
    if "reserve_and_issue_permit H ev sy cand pol de ex am agg mo me pm now db = (Inr res, db')"
    for H ev sy cand pol de ex am agg mo me pm now db res db'
    using that by (elim reserve_and_issue_Inr) (simp add: insert_Inr append_passport_Inr)
  show "lifecycle_intents authorized_ledger = []" "fills authorized_ledger = []"
    using kept [OF authorized_ledger_eq(1)] frozen by simp_all
qed

lemmas sample_defs = sample_config_def sample_correlation_def sample_clocks_def sample_close_def

lemma sample_steady: "steady (utc_at n) (sample_config (utc_at n))"
  by (simp add: steady_def sample_config_def DEFAULT_TRUTH_MAX_AGE_SECONDS_def utc_at_def)

lemma sample_binding:
  "open_binding_ok (sample_config t) sample_permit (reservation_for_event (event_run_id sample_permit) authorized_ledger)
     (permit_for_event (event_run_id sample_permit) authorized_ledger)"
  by (simp add: open_binding_ok_def lookup_defs authorized_ledger_eq sample_defs sample_facts sample_permit_def sample_reservation_def
      new_reservation_def new_permit_def sample_permit_id_def)

lemma sample_times:
  "window_open (issued_at sample_permit) (utc_at 1) (expires_at sample_permit)" "window_open (cp_issued_at sample_close) (utc_at 40) (cp_expires_at sample_close)"
  "aware (lk_entry_deadline_at (lc_clocks (sample_config t)))" "instant (utc_at 1) \<le> instant (lk_entry_deadline_at (lc_clocks (sample_config t)))"
  "aware (lk_time_exit_at (lc_clocks (sample_config t)))" "instant (lk_time_exit_at (lc_clocks (sample_config t))) \<le> instant (utc_at 40)"
  "aware (lk_flattening_deadline_at (lc_clocks (sample_config t)))" "instant (utc_at 40) \<le> instant (lk_flattening_deadline_at (lc_clocks (sample_config t)))"
  by (simp_all add: window_open_def sample_permit_def sample_defs utc_at_def)

lemma sample_untouched:
  "untouched sample_permit ''fake-open-order-1'' authorized_ledger" "untouched_close sample_permit sample_close authorized_ledger"
  "co_close_permit_id (lc_correlation (sample_config t)) \<in> {None, Some (cp_permit_id sample_close)}"
  by (simp_all add: untouched_def untouched_close_def sample_ledger_clean authorized_ledger_eq sample_permit_def sample_defs)

lemma sample_later: "(sample_config t)\<lparr>lc_clock := \<lambda>_. t'\<rparr> = sample_config t'"
  by (simp add: sample_config_def)

theorem worker_completes_witness:
  "\<exists>s1 s2. open_position const_hash fake_ops (sample_config (utc_at 1)) sample_permit (fresh_worker authorized_ledger (fake_at (utc_at 1)))
      = (Inr (OPEN_FILLED, ''fake-open-order-1''), s1)
    \<and> close_position const_hash fake_ops (sample_config (utc_at 40)) sample_permit sample_close ''fake-open-order-1''
        (s1\<lparr>ws_broker := (ws_broker s1)\<lparr>fb_clock := \<lambda>_. utc_at 40\<rparr>\<rparr>) = (Inr (CLOSED_FLAT, ''fake-close-order-1''), s2)
    \<and> map_option rs_state (reservation_for_event ''ev-1'' (ws_ledger s2)) = Some RELEASED"
proof -
  have hash: "\<forall>x. is_sha256 (const_hash x)" by (simp add: const_hash_sha)
  have utc: "is_utc (utc_at 40)" by (simp add: utc_at_def)
  have ev: "event_run_id sample_permit = ''ev-1''" by (simp add: sample_permit_def)
  show ?thesis
    using worker_completes [OF hash sample_ready sample_steady utc sample_times(1,3,4) authorized_ledger_inv sample_untouched(1,2) sample_binding
        sample_close_issued sample_untouched(3) sample_times(2,5-8)]
    unfolding sample_later ev by blast
qed

section \<open>The run against the traced broker\<close>

definition sample_start :: "fake_paper_broker observed worker_state" where
  "sample_start = fresh_worker authorized_ledger (fake_at (utc_at 1), [])"

lemma sample_run:
  obtains s1 u s2 where "open_position const_hash (traced fake_ops) (sample_config (utc_at 1)) sample_permit sample_start
      = (Inr (OPEN_FILLED, ''fake-open-order-1''), s1)"
    "ws_ledger u = ws_ledger s1" "trace u = trace s1"
    "close_position const_hash (traced fake_ops) (sample_config (utc_at 40)) sample_permit sample_close ''fake-open-order-1'' u
      = (Inr (CLOSED_FLAT, ''fake-close-order-1''), s2)"
proof -
  define advance :: "fake_paper_broker observed \<Rightarrow> fake_paper_broker observed" where "advance = apfst (\<lambda>b. b\<lparr>fb_clock := \<lambda>_. utc_at 40\<rparr>)"
  have utc: "is_utc (utc_at 40)" "aware (utc_at 1)" by (simp_all add: utc_at_def)
  have later: "scripted (utc_at 40) (fst (advance b)) \<and> orders_of (fst (advance b)) = orders_of (fst b)" if "scripted (utc_at 1) (fst b)" for b
    using clock_advanced [OF that, of "utc_at 40"] by (simp add: advance_def utc_at_def)
  have worker: "permit_id sample_permit \<notin> set (ws_submitted_open sample_start)" "cp_permit_id sample_close \<notin> set (ws_submitted_close sample_start)"
    "scripted (utc_at 1) (fst (ws_broker sample_start))" "snd (orders_of (fst (ws_broker sample_start))) = (None, ''new'')"
    using fake_at_scripted(1) [OF utc(2)] fake_at_scripted(2) by (simp_all add: sample_start_def)
  have db: "ws_ledger sample_start = authorized_ledger" by (simp add: sample_start_def)
  note run = traced_fake.lifecycle_completes [where s = sample_start and advance = advance, unfolded db, OF const_hash_sha sample_ready sample_steady utc(1) sample_times(1,3,4)
      authorized_ledger_inv sample_untouched(1,2) sample_binding worker sample_close_issued sample_untouched(3) sample_times(2,5-8) later, unfolded sample_later]
  from run obtain s1 s2 where s: "open_position const_hash (traced fake_ops) (sample_config (utc_at 1)) sample_permit sample_start
      = (Inr (OPEN_FILLED, ''fake-open-order-1''), s1)"
    "close_position const_hash (traced fake_ops) (sample_config (utc_at 40)) sample_permit sample_close ''fake-open-order-1''
      (s1\<lparr>ws_broker := advance (ws_broker s1)\<rparr>) = (Inr (CLOSED_FLAT, ''fake-close-order-1''), s2)"
    by blast
  show thesis by (rule that [OF s(1) _ _ s(2)]) (simp_all add: advance_def)
qed

theorem worker_reports_truth_witness:
  "\<exists>s1 ack a t ps. open_position const_hash (traced fake_ops) (sample_config (utc_at 1)) sample_permit sample_start
      = (Inr (OPEN_FILLED, ''fake-open-order-1''), s1)
    \<and> trace s1 = [SubmitOpenCall (open_request const_hash (sample_config (utc_at 1)) sample_permit) (Inr ack), ReadAccountCall (Inr a),
         ReadOrderCall ''fake-open-order-1'' (Inr t), ReadPositionsCall (Inr ps)]
    \<and> truth_established (sample_config (utc_at 1)) 5 (open_request const_hash (sample_config (utc_at 1)) sample_permit) ''fake-open-order-1'' a t ps
    \<and> snd (desk_of (ws_ledger s1)) ''ev-1'' = Some (opened_reservation OPEN_FILLED)"
proof -
  obtain s1 u s2 where run: "open_position const_hash (traced fake_ops) (sample_config (utc_at 1)) sample_permit sample_start
      = (Inr (OPEN_FILLED, ''fake-open-order-1''), s1)"
    "close_position const_hash (traced fake_ops) (sample_config (utc_at 40)) sample_permit sample_close ''fake-open-order-1'' u
      = (Inr (CLOSED_FLAT, ''fake-close-order-1''), s2)" by (rule sample_run)
  have start: "trace sample_start = []" "event_run_id sample_permit = ''ev-1''" "ws_readings sample_start = 0"
    by (simp_all add: sample_start_def sample_permit_def fresh_worker_def)
  note truth = worker_reports_truth [THEN conjunct1, rule_format, OF run(1)]
  from truth [THEN conjunct1] show ?thesis
    using run(1) truth [THEN conjunct2, THEN conjunct2] unfolding start append_Nil add_0_left by blast
qed

theorem settled_only_on_proof_witness:
  "\<exists>s1. fst (open_position const_hash (traced fake_ops) (sample_config (utc_at 1)) sample_permit sample_start) = Inr (OPEN_FILLED, ''fake-open-order-1'')
    \<and> s1 = snd (open_position const_hash (traced fake_ops) (sample_config (utc_at 1)) sample_permit sample_start)
    \<and> desk_of (ws_ledger s1) \<noteq> desk_of authorized_ledger \<and> open_proof const_hash (sample_config (utc_at 1)) 5 sample_permit (trace s1)"
proof -
  obtain s1 u s2 where run: "open_position const_hash (traced fake_ops) (sample_config (utc_at 1)) sample_permit sample_start
      = (Inr (OPEN_FILLED, ''fake-open-order-1''), s1)"
    "close_position const_hash (traced fake_ops) (sample_config (utc_at 40)) sample_permit sample_close ''fake-open-order-1'' u
      = (Inr (CLOSED_FLAT, ''fake-close-order-1''), s2)" by (rule sample_run)
  have start: "trace sample_start = []" "ws_ledger sample_start = authorized_ledger" "ws_readings sample_start = 0"
    by (simp_all add: sample_start_def fresh_worker_def)
  have "snd (desk_of (ws_ledger sample_start)) (event_run_id sample_permit) = Some RESERVED"
    "snd (desk_of (ws_ledger s1)) (event_run_id sample_permit) = Some CONSUMED"
    using open_Inr(2,3) [OF run(1)] by simp_all
  then have "desk_of (ws_ledger s1) \<noteq> desk_of authorized_ledger" using start(2) by auto
  then show ?thesis
    using settled_only_on_proof [THEN conjunct1, rule_format, OF run(1)] run(1) unfolding start append_Nil add_0_left by auto
qed

theorem worker_submits_once_witness:
  "let s' = run_worker const_hash (traced fake_ops) (OpenPosition (sample_config (utc_at 1)) sample_permit) sample_start
   in submissions_of (trace s') = [open_request const_hash (sample_config (utc_at 1)) sample_permit]
     \<and> (\<exists>it. it \<in> set (lifecycle_intents (ws_ledger s')) \<and> it_permit_id it = sample_permit_id \<and> it_phase it = OPEN)
     \<and> ledger_inv const_hash (ws_ledger s')"
proof -
  let ?c = "OpenPosition (sample_config (utc_at 1)) sample_permit" and ?r = "open_request const_hash (sample_config (utc_at 1)) sample_permit"
  obtain s1 u s2 where run: "open_position const_hash (traced fake_ops) (sample_config (utc_at 1)) sample_permit sample_start
      = (Inr (OPEN_FILLED, ''fake-open-order-1''), s1)" by (rule sample_run)
  have start: "ledger_inv const_hash (ws_ledger sample_start)" "trace sample_start = []"
    by (simp_all add: sample_start_def authorized_ledger_inv)
  have s': "run_worker const_hash (traced fake_ops) ?c sample_start = s1" using run by simp
  have subs: "submissions_of (trace s1) = [?r]" using open_Inr(1) [OF run] start(2) by (auto simp: submissions_of_def List.map_filter_def)
  have r: "rq_permit_id ?r = sample_permit_id" "rq_phase ?r = OPEN" "?r \<in> set (submissions_of (trace s1))"
    using subs by (simp_all add: open_request_def order_request_def Let_def sample_facts)
  show ?thesis
    using worker_submits_once [OF start, of fake_ops "[?c]"] r subs unfolding Let_def foldl.simps s' by metis
qed

definition sample_order :: broker_order_request where
  "sample_order = order_request const_hash (sample_config (utc_at 1)) OPEN sample_permit_id sample_permit sample_correlation (Fin 125 (-2)) (open_legs sample_permit)"

definition sample_ack :: broker_order_ack where
  "sample_ack = \<lparr>ak_order_id = ''order-1'', ak_client_order_id = rq_client_order_id sample_order, ak_observed_at = utc_at 1\<rparr>"

lemma sample_placed:
  obtains s1 s2 where "record_intent const_hash (sample_config (utc_at 1)) sample_order 1 (fresh_worker authorized_ledger (fake_at (utc_at 1))) = (Inr (), s1)"
    "bind_ack const_hash (sample_config (utc_at 1)) sample_order sample_ack s1 = (Inr (), s2)"
proof -
  let ?cfg = "sample_config (utc_at 1)" and ?s = "fresh_worker authorized_ledger (fake_at (utc_at 1))"
  have utc: "is_utc (utc_at 1)" "aware (utc_at 1)" by (simp_all add: utc_at_def)
  have co: "co_event_run_id sample_correlation = event_run_id sample_permit" "co_reservation_id sample_correlation = co_reservation_id (lc_correlation ?cfg)"
    by (simp_all add: sample_defs sample_permit_def)
  note accepted = request_accepted(1,2) [OF sample_ready const_hash_sha utc(1) sample_facts(13) co sample_order_def, of 1]
  note held = binding_held(1) [OF authorized_ledger_inv sample_binding [of "utc_at 1"]]
  have at: "fake.stage (utc_at 1) (permit_id sample_permit, event_run_id sample_permit, co_reservation_id (lc_correlation ?cfg)) (ISSUED, RESERVED) [] [] []
      (orders_of (fake_at (utc_at 1))) ?s"
    using held fake_at_scripted(1) [OF utc(2)] by (simp add: fake.stage_def sample_ledger_clean authorized_ledger_eq)
  obtain s1 where s1: "record_intent const_hash ?cfg sample_order 1 ?s = (Inr (), s1)"
    "fake.stage (utc_at 1) (permit_id sample_permit, event_run_id sample_permit, co_reservation_id (lc_correlation ?cfg)) (ISSUED, RESERVED)
      ([] @ [intended const_hash sample_order 1 (utc_at 1)]) [] [] (orders_of (fake_at (utc_at 1))) s1"
    using fake.step_intent [OF sample_steady at accepted(1)] by auto
  have order: "rq_permit_id sample_order = sample_permit_id" by (simp add: sample_order_def order_request_def Let_def)
  have ack: "exact_text (ak_order_id sample_ack)" "ak_client_order_id sample_ack = rq_client_order_id sample_order"
    "exact_text (rq_permit_id sample_order)"
    by (simp_all add: sample_ack_def sample_facts order)
  obtain s2 where "bind_ack const_hash ?cfg sample_order sample_ack s1 = (Inr (), s2)"
    using fake.step_bind [OF sample_steady s1(2) _ refl accepted(2) ack(3,1,2)] by auto
  then show thesis using that s1(1) by blast
qed

theorem restart_restores_request_witness:
  "\<exists>db it r'. lifecycle_intent_for_permit sample_permit_id db = Some it
    \<and> durable_submitted_request const_hash (sample_config (utc_at 40)) it OPEN = Inr (r', 1, ''order-1'')
    \<and> rq_legs r' = open_legs sample_permit \<and> dec_normalize (rq_limit_price r') = dec_normalize (Fin 125 (-2))"
proof -
  obtain s1 s2 where run: "record_intent const_hash (sample_config (utc_at 1)) sample_order 1 (fresh_worker authorized_ledger (fake_at (utc_at 1))) = (Inr (), s1)"
    "bind_ack const_hash (sample_config (utc_at 1)) sample_order sample_ack s1 = (Inr (), s2)" by (rule sample_placed)
  have p: "permit_id sample_permit = co_open_permit_id (lc_correlation (sample_config (utc_at 1)))" "is_finite (Fin 125 (-2))" "quantity sample_permit = 1"
    "OPEN = OPEN \<and> sample_correlation = lc_correlation (sample_config (utc_at 1)) \<or> OPEN = CLOSE \<and> with_close_permit sample_permit_id (lc_correlation (sample_config (utc_at 1))) = Inr sample_correlation"
    by (simp_all add: sample_config_def sample_correlation_def sample_permit_def sample_permit_id_def)
  have "durable_submitted_request const_hash (sample_config (utc_at 40)) it OPEN = durable_submitted_request const_hash (sample_config (utc_at 1)) it OPEN" for it
    by (simp add: durable_submitted_request_def durable_intent_guards_def sample_config_def)
  moreover obtain it r' where "lifecycle_intent_for_permit sample_permit_id (ws_ledger s2) = Some it"
    "durable_submitted_request const_hash (sample_config (utc_at 1)) it OPEN = Inr (r', quantity sample_permit, ak_order_id sample_ack)"
    "r' = sample_order\<lparr>rq_limit_price := rq_limit_price r'\<rparr>" "dec_normalize (rq_limit_price r') = dec_normalize (Fin 125 (-2))"
    using restart_restores_request [where H = const_hash, OF sample_permit_ok p(1,2) disjI1 [OF refl] p(4) _ refl, folded sample_order_def, unfolded p(3), OF run]
    by (auto simp: p(3))
  moreover have "rq_legs (sample_order\<lparr>rq_limit_price := x\<rparr>) = open_legs sample_permit" for x by (simp add: sample_order_def order_request_def Let_def)
  ultimately show ?thesis unfolding p(3) sample_ack_def by (metis broker_order_ack.select_convs(1))
qed

section \<open>Runs that are refused\<close>

theorem worker_fails_closed_witness:
  "\<exists>e s'. open_position const_hash fake_ops ((sample_config (utc_at 1))\<lparr>lc_mutation_permitted := closed_mutation_gate\<rparr>) sample_permit
      (fresh_worker authorized_ledger (fake_at (utc_at 1))) = (Inl e, s') \<and> ws_ledger s' = authorized_ledger \<and> ws_broker s' = fake_at (utc_at 1)"
proof -
  let ?cfg = "(sample_config (utc_at 1))\<lparr>lc_mutation_permitted := closed_mutation_gate\<rparr>" and ?s = "fresh_worker authorized_ledger (fake_at (utc_at 1))"
  have shut: "mutation_forbidden ?cfg sample_permit" by (simp add: mutation_forbidden_def closed_mutation_gate_def)
  obtain res s' res2 u' where run: "open_position const_hash fake_ops ?cfg sample_permit ?s = (res, s')"
    "close_position const_hash fake_ops ?cfg sample_permit sample_close ''fake-open-order-1'' ?s = (res2, u')" by (metis surj_pair)
  have "(\<exists>e. res = Inl e) \<and> s' = ?s\<lparr>ws_readings := ws_readings s'\<rparr>" using worker_fails_closed [OF shut run] by blast
  then obtain e where "res = Inl e" "ws_ledger s' = ws_ledger ?s" "ws_broker s' = ws_broker ?s"
    by (metis worker_state.select_convs(1,2) worker_state.surjective worker_state.update_convs(3))
  then show ?thesis using run(1) by auto
qed

theorem close_permit_accepted_witness:
  "close_permit_checks sample_close = None \<and> dec_le (dec_abs (cp_limit_price sample_close)) (vertical_width sample_permit)
    \<and> first_reject (close_permit_guards const_hash (sample_config (utc_at 40)) sample_permit sample_close) = None"
  using close_permit_accepted [OF sample_close_issued ready_facts(9) [OF sample_ready [of "utc_at 40"]] sample_untouched(3)] by blast

text \<open>A close order that the durable ledger knows and that the broker shows filled, after a restart.\<close>

definition sample_closing :: correlation_identity where
  "sample_closing = sample_correlation\<lparr>co_close_permit_id := Some (cp_permit_id sample_close)\<rparr>"

definition sample_close_order :: broker_order_request where
  "sample_close_order = close_request const_hash (sample_config (utc_at 40)) sample_permit sample_close sample_closing
     (case close_legs sample_permit of Inr legs \<Rightarrow> legs | Inl _ \<Rightarrow> [])"

definition sample_close_intent :: intent_row where
  "sample_close_intent = bound_to ''fake-close-order-1'' (utc_at 40) (intended const_hash sample_close_order 1 (utc_at 40))"

definition restarted :: "broker_order_request \<Rightarrow> fake_paper_broker observed worker_state" where
  "restarted r = fresh_worker (empty_ledger\<lparr>lifecycle_intents := [sample_close_intent]\<rparr>)
     ((fake_at (utc_at 40))\<lparr>fb_close_request := Some r, fb_close_state := FILLED_STATUS\<rparr>, [])"

lemma sample_close_legs: "\<exists>k l. close_legs sample_permit = Inr [k, l] \<and> bl_symbol k \<noteq> [] \<and> bl_symbol l \<noteq> []"
  by (rule permit_legs_named(2) [OF sample_permit_ok])

lemma sample_close_restored:
  obtains r where "durable_submitted_request const_hash (sample_config (utc_at 40)) sample_close_intent CLOSE = Inr (r, 1, ''fake-close-order-1'')"
    "confirmable r" "rq_phase r = CLOSE"
proof -
  let ?cfg = "sample_config (utc_at 40)" and ?o = sample_close_order
  obtain k l where legs: "close_legs sample_permit = Inr [k, l]" "bl_symbol k \<noteq> []" "bl_symbol l \<noteq> []" using sample_close_legs by blast
  have order: "?o = order_request const_hash ?cfg CLOSE (cp_permit_id sample_close) sample_permit sample_closing (cp_limit_price sample_close) [k, l]"
    by (simp add: sample_close_order_def close_request_def legs(1))
  have utc: "is_utc (utc_at 40)" by (simp add: utc_at_def)
  have co: "co_event_run_id sample_closing = event_run_id sample_permit" "co_reservation_id sample_closing = co_reservation_id (lc_correlation ?cfg)"
    by (simp_all add: sample_closing_def sample_defs sample_permit_def)
  note exact = close_permit_exact [OF const_hash_sha sample_close_issued]
  note accepted = request_accepted(1) [OF sample_ready const_hash_sha utc exact co order, of 1]
  have price: "cp_limit_price sample_close = Fin (-50) (-2)" by (simp add: sample_close_def)
  have fields: "rq_permit_id ?o = cp_permit_id sample_close" "rq_phase ?o = CLOSE" "rq_event_run_id ?o = ''ev-1''" "rq_open_permit_id ?o = sample_permit_id"
    "rq_correlation_sha256 ?o = correlation_sha256 const_hash sample_closing" "rq_limit_price ?o = Fin (-50) (-2)" "rq_legs ?o = [k, l]"
    "rq_account_id ?o = ''paper-account''" "rq_account_class ?o = PAPER_ACCOUNT_CLASS" "rq_order_class ?o = MULTI_LEG_ORDER_CLASS"
    by (simp_all add: order order_request_def Let_def price sample_closing_def sample_correlation_def sample_config_def sample_facts)
  have ok: "request_ok ?o 1"
    using permit_legs_ok(3) [OF sample_permit_ok legs(1)] intent_texts_exact [OF accepted] by (simp add: request_ok_def fields)
  have json: "it_request_json sample_close_intent = canonical_json_bytes (broker_order_request_payload ?o 1)"
    by (simp add: sample_close_intent_def bound_to_def intended_def request_intent_def)
  obtain r where r: "restored_request sample_close_intent = Inr (r, 1)" "r = ?o\<lparr>rq_limit_price := rq_limit_price r\<rparr>"
    "dec_normalize (rq_limit_price r) = dec_normalize (Fin (-50) (-2))"
    "broker_order_request_sha256 const_hash r 1 = broker_order_request_sha256 const_hash ?o 1"
    using restored_intent [OF ok json, of const_hash] fields(6) by auto
  have same: "rq_permit_id r = cp_permit_id sample_close" "rq_phase r = CLOSE" "rq_event_run_id r = ''ev-1''" "rq_open_permit_id r = sample_permit_id"
    "rq_correlation_sha256 r = correlation_sha256 const_hash sample_closing" "rq_legs r = [k, l]"
    "rq_account_id r = ''paper-account''" "rq_account_class r = PAPER_ACCOUNT_CLASS" "rq_order_class r = MULTI_LEG_ORDER_CLASS"
    by (subst r(2), simp add: fields)+
  have norm: "dec_normalize (Fin (-50) (-2)) = Fin (-5) (-1)" by code_simp
  have "is_finite (rq_limit_price r)" using r(3) unfolding norm by (cases "rq_limit_price r") auto
  moreover obtain m e where d: "rq_limit_price r = Fin m e" "dval (dec_normalize (rq_limit_price r)) = dval (dfix m e)"
    using normalize_normal(2) calculation by blast
  have "dval (dfix m e) < 0" using d(2) r(3) unfolding norm by (simp add: power_int_minus)
  then have "m < 0" using dfix_nonneg [of m e] by linarith
  then have "dval (rq_limit_price r) < 0" by (simp add: d(1) mult_neg_pos)
  ultimately have confirm: "confirmable r" using same legs(2,3) by (auto simp: confirmable_def)
  have with': "with_close_permit (cp_permit_id sample_close) sample_correlation = Inr sample_closing" by code_simp
  have "durable_submitted_request const_hash ?cfg sample_close_intent CLOSE = Inr (r, 1, ''fake-close-order-1'')"
    using r(1,4) same with'
    by (simp add: durable_submitted_request_def guarded_def durable_intent_guards_def sample_close_intent_def bound_to_def intended_def
        request_intent_def fields sample_config_def sample_correlation_def text_simps)
  then show thesis using that confirm same(2) by blast
qed

theorem recovery_only_reads_witness:
  "\<exists>r s' a t ps. recover_flatness const_hash (traced fake_ops) (sample_config (utc_at 40)) (restarted r) = (Inr CLOSED_FLAT, s')
    \<and> restored_from const_hash (sample_config (utc_at 40)) CLOSE sample_close_intent r 1 ''fake-close-order-1''
    \<and> truth_established (sample_config (utc_at 40)) 1 r ''fake-close-order-1'' a t ps \<and> positions_flat (bp_positions ps)
    \<and> ws_ledger s' = ws_ledger (restarted r) \<and> submissions_of (trace s') = []"
proof -
  let ?cfg = "sample_config (utc_at 40)" and ?oid = "''fake-close-order-1''"
  obtain r where r: "durable_submitted_request const_hash ?cfg sample_close_intent CLOSE = Inr (r, 1, ?oid)" "confirmable r" "rq_phase r = CLOSE"
    by (rule sample_close_restored)
  let ?s = "restarted r" and ?ack = "\<lparr>ak_order_id = ?oid, ak_client_order_id = rq_client_order_id r, ak_observed_at = utc_at 40\<rparr>"
  let ?s1 = "?s\<lparr>ws_readings := Suc (ws_readings ?s)\<rparr>"
  have aw: "aware (utc_at 40)" by (simp add: utc_at_def)
  have script: "scripted (utc_at 40) (fst (ws_broker ?s1))" "snd (orders_of (fst (ws_broker ?s1))) = (Some r, FILLED_STATUS)"
    using fake_at_scripted(1) [OF aw] by (simp_all add: restarted_def scripted_def orders_of_def)
  obtain s' where s': "fresh_bound_truth (traced fake_ops) ?cfg r ?ack ?s1 = (Inr (confirmed r ?oid (utc_at 40), confirmed_positions r ?oid (utc_at 40) []), s')"
    using traced_fake.truth_read [where s = ?s1 and ack = ?ack and order = ?oid, OF sample_steady r(2)] script r(3) by auto
  have ev: "co_event_run_id (lc_correlation ?cfg) = ''ev-1''" "exact_text ''ev-1''" by (simp_all add: sample_defs sample_facts)
  have found: "lifecycle_intent_for_event_phase ''ev-1'' CLOSE (ws_ledger ?s) = Some sample_close_intent"
    by (simp add: restarted_def lifecycle_intent_for_event_phase_def sample_close_intent_def bound_to_def intended_def request_intent_def
        sample_close_order_def close_request_def order_request_def Let_def sample_closing_def sample_correlation_def)
  have flat: "reduce_close_order FILLED_STATUS 1 [] 1 = CLOSED_FLAT" by code_simp
  have run: "recover_flatness const_hash (traced fake_ops) ?cfg ?s = (Inr CLOSED_FLAT, s')"
    using found ev s' flat r(3)
    by (simp add: recover_flatness_def Let_def find_by_def operation_defs r(1) recovered_ack_def steady_now [OF sample_steady] confirmed_fields)
  have start: "ws_readings ?s = 0" "trace ?s = []" by (simp_all add: restarted_def fresh_worker_def)
  note answer = recovery_only_reads [THEN conjunct2, rule_format, OF run]
  obtain it r' q order a t ps where answer': "lifecycle_intent_for_event_phase ''ev-1'' CLOSE (ws_ledger ?s) = Some it"
    "restored_from const_hash ?cfg CLOSE it r' q order" "truth_established ?cfg (ws_readings ?s + 1) r' order a t ps" "positions_flat (bp_positions ps)"
    using answer unfolding ev(1) by blast
  have it: "it = sample_close_intent" using answer'(1) found by simp
  have "restored_from const_hash ?cfg CLOSE sample_close_intent r 1 ?oid" by (rule durable_request_Inr [OF r(1)])
  moreover from this answer'(2) have "r' = r" "q = 1" "order = ?oid" unfolding it restored_from_def by auto
  ultimately show ?thesis
    using run answer'(2-4) answer unfolding it start by (intro exI [of _ r] exI [of _ s'] exI [of _ a] exI [of _ t] exI [of _ ps]) (simp add: submissions_of_def List.map_filter_def)
qed

end
