(* ===== verification/Expression_Market.thy ===== *)
theory Expression_Market
  imports Exposure "HOL-Library.Product_Lexorder"
begin

text \<open>
  The inputs of the expression lane: \<open>execution/expression/reasons.py\<close> and
  \<open>observations.py\<close> (point-in-time market observations with their checks and canonical
  bytes). Prose of exceptions is dropped.
\<close>

section \<open>Reasons\<close>

datatype expression_reason =
    DIRECTION_NOT_VALIDATED | DECISION_BINDING_MISMATCH | POLICY_HASH_MISMATCH | GATE_D_RECEIPT_MISMATCH
  | EXPRESSION_NOT_PROMOTED | NO_QUOTE | XR_STALE_QUOTE | ASYNCHRONOUS_QUOTES | CROSSED_QUOTE | INSUFFICIENT_SIZE
  | SPREAD_TOO_WIDE | UNKNOWN_FEED | INDICATIVE_ONLY | UNSUPPORTED_CONTRACT | DTE_OUT_OF_BOUNDS | DELTA_OUT_OF_BOUNDS
  | GEOMETRY_INVALID | WIDTH_OUT_OF_BOUNDS | DEBIT_NOT_BELOW_WIDTH | PACKAGE_UNAVAILABLE | BORROW_LOCATE_MISSING
  | LIFECYCLE_CHECK_FAILED | EXPOSURE_BUDGET_EXCEEDED | NON_FINITE_VALUE | TIME_INCONSISTENT | XR_UNSUPPORTED_INPUT
  | UNSUPPORTED_SCHEMA_VERSION

fun expression_reason_value :: "expression_reason \<Rightarrow> string" where
  "expression_reason_value DIRECTION_NOT_VALIDATED = ''DIRECTION_NOT_VALIDATED''"
| "expression_reason_value DECISION_BINDING_MISMATCH = ''DECISION_BINDING_MISMATCH''"
| "expression_reason_value POLICY_HASH_MISMATCH = ''POLICY_HASH_MISMATCH''"
| "expression_reason_value GATE_D_RECEIPT_MISMATCH = ''GATE_D_RECEIPT_MISMATCH''"
| "expression_reason_value EXPRESSION_NOT_PROMOTED = ''EXPRESSION_NOT_PROMOTED''"
| "expression_reason_value NO_QUOTE = ''NO_QUOTE''"
| "expression_reason_value XR_STALE_QUOTE = ''STALE_QUOTE''"
| "expression_reason_value ASYNCHRONOUS_QUOTES = ''ASYNCHRONOUS_QUOTES''"
| "expression_reason_value CROSSED_QUOTE = ''CROSSED_QUOTE''"
| "expression_reason_value INSUFFICIENT_SIZE = ''INSUFFICIENT_SIZE''"
| "expression_reason_value SPREAD_TOO_WIDE = ''SPREAD_TOO_WIDE''"
| "expression_reason_value UNKNOWN_FEED = ''UNKNOWN_FEED''"
| "expression_reason_value INDICATIVE_ONLY = ''INDICATIVE_ONLY''"
| "expression_reason_value UNSUPPORTED_CONTRACT = ''UNSUPPORTED_CONTRACT''"
| "expression_reason_value DTE_OUT_OF_BOUNDS = ''DTE_OUT_OF_BOUNDS''"
| "expression_reason_value DELTA_OUT_OF_BOUNDS = ''DELTA_OUT_OF_BOUNDS''"
| "expression_reason_value GEOMETRY_INVALID = ''GEOMETRY_INVALID''"
| "expression_reason_value WIDTH_OUT_OF_BOUNDS = ''WIDTH_OUT_OF_BOUNDS''"
| "expression_reason_value DEBIT_NOT_BELOW_WIDTH = ''DEBIT_NOT_BELOW_WIDTH''"
| "expression_reason_value PACKAGE_UNAVAILABLE = ''PACKAGE_UNAVAILABLE''"
| "expression_reason_value BORROW_LOCATE_MISSING = ''BORROW_LOCATE_MISSING''"
| "expression_reason_value LIFECYCLE_CHECK_FAILED = ''LIFECYCLE_CHECK_FAILED''"
| "expression_reason_value EXPOSURE_BUDGET_EXCEEDED = ''EXPOSURE_BUDGET_EXCEEDED''"
| "expression_reason_value NON_FINITE_VALUE = ''NON_FINITE_VALUE''"
| "expression_reason_value TIME_INCONSISTENT = ''TIME_INCONSISTENT''"
| "expression_reason_value XR_UNSUPPORTED_INPUT = ''UNSUPPORTED_INPUT''"
| "expression_reason_value UNSUPPORTED_SCHEMA_VERSION = ''UNSUPPORTED_SCHEMA_VERSION''"

record expression_rejected =
  xr_reason :: expression_reason
  xr_path :: string

definition xreject :: "expression_reason \<Rightarrow> string \<Rightarrow> expression_rejected" where
  "xreject r path = \<lparr>xr_reason = r, xr_path = path\<rparr>"

lemma xreject_simps [simp]: "xr_reason (xreject r p) = r" "xr_path (xreject r p) = p"
  by (simp_all add: xreject_def)

section \<open>Observations\<close>

definition EXECUTABLE_DATA :: string where "EXECUTABLE_DATA = ''EXECUTABLE_DATA''"
definition INDICATIVE_DATA :: string where "INDICATIVE_DATA = ''INDICATIVE_DATA''"

definition known_data_class :: "string \<Rightarrow> bool" where
  "known_data_class d = (d \<in> {EXECUTABLE_DATA, INDICATIVE_DATA})"

definition normalized_symbol :: "string \<Rightarrow> bool" where
  "normalized_symbol s = (s \<noteq> [] \<and> s = upper (strip s))"

definition positive_money :: "dec \<Rightarrow> bool" where
  "positive_money d = (is_finite d \<and> dec_lt dec_zero d)"

definition non_negative_money :: "dec \<Rightarrow> bool" where
  "non_negative_money d = (is_finite d \<and> dec_le dec_zero d)"

record feed_identity =
  fi_feed :: string
  fi_tool :: string
  fi_schema :: string
  fi_version :: string

definition feed_identity_checks :: "feed_identity \<Rightarrow> value_error option" where
  "feed_identity_checks f = first_reject
     [(fi_feed f = [], ''feed must be non-empty text''), (fi_tool f = [], ''tool must be non-empty text''),
      (fi_schema f = [], ''schema must be non-empty text''), (fi_version f = [], ''version must be non-empty text'')]"

definition identity_key :: "feed_identity \<Rightarrow> string list" where
  "identity_key f = [fi_feed f, fi_tool f, fi_schema f, fi_version f]"

record two_sided_quote =
  tq_bid :: dec
  tq_ask :: dec
  tq_bid_size :: int
  tq_ask_size :: int
  tq_observed_at :: datetime

definition two_sided_quote_checks :: "two_sided_quote \<Rightarrow> value_error option" where
  "two_sided_quote_checks q = first_reject
     [(\<not> non_negative_money (tq_bid q), ''bid must be a non-negative finite decimal''),
      (\<not> non_negative_money (tq_ask q), ''ask must be a non-negative finite decimal''),
      (tq_bid_size q < 0, ''bid_size must be a non-negative integer''),
      (tq_ask_size q < 0, ''ask_size must be a non-negative integer''),
      (\<not> equals_utc (tq_observed_at q), ''observed_at must be a UTC datetime'')]"

definition crossed :: "two_sided_quote \<Rightarrow> bool" where
  "crossed q = dec_lt (tq_ask q) (tq_bid q)"

text \<open>\<open>(bid + ask) / Decimal(2)\<close>; the divisor is never zero.\<close>

definition midpoint :: "two_sided_quote \<Rightarrow> dec option" where
  "midpoint q = dec_div (dec_add (tq_bid q) (tq_ask q)) (Fin 2 0)"

definition spread :: "two_sided_quote \<Rightarrow> dec" where
  "spread q = dec_sub (tq_ask q) (tq_bid q)"

record share_observation =
  so_symbol :: string
  so_quote :: two_sided_quote
  so_feed :: feed_identity
  so_data_class :: string

definition share_observation_checks :: "share_observation \<Rightarrow> value_error option" where
  "share_observation_checks s = first_reject
     [(\<not> normalized_symbol (so_symbol s), ''symbol must be normalized uppercase text''),
      (\<not> known_data_class (so_data_class s), ''data_class must be EXECUTABLE_DATA or INDICATIVE_DATA'')]"

record option_contract_observation =
  oc_symbol :: string
  oc_underlying :: string
  oc_expiry :: date
  oc_option_type :: string
  oc_strike :: dec
  oc_quote :: two_sided_quote
  oc_feed :: feed_identity
  oc_data_class :: string
  oc_open_interest :: "int option"
  oc_reported_delta :: "dec option"

definition option_contract_checks :: "option_contract_observation \<Rightarrow> value_error option" where
  "option_contract_checks c = first_reject
     [(\<not> normalized_symbol (oc_symbol c), ''symbol must be normalized uppercase text''),
      (\<not> normalized_symbol (oc_underlying c), ''underlying must be normalized uppercase text''),
      (oc_option_type c \<notin> {''CALL'', ''PUT''}, ''option_type must be CALL or PUT''),
      (\<not> positive_money (oc_strike c), ''strike must be a positive finite decimal''),
      (\<not> known_data_class (oc_data_class c), ''data_class must be EXECUTABLE_DATA or INDICATIVE_DATA''),
      ((case oc_open_interest c of None \<Rightarrow> False | Some n \<Rightarrow> n < 0), ''open_interest must be a non-negative integer''),
      ((case oc_reported_delta c of None \<Rightarrow> False | Some d \<Rightarrow> \<not> is_finite d), ''reported_delta must be finite''),
      ((case oc_reported_delta c of None \<Rightarrow> False | Some d \<Rightarrow> \<not> (dec_le (Fin (-1) 0) d \<and> dec_le d (Fin 1 0))),
        ''reported_delta must lie in [-1, 1]'')]"

record package_observation =
  pk_package_id :: string
  pk_legs :: "string list"
  pk_net_bid :: dec
  pk_net_ask :: dec
  pk_size :: int
  pk_observed_at :: datetime
  pk_feed :: feed_identity
  pk_data_class :: string

definition package_observation_checks :: "package_observation \<Rightarrow> value_error option" where
  "package_observation_checks p = first_reject
     [(pk_package_id p = [], ''package_id must be non-empty text''),
      (length (pk_legs p) \<noteq> 2, ''packages carry exactly two leg symbols''),
      (\<not> list_all normalized_symbol (pk_legs p), ''leg symbol must be normalized uppercase text''),
      (\<not> non_negative_money (pk_net_bid p), ''net_bid must be a non-negative finite decimal''),
      (\<not> non_negative_money (pk_net_ask p), ''net_ask must be a non-negative finite decimal''),
      (pk_size p < 0, ''size must be a non-negative integer''),
      (\<not> equals_utc (pk_observed_at p), ''observed_at must be a UTC datetime''),
      (\<not> known_data_class (pk_data_class p), ''data_class must be EXECUTABLE_DATA or INDICATIVE_DATA'')]"

definition package_crossed :: "package_observation \<Rightarrow> bool" where
  "package_crossed p = dec_lt (pk_net_ask p) (pk_net_bid p)"

record borrow_locate_evidence =
  bw_symbol :: string
  bw_located_quantity :: int
  bw_source :: string
  bw_observed_at :: datetime
  bw_content_sha256 :: string

definition borrow_locate_checks :: "borrow_locate_evidence \<Rightarrow> value_error option" where
  "borrow_locate_checks b = first_reject
     [(\<not> normalized_symbol (bw_symbol b), ''symbol must be normalized uppercase text''),
      (bw_located_quantity b \<le> 0, ''located_quantity must be a positive integer''),
      (bw_source b = [], ''source must be non-empty text''),
      (\<not> equals_utc (bw_observed_at b), ''observed_at must be a UTC datetime''),
      (length (bw_content_sha256 b) \<noteq> 64, ''content_sha256 must be a SHA-256 digest'')]"

record expression_market_snapshot =
  ms_snapshot_id :: string
  ms_underlying :: string
  ms_observation_clock_at :: datetime
  ms_decision_sha256 :: string
  ms_share :: share_observation
  ms_chain :: "option_contract_observation list"
  ms_packages :: "package_observation list"
  ms_borrow_locate :: "borrow_locate_evidence option"

text \<open>\<open>values == tuple(sorted(set(values)))\<close>.\<close>

definition sorted_unique :: "string list \<Rightarrow> bool" where
  "sorted_unique xs = sorted_wrt (<) xs"

definition postdates :: "expression_market_snapshot \<Rightarrow> datetime \<Rightarrow> bool" where
  "postdates m t = (instant (ms_observation_clock_at m) < instant t)"

definition market_snapshot_checks :: "expression_market_snapshot \<Rightarrow> value_error option" where
  "market_snapshot_checks m = first_reject
     ([(ms_snapshot_id m = [], ''snapshot_id must be non-empty text''),
       (\<not> normalized_symbol (ms_underlying m), ''underlying must be normalized uppercase text''),
       (\<not> equals_utc (ms_observation_clock_at m), ''observation_clock_at must be a UTC datetime''),
       (length (ms_decision_sha256 m) \<noteq> 64, ''decision_sha256 must be a SHA-256 digest''),
       (so_symbol (ms_share m) \<noteq> ms_underlying m, ''share observation must match the snapshot underlying''),
       (postdates m (tq_observed_at (so_quote (ms_share m))), ''observations cannot postdate the snapshot clock'')]
      @ concat (map (\<lambda>c.
          [(oc_underlying c \<noteq> ms_underlying m, ''chain contracts must share the snapshot underlying''),
           (postdates m (tq_observed_at (oc_quote c)), ''observations cannot postdate the snapshot clock'')]) (ms_chain m))
      @ map (\<lambda>p. (postdates m (pk_observed_at p), ''observations cannot postdate the snapshot clock'')) (ms_packages m)
      @ [(\<not> sorted_unique (map oc_symbol (ms_chain m)), ''chain contracts must be sorted and unique''),
         (\<not> sorted_unique (map pk_package_id (ms_packages m)), ''packages must be sorted and unique''),
         ((case ms_borrow_locate m of None \<Rightarrow> False | Some b \<Rightarrow> bw_symbol b \<noteq> ms_underlying m),
           ''borrow/locate evidence must match the underlying''),
         ((case ms_borrow_locate m of None \<Rightarrow> False | Some b \<Rightarrow> postdates m (bw_observed_at b)),
           ''borrow/locate evidence cannot postdate the snapshot clock'')])"

text \<open>A snapshot exists only when its own checks and those of every value it holds have passed.\<close>

definition quote_ok :: "two_sided_quote \<Rightarrow> bool" where "quote_ok q = (two_sided_quote_checks q = None)"

definition market_snapshot_ok :: "expression_market_snapshot \<Rightarrow> bool" where
  "market_snapshot_ok m =
     (market_snapshot_checks m = None \<and> share_observation_checks (ms_share m) = None \<and> quote_ok (so_quote (ms_share m))
      \<and> feed_identity_checks (so_feed (ms_share m)) = None
      \<and> list_all (\<lambda>c. option_contract_checks c = None \<and> quote_ok (oc_quote c) \<and> feed_identity_checks (oc_feed c) = None) (ms_chain m)
      \<and> list_all (\<lambda>p. package_observation_checks p = None \<and> feed_identity_checks (pk_feed p) = None) (ms_packages m)
      \<and> (case ms_borrow_locate m of None \<Rightarrow> True | Some b \<Rightarrow> borrow_locate_checks b = None))"

definition snapshot_contract :: "expression_market_snapshot \<Rightarrow> string \<Rightarrow> option_contract_observation option" where
  "snapshot_contract m symbol = find (\<lambda>c. oc_symbol c = symbol) (ms_chain m)"

definition snapshot_package :: "expression_market_snapshot \<Rightarrow> string \<Rightarrow> package_observation option" where
  "snapshot_package m pid = find (\<lambda>p. pk_package_id p = pid) (ms_packages m)"

definition feed_payload :: "feed_identity \<Rightarrow> json" where
  "feed_payload f = JList (map JStr (identity_key f))"

definition quote_members :: "two_sided_quote \<Rightarrow> (string \<times> json) list" where
  "quote_members q =
     [(''bid'', JStr (dec_str (tq_bid q))), (''ask'', JStr (dec_str (tq_ask q))), (''bid_size'', JInt (tq_bid_size q)),
      (''ask_size'', JInt (tq_ask_size q)), (''observed_at'', JStr (isoformat_z (tq_observed_at q)))]"

definition share_observation_payload :: "share_observation \<Rightarrow> json" where
  "share_observation_payload s =
     JObj ([(''symbol'', JStr (so_symbol s))] @ quote_members (so_quote s)
       @ [(''feed'', feed_payload (so_feed s)), (''data_class'', JStr (so_data_class s))])"

definition option_observation_payload :: "option_contract_observation \<Rightarrow> json" where
  "option_observation_payload c =
     JObj ([(''symbol'', JStr (oc_symbol c)), (''underlying'', JStr (oc_underlying c)), (''expiry'', JStr (date_text (oc_expiry c))),
            (''option_type'', JStr (oc_option_type c)), (''strike'', JStr (dec_str (oc_strike c)))]
       @ quote_members (oc_quote c)
       @ [(''feed'', feed_payload (oc_feed c)), (''data_class'', JStr (oc_data_class c)),
          (''open_interest'', case oc_open_interest c of None \<Rightarrow> JNull | Some n \<Rightarrow> JInt n),
          (''reported_delta'', case oc_reported_delta c of None \<Rightarrow> JNull | Some d \<Rightarrow> JStr (dec_str d))])"

definition package_observation_payload :: "package_observation \<Rightarrow> json" where
  "package_observation_payload p = JObj
     [(''package_id'', JStr (pk_package_id p)), (''legs'', JList (map JStr (pk_legs p))), (''net_bid'', JStr (dec_str (pk_net_bid p))),
      (''net_ask'', JStr (dec_str (pk_net_ask p))), (''size'', JInt (pk_size p)), (''observed_at'', JStr (isoformat_z (pk_observed_at p))),
      (''feed'', feed_payload (pk_feed p)), (''data_class'', JStr (pk_data_class p))]"

definition borrow_payload :: "borrow_locate_evidence option \<Rightarrow> json" where
  "borrow_payload b =
     (case b of None \<Rightarrow> JNull
      | Some e \<Rightarrow> JObj [(''symbol'', JStr (bw_symbol e)), (''located_quantity'', JInt (bw_located_quantity e)),
          (''source'', JStr (bw_source e)), (''observed_at'', JStr (isoformat_z (bw_observed_at e))),
          (''content_sha256'', JStr (bw_content_sha256 e))])"

definition market_snapshot_payload :: "expression_market_snapshot \<Rightarrow> json" where
  "market_snapshot_payload m = JObj
     [(''schema'', JStr ''esscher.expression_market_snapshot''), (''schema_version'', JInt 1),
      (''snapshot_id'', JStr (ms_snapshot_id m)), (''underlying'', JStr (ms_underlying m)),
      (''observation_clock_at'', JStr (isoformat_z (ms_observation_clock_at m))), (''decision_sha256'', JStr (ms_decision_sha256 m)),
      (''share'', share_observation_payload (ms_share m)), (''chain'', JList (map option_observation_payload (ms_chain m))),
      (''packages'', JList (map package_observation_payload (ms_packages m))), (''borrow_locate'', borrow_payload (ms_borrow_locate m))]"

definition market_snapshot_bytes :: "expression_market_snapshot \<Rightarrow> string" where
  "market_snapshot_bytes m = canonical_json_bytes (market_snapshot_payload m)"

definition market_snapshot_sha256 :: "hash_function \<Rightarrow> expression_market_snapshot \<Rightarrow> string" where
  "market_snapshot_sha256 H m = H (market_snapshot_bytes m)"

end
