(* ===== verification/Expression_Validation.thy ===== *)
theory Expression_Validation
  imports Expression_Market
begin

text \<open>
  \<open>execution/expression/policy.py\<close>, the frozen promoted policy with its canonical bytes, and
  \<open>execution/expression/validation.py\<close>, the checks the compiler and the tournament share.
  A \<open>timedelta\<close> is a number of microseconds.
\<close>

section \<open>The promoted policy\<close>

definition AFTER_COST_OBJECTIVE :: string where "AFTER_COST_OBJECTIVE = ''AFTER_COST_EXPECTED_EDGE_VS_CASH''"

record promoted_expression_policy =
  xp_policy_id :: string
  xp_version :: string
  xp_gate_d_report_sha256 :: string
  xp_expression_kind :: expression_kind
  xp_objective :: string
  xp_evidence_threshold :: dec
  xp_evidence_min_events :: int
  xp_operational_loss_budget :: dec
  xp_quote_max_age_ms :: int
  xp_cross_leg_skew_max_ms :: int
  xp_spread_max_bps :: dec
  xp_min_quote_size :: int
  xp_min_dte :: int
  xp_max_dte :: int
  xp_delta_min :: dec
  xp_delta_max :: dec
  xp_width_min :: dec
  xp_width_max :: dec
  xp_liquidity_min_open_interest :: int
  xp_allows_indicative_data :: bool

text \<open>An ordering comparison with a NaN raises; the bounds are taken to be numbers.\<close>

definition promoted_policy_checks :: "promoted_expression_policy \<Rightarrow> value_error option" where
  "promoted_policy_checks p = first_reject
     [(xp_policy_id p = [] \<or> xp_version p = [], ''policy_id and version must be non-empty text''),
      (length (xp_gate_d_report_sha256 p) \<noteq> 64, ''gate_d_report_sha256 must be a SHA-256 digest''),
      (xp_objective p \<noteq> AFTER_COST_OBJECTIVE, ''objective must be the frozen after-cost objective''),
      (\<not> non_negative_money (xp_evidence_threshold p), ''evidence_threshold must be a non-negative finite decimal''),
      (\<not> non_negative_money (xp_spread_max_bps p), ''spread_max_bps must be a non-negative finite decimal''),
      (\<not> positive_money (xp_operational_loss_budget p), ''operational_loss_budget must be positive''),
      (xp_evidence_min_events p < 0, ''evidence_min_events must be a non-negative integer''),
      (xp_quote_max_age_ms p < 0, ''quote_max_age_ms must be a non-negative integer''),
      (xp_cross_leg_skew_max_ms p < 0, ''cross_leg_skew_max_ms must be a non-negative integer''),
      (xp_min_quote_size p < 0, ''min_quote_size must be a non-negative integer''),
      (xp_min_dte p < 0, ''min_dte must be a non-negative integer''),
      (xp_max_dte p < 0, ''max_dte must be a non-negative integer''),
      (xp_liquidity_min_open_interest p < 0, ''liquidity_min_open_interest must be a non-negative integer''),
      (xp_max_dte p < xp_min_dte p, ''min_dte cannot exceed max_dte''),
      (xp_delta_min p = NaN \<or> xp_delta_max p = NaN \<or> dec_lt (xp_delta_max p) (xp_delta_min p), ''delta_min cannot exceed delta_max''),
      (xp_width_min p = NaN \<or> xp_width_max p = NaN \<or> dec_lt (xp_width_max p) (xp_width_min p), ''width_min cannot exceed width_max'')]"

definition promoted_policy_payload :: "promoted_expression_policy \<Rightarrow> json" where
  "promoted_policy_payload p =
     JObj ([(''schema'', JStr ''esscher.promoted_expression_policy''), (''schema_version'', JInt 1),
            (''policy_id'', JStr (xp_policy_id p)), (''version'', JStr (xp_version p)),
            (''gate_d_report_sha256'', JStr (xp_gate_d_report_sha256 p)),
            (''expression_kind'', JStr (expression_kind_value (xp_expression_kind p))), (''objective'', JStr (xp_objective p)),
            (''evidence_threshold'', JStr (dec_str (xp_evidence_threshold p))), (''evidence_min_events'', JInt (xp_evidence_min_events p)),
            (''operational_loss_budget'', JStr (dec_str (xp_operational_loss_budget p))),
            (''quote_max_age_ms'', JInt (xp_quote_max_age_ms p)), (''cross_leg_skew_max_ms'', JInt (xp_cross_leg_skew_max_ms p)),
            (''spread_max_bps'', JStr (dec_str (xp_spread_max_bps p))), (''min_quote_size'', JInt (xp_min_quote_size p)),
            (''min_dte'', JInt (xp_min_dte p)), (''max_dte'', JInt (xp_max_dte p)), (''delta_min'', JStr (dec_str (xp_delta_min p))),
            (''delta_max'', JStr (dec_str (xp_delta_max p))), (''width_min'', JStr (dec_str (xp_width_min p))),
            (''width_max'', JStr (dec_str (xp_width_max p))), (''liquidity_min_open_interest'', JInt (xp_liquidity_min_open_interest p))]
       @ (if xp_allows_indicative_data p then [(''allows_indicative_data'', JBool True)] else []))"

definition promoted_policy_bytes :: "promoted_expression_policy \<Rightarrow> string" where
  "promoted_policy_bytes p = canonical_json_bytes (promoted_policy_payload p)"

definition promoted_policy_sha256 :: "hash_function \<Rightarrow> promoted_expression_policy \<Rightarrow> string" where
  "promoted_policy_sha256 H p = H (promoted_policy_bytes p)"

section \<open>Shared validation\<close>

definition PINNED_FEEDS :: "string list list" where
  "PINNED_FEEDS =
     [[''SYNTHETIC_SIP_EQUITY_FEED'', ''read_only_equity_quote'', ''equity_quote.v1'', ''1''],
      [''SYNTHETIC_OPTION_SNAPSHOT_FEED'', ''read_only_option_chain'', ''option_chain_snapshot.v1'', ''1''],
      [''SYNTHETIC_PACKAGE_FEED'', ''read_only_package_quote'', ''package_quote.v1'', ''1''],
      [''ALPACA_IEX_EQUITY_QUOTES'', ''read_only_equity_quote'', ''equity_quote.v1'', ''1''],
      [''ALPACA_INDICATIVE_OPTION_SNAPSHOTS'', ''read_only_option_chain'', ''option_chain_snapshot.v1'', ''1''],
      [''ALPACA_OPRA_OPTION_SNAPSHOTS'', ''read_only_option_chain'', ''option_chain_snapshot.v1'', ''1''],
      [''HOST_DERIVED_VERTICAL_PACKAGES'', ''derived_package_quote'', ''package_quote.v1'', ''1'']]"

type_synonym expression_guards = "(bool \<times> expression_rejected) list"

definition validate_feed :: "feed_identity \<Rightarrow> string \<Rightarrow> expression_guards" where
  "validate_feed f path = [(identity_key f \<notin> set PINNED_FEEDS, xreject UNKNOWN_FEED path)]"

definition admitted :: "string \<Rightarrow> bool \<Rightarrow> bool" where
  "admitted d allows_indicative = (d = EXECUTABLE_DATA \<or> allows_indicative \<and> d = INDICATIVE_DATA)"

definition validate_executable_data :: "string \<Rightarrow> string \<Rightarrow> bool \<Rightarrow> expression_guards" where
  "validate_executable_data d path allows_indicative = [(\<not> admitted d allows_indicative, xreject INDICATIVE_ONLY path)]"

definition observation_age :: "expression_market_snapshot \<Rightarrow> datetime \<Rightarrow> int" where
  "observation_age m t = instant (ms_observation_clock_at m) - instant t"

definition milliseconds :: "int \<Rightarrow> int" where "milliseconds n = n * 1000"

definition validate_observation_age :: "expression_market_snapshot \<Rightarrow> promoted_expression_policy \<Rightarrow> datetime \<Rightarrow> string \<Rightarrow> expression_guards" where
  "validate_observation_age m pol t path =
     [(observation_age m t < 0, xreject TIME_INCONSISTENT path),
      (milliseconds (xp_quote_max_age_ms pol) < observation_age m t, xreject XR_STALE_QUOTE path)]"

text \<open>
  \<open>(ask - bid) / ask * Decimal(10000)\<close>, computed only where the ask is known to be positive.
\<close>

definition quote_spread_bps :: "dec \<Rightarrow> dec \<Rightarrow> dec" where
  "quote_spread_bps bid ask = (case dec_div (dec_sub ask bid) ask of None \<Rightarrow> NaN | Some q \<Rightarrow> dec_mul q (Fin 10000 0))"

definition validate_quote ::
    "two_sided_quote \<Rightarrow> expression_market_snapshot \<Rightarrow> promoted_expression_policy \<Rightarrow> string \<Rightarrow> expression_guards" where
  "validate_quote q m pol path =
     validate_observation_age m pol (tq_observed_at q) path
     @ [(dec_le (tq_bid q) dec_zero \<or> dec_le (tq_ask q) dec_zero, xreject NO_QUOTE path),
        (crossed q, xreject CROSSED_QUOTE path),
        (tq_bid_size q < xp_min_quote_size pol \<or> tq_ask_size q < xp_min_quote_size pol, xreject INSUFFICIENT_SIZE path),
        (dec_lt (xp_spread_max_bps pol) (quote_spread_bps (tq_bid q) (tq_ask q)), xreject SPREAD_TOO_WIDE path)]"

definition validate_cross_leg_skew :: "two_sided_quote list \<Rightarrow> promoted_expression_policy \<Rightarrow> expression_guards" where
  "validate_cross_leg_skew quotes pol =
     (if length quotes < 2 then []
      else let times = sort (map (\<lambda>q. instant (tq_observed_at q)) quotes)
           in [(milliseconds (xp_cross_leg_skew_max_ms pol) < last times - hd times, xreject ASYNCHRONOUS_QUOTES ''snapshot.skew'')])"

definition validate_package ::
    "package_observation \<Rightarrow> expression_market_snapshot \<Rightarrow> promoted_expression_policy \<Rightarrow> string \<Rightarrow> expression_guards" where
  "validate_package p m pol path =
     validate_feed (pk_feed p) (path @ ''.feed'')
     @ validate_executable_data (pk_data_class p) (path @ ''.data_class'') (xp_allows_indicative_data pol)
     @ validate_observation_age m pol (pk_observed_at p) path
     @ [(dec_le (pk_net_bid p) dec_zero \<or> dec_le (pk_net_ask p) dec_zero, xreject PACKAGE_UNAVAILABLE path),
        (package_crossed p, xreject CROSSED_QUOTE path),
        (pk_size p < xp_min_quote_size pol, xreject INSUFFICIENT_SIZE path),
        (dec_lt (xp_spread_max_bps pol) (quote_spread_bps (pk_net_bid p) (pk_net_ask p)), xreject SPREAD_TOO_WIDE path)]"

definition validate_borrow_locate ::
    "borrow_locate_evidence option \<Rightarrow> expression_market_snapshot \<Rightarrow> promoted_expression_policy \<Rightarrow> expression_guards" where
  "validate_borrow_locate b m pol =
     (case b of None \<Rightarrow> [(True, xreject BORROW_LOCATE_MISSING ''borrow_locate'')]
      | Some e \<Rightarrow> validate_observation_age m pol (bw_observed_at e) ''borrow_locate'')"

end
