(* ===== verification/Expression_Selection.thy ===== *)
theory Expression_Selection
  imports Expression_Validation Decimal_Rounding
begin

text \<open>
  \<open>execution/expression/geometry.py\<close> and \<open>execution/expression/economics.py\<close>: eligibility of
  contracts, the deterministic choice of legs and package, and the quote-side economics of
  the four expressions. \<open>sorted\<close> with a tuple key is \<open>sort_key\<close>; decimals compare by value.
\<close>

section \<open>Eligibility\<close>

definition days_from_civil :: "date \<Rightarrow> int" where
  "days_from_civil dt =
     (case dt of (y0, m, d) \<Rightarrow>
        let y = (if m \<le> 2 then y0 - 1 else y0); era = y div 400; yoe = y mod 400;
            doy = (153 * (if m > 2 then m - 3 else m + 9) + 2) div 5 + d - 1;
            doe = yoe * 365 + yoe div 4 - yoe div 100 + doy
        in era * 146097 + doe - 719468)"

text \<open>\<open>date()\<close> of a UTC datetime.\<close>

definition utc_date :: "datetime \<Rightarrow> date" where
  "utc_date t = civil_from_days (instant t div 86400000000)"

definition contract_dte :: "option_contract_observation \<Rightarrow> date \<Rightarrow> int" where
  "contract_dte c asof = days_from_civil (oc_expiry c) - days_from_civil asof"

definition quote_is_tradable :: "option_contract_observation \<Rightarrow> bool \<Rightarrow> bool" where
  "quote_is_tradable c allows_indicative =
     (admitted (oc_data_class c) allows_indicative \<and> dec_lt dec_zero (tq_bid (oc_quote c)) \<and> dec_lt dec_zero (tq_ask (oc_quote c))
      \<and> \<not> crossed (oc_quote c))"

definition contract_is_eligible :: "option_contract_observation \<Rightarrow> promoted_expression_policy \<Rightarrow> option_type \<Rightarrow> date \<Rightarrow> bool" where
  "contract_is_eligible c pol typ asof =
     (if oc_option_type c \<noteq> option_type_value typ then False
      else if \<not> quote_is_tradable c (xp_allows_indicative_data pol) then False
      else if contract_dte c asof < xp_min_dte pol \<or> xp_max_dte pol < contract_dte c asof then False
      else case oc_reported_delta c of
        None \<Rightarrow> False
      | Some delta \<Rightarrow>
          if dec_lt (dec_abs delta) (xp_delta_min pol) \<or> dec_lt (xp_delta_max pol) (dec_abs delta) then False
          else (case oc_open_interest c of None \<Rightarrow> False | Some n \<Rightarrow> xp_liquidity_min_open_interest pol \<le> n))"

definition eligible_long_contracts ::
    "expression_market_snapshot \<Rightarrow> promoted_expression_policy \<Rightarrow> option_type \<Rightarrow> date \<Rightarrow> option_contract_observation list" where
  "eligible_long_contracts m pol typ asof = filter (\<lambda>c. contract_is_eligible c pol typ asof) (ms_chain m)"

section \<open>Choosing the legs and the package\<close>

type_synonym leg_key = "rat \<times> rat \<times> string"

definition long_key :: "bool \<Rightarrow> option_contract_observation \<Rightarrow> leg_key" where
  "long_key direction_is_up c =
     (dval (if direction_is_up then oc_strike c else dec_minus (oc_strike c)), dval (tq_ask (oc_quote c)), oc_symbol c)"

definition select_long_contract ::
    "expression_market_snapshot \<Rightarrow> promoted_expression_policy \<Rightarrow> option_type \<Rightarrow> date \<Rightarrow> bool
     \<Rightarrow> expression_rejected + option_contract_observation" where
  "select_long_contract m pol typ asof direction_is_up =
     (let eligible = eligible_long_contracts m pol typ asof
      in if eligible = [] then Inl (xreject UNSUPPORTED_CONTRACT (''chain.'' @ ms_underlying m))
         else Inr (hd (sort_key (long_key direction_is_up) eligible)))"

record vertical_geometry =
  vg_long_leg :: option_contract_observation
  vg_short_leg :: option_contract_observation
  vg_width :: dec

definition vertical_geometry_checks :: "vertical_geometry \<Rightarrow> value_error option" where
  "vertical_geometry_checks g = first_reject
     [(oc_expiry (vg_long_leg g) \<noteq> oc_expiry (vg_short_leg g), ''vertical legs must share one expiry''),
      (oc_option_type (vg_long_leg g) \<noteq> oc_option_type (vg_short_leg g), ''vertical legs must share one option type''),
      (\<not> is_finite (vg_width g) \<or> dec_le (vg_width g) dec_zero, ''vertical width must be positive'')]"

datatype compile_error = ExpressionRejection expression_rejected | CompileValueError value_error

definition short_candidate ::
    "promoted_expression_policy \<Rightarrow> option_type \<Rightarrow> date \<Rightarrow> bool \<Rightarrow> option_contract_observation \<Rightarrow> option_contract_observation \<Rightarrow> bool" where
  "short_candidate pol typ asof direction_is_up long c =
     (oc_expiry c = oc_expiry long \<and> oc_symbol c \<noteq> oc_symbol long \<and> contract_is_eligible c pol typ asof
      \<and> (direction_is_up \<and> dec_lt (oc_strike long) (oc_strike c) \<or> \<not> direction_is_up \<and> dec_lt (oc_strike c) (oc_strike long)))"

definition leg_distance :: "option_contract_observation \<Rightarrow> option_contract_observation \<Rightarrow> dec" where
  "leg_distance long c = dec_abs (dec_sub (oc_strike c) (oc_strike long))"

definition short_key :: "option_contract_observation \<Rightarrow> option_contract_observation \<Rightarrow> leg_key" where
  "short_key long c = (dval (leg_distance long c), dval (tq_ask (oc_quote c)), oc_symbol c)"

definition direction_type :: "bool \<Rightarrow> option_type" where
  "direction_type direction_is_up = (if direction_is_up then CALL else PUT)"

definition select_vertical_geometry ::
    "expression_market_snapshot \<Rightarrow> promoted_expression_policy \<Rightarrow> bool \<Rightarrow> date \<Rightarrow> compile_error + vertical_geometry" where
  "select_vertical_geometry m pol direction_is_up asof =
     (let typ = direction_type direction_is_up; path = ''vertical.'' @ ms_underlying m
      in rbind (map_sum ExpressionRejection id (select_long_contract m pol typ asof direction_is_up)) (\<lambda>long.
         let candidates = filter (short_candidate pol typ asof direction_is_up long) (ms_chain m)
         in if candidates = [] then Inl (ExpressionRejection (xreject GEOMETRY_INVALID path))
            else let short = hd (sort_key (short_key long) candidates); width = leg_distance long short
                 in if dec_lt width (xp_width_min pol) \<or> dec_lt (xp_width_max pol) width
                    then Inl (ExpressionRejection (xreject WIDTH_OUT_OF_BOUNDS path))
                    else let g = \<lparr>vg_long_leg = long, vg_short_leg = short, vg_width = width\<rparr>
                         in case vertical_geometry_checks g of Some e \<Rightarrow> Inl (CompileValueError e) | None \<Rightarrow> Inr g))"

definition package_key :: "vertical_geometry \<Rightarrow> string" where
  "package_key g = oc_symbol (vg_long_leg g) @ ''+'' @ oc_symbol (vg_short_leg g)"

definition select_package :: "expression_market_snapshot \<Rightarrow> vertical_geometry \<Rightarrow> expression_rejected + package_observation" where
  "select_package m g =
     (case snapshot_package m (package_key g) of
        None \<Rightarrow> Inl (xreject PACKAGE_UNAVAILABLE (''package.'' @ package_key g))
      | Some p \<Rightarrow>
          if pk_legs p \<noteq> [oc_symbol (vg_long_leg g), oc_symbol (vg_short_leg g)]
          then Inl (xreject PACKAGE_UNAVAILABLE (''package.'' @ package_key g))
          else Inr p)"

text \<open>\<open>OptionType(text)\<close>.\<close>

definition option_type_of :: "string \<Rightarrow> option_type option" where
  "option_type_of s = (if s = ''CALL'' then Some CALL else if s = ''PUT'' then Some PUT else None)"

definition build_option_leg :: "option_contract_observation \<Rightarrow> option_side \<Rightarrow> position_intent \<Rightarrow> expression_rejected + option_leg" where
  "build_option_leg c side intent =
     (let bad = xreject UNSUPPORTED_CONTRACT (''leg.'' @ oc_symbol c)
      in case option_type_of (oc_option_type c) of
           None \<Rightarrow> Inl bad
         | Some typ \<Rightarrow>
             let l = \<lparr>leg_symbol = oc_symbol c, leg_underlying = oc_underlying c, leg_expiry = oc_expiry c, leg_type = typ,
                      leg_strike = oc_strike c, leg_side = side, leg_intent = intent, leg_ratio = 1\<rparr>
             in case option_leg_checks l of Some _ \<Rightarrow> Inl bad | None \<Rightarrow> Inr l)"

section \<open>Economics\<close>

definition CONTRACT_MULTIPLIER :: dec where "CONTRACT_MULTIPLIER = Fin 100 0"

record expression_economics =
  ee_event_id :: string
  ee_expression_kind :: expression_kind
  ee_outcome :: string
  ee_reason :: "expression_reason option"
  ee_entry_cost :: "dec option"
  ee_max_loss :: "dec option"
  ee_entry_spread_cost :: "dec option"

definition compared :: "expression_economics \<Rightarrow> bool" where
  "compared e = (ee_outcome e = ''COMPARED'')"

definition rejected_economics :: "string \<Rightarrow> expression_kind \<Rightarrow> expression_reason \<Rightarrow> expression_economics" where
  "rejected_economics event kind why =
     \<lparr>ee_event_id = event, ee_expression_kind = kind, ee_outcome = ''REJECTED'', ee_reason = Some why,
      ee_entry_cost = None, ee_max_loss = None, ee_entry_spread_cost = None\<rparr>"

definition compared_economics :: "string \<Rightarrow> expression_kind \<Rightarrow> dec \<Rightarrow> dec \<Rightarrow> dec \<Rightarrow> expression_economics" where
  "compared_economics event kind entry_cost max_loss spread_cost =
     \<lparr>ee_event_id = event, ee_expression_kind = kind, ee_outcome = ''COMPARED'', ee_reason = None,
      ee_entry_cost = Some entry_cost, ee_max_loss = Some max_loss, ee_entry_spread_cost = Some spread_cost\<rparr>"

definition check_quote_quality :: "two_sided_quote \<Rightarrow> promoted_expression_policy \<Rightarrow> expression_reason option" where
  "check_quote_quality q pol = first_reject
     [(dec_le (tq_bid q) dec_zero \<or> dec_le (tq_ask q) dec_zero, NO_QUOTE),
      (dec_lt (tq_ask q) (tq_bid q), CROSSED_QUOTE),
      (tq_bid_size q < xp_min_quote_size pol \<or> tq_ask_size q < xp_min_quote_size pol, INSUFFICIENT_SIZE),
      (dec_lt (xp_spread_max_bps pol) (quote_spread_bps (tq_bid q) (tq_ask q)), SPREAD_TOO_WIDE)]"

definition cash_economics :: "string \<Rightarrow> expression_economics" where
  "cash_economics event = compared_economics event CASH_NO_TRADE dec_zero dec_zero dec_zero"

definition shares_economics ::
    "string \<Rightarrow> expression_market_snapshot \<Rightarrow> promoted_expression_policy \<Rightarrow> bool \<Rightarrow> expression_economics" where
  "shares_economics event m pol direction_is_up =
     (let share = ms_share m; q = so_quote share
      in if \<not> admitted (so_data_class share) (xp_allows_indicative_data pol) then rejected_economics event SHARES INDICATIVE_ONLY
         else case check_quote_quality q pol of
           Some why \<Rightarrow> rejected_economics event SHARES why
         | None \<Rightarrow>
             if \<not> direction_is_up \<and> ms_borrow_locate m = None then rejected_economics event SHARES BORROW_LOCATE_MISSING
             else let price = (if direction_is_up then tq_ask q else tq_bid q)
                  in if dec_lt (xp_operational_loss_budget pol) price then rejected_economics event SHARES EXPOSURE_BUDGET_EXCEEDED
                     else compared_economics event SHARES price price (spread q))"

definition option_economics :: "string \<Rightarrow> option_contract_observation \<Rightarrow> promoted_expression_policy \<Rightarrow> expression_economics" where
  "option_economics event c pol =
     (if \<not> admitted (oc_data_class c) (xp_allows_indicative_data pol) then rejected_economics event ONE_LONG_OPTION INDICATIVE_ONLY
      else case check_quote_quality (oc_quote c) pol of
        Some why \<Rightarrow> rejected_economics event ONE_LONG_OPTION why
      | None \<Rightarrow>
          let premium = dec_mul (tq_ask (oc_quote c)) CONTRACT_MULTIPLIER
          in if dec_lt (xp_operational_loss_budget pol) premium then rejected_economics event ONE_LONG_OPTION EXPOSURE_BUDGET_EXCEEDED
             else compared_economics event ONE_LONG_OPTION premium premium (dec_mul (spread (oc_quote c)) CONTRACT_MULTIPLIER))"

definition debit_vertical_economics ::
    "string \<Rightarrow> package_observation \<Rightarrow> dec \<Rightarrow> promoted_expression_policy \<Rightarrow> expression_economics" where
  "debit_vertical_economics event p width pol =
     (let debit = dec_mul (pk_net_ask p) CONTRACT_MULTIPLIER; span = dec_mul width CONTRACT_MULTIPLIER; max_loss = dec_min debit span
      in case first_reject
           [(\<not> admitted (pk_data_class p) (xp_allows_indicative_data pol), INDICATIVE_ONLY),
            (dec_le (pk_net_bid p) dec_zero \<or> dec_le (pk_net_ask p) dec_zero, PACKAGE_UNAVAILABLE),
            (dec_lt (pk_net_ask p) (pk_net_bid p), CROSSED_QUOTE),
            (pk_size p < xp_min_quote_size pol, INSUFFICIENT_SIZE),
            (dec_lt (xp_spread_max_bps pol) (quote_spread_bps (pk_net_bid p) (pk_net_ask p)), SPREAD_TOO_WIDE),
            (dec_le span debit, DEBIT_NOT_BELOW_WIDTH),
            (dec_lt (xp_operational_loss_budget pol) max_loss, EXPOSURE_BUDGET_EXCEEDED)] of
           Some why \<Rightarrow> rejected_economics event DEBIT_VERTICAL why
         | None \<Rightarrow> compared_economics event DEBIT_VERTICAL debit max_loss (dec_mul (dec_sub (pk_net_ask p) (pk_net_bid p)) CONTRACT_MULTIPLIER))"

text \<open>
  \<open>sum(drags)\<close> starts from the integer 0. A division by zero cannot occur: drags are taken
  only of positive costs, and the counts are those of non-empty lists.
\<close>

definition quotient :: "dec \<Rightarrow> dec \<Rightarrow> dec" where
  "quotient x y = (case dec_div x y of None \<Rightarrow> NaN | Some q \<Rightarrow> q)"

definition entry_drags :: "expression_economics list \<Rightarrow> dec list" where
  "entry_drags rows =
     concat (map (\<lambda>e. case (ee_entry_spread_cost e, ee_entry_cost e) of
       (Some s, Some c) \<Rightarrow> if dec_lt dec_zero c then [quotient s c] else [] | _ \<Rightarrow> []) rows)"

definition after_cost_edge_basis_points :: "expression_economics list \<Rightarrow> int \<Rightarrow> dec option" where
  "after_cost_edge_basis_points economics direction_hits =
     (let rows = filter compared economics
      in if rows = [] then None
         else let drags = entry_drags rows;
                  mean_drag = (if drags = [] then dec_zero else quotient (dec_sum drags) (dec_of_int (int (length drags))));
                  hit_rate = quotient (dec_of_int direction_hits) (dec_of_int (int (length rows)))
              in Some (dec_sub (dec_mul (dec_sub hit_rate (Fin 5 (-1))) (Fin 10000 0)) (dec_mul mean_drag (Fin 10000 0))))"

end
