(* ===== verification/Strategy_Decision.thy ===== *)
theory Strategy_Decision
  imports Universe Expression_Market
begin

text \<open>
  The validated direction-only decision: the class \<open>StrategyDecision\<close> of
  \<open>strategy/models.py\<close> with the values it holds and their checks, and its canonical bytes and
  digest of \<open>strategy/contracts.py\<close>. Text is ASCII, where the normal form NFC changes nothing.
\<close>

section \<open>Text rules\<close>

definition control_char :: "char \<Rightarrow> bool" where
  "control_char c = (let n = of_char c :: nat in n < 32 \<or> 127 \<le> n \<and> n < 160)"

definition normalized_text :: "nat \<Rightarrow> string \<Rightarrow> bool" where
  "normalized_text maximum s = (s \<noteq> [] \<and> s = strip s \<and> length s \<le> maximum \<and> \<not> list_ex control_char s)"

definition reason_code_text :: "string \<Rightarrow> bool" where
  "reason_code_text s = (case s of [] \<Rightarrow> False
     | c # r \<Rightarrow> is_upper_letter c \<and> list_all (\<lambda>d. is_upper_letter d \<or> is_digit d \<or> d = CHR ''_'') r \<and> length r \<le> 127)"

definition reason_codes_ok :: "string list \<Rightarrow> bool" where
  "reason_codes_ok xs = (sorted_unique xs \<and> list_all reason_code_text xs)"

definition identifiers_ok :: "string list \<Rightarrow> bool" where
  "identifiers_ok xs = (sorted_unique xs \<and> list_all identifier_text xs)"

section \<open>Decisions\<close>

datatype decision_direction = UP | DOWN | UNCERTAIN
datatype decision_disposition = ACCEPTED | ABSTAINED | DECISION_REJECTED
datatype reaction_relation = RELATION_CONTINUE | RELATION_REVERSE | RELATION_NONE | RELATION_NOT_APPLICABLE

fun direction_value :: "decision_direction \<Rightarrow> string" where
  "direction_value UP = ''UP''"
| "direction_value DOWN = ''DOWN''"
| "direction_value UNCERTAIN = ''UNCERTAIN''"

fun disposition_value :: "decision_disposition \<Rightarrow> string" where
  "disposition_value ACCEPTED = ''ACCEPTED''"
| "disposition_value ABSTAINED = ''ABSTAINED''"
| "disposition_value DECISION_REJECTED = ''REJECTED''"

fun relation_value :: "reaction_relation \<Rightarrow> string" where
  "relation_value RELATION_CONTINUE = ''CONTINUE''"
| "relation_value RELATION_REVERSE = ''REVERSE''"
| "relation_value RELATION_NONE = ''NONE''"
| "relation_value RELATION_NOT_APPLICABLE = ''NOT_APPLICABLE''"

record contradiction =
  cn_evidence_ids :: "string list"
  cn_summary :: string

definition contradiction_checks :: "contradiction \<Rightarrow> value_error option" where
  "contradiction_checks c = first_reject
     [(length (cn_evidence_ids c) \<noteq> 2 \<or> \<not> hd (cn_evidence_ids c) < last (cn_evidence_ids c),
        ''contradiction evidence IDs must be two distinct sorted IDs''),
      (\<not> list_all identifier_text (cn_evidence_ids c), ''contradiction evidence_id must be a normalized identifier''),
      (\<not> normalized_text 400 (cn_summary c), ''contradiction summary must be bounded, normalized, non-empty text'')]"

record falsifier =
  fa_evidence_id :: string
  fa_summary :: string

definition falsifier_checks :: "falsifier \<Rightarrow> value_error option" where
  "falsifier_checks f = first_reject
     [(\<not> identifier_text (fa_evidence_id f), ''falsifier evidence_id must be a normalized identifier''),
      (\<not> normalized_text 400 (fa_summary f), ''falsifier summary must be bounded, normalized, non-empty text'')]"

record strategy_decision =
  sd_event_id :: string
  sd_security_id :: string
  sd_candidate_id :: string
  sd_cohort_id :: string
  sd_policy_sha256 :: string
  sd_candidate_manifest_sha256 :: string
  sd_strategy_snapshot_sha256 :: string
  sd_feature_receipt_sha256 :: string
  sd_reasoner_exchange_sha256 :: string
  sd_reasoner_decision_sha256 :: "string option"
  sd_producer_build_sha256 :: string
  sd_decision_at :: datetime
  sd_reasoner_direction :: "decision_direction option"
  sd_direction :: decision_direction
  sd_disposition :: decision_disposition
  sd_reaction_relation :: reaction_relation
  sd_evidence_ids :: "string list"
  sd_contradictions :: "contradiction list"
  sd_unknowns :: "string list"
  sd_strongest_falsifier :: "falsifier option"
  sd_reason_codes :: "string list"
  sd_summary :: "string option"

definition accepted_terms :: "strategy_decision \<Rightarrow> bool" where
  "accepted_terms d = (sd_direction d \<noteq> UNCERTAIN \<and> sd_reasoner_direction d = Some (sd_direction d)
     \<and> sd_reaction_relation d = RELATION_CONTINUE \<and> sd_reason_codes d = [])"

definition strategy_decision_checks :: "strategy_decision \<Rightarrow> value_error option" where
  "strategy_decision_checks d = first_reject
     [(\<not> identifier_text (sd_event_id d), ''event_id must be a normalized identifier''),
      (\<not> identifier_text (sd_security_id d), ''security_id must be a normalized identifier''),
      (\<not> identifier_text (sd_candidate_id d), ''candidate_id must be a normalized identifier''),
      (\<not> identifier_text (sd_cohort_id d), ''cohort_id must be a normalized identifier''),
      (\<not> is_sha256 (sd_policy_sha256 d), ''policy_sha256 must be a lowercase SHA-256''),
      (\<not> is_sha256 (sd_candidate_manifest_sha256 d), ''candidate_manifest_sha256 must be a lowercase SHA-256''),
      (\<not> is_sha256 (sd_strategy_snapshot_sha256 d), ''strategy_snapshot_sha256 must be a lowercase SHA-256''),
      (\<not> is_sha256 (sd_feature_receipt_sha256 d), ''feature_receipt_sha256 must be a lowercase SHA-256''),
      (\<not> is_sha256 (sd_reasoner_exchange_sha256 d), ''reasoner_exchange_sha256 must be a lowercase SHA-256''),
      (\<not> is_sha256 (sd_producer_build_sha256 d), ''producer_build_sha256 must be a lowercase SHA-256''),
      (case sd_reasoner_decision_sha256 d of None \<Rightarrow> False | Some s \<Rightarrow> \<not> is_sha256 s, ''reasoner_decision_sha256 must be a lowercase SHA-256''),
      (\<not> aware (sd_decision_at d), ''decision_at must be timezone-aware''),
      (\<not> equals_utc (sd_decision_at d), ''decision_at must be UTC''),
      (\<not> identifiers_ok (sd_evidence_ids d), ''decision evidence_ids''),
      (\<not> reason_codes_ok (sd_unknowns d), ''decision unknowns''),
      (\<not> reason_codes_ok (sd_reason_codes d), ''decision reason_codes''),
      (\<not> sorted_wrt (<) (map cn_evidence_ids (sd_contradictions d)), ''decision contradictions must be sorted and unique''),
      (case sd_summary d of None \<Rightarrow> False | Some s \<Rightarrow> \<not> normalized_text 800 s, ''decision summary must be bounded, normalized, non-empty text''),
      (sd_disposition d = ACCEPTED \<and> \<not> accepted_terms d, ''accepted decisions require a confirmed unchanged direction''),
      (sd_disposition d \<noteq> ACCEPTED \<and> (sd_direction d \<noteq> UNCERTAIN \<or> sd_reason_codes d = []),
        ''abstained/rejected decisions require UNCERTAIN and reason codes''),
      (sd_disposition d = ABSTAINED
         \<and> (sd_reasoner_direction d \<noteq> Some UNCERTAIN \<or> sd_reaction_relation d \<noteq> RELATION_NOT_APPLICABLE),
        ''abstention must originate from reasoner UNCERTAIN'')]"

definition strategy_decision_ok :: "strategy_decision \<Rightarrow> bool" where
  "strategy_decision_ok d =
     (strategy_decision_checks d = None \<and> list_all (\<lambda>c. contradiction_checks c = None) (sd_contradictions d)
      \<and> (case sd_strongest_falsifier d of None \<Rightarrow> True | Some f \<Rightarrow> falsifier_checks f = None))"

section \<open>Canonical bytes\<close>

definition contradiction_payload :: "contradiction \<Rightarrow> json" where
  "contradiction_payload c = JObj [(''evidence_ids'', JList (map JStr (cn_evidence_ids c))), (''summary'', JStr (cn_summary c))]"

definition falsifier_payload :: "falsifier option \<Rightarrow> json" where
  "falsifier_payload f =
     (case f of None \<Rightarrow> JNull | Some x \<Rightarrow> JObj [(''evidence_id'', JStr (fa_evidence_id x)), (''summary'', JStr (fa_summary x))])"

definition optional_text :: "string option \<Rightarrow> json" where
  "optional_text s = (case s of None \<Rightarrow> JNull | Some t \<Rightarrow> JStr t)"

definition strategy_decision_payload :: "strategy_decision \<Rightarrow> json" where
  "strategy_decision_payload d = JObj
     [(''authority'', JStr ''DIRECTION_ONLY''), (''candidate_id'', JStr (sd_candidate_id d)),
      (''candidate_manifest_sha256'', JStr (sd_candidate_manifest_sha256 d)), (''cohort_id'', JStr (sd_cohort_id d)),
      (''contradictions'', JList (map contradiction_payload (sd_contradictions d))),
      (''decision_at'', JStr (timestamp_text (sd_decision_at d))), (''direction'', JStr (direction_value (sd_direction d))),
      (''disposition'', JStr (disposition_value (sd_disposition d))), (''event_id'', JStr (sd_event_id d)),
      (''evidence_ids'', JList (map JStr (sd_evidence_ids d))), (''feature_receipt_sha256'', JStr (sd_feature_receipt_sha256 d)),
      (''policy_sha256'', JStr (sd_policy_sha256 d)), (''producer_build_sha256'', JStr (sd_producer_build_sha256 d)),
      (''reaction_relation'', JStr (relation_value (sd_reaction_relation d))), (''reason_codes'', JList (map JStr (sd_reason_codes d))),
      (''reasoner_decision_sha256'', optional_text (sd_reasoner_decision_sha256 d)),
      (''reasoner_direction'', optional_text (map_option direction_value (sd_reasoner_direction d))),
      (''reasoner_exchange_sha256'', JStr (sd_reasoner_exchange_sha256 d)), (''schema'', JStr ''esscher.validated_decision''),
      (''schema_version'', JInt 1), (''security_id'', JStr (sd_security_id d)),
      (''strategy_snapshot_sha256'', JStr (sd_strategy_snapshot_sha256 d)),
      (''strongest_falsifier'', falsifier_payload (sd_strongest_falsifier d)), (''summary'', optional_text (sd_summary d)),
      (''unknowns'', JList (map JStr (sd_unknowns d)))]"

definition strategy_decision_bytes :: "strategy_decision \<Rightarrow> string" where
  "strategy_decision_bytes d = canonical_json_bytes (strategy_decision_payload d)"

definition strategy_decision_sha256 :: "hash_function \<Rightarrow> strategy_decision \<Rightarrow> string" where
  "strategy_decision_sha256 H d = H (strategy_decision_bytes d)"

end
