(* ===== verification/Expression_Compiler.thy ===== *)
theory Expression_Compiler
  imports Expression_Selection Strategy_Decision
begin

text \<open>
  \<open>execution/expression/compiler.py\<close>: one validated decision, one market snapshot and one
  promoted policy give one compiled expression or a stable rejection. The value class and its
  canonical bytes are those of \<open>Exposure\<close>; the decision is that of \<open>Strategy_Decision\<close>.
\<close>

record expression_bindings =
  xb_decision_sha256 :: string
  xb_snapshot_sha256 :: string
  xb_policy_sha256 :: string
  xb_gate_d_report_sha256 :: string

section \<open>The four expressions\<close>

definition bound_expression ::
    "expression_kind \<Rightarrow> string \<Rightarrow> expression_bindings \<Rightarrow> datetime \<Rightarrow> json option \<Rightarrow> json option \<Rightarrow> json option \<Rightarrow> compiled_expression" where
  "bound_expression kind event b now s l v =
     \<lparr>expression_kind = kind, ce_event_id = event, ce_decision_sha256 = xb_decision_sha256 b, ce_snapshot_sha256 = xb_snapshot_sha256 b,
      ce_policy_sha256 = xb_policy_sha256 b, ce_gate_d_report_sha256 = xb_gate_d_report_sha256 b, compiled_at = now,
      shares = s, long_option = l, debit_vertical = v\<rparr>"

text \<open>The constructor runs its checks.\<close>

definition construct :: "compiled_expression \<Rightarrow> compile_error + compiled_expression" where
  "construct c = (case compiled_expression_checks c of Some e \<Rightarrow> Inl (CompileValueError e) | None \<Rightarrow> Inr c)"

definition admit :: "expression_guards \<Rightarrow> compile_error + 'a \<Rightarrow> compile_error + 'a" where
  "admit gs r = guarded (map (apsnd ExpressionRejection) gs) r"

definition lift_rejection :: "expression_rejected + 'a \<Rightarrow> compile_error + 'a" where
  "lift_rejection = map_sum ExpressionRejection id"

definition require_compared :: "expression_economics \<Rightarrow> expression_reason \<Rightarrow> string \<Rightarrow> expression_guards" where
  "require_compared e otherwise path =
     [(\<not> compared e, xreject (case ee_reason e of None \<Rightarrow> otherwise | Some why \<Rightarrow> why) path)]"

definition compile_cash :: "string \<Rightarrow> expression_bindings \<Rightarrow> datetime \<Rightarrow> compile_error + compiled_expression" where
  "compile_cash event b now = construct (bound_expression CASH_NO_TRADE event b now None None None)"

definition shares_guards :: "bool \<Rightarrow> expression_market_snapshot \<Rightarrow> promoted_expression_policy \<Rightarrow> expression_guards" where
  "shares_guards direction_is_up m pol =
     (let share = ms_share m
      in validate_feed (so_feed share) ''share.feed''
         @ validate_executable_data (so_data_class share) ''share.data_class'' (xp_allows_indicative_data pol)
         @ validate_quote (so_quote share) m pol ''share.quote''
         @ (if direction_is_up then [] else validate_borrow_locate (ms_borrow_locate m) m pol))"

definition shares_block :: "bool \<Rightarrow> expression_market_snapshot \<Rightarrow> json" where
  "shares_block direction_is_up m =
     (let q = so_quote (ms_share m)
      in JObj [(''symbol'', JStr (so_symbol (ms_share m))), (''side'', JStr (if direction_is_up then ''BUY'' else ''SELL_SHORT'')),
               (''quantity'', JInt 1), (''order_type'', JStr ''LIMIT''), (''price_rule'', JStr (if direction_is_up then ''ASK'' else ''BID'')),
               (''exposure'', JStr (dec_str (if direction_is_up then tq_ask q else tq_bid q))),
               (''borrow_locate_sha256'',
                 if direction_is_up then JNull
                 else (case ms_borrow_locate m of None \<Rightarrow> JNull | Some e \<Rightarrow> JStr (bw_content_sha256 e)))])"

definition compile_shares ::
    "bool \<Rightarrow> expression_market_snapshot \<Rightarrow> promoted_expression_policy \<Rightarrow> string \<Rightarrow> expression_bindings \<Rightarrow> datetime
     \<Rightarrow> compile_error + compiled_expression" where
  "compile_shares direction_is_up m pol event b now =
     admit (shares_guards direction_is_up m pol)
    (admit (require_compared (shares_economics event m pol direction_is_up) NO_QUOTE ''shares'')
      (construct (bound_expression SHARES event b now (Some (shares_block direction_is_up m)) None None)))"

definition option_guards :: "option_contract_observation \<Rightarrow> string \<Rightarrow> expression_market_snapshot \<Rightarrow> promoted_expression_policy \<Rightarrow> expression_guards" where
  "option_guards c path m pol =
     validate_feed (oc_feed c) (path @ ''.feed'')
     @ validate_executable_data (oc_data_class c) (path @ ''.data_class'') (xp_allows_indicative_data pol)
     @ validate_quote (oc_quote c) m pol (path @ ''.quote'')"

definition long_option_block :: "option_leg \<Rightarrow> int \<Rightarrow> json \<Rightarrow> json" where
  "long_option_block l dte premium = JObj
     [(''symbol'', JStr (leg_symbol l)), (''underlying'', JStr (leg_underlying l)), (''expiry'', JStr (date_text (leg_expiry l))),
      (''option_type'', JStr (option_type_value (leg_type l))), (''strike'', JStr (dec_str (leg_strike l))), (''side'', JStr ''BUY''),
      (''position_intent'', JStr ''BUY_TO_OPEN''), (''quantity'', JInt 1), (''order_type'', JStr ''LIMIT''), (''dte'', JInt dte),
      (''premium_at_risk'', premium), (''limit_price_rule'', JStr ''ASK'')]"

text \<open>\<open>str(economics.max_loss)\<close>, a decimal whenever the economics are compared.\<close>

definition max_loss_text :: "expression_economics \<Rightarrow> json" where
  "max_loss_text e = JStr (case ee_max_loss e of None \<Rightarrow> ''None'' | Some d \<Rightarrow> dec_str d)"

definition compile_long_option ::
    "bool \<Rightarrow> expression_market_snapshot \<Rightarrow> promoted_expression_policy \<Rightarrow> string \<Rightarrow> expression_bindings \<Rightarrow> datetime
     \<Rightarrow> compile_error + compiled_expression" where
  "compile_long_option direction_is_up m pol event b now =
     (let asof = utc_date (ms_observation_clock_at m)
      in rbind (lift_rejection (select_long_contract m pol (direction_type direction_is_up) asof direction_is_up)) (\<lambda>c.
         let path = ''option.'' @ oc_symbol c; dte = contract_dte c asof
         in admit (option_guards c path m pol)
           (admit [(dte < 1, xreject LIFECYCLE_CHECK_FAILED (path @ ''.dte''))]
           (rbind (lift_rejection (build_option_leg c BUY BUY_TO_OPEN)) (\<lambda>l.
            let e = option_economics event c pol
            in admit (require_compared e NO_QUOTE ''long_option'')
              (construct (bound_expression ONE_LONG_OPTION event b now None (Some (long_option_block l dte (max_loss_text e))) None)))))))"

definition compiled_leg_payload :: "option_leg \<Rightarrow> json" where
  "compiled_leg_payload l = JObj
     [(''symbol'', JStr (leg_symbol l)), (''option_type'', JStr (option_type_value (leg_type l))), (''strike'', JStr (dec_str (leg_strike l)))]"

definition vertical_of :: "bool \<Rightarrow> vertical_type" where
  "vertical_of direction_is_up = (if direction_is_up then BULL_CALL else BEAR_PUT)"

definition debit_vertical_block ::
    "bool \<Rightarrow> expression_market_snapshot \<Rightarrow> package_observation \<Rightarrow> dec \<Rightarrow> json \<Rightarrow> option_leg \<Rightarrow> option_leg \<Rightarrow> json" where
  "debit_vertical_block direction_is_up m p width max_loss long short = JObj
     [(''underlying'', JStr (ms_underlying m)), (''vertical_type'', JStr (vertical_type_value (vertical_of direction_is_up))),
      (''expiry'', JStr (date_text (leg_expiry long))), (''quantity'', JInt 1), (''order_type'', JStr ''LIMIT''),
      (''legging'', JStr ''ATOMIC_PACKAGE''), (''limit_price'', JStr (dec_str (pk_net_ask p))),
      (''limit_price_rule'', JStr ''PACKAGE_NET_ASK''), (''width'', JStr (dec_str width)), (''maximum_loss'', max_loss),
      (''package_id'', JStr (pk_package_id p)), (''long_leg'', compiled_leg_payload long), (''short_leg'', compiled_leg_payload short)]"

definition vertical_guards :: "vertical_geometry \<Rightarrow> expression_market_snapshot \<Rightarrow> promoted_expression_policy \<Rightarrow> expression_guards" where
  "vertical_guards g m pol =
     concat (map (\<lambda>c. option_guards c (''vertical.'' @ oc_symbol c) m pol) [vg_long_leg g, vg_short_leg g])
     @ validate_cross_leg_skew [oc_quote (vg_long_leg g), oc_quote (vg_short_leg g)] pol"

definition compile_debit_vertical ::
    "bool \<Rightarrow> expression_market_snapshot \<Rightarrow> promoted_expression_policy \<Rightarrow> string \<Rightarrow> expression_bindings \<Rightarrow> datetime
     \<Rightarrow> compile_error + compiled_expression" where
  "compile_debit_vertical direction_is_up m pol event b now =
     (let asof = utc_date (ms_observation_clock_at m)
      in rbind (select_vertical_geometry m pol direction_is_up asof) (\<lambda>g.
         admit (vertical_guards g m pol)
        (admit [(contract_dte (vg_long_leg g) asof < 1, xreject LIFECYCLE_CHECK_FAILED ''vertical.dte'')]
        (rbind (lift_rejection (build_option_leg (vg_long_leg g) BUY BUY_TO_OPEN)) (\<lambda>long.
         rbind (lift_rejection (build_option_leg (vg_short_leg g) SELL SELL_TO_OPEN)) (\<lambda>short.
         rbind (lift_rejection (select_package m g)) (\<lambda>p.
         admit (validate_package p m pol (''package.'' @ pk_package_id p))
        (let e = debit_vertical_economics event p (vg_width g) pol
         in admit (require_compared e PACKAGE_UNAVAILABLE ''debit_vertical'')
           (construct (bound_expression DEBIT_VERTICAL event b now None None
              (Some (debit_vertical_block direction_is_up m p (vg_width g) (max_loss_text e) long short))))))))))))"

section \<open>Compilation\<close>

definition compile_guards ::
    "hash_function \<Rightarrow> strategy_decision \<Rightarrow> string \<Rightarrow> expression_market_snapshot \<Rightarrow> promoted_expression_policy \<Rightarrow> string \<Rightarrow> string
     \<Rightarrow> datetime \<Rightarrow> expression_guards" where
  "compile_guards H d decision_bytes m pol policy_sha gate_d now =
     [(\<not> equals_utc now, xreject XR_UNSUPPORTED_INPUT ''compiled_at''),
      (sd_disposition d \<noteq> ACCEPTED, xreject DIRECTION_NOT_VALIDATED ''decision.disposition''),
      (sd_direction d = UNCERTAIN, xreject DIRECTION_NOT_VALIDATED ''decision.direction''),
      (H decision_bytes \<noteq> ms_decision_sha256 m, xreject DECISION_BINDING_MISMATCH ''snapshot.decision_sha256''),
      (instant (ms_observation_clock_at m) < instant (sd_decision_at d), xreject TIME_INCONSISTENT ''snapshot.observation_clock_at''),
      (policy_sha \<noteq> promoted_policy_sha256 H pol, xreject POLICY_HASH_MISMATCH ''policy_sha256''),
      (xp_gate_d_report_sha256 pol \<noteq> gate_d, xreject GATE_D_RECEIPT_MISMATCH ''policy.gate_d_report_sha256'')]"

definition compile_expression ::
    "hash_function \<Rightarrow> strategy_decision \<Rightarrow> string \<Rightarrow> expression_market_snapshot \<Rightarrow> promoted_expression_policy \<Rightarrow> string \<Rightarrow> string
     \<Rightarrow> datetime \<Rightarrow> compile_error + compiled_expression" where
  "compile_expression H d decision_bytes m pol policy_sha gate_d now =
     admit (compile_guards H d decision_bytes m pol policy_sha gate_d now)
       (let b = \<lparr>xb_decision_sha256 = H decision_bytes, xb_snapshot_sha256 = market_snapshot_sha256 H m, xb_policy_sha256 = policy_sha,
                 xb_gate_d_report_sha256 = gate_d\<rparr>;
            up = (sd_direction d = UP); event = sd_event_id d
        in case xp_expression_kind pol of
             CASH_NO_TRADE \<Rightarrow> compile_cash event b now
           | SHARES \<Rightarrow> compile_shares up m pol event b now
           | ONE_LONG_OPTION \<Rightarrow> compile_long_option up m pol event b now
           | DEBIT_VERTICAL \<Rightarrow> compile_debit_vertical up m pol event b now)"

text \<open>\<open>(COMPILED, value)\<close> or \<open>(NO_PACKAGE, reason)\<close>; any other exception passes through.\<close>

datatype compile_outcome = Compiled compiled_expression | NoPackage expression_reason

definition compile_or_no_package ::
    "hash_function \<Rightarrow> strategy_decision \<Rightarrow> string \<Rightarrow> expression_market_snapshot \<Rightarrow> promoted_expression_policy \<Rightarrow> string \<Rightarrow> string
     \<Rightarrow> datetime \<Rightarrow> value_error + compile_outcome" where
  "compile_or_no_package H d decision_bytes m pol policy_sha gate_d now =
     (case compile_expression H d decision_bytes m pol policy_sha gate_d now of
        Inr c \<Rightarrow> Inr (Compiled c)
      | Inl (ExpressionRejection e) \<Rightarrow> Inr (NoPackage (xr_reason e))
      | Inl (CompileValueError e) \<Rightarrow> Inl e)"

definition no_package_payload :: "expression_reason \<Rightarrow> string \<Rightarrow> expression_bindings \<Rightarrow> datetime \<Rightarrow> json" where
  "no_package_payload why event b now = JObj
     [(''schema'', JStr ''esscher.compiled_expression''), (''schema_version'', JInt 1), (''expression_kind'', JStr ''NO_PACKAGE''),
      (''event_id'', JStr event), (''decision_sha256'', JStr (xb_decision_sha256 b)), (''snapshot_sha256'', JStr (xb_snapshot_sha256 b)),
      (''policy_sha256'', JStr (xb_policy_sha256 b)), (''gate_d_report_sha256'', JStr (xb_gate_d_report_sha256 b)),
      (''compiled_at'', JStr (isoformat_z now)), (''no_package_reason'', JStr (expression_reason_value why)), (''shares'', JNull),
      (''long_option'', JNull), (''debit_vertical'', JNull), (''no_package'', JBool True)]"

end
