(* ===== verification/Permit_Bridge.thy ===== *)
theory Permit_Bridge
  imports Expression_Compiler
begin

text \<open>
  \<open>contracts/compiled_to_permit.py\<close>: the only path from a compiled debit vertical to an opening
  permit. A \<open>CompiledPermitRejected\<close> carries the path of its message; what the \<open>try\<close> block of
  \<open>_vertical_terms\<close> raises is rewrapped under one path, so that block is an option. A strategy
  input is the part of \<open>StrategyInput\<close> and of its snapshot that the bridge reads.
\<close>

section \<open>Inputs\<close>

datatype bridge_error = CompiledPermitRejected string | PermitValueError value_error

type_synonym bridge_guards = "(bool \<times> bridge_error) list"

record permit_bridge_constants =
  pb_risk_policy_sha256 :: string
  pb_permit_protocol_sha256 :: string
  pb_execution_protocol_sha256 :: string
  pb_gate_d_report_sha256 :: string

definition permit_bridge_constants_checks :: "permit_bridge_constants \<Rightarrow> bridge_error option" where
  "permit_bridge_constants_checks k = first_reject
     [(\<not> is_sha256 (pb_risk_policy_sha256 k), CompiledPermitRejected ''risk_policy_sha256''),
      (\<not> is_sha256 (pb_permit_protocol_sha256 k), CompiledPermitRejected ''permit_protocol_sha256''),
      (\<not> is_sha256 (pb_execution_protocol_sha256 k), CompiledPermitRejected ''execution_protocol_sha256''),
      (\<not> is_sha256 (pb_gate_d_report_sha256 k), CompiledPermitRejected ''gate_d_report_sha256'')]"

record strategy_input =
  si_event_id :: string
  si_candidate_id :: string
  si_cohort_id :: string
  si_policy_sha256 :: string
  si_candidate_entry_deadline_at :: datetime
  si_evidence_packet_sha256 :: string
  si_candidate_manifest_sha256 :: string
  si_snapshot_sha256 :: string
  si_feature_receipt_sha256 :: string

definition unless :: "bool \<Rightarrow> string \<Rightarrow> bool \<times> bridge_error" where
  "unless ok path = (\<not> ok, CompiledPermitRejected path)"

definition validate_strategy_lineage :: "strategy_input \<Rightarrow> strategy_decision \<Rightarrow> bridge_guards" where
  "validate_strategy_lineage si d =
     [unless (sd_disposition d = ACCEPTED) ''decision.disposition'',
      unless (sd_event_id d = si_event_id si) ''decision.event_id'',
      unless (sd_candidate_id d = si_candidate_id si) ''decision.candidate_id'',
      unless (sd_cohort_id d = si_cohort_id si) ''decision.cohort_id'',
      unless (sd_policy_sha256 d = si_policy_sha256 si) ''decision.policy_sha256'',
      unless (sd_candidate_manifest_sha256 d = si_candidate_manifest_sha256 si) ''decision.candidate_manifest_sha256'',
      unless (sd_strategy_snapshot_sha256 d = si_snapshot_sha256 si) ''decision.strategy_snapshot_sha256'',
      unless (sd_feature_receipt_sha256 d = si_feature_receipt_sha256 si) ''decision.feature_receipt_sha256'']"

section \<open>The terms of a compiled vertical\<close>

record permit_terms =
  vt_underlying :: string
  vt_vertical_type :: vertical_type
  vt_expiry :: date
  vt_quantity :: int
  vt_limit_price :: dec
  vt_width :: dec
  vt_maximum_loss :: dec
  vt_long_leg :: option_leg
  vt_short_leg :: option_leg

definition text_member :: "json \<Rightarrow> string \<Rightarrow> string option" where
  "text_member block name =
     (case json_get block name of Some (JStr s) \<Rightarrow> if exact_text s then Some s else None | _ \<Rightarrow> None)"

definition decimal_member :: "json \<Rightarrow> string \<Rightarrow> dec option" where
  "decimal_member block name =
     (case json_get block name of
        None \<Rightarrow> None
      | Some v \<Rightarrow> (case decimal_of_json v of None \<Rightarrow> None | Some d \<Rightarrow> if is_finite d then Some d else None))"

definition mapping_member :: "json \<Rightarrow> string \<Rightarrow> json option" where
  "mapping_member block name =
     (case json_get block name of None \<Rightarrow> None | Some v \<Rightarrow> if is_object v then Some v else None)"

text \<open>\<open>date.fromisoformat\<close> restricted to the normal form that \<open>isoformat\<close> prints.\<close>

definition iso_date_of :: "string \<Rightarrow> date option" where
  "iso_date_of s =
     (let ys = take 4 s; ms = take 2 (drop 5 s); ds = drop 8 s;
          d = (int (nat_of_digs ys), int (nat_of_digs ms), int (nat_of_digs ds))
      in if list_all is_digit (ys @ ms @ ds) \<and> valid_date d \<and> date_text d = s then Some d else None)"

definition vertical_type_of :: "string \<Rightarrow> vertical_type option" where
  "vertical_type_of s = (if s = ''BULL_CALL'' then Some BULL_CALL else if s = ''BEAR_PUT'' then Some BEAR_PUT else None)"

definition demand :: "bool \<Rightarrow> 'a option \<Rightarrow> 'a option" where
  "demand ok r = (if ok then r else None)"

definition leg_term :: "json \<Rightarrow> string \<Rightarrow> date \<Rightarrow> option_side \<Rightarrow> position_intent \<Rightarrow> option_leg option" where
  "leg_term leg underlying expiry side intent =
     Option.bind (text_member leg ''symbol'') (\<lambda>symbol.
     Option.bind (Option.bind (text_member leg ''option_type'') option_type_of) (\<lambda>typ.
     Option.bind (decimal_member leg ''strike'') (\<lambda>strike.
       let l = \<lparr>leg_symbol = symbol, leg_underlying = underlying, leg_expiry = expiry, leg_type = typ, leg_strike = strike,
                leg_side = side, leg_intent = intent, leg_ratio = 1\<rparr>
       in demand (option_leg_checks l = None) (Some l))))"

definition block_terms :: "json \<Rightarrow> permit_terms option" where
  "block_terms block =
     Option.bind (text_member block ''underlying'') (\<lambda>underlying.
     Option.bind (Option.bind (text_member block ''expiry'') iso_date_of) (\<lambda>expiry.
     Option.bind (Option.bind (text_member block ''vertical_type'') vertical_type_of) (\<lambda>vertical.
     demand (json_get block ''quantity'' = Some (JInt 1))
    (Option.bind (decimal_member block ''limit_price'') (\<lambda>limit.
     Option.bind (decimal_member block ''width'') (\<lambda>width.
     Option.bind (decimal_member block ''maximum_loss'') (\<lambda>loss.
     demand (dec_lt dec_zero limit \<and> dec_lt dec_zero width \<and> dec_lt dec_zero loss)
    (Option.bind (mapping_member block ''long_leg'') (\<lambda>long.
     Option.bind (mapping_member block ''short_leg'') (\<lambda>short.
     Option.bind (leg_term long underlying expiry BUY BUY_TO_OPEN) (\<lambda>long_leg.
     Option.bind (leg_term short underlying expiry SELL SELL_TO_OPEN) (\<lambda>short_leg.
       Some \<lparr>vt_underlying = underlying, vt_vertical_type = vertical, vt_expiry = expiry, vt_quantity = 1, vt_limit_price = limit,
             vt_width = width, vt_maximum_loss = loss, vt_long_leg = long_leg, vt_short_leg = short_leg\<rparr>))))))))))))"

definition term_guards :: "permit_terms \<Rightarrow> bridge_guards" where
  "term_guards t =
     [unless (dec_eq (vt_width t) (dec_abs (dec_sub (leg_strike (vt_short_leg t)) (leg_strike (vt_long_leg t))))) ''compiled.debit_vertical.width'',
      unless (dec_eq (vt_maximum_loss t) (dec_mul (dec_mul (vt_limit_price t) (Fin 100 0)) (dec_of_int (vt_quantity t))))
        ''compiled.debit_vertical.maximum_loss'']"

definition vertical_terms :: "compiled_expression \<Rightarrow> bridge_error + permit_terms" where
  "vertical_terms c =
     guarded [unless (expression_kind c = DEBIT_VERTICAL) ''compiled.expression_kind'',
              unless (case debit_vertical c of None \<Rightarrow> False | Some v \<Rightarrow> is_object v) ''compiled.debit_vertical'']
       (case block_terms (the (debit_vertical c)) of
          None \<Rightarrow> Inl (CompiledPermitRejected ''compiled.debit_vertical'')
        | Some t \<Rightarrow> guarded (term_guards t) (Inr t))"

section \<open>Validation and construction\<close>

text \<open>Equality of legs and prices is by value of the decimals.\<close>

definition same_leg :: "option_leg \<Rightarrow> option_leg \<Rightarrow> bool" where
  "same_leg a b = (dec_eq (leg_strike a) (leg_strike b) \<and> a\<lparr>leg_strike := leg_strike b\<rparr> = b)"

definition permit_binding_guards ::
    "hash_function \<Rightarrow> compiled_expression \<Rightarrow> permit_terms \<Rightarrow> debit_vertical_permit \<Rightarrow> permit_bridge_constants \<Rightarrow> bridge_guards" where
  "permit_binding_guards H c t p k =
     [unless (permit_id p = debit_vertical_permit_id H p) ''permit.permit_id'',
      unless (event_run_id p = ce_event_id c) ''permit.event_run_id'',
      unless (decision_sha256 p = ce_decision_sha256 c) ''permit.decision_sha256'',
      unless (snapshot_sha256 p = ce_snapshot_sha256 c) ''permit.snapshot_sha256'',
      unless (policy_sha256 p = pb_risk_policy_sha256 k) ''permit.policy_sha256'',
      unless (protocol_sha256 p = pb_permit_protocol_sha256 k) ''permit.protocol_sha256'',
      unless (execution_protocol_sha256 p = pb_execution_protocol_sha256 k) ''permit.execution_protocol_sha256'',
      unless (vertical_type p = vt_vertical_type t) ''permit.vertical_type'',
      unless (quantity p = vt_quantity t) ''permit.quantity'',
      unless (dec_eq (limit_price p) (vt_limit_price t)) ''permit.limit_price'',
      unless (same_leg (long_leg p) (vt_long_leg t) \<and> same_leg (short_leg p) (vt_short_leg t)) ''permit.legs'',
      unless (dec_eq (maximum_loss p) (vt_maximum_loss t)) ''permit.maximum_loss'',
      unless (instant (issued_at p) \<le> instant (expires_at p)) ''permit.timing'']"

definition active_guards :: "debit_vertical_permit \<Rightarrow> datetime option \<Rightarrow> bridge_guards" where
  "active_guards p now =
     (case now of None \<Rightarrow> []
      | Some t \<Rightarrow> [unless (equals_utc t) ''now'',
          unless (instant (issued_at p) \<le> instant t \<and> instant t < instant (expires_at p)) ''permit.timing''])"

text \<open>A permit is always \<open>PAPER\<close> with \<open>INDICATIVE_DATA\<close>: its class admits no other value.\<close>

definition validate_compiled_permit ::
    "hash_function \<Rightarrow> compiled_expression \<Rightarrow> debit_vertical_permit \<Rightarrow> permit_bridge_constants \<Rightarrow> datetime option \<Rightarrow> bridge_error + unit" where
  "validate_compiled_permit H c p k now =
     rbind (vertical_terms c) (\<lambda>t. guarded (permit_binding_guards H c t p k @ active_guards p now) (Inr ()))"

definition build_guards ::
    "hash_function \<Rightarrow> compiled_expression \<Rightarrow> strategy_input \<Rightarrow> strategy_decision \<Rightarrow> permit_bridge_constants \<Rightarrow> datetime \<Rightarrow> datetime \<Rightarrow> bridge_guards" where
  "build_guards H c si d k issued expires =
     validate_strategy_lineage si d
     @ [unless (equals_utc issued) ''issued_at'', unless (equals_utc expires) ''expires_at'',
        unless (instant issued < instant expires) ''expires_at'',
        unless (instant (sd_decision_at d) \<le> instant issued \<and> instant (compiled_at c) \<le> instant issued) ''issued_at'',
        unless (instant expires \<le> instant (si_candidate_entry_deadline_at si)) ''expires_at'',
        unless (ce_gate_d_report_sha256 c = pb_gate_d_report_sha256 k) ''compiled.gate_d_report_sha256'',
        unless (ce_decision_sha256 c = strategy_decision_sha256 H d) ''compiled.decision_sha256'']"

definition from_frozen_decision ::
    "compiled_expression \<Rightarrow> strategy_input \<Rightarrow> permit_bridge_constants \<Rightarrow> datetime \<Rightarrow> datetime \<Rightarrow> permit_terms \<Rightarrow> string \<Rightarrow> debit_vertical_permit" where
  "from_frozen_decision c si k issued expires t pid =
     \<lparr>bridge_authorization = True, permit_id = pid, event_run_id = ce_event_id c, policy_sha256 = pb_risk_policy_sha256 k,
      snapshot_sha256 = ce_snapshot_sha256 c, decision_sha256 = ce_decision_sha256 c, evidence_sha256 = si_evidence_packet_sha256 si,
      protocol_sha256 = pb_permit_protocol_sha256 k, execution_protocol_sha256 = pb_execution_protocol_sha256 k,
      issued_at = utc_at (instant issued), expires_at = utc_at (instant expires), vertical_type = vt_vertical_type t,
      quantity = vt_quantity t, limit_price = vt_limit_price t, long_leg = vt_long_leg t, short_leg = vt_short_leg t\<rparr>"

definition construct_permit :: "debit_vertical_permit \<Rightarrow> bridge_error + debit_vertical_permit" where
  "construct_permit p = (case permit_checks p of Some e \<Rightarrow> Inl (PermitValueError e) | None \<Rightarrow> Inr p)"

definition build_debit_vertical_permit ::
    "hash_function \<Rightarrow> compiled_expression \<Rightarrow> strategy_input \<Rightarrow> strategy_decision \<Rightarrow> permit_bridge_constants \<Rightarrow> datetime \<Rightarrow> datetime
     \<Rightarrow> bridge_error + debit_vertical_permit" where
  "build_debit_vertical_permit H c si d k issued expires =
     guarded (build_guards H c si d k issued expires)
    (rbind (vertical_terms c) (\<lambda>t.
     let make = from_frozen_decision c si k issued expires t
     in rbind (construct_permit (make ''UNBOUND'')) (\<lambda>provisional.
        rbind (construct_permit (make (debit_vertical_permit_id H provisional))) (\<lambda>p.
        rbind (validate_compiled_permit H c p k (Some (utc_at (instant issued)))) (\<lambda>_. Inr p)))))"

definition canonical_permit_sha256 :: "hash_function \<Rightarrow> debit_vertical_permit \<Rightarrow> string" where
  "canonical_permit_sha256 H p = H (debit_vertical_permit_bytes p)"

end
