(* ===== verification/Compiler_Properties.thy ===== *)
theory Compiler_Properties
  imports Permit_Bridge
begin

text \<open>
  What a compiled expression promises its clients: it is bound to its inputs, its loss is
  calculable by the risk kernel and within the operational budget of the policy, and a debit
  vertical is an eligible, fresh and defined-risk package.
\<close>

section \<open>Outcomes\<close>

lemma first_reject_apsnd: "first_reject (map (apsnd f) gs) = map_option f (first_reject gs)"
  by (induction gs rule: first_reject.induct) auto

lemma admit_Inr [outcome_simps]: "admit gs r = Inr a \<longleftrightarrow> first_reject gs = None \<and> r = Inr a"
  by (simp add: admit_def guarded_Inr first_reject_apsnd)

lemma lift_rejection_Inr [outcome_simps]: "lift_rejection r = Inr a \<longleftrightarrow> r = Inr a"
  by (cases r) (simp_all add: lift_rejection_def)

lemma construct_Inr [outcome_simps]: "construct c = Inr c' \<longleftrightarrow> c' = c \<and> compiled_expression_checks c = None"
  by (auto simp: construct_def split: option.splits)

lemma require_compared_None [simp]: "first_reject (require_compared e why path) = None \<longleftrightarrow> compared e"
  by (simp add: require_compared_def)

section \<open>Economics\<close>

lemma economics_compared [simp]:
  "\<not> compared (rejected_economics event kind why)" "compared (compared_economics event kind a b c)"
  "ee_max_loss (compared_economics event kind a b c) = Some b"
  by (simp_all add: compared_def rejected_economics_def compared_economics_def)

lemma positive_money_iff: "positive_money d \<longleftrightarrow> is_finite d \<and> 0 < dval d"
  by (auto simp: positive_money_def dec_order)

lemma non_negative_money_iff: "non_negative_money d \<longleftrightarrow> is_finite d \<and> 0 \<le> dval d"
  by (auto simp: non_negative_money_def dec_order)

lemma quote_okD:
  assumes "quote_ok q"
  shows "is_finite (tq_bid q)" "is_finite (tq_ask q)"
  using assms by (simp_all add: quote_ok_def two_sided_quote_checks_def non_negative_money_iff)

lemma budget_positive:
  assumes "promoted_policy_checks pol = None"
  shows "is_finite (xp_operational_loss_budget pol)" "0 < dval (xp_operational_loss_budget pol)"
  using assms by (simp_all add: promoted_policy_checks_def positive_money_iff split: if_splits)

lemma quality_bounds:
  assumes "quote_ok q" "check_quote_quality q pol = None"
  shows "0 < dval (tq_bid q)" "0 < dval (tq_ask q)"
  using assms quote_okD [OF assms(1)] by (auto simp: check_quote_quality_def dec_order split: if_splits)

lemma dec_mul_hundred:
  assumes "is_finite x" "0 < dval x"
  shows "is_finite (dec_mul x CONTRACT_MULTIPLIER)" "0 < dval (dec_mul x CONTRACT_MULTIPLIER)"
proof -
  obtain m e where m: "x = Fin m e" using assms(1) by (cases x) auto
  then have "0 < m" using assms(2) dval_nonneg_iff [of m e] by (cases "m = 0") auto
  then show "is_finite (dec_mul x CONTRACT_MULTIPLIER)" "0 < dval (dec_mul x CONTRACT_MULTIPLIER)"
    using dfix_pos [of "m * 100" e] by (simp_all add: CONTRACT_MULTIPLIER_def m del: dval.simps)
qed

text \<open>A compared expression has a positive maximum loss within the budget.\<close>

definition loss_within :: "expression_economics \<Rightarrow> promoted_expression_policy \<Rightarrow> bool" where
  "loss_within e pol = (case ee_max_loss e of None \<Rightarrow> False
     | Some x \<Rightarrow> is_finite x \<and> 0 < dval x \<and> dval x \<le> dval (xp_operational_loss_budget pol))"

lemma shares_loss:
  assumes "compared (shares_economics event m pol up)" "quote_ok (so_quote (ms_share m))" "promoted_policy_checks pol = None"
  shows "ee_max_loss (shares_economics event m pol up) =
      Some (if up then tq_ask (so_quote (ms_share m)) else tq_bid (so_quote (ms_share m)))"
    "loss_within (shares_economics event m pol up) pol"
  using assms(1) quality_bounds [OF assms(2), of pol] quote_okD [OF assms(2)] budget_positive [OF assms(3)]
  by (auto simp: shares_economics_def loss_within_def Let_def dec_order split: option.splits if_splits)

lemma option_loss:
  assumes "compared (option_economics event c pol)" "quote_ok (oc_quote c)" "promoted_policy_checks pol = None"
  shows "ee_max_loss (option_economics event c pol) = Some (dec_mul (tq_ask (oc_quote c)) CONTRACT_MULTIPLIER)"
    "loss_within (option_economics event c pol) pol"
  using assms(1) quality_bounds [OF assms(2), of pol] quote_okD [OF assms(2)] budget_positive [OF assms(3)]
    dec_mul_hundred [of "tq_ask (oc_quote c)"]
  by (auto simp: option_economics_def loss_within_def Let_def dec_order split: option.splits if_splits)

lemma vertical_loss:
  assumes "compared (debit_vertical_economics event p width pol)" "is_finite (pk_net_ask p)" "is_finite width"
    "promoted_policy_checks pol = None"
  shows "ee_max_loss (debit_vertical_economics event p width pol) = Some (dec_mul (pk_net_ask p) CONTRACT_MULTIPLIER)"
    "loss_within (debit_vertical_economics event p width pol) pol"
    "dec_lt (dec_mul (pk_net_ask p) CONTRACT_MULTIPLIER) (dec_mul width CONTRACT_MULTIPLIER)"
    "0 < dval (pk_net_ask p)"
proof -
  let ?debit = "dec_mul (pk_net_ask p) CONTRACT_MULTIPLIER" and ?span = "dec_mul width CONTRACT_MULTIPLIER"
  have fin: "is_finite ?debit" "is_finite ?span" using assms(2,3) by (simp_all add: CONTRACT_MULTIPLIER_def)
  from assms(1) have pos: "0 < dval (pk_net_ask p)" and below: "\<not> dec_le ?span ?debit"
    and loss: "\<not> dec_lt (xp_operational_loss_budget pol) (dec_min ?debit ?span)"
    using assms(2) by (auto simp: debit_vertical_economics_def Let_def dec_order split: option.splits if_splits)
  from below have least: "dec_min ?debit ?span = ?debit" using fin by (simp add: dec_min_def dec_order)
  show "ee_max_loss (debit_vertical_economics event p width pol) = Some ?debit"
    "loss_within (debit_vertical_economics event p width pol) pol"
    using assms(1) loss least fin dec_mul_hundred [OF assms(2) pos] budget_positive [OF assms(4)]
    by (auto simp: debit_vertical_economics_def loss_within_def Let_def dec_order split: option.splits if_splits)
  show "dec_lt ?debit ?span" "0 < dval (pk_net_ask p)" using below pos fin by (simp_all add: dec_order)
qed

section \<open>Exposure of a compiled expression\<close>

lemma block_field_str:
  assumes "json_get block f = Some (JStr (dec_str x))" "is_finite x" "0 \<le> dval x"
  shows "block_field (Some block) f path = Inr x"
  using assms by (simp add: block_field_def decimal_field_def dec_parse_str dec_order)

section \<open>Selection\<close>

lemma hd_sort_key:
  assumes "xs \<noteq> []"
  shows "hd (sort_key f xs) \<in> set xs" "x \<in> set xs \<Longrightarrow> f (hd (sort_key f xs)) \<le> f x"
proof -
  obtain y ys where s: "sort_key f xs = y # ys" using assms by (cases "sort_key f xs") (auto dest: arg_cong [of _ _ set])
  have mem: "set (y # ys) = set xs" using s set_sort [of f xs] by simp
  have "sorted (map f (y # ys))" using s sorted_sort_key [of f xs] by simp
  then show "hd (sort_key f xs) \<in> set xs" "x \<in> set xs \<Longrightarrow> f (hd (sort_key f xs)) \<le> f x"
    using mem by (auto simp: s)
qed

lemma select_long_contract_Inr:
  assumes "select_long_contract m pol typ asof up = Inr c"
  shows "c \<in> set (ms_chain m)" "contract_is_eligible c pol typ asof"
    "c' \<in> set (ms_chain m) \<Longrightarrow> contract_is_eligible c' pol typ asof \<Longrightarrow> long_key up c \<le> long_key up c'"
proof -
  let ?e = "eligible_long_contracts m pol typ asof"
  have ne: "?e \<noteq> []" and c: "c = hd (sort_key (long_key up) ?e)"
    using assms by (auto simp: select_long_contract_def Let_def split: if_splits)
  show "c \<in> set (ms_chain m)" "contract_is_eligible c pol typ asof"
    "c' \<in> set (ms_chain m) \<Longrightarrow> contract_is_eligible c' pol typ asof \<Longrightarrow> long_key up c \<le> long_key up c'"
    using hd_sort_key(1) [OF ne, of "long_key up"] hd_sort_key(2) [OF ne, of c' "long_key up"]
    by (auto simp: c eligible_long_contracts_def)
qed

lemma select_vertical_geometry_Inr:
  assumes "select_vertical_geometry m pol up asof = Inr g"
  shows "select_long_contract m pol (direction_type up) asof up = Inr (vg_long_leg g)"
    "vg_short_leg g \<in> set (ms_chain m)" "short_candidate pol (direction_type up) asof up (vg_long_leg g) (vg_short_leg g)"
    "vg_width g = leg_distance (vg_long_leg g) (vg_short_leg g)"
    "\<not> dec_lt (vg_width g) (xp_width_min pol)" "\<not> dec_lt (xp_width_max pol) (vg_width g)" "vertical_geometry_checks g = None"
proof -
  obtain long where long: "select_long_contract m pol (direction_type up) asof up = Inr long"
    using assms by (cases "select_long_contract m pol (direction_type up) asof up") (auto simp: select_vertical_geometry_def Let_def)
  let ?c = "filter (short_candidate pol (direction_type up) asof up long) (ms_chain m)"
  define short where "short = hd (sort_key (short_key long) ?c)"
  have parts: "?c \<noteq> []" "g = \<lparr>vg_long_leg = long, vg_short_leg = short, vg_width = leg_distance long short\<rparr>"
    "\<not> dec_lt (vg_width g) (xp_width_min pol)" "\<not> dec_lt (xp_width_max pol) (vg_width g)" "vertical_geometry_checks g = None"
    using assms by (auto simp: select_vertical_geometry_def long Let_def short_def split: if_splits option.splits)
  show "select_long_contract m pol (direction_type up) asof up = Inr (vg_long_leg g)"
    "vg_short_leg g \<in> set (ms_chain m)" "short_candidate pol (direction_type up) asof up (vg_long_leg g) (vg_short_leg g)"
    "vg_width g = leg_distance (vg_long_leg g) (vg_short_leg g)"
    using long parts(2) hd_sort_key(1) [OF parts(1), of "short_key long"] by (auto simp: short_def)
  show "\<not> dec_lt (vg_width g) (xp_width_min pol)" "\<not> dec_lt (xp_width_max pol) (vg_width g)" "vertical_geometry_checks g = None"
    by (fact parts)+
qed

lemma select_package_Inr:
  assumes "select_package m g = Inr p"
  shows "p \<in> set (ms_packages m)" "pk_package_id p = package_key g" "pk_legs p = [oc_symbol (vg_long_leg g), oc_symbol (vg_short_leg g)]"
  using assms by (auto simp: select_package_def snapshot_package_def find_Some_iff split: option.splits if_splits)

lemma build_option_leg_Inr:
  assumes "build_option_leg c side intent = Inr l"
  shows "option_leg_checks l = None" "option_type_of (oc_option_type c) = Some (leg_type l)"
    "l = \<lparr>leg_symbol = oc_symbol c, leg_underlying = oc_underlying c, leg_expiry = oc_expiry c, leg_type = leg_type l,
          leg_strike = oc_strike c, leg_side = side, leg_intent = intent, leg_ratio = 1\<rparr>"
  using assms by (auto simp: build_option_leg_def Let_def split: option.splits)

lemma snapshot_chain_ok:
  assumes "market_snapshot_ok m" "c \<in> set (ms_chain m)"
  shows "option_contract_checks c = None" "quote_ok (oc_quote c)" "is_finite (oc_strike c)" "0 < dval (oc_strike c)"
    "oc_underlying c = ms_underlying m" "normalized_symbol (oc_symbol c)"
proof -
  show ok: "option_contract_checks c = None" and "quote_ok (oc_quote c)"
    using assms by (auto simp: market_snapshot_ok_def list_all_iff)
  show "is_finite (oc_strike c)" "0 < dval (oc_strike c)" "normalized_symbol (oc_symbol c)"
    using ok by (auto simp: option_contract_checks_def positive_money_iff split: if_splits)
  show "oc_underlying c = ms_underlying m"
    using assms by (auto simp: market_snapshot_ok_def market_snapshot_checks_def first_reject_None)
qed

lemma snapshot_package_ok:
  assumes "market_snapshot_ok m" "p \<in> set (ms_packages m)"
  shows "is_finite (pk_net_ask p)" "is_finite (pk_net_bid p)"
  using assms by (auto simp: market_snapshot_ok_def list_all_iff package_observation_checks_def non_negative_money_iff split: if_splits)

section \<open>What each compilation gives\<close>

lemma compile_shares_Inr:
  assumes "compile_shares up m pol event b now = Inr c"
  shows "c = bound_expression SHARES event b now (Some (shares_block up m)) None None" "compiled_expression_checks c = None"
    "first_reject (shares_guards up m pol) = None" "compared (shares_economics event m pol up)"
  using assms by (auto simp: compile_shares_def outcome_simps)

lemma compile_long_option_Inr:
  assumes "compile_long_option up m pol event b now = Inr c"
  obtains k l where "select_long_contract m pol (direction_type up) (utc_date (ms_observation_clock_at m)) up = Inr k"
    "first_reject (option_guards k (''option.'' @ oc_symbol k) m pol) = None"
    "1 \<le> contract_dte k (utc_date (ms_observation_clock_at m))" "build_option_leg k BUY BUY_TO_OPEN = Inr l"
    "compared (option_economics event k pol)" "compiled_expression_checks c = None"
    "c = bound_expression ONE_LONG_OPTION event b now None
       (Some (long_option_block l (contract_dte k (utc_date (ms_observation_clock_at m))) (max_loss_text (option_economics event k pol)))) None"
  using assms by (auto simp: compile_long_option_def Let_def outcome_simps)

lemma compile_debit_vertical_Inr:
  assumes "compile_debit_vertical up m pol event b now = Inr c"
  obtains g long short p where "select_vertical_geometry m pol up (utc_date (ms_observation_clock_at m)) = Inr g"
    "first_reject (vertical_guards g m pol) = None" "1 \<le> contract_dte (vg_long_leg g) (utc_date (ms_observation_clock_at m))"
    "build_option_leg (vg_long_leg g) BUY BUY_TO_OPEN = Inr long" "build_option_leg (vg_short_leg g) SELL SELL_TO_OPEN = Inr short"
    "select_package m g = Inr p" "first_reject (validate_package p m pol (''package.'' @ pk_package_id p)) = None"
    "compared (debit_vertical_economics event p (vg_width g) pol)" "compiled_expression_checks c = None"
    "c = bound_expression DEBIT_VERTICAL event b now None None (Some (debit_vertical_block up m p (vg_width g)
       (max_loss_text (debit_vertical_economics event p (vg_width g) pol)) long short))"
  using assms by (auto simp: compile_debit_vertical_def Let_def outcome_simps)

section \<open>Loss within the budget\<close>

lemmas bound_simps = bound_expression_def compiled_expression.simps

lemma exposure_of_loss:
  assumes "loss_within e pol" "block_field (Some block) f path = Inr (the (ee_max_loss e))"
  shows "\<exists>x. block_field (Some block) f path = Inr x \<and> dval x \<le> dval (xp_operational_loss_budget pol)"
  using assms by (auto simp: loss_within_def split: option.splits)

lemma loss_text:
  assumes "loss_within e pol" "json_get block f = Some (max_loss_text e)"
  shows "block_field (Some block) f path = Inr (the (ee_max_loss e))"
  using assms block_field_str [of block f "the (ee_max_loss e)" path]
  by (auto simp: loss_within_def max_loss_text_def split: option.splits)

definition exposure_within :: "compiled_expression \<Rightarrow> promoted_expression_policy \<Rightarrow> bool" where
  "exposure_within c pol =
     (case expression_exposure c of Inl _ \<Rightarrow> False | Inr x \<Rightarrow> dval x \<le> dval (xp_operational_loss_budget pol))"

lemma exposure_withinI:
  "\<exists>x. expression_exposure c = Inr x \<and> dval x \<le> dval (xp_operational_loss_budget pol) \<Longrightarrow> exposure_within c pol"
  by (auto simp: exposure_within_def)

lemma cash_within:
  assumes "compile_cash event b now = Inr c" "promoted_policy_checks pol = None"
  shows "exposure_within c pol"
  using assms(1) budget_positive [OF assms(2)]
  by (auto simp: compile_cash_def outcome_simps exposure_within_def expression_exposure_def bound_expression_def)

lemma shares_within:
  assumes "compile_shares up m pol event b now = Inr c" "market_snapshot_ok m" "promoted_policy_checks pol = None"
  shows "exposure_within c pol"
proof -
  let ?e = "shares_economics event m pol up"
  note parts = compile_shares_Inr [OF assms(1)]
  have ok: "quote_ok (so_quote (ms_share m))" using assms(2) by (simp add: market_snapshot_ok_def)
  note loss = shares_loss [OF parts(4) ok assms(3)]
  have "json_get (shares_block up m) ''exposure'' = Some (JStr (dec_str (the (ee_max_loss ?e))))"
    by (simp add: shares_block_def Let_def loss(1))
  moreover have "is_finite (the (ee_max_loss ?e))" "0 \<le> dval (the (ee_max_loss ?e))"
    using loss(2) by (auto simp: loss_within_def split: option.splits)
  ultimately have "block_field (Some (shares_block up m)) ''exposure'' ''shares'' = Inr (the (ee_max_loss ?e))"
    by (rule block_field_str)
  from exposure_of_loss [OF loss(2) this] show ?thesis
    by (intro exposure_withinI) (simp add: parts(1) expression_exposure_def bound_expression_def)
qed

lemma long_option_within:
  assumes "compile_long_option up m pol event b now = Inr c" "market_snapshot_ok m" "promoted_policy_checks pol = None"
  shows "exposure_within c pol"
  using assms(1)
proof (rule compile_long_option_Inr)
  fix k l
  let ?e = "option_economics event k pol" and ?d = "contract_dte k (utc_date (ms_observation_clock_at m))"
  assume k: "select_long_contract m pol (direction_type up) (utc_date (ms_observation_clock_at m)) up = Inr k" and e: "compared ?e"
    and c: "c = bound_expression ONE_LONG_OPTION event b now None (Some (long_option_block l ?d (max_loss_text ?e))) None"
  have "quote_ok (oc_quote k)" using snapshot_chain_ok [OF assms(2) select_long_contract_Inr(1) [OF k]] by simp
  then have w: "loss_within ?e pol" using option_loss(2) [OF e] assms(3) by blast
  have "json_get (long_option_block l ?d (max_loss_text ?e)) ''premium_at_risk'' = Some (max_loss_text ?e)"
    by (simp add: long_option_block_def)
  from exposure_of_loss [OF w loss_text [OF w this]] show ?thesis
    by (intro exposure_withinI) (simp add: c expression_exposure_def bound_expression_def)
qed

lemma vertical_width_finite:
  assumes "select_vertical_geometry m pol up asof = Inr g"
  shows "is_finite (vg_width g)" "0 < dval (vg_width g)"
  using select_vertical_geometry_Inr(7) [OF assms] by (auto simp: vertical_geometry_checks_def dec_order split: if_splits)

lemma debit_vertical_within:
  assumes "compile_debit_vertical up m pol event b now = Inr c" "market_snapshot_ok m" "promoted_policy_checks pol = None"
  shows "exposure_within c pol"
  using assms(1)
proof (rule compile_debit_vertical_Inr)
  fix g :: vertical_geometry and long short :: option_leg and p :: package_observation
  let ?e = "debit_vertical_economics event p (vg_width g) pol"
  let ?block = "debit_vertical_block up m p (vg_width g) (max_loss_text ?e) long short"
  assume g: "select_vertical_geometry m pol up (utc_date (ms_observation_clock_at m)) = Inr g" and p: "select_package m g = Inr p"
    and e: "compared ?e" and c: "c = bound_expression DEBIT_VERTICAL event b now None None (Some ?block)"
  have w: "loss_within ?e pol"
    using vertical_loss(2) [OF e _ vertical_width_finite(1) [OF g] assms(3)] snapshot_package_ok(1) [OF assms(2) select_package_Inr(1) [OF p]]
    by blast
  have "json_get ?block ''maximum_loss'' = Some (max_loss_text ?e)" by (simp add: debit_vertical_block_def)
  from exposure_of_loss [OF w loss_text [OF w this]] show ?thesis
    by (intro exposure_withinI) (simp add: c expression_exposure_def bound_expression_def)
qed

definition compiled_from :: "hash_function \<Rightarrow> compiled_expression \<Rightarrow> strategy_decision \<Rightarrow> string \<Rightarrow> expression_market_snapshot
    \<Rightarrow> promoted_expression_policy \<Rightarrow> datetime \<Rightarrow> bool" where
  "compiled_from H c d decision_bytes m pol now =
     (expression_kind c = xp_expression_kind pol \<and> ce_event_id c = sd_event_id d \<and> ce_decision_sha256 c = H decision_bytes
      \<and> ce_decision_sha256 c = ms_decision_sha256 m \<and> ce_snapshot_sha256 c = market_snapshot_sha256 H m
      \<and> ce_policy_sha256 c = promoted_policy_sha256 H pol \<and> ce_gate_d_report_sha256 c = xp_gate_d_report_sha256 pol \<and> compiled_at c = now)"

lemma compile_expression_Inr:
  assumes "compile_expression H d bytes m pol psha gate now = Inr c"
  shows "first_reject (compile_guards H d bytes m pol psha gate now) = None"
    "compiled_from H c d bytes m pol now" "compiled_expression_checks c = None"
proof -
  show guards: "first_reject (compile_guards H d bytes m pol psha gate now) = None"
    using assms by (simp add: compile_expression_def admit_Inr)
  have eqs: "H bytes = ms_decision_sha256 m" "psha = promoted_policy_sha256 H pol" "gate = xp_gate_d_report_sha256 pol"
    using guards by (simp_all add: compile_guards_def split: if_splits)
  show "compiled_from H c d bytes m pol now" "compiled_expression_checks c = None"
    using assms eqs
    by (auto simp: compile_expression_def outcome_simps compiled_from_def compile_cash_def compile_shares_def bound_expression_def Let_def
        split: expression_kind.splits elim!: compile_long_option_Inr compile_debit_vertical_Inr)
qed

text \<open>
  C17. Whatever the compiler emits is accepted by the value class, is the promoted kind, is bound
  to the digests of the very decision bytes, snapshot and policy it was compiled from, follows an
  accepted direction that is not \<open>UNCERTAIN\<close>, and carries an exposure that the risk kernel can
  calculate and that does not exceed the operational loss budget of the promoted policy.
\<close>

theorem compiled_within_budget:
  assumes "compile_expression H d bytes m pol psha gate now = Inr c" "market_snapshot_ok m" "promoted_policy_checks pol = None"
  shows "compiled_expression_checks c = None \<and> compiled_from H c d bytes m pol now
    \<and> sd_disposition d = ACCEPTED \<and> sd_direction d \<noteq> UNCERTAIN \<and> instant (sd_decision_at d) \<le> instant (ms_observation_clock_at m)
    \<and> (\<exists>x. expression_exposure c = Inr x \<and> 0 \<le> dval x \<and> dval x \<le> dval (xp_operational_loss_budget pol))"
proof -
  note parts = compile_expression_Inr [OF assms(1)]
  have run: "sd_disposition d = ACCEPTED" "sd_direction d \<noteq> UNCERTAIN" "instant (sd_decision_at d) \<le> instant (ms_observation_clock_at m)"
    using parts(1) by (auto simp: compile_guards_def split: if_splits)
  have "exposure_within c pol"
    using assms(1) cash_within [OF _ assms(3)] shares_within [OF _ assms(2,3)] long_option_within [OF _ assms(2,3)]
      debit_vertical_within [OF _ assms(2,3)]
    by (cases "xp_expression_kind pol") (auto simp: compile_expression_def admit_Inr Let_def)
  then have "\<exists>x. expression_exposure c = Inr x \<and> 0 \<le> dval x \<and> dval x \<le> dval (xp_operational_loss_budget pol)"
    using expression_exposure_nonneg [of c] by (auto simp: exposure_within_def split: sum.splits)
  then show ?thesis using parts run by blast
qed

end
