(* ===== verification/Bridge_Properties.thy ===== *)
theory Bridge_Properties
  imports Compiler_Properties
begin

text \<open>
  The compiler and the permit bridge together: the terms the bridge reads from a compiled debit
  vertical are exactly the legs, the package price and the width that were selected, and the
  permit it builds is the compiled package and nothing else.
\<close>

section \<open>Dates and texts read back\<close>

lemma pad_digits_props:
  "0 \<le> n \<Longrightarrow> n < 10 ^ k \<Longrightarrow> int (nat_of_digs (pad_digits k n)) = n \<and> list_all is_digit (pad_digits k n)"
proof (induction k arbitrary: n)
  case (Suc k)
  have c: "char_of (nat (48 + n mod 10)) = digit_char (nat (n mod 10))"
    by (simp add: digit_char_def nat_add_distrib)
  have "nat (n mod 10) < 10" by (simp add: nat_less_iff)
  note d = digit_char_props [OF this]
  have "n div 10 < 10 ^ k" using Suc.prems by (simp add: div_less_iff_less_mult)
  then have "int (nat_of_digs (pad_digits k (n div 10))) = n div 10 \<and> list_all is_digit (pad_digits k (n div 10))"
    using Suc.IH [of "n div 10"] Suc.prems by (simp add: pos_imp_zdiv_nonneg_iff)
  then show ?case by (simp add: c d)
qed simp

lemma pad_digits_length [simp]: "length (pad_digits k n) = k"
  by (induction k arbitrary: n) simp_all

lemma valid_date_bounds:
  assumes "valid_date (y, m, d)"
  shows "0 \<le> y" "y < 10 ^ 4" "0 \<le> m" "m < 10 ^ 2" "0 \<le> d" "d < 10 ^ 2"
  using assms by (auto simp: valid_date_def days_in_month_def split: if_splits)

lemma iso_date_of_text: "valid_date d \<Longrightarrow> iso_date_of (date_text d) = Some d"
proof (cases d)
  fix y m dd assume v: "valid_date d" and d: "d = (y, m, dd)"
  note b = valid_date_bounds [of y m dd, OF v [unfolded d]]
  note y = pad_digits_props [OF b(1,2)] and m = pad_digits_props [OF b(3,4)] and dd = pad_digits_props [OF b(5,6)]
  have parts: "take 4 (date_text d) = pad_digits 4 y" "take 2 (drop 5 (date_text d)) = pad_digits 2 m"
    "drop 8 (date_text d) = pad_digits 2 dd"
    by (simp_all add: d date_text_def del: pad_digits.simps)
  show ?thesis unfolding iso_date_of_def Let_def parts using y m dd v by (simp add: d del: pad_digits.simps)
qed

lemma date_text_exact: "valid_date d \<Longrightarrow> exact_text (date_text d)"
proof (cases d)
  fix y m dd assume v: "valid_date d" and d: "d = (y, m, dd)"
  note b = valid_date_bounds [of y m dd, OF v [unfolded d]]
  have "list_all number_char (date_text d)"
    using pad_digits_props [OF b(1,2)] pad_digits_props [OF b(3,4)] pad_digits_props [OF b(5,6)]
    by (auto simp: d date_text_def number_char_def list_all_iff simp del: pad_digits.simps)
  then have "strip (date_text d) = date_text d"
    by (intro strip_no_space) (auto simp: list_all_iff number_char_plain)
  then show ?thesis by (simp add: exact_text_def d date_text_def del: pad_digits.simps)
qed

lemma normalized_exact: "normalized_symbol s \<Longrightarrow> exact_text s"
proof -
  assume s: "normalized_symbol s"
  then have "length (strip s) = length s" by (metis normalized_symbol_def length_map upper_def)
  moreover have "length (lstrip s) \<le> length s" by (simp add: lstrip_def length_dropWhile_le)
  moreover have "length (strip s) \<le> length (lstrip s)"
    by (simp add: strip_def lstrip_def) (metis length_dropWhile_le length_rev)
  ultimately have l: "length (lstrip s) = length s" "length (lstrip (rev (lstrip s))) = length (rev (lstrip s))"
    by (simp_all add: strip_def)
  have same: "lstrip t = t" if "length (lstrip t) = length t" for t
  proof -
    have parts: "takeWhile is_space t @ lstrip t = t" by (simp add: lstrip_def)
    then have "length (takeWhile is_space t) + length (lstrip t) = length t" by (metis length_append)
    then have "takeWhile is_space t = []" using that by simp
    with parts show ?thesis by (metis append_Nil)
  qed
  have "strip s = s" using same [OF l(2)] unfolding strip_def same [OF l(1)] by simp
  moreover have "s \<noteq> []" using s unfolding normalized_symbol_def by blast
  ultimately show ?thesis unfolding exact_text_def by simp
qed

lemma leg_expiry_valid: "option_leg_checks l = None \<Longrightarrow> valid_date (leg_expiry l)"
  by (auto simp: option_leg_checks_def first_reject_None split: option.splits)

section \<open>Terms of a compiled vertical\<close>

lemma text_member_str: "json_get b n = Some (JStr s) \<Longrightarrow> exact_text s \<Longrightarrow> text_member b n = Some s"
  by (simp add: text_member_def)

lemma decimal_member_str: "json_get b n = Some (JStr (dec_str x)) \<Longrightarrow> is_finite x \<Longrightarrow> decimal_member b n = Some x"
  by (simp add: decimal_member_def dec_parse_str)

lemma option_type_round: "option_type_of (option_type_value t) = Some t" "exact_text (option_type_value t)"
  by (cases t; simp add: option_type_of_def text_defs)+

lemma vertical_type_round: "vertical_type_of (vertical_type_value t) = Some t" "exact_text (vertical_type_value t)"
  by (cases t; simp add: vertical_type_of_def text_defs)+

lemma leg_term_payload:
  assumes "option_leg_checks l = None" "exact_text (leg_symbol l)" "leg_ratio l = 1"
  shows "leg_term (compiled_leg_payload l) (leg_underlying l) (leg_expiry l) (leg_side l) (leg_intent l) = Some l"
proof -
  have fin: "is_finite (leg_strike l)" using option_leg_checks_None(1) [OF assms(1)] .
  have "text_member (compiled_leg_payload l) ''symbol'' = Some (leg_symbol l)"
    "text_member (compiled_leg_payload l) ''option_type'' = Some (option_type_value (leg_type l))"
    "decimal_member (compiled_leg_payload l) ''strike'' = Some (leg_strike l)"
    by (rule text_member_str decimal_member_str; simp add: compiled_leg_payload_def assms(2) option_type_round fin)+
  moreover have "\<lparr>leg_symbol = leg_symbol l, leg_underlying = leg_underlying l, leg_expiry = leg_expiry l, leg_type = leg_type l,
      leg_strike = leg_strike l, leg_side = leg_side l, leg_intent = leg_intent l, leg_ratio = 1\<rparr> = l"
    using assms(3) by simp
  ultimately show ?thesis using assms(1) unfolding leg_term_def by (simp add: option_type_round demand_def Let_def)
qed

lemma times_one:
  assumes "is_finite x" "representable (dval x)"
  shows "dec_eq x (dec_mul x (dec_of_int 1))"
proof -
  obtain a j where "dval x = of_int a * 10 powi j" "\<bar>a\<bar> < 10 ^ prec" using assms(2) unfolding representable_def by blast
  then have "dval (dec_mul x (Fin 1 0)) = dval x" using dec_mul_representable [OF assms(1), of "Fin 1 0" a j] by simp
  then show ?thesis using assms(1) by (simp add: dec_of_int_def dec_eq_iff)
qed

text \<open>The terms that the selected legs and package stand for.\<close>

definition selected_terms :: "bool \<Rightarrow> expression_market_snapshot \<Rightarrow> package_observation \<Rightarrow> vertical_geometry \<Rightarrow> option_leg \<Rightarrow> option_leg \<Rightarrow> permit_terms" where
  "selected_terms up m p g long short =
     \<lparr>vt_underlying = ms_underlying m, vt_vertical_type = vertical_of up, vt_expiry = leg_expiry long, vt_quantity = 1,
      vt_limit_price = pk_net_ask p, vt_width = vg_width g, vt_maximum_loss = dec_mul (pk_net_ask p) CONTRACT_MULTIPLIER,
      vt_long_leg = long, vt_short_leg = short\<rparr>"

lemma block_terms_selected:
  assumes legs: "option_leg_checks long = None" "option_leg_checks short = None" "exact_text (leg_symbol long)" "exact_text (leg_symbol short)"
      "leg_ratio long = 1" "leg_ratio short = 1"
    and sides: "leg_side long = BUY" "leg_intent long = BUY_TO_OPEN" "leg_side short = SELL" "leg_intent short = SELL_TO_OPEN"
    and join: "leg_underlying long = ms_underlying m" "leg_underlying short = ms_underlying m" "leg_expiry short = leg_expiry long"
      "exact_text (ms_underlying m)"
    and money: "is_finite (pk_net_ask p)" "0 < dval (pk_net_ask p)" "is_finite (vg_width g)" "0 < dval (vg_width g)"
  shows "block_terms (debit_vertical_block up m p (vg_width g) (JStr (dec_str (dec_mul (pk_net_ask p) CONTRACT_MULTIPLIER))) long short)
    = Some (selected_terms up m p g long short)"
proof -
  let ?loss = "dec_mul (pk_net_ask p) CONTRACT_MULTIPLIER"
  define b where "b = debit_vertical_block up m p (vg_width g) (JStr (dec_str ?loss)) long short"
  note loss = dec_mul_hundred [OF money(1,2)]
  have expiry: "valid_date (leg_expiry long)" by (rule leg_expiry_valid [OF legs(1)])
  have texts: "text_member b ''underlying'' = Some (ms_underlying m)" "text_member b ''expiry'' = Some (date_text (leg_expiry long))"
    "text_member b ''vertical_type'' = Some (vertical_type_value (vertical_of up))"
    by (rule text_member_str; simp add: b_def debit_vertical_block_def join(4) date_text_exact expiry vertical_type_round)+
  have decimals: "decimal_member b ''limit_price'' = Some (pk_net_ask p)" "decimal_member b ''width'' = Some (vg_width g)"
    "decimal_member b ''maximum_loss'' = Some ?loss"
    by (rule decimal_member_str; simp add: b_def debit_vertical_block_def money loss)+
  have maps: "mapping_member b ''long_leg'' = Some (compiled_leg_payload long)" "mapping_member b ''short_leg'' = Some (compiled_leg_payload short)"
    "json_get b ''quantity'' = Some (JInt 1)"
    by (simp_all add: b_def debit_vertical_block_def mapping_member_def compiled_leg_payload_def)
  have positive: "dec_lt dec_zero (pk_net_ask p)" "dec_lt dec_zero (vg_width g)" "dec_lt dec_zero ?loss"
    using money loss by (simp_all add: dec_order)
  have terms: "leg_term (compiled_leg_payload long) (ms_underlying m) (leg_expiry long) BUY BUY_TO_OPEN = Some long"
    "leg_term (compiled_leg_payload short) (ms_underlying m) (leg_expiry long) SELL SELL_TO_OPEN = Some short"
    using leg_term_payload [OF legs(1,3,5)] leg_term_payload [OF legs(2,4,6)] by (simp_all add: sides join)
  show ?thesis unfolding b_def [symmetric] block_terms_def
    by (simp add: texts decimals maps positive terms iso_date_of_text [OF expiry] vertical_type_round demand_def selected_terms_def)
qed

lemma snapshot_underlying: "market_snapshot_ok m \<Longrightarrow> normalized_symbol (ms_underlying m)"
  by (auto simp: market_snapshot_ok_def market_snapshot_checks_def first_reject_None)

lemma block_is_object: "is_object (debit_vertical_block up m p width loss long short)"
  by (simp add: debit_vertical_block_def)

lemma vertical_terms_selected:
  assumes c: "c = bound_expression DEBIT_VERTICAL event b now None None
      (Some (debit_vertical_block up m p (vg_width g) (max_loss_text (debit_vertical_economics event p (vg_width g) pol)) long short))"
    and g: "select_vertical_geometry m pol up asof = Inr g" and p: "select_package m g = Inr p"
    and e: "compared (debit_vertical_economics event p (vg_width g) pol)"
    and l: "build_option_leg (vg_long_leg g) BUY BUY_TO_OPEN = Inr long" and s: "build_option_leg (vg_short_leg g) SELL SELL_TO_OPEN = Inr short"
    and ok: "market_snapshot_ok m" "promoted_policy_checks pol = None"
  shows "vertical_terms c = Inr (selected_terms up m p g long short)"
proof -
  let ?t = "selected_terms up m p g long short"
  note geo = select_vertical_geometry_Inr [OF g] and width = vertical_width_finite [OF g]
  note chain = snapshot_chain_ok [OF ok(1) select_long_contract_Inr(1) [OF geo(1)]] snapshot_chain_ok [OF ok(1) geo(2)]
  have fin: "is_finite (pk_net_ask p)" using snapshot_package_ok(1) [OF ok(1) select_package_Inr(1) [OF p]] .
  note loss = vertical_loss [OF e fin width(1) ok(2)]
  note long = build_option_leg_Inr [OF l] and short = build_option_leg_Inr [OF s]
  have fields: "leg_symbol long = oc_symbol (vg_long_leg g)" "leg_symbol short = oc_symbol (vg_short_leg g)"
    "leg_underlying long = ms_underlying m" "leg_underlying short = ms_underlying m" "leg_expiry short = leg_expiry long"
    "leg_strike long = oc_strike (vg_long_leg g)" "leg_strike short = oc_strike (vg_short_leg g)"
    "leg_ratio long = 1" "leg_ratio short = 1" "leg_side long = BUY" "leg_intent long = BUY_TO_OPEN" "leg_side short = SELL" "leg_intent short = SELL_TO_OPEN"
    using chain geo(3) by (subst long(3) short(3), simp add: short_candidate_def)+
  have exact: "exact_text (leg_symbol long)" "exact_text (leg_symbol short)" "exact_text (ms_underlying m)"
    unfolding fields by (fact normalized_exact [OF chain(6)] normalized_exact [OF chain(12)] normalized_exact [OF snapshot_underlying [OF ok(1)]])+
  have shown: "max_loss_text (debit_vertical_economics event p (vg_width g) pol) = JStr (dec_str (dec_mul (pk_net_ask p) CONTRACT_MULTIPLIER))"
    by (simp add: max_loss_text_def loss(1))
  have terms: "block_terms (debit_vertical_block up m p (vg_width g) (JStr (dec_str (dec_mul (pk_net_ask p) CONTRACT_MULTIPLIER))) long short) = Some ?t"
    by (rule block_terms_selected; simp add: long(1) short(1) exact [unfolded fields] fields fin loss(4) width)
  have "is_finite (dec_mul (pk_net_ask p) CONTRACT_MULTIPLIER)" "representable (dval (dec_mul (pk_net_ask p) CONTRACT_MULTIPLIER))"
    using fin representable_results(1) by (simp_all add: CONTRACT_MULTIPLIER_def)
  then have "first_reject (term_guards ?t) = None"
    using times_one [of "dec_mul (pk_net_ask p) CONTRACT_MULTIPLIER"] width(1)
    by (simp add: term_guards_def unless_def selected_terms_def geo(4) leg_distance_def fields CONTRACT_MULTIPLIER_def)
  then show ?thesis
    by (simp add: vertical_terms_def c bound_expression_def unless_def shown terms guarded_def block_is_object)
qed

section \<open>A compiled vertical is a defined-risk package\<close>

definition recent :: "expression_market_snapshot \<Rightarrow> promoted_expression_policy \<Rightarrow> datetime \<Rightarrow> bool" where
  "recent m pol t = (0 \<le> observation_age m t \<and> observation_age m t \<le> milliseconds (xp_quote_max_age_ms pol))"

definition defined_risk ::
    "expression_market_snapshot \<Rightarrow> promoted_expression_policy \<Rightarrow> bool \<Rightarrow> option_contract_observation \<Rightarrow> option_contract_observation
     \<Rightarrow> package_observation \<Rightarrow> bool" where
  "defined_risk m pol up long short p =
     (let asof = utc_date (ms_observation_clock_at m)
      in long \<in> set (ms_chain m) \<and> short \<in> set (ms_chain m) \<and> p \<in> set (ms_packages m)
         \<and> contract_is_eligible long pol (direction_type up) asof \<and> contract_is_eligible short pol (direction_type up) asof
         \<and> oc_expiry short = oc_expiry long \<and> 1 \<le> contract_dte long asof
         \<and> (if up then dval (oc_strike long) < dval (oc_strike short) else dval (oc_strike short) < dval (oc_strike long))
         \<and> pk_legs p = [oc_symbol long, oc_symbol short]
         \<and> recent m pol (tq_observed_at (oc_quote long)) \<and> recent m pol (tq_observed_at (oc_quote short)) \<and> recent m pol (pk_observed_at p)
         \<and> \<bar>instant (tq_observed_at (oc_quote long)) - instant (tq_observed_at (oc_quote short))\<bar> \<le> milliseconds (xp_cross_leg_skew_max_ms pol)
         \<and> \<not> dec_lt (leg_distance long short) (xp_width_min pol) \<and> \<not> dec_lt (xp_width_max pol) (leg_distance long short)
         \<and> 0 < dval (pk_net_ask p)
         \<and> dval (dec_mul (pk_net_ask p) CONTRACT_MULTIPLIER) < dval (dec_mul (leg_distance long short) CONTRACT_MULTIPLIER)
         \<and> dval (dec_mul (pk_net_ask p) CONTRACT_MULTIPLIER) \<le> dval (xp_operational_loss_budget pol))"

lemma age_fresh: "first_reject (validate_observation_age m pol t path) = None \<longleftrightarrow> recent m pol t"
  by (auto simp: validate_observation_age_def recent_def)

lemma quote_fresh: "first_reject (validate_quote q m pol path) = None \<Longrightarrow> recent m pol (tq_observed_at q)"
  by (auto simp: validate_quote_def first_reject_append age_fresh split: option.splits)

lemma option_guards_fresh: "first_reject (option_guards k path m pol) = None \<Longrightarrow> recent m pol (tq_observed_at (oc_quote k))"
  by (auto simp: option_guards_def first_reject_append intro: quote_fresh split: option.splits)

lemma package_fresh: "first_reject (validate_package p m pol path) = None \<Longrightarrow> recent m pol (pk_observed_at p)"
  by (auto simp: validate_package_def first_reject_append age_fresh split: option.splits)

lemma skew_bound:
  assumes "first_reject (validate_cross_leg_skew [a, b] pol) = None"
  shows "\<bar>instant (tq_observed_at a) - instant (tq_observed_at b)\<bar> \<le> milliseconds (xp_cross_leg_skew_max_ms pol)"
  using assms by (auto simp: validate_cross_leg_skew_def Let_def split: if_splits)

lemma vertical_guards_None:
  assumes "first_reject (vertical_guards g m pol) = None"
  shows "recent m pol (tq_observed_at (oc_quote (vg_long_leg g)))" "recent m pol (tq_observed_at (oc_quote (vg_short_leg g)))"
    "\<bar>instant (tq_observed_at (oc_quote (vg_long_leg g))) - instant (tq_observed_at (oc_quote (vg_short_leg g)))\<bar>
       \<le> milliseconds (xp_cross_leg_skew_max_ms pol)"
  using assms
  by (auto simp: vertical_guards_def first_reject_append intro: skew_bound option_guards_fresh split: option.splits)

lemma compiled_defined_risk:
  assumes "select_vertical_geometry m pol up (utc_date (ms_observation_clock_at m)) = Inr g" "first_reject (vertical_guards g m pol) = None"
    "1 \<le> contract_dte (vg_long_leg g) (utc_date (ms_observation_clock_at m))" "select_package m g = Inr p"
    "first_reject (validate_package p m pol path) = None" "compared (debit_vertical_economics event p (vg_width g) pol)"
    "market_snapshot_ok m" "promoted_policy_checks pol = None"
  shows "defined_risk m pol up (vg_long_leg g) (vg_short_leg g) p"
proof -
  note geo = select_vertical_geometry_Inr [OF assms(1)] and width = vertical_width_finite [OF assms(1)]
  note long = select_long_contract_Inr [OF geo(1)] and pack = select_package_Inr [OF assms(4)]
  have fin: "is_finite (pk_net_ask p)" using snapshot_package_ok(1) [OF assms(7) pack(1)] .
  note loss = vertical_loss [OF assms(6) fin width(1) assms(8)]
  have "is_finite (dec_mul (pk_net_ask p) CONTRACT_MULTIPLIER)" "is_finite (dec_mul (vg_width g) CONTRACT_MULTIPLIER)"
    using fin width by (simp_all add: CONTRACT_MULTIPLIER_def)
  then have "dval (dec_mul (pk_net_ask p) CONTRACT_MULTIPLIER) < dval (dec_mul (vg_width g) CONTRACT_MULTIPLIER)"
    using loss(3) by (simp add: dec_order)
  moreover have "dval (dec_mul (pk_net_ask p) CONTRACT_MULTIPLIER) \<le> dval (xp_operational_loss_budget pol)"
    using loss(1,2) by (simp add: loss_within_def)
  moreover have "if up then dval (oc_strike (vg_long_leg g)) < dval (oc_strike (vg_short_leg g))
      else dval (oc_strike (vg_short_leg g)) < dval (oc_strike (vg_long_leg g))"
    using geo(3) snapshot_chain_ok(3) [OF assms(7) long(1)] snapshot_chain_ok(3) [OF assms(7) geo(2)]
    by (auto simp: short_candidate_def dec_order)
  ultimately show ?thesis
    using geo(2,3,5,6) long(1,2) pack(1,3) assms(3) vertical_guards_None [OF assms(2)] package_fresh [OF assms(5)] loss(4)
    by (auto simp: defined_risk_def Let_def geo(4) short_candidate_def)
qed

lemma compiled_vertical_shape:
  assumes "compile_expression H d bytes m pol psha gate now = Inr c" "xp_expression_kind pol = DEBIT_VERTICAL"
    "market_snapshot_ok m" "promoted_policy_checks pol = None"
  obtains g long short p b loss where "c = bound_expression DEBIT_VERTICAL (sd_event_id d) b now None None
      (Some (debit_vertical_block (sd_direction d = UP) m p (vg_width g) loss long short))"
    "vertical_terms c = Inr (selected_terms (sd_direction d = UP) m p g long short)"
    "defined_risk m pol (sd_direction d = UP) (vg_long_leg g) (vg_short_leg g) p" "vg_width g = leg_distance (vg_long_leg g) (vg_short_leg g)"
    "build_option_leg (vg_long_leg g) BUY BUY_TO_OPEN = Inr long" "build_option_leg (vg_short_leg g) SELL SELL_TO_OPEN = Inr short"
proof -
  obtain b where run: "compile_debit_vertical (sd_direction d = UP) m pol (sd_event_id d) b now = Inr c"
    using assms(1,2) by (auto simp: compile_expression_def admit_Inr Let_def)
  from run show thesis
  proof (rule compile_debit_vertical_Inr)
    fix g :: vertical_geometry and long short :: option_leg and p :: package_observation
    let ?e = "debit_vertical_economics (sd_event_id d) p (vg_width g) pol"
    assume g: "select_vertical_geometry m pol (sd_direction d = UP) (utc_date (ms_observation_clock_at m)) = Inr g"
      and p: "select_package m g = Inr p" and e: "compared ?e"
      and legs: "build_option_leg (vg_long_leg g) BUY BUY_TO_OPEN = Inr long" "build_option_leg (vg_short_leg g) SELL SELL_TO_OPEN = Inr short"
      and rest: "first_reject (vertical_guards g m pol) = None" "1 \<le> contract_dte (vg_long_leg g) (utc_date (ms_observation_clock_at m))"
        "first_reject (validate_package p m pol (''package.'' @ pk_package_id p)) = None"
      and c: "c = bound_expression DEBIT_VERTICAL (sd_event_id d) b now None None
        (Some (debit_vertical_block (sd_direction d = UP) m p (vg_width g) (max_loss_text ?e) long short))"
    show thesis
      by (rule that [OF c vertical_terms_selected [OF c g p e legs assms(3,4)] compiled_defined_risk [OF g rest(1,2) p rest(3) e assms(3,4)]
          select_vertical_geometry_Inr(4) [OF g] legs])
  qed
qed

text \<open>
  C18. A compiled debit vertical is a defined-risk package of the observed market, and the permit
  bridge reads exactly that package back: two eligible contracts of the chain with one expiry at
  least one day away, strikes in the order of the direction and a distance within the bounds of
  the policy, fresh quotes taken close together, one observed package of exactly those legs whose
  debit is positive, below the width and within the budget; the terms the bridge recovers from the
  block are those legs, that net ask as limit price, that width and that maximum loss.
\<close>

theorem compiled_vertical_read_back:
  assumes "compile_expression H d bytes m pol psha gate now = Inr c" "xp_expression_kind pol = DEBIT_VERTICAL"
    "market_snapshot_ok m" "promoted_policy_checks pol = None"
  shows "\<exists>long short p t. defined_risk m pol (sd_direction d = UP) long short p \<and> vertical_terms c = Inr t
    \<and> vt_underlying t = ms_underlying m \<and> vt_vertical_type t = vertical_of (sd_direction d = UP) \<and> vt_expiry t = oc_expiry long
    \<and> vt_limit_price t = pk_net_ask p \<and> vt_width t = leg_distance long short
    \<and> vt_maximum_loss t = dec_mul (pk_net_ask p) CONTRACT_MULTIPLIER
    \<and> build_option_leg long BUY BUY_TO_OPEN = Inr (vt_long_leg t) \<and> build_option_leg short SELL SELL_TO_OPEN = Inr (vt_short_leg t)"
proof -
  obtain g long short p where terms: "vertical_terms c = Inr (selected_terms (sd_direction d = UP) m p g long short)"
    and risk: "defined_risk m pol (sd_direction d = UP) (vg_long_leg g) (vg_short_leg g) p" "vg_width g = leg_distance (vg_long_leg g) (vg_short_leg g)"
    and legs: "build_option_leg (vg_long_leg g) BUY BUY_TO_OPEN = Inr long" "build_option_leg (vg_short_leg g) SELL SELL_TO_OPEN = Inr short"
    by (rule compiled_vertical_shape [OF assms])
  have "leg_expiry long = oc_expiry (vg_long_leg g)" by (subst build_option_leg_Inr(3) [OF legs(1)]) simp
  then show ?thesis using terms risk legs
    by (intro exI [of _ "vg_long_leg g"] exI [of _ "vg_short_leg g"] exI [of _ p]
        exI [of _ "selected_terms (sd_direction d = UP) m p g long short"]) (simp add: selected_terms_def)
qed

section \<open>The permit is the compiled package\<close>

lemma unless_None [simp]: "first_reject (unless ok path # gs) = None \<longleftrightarrow> ok \<and> first_reject gs = None"
  by (simp add: unless_def)

lemma vertical_terms_Inr:
  assumes "vertical_terms c = Inr t"
  obtains v where "expression_kind c = DEBIT_VERTICAL" "debit_vertical c = Some v" "block_terms v = Some t" "first_reject (term_guards t) = None"
  using assms by (auto simp: vertical_terms_def guarded_Inr split: option.splits)

lemma leg_term_Some: "leg_term b u x side intent = Some l \<Longrightarrow> option_leg_checks l = None"
  by (auto simp: leg_term_def demand_def Let_def Option.bind_eq_Some_conv split: if_splits)

lemma block_terms_Some:
  assumes "block_terms v = Some t"
  shows "decimal_member v ''maximum_loss'' = Some (vt_maximum_loss t)" "dec_lt dec_zero (vt_maximum_loss t)"
    "option_leg_checks (vt_long_leg t) = None" "option_leg_checks (vt_short_leg t) = None"
  using assms by (auto simp: block_terms_def demand_def Option.bind_eq_Some_conv split: if_splits intro: leg_term_Some)

lemma decimal_member_field:
  assumes "decimal_member v n = Some x" "dec_lt dec_zero x"
  shows "block_field (Some v) n path = Inr x" "is_finite x"
  using assms by (auto simp: decimal_member_def block_field_def decimal_field_def Let_def dec_order split: option.splits if_splits json.splits)

lemma vertical_terms_exposure:
  assumes "vertical_terms c = Inr t"
  shows "expression_exposure c = Inr (vt_maximum_loss t)" "is_finite (vt_maximum_loss t)"
proof -
  obtain v where v: "expression_kind c = DEBIT_VERTICAL" "debit_vertical c = Some v" "block_terms v = Some t"
    using assms by (rule vertical_terms_Inr)
  show "expression_exposure c = Inr (vt_maximum_loss t)" "is_finite (vt_maximum_loss t)"
    using decimal_member_field [OF block_terms_Some(1,2) [OF v(3)]] by (simp_all add: expression_exposure_def v)
qed

lemma construct_permit_Inr [outcome_simps]: "construct_permit p = Inr q \<longleftrightarrow> q = p \<and> permit_checks p = None"
  by (auto simp: construct_permit_def split: option.splits)

lemma build_Inr:
  assumes "build_debit_vertical_permit H c si d k issued expires = Inr p"
  obtains t where "first_reject (build_guards H c si d k issued expires) = None" "vertical_terms c = Inr t"
    "p = from_frozen_decision c si k issued expires t (permit_id p)" "permit_checks p = None"
    "first_reject (permit_binding_guards H c t p k) = None"
proof -
  obtain t where t: "first_reject (build_guards H c si d k issued expires) = None" "vertical_terms c = Inr t"
    and p: "p = from_frozen_decision c si k issued expires t
        (debit_vertical_permit_id H (from_frozen_decision c si k issued expires t ''UNBOUND''))" (is "_ = from_frozen_decision c si k issued expires t ?pid")
    and ok: "permit_checks p = None" "validate_compiled_permit H c p k (Some (utc_at (instant issued))) = Inr ()"
    using assms unfolding build_debit_vertical_permit_def by (auto simp: outcome_simps Let_def)
  have "permit_id p = ?pid" by (simp add: p from_frozen_decision_def)
  then have "p = from_frozen_decision c si k issued expires t (permit_id p)" using p by simp
  moreover have "first_reject (permit_binding_guards H c t p k) = None"
    using ok(2) t(2) by (auto simp: validate_compiled_permit_def outcome_simps first_reject_append split: option.splits)
  ultimately show thesis using that t ok(1) by blast
qed

text \<open>
  C16. A permit that the bridge builds is the compiled package and nothing else. It is a
  well-formed opening permit whose identity is derived from its own terms; it is bound to the
  event, the snapshot and the canonical bytes of the accepted decision, to the registered risk
  policy, protocols and Gate D receipt and to the evidence packet of the joined input; it is issued
  after the decision and the compilation and expires before the candidate's entry deadline; its
  maximum loss is exactly the exposure the risk kernel computes for the compiled expression; and it
  validates against that expression at every UTC instant of its life.
\<close>

theorem bridged_permit_exact:
  assumes "build_debit_vertical_permit H c si d k issued expires = Inr p"
  shows "permit_ok p \<and> permit_id p = debit_vertical_permit_id H p \<and> event_run_id p = ce_event_id c
    \<and> decision_sha256 p = strategy_decision_sha256 H d \<and> snapshot_sha256 p = ce_snapshot_sha256 c
    \<and> policy_sha256 p = pb_risk_policy_sha256 k \<and> evidence_sha256 p = si_evidence_packet_sha256 si
    \<and> protocol_sha256 p = pb_permit_protocol_sha256 k \<and> execution_protocol_sha256 p = pb_execution_protocol_sha256 k
    \<and> ce_gate_d_report_sha256 c = pb_gate_d_report_sha256 k
    \<and> sd_disposition d = ACCEPTED \<and> sd_event_id d = si_event_id si \<and> sd_strategy_snapshot_sha256 d = si_snapshot_sha256 si
    \<and> instant (sd_decision_at d) \<le> instant (issued_at p) \<and> instant (compiled_at c) \<le> instant (issued_at p)
    \<and> instant (issued_at p) < instant (expires_at p) \<and> instant (expires_at p) \<le> instant (si_candidate_entry_deadline_at si)
    \<and> (\<exists>x. expression_exposure c = Inr x \<and> dval (maximum_loss p) = dval x)
    \<and> (\<forall>t. instant (issued_at p) \<le> t \<and> t < instant (expires_at p) \<longrightarrow> validate_compiled_permit H c p k (Some (utc_at t)) = Inr ())"
  using assms
proof (rule build_Inr)
  fix t :: permit_terms
  assume guards: "first_reject (build_guards H c si d k issued expires) = None" and t: "vertical_terms c = Inr t"
    and p: "p = from_frozen_decision c si k issued expires t (permit_id p)" and ok: "permit_checks p = None"
    and bind: "first_reject (permit_binding_guards H c t p k) = None"
  have fields: "issued_at p = utc_at (instant issued)" "expires_at p = utc_at (instant expires)" "evidence_sha256 p = si_evidence_packet_sha256 si"
    "long_leg p = vt_long_leg t" "short_leg p = vt_short_leg t"
    by (subst p, simp add: from_frozen_decision_def)+
  obtain v where "block_terms v = Some t" using t by (rule vertical_terms_Inr)
  then have "permit_ok p" using ok block_terms_Some(3,4) by (simp add: permit_ok_def fields)
  moreover have "dval (maximum_loss p) = dval (vt_maximum_loss t)"
    using bind vertical_terms_exposure(2) [OF t] permit_checks_None(2) [OF ok]
    by (simp add: permit_binding_guards_def maximum_loss_def dec_eq_iff)
  moreover have "validate_compiled_permit H c p k (Some (utc_at i)) = Inr ()"
    if "instant (issued_at p) \<le> i" "i < instant (expires_at p)" for i
    using that bind by (simp add: validate_compiled_permit_def t guarded_def first_reject_append active_guards_def equals_utc_def)
  ultimately show ?thesis
    using guards bind vertical_terms_exposure(1) [OF t]
    by (simp add: build_guards_def validate_strategy_lineage_def permit_binding_guards_def fields)
qed

end
