(* ===== verification/Gate_D.thy ===== *)
theory Gate_D
  imports Expression_Compiler "HOL-Library.AList"
begin

text \<open>
  \<open>execution/expression/tournament.py\<close>: the comparison of the four expressions over the same
  events, the summaries, the promotion rule and the Gate D report. A Python dict is an
  association list updated in place (\<open>AList.update\<close>), so that a repeated event identifier
  overwrites the earlier rows. An \<open>InvalidOperation\<close> of the decimal module is a value error.
\<close>

section \<open>Events and their economics\<close>

record tournament_event =
  te_event_id :: string
  te_decision_direction :: string
  te_decision_sha256 :: string
  te_outcome_direction :: "string option"
  te_snapshot :: expression_market_snapshot
  te_exit_clock_at :: datetime

definition tournament_event_checks :: "tournament_event \<Rightarrow> value_error option" where
  "tournament_event_checks e = first_reject
     [(te_event_id e = [], ''event_id must be non-empty text''),
      (te_decision_direction e \<notin> {''UP'', ''DOWN''}, ''tournament events require a validated UP or DOWN decision''),
      (te_outcome_direction e \<notin> {Some ''UP'', Some ''DOWN'', None}, ''outcome_direction must be UP, DOWN, or absent''),
      (\<not> equals_utc (te_exit_clock_at e), ''exit_clock_at must be UTC''),
      (instant (te_exit_clock_at e) < instant (ms_observation_clock_at (te_snapshot e)), ''exit clock cannot precede the observation clock'')]"

definition strict_shares_economics :: "tournament_event \<Rightarrow> promoted_expression_policy \<Rightarrow> expression_economics" where
  "strict_shares_economics e pol =
     (case first_reject (shares_guards (te_decision_direction e \<noteq> ''DOWN'') (te_snapshot e) pol) of
        Some x \<Rightarrow> rejected_economics (te_event_id e) SHARES (xr_reason x)
      | None \<Rightarrow> shares_economics (te_event_id e) (te_snapshot e) pol (te_decision_direction e = ''UP''))"

text \<open>The two \<open>try\<close> blocks of \<open>_event_economics\<close>, and the whole function.\<close>

definition tournament_contract :: "tournament_event \<Rightarrow> promoted_expression_policy \<Rightarrow> expression_rejected + option_contract_observation" where
  "tournament_contract e pol =
     (let up = (te_decision_direction e = ''UP''); m = te_snapshot e; asof = utc_date (ms_observation_clock_at m)
      in rbind (select_long_contract m pol (direction_type up) asof up) (\<lambda>c.
           guarded (option_guards c (''option.'' @ oc_symbol c) m pol) (Inr c)))"

definition tournament_vertical :: "tournament_event \<Rightarrow> promoted_expression_policy \<Rightarrow> compile_error + expression_economics" where
  "tournament_vertical e pol =
     (let up = (te_decision_direction e = ''UP''); m = te_snapshot e; asof = utc_date (ms_observation_clock_at m)
      in rbind (select_vertical_geometry m pol up asof) (\<lambda>g.
         admit (vertical_guards g m pol)
        (rbind (lift_rejection (select_package m g)) (\<lambda>p.
         admit (validate_package p m pol (''package.'' @ pk_package_id p))
           (Inr (debit_vertical_economics (te_event_id e) p (vg_width g) pol))))))"

definition event_economics :: "tournament_event \<Rightarrow> promoted_expression_policy \<Rightarrow> value_error + expression_economics list" where
  "event_economics e pol =
     (let event = te_event_id e; base = [cash_economics event, strict_shares_economics e pol]
      in case tournament_contract e pol of
           Inl x \<Rightarrow> Inr (base @ [rejected_economics event ONE_LONG_OPTION (xr_reason x), rejected_economics event DEBIT_VERTICAL (xr_reason x)])
         | Inr c \<Rightarrow>
             let rows = base @ [option_economics event c pol]
             in case tournament_vertical e pol of
                  Inr row \<Rightarrow> Inr (rows @ [row])
                | Inl (ExpressionRejection x) \<Rightarrow> Inr (rows @ [rejected_economics event DEBIT_VERTICAL (xr_reason x)])
                | Inl (CompileValueError x) \<Rightarrow> Inl x)"

definition economics_payload :: "expression_economics \<Rightarrow> json" where
  "economics_payload r =
     (let amount = (\<lambda>d. case d of None \<Rightarrow> JNull | Some x \<Rightarrow> JStr (dec_str x))
      in JObj
       [(''expression_kind'', JStr (expression_kind_value (ee_expression_kind r))), (''outcome'', JStr (ee_outcome r)),
        (''reason'', case ee_reason r of None \<Rightarrow> JNull | Some why \<Rightarrow> JStr (expression_reason_value why)),
        (''entry_cost'', amount (ee_entry_cost r)), (''max_loss'', amount (ee_max_loss r)),
        (''entry_spread_cost'', amount (ee_entry_spread_cost r))])"

section \<open>Summaries\<close>

type_synonym row_table = "(string \<times> expression_economics list) list"

text \<open>\<open>all_economics[event_id]\<close>: every event of the run has its rows in the table.\<close>

definition table_rows :: "row_table \<Rightarrow> string \<Rightarrow> expression_economics list" where
  "table_rows table event = (case map_of table event of None \<Rightarrow> [] | Some rows \<Rightarrow> rows)"

definition direction_hit_row :: "tournament_event \<Rightarrow> row_table \<Rightarrow> expression_kind \<Rightarrow> int" where
  "direction_hit_row e table kind =
     (if kind = CASH_NO_TRADE then 0
      else case te_outcome_direction e of
        None \<Rightarrow> 0
      | Some outcome \<Rightarrow>
          if filter (\<lambda>r. ee_expression_kind r = kind \<and> compared r) (table_rows table (te_event_id e)) = [] then 0
          else if outcome = te_decision_direction e then 1 else 0)"

record expression_summary =
  es_expression_kind :: expression_kind
  es_events_total :: nat
  es_events_compared :: nat
  es_events_rejected :: nat
  es_rejection_counts :: "(string \<times> int) list"
  es_total_entry_cost :: string
  es_worst_max_loss :: string
  es_direction_hits :: "int option"
  es_after_cost_edge_bps :: "string option"

definition count_reason :: "expression_economics \<Rightarrow> (string \<times> int) list \<Rightarrow> (string \<times> int) list" where
  "count_reason r counts =
     (let why = (case ee_reason r of None \<Rightarrow> ''UNKNOWN'' | Some x \<Rightarrow> expression_reason_value x);
          old = (case map_of counts why of None \<Rightarrow> 0 | Some n \<Rightarrow> n)
      in AList.update why (old + 1) counts)"

text \<open>\<open>max(values, default=Decimal(0))\<close>: the first of the largest values.\<close>

fun dec_max_of :: "dec list \<Rightarrow> dec" where
  "dec_max_of [] = dec_zero"
| "dec_max_of (x # xs) = foldl (\<lambda>a y. if dec_lt a y then y else a) x xs"

definition kind_rows :: "tournament_event list \<Rightarrow> row_table \<Rightarrow> expression_kind \<Rightarrow> expression_economics list" where
  "kind_rows events table kind =
     concat (map (\<lambda>e. filter (\<lambda>r. ee_expression_kind r = kind) (table_rows table (te_event_id e))) events)"

definition present :: "'a option list \<Rightarrow> 'a list" where
  "present xs = concat (map (\<lambda>x. case x of None \<Rightarrow> [] | Some v \<Rightarrow> [v]) xs)"

definition summarize :: "tournament_event list \<Rightarrow> row_table \<Rightarrow> expression_kind \<Rightarrow> expression_summary" where
  "summarize events table kind =
     (let rows = kind_rows events table kind; taken = filter compared rows; refused = filter (\<lambda>r. \<not> compared r) rows;
          hits = (if kind \<noteq> CASH_NO_TRADE then sum_list (map (\<lambda>e. direction_hit_row e table kind) events) else 0)
      in \<lparr>es_expression_kind = kind, es_events_total = length events, es_events_compared = length taken,
          es_events_rejected = length refused,
          es_rejection_counts = sort_key fst (fold count_reason refused []),
          es_total_entry_cost = dec_str (dec_sum (present (map ee_entry_cost taken))),
          es_worst_max_loss = dec_str (dec_max_of (present (map ee_max_loss taken))),
          es_direction_hits = (if kind \<noteq> CASH_NO_TRADE then Some hits else None),
          es_after_cost_edge_bps = map_option dec_str (after_cost_edge_basis_points rows hits)\<rparr>)"

definition summary_payload :: "expression_summary \<Rightarrow> json" where
  "summary_payload s = JObj
     [(''expression_kind'', JStr (expression_kind_value (es_expression_kind s))), (''events_total'', JInt (int (es_events_total s))),
      (''events_compared'', JInt (int (es_events_compared s))), (''events_rejected'', JInt (int (es_events_rejected s))),
      (''rejection_counts'', JList (map (\<lambda>(why, n). JObj [(''reason'', JStr why), (''count'', JInt n)]) (es_rejection_counts s))),
      (''total_entry_cost'', JStr (es_total_entry_cost s)), (''worst_max_loss'', JStr (es_worst_max_loss s)),
      (''direction_hits'', case es_direction_hits s of None \<Rightarrow> JNull | Some n \<Rightarrow> JInt n),
      (''after_cost_edge_bps'', case es_after_cost_edge_bps s of None \<Rightarrow> JNull | Some t \<Rightarrow> JStr t)]"

section \<open>Promotion\<close>

datatype promotion_screen = Refused string | Qualified dec

text \<open>One turn of the loop of \<open>_promote\<close>.\<close>

definition screen_summary :: "expression_summary \<Rightarrow> promoted_expression_policy \<Rightarrow> value_error + promotion_screen" where
  "screen_summary s pol =
     (if int (es_events_compared s) < xp_evidence_min_events pol then Inr (Refused ''INSUFFICIENT_EVENTS'')
      else case es_after_cost_edge_bps s of
        None \<Rightarrow> Inr (Refused ''NO_COMPARED_EVENTS'')
      | Some t \<Rightarrow>
          (case dec_parse t of
             None \<Rightarrow> Inl ''InvalidOperation''
           | Some edge \<Rightarrow>
               if edge = NaN then Inl ''InvalidOperation''
               else if dec_lt edge (xp_evidence_threshold pol) then Inr (Refused ''BELOW_EVIDENCE_THRESHOLD'')
               else Inr (Qualified edge)))"

definition PROMOTABLE :: "expression_kind list" where
  "PROMOTABLE = [DEBIT_VERTICAL, ONE_LONG_OPTION, SHARES]"

definition promotion_key :: "expression_kind \<times> dec \<Rightarrow> rat \<times> string" where
  "promotion_key q = (dval (dec_minus (snd q)), expression_kind_value (fst q))"

definition promote ::
    "(expression_kind \<Rightarrow> expression_summary) \<Rightarrow> promoted_expression_policy \<Rightarrow> value_error + expression_kind option \<times> string list" where
  "promote summaries pol =
     rbind (rmap_list (\<lambda>kind. rbind (screen_summary (summaries kind) pol) (\<lambda>x. Inr (kind, x))) PROMOTABLE) (\<lambda>screened.
       let reasons = concat (map (\<lambda>(kind, x). case x of Refused why \<Rightarrow> [why] | Qualified _ \<Rightarrow> []) screened);
           qualifying = concat (map (\<lambda>(kind, x). case x of Refused _ \<Rightarrow> [] | Qualified edge \<Rightarrow> [(kind, edge)]) screened)
       in if qualifying = [] then Inr (None, sort (remdups reasons))
          else Inr (Some (fst (hd (sort_key promotion_key qualifying))), []))"

section \<open>The report\<close>

record gate_d_report =
  gr_report_id :: string
  gr_policy_sha256 :: string
  gr_evaluated_at :: datetime
  gr_event_payloads :: "json list"
  gr_summaries :: "expression_summary list"
  gr_promoted :: "expression_kind option"
  gr_promotion_reason_codes :: "string list"
  gr_option_history_status :: string
  gr_option_history_blockers :: "string list"

definition gate_d_report_checks :: "gate_d_report \<Rightarrow> value_error option" where
  "gate_d_report_checks r = first_reject
     [(gr_report_id r = [], ''report_id must be non-empty text''),
      (length (gr_policy_sha256 r) \<noteq> 64, ''policy_sha256 must be a SHA-256 digest''),
      (\<not> equals_utc (gr_evaluated_at r), ''evaluated_at must be UTC''),
      (gr_promoted r = Some CASH_NO_TRADE, ''cash is the baseline and cannot be promoted''),
      (\<not> sorted_unique (gr_promotion_reason_codes r), ''promotion_reason_codes must be sorted unique text''),
      (gr_option_history_status r \<notin> {''AVAILABLE'', ''NOT_RUN''}, ''option_history_status must be AVAILABLE or NOT_RUN''),
      (\<not> sorted_unique (gr_option_history_blockers r), ''option_history_blockers must be sorted unique text'')]"

definition tournament_event_payload :: "hash_function \<Rightarrow> tournament_event \<Rightarrow> expression_economics list \<Rightarrow> json" where
  "tournament_event_payload H e rows = JObj
     [(''event_id'', JStr (te_event_id e)), (''decision_direction'', JStr (te_decision_direction e)),
      (''decision_sha256'', JStr (te_decision_sha256 e)),
      (''outcome_direction'', case te_outcome_direction e of None \<Rightarrow> JNull | Some d \<Rightarrow> JStr d),
      (''snapshot_sha256'', JStr (market_snapshot_sha256 H (te_snapshot e))),
      (''decision_timestamp'', JStr (isoformat_z (ms_observation_clock_at (te_snapshot e)))),
      (''exit_clock_at'', JStr (isoformat_z (te_exit_clock_at e))), (''economics'', JList (map economics_payload rows))]"

definition EXPRESSION_ORDER :: "expression_kind list" where
  "EXPRESSION_ORDER = [CASH_NO_TRADE, SHARES, ONE_LONG_OPTION, DEBIT_VERTICAL]"

definition economics_table :: "(tournament_event \<times> expression_economics list) list \<Rightarrow> row_table" where
  "economics_table compared_events = fold (\<lambda>(e, rows) table. AList.update (te_event_id e) rows table) compared_events []"

definition option_history :: "row_table \<Rightarrow> string \<times> string list" where
  "option_history table =
     (let rows = filter (\<lambda>r. ee_expression_kind r = ONE_LONG_OPTION) (concat (map snd table))
      in if filter compared rows \<noteq> [] then (''AVAILABLE'', [])
         else (''NOT_RUN'', sort (remdups (map expression_reason_value (present (map ee_reason rows))))))"

definition tournament_guards ::
    "hash_function \<Rightarrow> promoted_expression_policy \<Rightarrow> string \<Rightarrow> tournament_event list \<Rightarrow> datetime \<Rightarrow> expression_guards" where
  "tournament_guards H pol policy_sha events evaluated_at =
     [(events = [], xreject XR_UNSUPPORTED_INPUT ''tournament.events''),
      (\<not> equals_utc evaluated_at, xreject XR_UNSUPPORTED_INPUT ''tournament.evaluated_at''),
      (policy_sha \<noteq> promoted_policy_sha256 H pol, xreject POLICY_HASH_MISMATCH ''policy_sha256'')]"

definition compare_events ::
    "promoted_expression_policy \<Rightarrow> tournament_event list \<Rightarrow> value_error + (tournament_event \<times> expression_economics list) list" where
  "compare_events pol events = rmap_list (\<lambda>e. rbind (event_economics e pol) (\<lambda>rows. Inr (e, rows))) events"

definition lift_value_error :: "value_error + 'a \<Rightarrow> compile_error + 'a" where
  "lift_value_error = map_sum CompileValueError id"

definition run_gate_d_tournament ::
    "hash_function \<Rightarrow> string \<Rightarrow> promoted_expression_policy \<Rightarrow> string \<Rightarrow> tournament_event list \<Rightarrow> datetime
     \<Rightarrow> compile_error + gate_d_report" where
  "run_gate_d_tournament H report_id pol policy_sha events evaluated_at =
     admit (tournament_guards H pol policy_sha events evaluated_at)
    (rbind (lift_value_error (compare_events pol events)) (\<lambda>compared_events.
       let table = economics_table compared_events; summaries = summarize events table; history = option_history table
       in rbind (lift_value_error (promote summaries pol)) (\<lambda>(promoted, reasons).
          let r = \<lparr>gr_report_id = report_id, gr_policy_sha256 = policy_sha, gr_evaluated_at = evaluated_at,
                   gr_event_payloads = map (\<lambda>(e, rows). tournament_event_payload H e rows) compared_events,
                   gr_summaries = map summaries EXPRESSION_ORDER, gr_promoted = promoted,
                   gr_promotion_reason_codes = (if promoted = None then reasons else []),
                   gr_option_history_status = fst history, gr_option_history_blockers = snd history\<rparr>
          in case gate_d_report_checks r of Some x \<Rightarrow> Inl (CompileValueError x) | None \<Rightarrow> Inr r)))"

definition GATE_D_CLAIMS :: "string list" where
  "GATE_D_CLAIMS =
     [''NOT_ALPHA_EVIDENCE'', ''OPTION_FILL_PROVES_ELIGIBILITY_NOT_SUPERIORITY'', ''UNDERLYING_RETURNS_ARE_NOT_OPTION_PNL'',
      ''NO_PAPER_MUTATION_AUTHORIZED'']"

definition gate_d_report_payload :: "gate_d_report \<Rightarrow> json" where
  "gate_d_report_payload r = JObj
     [(''schema'', JStr ''esscher.gate_d_report''), (''schema_version'', JInt 1), (''report_id'', JStr (gr_report_id r)),
      (''policy_sha256'', JStr (gr_policy_sha256 r)), (''evaluated_at'', JStr (isoformat_z (gr_evaluated_at r))),
      (''claims'', JList (map JStr GATE_D_CLAIMS)), (''paper_mutation_blocked'', JBool True),
      (''option_history_status'', JStr (gr_option_history_status r)),
      (''option_history_blockers'', JList (map JStr (gr_option_history_blockers r))),
      (''events'', JList (gr_event_payloads r)), (''summaries'', JList (map summary_payload (gr_summaries r))),
      (''promoted'', case gr_promoted r of None \<Rightarrow> JNull | Some k \<Rightarrow> JStr (expression_kind_value k)),
      (''promotion_reason_codes'', JList (if gr_promoted r = None then map JStr (gr_promotion_reason_codes r) else [])),
      (''no_expression'', JBool (gr_promoted r = None)),
      (''promotion_label'', JStr (case gr_promoted r of None \<Rightarrow> ''NO_EXPRESSION'' | Some k \<Rightarrow> expression_kind_value k))]"

definition gate_d_report_bytes :: "gate_d_report \<Rightarrow> string" where
  "gate_d_report_bytes r = canonical_json_bytes (gate_d_report_payload r)"

definition gate_d_report_sha256 :: "hash_function \<Rightarrow> gate_d_report \<Rightarrow> string" where
  "gate_d_report_sha256 H r = H (gate_d_report_bytes r)"

end
