(* ===== verification/Gate_D_Properties.thy ===== *)
theory Gate_D_Properties
  imports Gate_D Compiler_Properties
begin

text \<open>
  The Gate D tournament: its rows agree with the compiler, every failure stays in the denominator
  and the promotion is the best qualifying expression.
\<close>

section \<open>Rows\<close>

lemma economics_kinds [simp]:
  "ee_expression_kind (rejected_economics event kind why) = kind" "ee_expression_kind (compared_economics event kind a b c) = kind"
  by (simp_all add: rejected_economics_def compared_economics_def)

lemma row_kinds [simp]:
  "ee_expression_kind (cash_economics event) = CASH_NO_TRADE" "ee_expression_kind (strict_shares_economics e pol) = SHARES"
  "ee_expression_kind (shares_economics event m pol up) = SHARES" "ee_expression_kind (option_economics event c pol) = ONE_LONG_OPTION"
  "ee_expression_kind (debit_vertical_economics event p width pol) = DEBIT_VERTICAL"
  by (simp_all add: cash_economics_def strict_shares_economics_def shares_economics_def option_economics_def debit_vertical_economics_def
      Let_def split: option.splits)

lemma tournament_vertical_kind: "tournament_vertical e pol = Inr row \<Longrightarrow> ee_expression_kind row = DEBIT_VERTICAL"
  by (auto simp: tournament_vertical_def Let_def outcome_simps)

lemma event_economics_rows:
  assumes "event_economics e pol = Inr rows"
  obtains opt vert where "rows = [cash_economics (te_event_id e), strict_shares_economics e pol, opt, vert]"
    "ee_expression_kind opt = ONE_LONG_OPTION" "ee_expression_kind vert = DEBIT_VERTICAL"
    "compared opt \<longleftrightarrow> (\<exists>c. tournament_contract e pol = Inr c \<and> compared (option_economics (te_event_id e) c pol))"
    "compared vert \<longleftrightarrow> (\<exists>c. tournament_contract e pol = Inr c) \<and> (\<exists>row. tournament_vertical e pol = Inr row \<and> compared row)"
proof (cases "tournament_contract e pol")
  case (Inl x)
  show thesis
    by (rule that [of "rejected_economics (te_event_id e) ONE_LONG_OPTION (xr_reason x)" "rejected_economics (te_event_id e) DEBIT_VERTICAL (xr_reason x)"])
      (use assms Inl in \<open>simp_all add: event_economics_def Let_def\<close>)
next
  case (Inr c)
  show thesis
  proof (cases "tournament_vertical e pol")
    case (Inl x)
    then obtain y where "x = ExpressionRejection y" using assms Inr by (cases x) (auto simp: event_economics_def Let_def)
    then show thesis
      by (intro that [of "option_economics (te_event_id e) c pol" "rejected_economics (te_event_id e) DEBIT_VERTICAL (xr_reason y)"])
        (use assms Inr Inl in \<open>simp_all add: event_economics_def Let_def\<close>)
  next
    case vert: (Inr row)
    show thesis
      by (rule that [of "option_economics (te_event_id e) c pol" row])
        (use assms Inr vert tournament_vertical_kind [OF vert] in \<open>simp_all add: event_economics_def Let_def\<close>)
  qed
qed

lemma one_row_each:
  assumes "event_economics e pol = Inr rows"
  shows "length (filter (\<lambda>r. ee_expression_kind r = kind) rows) = 1"
  using assms by (rule event_economics_rows) (cases kind; simp)

section \<open>Every failure stays in the denominator\<close>

lemma table_update: "map_of (AList.update k v t) = (map_of t)(k \<mapsto> v)"
  by (simp add: update_conv')

lemma fold_table_source:
  "map_of (fold (\<lambda>(e, rows) t. AList.update (te_event_id e) rows t) ces t) k = Some rows \<Longrightarrow>
    map_of t k = Some rows \<or> (\<exists>e. (e, rows) \<in> set ces)"
proof (induction ces arbitrary: t)
  case (Cons a ces)
  then have "map_of (AList.update (te_event_id (fst a)) (snd a) t) k = Some rows \<or> (\<exists>e. (e, rows) \<in> set ces)"
    by (cases a) simp
  then show ?case by (cases a) (auto simp: table_update split: if_splits)
qed simp

lemma fold_table_total:
  "(map_of t k \<noteq> None \<or> (\<exists>e rows. (e, rows) \<in> set ces \<and> te_event_id e = k)) \<Longrightarrow>
    map_of (fold (\<lambda>(e, rows) t. AList.update (te_event_id e) rows t) ces t) k \<noteq> None"
proof (induction ces arbitrary: t)
  case (Cons a ces)
  show ?case unfolding fold_Cons comp_apply by (rule Cons.IH) (use Cons.prems in \<open>auto simp: table_update split: prod.splits\<close>)
qed simp

lemma rmap_list_Inr_elems: "rmap_list f xs = Inr ys \<Longrightarrow> list_all2 (\<lambda>x y. f x = Inr y) xs ys"
  by (induction xs arbitrary: ys) (auto split: sum.splits)

lemma list_all2_in_set1: "list_all2 P xs ys \<Longrightarrow> x \<in> set xs \<Longrightarrow> \<exists>y \<in> set ys. P x y"
  by (induction rule: list_all2_induct) auto

lemma compare_events_Inr:
  assumes "compare_events pol events = Inr ces"
  shows "(e, rows) \<in> set ces \<Longrightarrow> event_economics e pol = Inr rows" "e \<in> set events \<Longrightarrow> \<exists>rows. (e, rows) \<in> set ces"
proof -
  have all: "list_all2 (\<lambda>x y. rbind (event_economics x pol) (\<lambda>rows. Inr (x, rows)) = Inr y) events ces"
    using assms rmap_list_Inr_elems unfolding compare_events_def by blast
  show "(e, rows) \<in> set ces \<Longrightarrow> event_economics e pol = Inr rows"
    using all by (auto simp: list_all2_conv_all_nth in_set_conv_nth rbind_Inr)
  show "e \<in> set events \<Longrightarrow> \<exists>rows. (e, rows) \<in> set ces"
    using list_all2_in_set1 [OF all, of e] by (auto simp: rbind_Inr)
qed

lemma table_row_each:
  assumes "compare_events pol events = Inr ces" "e \<in> set events"
  shows "length (filter (\<lambda>r. ee_expression_kind r = kind) (table_rows (economics_table ces) (te_event_id e))) = 1"
proof -
  obtain rows where "(e, rows) \<in> set ces" using compare_events_Inr(2) [OF assms] by blast
  then have "map_of (economics_table ces) (te_event_id e) \<noteq> None"
    unfolding economics_table_def by (intro fold_table_total) blast
  then obtain rows' where rows': "map_of (economics_table ces) (te_event_id e) = Some rows'" by blast
  then obtain e' where "(e', rows') \<in> set ces" using fold_table_source [of ces "[]"] unfolding economics_table_def by fastforce
  then have "event_economics e' pol = Inr rows'" by (rule compare_events_Inr(1) [OF assms(1)])
  then show ?thesis using one_row_each rows' by (simp add: table_rows_def)
qed

lemma kind_rows_length:
  assumes "compare_events pol events = Inr ces"
  shows "length (kind_rows events (economics_table ces) kind) = length events"
proof -
  have "length (kind_rows es (economics_table ces) kind) = length es" if "set es \<subseteq> set events" for es
    using that by (induction es) (use table_row_each [OF assms] in \<open>auto simp: kind_rows_def\<close>)
  then show ?thesis by blast
qed

lemma summary_total:
  assumes "compare_events pol events = Inr ces"
  shows "es_events_compared (summarize events (economics_table ces) kind) + es_events_rejected (summarize events (economics_table ces) kind) = length events"
  using sum_length_filter_compl [of compared "kind_rows events (economics_table ces) kind"] kind_rows_length [OF assms]
  by (simp add: summarize_def Let_def)

section \<open>Promotion\<close>

lemma dec_sub_finite_or_NaN: "is_finite (dec_sub x y) \<and> representable (dval (dec_sub x y)) \<or> dec_sub x y = NaN"
  by (cases x; cases y) (simp_all add: dec_sub_def dfix_result)

lemma edge_finite_or_NaN:
  "after_cost_edge_basis_points rows hits = Some d \<Longrightarrow> is_finite d \<and> representable (dval d) \<or> d = NaN"
  using dec_sub_finite_or_NaN by (auto simp: after_cost_edge_basis_points_def Let_def split: if_splits)

lemma parse_NaN: "dec_parse (dec_str NaN) = Some NaN"
  by code_simp

lemma dec_minus_exact:
  assumes "is_finite x" "representable (dval x)"
  shows "dval (dec_minus x) = - dval x"
proof -
  obtain m e where x: "x = Fin m e" using assms(1) by (cases x) auto
  obtain a j where a: "dval x = of_int a * 10 powi j" "\<bar>a\<bar> < 10 ^ prec" using assms(2) unfolding representable_def by blast
  have "dval (dfix m e) = of_int m * 10 powi e" by (rule dfix_representable [OF _ a(2), of _ _ j]) (use a(1) in \<open>simp add: x\<close>)
  then show ?thesis by (simp add: x dfix_minus)
qed

text \<open>What the promotion rule asks of one summary.\<close>

definition qualifies :: "expression_summary \<Rightarrow> promoted_expression_policy \<Rightarrow> dec \<Rightarrow> bool" where
  "qualifies s pol edge =
     (xp_evidence_min_events pol \<le> int (es_events_compared s) \<and> es_after_cost_edge_bps s = Some (dec_str edge) \<and> is_finite edge
      \<and> dval (xp_evidence_threshold pol) \<le> dval edge)"

lemma summary_edge:
  assumes "es_after_cost_edge_bps (summarize events table kind) = Some t" "dec_parse t = Some edge" "edge \<noteq> NaN"
  shows "t = dec_str edge" "is_finite edge" "representable (dval edge)"
proof -
  obtain rows hits d where d: "after_cost_edge_basis_points rows hits = Some d" "t = dec_str d"
    using assms(1) by (auto simp: summarize_def Let_def)
  have "d \<noteq> NaN" using assms(2,3) d(2) parse_NaN by auto
  then have fin: "is_finite d" "representable (dval d)" using edge_finite_or_NaN [OF d(1)] by auto
  then have "edge = d" using assms(2) d(2) by (simp add: dec_parse_str)
  then show "t = dec_str edge" "is_finite edge" "representable (dval edge)" using d fin by simp_all
qed

lemma threshold_finite: "promoted_policy_checks pol = None \<Longrightarrow> is_finite (xp_evidence_threshold pol)"
  by (simp add: promoted_policy_checks_def non_negative_money_iff split: if_splits)

lemma screen_qualified:
  assumes "promoted_policy_checks pol = None"
  shows "screen_summary (summarize events table kind) pol = Inr (Qualified edge) \<Longrightarrow>
      qualifies (summarize events table kind) pol edge \<and> representable (dval edge)"
    "qualifies s pol edge \<Longrightarrow> screen_summary s pol = Inr (Qualified edge)"
proof -
  assume q: "screen_summary (summarize events table kind) pol = Inr (Qualified edge)"
  then obtain t where t: "es_after_cost_edge_bps (summarize events table kind) = Some t" "dec_parse t = Some edge" "edge \<noteq> NaN"
    and ok: "\<not> dec_lt edge (xp_evidence_threshold pol)" "\<not> int (es_events_compared (summarize events table kind)) < xp_evidence_min_events pol"
    by (auto simp: screen_summary_def split: if_splits option.splits)
  note edge = summary_edge [OF t]
  show "qualifies (summarize events table kind) pol edge \<and> representable (dval edge)"
    using ok edge t(1) threshold_finite [OF assms] by (simp add: qualifies_def dec_order)
next
  assume q: "qualifies s pol edge"
  then have "edge \<noteq> NaN" by (auto simp: qualifies_def)
  then show "screen_summary s pol = Inr (Qualified edge)"
    using q threshold_finite [OF assms] by (simp add: qualifies_def screen_summary_def dec_parse_str dec_order)
qed

lemma list_all2_in_set2: "list_all2 P xs ys \<Longrightarrow> y \<in> set ys \<Longrightarrow> \<exists>x \<in> set xs. P x y"
  by (induction rule: list_all2_induct) auto

lemma screened_set:
  assumes "rmap_list (\<lambda>kind. rbind (screen_summary (S kind) pol) (\<lambda>x. Inr (kind, x))) kinds = Inr ys"
  shows "(k, x) \<in> set ys \<longleftrightarrow> k \<in> set kinds \<and> screen_summary (S k) pol = Inr x"
proof -
  note all = rmap_list_Inr_elems [OF assms]
  show ?thesis
    using list_all2_in_set1 [OF all, of k] list_all2_in_set2 [OF all, of "(k, x)"] by (auto simp: rbind_Inr)
qed

lemma promote_Inr:
  assumes "promote S pol = Inr (promoted, reasons)"
  shows "promoted = None \<Longrightarrow> k \<in> set PROMOTABLE \<Longrightarrow> screen_summary (S k) pol \<noteq> Inr (Qualified edge)"
    "promoted = Some k \<Longrightarrow> \<exists>edge. k \<in> set PROMOTABLE \<and> screen_summary (S k) pol = Inr (Qualified edge)
       \<and> (\<forall>k' edge'. k' \<in> set PROMOTABLE \<and> screen_summary (S k') pol = Inr (Qualified edge') \<longrightarrow>
            dval (dec_minus edge) \<le> dval (dec_minus edge'))"
proof -
  let ?pairs = "\<lambda>ys :: (expression_kind \<times> promotion_screen) list.
    concat (map (\<lambda>(kind, x). case x of Refused _ \<Rightarrow> [] | Qualified edge \<Rightarrow> [(kind, edge)]) ys)"
  define collect where "collect ys = ?pairs ys" for ys
  obtain ys where ys: "rmap_list (\<lambda>kind. rbind (screen_summary (S kind) pol) (\<lambda>x. Inr (kind, x))) PROMOTABLE = Inr ys"
    and pr: "if collect ys = [] then promoted = None else promoted = Some (fst (hd (sort_key promotion_key (collect ys))))"
    using assms unfolding promote_def rbind_Inr Let_def collect_def [symmetric] by (auto split: if_splits)
  have mem: "(k, edge) \<in> set (collect ys) \<longleftrightarrow> k \<in> set PROMOTABLE \<and> screen_summary (S k) pol = Inr (Qualified edge)" for k edge
  proof -
    have "(k, edge) \<in> set (collect ys) \<longleftrightarrow> (k, Qualified edge) \<in> set ys"
      by (auto simp: collect_def split: promotion_screen.splits)
    then show ?thesis by (simp add: screened_set [OF ys])
  qed
  show "promoted = None \<Longrightarrow> k \<in> set PROMOTABLE \<Longrightarrow> screen_summary (S k) pol \<noteq> Inr (Qualified edge)"
    using pr mem [of k edge] by (auto split: if_splits)
  assume some: "promoted = Some k"
  then have ne: "collect ys \<noteq> []" using pr by auto
  obtain edge where best: "hd (sort_key promotion_key (collect ys)) = (k, edge)"
    using pr ne some by (cases "hd (sort_key promotion_key (collect ys))") auto
  have "dval (dec_minus edge) \<le> dval (dec_minus edge')" if "(k', edge') \<in> set (collect ys)" for k' edge'
    using hd_sort_key(2) [OF ne that, of promotion_key] unfolding best by (auto simp: promotion_key_def less_eq_prod_def)
  moreover have "(k, edge) \<in> set (collect ys)" using hd_sort_key(1) [OF ne, of promotion_key] unfolding best .
  ultimately show "\<exists>edge. k \<in> set PROMOTABLE \<and> screen_summary (S k) pol = Inr (Qualified edge)
       \<and> (\<forall>k' edge'. k' \<in> set PROMOTABLE \<and> screen_summary (S k') pol = Inr (Qualified edge') \<longrightarrow>
            dval (dec_minus edge) \<le> dval (dec_minus edge'))"
    by (auto simp: mem)
qed

lemma lift_value_error_Inr [outcome_simps]: "lift_value_error r = Inr a \<longleftrightarrow> r = Inr a"
  by (cases r) (simp_all add: lift_value_error_def)

lemma run_gate_d_Inr:
  assumes "run_gate_d_tournament H rid pol psha events clock = Inr r"
  obtains ces reasons where "compare_events pol events = Inr ces"
    "promote (summarize events (economics_table ces)) pol = Inr (gr_promoted r, reasons)"
    "gr_summaries r = map (summarize events (economics_table ces)) EXPRESSION_ORDER" "gate_d_report_checks r = None"
  using assms by (auto simp: run_gate_d_tournament_def outcome_simps Let_def split: option.splits)

lemma summarize_fields [simp]:
  "es_expression_kind (summarize events table kind) = kind" "es_events_total (summarize events table kind) = length events"
  by (simp_all add: summarize_def Let_def)

lemma kinds: "set EXPRESSION_ORDER = insert CASH_NO_TRADE (set PROMOTABLE)" "CASH_NO_TRADE \<notin> set PROMOTABLE"
  by (auto simp: EXPRESSION_ORDER_def PROMOTABLE_def)

text \<open>
  C20. The Gate D report keeps every failure in the denominator and promotes soundly. It has one
  summary per expression, in the fixed order, and in each of them compared and rejected events add
  up to all events of the run. A promoted expression is never cash; it has at least the required
  number of compared events, an after-cost edge that reaches the evidence threshold, and no other
  qualifying expression has a larger edge. When nothing is promoted, no expression qualifies.
\<close>

theorem gate_d_promotion_sound:
  assumes "run_gate_d_tournament H rid pol psha events clock = Inr r" "promoted_policy_checks pol = None"
  shows "map es_expression_kind (gr_summaries r) = EXPRESSION_ORDER \<and> gate_d_report_checks r = None
    \<and> (\<forall>s \<in> set (gr_summaries r). es_events_total s = length events \<and> es_events_compared s + es_events_rejected s = length events)
    \<and> (case gr_promoted r of
         None \<Rightarrow> \<forall>s \<in> set (gr_summaries r). es_expression_kind s \<noteq> CASH_NO_TRADE \<longrightarrow> (\<nexists>edge. qualifies s pol edge)
       | Some k \<Rightarrow> k \<noteq> CASH_NO_TRADE \<and> (\<exists>s \<in> set (gr_summaries r). \<exists>edge. es_expression_kind s = k \<and> qualifies s pol edge
           \<and> (\<forall>s' \<in> set (gr_summaries r). \<forall>edge'. es_expression_kind s' \<noteq> CASH_NO_TRADE \<and> qualifies s' pol edge' \<longrightarrow> dval edge' \<le> dval edge)))"
  using assms(1)
proof (rule run_gate_d_Inr)
  fix ces :: "(tournament_event \<times> expression_economics list) list" and reasons
  let ?S = "summarize events (economics_table ces)"
  assume ces: "compare_events pol events = Inr ces" and pr: "promote ?S pol = Inr (gr_promoted r, reasons)"
    and sums: "gr_summaries r = map ?S EXPRESSION_ORDER" and ok: "gate_d_report_checks r = None"
  note screen = screen_qualified [OF assms(2)]
  have "case gr_promoted r of
         None \<Rightarrow> \<forall>k \<in> set PROMOTABLE. \<nexists>edge. qualifies (?S k) pol edge
       | Some k \<Rightarrow> k \<in> set PROMOTABLE \<and> (\<exists>edge. qualifies (?S k) pol edge
           \<and> (\<forall>k' \<in> set PROMOTABLE. \<forall>edge'. qualifies (?S k') pol edge' \<longrightarrow> dval edge' \<le> dval edge))"
  proof (cases "gr_promoted r")
    case None
    show ?thesis using promote_Inr(1) [OF pr None] screen(2) unfolding None by (auto; blast)
  next
    case (Some k)
    obtain edge where k: "k \<in> set PROMOTABLE" "screen_summary (?S k) pol = Inr (Qualified edge)"
      and best: "\<And>k' edge'. k' \<in> set PROMOTABLE \<Longrightarrow> screen_summary (?S k') pol = Inr (Qualified edge') \<Longrightarrow>
        dval (dec_minus edge) \<le> dval (dec_minus edge')"
      using promote_Inr(2) [OF pr Some] by blast
    have exact: "dval (dec_minus x) = - dval x" if "screen_summary (?S j) pol = Inr (Qualified x)" for j x
      using screen(1) [OF that] dec_minus_exact by (auto simp: qualifies_def)
    have "dval edge' \<le> dval edge" if "k' \<in> set PROMOTABLE" "qualifies (?S k') pol edge'" for k' edge'
      using best [OF that(1) screen(2) [OF that(2)]] exact [OF k(2)] exact [OF screen(2) [OF that(2)]] by simp
    then show ?thesis using k(1) screen(1) [OF k(2)] by (auto simp: Some)
  qed
  then show ?thesis using ok summary_total [OF ces] kinds unfolding sums by (auto simp: kinds(1) comp_def split: option.splits)
qed

section \<open>The tournament and the compiler agree\<close>

text \<open>Every contract of the chain is a well-formed option leg.\<close>

definition chain_builds :: "expression_market_snapshot \<Rightarrow> bool" where
  "chain_builds m = list_all (\<lambda>c. \<not> isl (build_option_leg c BUY BUY_TO_OPEN)) (ms_chain m)"

lemma leg_checks_side: "option_leg_checks (l\<lparr>leg_side := s, leg_intent := i\<rparr>) = option_leg_checks l"
  by (simp add: option_leg_checks_def cong: option.case_cong)

lemma build_either_side:
  assumes "build_option_leg c BUY BUY_TO_OPEN = Inr l"
  shows "build_option_leg c side intent = Inr (l\<lparr>leg_side := side, leg_intent := intent\<rparr>)"
proof -
  note l = build_option_leg_Inr [OF assms]
  let ?l = "l\<lparr>leg_side := side, leg_intent := intent\<rparr>"
  have "option_leg_checks ?l = None" using leg_checks_side [where l = l and s = side and i = intent] l(1) by simp
  moreover have "?l = \<lparr>leg_symbol = oc_symbol c, leg_underlying = oc_underlying c, leg_expiry = oc_expiry c, leg_type = leg_type l,
      leg_strike = oc_strike c, leg_side = side, leg_intent = intent, leg_ratio = 1\<rparr>"
    by (subst l(3)) simp
  ultimately show ?thesis unfolding build_option_leg_def by (simp add: l(2) Let_def)
qed

lemma chain_build:
  assumes "chain_builds m" "c \<in> set (ms_chain m)"
  obtains l where "build_option_leg c side intent = Inr l"
  using assms build_either_side by (cases "build_option_leg c BUY BUY_TO_OPEN") (auto simp: chain_builds_def list_all_iff)

lemma guards_path: "first_reject (option_guards c path m pol) = None \<longleftrightarrow> first_reject (option_guards c path' m pol) = None"
  by (simp add: option_guards_def validate_feed_def validate_executable_data_def validate_quote_def validate_observation_age_def)

lemma eligible_dte: "contract_is_eligible c pol typ asof \<Longrightarrow> 1 \<le> xp_min_dte pol \<Longrightarrow> 1 \<le> contract_dte c asof"
  by (auto simp: contract_is_eligible_def split: if_splits)

definition bindings_ok :: "string \<Rightarrow> expression_bindings \<Rightarrow> datetime \<Rightarrow> bool" where
  "bindings_ok event b now =
     (event \<noteq> [] \<and> length (xb_decision_sha256 b) = 64 \<and> length (xb_snapshot_sha256 b) = 64 \<and> length (xb_policy_sha256 b) = 64
      \<and> length (xb_gate_d_report_sha256 b) = 64 \<and> equals_utc now)"

lemma bindings_construct:
  assumes "bindings_ok event b now"
  shows "compiled_expression_checks (bound_expression CASH_NO_TRADE event b now None None None) = None"
    "compiled_expression_checks (bound_expression SHARES event b now (Some (JObj (x # xs))) None None) = None"
    "compiled_expression_checks (bound_expression ONE_LONG_OPTION event b now None (Some (JObj (x # xs))) None) = None"
    "compiled_expression_checks (bound_expression DEBIT_VERTICAL event b now None None (Some (JObj (x # xs)))) = None"
  using assms by (simp_all add: bindings_ok_def compiled_expression_checks_def bound_expression_def block_filled_def)

lemma shares_agrees:
  assumes "bindings_ok event b now"
  shows "(\<exists>c. compile_shares up m pol event b now = Inr c) \<longleftrightarrow>
    first_reject (shares_guards up m pol) = None \<and> compared (shares_economics event m pol up)"
  using bindings_construct(2) [OF assms] by (simp add: compile_shares_def outcome_simps shares_block_def Let_def)

text \<open>
  What the compiler asks of the contracts it selects and the tournament does not: a day or more to expiry, and contracts from
  which option legs can be built.
\<close>

definition leg_builds :: "option_contract_observation \<Rightarrow> option_side \<Rightarrow> position_intent \<Rightarrow> bool" where
  "leg_builds c side intent = (\<not> isl (build_option_leg c side intent))"

definition compiler_only :: "bool \<Rightarrow> expression_market_snapshot \<Rightarrow> promoted_expression_policy \<Rightarrow> bool" where
  "compiler_only up m pol =
     (let asof = utc_date (ms_observation_clock_at m)
      in case xp_expression_kind pol of
           ONE_LONG_OPTION \<Rightarrow>
             (case select_long_contract m pol (direction_type up) asof up of
                Inl _ \<Rightarrow> False
              | Inr c \<Rightarrow> 1 \<le> contract_dte c asof \<and> leg_builds c BUY BUY_TO_OPEN)
         | DEBIT_VERTICAL \<Rightarrow>
             (case select_vertical_geometry m pol up asof of
                Inl _ \<Rightarrow> False
              | Inr g \<Rightarrow> 1 \<le> contract_dte (vg_long_leg g) asof \<and> leg_builds (vg_long_leg g) BUY BUY_TO_OPEN
                         \<and> leg_builds (vg_short_leg g) SELL SELL_TO_OPEN)
         | _ \<Rightarrow> True)"

lemma leg_builds_iff: "leg_builds c side intent \<longleftrightarrow> (\<exists>l. build_option_leg c side intent = Inr l)"
  by (cases "build_option_leg c side intent") (simp_all add: leg_builds_def)

lemma chain_leg_builds: "chain_builds m \<Longrightarrow> c \<in> set (ms_chain m) \<Longrightarrow> leg_builds c side intent"
  using chain_build leg_builds_iff by metis

text \<open>On a well-formed chain and with at least one day asked for, the compiler asks nothing more of what is selected.\<close>

lemma compiler_only_met:
  assumes "chain_builds m" "1 \<le> xp_min_dte pol"
  shows "select_long_contract m pol (direction_type up) (utc_date (ms_observation_clock_at m)) up = Inr c \<Longrightarrow>
      xp_expression_kind pol = ONE_LONG_OPTION \<Longrightarrow> compiler_only up m pol"
    "select_vertical_geometry m pol up (utc_date (ms_observation_clock_at m)) = Inr g \<Longrightarrow>
      xp_expression_kind pol = DEBIT_VERTICAL \<Longrightarrow> compiler_only up m pol"
proof -
  let ?asof = "utc_date (ms_observation_clock_at m)"
  have long: "1 \<le> contract_dte c ?asof \<and> leg_builds c BUY BUY_TO_OPEN"
    if "select_long_contract m pol (direction_type up) ?asof up = Inr c" for c
    using select_long_contract_Inr [OF that] eligible_dte assms(2) chain_leg_builds [OF assms(1)] by blast
  show "compiler_only up m pol" if "select_long_contract m pol (direction_type up) ?asof up = Inr c" "xp_expression_kind pol = ONE_LONG_OPTION"
    using that long by (simp add: compiler_only_def Let_def)
  show "compiler_only up m pol" if "select_vertical_geometry m pol up ?asof = Inr g" "xp_expression_kind pol = DEBIT_VERTICAL"
    using that long select_vertical_geometry_Inr(1,2) [OF that(1)] chain_leg_builds [OF assms(1)] by (simp add: compiler_only_def Let_def)
qed

lemma long_option_agrees:
  assumes "bindings_ok event b now" "xp_expression_kind pol = ONE_LONG_OPTION"
  shows "(\<exists>c. compile_long_option up m pol event b now = Inr c) \<longleftrightarrow>
    compiler_only up m pol \<and> (\<exists>k. select_long_contract m pol (direction_type up) (utc_date (ms_observation_clock_at m)) up = Inr k
      \<and> first_reject (option_guards k (''option.'' @ oc_symbol k) m pol) = None \<and> compared (option_economics event k pol))"
  using bindings_construct(3) [OF assms(1)]
  by (auto simp: compile_long_option_def Let_def outcome_simps long_option_block_def compiler_only_def assms(2) leg_builds_iff split: sum.splits)

lemma debit_vertical_agrees:
  assumes "bindings_ok event b now" "xp_expression_kind pol = DEBIT_VERTICAL"
  shows "(\<exists>c. compile_debit_vertical up m pol event b now = Inr c) \<longleftrightarrow>
    compiler_only up m pol \<and> (\<exists>g p. select_vertical_geometry m pol up (utc_date (ms_observation_clock_at m)) = Inr g \<and> first_reject (vertical_guards g m pol) = None
      \<and> select_package m g = Inr p \<and> first_reject (validate_package p m pol (''package.'' @ pk_package_id p)) = None
      \<and> compared (debit_vertical_economics event p (vg_width g) pol))"
  using bindings_construct(4) [OF assms(1)]
  by (auto simp: compile_debit_vertical_def Let_def outcome_simps debit_vertical_block_def compiler_only_def assms(2) leg_builds_iff split: sum.splits)

text \<open>The direction of an event, as the compiler and the tournament read it.\<close>

lemma direction_up: "sd_direction d \<noteq> UNCERTAIN \<Longrightarrow> (direction_value (sd_direction d) \<noteq> ''DOWN'') = (sd_direction d = UP)
    \<and> (direction_value (sd_direction d) = ''UP'') = (sd_direction d = UP)"
  by (cases "sd_direction d") simp_all

lemma contract_row:
  assumes "te_decision_direction e = direction_value (sd_direction d)" "sd_direction d \<noteq> UNCERTAIN" "te_snapshot e = m"
  shows "tournament_contract e pol = Inr k \<longleftrightarrow>
    select_long_contract m pol (direction_type (sd_direction d = UP)) (utc_date (ms_observation_clock_at m)) (sd_direction d = UP) = Inr k
    \<and> first_reject (option_guards k (''option.'' @ oc_symbol k) m pol) = None"
  using assms direction_up [OF assms(2)] by (auto simp: tournament_contract_def Let_def outcome_simps)

lemma vertical_row:
  assumes "te_decision_direction e = direction_value (sd_direction d)" "sd_direction d \<noteq> UNCERTAIN" "te_snapshot e = m"
  shows "(\<exists>k. tournament_contract e pol = Inr k) \<and> (\<exists>row. tournament_vertical e pol = Inr row \<and> compared row) \<longleftrightarrow>
    (\<exists>g p. select_vertical_geometry m pol (sd_direction d = UP) (utc_date (ms_observation_clock_at m)) = Inr g \<and> first_reject (vertical_guards g m pol) = None
      \<and> select_package m g = Inr p \<and> first_reject (validate_package p m pol (''package.'' @ pk_package_id p)) = None
      \<and> compared (debit_vertical_economics (te_event_id e) p (vg_width g) pol))" (is "?rows \<longleftrightarrow> (\<exists>g p. ?ok g p)")
proof
  assume ?rows
  then show "\<exists>g p. ?ok g p" using direction_up [OF assms(2)] by (auto simp: tournament_vertical_def assms(1,3) Let_def outcome_simps)
next
  assume "\<exists>g p. ?ok g p"
  then obtain g p where gp: "?ok g p" by blast
  let ?k = "vg_long_leg g"
  have "first_reject (option_guards ?k (''vertical.'' @ oc_symbol ?k) m pol) = None"
    using gp by (auto simp: vertical_guards_def first_reject_append split: option.splits)
  then have "first_reject (option_guards ?k (''option.'' @ oc_symbol ?k) m pol) = None" using guards_path by blast
  then have "tournament_contract e pol = Inr ?k"
    using contract_row [OF assms] select_vertical_geometry_Inr(1) [OF conjunct1 [OF gp]] by blast
  moreover have "tournament_vertical e pol = Inr (debit_vertical_economics (te_event_id e) p (vg_width g) pol)"
    using gp direction_up [OF assms(2)] by (simp add: tournament_vertical_def assms(1,3) Let_def outcome_simps)
  ultimately show ?rows using gp by blast
qed

text \<open>
  C19. The tournament and the compiler agree, up to what only the compiler asks. For the event of a decision and its snapshot,
  whenever the tournament returns its rows, the promoted expression
  compiles exactly when the compiler's binding guards pass, the tournament compared that expression
  for the event, and the contracts that both select are at least one day from expiry and build option
  legs. This last condition is the whole difference between the two: the tournament does not test it.
\<close>

theorem tournament_agrees_with_compiler:
  assumes "event_economics e pol = Inr rows" "tournament_event_checks e = None"
    "te_snapshot e = m" "te_event_id e = sd_event_id d" "te_decision_direction e = direction_value (sd_direction d)"
    and ok: "promoted_policy_checks pol = None" and digest: "\<forall>x. length (H x) = 64"
  shows "(\<exists>c. compile_expression H d bytes m pol psha gate now = Inr c) \<longleftrightarrow>
    first_reject (compile_guards H d bytes m pol psha gate now) = None \<and> compiler_only (sd_direction d = UP) m pol
    \<and> (\<exists>row \<in> set rows. ee_expression_kind row = xp_expression_kind pol \<and> compared row)"
proof (cases "first_reject (compile_guards H d bytes m pol psha gate now)")
  case (Some x)
  then show ?thesis by (simp add: compile_expression_def admit_Inr)
next
  case guards: None
  let ?b = "\<lparr>xb_decision_sha256 = H bytes, xb_snapshot_sha256 = market_snapshot_sha256 H m, xb_policy_sha256 = psha, xb_gate_d_report_sha256 = gate\<rparr>"
  let ?up = "sd_direction d = UP"
  from guards have g: "sd_direction d \<noteq> UNCERTAIN" "psha = promoted_policy_sha256 H pol" "gate = xp_gate_d_report_sha256 pol" "equals_utc now"
    by (simp_all add: compile_guards_def split: if_splits)
  have "sd_event_id d \<noteq> []" using assms(2,4) by (auto simp: tournament_event_checks_def)
  moreover have "length (xp_gate_d_report_sha256 pol) = 64" using ok by (simp add: promoted_policy_checks_def split: if_splits)
  ultimately have b: "bindings_ok (sd_event_id d) ?b now"
    using g digest by (simp add: bindings_ok_def market_snapshot_sha256_def promoted_policy_sha256_def)
  note rows = contract_row [OF assms(5) g(1) assms(3), of pol] vertical_row [OF assms(5) g(1) assms(3), of pol]
  have shares: "compared (strict_shares_economics e pol) \<longleftrightarrow>
      first_reject (shares_guards ?up m pol) = None \<and> compared (shares_economics (sd_event_id d) m pol ?up)"
    using direction_up [OF g(1)] by (simp add: strict_shares_economics_def assms(3-5) split: option.splits)
  from assms(1) show ?thesis
  proof (rule event_economics_rows)
    fix opt vert
    assume four: "rows = [cash_economics (te_event_id e), strict_shares_economics e pol, opt, vert]"
      "ee_expression_kind opt = ONE_LONG_OPTION" "ee_expression_kind vert = DEBIT_VERTICAL"
      "compared opt \<longleftrightarrow> (\<exists>c. tournament_contract e pol = Inr c \<and> compared (option_economics (te_event_id e) c pol))"
      "compared vert \<longleftrightarrow> (\<exists>c. tournament_contract e pol = Inr c) \<and> (\<exists>row. tournament_vertical e pol = Inr row \<and> compared row)"
    show ?thesis
    proof (cases "xp_expression_kind pol")
      case CASH_NO_TRADE
      then show ?thesis using guards bindings_construct(1) [OF b]
        by (simp add: compile_expression_def admit_Inr Let_def compile_cash_def construct_Inr four cash_economics_def compiler_only_def)
    next
      case SHARES
      then show ?thesis using guards shares_agrees [OF b, of ?up m pol] shares
        by (simp add: compile_expression_def admit_Inr Let_def four compiler_only_def)
    next
      case ONE_LONG_OPTION
      then show ?thesis using guards long_option_agrees [OF b ONE_LONG_OPTION, of ?up]
        by (simp add: compile_expression_def admit_Inr Let_def four rows(1) assms(4) conj_assoc)
    next
      case DEBIT_VERTICAL
      then show ?thesis using guards debit_vertical_agrees [OF b DEBIT_VERTICAL, of ?up]
        unfolding compile_expression_def admit_Inr by (simp add: Let_def four rows(2) assms(4) del: not_ex)
    qed
  qed
qed

end
