(* ===== verification/Expression_Policy_Text.thy ===== *)
theory Expression_Policy_Text
  imports Expression_Validation Policy
begin

text \<open>
  \<open>execution/expression/policy.py\<close>, \<open>parse_promoted_expression_policy\<close>: the strict reader of the
  promoted policy's canonical bytes, and the proof that it accepts exactly the bytes of
  valid policies with finite geometry bounds.

  As for the risk policies, \<open>json_loads\<close> covers the canonical fragment of JSON and \<open>text_of\<close>
  stands for \<open>str(value)\<close>. \<open>int(value)\<close> is Python's, on integers, truth values and text.
\<close>

section \<open>Python's \<open>int\<close>\<close>

text \<open>\<open>PolicyTextTypeError\<close> is the \<open>TypeError\<close> of \<open>int\<close> on \<open>None\<close>, a list or a dictionary.\<close>

datatype expression_policy_error =
    PolicyTextRejected expression_rejected
  | PolicyTextValueError value_error
  | PolicyTextTypeError

text \<open>Digits, with single underscores between them.\<close>

fun digit_groups :: "string \<Rightarrow> bool" where
  "digit_groups [] = False"
| "digit_groups [c] = is_digit c"
| "digit_groups (c # d # r) = (is_digit c \<and> (if d = CHR ''_'' then digit_groups r else digit_groups (d # r)))"

definition int_of_text :: "string \<Rightarrow> int option" where
  "int_of_text s =
     (let t = strip s; neg = (t \<noteq> [] \<and> hd t = CHR ''-'');
          body = (if t \<noteq> [] \<and> hd t \<in> {CHR ''-'', CHR ''+''} then tl t else t);
          n = int (nat_of_digs (filter is_digit body))
      in if digit_groups body then Some (if neg then - n else n) else None)"

fun python_int :: "json \<Rightarrow> expression_policy_error + int" where
  "python_int (JInt n) = Inr n"
| "python_int (JBool b) = Inr (if b then 1 else 0)"
| "python_int (JStr s) =
     (case int_of_text s of Some n \<Rightarrow> Inr n | None \<Rightarrow> Inl (PolicyTextValueError ''invalid literal for int()''))"
| "python_int _ = Inl PolicyTextTypeError"

section \<open>The reader\<close>

definition PROMOTED_POLICY_FIELDS :: "string list" where
  "PROMOTED_POLICY_FIELDS =
     [''schema'', ''schema_version'', ''policy_id'', ''version'', ''gate_d_report_sha256'', ''expression_kind'', ''objective'',
      ''evidence_threshold'', ''evidence_min_events'', ''operational_loss_budget'', ''quote_max_age_ms'',
      ''cross_leg_skew_max_ms'', ''spread_max_bps'', ''min_quote_size'', ''min_dte'', ''max_dte'', ''delta_min'', ''delta_max'',
      ''width_min'', ''width_max'', ''liquidity_min_open_interest'']"

definition text_reject :: "expression_reason \<Rightarrow> string \<Rightarrow> expression_policy_error" where
  "text_reject r field = PolicyTextRejected (xreject r (''promoted_expression_policy'' @ field))"

definition promoted_policy_object :: "string \<Rightarrow> expression_policy_error + json" where
  "promoted_policy_object raw =
     (case json_loads raw of
        None \<Rightarrow> Inl (text_reject XR_UNSUPPORTED_INPUT [])
      | Some v \<Rightarrow> guarded
          [(\<not> json_unique v, text_reject XR_UNSUPPORTED_INPUT []),
           (\<not> is_object v, text_reject XR_UNSUPPORTED_INPUT []),
           (\<not> set PROMOTED_POLICY_FIELDS \<subseteq> set (object_keys v)
              \<or> \<not> set (object_keys v) \<subseteq> insert ''allows_indicative_data'' (set PROMOTED_POLICY_FIELDS),
              text_reject XR_UNSUPPORTED_INPUT [])] (Inr v))"

definition finite_decimal :: "json \<Rightarrow> string \<Rightarrow> expression_policy_error + dec" where
  "finite_decimal v field =
     (case v of
        JStr s \<Rightarrow>
          (case dec_parse s of
             None \<Rightarrow> Inl (text_reject XR_UNSUPPORTED_INPUT field)
           | Some d \<Rightarrow> if is_finite d then Inr d else Inl (text_reject NON_FINITE_VALUE field))
      | _ \<Rightarrow> Inl (text_reject XR_UNSUPPORTED_INPUT field))"

definition expression_kind_named :: "string \<Rightarrow> expression_kind option" where
  "expression_kind_named s =
     find (\<lambda>k. expression_kind_value k = s) [CASH_NO_TRADE, SHARES, ONE_LONG_OPTION, DEBIT_VERTICAL]"

text \<open>The arguments of the constructor, in the order in which they are evaluated.\<close>

definition promoted_policy_fields :: "json \<Rightarrow> expression_kind \<Rightarrow> expression_policy_error + promoted_expression_policy" where
  "promoted_policy_fields v kind =
     rbind (finite_decimal (field_of v ''evidence_threshold'') ''.evidence_threshold'') (\<lambda>threshold.
     rbind (python_int (field_of v ''evidence_min_events'')) (\<lambda>events.
     rbind (finite_decimal (field_of v ''operational_loss_budget'') ''.operational_loss_budget'') (\<lambda>budget.
     rbind (python_int (field_of v ''quote_max_age_ms'')) (\<lambda>age.
     rbind (python_int (field_of v ''cross_leg_skew_max_ms'')) (\<lambda>skew.
     rbind (finite_decimal (field_of v ''spread_max_bps'') ''.spread_max_bps'') (\<lambda>spread.
     rbind (python_int (field_of v ''min_quote_size'')) (\<lambda>size.
     rbind (python_int (field_of v ''min_dte'')) (\<lambda>dte_lo.
     rbind (python_int (field_of v ''max_dte'')) (\<lambda>dte_hi.
     rbind (finite_decimal (field_of v ''delta_min'') ''.delta_min'') (\<lambda>delta_lo.
     rbind (finite_decimal (field_of v ''delta_max'') ''.delta_max'') (\<lambda>delta_hi.
     rbind (finite_decimal (field_of v ''width_min'') ''.width_min'') (\<lambda>width_lo.
     rbind (finite_decimal (field_of v ''width_max'') ''.width_max'') (\<lambda>width_hi.
     rbind (python_int (field_of v ''liquidity_min_open_interest'')) (\<lambda>interest.
       Inr \<lparr>xp_policy_id = text_of (field_of v ''policy_id''), xp_version = text_of (field_of v ''version''),
            xp_gate_d_report_sha256 = text_of (field_of v ''gate_d_report_sha256''), xp_expression_kind = kind,
            xp_objective = text_of (field_of v ''objective''), xp_evidence_threshold = threshold,
            xp_evidence_min_events = events, xp_operational_loss_budget = budget, xp_quote_max_age_ms = age,
            xp_cross_leg_skew_max_ms = skew, xp_spread_max_bps = spread, xp_min_quote_size = size, xp_min_dte = dte_lo,
            xp_max_dte = dte_hi, xp_delta_min = delta_lo, xp_delta_max = delta_hi, xp_width_min = width_lo,
            xp_width_max = width_hi, xp_liquidity_min_open_interest = interest,
            xp_allows_indicative_data = (field_of v ''allows_indicative_data'' = JBool True)\<rparr>))))))))))))))"

fun is_bool :: "json \<Rightarrow> bool" where
  "is_bool (JBool b) = True"
| "is_bool v = False"

definition parse_promoted_expression_policy :: "string \<Rightarrow> expression_policy_error + promoted_expression_policy" where
  "parse_promoted_expression_policy raw =
     rbind (promoted_policy_object raw) (\<lambda>v.
     guarded
       [(''allows_indicative_data'' \<in> set (object_keys v) \<and> \<not> is_bool (field_of v ''allows_indicative_data''),
           text_reject XR_UNSUPPORTED_INPUT ''.allows_indicative_data''),
        (field_of v ''schema'' \<noteq> JStr ''esscher.promoted_expression_policy'', text_reject XR_UNSUPPORTED_INPUT ''.schema''),
        (\<not> json_equals_int (field_of v ''schema_version'') 1, text_reject UNSUPPORTED_SCHEMA_VERSION ''.schema_version'')]
     (case expression_kind_named (text_of (field_of v ''expression_kind'')) of
        None \<Rightarrow> Inl (text_reject XR_UNSUPPORTED_INPUT ''.expression_kind'')
      | Some kind \<Rightarrow>
          rbind (promoted_policy_fields v kind) (\<lambda>p.
            case promoted_policy_checks p of
              Some e \<Rightarrow> Inl (PolicyTextValueError e)
            | None \<Rightarrow> guarded [(promoted_policy_bytes p \<noteq> raw, text_reject XR_UNSUPPORTED_INPUT [])] (Inr p))))"

section \<open>Exactly the canonical bytes\<close>

definition finite_bounds :: "promoted_expression_policy \<Rightarrow> bool" where
  "finite_bounds p = list_all is_finite [xp_delta_min p, xp_delta_max p, xp_width_min p, xp_width_max p]"

lemma expression_kind_named_value: "expression_kind_named (expression_kind_value k) = Some k"
  by (cases k) (simp_all add: expression_kind_named_def)

lemma finite_decimal_str [simp]: "is_finite d \<Longrightarrow> finite_decimal (JStr (dec_str d)) field = Inr d"
  by (simp add: finite_decimal_def dec_parse_str)

lemma finite_decimal_Inr: "finite_decimal v field = Inr d \<Longrightarrow> is_finite d"
  by (auto simp: finite_decimal_def split: json.splits option.splits if_splits)

text \<open>The members the writer puts into the payload.\<close>

fun object_members :: "json \<Rightarrow> (string \<times> json) list" where
  "object_members (JObj kvs) = kvs"
| "object_members _ = []"

abbreviation policy_members :: "promoted_expression_policy \<Rightarrow> (string \<times> json) list" where
  "policy_members p \<equiv> object_members (promoted_policy_payload p)"

lemma payload_members: "promoted_policy_payload p = JObj (policy_members p)"
  by (simp add: promoted_policy_payload_def)

lemma policy_keys:
  "map fst (policy_members p) =
     PROMOTED_POLICY_FIELDS @ (if xp_allows_indicative_data p then [''allows_indicative_data''] else [])"
  by (simp add: promoted_policy_payload_def PROMOTED_POLICY_FIELDS_def)

lemma policy_keys_distinct: "distinct (map fst (policy_members p))"
  unfolding policy_keys by (simp add: PROMOTED_POLICY_FIELDS_def)

lemma promoted_payload_unique: "json_unique (JObj (policy_members p))"
  unfolding json_unique.simps
  by (rule conjI [OF policy_keys_distinct]) (simp add: promoted_policy_payload_def)

abbreviation loaded_policy :: "promoted_expression_policy \<Rightarrow> json" where
  "loaded_policy p \<equiv> json_sort (JObj (policy_members p))"

lemma loaded_keys: "set (object_keys (loaded_policy p)) = set (map fst (policy_members p))"
  by (simp only: object_keys_sorted set_map)

lemma promoted_policy_object_bytes: "promoted_policy_object (promoted_policy_bytes p) = Inr (loaded_policy p)"
proof -
  have "json_loads (promoted_policy_bytes p) = Some (loaded_policy p)"
    unfolding promoted_policy_bytes_def by (subst payload_members) (rule json_loads_canonical)
  moreover have "is_object (loaded_policy p)" by simp
  moreover have "set PROMOTED_POLICY_FIELDS \<subseteq> set (object_keys (loaded_policy p))"
    "set (object_keys (loaded_policy p)) \<subseteq> insert ''allows_indicative_data'' (set PROMOTED_POLICY_FIELDS)"
    unfolding loaded_keys policy_keys by auto
  ultimately show ?thesis
    using json_unique_sorted [OF promoted_payload_unique, of p] by (simp add: promoted_policy_object_def guarded_def del: json_sort.simps)
qed

lemma promoted_field:
  "field_of (loaded_policy p) k = (case map_of (policy_members p) k of Some v \<Rightarrow> json_sort v | None \<Rightarrow> JNull)"
  by (rule field_of_sorted [OF policy_keys_distinct])

lemma promoted_fields_of:
  "field_of (loaded_policy p) ''schema'' = JStr ''esscher.promoted_expression_policy''"
  "field_of (loaded_policy p) ''schema_version'' = JInt 1"
  "field_of (loaded_policy p) ''policy_id'' = JStr (xp_policy_id p)"
  "field_of (loaded_policy p) ''version'' = JStr (xp_version p)"
  "field_of (loaded_policy p) ''gate_d_report_sha256'' = JStr (xp_gate_d_report_sha256 p)"
  "field_of (loaded_policy p) ''expression_kind'' = JStr (expression_kind_value (xp_expression_kind p))"
  "field_of (loaded_policy p) ''objective'' = JStr (xp_objective p)"
  "field_of (loaded_policy p) ''evidence_threshold'' = JStr (dec_str (xp_evidence_threshold p))"
  "field_of (loaded_policy p) ''evidence_min_events'' = JInt (xp_evidence_min_events p)"
  "field_of (loaded_policy p) ''operational_loss_budget'' = JStr (dec_str (xp_operational_loss_budget p))"
  "field_of (loaded_policy p) ''quote_max_age_ms'' = JInt (xp_quote_max_age_ms p)"
  "field_of (loaded_policy p) ''cross_leg_skew_max_ms'' = JInt (xp_cross_leg_skew_max_ms p)"
  "field_of (loaded_policy p) ''spread_max_bps'' = JStr (dec_str (xp_spread_max_bps p))"
  "field_of (loaded_policy p) ''min_quote_size'' = JInt (xp_min_quote_size p)"
  "field_of (loaded_policy p) ''min_dte'' = JInt (xp_min_dte p)"
  "field_of (loaded_policy p) ''max_dte'' = JInt (xp_max_dte p)"
  "field_of (loaded_policy p) ''delta_min'' = JStr (dec_str (xp_delta_min p))"
  "field_of (loaded_policy p) ''delta_max'' = JStr (dec_str (xp_delta_max p))"
  "field_of (loaded_policy p) ''width_min'' = JStr (dec_str (xp_width_min p))"
  "field_of (loaded_policy p) ''width_max'' = JStr (dec_str (xp_width_max p))"
  "field_of (loaded_policy p) ''liquidity_min_open_interest'' = JInt (xp_liquidity_min_open_interest p)"
  "field_of (loaded_policy p) ''allows_indicative_data'' = (if xp_allows_indicative_data p then JBool True else JNull)"
  unfolding promoted_field by (simp_all add: promoted_policy_payload_def)

lemma checked_money:
  assumes "promoted_policy_checks p = None"
  shows "is_finite (xp_evidence_threshold p)" "is_finite (xp_spread_max_bps p)" "is_finite (xp_operational_loss_budget p)"
  using assms by (simp_all add: promoted_policy_checks_def non_negative_money_def positive_money_def)

lemma promoted_fields_back:
  assumes "promoted_policy_checks p = None" "finite_bounds p"
  shows "promoted_policy_fields (loaded_policy p) (xp_expression_kind p) = Inr p"
  using assms(2) checked_money [OF assms(1)] unfolding promoted_policy_fields_def promoted_fields_of
  by (cases p) (simp add: finite_bounds_def del: json_sort.simps)

lemma infinity_refused: "finite_decimal (JStr (dec_str (Infty neg))) field = Inl (text_reject NON_FINITE_VALUE field)"
proof -
  have "dec_parse ''-Infinity'' = Some (Infty True)" "dec_parse ''Infinity'' = Some (Infty False)" by code_simp+
  then show ?thesis by (cases neg) (simp_all add: finite_decimal_def dec_str.simps)
qed

lemma infinite_width_field:
  assumes "promoted_policy_checks p = None" "is_finite (xp_delta_min p)" "is_finite (xp_delta_max p)" "is_finite (xp_width_min p)"
    and "xp_width_max p = Infty neg"
  shows "promoted_policy_fields (loaded_policy p) kind = Inl (text_reject NON_FINITE_VALUE ''.width_max'')"
  using assms(2-) checked_money [OF assms(1)] unfolding promoted_policy_fields_def promoted_fields_of
  by (simp add: infinity_refused)

text \<open>On the bytes of a policy every test before the constructor passes.\<close>

lemma parse_promoted_bytes:
  "parse_promoted_expression_policy (promoted_policy_bytes p) =
     rbind (promoted_policy_fields (loaded_policy p) (xp_expression_kind p)) (\<lambda>q.
       case promoted_policy_checks q of
         Some e \<Rightarrow> Inl (PolicyTextValueError e)
       | None \<Rightarrow> guarded [(promoted_policy_bytes q \<noteq> promoted_policy_bytes p, text_reject XR_UNSUPPORTED_INPUT [])] (Inr q))"
proof -
  have "''allows_indicative_data'' \<in> set (object_keys (loaded_policy p)) \<longleftrightarrow> xp_allows_indicative_data p"
    unfolding loaded_keys policy_keys by (simp add: PROMOTED_POLICY_FIELDS_def)
  then show ?thesis
    unfolding parse_promoted_expression_policy_def promoted_policy_object_bytes rbind_simps
    by (subst guarded_def)
      (simp add: promoted_fields_of expression_kind_named_value del: json_sort.simps object_keys.simps)
qed

lemma parse_promoted_back:
  assumes "promoted_policy_checks p = None" "finite_bounds p"
  shows "parse_promoted_expression_policy (promoted_policy_bytes p) = Inr p"
  by (simp add: parse_promoted_bytes promoted_fields_back [OF assms] assms(1) guarded_def del: json_sort.simps)

lemma infinite_width_refused:
  assumes "promoted_policy_checks p = None" "is_finite (xp_delta_min p)" "is_finite (xp_delta_max p)" "is_finite (xp_width_min p)"
    and "xp_width_max p = Infty neg"
  shows "parse_promoted_expression_policy (promoted_policy_bytes p) = Inl (text_reject NON_FINITE_VALUE ''.width_max'')"
  by (simp add: parse_promoted_bytes infinite_width_field [OF assms] del: json_sort.simps)

lemma promoted_fields_finite: "promoted_policy_fields v kind = Inr p \<Longrightarrow> finite_bounds p"
  by (auto simp: promoted_policy_fields_def outcome_simps finite_bounds_def dest!: finite_decimal_Inr)

text \<open>
  C29. The reader of the promoted policy accepts exactly one text per policy: it answers a policy
  on some bytes if and only if they are the canonical bytes of that policy, the policy
  passes its class checks, and its four geometry bounds are finite. So nothing
  non-canonical is ever read (a repeated, missing or unknown field, a number given as text,
  an explicit false flag), every such policy reads back from its own bytes, and a policy
  whose bounds are infinite, which the class admits, never reads back.
\<close>

theorem promoted_policy_read_exactly:
  "parse_promoted_expression_policy raw = Inr p \<longleftrightarrow>
     raw = promoted_policy_bytes p \<and> promoted_policy_checks p = None \<and> finite_bounds p"
proof
  assume "parse_promoted_expression_policy raw = Inr p"
  then show "raw = promoted_policy_bytes p \<and> promoted_policy_checks p = None \<and> finite_bounds p"
    by (auto simp: parse_promoted_expression_policy_def outcome_simps promoted_fields_finite split: option.splits)
qed (auto simp: parse_promoted_back)

end
