(* ===== verification/Expression_Witnesses.thy ===== *)
theory Expression_Witnesses
  imports Bridge_Properties Gate_D_Properties Expression_Policy_Text
begin

text \<open>
  One market on which the expression lane runs end to end: two calls of one expiry, their
  package, an accepted upward decision and a promoted debit vertical. The properties of the
  compiler, the bridge and the tournament are applied to it.
\<close>

section \<open>The sample market\<close>

definition sample_clock :: datetime where "sample_clock = utc_at 1735689600000000"

definition equity_feed :: feed_identity where
  "equity_feed = \<lparr>fi_feed = ''ALPACA_IEX_EQUITY_QUOTES'', fi_tool = ''read_only_equity_quote'', fi_schema = ''equity_quote.v1'', fi_version = ''1''\<rparr>"

definition chain_feed :: feed_identity where
  "chain_feed = \<lparr>fi_feed = ''ALPACA_OPRA_OPTION_SNAPSHOTS'', fi_tool = ''read_only_option_chain'', fi_schema = ''option_chain_snapshot.v1'', fi_version = ''1''\<rparr>"

definition package_feed :: feed_identity where
  "package_feed = \<lparr>fi_feed = ''HOST_DERIVED_VERTICAL_PACKAGES'', fi_tool = ''derived_package_quote'', fi_schema = ''package_quote.v1'', fi_version = ''1''\<rparr>"

definition sample_quote :: "int \<Rightarrow> int \<Rightarrow> two_sided_quote" where
  "sample_quote bid ask = \<lparr>tq_bid = Fin bid (-2), tq_ask = Fin ask (-2), tq_bid_size = 10, tq_ask_size = 10, tq_observed_at = sample_clock\<rparr>"

definition sample_call :: "string \<Rightarrow> int \<Rightarrow> two_sided_quote \<Rightarrow> option_contract_observation" where
  "sample_call symbol strike q =
     \<lparr>oc_symbol = symbol, oc_underlying = ''AAPL'', oc_expiry = (2025, 1, 17), oc_option_type = ''CALL'', oc_strike = Fin strike 0,
      oc_quote = q, oc_feed = chain_feed, oc_data_class = EXECUTABLE_DATA, oc_open_interest = Some 100, oc_reported_delta = Some (Fin 40 (-2))\<rparr>"

definition near_call :: option_contract_observation where
  "near_call = sample_call ''AAPL250117C00100000'' 100 (sample_quote 300 320)"

definition far_call :: option_contract_observation where
  "far_call = sample_call ''AAPL250117C00105000'' 105 (sample_quote 100 125)"

definition sample_package :: package_observation where
  "sample_package =
     \<lparr>pk_package_id = ''AAPL250117C00100000+AAPL250117C00105000'', pk_legs = [''AAPL250117C00100000'', ''AAPL250117C00105000''],
      pk_net_bid = Fin 190 (-2), pk_net_ask = Fin 200 (-2), pk_size = 10, pk_observed_at = sample_clock, pk_feed = package_feed,
      pk_data_class = EXECUTABLE_DATA\<rparr>"

definition sample_market :: expression_market_snapshot where
  "sample_market =
     \<lparr>ms_snapshot_id = ''snap-1'', ms_underlying = ''AAPL'', ms_observation_clock_at = sample_clock,
      ms_decision_sha256 = replicate 64 (CHR ''a''),
      ms_share = \<lparr>so_symbol = ''AAPL'', so_quote = sample_quote 9990 10000, so_feed = equity_feed, so_data_class = EXECUTABLE_DATA\<rparr>,
      ms_chain = [near_call, far_call], ms_packages = [sample_package], ms_borrow_locate = None\<rparr>"

definition sample_promoted :: promoted_expression_policy where
  "sample_promoted =
     \<lparr>xp_policy_id = ''xp-1'', xp_version = ''1'', xp_gate_d_report_sha256 = replicate 64 (CHR ''d''), xp_expression_kind = DEBIT_VERTICAL,
      xp_objective = AFTER_COST_OBJECTIVE, xp_evidence_threshold = Fin 100 0, xp_evidence_min_events = 1,
      xp_operational_loss_budget = Fin 500 0, xp_quote_max_age_ms = 60000, xp_cross_leg_skew_max_ms = 1000, xp_spread_max_bps = Fin 2000 0,
      xp_min_quote_size = 1, xp_min_dte = 1, xp_max_dte = 60, xp_delta_min = Fin 1 (-1), xp_delta_max = Fin 9 (-1),
      xp_width_min = Fin 1 0, xp_width_max = Fin 10 0, xp_liquidity_min_open_interest = 10, xp_allows_indicative_data = False\<rparr>"

definition sample_direction :: strategy_decision where
  "sample_direction =
     \<lparr>sd_event_id = ''ev-1'', sd_security_id = ''AAPL'', sd_candidate_id = ''cand-1'', sd_cohort_id = ''co-1'',
      sd_policy_sha256 = replicate 64 (CHR ''1''), sd_candidate_manifest_sha256 = replicate 64 (CHR ''2''),
      sd_strategy_snapshot_sha256 = replicate 64 (CHR ''3''), sd_feature_receipt_sha256 = replicate 64 (CHR ''4''),
      sd_reasoner_exchange_sha256 = replicate 64 (CHR ''5''), sd_reasoner_decision_sha256 = None,
      sd_producer_build_sha256 = replicate 64 (CHR ''6''), sd_decision_at = sample_clock, sd_reasoner_direction = Some UP,
      sd_direction = UP, sd_disposition = ACCEPTED, sd_reaction_relation = RELATION_CONTINUE, sd_evidence_ids = [], sd_contradictions = [],
      sd_unknowns = [], sd_strongest_falsifier = None, sd_reason_codes = [], sd_summary = None\<rparr>"

definition sample_geometry :: vertical_geometry where
  "sample_geometry = \<lparr>vg_long_leg = near_call, vg_short_leg = far_call, vg_width = Fin 5 0\<rparr>"

section \<open>The sample computes\<close>

lemma sample_divisions:
  "dec_div (Fin 100000 0) (Fin 1000 0) = Some (Fin 100 0)" "dec_div (Fin 105000 0) (Fin 1000 0) = Some (Fin 105 0)"
  "dec_div (Fin 20 (-2)) (Fin 320 (-2)) = Some (Fin 625 (-4))" "dec_div (Fin 25 (-2)) (Fin 125 (-2)) = Some (Fin 2 (-1))"
  "dec_div (Fin 10 (-2)) (Fin 200 (-2)) = Some (Fin 5 (-2))" "dec_div (Fin 10 (-2)) (Fin 10000 (-2)) = Some (Fin 1 (-3))"
  by (simp_all add: ndigits.simps prec_def Let_def strip_zeros_numeral dfix_exact)

lemma sample_symbols_aapl:
  "parse_occ ''AAPL250117C00100000'' = Some \<lparr>occ_root = ''AAPL'', occ_expiry = (2025, 1, 17), occ_type = CALL, occ_strike = 100000\<rparr>"
  "parse_occ ''AAPL250117C00105000'' = Some \<lparr>occ_root = ''AAPL'', occ_expiry = (2025, 1, 17), occ_type = CALL, occ_strike = 105000\<rparr>"
  by (simp_all add: parse_occ_def Let_def nat_of_digs_def digit_val_def is_upper_letter_def is_digit_def)

lemma sample_texts_aapl:
  "upper (strip ''AAPL250117C00100000'') = ''AAPL250117C00100000''" "upper (strip ''AAPL250117C00105000'') = ''AAPL250117C00105000''"
  "upper (strip ''AAPL'') = ''AAPL''" "valid_date (2025, 1, 17)"
  by code_simp+

lemmas call_defs = near_call_def far_call_def sample_call_def sample_quote_def

lemma sample_market_ok: "market_snapshot_ok sample_market"
  by code_simp

lemma sample_promoted_ok: "promoted_policy_checks sample_promoted = None"
  by code_simp

text \<open>
  The class admits an infinite bound; the policy then has bytes and a digest, but the reader
  refuses those bytes.
\<close>

lemma infinite_bound_admitted: "promoted_policy_checks (sample_promoted\<lparr>xp_width_max := Infty False\<rparr>) = None"
  by code_simp

lemma infinite_bound_unreadable:
  "parse_promoted_expression_policy (promoted_policy_bytes (sample_promoted\<lparr>xp_width_max := Infty False\<rparr>))
     = Inl (text_reject NON_FINITE_VALUE ''.width_max'')"
  by (rule infinite_width_refused [OF infinite_bound_admitted, where neg = False]) (simp_all add: sample_promoted_def)

lemma sample_promoted_reads_back:
  "parse_promoted_expression_policy (promoted_policy_bytes sample_promoted) = Inr sample_promoted"
  by (rule parse_promoted_back [OF sample_promoted_ok]) (simp add: finite_bounds_def sample_promoted_def)

lemma sample_decision_ok: "strategy_decision_ok sample_direction"
  by code_simp

lemma sample_chain_builds: "chain_builds sample_market"
  by (simp add: chain_builds_def sample_market_def call_defs build_option_leg_def option_type_of_def option_leg_checks_def
      sample_texts_aapl sample_symbols_aapl sample_divisions aligned_def del: dec_div.simps)

lemma sample_selected: "select_vertical_geometry sample_market sample_promoted True (utc_date sample_clock) = Inr sample_geometry"
  by code_simp

lemma sample_package_selected: "select_package sample_market sample_geometry = Inr sample_package"
  by code_simp

lemma sample_spreads:
  "quote_spread_bps (Fin 300 (-2)) (Fin 320 (-2)) = Fin 6250000 (-4)" "quote_spread_bps (Fin 100 (-2)) (Fin 125 (-2)) = Fin 20000 (-1)"
  "quote_spread_bps (Fin 190 (-2)) (Fin 200 (-2)) = Fin 50000 (-2)" "quote_spread_bps (Fin 9990 (-2)) (Fin 10000 (-2)) = Fin 10000 (-3)"
  by (simp_all add: quote_spread_bps_def dec_sub_def aligned_def dfix_exact prec_def sample_divisions del: dec_div.simps)

lemma sample_utc [simp]: "equals_utc sample_clock" "aware sample_clock" "instant sample_clock = 1735689600000000"
  by (simp_all add: sample_clock_def equals_utc_def)

lemma later_is_utc: "equals_utc (utc_at i)"
  by (simp add: equals_utc_def)

lemma sample_feeds:
  "identity_key equity_feed \<in> set PINNED_FEEDS" "identity_key chain_feed \<in> set PINNED_FEEDS" "identity_key package_feed \<in> set PINNED_FEEDS"
  by code_simp+

lemmas guard_defs = validate_feed_def validate_executable_data_def validate_quote_def validate_observation_age_def observation_age_def
  milliseconds_def admitted_def crossed_def package_crossed_def aligned_def sample_feeds sample_spreads

lemma sample_guards_pass:
  "first_reject (vertical_guards sample_geometry sample_market sample_promoted) = None"
  "first_reject (validate_package sample_package sample_market sample_promoted path) = None"
  by (simp_all add: vertical_guards_def option_guards_def validate_package_def validate_cross_leg_skew_def guard_defs call_defs
      sample_geometry_def sample_market_def sample_promoted_def sample_package_def dec_lt_def)

lemma sample_compared: "compared (debit_vertical_economics ''ev-1'' sample_package (vg_width sample_geometry) sample_promoted)"
  by (simp add: debit_vertical_economics_def guard_defs sample_promoted_def sample_package_def sample_geometry_def CONTRACT_MULTIPLIER_def
      dfix_exact prec_def dec_min_def dec_lt_def Let_def)

section \<open>Compiling it\<close>

definition sample_bindings :: expression_bindings where
  "sample_bindings =
     \<lparr>xb_decision_sha256 = const_hash (strategy_decision_bytes sample_direction), xb_snapshot_sha256 = market_snapshot_sha256 const_hash sample_market,
      xb_policy_sha256 = promoted_policy_sha256 const_hash sample_promoted, xb_gate_d_report_sha256 = replicate 64 (CHR ''d'')\<rparr>"

definition sample_compile :: "compile_error + compiled_expression" where
  "sample_compile =
     compile_expression const_hash sample_direction (strategy_decision_bytes sample_direction) sample_market sample_promoted
       (promoted_policy_sha256 const_hash sample_promoted) (replicate 64 (CHR ''d'')) sample_clock"

lemma sample_compile_guards:
  "first_reject (compile_guards const_hash sample_direction (strategy_decision_bytes sample_direction) sample_market sample_promoted
     (promoted_policy_sha256 const_hash sample_promoted) (replicate 64 (CHR ''d'')) sample_clock) = None"
  by (simp add: compile_guards_def sample_direction_def sample_market_def sample_promoted_def const_hash_def)

definition near_leg :: option_leg where
  "near_leg = \<lparr>leg_symbol = ''AAPL250117C00100000'', leg_underlying = ''AAPL'', leg_expiry = (2025, 1, 17), leg_type = CALL, leg_strike = Fin 100 0,
     leg_side = BUY, leg_intent = BUY_TO_OPEN, leg_ratio = 1\<rparr>"

definition far_leg :: option_leg where
  "far_leg = \<lparr>leg_symbol = ''AAPL250117C00105000'', leg_underlying = ''AAPL'', leg_expiry = (2025, 1, 17), leg_type = CALL, leg_strike = Fin 105 0,
     leg_side = SELL, leg_intent = SELL_TO_OPEN, leg_ratio = 1\<rparr>"

lemma sample_legs: "build_option_leg near_call BUY BUY_TO_OPEN = Inr near_leg" "build_option_leg far_call SELL SELL_TO_OPEN = Inr far_leg"
  by (simp_all add: call_defs build_option_leg_def option_type_of_def option_leg_checks_def near_leg_def far_leg_def
      sample_texts_aapl sample_symbols_aapl sample_divisions aligned_def del: dec_div.simps)

definition sample_expression :: compiled_expression where
  "sample_expression = bound_expression DEBIT_VERTICAL ''ev-1'' sample_bindings sample_clock None None
     (Some (debit_vertical_block True sample_market sample_package (vg_width sample_geometry)
        (max_loss_text (debit_vertical_economics ''ev-1'' sample_package (vg_width sample_geometry) sample_promoted)) near_leg far_leg))"

lemma sample_bindings_ok: "bindings_ok ''ev-1'' sample_bindings sample_clock"
  by (simp add: bindings_ok_def sample_bindings_def const_hash_def market_snapshot_sha256_def promoted_policy_sha256_def)

lemma sample_dte: "contract_dte near_call (utc_date sample_clock) = 16"
  by code_simp

lemma sample_compiles: "sample_compile = Inr sample_expression"
proof -
  have fields: "xp_expression_kind sample_promoted = DEBIT_VERTICAL" "sd_event_id sample_direction = ''ev-1''" "sd_direction sample_direction = UP"
    "ms_observation_clock_at sample_market = sample_clock" "vg_long_leg sample_geometry = near_call" "vg_short_leg sample_geometry = far_call"
    by (simp_all add: sample_promoted_def sample_direction_def sample_market_def sample_geometry_def)
  have "compiled_expression_checks sample_expression = None"
    unfolding sample_expression_def debit_vertical_block_def by (rule bindings_construct(4) [OF sample_bindings_ok])
  then show ?thesis
    unfolding sample_compile_def compile_expression_def
    by (simp add: outcome_simps sample_compile_guards fields compile_debit_vertical_def sample_selected sample_guards_pass sample_legs
        sample_package_selected sample_compared sample_dte Let_def flip: sample_bindings_def sample_expression_def)
qed

theorem compiled_within_budget_witness:
  "compiled_expression_checks sample_expression = None \<and> expression_kind sample_expression = DEBIT_VERTICAL
   \<and> (\<exists>x. expression_exposure sample_expression = Inr x \<and> dval x \<le> 500)"
proof -
  have "dval (xp_operational_loss_budget sample_promoted) = 500" "xp_expression_kind sample_promoted = DEBIT_VERTICAL"
    by (simp_all add: sample_promoted_def)
  then show ?thesis
    using compiled_within_budget [OF sample_compiles [unfolded sample_compile_def] sample_market_ok sample_promoted_ok]
    by (auto simp: compiled_from_def)
qed

theorem compiled_vertical_read_back_witness:
  "\<exists>long short p t. defined_risk sample_market sample_promoted True long short p \<and> vertical_terms sample_expression = Inr t
     \<and> vt_limit_price t = pk_net_ask p \<and> vt_vertical_type t = BULL_CALL"
  using compiled_vertical_read_back [OF sample_compiles [unfolded sample_compile_def] _ sample_market_ok sample_promoted_ok]
  by (auto simp: sample_promoted_def sample_direction_def vertical_of_def)

section \<open>Its permit\<close>

definition sample_input :: strategy_input where
  "sample_input =
     \<lparr>si_event_id = ''ev-1'', si_candidate_id = ''cand-1'', si_cohort_id = ''co-1'', si_policy_sha256 = replicate 64 (CHR ''1''),
      si_candidate_entry_deadline_at = utc_at 1735693200000000, si_evidence_packet_sha256 = replicate 64 (CHR ''7''),
      si_candidate_manifest_sha256 = replicate 64 (CHR ''2''), si_snapshot_sha256 = replicate 64 (CHR ''3''),
      si_feature_receipt_sha256 = replicate 64 (CHR ''4'')\<rparr>"

definition sample_constants :: permit_bridge_constants where
  "sample_constants = \<lparr>pb_risk_policy_sha256 = replicate 64 (CHR ''8''), pb_permit_protocol_sha256 = replicate 64 (CHR ''9''),
     pb_execution_protocol_sha256 = replicate 64 (CHR ''b''), pb_gate_d_report_sha256 = replicate 64 (CHR ''d'')\<rparr>"

definition sample_terms :: permit_terms where
  "sample_terms = selected_terms True sample_market sample_package sample_geometry near_leg far_leg"

lemma sample_terms_read: "vertical_terms sample_expression = Inr sample_terms"
  unfolding sample_terms_def
  by (rule vertical_terms_selected [OF sample_expression_def sample_selected sample_package_selected sample_compared _ _ sample_market_ok sample_promoted_ok])
    (simp_all add: sample_geometry_def sample_legs)

definition bridged_permit :: "string \<Rightarrow> debit_vertical_permit" where
  "bridged_permit pid = from_frozen_decision sample_expression sample_input sample_constants sample_clock (utc_at 1735689660000000) sample_terms pid"

lemma bridged_permit_fields:
  "bridged_permit pid =
     \<lparr>bridge_authorization = True, permit_id = pid, event_run_id = ''ev-1'', policy_sha256 = replicate 64 (CHR ''8''),
      snapshot_sha256 = replicate 64 (CHR ''a''), decision_sha256 = replicate 64 (CHR ''a''), evidence_sha256 = replicate 64 (CHR ''7''),
      protocol_sha256 = replicate 64 (CHR ''9''), execution_protocol_sha256 = replicate 64 (CHR ''b''),
      issued_at = sample_clock, expires_at = utc_at 1735689660000000, vertical_type = BULL_CALL, quantity = 1,
      limit_price = Fin 200 (-2), long_leg = near_leg, short_leg = far_leg\<rparr>"
  by (simp add: bridged_permit_def from_frozen_decision_def sample_expression_def bound_expression_def sample_bindings_def sample_constants_def
      sample_input_def sample_terms_def selected_terms_def vertical_of_def sample_package_def const_hash_def market_snapshot_sha256_def sample_clock_def)

lemma bridged_permit_checks: "strip pid \<noteq> [] \<Longrightarrow> permit_checks (bridged_permit pid) = None"
proof -
  assume "strip pid \<noteq> []"
  moreover have "is_sha256 (replicate 64 c)" if "is_lower_hex c" for c using that by (simp add: is_sha256_def list_all_iff)
  moreover have "strip ''ev-1'' = ''ev-1''" by code_simp
  moreover have "is_lower_hex (CHR ''8'')" "is_lower_hex (CHR ''a'')" "is_lower_hex (CHR ''7'')" "is_lower_hex (CHR ''9'')" "is_lower_hex (CHR ''b'')"
    by code_simp+
  ultimately show ?thesis
    by (simp add: permit_checks_def bridged_permit_fields money_checks_def near_leg_def far_leg_def vertical_width_def dec_sub_def aligned_def dfix_exact prec_def)
qed

lemma sample_builds:
  "\<exists>p. build_debit_vertical_permit const_hash sample_expression sample_input sample_direction sample_constants sample_clock (utc_at 1735689660000000) = Inr p"
proof -
  let ?pid = "''rd-permit-'' @ replicate 32 (CHR ''a'')"
  have pid: "debit_vertical_permit_id const_hash p = ?pid" for p
    by (simp add: debit_vertical_permit_id_def paper_execution_permit_id_def const_hash_def)
  have texts: "strip ''UNBOUND'' \<noteq> []" "strip ?pid \<noteq> []" by code_simp+
  have guards: "first_reject (build_guards const_hash sample_expression sample_input sample_direction sample_constants sample_clock (utc_at 1735689660000000)) = None"
    by (simp add: build_guards_def validate_strategy_lineage_def sample_direction_def sample_input_def sample_constants_def sample_expression_def
        bound_expression_def sample_bindings_def strategy_decision_sha256_def const_hash_def later_is_utc)
  have same: "same_leg l l" if "is_finite (leg_strike l)" for l using that by (simp add: same_leg_def)
  have legs: "is_finite (leg_strike near_leg)" "is_finite (leg_strike far_leg)" by (simp_all add: near_leg_def far_leg_def)
  have "first_reject (permit_binding_guards const_hash sample_expression sample_terms (bridged_permit ?pid) sample_constants) = None"
    using same [OF legs(1)] same [OF legs(2)]
    by (simp add: permit_binding_guards_def pid bridged_permit_fields sample_expression_def bound_expression_def sample_bindings_def sample_terms_def
        selected_terms_def sample_constants_def const_hash_def market_snapshot_sha256_def vertical_of_def sample_package_def maximum_loss_def
        CONTRACT_MULTIPLIER_def dfix_exact prec_def)
  moreover have "first_reject (active_guards (bridged_permit ?pid) (Some (utc_at 1735689600000000))) = None"
    by (simp add: active_guards_def bridged_permit_fields equals_utc_def)
  moreover have "permit_checks (bridged_permit ?pid) = None" by (rule bridged_permit_checks [OF texts(2)])
  ultimately show ?thesis
    unfolding build_debit_vertical_permit_def
    by (simp add: outcome_simps guards sample_terms_read pid bridged_permit_checks [OF texts(1)]
        validate_compiled_permit_def first_reject_append Let_def flip: bridged_permit_def)
qed

theorem bridged_permit_exact_witness:
  "\<exists>p. permit_ok p \<and> event_run_id p = ''ev-1'' \<and> (\<exists>x. expression_exposure sample_expression = Inr x \<and> dval (maximum_loss p) = dval x)"
proof -
  obtain p where p: "build_debit_vertical_permit const_hash sample_expression sample_input sample_direction sample_constants sample_clock
      (utc_at 1735689660000000) = Inr p"
    using sample_builds by blast
  have "ce_event_id sample_expression = ''ev-1''" by (simp add: sample_expression_def bound_expression_def)
  then show ?thesis using bridged_permit_exact [OF p] by auto
qed

section \<open>Its tournament\<close>

definition tournament_sample :: tournament_event where
  "tournament_sample = \<lparr>te_event_id = ''ev-1'', te_decision_direction = ''UP'', te_decision_sha256 = replicate 64 (CHR ''a''),
     te_outcome_direction = Some ''UP'', te_snapshot = sample_market, te_exit_clock_at = utc_at 1735776000000000\<rparr>"

definition sample_rows :: "expression_economics list" where
  "sample_rows =
     [cash_economics ''ev-1'', compared_economics ''ev-1'' SHARES (Fin 10000 (-2)) (Fin 10000 (-2)) (Fin 10 (-2)),
      compared_economics ''ev-1'' ONE_LONG_OPTION (Fin 32000 (-2)) (Fin 32000 (-2)) (Fin 2000 (-2)),
      compared_economics ''ev-1'' DEBIT_VERTICAL (Fin 20000 (-2)) (Fin 20000 (-2)) (Fin 1000 (-2))]"

lemmas amount_defs = CONTRACT_MULTIPLIER_def dfix_exact prec_def dec_min_def dec_lt_def dec_sub_def spread_def

lemma sample_shares_row: "strict_shares_economics tournament_sample sample_promoted = sample_rows ! 1"
proof -
  have "first_reject (shares_guards True sample_market sample_promoted) = None"
    by (simp add: shares_guards_def guard_defs sample_market_def sample_promoted_def sample_quote_def dec_lt_def)
  then show ?thesis
    by (simp add: strict_shares_economics_def tournament_sample_def shares_economics_def check_quote_quality_def sample_market_def sample_promoted_def
        sample_quote_def guard_defs amount_defs sample_rows_def Let_def)
qed

lemma sample_option_row: "option_economics ''ev-1'' near_call sample_promoted = sample_rows ! 2"
  by (simp add: option_economics_def check_quote_quality_def sample_promoted_def call_defs guard_defs amount_defs sample_rows_def Let_def)

lemma sample_vertical_row: "debit_vertical_economics ''ev-1'' sample_package (vg_width sample_geometry) sample_promoted = sample_rows ! 3"
  by (simp add: debit_vertical_economics_def sample_package_def sample_geometry_def sample_promoted_def guard_defs amount_defs sample_rows_def Let_def)

lemma sample_economics: "event_economics tournament_sample sample_promoted = Inr sample_rows"
proof -
  have fields: "te_decision_direction tournament_sample = ''UP''" "te_snapshot tournament_sample = sample_market" "te_event_id tournament_sample = ''ev-1''"
    "ms_observation_clock_at sample_market = sample_clock" "direction_value (sd_direction sample_direction) = ''UP''"
    "sd_direction sample_direction = UP" "vg_long_leg sample_geometry = near_call"
    by (simp_all add: tournament_sample_def sample_market_def sample_direction_def sample_geometry_def)
  have vert: "tournament_vertical tournament_sample sample_promoted = Inr (sample_rows ! 3)"
    by (simp add: tournament_vertical_def fields Let_def outcome_simps sample_selected sample_guards_pass sample_package_selected sample_vertical_row)
  have "first_reject (option_guards near_call ''vertical.AAPL250117C00100000'' sample_market sample_promoted) = None"
    using sample_guards_pass(1) by (auto simp: vertical_guards_def first_reject_append fields call_defs split: option.splits)
  then have "first_reject (option_guards near_call (''option.'' @ oc_symbol near_call) sample_market sample_promoted) = None"
    using guards_path by blast
  then have opt: "tournament_contract tournament_sample sample_promoted = Inr near_call"
    using select_vertical_geometry_Inr(1) [OF sample_selected]
    by (simp add: tournament_contract_def fields Let_def outcome_simps)
  show ?thesis
    by (simp add: event_economics_def fields opt vert sample_shares_row sample_option_row Let_def) (simp add: sample_rows_def)
qed

lemma tournament_sample_fields:
  "te_snapshot tournament_sample = sample_market" "te_event_id tournament_sample = sd_event_id sample_direction"
  "te_decision_direction tournament_sample = direction_value (sd_direction sample_direction)" "1 \<le> xp_min_dte sample_promoted"
  "xp_expression_kind sample_promoted = DEBIT_VERTICAL" "\<forall>x. length (const_hash x) = 64"
  by (simp_all add: tournament_sample_def sample_direction_def sample_promoted_def const_hash_def)

lemma sample_compiler_only: "compiler_only True sample_market sample_promoted"
  by (rule compiler_only_met(2) [OF sample_chain_builds tournament_sample_fields(4) _ tournament_sample_fields(5), of _ sample_geometry])
    (simp add: sample_market_def sample_selected [unfolded sample_market_def])

theorem tournament_agrees_with_compiler_witness:
  "(\<exists>c. sample_compile = Inr c) \<and> (\<exists>row \<in> set sample_rows. ee_expression_kind row = DEBIT_VERTICAL \<and> compared row)"
proof -
  have ok: "tournament_event_checks tournament_sample = None" by code_simp
  have up: "(sd_direction sample_direction = UP) = True" by (simp add: sample_direction_def)
  have row: "\<exists>row \<in> set sample_rows. ee_expression_kind row = DEBIT_VERTICAL \<and> compared row"
    by (simp add: sample_rows_def compared_economics_def compared_def cash_economics_def)
  from tournament_agrees_with_compiler [OF sample_economics ok tournament_sample_fields(1-3) sample_promoted_ok tournament_sample_fields(6)]
  show ?thesis using row sample_compile_guards sample_compiler_only unfolding sample_compile_def tournament_sample_fields(5) up by blast
qed

lemma sample_quotients:
  "dec_div (Fin 10 (-2)) (Fin 10000 (-2)) = Some (Fin 1 (-3))" "dec_div (Fin 2000 (-2)) (Fin 32000 (-2)) = Some (Fin 625 (-4))"
  "dec_div (Fin 1000 (-2)) (Fin 20000 (-2)) = Some (Fin 5 (-2))" "dec_div (Fin 1 (-3)) (Fin 1 0) = Some (Fin 1 (-3))"
  "dec_div (Fin 625 (-4)) (Fin 1 0) = Some (Fin 625 (-4))" "dec_div (Fin 5 (-2)) (Fin 1 0) = Some (Fin 5 (-2))"
  "dec_div (Fin 1 0) (Fin 1 0) = Some (Fin 1 0)"
  by (simp_all add: ndigits.simps prec_def Let_def strip_zeros_numeral dfix_exact)

definition sample_edge :: "expression_kind \<Rightarrow> dec" where
  "sample_edge k = (case k of SHARES \<Rightarrow> Fin 4990000 (-3) | ONE_LONG_OPTION \<Rightarrow> Fin 43750000 (-4) | _ \<Rightarrow> Fin 450000 (-2))"

lemma sample_summary_edges:
  assumes "k \<in> set PROMOTABLE"
  shows "es_after_cost_edge_bps (summarize [tournament_sample] [(''ev-1'', sample_rows)] k) = Some (dec_str (sample_edge k))"
    "es_events_compared (summarize [tournament_sample] [(''ev-1'', sample_rows)] k) = 1"
  using assms
  by (auto simp: PROMOTABLE_def summarize_def kind_rows_def table_rows_def tournament_sample_def sample_rows_def cash_economics_def
      after_cost_edge_basis_points_def entry_drags_def quotient_def direction_hit_row_def dec_sum_def dec_of_int_def sample_quotients
      compared_economics_def compared_def sample_edge_def aligned_def dec_lt_def dec_sub_def dfix_exact prec_def Let_def simp del: dec_div.simps)

lemma sample_screen:
  assumes "k \<in> set PROMOTABLE"
  shows "screen_summary (summarize [tournament_sample] [(''ev-1'', sample_rows)] k) sample_promoted = Inr (Qualified (sample_edge k))"
proof -
  have "dec_parse (dec_str (sample_edge k)) = Some (sample_edge k)"
    by (rule dec_parse_str) (simp add: sample_edge_def split: expression_kind.splits)
  then show ?thesis using assms
    by (auto simp: screen_summary_def sample_summary_edges sample_promoted_def PROMOTABLE_def sample_edge_def dec_lt_def aligned_def)
qed

lemma sample_promote: "promote (summarize [tournament_sample] [(''ev-1'', sample_rows)]) sample_promoted = Inr (Some SHARES, [])"
  by (simp add: promote_def PROMOTABLE_def sample_screen [unfolded PROMOTABLE_def] promotion_key_def sample_edge_def dfix_exact prec_def
      power_int_minus less_eq_prod_def less_prod_def)

theorem gate_d_promotion_sound_witness:
  "\<exists>r. run_gate_d_tournament const_hash ''gate-1'' sample_promoted (promoted_policy_sha256 const_hash sample_promoted) [tournament_sample] sample_clock = Inr r
     \<and> gr_promoted r = Some SHARES \<and> (\<forall>s \<in> set (gr_summaries r). es_events_compared s + es_events_rejected s = 1)"
proof -
  have parts: "compare_events sample_promoted [tournament_sample] = Inr [(tournament_sample, sample_rows)]"
    "economics_table [(tournament_sample, sample_rows)] = [(''ev-1'', sample_rows)]" "option_history [(''ev-1'', sample_rows)] = (''AVAILABLE'', [])"
    by (simp add: compare_events_def sample_economics, simp add: economics_table_def tournament_sample_def,
        simp add: option_history_def sample_rows_def)
  have "\<exists>r. run_gate_d_tournament const_hash ''gate-1'' sample_promoted (promoted_policy_sha256 const_hash sample_promoted) [tournament_sample] sample_clock = Inr r
      \<and> gr_promoted r = Some SHARES"
    by (simp add: run_gate_d_tournament_def tournament_guards_def outcome_simps parts sample_promote gate_d_report_checks_def
        promoted_policy_sha256_def const_hash_def sorted_unique_def Let_def)
  then show ?thesis using gate_d_promotion_sound [OF _ sample_promoted_ok] by fastforce
qed

end
