(* ===== verification/Spec2Isabelle.thy ===== *)
theory Spec2Isabelle
  imports Lifecycle_States Permit_Payoff Trade_Passport Ledger_Witnesses Opportunity Kernel_Witnesses Worker_Witnesses Expression_Witnesses
begin

text \<open>
  \<^bold>\<open>Verification of the execution core of the Esscher paper-trading system\<close>

  Esscher turns one validated directional decision about a security into at most one small
  defined-risk paper trade and sees it to a flat end. The Python sources are under
  \<open>src/src/esscher\<close>. This development models the part that has authority over money: what may be
  expressed, what may be authorized, what may be sent to the broker, and what is written down.

  \<^bold>\<open>The parts and how they interact.\<close>
  A strategy decision (\<open>strategy/models.py\<close>) and a market snapshot go to the expression compiler
  (\<open>execution/expression/\<close>), which emits one compiled expression under a policy that the Gate D
  tournament promoted. The permit bridge (\<open>contracts/compiled_to_permit.py\<close>) turns a compiled debit
  vertical into an opening permit (\<open>execution/models.py\<close>). The risk kernel (\<open>risk/kernel.py\<close>) reads
  account, position and order truth, checks the risk policy (\<open>risk/policy.py\<close>) and its control state
  (\<open>risk/controls.py\<close>), sizes with the allocator (\<open>autonomy/universe.py\<close>) and reserves exposure in
  the ledger (\<open>risk/ledger.py\<close>), where every change is also an event of a hash-chained passport
  (\<open>risk/passport.py\<close>). The lifecycle worker (\<open>lifecycle/worker.py\<close>) takes the authorized permit,
  records a durable intent, submits the order through the broker protocol (\<open>lifecycle/broker.py\<close>),
  reduces fresh broker truth to a lifecycle state (\<open>lifecycle/states.py\<close>, \<open>lifecycle/reducer.py\<close>) and
  settles the reservation in the same ledger; after a crash it recovers from the intents.

  \<^bold>\<open>Conventions.\<close> A dataclass is a record, its \<open>__post_init__\<close> a list of guards tested in order; an
  enumeration is a datatype. A function that may raise returns a sum, \<open>Inl\<close> the error and \<open>Inr\<close> the
  value; an operation that also changes state is a function from the state to the pair of such a
  result and the new state. Exceptions keep their reason code and path, their prose is dropped.
  \<open>Prelude\<close> has the combinators (\<open>first_reject\<close>, \<open>guarded\<close>, \<open>rbind\<close>, \<open>rmap_list\<close>, \<open>transaction\<close>,
  \<open>obind\<close> and others) with their inversion rules in \<open>outcome_simps\<close>, Python's text and datetime
  functions, and lemmas on rows of a table.

  \<^bold>\<open>Parameters.\<close> SHA-256 is an argument \<open>H\<close> of everything that hashes; no property assumes it
  injective. Tamper evidence and the binding of identities are stated up to a collision that is exhibited among the very texts that
  were hashed, never up to the mere existence of one. The truth source of the kernel and
  the broker of the worker are records of operations that may answer anything or raise; the clock of
  the worker is a sequence of readings, and freshness is always stated at the reading that the call took for that check; packaged policy resources are arguments. Every one of them is
  instantiated by concrete functions in the witnesses.

  \<^bold>\<open>The theories.\<close>
  \<^item> \<open>Decimals\<close>, \<open>Decimal_Text\<close>, \<open>Decimal_Rounding\<close>, \<open>Decimal_Normal\<close>, \<open>Plain_Decimal\<close>: Python's
    \<open>decimal.Decimal\<close> in the default context of 28 digits with round-half-even: arithmetic, order,
    printing and parsing. Printing reads back, rounding never crosses a representable bound, normal
    forms and plain texts are unique. The sign of zero, signals other than the ones the sources can
    meet, and the limits of the exponent are not modelled.
  \<^item> \<open>Canonical_Json\<close>: \<open>canonical_json_bytes\<close> (\<open>strategy/contracts.py\<close>) with the writer and the reader of
    the \<open>json\<close> module on texts without floating-point numbers; the reader inverts the writer.
  \<^item> \<open>Controls\<close> (\<open>risk/reasons.py\<close>, \<open>risk/controls.py\<close>) and \<open>Lifecycle_States\<close> (\<open>lifecycle/reasons.py\<close>,
    \<open>lifecycle/states.py\<close>, \<open>lifecycle/reducer.py\<close>): the two state machines as tables and step
    relations, with the traces that reach their important states.
  \<^item> \<open>Permits\<close> (\<open>execution/models.py\<close>, the identity of \<open>contracts/execution_policy.py\<close>), \<open>Snapshots\<close>
    (\<open>risk/snapshots.py\<close>), \<open>Exposure\<close> (\<open>risk/exposure.py\<close> and the value class of compiled expressions),
    \<open>Policy\<close> (\<open>risk/policy.py\<close>, both versions with their strict readers). \<open>Permit_Payoff\<close> writes out the profit and loss
    of a permit's two legs at settlement and shows that \<open>maximum_loss\<close> is the worst of it.
  \<^item> \<open>Passport\<close> (\<open>risk/passport.py\<close>) and \<open>Trade_Passport\<close> (\<open>passport/chain.py\<close>): hash chains. A locale for
    linked entries is interpreted on both.
  \<^item> \<open>Ledger_Tables\<close>, \<open>Ledger\<close> (\<open>risk/ledger.py\<close>): the SQLite tables as lists of rows with their keys,
    and every method that reads or writes them, each inside its transaction. The rollback of a failed transaction is
    SQLite's and is built into the combinator \<open>transaction\<close>. \<open>Ledger_Invariant\<close> has the
    invariant and that every method keeps it; \<open>Ledger_Properties\<close> has the
    properties of runs of arbitrary commands; \<open>Ledger_Witnesses\<close> runs a concrete ledger.
  \<^item> \<open>Universe\<close>, \<open>Allocation\<close>, \<open>Opportunity\<close> (\<open>autonomy/universe.py\<close>): the scan, the allocator and the
    strict reader of opportunities.
  \<^item> \<open>Kernel\<close> (\<open>risk/kernel.py\<close>): every method of \<open>RiskKernel\<close>. \<open>Desk\<close> is the abstract specification, a
    desk with a control state and reservations and five kinds of action; \<open>Kernel_Refinement\<close> shows that every
    method moves along a path of the desk; \<open>Kernel_Properties\<close> and \<open>Kernel_Witnesses\<close> have what an
    approval implies, on what proof exposure is released, what a failure leaves behind (the kernel loses its authority on bad truth, except
    for a bare \<open>ValueError\<close> of a truth source in version 1, which passes through), and concrete runs of both versions.
  \<^item> \<open>Lifecycle_Identity\<close> (\<open>lifecycle/clocks.py\<close>, \<open>lifecycle/correlation.py\<close>), \<open>Broker\<close>
    (\<open>lifecycle/broker.py\<close> with the scripted fake broker) and \<open>Worker\<close> (\<open>lifecycle/worker.py\<close>).
    \<open>Worker_Checks\<close>, \<open>Intent_Journal\<close> and \<open>Worker_Journal\<close> show that every order the broker ever received
    has its durable intent, for any broker and any interleaving; \<open>Worker_Truth\<close> and \<open>Worker_Properties\<close>
    that reservations settle only on bound truth that is fresh at the reading of the clock that checked it; \<open>Worker_Recovery\<close> and \<open>Worker_Restart\<close> that
    recovery only reads and restores the submitted request; \<open>Worker_Liveness\<close>, \<open>Worker_Completion\<close> and
    \<open>Worker_Lifecycle_Run\<close> that a lifecycle completes: the locale \<open>answering\<close> states what the worker needs
    of a broker, and the fake broker interprets it, plain and traced. \<open>Worker_Witnesses\<close> is a concrete
    lifecycle.
  \<^item> \<open>Strategy_Decision\<close> (\<open>StrategyDecision\<close> with its canonical bytes), \<open>Expression_Market\<close>
    (\<open>observations.py\<close>, \<open>reasons.py\<close>), \<open>Expression_Validation\<close> (\<open>policy.py\<close>, \<open>validation.py\<close>),
    \<open>Expression_Policy_Text\<close> (the strict reader of \<open>policy.py\<close>, exact on the canonical bytes),
    \<open>Expression_Selection\<close> (\<open>geometry.py\<close>, \<open>economics.py\<close>), \<open>Expression_Compiler\<close> (\<open>compiler.py\<close>), \<open>Gate_D\<close>
    (\<open>tournament.py\<close>) and \<open>Permit_Bridge\<close> (\<open>contracts/compiled_to_permit.py\<close>). \<open>Compiler_Properties\<close>,
    \<open>Bridge_Properties\<close> and \<open>Gate_D_Properties\<close> show that what compiles is within the budget, that the
    bridge reads exactly the selected package, that the tournament agrees with the compiler up to what only the compiler asks, and that a
    promotion is the best qualifying expression; \<open>Expression_Witnesses\<close> is a concrete market.
  \<^item> This theory joins the two halves: the permit of a compiled vertical is one the kernel accepts.

  \<^bold>\<open>Interfaces.\<close> The laws that proofs share are locales, interpreted on the definitions of the model:
  \<open>authority_machine\<close> (a machine whose authority is regained only by named triggers and lost for good in
  absorbing states) on the control and the lifecycle table; \<open>hash_chain\<close> on both passports;
  \<open>transactional_machine\<close> (commands that keep an invariant or leave the state alone) on the ledger;
  \<open>stepping\<close> with its extensions \<open>tripping\<close>, \<open>vetting\<close> and \<open>reading\<close> (a relation kept by sequencing, by a
  control trip, by a check, by a read of the broker) on the refinement, on what a failed kernel call keeps
  and on the relations of the worker; \<open>settling\<close> on the opening and the closing proof; \<open>answering\<close> on the
  fake broker.

  \<^bold>\<open>Termination and bounds.\<close> Every definition is total: the loops of the sources are folds over finite
  lists or recursions with a proved measure. The reader of JSON and the printers of decimals carry a
  fuel that is the length of the text or the number of digits, and their inversion lemmas show it is
  enough. Integers are Python's unbounded ones. Instants are microseconds; comparisons of two naive
  or mixed datetimes, which Python refuses, do not occur behind the guards.

  \<^bold>\<open>Not modelled.\<close> The SQLite connection and its locking (a method is one atomic step, and so is an operation of the worker: it does not interleave with another
  between two awaits), the MCP
  transports to the external broker process, the reasoner and the rest of the strategy contracts (calls
  of a hosted model and the schemas of its answers), market data capture, offline research, panel and
  audit reports, the runtime hosts and command line, which call the modelled parts in order. Of modelled
  files: the readers of exit-plan clocks and of whole trade passports, and the execution policy document.
  Text is ASCII; case conversion and whitespace are those of ASCII.
\<close>

section \<open>From a compiled expression to the risk kernel\<close>

lemma selected_terms_match:
  assumes "build_option_leg (vg_long_leg g) BUY BUY_TO_OPEN = Inr long" "build_option_leg (vg_short_leg g) SELL SELL_TO_OPEN = Inr short"
    and "oc_underlying (vg_long_leg g) = ms_underlying m"
  shows "permit_terms_match (from_frozen_decision c si k issued expires (selected_terms up m p g long short) pid)
    (debit_vertical_block up m p width loss long short)"
proof -
  have "leg_underlying long = ms_underlying m" using assms(3) by (subst build_option_leg_Inr(3) [OF assms(1)]) simp
  then show ?thesis
    by (simp add: permit_terms_match_def from_frozen_decision_def selected_terms_def debit_vertical_block_def compiled_leg_payload_def
        block_get_def leg_field_def permit_underlying_def)
qed

text \<open>
  C15. Compiler, permit bridge and risk kernel agree on every term of a trade: the permit that the
  bridge builds from a compiled debit vertical passes the permit binding of the kernel under the
  registered risk policy at every instant of its life, so identity, timing, lineage, legs, price,
  quantity and maximum loss all match the compiled expression.
\<close>

theorem pipeline_permit_accepted:
  assumes "compile_expression H d bytes m pol psha gate now = Inr c" "xp_expression_kind pol = DEBIT_VERTICAL"
    "market_snapshot_ok m" "promoted_policy_checks pol = None"
    and built: "build_debit_vertical_permit H c si d k issued expires = Inr p"
    and live: "instant issued \<le> instant t" "instant t < instant expires"
  shows "validate_permit_binding H p c (pb_risk_policy_sha256 k) t = Inr ()"
proof -
  obtain g long short q b loss where c: "c = bound_expression DEBIT_VERTICAL (sd_event_id d) b now None None
      (Some (debit_vertical_block (sd_direction d = UP) m q (vg_width g) loss long short))"
    and terms: "vertical_terms c = Inr (selected_terms (sd_direction d = UP) m q g long short)"
    and risk: "defined_risk m pol (sd_direction d = UP) (vg_long_leg g) (vg_short_leg g) q"
    and legs: "build_option_leg (vg_long_leg g) BUY BUY_TO_OPEN = Inr long" "build_option_leg (vg_short_leg g) SELL SELL_TO_OPEN = Inr short"
    by (rule compiled_vertical_shape [OF assms(1-4)])
  obtain x where x: "vertical_terms c = Inr x" and p: "p = from_frozen_decision c si k issued expires x (permit_id p)"
    and bind: "first_reject (permit_binding_guards H c x p k) = None"
    using built by (rule build_Inr)
  have "vg_long_leg g \<in> set (ms_chain m)" using risk by (simp add: defined_risk_def Let_def)
  then have "oc_underlying (vg_long_leg g) = ms_underlying m" by (rule snapshot_chain_ok(5) [OF assms(3)])
  note match_any = selected_terms_match [OF legs this]
  have "x = selected_terms (sd_direction d = UP) m q g long short" using x terms by simp
  then have match: "permit_terms_match p (debit_vertical_block (sd_direction d = UP) m q (vg_width g) loss long short)"
    using match_any by (subst p) simp
  have times: "instant (issued_at p) = instant issued" "instant (expires_at p) = instant expires"
    by (subst p, simp add: from_frozen_decision_def)+
  have block: "expression_kind c = DEBIT_VERTICAL"
    "debit_vertical c = Some (debit_vertical_block (sd_direction d = UP) m q (vg_width g) loss long short)"
    by (simp_all add: c bound_expression_def)
  show ?thesis
    using bind live match vertical_terms_exposure(1) [OF x]
    by (simp add: validate_permit_binding_def permit_binding_guards_def guarded_def block times block_is_object)
qed

theorem pipeline_permit_accepted_witness:
  "\<exists>p. build_debit_vertical_permit const_hash sample_expression sample_input sample_direction sample_constants sample_clock
       (utc_at 1735689660000000) = Inr p
     \<and> validate_permit_binding const_hash p sample_expression (replicate 64 (CHR ''8'')) (utc_at 1735689601000000) = Inr ()"
proof -
  obtain p where p: "build_debit_vertical_permit const_hash sample_expression sample_input sample_direction sample_constants sample_clock
      (utc_at 1735689660000000) = Inr p"
    using sample_builds by blast
  have "pb_risk_policy_sha256 sample_constants = replicate 64 (CHR ''8'')" by (simp add: sample_constants_def)
  then show ?thesis
    using p pipeline_permit_accepted [OF sample_compiles [unfolded sample_compile_def] tournament_sample_fields(5) sample_market_ok sample_promoted_ok p,
        of "utc_at 1735689601000000"]
    by simp
qed

end
